(* ===== verification/Kn_Prelude.thy ===== *)
theory Kn_Prelude
  imports Complex_Main
begin

text \<open>
  Shared vocabulary of the development: HTTP errors as values, the JavaScript string and number
  primitives the sources use, the array and table operations the components share, and the two
  generic interfaces of the library (a component with an inductive invariant, and a comparator
  used for sorting).

  Strings are lists of characters, one character per UTF-16 code unit in the range 0 to 255.
  Instants are integers: milliseconds since the epoch, as \<open>Date.now()\<close> returns them.
  Messages written in Chinese in the sources are given by a short English text, since only which
  error is raised matters here; English messages are verbatim.
\<close>

named_theorems kn_defs \<open>definitions of small guards and projections, unfolded together\<close>
named_theorems kn_frame \<open>facts of the form: this operation leaves that part unchanged\<close>

type_synonym time = int

section \<open>Errors and results\<close>

datatype http_error =
    BadRequest string
  | Unauthorized string
  | Forbidden string
  | NotFound string
  | Conflict string
  | TooMany int
  | Unavailable string
  | Internal string

type_synonym 'a res = "http_error + 'a"

definition guard :: "bool \<Rightarrow> 'e \<Rightarrow> 'e + unit" where
  "guard ok e = (if ok then Inr () else Inl e)"

fun rbind :: "'e + 'a \<Rightarrow> ('a \<Rightarrow> 'e + 'b) \<Rightarrow> 'e + 'b" where
  "rbind (Inl e) f = Inl e"
| "rbind (Inr a) f = f a"

lemma rbind_Inr_iff: "rbind m f = Inr b \<longleftrightarrow> (\<exists>a. m = Inr a \<and> f a = Inr b)"
  by (cases m) auto

lemma rbind_Inl_iff: "rbind m f = Inl e \<longleftrightarrow> m = Inl e \<or> (\<exists>a. m = Inr a \<and> f a = Inl e)"
  by (cases m) auto

lemma guard_Inr_iff: "guard ok e = Inr u \<longleftrightarrow> ok"
  by (auto simp: guard_def)

lemma guard_Inl_iff: "guard ok e = Inl e' \<longleftrightarrow> \<not> ok \<and> e' = e"
  by (auto simp: guard_def)

lemma guard_True [simp]: "guard True e = Inr ()"
  by (simp add: guard_def)

lemma guard_False [simp]: "guard False e = Inl e"
  by (simp add: guard_def)

text \<open>A run of checks, each with the message of the bad request it raises; the first that fails decides.\<close>

fun checks_run :: "(bool \<times> string) list \<Rightarrow> unit res" where
  "checks_run [] = Inr ()"
| "checks_run ((ok, m) # rest) = (if ok then checks_run rest else Inl (BadRequest m))"

lemma checks_run_Inr: "checks_run cs = Inr u \<longleftrightarrow> list_all id (map fst cs)"
  by (induction cs rule: checks_run.induct) auto

lemma checks_run_Inl: "checks_run cs = Inl e \<Longrightarrow> \<exists>m. e = BadRequest m \<and> (False, m) \<in> set cs"
  by (induction cs rule: checks_run.induct) (auto split: if_splits)

lemmas result_iffs = rbind_Inr_iff rbind_Inl_iff guard_Inr_iff guard_Inl_iff

section \<open>Strings\<close>

text \<open>The characters \<open>String.prototype.trim\<close> removes, in the range of the model.\<close>

definition js_ws :: "char \<Rightarrow> bool" where
  "js_ws c \<longleftrightarrow> (let n = (of_char c :: nat) in n = 9 \<or> n = 10 \<or> n = 11 \<or> n = 12 \<or> n = 13 \<or> n = 32 \<or> n = 160)"

definition js_trim :: "string \<Rightarrow> string" where
  "js_trim s = rev (dropWhile js_ws (rev (dropWhile js_ws s)))"

definition js_lower_char :: "char \<Rightarrow> char" where
  "js_lower_char c = (let n = (of_char c :: nat) in
     if (65 \<le> n \<and> n \<le> 90) \<or> (192 \<le> n \<and> n \<le> 222 \<and> n \<noteq> 215) then char_of (n + 32) else c)"

definition js_lower :: "string \<Rightarrow> string" where
  "js_lower s = map js_lower_char s"

definition starts_with :: "string \<Rightarrow> string \<Rightarrow> bool" where
  "starts_with p s \<longleftrightarrow> take (length p) s = p"

text \<open>\<open>s.includes(p)\<close>.\<close>

fun js_includes :: "string \<Rightarrow> string \<Rightarrow> bool" where
  "js_includes p [] \<longleftrightarrow> p = []"
| "js_includes p (c # s) \<longleftrightarrow> starts_with p (c # s) \<or> js_includes p s"

text \<open>\<open>s.split(sep)\<close> for a one-character separator: always at least one part.\<close>

fun js_split :: "char \<Rightarrow> string \<Rightarrow> string list" where
  "js_split d [] = [[]]"
| "js_split d (c # s) =
     (if c = d then [] # js_split d s
      else case js_split d s of [] \<Rightarrow> [[c]] | p # ps \<Rightarrow> (c # p) # ps)"

definition is_digit :: "char \<Rightarrow> bool" where
  "is_digit c \<longleftrightarrow> (let n = (of_char c :: nat) in 48 \<le> n \<and> n \<le> 57)"

definition is_lower_hex :: "char \<Rightarrow> bool" where
  "is_lower_hex c \<longleftrightarrow> (let n = (of_char c :: nat) in (48 \<le> n \<and> n \<le> 57) \<or> (97 \<le> n \<and> n \<le> 102))"

definition is_hex :: "char \<Rightarrow> bool" where
  "is_hex c \<longleftrightarrow> is_lower_hex c \<or> (let n = (of_char c :: nat) in 65 \<le> n \<and> n \<le> 70)"

text \<open>The class \<open>[A-Za-z0-9_-]\<close> of base64url.\<close>

definition is_b64url :: "char \<Rightarrow> bool" where
  "is_b64url c \<longleftrightarrow> (let n = (of_char c :: nat) in
     (48 \<le> n \<and> n \<le> 57) \<or> (65 \<le> n \<and> n \<le> 90) \<or> (97 \<le> n \<and> n \<le> 122) \<or> n = 95 \<or> n = 45)"

definition nonblank :: "string \<Rightarrow> bool" where
  "nonblank s \<longleftrightarrow> js_trim s \<noteq> []"

lemma js_trim_Nil [simp]: "js_trim [] = []"
  by (simp add: js_trim_def)

lemma set_js_trim: "set (js_trim s) \<subseteq> set s"
  by (auto simp: js_trim_def dest!: set_dropWhileD)

lemma js_trim_fixed: "(\<forall>c \<in> set s. \<not> js_ws c) \<Longrightarrow> js_trim s = s"
proof -
  assume a: "\<forall>c \<in> set s. \<not> js_ws c"
  have d: "dropWhile js_ws xs = xs" if "\<forall>c \<in> set xs. \<not> js_ws c" for xs
    using that by (cases xs) auto
  from a show ?thesis by (simp add: js_trim_def d)
qed

lemma js_split_nonempty: "js_split d s \<noteq> []"
  by (induction s) (auto split: list.splits)

lemma js_split_no_sep: "d \<notin> set s \<Longrightarrow> js_split d s = [s]"
  by (induction s) auto

lemma js_split_append: "d \<notin> set s \<Longrightarrow> js_split d (s @ d # t) = s # js_split d t"
  by (induction s) auto

lemma starts_with_append [simp]: "starts_with p (p @ s)"
  by (simp add: starts_with_def)

section \<open>Numbers\<close>

text \<open>A JavaScript number; every finite double is a rational.\<close>

datatype jsnum = NotANumber | Infinite bool | Fin rat

definition js_is_integer :: "jsnum \<Rightarrow> bool" where
  "js_is_integer v = (case v of Fin q \<Rightarrow> of_int \<lfloor>q\<rfloor> = q | _ \<Rightarrow> False)"

definition max_safe :: int where "max_safe = 9007199254740991"

definition safe_int :: "int \<Rightarrow> bool" where
  "safe_int n \<longleftrightarrow> \<bar>n\<bar> \<le> max_safe"

definition js_is_safe_integer :: "jsnum \<Rightarrow> bool" where
  "js_is_safe_integer v = (case v of Fin q \<Rightarrow> of_int \<lfloor>q\<rfloor> = q \<and> safe_int \<lfloor>q\<rfloor> | _ \<Rightarrow> False)"

text \<open>The value of a number already known to be an integer.\<close>

definition int_of_num :: "jsnum \<Rightarrow> int" where
  "int_of_num v = (case v of Fin q \<Rightarrow> \<lfloor>q\<rfloor> | _ \<Rightarrow> 0)"

definition num :: "int \<Rightarrow> jsnum" where "num n = Fin (of_int n)"

lemma js_is_integer_num [simp]: "js_is_integer (num n)"
  by (simp add: js_is_integer_def num_def)

lemma int_of_num_num [simp]: "int_of_num (num n) = n"
  by (simp add: int_of_num_def num_def)

lemma js_is_safe_integer_num [simp]: "js_is_safe_integer (num n) \<longleftrightarrow> safe_int n"
  by (simp add: js_is_safe_integer_def num_def)

text \<open>The decimal text of a natural number, as string interpolation writes it.\<close>

fun show_nat :: "nat \<Rightarrow> string" where
  "show_nat n = (if n < 10 then [char_of (48 + n)] else show_nat (n div 10) @ [char_of (48 + n mod 10)])"

declare show_nat.simps [simp del]

section \<open>Grouping and counting\<close>

text \<open>
  A \<open>Map\<close> from keys to groups, filled with \<open>get(key) ?? { header, members: [] }\<close>, a push and a set:
  keys keep the order of their first insertion.
\<close>

fun group_into :: "'k \<Rightarrow> 'h \<Rightarrow> 'a \<Rightarrow> ('k \<times> 'h \<times> 'a list) list \<Rightarrow> ('k \<times> 'h \<times> 'a list) list" where
  "group_into k h x [] = [(k, h, [x])]"
| "group_into k h x ((k', h', xs) # gs) =
     (if k' = k then (k', h', xs @ [x]) # gs else (k', h', xs) # group_into k h x gs)"

definition group_by :: "('a \<Rightarrow> 'k \<times> 'h) \<Rightarrow> 'a list \<Rightarrow> ('k \<times> 'h \<times> 'a list) list" where
  "group_by f xs = foldl (\<lambda>gs x. group_into (fst (f x)) (snd (f x)) x gs) [] xs"

text \<open>Counting into a record of counters.\<close>

fun count_into :: "'k \<Rightarrow> ('k \<times> nat) list \<Rightarrow> ('k \<times> nat) list" where
  "count_into k [] = [(k, 1)]"
| "count_into k ((k', n) # cs) = (if k' = k then (k', n + 1) # cs else (k', n) # count_into k cs)"

definition count_by :: "('a \<Rightarrow> 'k) \<Rightarrow> 'a list \<Rightarrow> ('k \<times> nat) list" where
  "count_by f xs = foldl (\<lambda>cs x. count_into (f x) cs) [] xs"

text \<open>\<open>[...new Set(xs)]\<close>: the first occurrence of each element.\<close>

definition js_unique :: "'a list \<Rightarrow> 'a list" where
  "js_unique xs = rev (remdups (rev xs))"

definition group_size :: "('k \<times> 'h \<times> 'a list) list \<Rightarrow> nat" where
  "group_size gs = sum_list (map (\<lambda>(k, h, xs). length xs) gs)"

lemma group_into_size: "group_size (group_into k h x gs) = group_size gs + 1"
  by (induction gs rule: group_into.induct [of _ k h x]) (auto simp: group_size_def)

lemma group_by_size: "group_size (group_by f xs) = length xs"
proof -
  have "group_size (foldl (\<lambda>gs x. group_into (fst (f x)) (snd (f x)) x gs) gs xs) = group_size gs + length xs" for gs
    by (induction xs arbitrary: gs) (simp_all add: group_into_size)
  then show ?thesis by (simp add: group_by_def) (simp add: group_size_def)
qed

lemma group_into_members: "(k', h', ys) \<in> set (group_into k h x gs) \<Longrightarrow> ys \<noteq> [] \<or> (\<exists>h''. (k', h'', []) \<in> set gs)"
  by (induction gs rule: group_into.induct [of _ k h x]) (auto split: if_splits)

lemma set_group_into: "(\<Union>g \<in> set (group_into k h x gs). set (snd (snd g))) = insert x (\<Union>g \<in> set gs. set (snd (snd g)))"
  by (induction gs rule: group_into.induct [of _ k h x]) auto

lemma set_group_by: "(\<Union>g \<in> set (group_by f xs). set (snd (snd g))) = set xs"
proof -
  have "(\<Union>g \<in> set (foldl (\<lambda>gs x. group_into (fst (f x)) (snd (f x)) x gs) gs xs). set (snd (snd g)))
      = (\<Union>g \<in> set gs. set (snd (snd g))) \<union> set xs" for gs
    by (induction xs arbitrary: gs) (simp_all add: set_group_into)
  then show ?thesis by (simp add: group_by_def)
qed

lemma group_by_nonempty: "g \<in> set (group_by f xs) \<Longrightarrow> snd (snd g) \<noteq> []"
proof -
  have "(\<forall>g \<in> set gs. snd (snd g) \<noteq> []) \<Longrightarrow>
      \<forall>g \<in> set (foldl (\<lambda>gs x. group_into (fst (f x)) (snd (f x)) x gs) gs xs). snd (snd g) \<noteq> []" for gs
  proof (induction xs arbitrary: gs)
    case (Cons x xs)
    have "\<forall>g \<in> set (group_into (fst (f x)) (snd (f x)) x gs). snd (snd g) \<noteq> []"
      using Cons.prems group_into_members [of _ _ "[]"] by fastforce
    then show ?case using Cons.IH by simp
  qed simp
  from this [of "[]"] show "g \<in> set (group_by f xs) \<Longrightarrow> snd (snd g) \<noteq> []" unfolding group_by_def by simp
qed

text \<open>Elements that share their key end up in one group.\<close>

lemma group_by_one_key:
  assumes "\<And>x. x \<in> set xs \<Longrightarrow> fst (f x) = k"
  shows "length (group_by f xs) \<le> 1"
proof -
  have "length gs \<le> 1 \<Longrightarrow> (\<forall>g \<in> set gs. fst g = k) \<Longrightarrow> (\<And>x. x \<in> set xs \<Longrightarrow> fst (f x) = k) \<Longrightarrow>
      length (foldl (\<lambda>gs x. group_into (fst (f x)) (snd (f x)) x gs) gs xs) \<le> 1" for gs
  proof (induction xs arbitrary: gs)
    case (Cons x xs)
    have "length (group_into (fst (f x)) (snd (f x)) x gs) \<le> 1"
      "\<forall>g \<in> set (group_into (fst (f x)) (snd (f x)) x gs). fst g = k"
      using Cons.prems by (cases gs; auto)+
    then show ?case using Cons.IH Cons.prems(3) by simp
  qed simp
  then show ?thesis using assms by (simp add: group_by_def)
qed

lemma set_js_unique [simp]: "set (js_unique xs) = set xs"
  by (simp add: js_unique_def)

lemma distinct_js_unique [simp]: "distinct (js_unique xs)"
  by (simp add: js_unique_def)

section \<open>Tables\<close>

text \<open>
  A database table is the list of its rows in insertion order. The where, data and orderBy clauses
  are written in the sources and translated clause by clause; the operations below are what the
  clauses are handed to: \<open>updateMany\<close> (the number of rows changed and the new table),
  \<open>findFirst\<close> and \<open>findFirst\<close> with an ascending or descending order. Each of them is one atomic
  statement of the database.
\<close>

definition update_many :: "('r \<Rightarrow> bool) \<Rightarrow> ('r \<Rightarrow> 'r) \<Rightarrow> 'r list \<Rightarrow> nat \<times> 'r list" where
  "update_many p f t = (length (filter p t), map (\<lambda>r. if p r then f r else r) t)"

fun first_min :: "('r \<Rightarrow> int) \<Rightarrow> 'r list \<Rightarrow> 'r option" where
  "first_min k [] = None"
| "first_min k (r # rs) =
     (case first_min k rs of None \<Rightarrow> Some r | Some q \<Rightarrow> if k r \<le> k q then Some r else Some q)"

definition find_asc :: "('r \<Rightarrow> bool) \<Rightarrow> ('r \<Rightarrow> int) \<Rightarrow> 'r list \<Rightarrow> 'r option" where
  "find_asc p k t = first_min k (filter p t)"

definition find_desc :: "('r \<Rightarrow> bool) \<Rightarrow> ('r \<Rightarrow> int) \<Rightarrow> 'r list \<Rightarrow> 'r option" where
  "find_desc p k t = first_min (\<lambda>r. - k r) (filter p t)"

lemma first_min_None [simp]: "first_min k t = None \<longleftrightarrow> t = []"
  by (cases t) (auto split: option.splits)

lemma first_min_mem: "first_min k t = Some r \<Longrightarrow> r \<in> set t"
  by (induction t arbitrary: r) (auto split: option.splits if_splits)

lemma first_min_le: "first_min k t = Some r \<Longrightarrow> q \<in> set t \<Longrightarrow> k r \<le> k q"
  by (induction t arbitrary: r q) (fastforce split: option.splits if_splits)+

lemma find_asc_Some: "find_asc p k t = Some r \<Longrightarrow> r \<in> set t \<and> p r"
  by (auto simp: find_asc_def dest: first_min_mem)

lemma find_asc_least: "find_asc p k t = Some r \<Longrightarrow> q \<in> set t \<Longrightarrow> p q \<Longrightarrow> k r \<le> k q"
  by (auto simp: find_asc_def intro: first_min_le)

lemma find_asc_None: "find_asc p k t = None \<longleftrightarrow> (\<forall>r \<in> set t. \<not> p r)"
  by (auto simp: find_asc_def filter_empty_conv)

lemma find_desc_Some: "find_desc p k t = Some r \<Longrightarrow> r \<in> set t \<and> p r"
  by (auto simp: find_desc_def dest: first_min_mem)

lemma find_desc_greatest: "find_desc p k t = Some r \<Longrightarrow> q \<in> set t \<Longrightarrow> p q \<Longrightarrow> k q \<le> k r"
  using first_min_le [of "\<lambda>r. - k r" "filter p t" r q] by (auto simp: find_desc_def)

lemma find_Some_mem: "find p t = Some r \<Longrightarrow> r \<in> set t \<and> p r"
  by (induction t) (auto split: if_splits)

lemma find_None_mem: "find p t = None \<Longrightarrow> r \<in> set t \<Longrightarrow> \<not> p r"
  by (auto simp: find_None_iff)

text \<open>Rows keep their keys under an update that does not write the key.\<close>

lemma update_many_keys:
  "(\<And>r. key (f r) = key r) \<Longrightarrow> map key (snd (update_many p f t)) = map key t"
  by (simp add: update_many_def)

lemma update_many_mem:
  "r \<in> set (snd (update_many p f t)) \<longleftrightarrow> (\<exists>q \<in> set t. r = (if p q then f q else q))"
  by (auto simp: update_many_def)

lemma update_many_zero: "fst (update_many p f t) = 0 \<Longrightarrow> snd (update_many p f t) = t"
  by (auto simp: update_many_def filter_empty_conv intro: map_idI)

lemma update_many_zero_iff: "fst (update_many p f t) = 0 \<longleftrightarrow> (\<forall>r \<in> set t. \<not> p r)"
  by (auto simp: update_many_def filter_empty_conv)

lemma pair_list_eqI: "map fst xs = map fst ys \<Longrightarrow> map snd xs = map snd ys \<Longrightarrow> xs = ys"
  by (simp add: list_eq_iff_nth_eq prod_eq_iff)

lemma distinct_key_unique:
  "distinct (map key t) \<Longrightarrow> r \<in> set t \<Longrightarrow> q \<in> set t \<Longrightarrow> key r = key q \<Longrightarrow> r = q"
  by (auto simp: distinct_map inj_on_def)

lemma find_key:
  "distinct (map key t) \<Longrightarrow> r \<in> set t \<Longrightarrow> find (\<lambda>q. key q = key r) t = Some r"
  by (induction t) auto

lemma find_fresh_append: "i \<notin> key ` set t \<Longrightarrow> key r = i \<Longrightarrow> find (\<lambda>q. key q = i) (t @ [r]) = Some r"
  by (induction t) auto

section \<open>Reachability and invariants\<close>

text \<open>States reachable from an initial one by any sequence of labelled steps.\<close>

inductive reach :: "('s \<Rightarrow> bool) \<Rightarrow> ('s \<Rightarrow> 'e \<Rightarrow> 's \<Rightarrow> bool) \<Rightarrow> 's \<Rightarrow> bool"
  for init :: "'s \<Rightarrow> bool" and step :: "'s \<Rightarrow> 'e \<Rightarrow> 's \<Rightarrow> bool" where
  reach_init: "init s \<Longrightarrow> reach init step s"
| reach_step: "reach init step s \<Longrightarrow> step s e t \<Longrightarrow> reach init step t"

text \<open>The interface of a component with an inductive invariant.\<close>

locale invariant_system =
  fixes init :: "'s \<Rightarrow> bool"
    and step :: "'s \<Rightarrow> 'e \<Rightarrow> 's \<Rightarrow> bool"
    and inv :: "'s \<Rightarrow> bool"
  assumes init_inv: "init s \<Longrightarrow> inv s"
    and step_inv: "inv s \<Longrightarrow> step s e t \<Longrightarrow> inv t"
begin

lemma reach_inv: "reach init step s \<Longrightarrow> inv s"
  by (induction rule: reach.induct) (auto intro: init_inv step_inv)

end

section \<open>Sorting with a comparator\<close>

text \<open>
  \<open>Array.prototype.sort\<close> with a comparator is a stable sort; for a comparator that is a total
  preorder its result is determined, and this insertion sort computes it.
\<close>

fun insert_cmp :: "('a \<Rightarrow> 'a \<Rightarrow> int) \<Rightarrow> 'a \<Rightarrow> 'a list \<Rightarrow> 'a list" where
  "insert_cmp cmp x [] = [x]"
| "insert_cmp cmp x (y # ys) = (if cmp x y \<le> 0 then x # y # ys else y # insert_cmp cmp x ys)"

definition js_sort :: "('a \<Rightarrow> 'a \<Rightarrow> int) \<Rightarrow> 'a list \<Rightarrow> 'a list" where
  "js_sort cmp xs = foldr (insert_cmp cmp) xs []"

lemma set_insert_cmp [simp]: "set (insert_cmp cmp x ys) = insert x (set ys)"
  by (induction ys) auto

lemma set_js_sort [simp]: "set (js_sort cmp xs) = set xs"
  by (induction xs) (auto simp: js_sort_def)

lemma length_insert_cmp [simp]: "length (insert_cmp cmp x ys) = Suc (length ys)"
  by (induction ys) auto

lemma length_js_sort [simp]: "length (js_sort cmp xs) = length xs"
  by (induction xs) (auto simp: js_sort_def)

lemma js_sort_Nil [simp]: "js_sort cmp [] = []"
  by (simp add: js_sort_def)

lemma js_sort_Nil_iff [simp]: "js_sort cmp xs = [] \<longleftrightarrow> xs = []"
  using length_js_sort [of cmp xs] by (metis length_0_conv)

lemma distinct_insert_cmp: "distinct (insert_cmp cmp x ys) \<longleftrightarrow> x \<notin> set ys \<and> distinct ys"
  by (induction ys) auto

lemma distinct_js_sort [simp]: "distinct (js_sort cmp xs) = distinct xs"
proof (induction xs)
  case (Cons x xs)
  then show ?case
    using set_js_sort [of cmp xs] by (simp add: js_sort_def distinct_insert_cmp)
qed simp

text \<open>The contract of a comparator: it is a total preorder.\<close>

locale comparator =
  fixes cmp :: "'a \<Rightarrow> 'a \<Rightarrow> int"
  assumes total: "cmp x y \<le> 0 \<or> cmp y x \<le> 0"
    and trans: "cmp x y \<le> 0 \<Longrightarrow> cmp y z \<le> 0 \<Longrightarrow> cmp x z \<le> 0"
begin

lemma sorted_insert_cmp:
  "sorted_wrt (\<lambda>a b. cmp a b \<le> 0) ys \<Longrightarrow> sorted_wrt (\<lambda>a b. cmp a b \<le> 0) (insert_cmp cmp x ys)"
  by (induction ys) (use total trans in \<open>auto\<close>)

lemma sorted_js_sort: "sorted_wrt (\<lambda>a b. cmp a b \<le> 0) (js_sort cmp xs)"
  by (induction xs) (auto simp: js_sort_def intro: sorted_insert_cmp)

end

end
