(* ===== verification/Kn_Json.thy ===== *)
theory Kn_Json
  imports Kn_Prelude
begin

text \<open>
  JSON values as the handlers receive them (request bodies and JSON columns), property access,
  the reading of a value as the text a regular expression is tested against, and
  \<open>canonicalValue\<close> of system-update/kubernetes-update-tasks.service.ts, which makes the text that
  is signed independent of the order of object keys.
\<close>

datatype json =
    JNull
  | JBool bool
  | JNum jsnum
  | JStr string
  | JArr "json list"
  | JObj "(string \<times> json) list"

text \<open>\<open>value[k]\<close> for a name that is not an array index: \<open>None\<close> is \<open>undefined\<close>.\<close>

definition jget :: "json \<Rightarrow> string \<Rightarrow> json option" where
  "jget v k = (case v of JObj kvs \<Rightarrow> map_of kvs k | _ \<Rightarrow> None)"

text \<open>\<open>value?.[k]\<close>.\<close>

definition jget_opt :: "json option \<Rightarrow> string \<Rightarrow> json option" where
  "jget_opt v k = (case v of None \<Rightarrow> None | Some w \<Rightarrow> jget w k)"

definition is_object :: "json \<Rightarrow> bool" where
  \<comment> \<open>truthy and \<open>typeof value === 'object'\<close>: arrays included\<close>
  "is_object v = (case v of JArr _ \<Rightarrow> True | JObj _ \<Rightarrow> True | _ \<Rightarrow> False)"

definition jstring :: "json option \<Rightarrow> string option" where
  "jstring v = (case v of Some (JStr s) \<Rightarrow> Some s | _ \<Rightarrow> None)"

text \<open>\<open>Boolean(value)\<close>.\<close>

definition truthy :: "json option \<Rightarrow> bool" where
  "truthy v = (case v of None \<Rightarrow> False | Some JNull \<Rightarrow> False | Some (JBool b) \<Rightarrow> b
     | Some (JNum n) \<Rightarrow> n \<noteq> NotANumber \<and> n \<noteq> Fin 0 | Some (JStr s) \<Rightarrow> s \<noteq> []
     | Some (JArr _) \<Rightarrow> True | Some (JObj _) \<Rightarrow> True)"

text \<open>
  \<open>re.test(value)\<close> coerces its argument: a one-element array reads as its element, and the text of
  every other value that is not a string (\<open>undefined\<close>, \<open>null\<close>, \<open>true\<close>, a number, an array with a
  comma, \<open>[object Object]\<close>) matches none of the patterns that are tested this way.
\<close>

fun regex_text :: "json \<Rightarrow> string option" where
  "regex_text (JStr s) = Some s"
| "regex_text (JArr [x]) = regex_text x"
| "regex_text _ = None"

definition test_text :: "(string \<Rightarrow> bool) \<Rightarrow> json option \<Rightarrow> bool" where
  "test_text p v = (case v of None \<Rightarrow> False
     | Some j \<Rightarrow> (case regex_text j of None \<Rightarrow> False | Some s \<Rightarrow> p s))"

lemma test_text_JStr [simp]: "test_text p (Some (JStr s)) = p s"
  by (simp add: test_text_def)

lemma test_text_None [simp]: "\<not> test_text p None"
  by (simp add: test_text_def)

lemma jstring_Some_iff: "jstring v = Some s \<longleftrightarrow> v = Some (JStr s)"
  by (auto simp: jstring_def split: option.splits json.splits)

section \<open>Canonical values\<close>

definition entry_cmp :: "(string \<Rightarrow> string \<Rightarrow> int) \<Rightarrow> string \<times> json \<Rightarrow> string \<times> json \<Rightarrow> int" where
  "entry_cmp lc a b = lc (fst a) (fst b)"

text \<open>\<open>lc\<close> is \<open>String.prototype.localeCompare\<close>; object keys are pairwise different.\<close>

fun canonicalValue :: "(string \<Rightarrow> string \<Rightarrow> int) \<Rightarrow> json \<Rightarrow> json" where
  "canonicalValue lc (JArr vs) = JArr (map (canonicalValue lc) vs)"
| "canonicalValue lc (JObj kvs) =
     JObj (js_sort (entry_cmp lc) (map (\<lambda>(k, v). (k, canonicalValue lc v)) kvs))"
| "canonicalValue lc v = v"

text \<open>
  What a JSONB column does to a value: objects are read back with the same entries in any order,
  at every depth.
\<close>

inductive reordered :: "json \<Rightarrow> json \<Rightarrow> bool" where
  re_null: "reordered JNull JNull"
| re_bool: "reordered (JBool b) (JBool b)"
| re_num: "reordered (JNum n) (JNum n)"
| re_str: "reordered (JStr s) (JStr s)"
| re_arr: "list_all2 reordered vs ws \<Longrightarrow> reordered (JArr vs) (JArr ws)"
| re_obj: "distinct (map fst kvs) \<Longrightarrow> distinct (map fst kws) \<Longrightarrow>
     list_all2 (\<lambda>a b. fst a = fst b \<and> reordered (snd a) (snd b)) kvs kus \<Longrightarrow>
     set kus = set kws \<Longrightarrow> length kus = length kws \<Longrightarrow>
     reordered (JObj kvs) (JObj kws)"

text \<open>The contract of the key comparison: a total order on strings.\<close>

locale key_order = comparator lc for lc :: "string \<Rightarrow> string \<Rightarrow> int" +
  assumes antisym: "lc a b \<le> 0 \<Longrightarrow> lc b a \<le> 0 \<Longrightarrow> a = b"
begin

lemma entry_comparator: "comparator (entry_cmp lc)"
  by unfold_locales (auto simp: entry_cmp_def total intro: trans)

lemma sorted_entries_unique:
  "sorted_wrt (\<lambda>a b. entry_cmp lc a b \<le> 0) xs \<Longrightarrow> sorted_wrt (\<lambda>a b. entry_cmp lc a b \<le> 0) ys \<Longrightarrow>
   distinct (map fst xs) \<Longrightarrow> distinct (map fst ys) \<Longrightarrow> set xs = set ys \<Longrightarrow> xs = ys"
proof (induction xs arbitrary: ys)
  case (Cons x xs)
  then obtain y ys' where ys: "ys = y # ys'" by (cases ys) auto
  have "x \<in> set ys" "y \<in> set (x # xs)" using Cons.prems(5) ys by auto
  have "fst x = fst y"
  proof (rule ccontr)
    assume ne: "fst x \<noteq> fst y"
    then have "x \<in> set ys'" "y \<in> set xs" using \<open>x \<in> set ys\<close> \<open>y \<in> set (x # xs)\<close> ys by auto
    then have "entry_cmp lc y x \<le> 0" "entry_cmp lc x y \<le> 0" using Cons.prems(1,2) ys by auto
    with ne show False by (auto simp: entry_cmp_def dest: antisym)
  qed
  then have xy: "x = y"
    using Cons.prems(3,5) ys \<open>y \<in> set (x # xs)\<close> by (auto simp: rev_image_eqI)
  have "set xs = set ys'"
    using Cons.prems(3,4,5) ys xy by (auto simp: image_iff)
  then show ?case using Cons ys xy by auto
qed simp

lemma sort_entries_eq:
  assumes "distinct (map fst xs)" and "distinct (map fst ys)" and "set xs = set ys"
  shows "js_sort (entry_cmp lc) xs = js_sort (entry_cmp lc) ys"
proof -
  have d: "distinct (map fst (js_sort (entry_cmp lc) zs))" if "distinct (map fst zs)" for zs :: "(string \<times> json) list"
    using that by (simp add: distinct_map)
  show ?thesis
    by (rule sorted_entries_unique) (use assms d comparator.sorted_js_sort [OF entry_comparator] in auto)
qed

lemma canonical_entries:
  "list_all2 (\<lambda>a b. fst a = fst b \<and> canonicalValue lc (snd a) = canonicalValue lc (snd b)) xs ys \<Longrightarrow>
   map (\<lambda>(k, v). (k, canonicalValue lc v)) xs = map (\<lambda>(k, v). (k, canonicalValue lc v)) ys"
  by (induction rule: list_all2_induct) auto

lemma canonical_reordered: "reordered v w \<Longrightarrow> canonicalValue lc v = canonicalValue lc w"
proof (induction rule: reordered.induct)
  case (re_arr vs ws)
  then have "list_all2 (\<lambda>v w. canonicalValue lc v = canonicalValue lc w) vs ws"
    by (auto elim: list_all2_mono)
  then have "map (canonicalValue lc) vs = map (canonicalValue lc) ws"
    by (induction rule: list_all2_induct) auto
  then show ?case by simp
next
  case (re_obj kvs kws kus)
  let ?c = "\<lambda>(k, v). (k, canonicalValue lc v)"
  have "list_all2 (\<lambda>a b. fst a = fst b \<and> canonicalValue lc (snd a) = canonicalValue lc (snd b)) kvs kus"
    using re_obj.IH by (auto elim: list_all2_mono)
  then have m: "map ?c kvs = map ?c kus" by (rule canonical_entries)
  have f: "map fst (map ?c zs) = map fst zs" for zs by (induction zs) auto
  have d: "distinct (map fst (map ?c kus))" using re_obj.hyps(1) f m by metis
  have d': "distinct (map fst (map ?c kws))" using re_obj.hyps(2) f by metis
  have "set (map ?c kus) = set (map ?c kws)" using re_obj.hyps by simp
  with d d' have "js_sort (entry_cmp lc) (map ?c kus) = js_sort (entry_cmp lc) (map ?c kws)"
    by (rule sort_entries_eq)
  then show ?case using m by simp
qed auto

lemma sorted_sort_id:
  "sorted_wrt (\<lambda>a b. entry_cmp lc a b \<le> 0) xs \<Longrightarrow> js_sort (entry_cmp lc) xs = xs"
proof (induction xs)
  case (Cons x xs)
  then show ?case by (cases xs) (auto simp: js_sort_def)
qed simp

lemma canonical_idem: "canonicalValue lc (canonicalValue lc v) = canonicalValue lc v"
proof (induction v)
  case (JObj kvs)
  then have IH: "\<And>k v. (k, v) \<in> set kvs \<Longrightarrow> canonicalValue lc (canonicalValue lc v) = canonicalValue lc v"
    by (fastforce intro: snds.intros)
  let ?c = "\<lambda>(k, v). (k, canonicalValue lc v)" and ?xs = "js_sort (entry_cmp lc) (map (\<lambda>(k, v). (k, canonicalValue lc v)) kvs)"
  have "map ?c ?xs = ?xs"
    by (rule map_idI) (use IH in \<open>auto split: prod.splits\<close>)
  moreover have "js_sort (entry_cmp lc) ?xs = ?xs"
    by (rule sorted_sort_id, rule comparator.sorted_js_sort [OF entry_comparator])
  ultimately show ?case by simp
qed auto

end

text \<open>Every object inside a value has pairwise different keys.\<close>

fun wf_json :: "json \<Rightarrow> bool" where
  "wf_json (JArr vs) = list_all wf_json vs"
| "wf_json (JObj kvs) = (distinct (map fst kvs) \<and> list_all (\<lambda>(k, v). wf_json v) kvs)"
| "wf_json v = True"

lemma fst_canonical_entries: "map fst (map (\<lambda>(k, v). (k, canonicalValue lc v)) kvs) = map fst kvs"
  by (induction kvs) auto

lemma distinct_fst_js_sort: "distinct (map fst xs) \<Longrightarrow> distinct (map fst (js_sort cmp xs))"
  by (simp add: distinct_map)

lemma map_of_js_sort: "distinct (map fst xs) \<Longrightarrow> map_of (js_sort cmp xs) = map_of xs"
  by (rule map_of_inject_set [THEN iffD2]) (simp_all add: distinct_fst_js_sort)

lemma map_of_canonical:
  "map_of (map (\<lambda>(k, v). (k, canonicalValue lc v)) kvs) k = map_option (canonicalValue lc) (map_of kvs k)"
  by (induction kvs) auto

lemma jget_canonical [simp]:
  "wf_json v \<Longrightarrow> jget (canonicalValue lc v) k = map_option (canonicalValue lc) (jget v k)"
  by (cases v) (auto simp: jget_def map_of_canonical map_of_js_sort fst_canonical_entries simp del: map_map)

lemma jget_opt_canonical [simp]:
  "(\<And>a. w = Some a \<Longrightarrow> wf_json a) \<Longrightarrow>
   jget_opt (map_option (canonicalValue lc) w) k = map_option (canonicalValue lc) (jget_opt w k)"
  by (cases w) (auto simp: jget_opt_def)

lemma wf_jget: "wf_json v \<Longrightarrow> jget v k = Some w \<Longrightarrow> wf_json w"
  by (cases v) (auto simp: jget_def list_all_iff dest!: map_of_SomeD)

lemma is_object_canonical [simp]: "is_object (canonicalValue lc v) = is_object v"
  by (cases v) (auto simp: is_object_def)

lemma canonical_JStr_iff [simp]: "canonicalValue lc v = JStr s \<longleftrightarrow> v = JStr s"
  by (cases v) auto

lemma JStr_canonical_iff [simp]:
  "map_option (canonicalValue lc) w = Some (JStr s) \<longleftrightarrow> w = Some (JStr s)"
  by (cases w) auto

lemma jstring_canonical_value [simp]: "jstring (Some (canonicalValue lc a)) = jstring (Some a)"
  by (cases a) (auto simp: jstring_def)

lemma jstring_canonical [simp]: "jstring (map_option (canonicalValue lc) w) = jstring w"
  by (cases w) simp_all

lemma regex_text_canonical [simp]: "regex_text (canonicalValue lc v) = regex_text v"
  by (induction v rule: regex_text.induct) auto

lemma test_text_canonical [simp]: "test_text p (map_option (canonicalValue lc) w) = test_text p w"
  by (cases w) (simp_all add: test_text_def)

text \<open>The order of strings by code units, which \<open><\<close> and a \<open>sort()\<close> without comparator use.\<close>

fun code_unit_cmp :: "string \<Rightarrow> string \<Rightarrow> int" where
  "code_unit_cmp [] [] = 0"
| "code_unit_cmp [] (y # ys) = -1"
| "code_unit_cmp (x # xs) [] = 1"
| "code_unit_cmp (x # xs) (y # ys) =
     (if x = y then code_unit_cmp xs ys else if (of_char x :: nat) < of_char y then -1 else 1)"

lemma code_unit_cmp_flip: "code_unit_cmp b a = - code_unit_cmp a b"
  by (induction a b rule: code_unit_cmp.induct) (auto simp: not_less le_less)

lemma code_unit_cmp_zero: "code_unit_cmp a b = 0 \<Longrightarrow> a = b"
  by (induction a b rule: code_unit_cmp.induct) (auto split: if_splits)

lemma code_unit_cmp_trans: "code_unit_cmp a b \<le> 0 \<Longrightarrow> code_unit_cmp b c \<le> 0 \<Longrightarrow> code_unit_cmp a c \<le> 0"
proof (induction a b arbitrary: c rule: code_unit_cmp.induct)
  case (2 y ys)
  then show ?case by (cases c) auto
next
  case (4 x xs y ys)
  then show ?case by (cases c) (auto split: if_splits)
qed (auto)

interpretation code_units: key_order code_unit_cmp
proof unfold_locales
  show "code_unit_cmp x y \<le> 0 \<or> code_unit_cmp y x \<le> 0" for x y
    using code_unit_cmp_flip [of y x] by linarith
  show "code_unit_cmp x y \<le> 0 \<Longrightarrow> code_unit_cmp y z \<le> 0 \<Longrightarrow> code_unit_cmp x z \<le> 0" for x y z
    by (rule code_unit_cmp_trans)
  show "code_unit_cmp a b \<le> 0 \<Longrightarrow> code_unit_cmp b a \<le> 0 \<Longrightarrow> a = b" for a b
    using code_unit_cmp_flip [of b a] code_unit_cmp_zero [of a b] by linarith
qed

end
