(* ===== verification/Kn_Tasks.thy ===== *)
theory Kn_Tasks
  imports Kn_Json
begin

text \<open>
  The Kubernetes update queue: system-update/kubernetes-update-tasks.service.ts.

  The state is the table KubernetesUpdateTask. A task is submitted into the one active slot, claimed
  by a worker under a 30 second lease, renewed by heartbeats and finished; payloads and results are
  signed. The HMAC, \<open>JSON.stringify\<close>, \<open>localeCompare\<close> and \<open>Date.parse\<close> are fields of the
  environment record. Each handler reads the clock once, as its argument \<open>now\<close>.
\<close>

section \<open>Data\<close>

datatype task_status = Queued | Running | Succeeded | Failed

record task_row =
  tk_id :: string
  tk_action :: string
  tk_payload :: json
  tk_signature :: string
  tk_status :: task_status
  tk_phase :: string
  tk_percent :: "int option"
  tk_message :: "string option"
  tk_claimedBy :: "string option"
  tk_leaseUntil :: "time option"
  tk_attempt :: nat
  tk_createdAt :: time
  tk_startedAt :: "time option"
  tk_completedAt :: "time option"
  tk_backupLocation :: "string option"
  tk_backupBytes :: "int option"
  tk_result :: "json option"
  tk_resultSignature :: "string option"
  tk_activeSlot :: "string option"

record task_view =
  tv_id :: string
  tv_action :: string
  tv_payload :: json
  tv_status :: task_status
  tv_phase :: string
  tv_percent :: "int option"
  tv_message :: "string option"
  tv_attempt :: nat
  tv_createdAt :: time
  tv_startedAt :: "time option"
  tv_completedAt :: "time option"
  tv_backupLocation :: "string option"
  tv_backupBytes :: "int option"
  tv_result :: "json option"

record task_env =
  te_key :: "string option"
  te_hmac :: "string \<Rightarrow> string \<Rightarrow> string"
  te_text :: "json \<Rightarrow> string"
  te_lc :: "string \<Rightarrow> string \<Rightarrow> int"
  te_date :: "string \<Rightarrow> time option"

type_synonym task_db = "task_row list"

definition LEASE_MS :: int where "LEASE_MS = 30000"

definition progressPhases :: "string list" where
  "progressPhases = [''initializing'', ''backing-up'', ''migration-test'', ''updating'', ''rolling-back'', ''health-check'']"

section \<open>Text patterns\<close>

definition is_hex64 :: "string \<Rightarrow> bool" where
  "is_hex64 s \<longleftrightarrow> length s = 64 \<and> list_all is_hex s"

definition is_lower_hex64 :: "string \<Rightarrow> bool" where
  "is_lower_hex64 s \<longleftrightarrow> length s = 64 \<and> list_all is_lower_hex s"

text \<open>\<open>/^v\d+\.\d+(?:\.\d+)?$/\<close>: after the v, two or three dot-separated runs of digits.\<close>

definition is_version :: "string \<Rightarrow> bool" where
  "is_version s = (case s of [] \<Rightarrow> False
     | c # r \<Rightarrow> c = CHR ''v'' \<and> length (js_split (CHR ''.'') r) \<in> {2, 3}
         \<and> list_all (\<lambda>p. p \<noteq> [] \<and> list_all is_digit p) (js_split (CHR ''.'') r))"

definition image_prefix :: "string \<Rightarrow> string" where
  "image_prefix suffix = ''ghcr.io/feize666/kubenova-'' @ suffix @ ''@sha256:''"

text \<open>\<open>/^ghcr\.io\/feize666\/kubenova-<part>@sha256:[a-f0-9]{64}$/i\<close>.\<close>

definition trusted_image :: "string \<Rightarrow> string \<Rightarrow> bool" where
  "trusted_image suffix s \<longleftrightarrow>
     (let p = image_prefix suffix in
      js_lower (take (length p) s) = p \<and> is_hex64 (drop (length p) s))"

definition trustedImages :: "(string \<times> string) list" where
  "trustedImages = [(''frontend'', ''frontend''), (''controlApi'', ''control-api''),
     (''runtimeGateway'', ''runtime-gateway'')]"

section \<open>Validation of a payload\<close>

definition bad_check :: "json \<Rightarrow> bool" where
  "bad_check c \<longleftrightarrow> \<not> truthy (jget c ''name'')
     \<or> jget c ''status'' \<notin> {Some (JStr ''passed''), Some (JStr ''failed''), Some (JStr ''skipped'')}
     \<or> jstring (jget c ''message'') = None"

definition string_ok :: "(string \<Rightarrow> bool) \<Rightarrow> json option \<Rightarrow> bool" where
  "string_ok p v = (case jstring v of None \<Rightarrow> False | Some s \<Rightarrow> p s)"

definition checks_ok :: "json option \<Rightarrow> bool" where
  "checks_ok v = (case v of Some (JArr cs) \<Rightarrow> \<not> list_ex bad_check cs | _ \<Rightarrow> False)"

definition object_ok :: "json option \<Rightarrow> bool" where
  "object_ok v = (case v of None \<Rightarrow> False | Some w \<Rightarrow> is_object w)"

definition expiry_ok :: "task_env \<Rightarrow> time \<Rightarrow> bool \<Rightarrow> json option \<Rightarrow> bool" where
  "expiry_ok env now requireUnexpired v = string_ok (\<lambda>s. case te_date env s of None \<Rightarrow> False
     | Some t \<Rightarrow> \<not> (requireUnexpired \<and> t \<le> now)) v"

definition payload_checks :: "task_env \<Rightarrow> time \<Rightarrow> bool \<Rightarrow> json \<Rightarrow> (bool \<times> string) list" where
  "payload_checks env now requireUnexpired value =
    [(is_object value \<and> string_ok (\<lambda>s. s \<in> {''install'', ''rollback'', ''preflight''}) (jget value ''action''),
      ''Kubernetes update task action is invalid''),
     (test_text is_version (jget value ''targetVersion''),
      ''Kubernetes update task version is invalid''),
     (jget value ''previousVersion'' = None \<or> string_ok is_version (jget value ''previousVersion''),
      ''Kubernetes previous update version is invalid''),
     (jget value ''rollbackTaskId'' = None
        \<or> string_ok (\<lambda>s. nonblank s \<and> length s \<le> 128) (jget value ''rollbackTaskId''),
      ''Kubernetes rollback task reference is invalid''),
     (test_text is_hex64 (jget value ''settingsFingerprint''),
      ''Kubernetes update settings fingerprint is invalid''),
     (string_ok (\<lambda>s. s \<noteq> [] \<and> length s \<le> 128) (jget value ''preflightId''),
      ''Kubernetes update task preflight binding is invalid''),
     (string_ok (\<lambda>s. nonblank s \<and> length s \<le> 128) (jget value ''backupTargetId''),
      ''Kubernetes update backup target binding is invalid''),
     (jget value ''action'' = Some (JStr ''preflight'') \<longrightarrow>
        string_ok nonblank (jget value ''migrationTargetId'') \<and> test_text is_hex64 (jget value ''settingsFingerprint''),
      ''Kubernetes preflight migration target binding is invalid''),
     (jget value ''action'' = Some (JStr ''preflight'') \<longrightarrow> checks_ok (jget value ''preflightChecks''),
      ''Kubernetes preflight checks are invalid''),
     (expiry_ok env now requireUnexpired (jget value ''preflightExpiresAt''),
      ''Kubernetes update task preflight expiry is invalid''),
     (object_ok (jget value ''images''),
      ''Kubernetes update task image map is invalid'')]
    @ map (\<lambda>(component, suffix).
        (string_ok (trusted_image suffix) (jget_opt (jget value ''images'') component),
         ''Kubernetes update task '' @ component @ '' image must use a trusted immutable digest'')) trustedImages
    @ [(string_ok (\<lambda>s. nonblank s \<and> length s \<le> 128) (jget value ''operator''),
      ''Kubernetes update task operator is invalid'')]"

definition validateTaskPayload :: "task_env \<Rightarrow> time \<Rightarrow> bool \<Rightarrow> json \<Rightarrow> unit res" where
  "validateTaskPayload env now requireUnexpired value =
     checks_run (payload_checks env now requireUnexpired value)"

section \<open>Keys and signatures\<close>

definition has_placeholder :: "string \<Rightarrow> bool" where
  "has_placeholder s \<longleftrightarrow> js_includes ''replace-with'' (js_lower s) \<or> js_includes ''change-me'' (js_lower s)
     \<or> js_includes ''placeholder'' (js_lower s)"

definition all_same :: "string \<Rightarrow> bool" where
  "all_same s \<longleftrightarrow> length s = 64 \<and> list_all (\<lambda>c. c = hd s) s"

text \<open>The bytes of the key are given by their lower-case hex text.\<close>

definition task_key :: "task_env \<Rightarrow> string res" where
  "task_key env = (let raw = (case te_key env of None \<Rightarrow> [] | Some s \<Rightarrow> js_trim s) in
     if \<not> is_hex64 raw \<or> all_same raw \<or> has_placeholder raw
     then Inl (BadRequest ''KUBENOVA_K8S_UPDATE_TASK_KEY must be a distinct 256-bit hex secret'')
     else Inr (js_lower raw))"

definition canonicalJson :: "task_env \<Rightarrow> json \<Rightarrow> string" where
  "canonicalJson env v = te_text env (canonicalValue (te_lc env) v)"

definition sign :: "task_env \<Rightarrow> json \<Rightarrow> string res" where
  "sign env payload = rbind (task_key env) (\<lambda>k. Inr (te_hmac env k (canonicalJson env payload)))"

text \<open>Two lower-case hex texts of 64 characters are equal exactly when their bytes are.\<close>

definition verify :: "task_env \<Rightarrow> json \<Rightarrow> string \<Rightarrow> bool res" where
  "verify env payload signature =
     (if \<not> is_lower_hex64 signature then Inr False
      else rbind (sign env payload) (\<lambda>expected. Inr (expected = signature)))"

definition signResult :: "task_env \<Rightarrow> json \<Rightarrow> string res" where
  "signResult env r = rbind (task_key env) (\<lambda>k. Inr (te_hmac env k (''result:'' @ canonicalJson env r)))"

definition publicTask :: "task_row \<Rightarrow> task_view" where
  "publicTask row = \<lparr>tv_id = tk_id row, tv_action = tk_action row, tv_payload = tk_payload row,
     tv_status = tk_status row, tv_phase = tk_phase row, tv_percent = tk_percent row,
     tv_message = tk_message row, tv_attempt = tk_attempt row, tv_createdAt = tk_createdAt row,
     tv_startedAt = tk_startedAt row, tv_completedAt = tk_completedAt row,
     tv_backupLocation = tk_backupLocation row, tv_backupBytes = tk_backupBytes row,
     tv_result = tk_result row\<rparr>"

definition result_signed :: "task_env \<Rightarrow> task_row \<Rightarrow> bool res" where
  "result_signed env row = (case tk_result row of None \<Rightarrow> Inr True
     | Some JNull \<Rightarrow> Inr True
     | Some r \<Rightarrow> (case tk_resultSignature row of None \<Rightarrow> Inr False
         | Some s \<Rightarrow> (if \<not> is_lower_hex64 s then Inr False
             else rbind (signResult env r) (\<lambda>e. Inr (e = s)))))"

definition verifiedPublicTask :: "task_env \<Rightarrow> time \<Rightarrow> task_row \<Rightarrow> task_view res" where
  "verifiedPublicTask env now row =
     rbind (validateTaskPayload env now False (tk_payload row)) (\<lambda>_.
     rbind (verify env (tk_payload row) (tk_signature row)) (\<lambda>ok.
     rbind (guard ok (BadRequest ''Kubernetes update task signature verification failed'')) (\<lambda>_.
     rbind (result_signed env row) (\<lambda>rok.
     rbind (guard rok (BadRequest ''Kubernetes update task result signature verification failed'')) (\<lambda>_.
     Inr (publicTask row))))))"

text \<open>\<open>normalizeMessage\<close>: control characters other than tab, newline and return are dropped.\<close>

definition is_stripped :: "char \<Rightarrow> bool" where
  "is_stripped c \<longleftrightarrow> (let n = (of_char c :: nat) in n \<le> 8 \<or> n = 11 \<or> n = 12 \<or> (14 \<le> n \<and> n \<le> 31))"

definition normalizeMessage :: "string option \<Rightarrow> string option" where
  "normalizeMessage m = map_option (\<lambda>s. take 1000 (filter (\<lambda>c. \<not> is_stripped c) s)) m"

end
