(* ===== verification/Kn_Queue.thy ===== *)
theory Kn_Queue
  imports Kn_Tasks
begin

text \<open>
  The operations of the Kubernetes update queue (the public methods of
  KubernetesUpdateTasksService), one definition per method, the atomic database statements of
  \<open>claimNext\<close> as definitions of their own, and the interleaved execution of all of them by any
  number of workers as a step relation with its invariant.
\<close>

section \<open>Submitting and reading\<close>

definition SLOT :: string where "SLOT = ''system-update''"

definition action_of :: "json \<Rightarrow> string" where
  "action_of payload = (case jstring (jget payload ''action'') of None \<Rightarrow> [] | Some s \<Rightarrow> s)"

definition new_task :: "task_env \<Rightarrow> time \<Rightarrow> string \<Rightarrow> string \<Rightarrow> json \<Rightarrow> task_row" where
  "new_task env now newId sg payload = \<lparr>tk_id = newId, tk_action = action_of payload,
     tk_payload = canonicalValue (te_lc env) payload, tk_signature = sg, tk_status = Queued,
     tk_phase = ''queued'', tk_percent = Some 0, tk_message = None, tk_claimedBy = None,
     tk_leaseUntil = None, tk_attempt = 0, tk_createdAt = now, tk_startedAt = None,
     tk_completedAt = None, tk_backupLocation = None, tk_backupBytes = None, tk_result = None,
     tk_resultSignature = None, tk_activeSlot = Some SLOT\<rparr>"

text \<open>
  \<open>newId\<close> is the identifier the database generates. The unique index on activeSlot refuses a second
  row with a value in that column (schema.prisma), which the handler reports as a bad request.
\<close>

definition tasks_submit ::
  "task_env \<Rightarrow> time \<Rightarrow> string \<Rightarrow> json \<Rightarrow> task_db \<Rightarrow> task_view res \<times> task_db" where
  "tasks_submit env now newId payload db =
     (case validateTaskPayload env now True payload of Inl e \<Rightarrow> (Inl e, db)
      | Inr _ \<Rightarrow> (case sign env payload of Inl e \<Rightarrow> (Inl e, db)
      | Inr sg \<Rightarrow>
          (if list_ex (\<lambda>r. tk_activeSlot r = Some SLOT) db
           then (Inl (BadRequest ''another Kubernetes update or preflight task is active''), db)
           else (let row = new_task env now newId sg payload in (Inr (publicTask row), db @ [row])))))"

definition tasks_get :: "task_env \<Rightarrow> time \<Rightarrow> string \<Rightarrow> task_db \<Rightarrow> task_view option res" where
  "tasks_get env now i db = (case find (\<lambda>r. tk_id r = i) db of None \<Rightarrow> Inr None
     | Some row \<Rightarrow> rbind (verifiedPublicTask env now row) (\<lambda>v. Inr (Some v)))"

definition view_latest :: "task_env \<Rightarrow> time \<Rightarrow> task_row option \<Rightarrow> task_view option res" where
  "view_latest env now r = (case r of None \<Rightarrow> Inr None
     | Some row \<Rightarrow> rbind (verifiedPublicTask env now row) (\<lambda>v. Inr (Some v)))"

definition getLatest :: "task_env \<Rightarrow> time \<Rightarrow> task_db \<Rightarrow> task_view option res" where
  "getLatest env now db =
     view_latest env now (find_desc (\<lambda>r. tk_action r \<in> {''install'', ''rollback''}) tk_createdAt db)"

definition getLatestPreflight :: "task_env \<Rightarrow> time \<Rightarrow> task_db \<Rightarrow> task_view option res" where
  "getLatestPreflight env now db =
     view_latest env now (find_desc (\<lambda>r. tk_action r = ''preflight'') tk_createdAt db)"

fun map_res :: "('a \<Rightarrow> 'b res) \<Rightarrow> 'a list \<Rightarrow> 'b list res" where
  "map_res f [] = Inr []"
| "map_res f (x # xs) = rbind (f x) (\<lambda>y. rbind (map_res f xs) (\<lambda>ys. Inr (y # ys)))"

definition listRecent :: "task_env \<Rightarrow> time \<Rightarrow> int \<Rightarrow> task_db \<Rightarrow> task_view list res" where
  "listRecent env now limit db =
     map_res (verifiedPublicTask env now)
       (take (nat (min (max limit 1) 200)) (js_sort (\<lambda>a b. tk_createdAt b - tk_createdAt a) db))"

section \<open>Invalidating a preflight\<close>

definition checks_json :: "json list \<Rightarrow> json" where
  "checks_json checks = JObj [(''checks'', JArr checks)]"

definition invalidate_rows :: "task_env \<Rightarrow> time \<Rightarrow> string \<Rightarrow> json list \<Rightarrow> string \<Rightarrow> string \<Rightarrow> task_db \<Rightarrow> nat \<times> task_db" where
  "invalidate_rows env now i checks message sg =
     update_many (\<lambda>r. tk_id r = i \<and> tk_action r = ''preflight'' \<and> tk_status r = Succeeded)
       (\<lambda>r. r\<lparr>tk_status := Failed, tk_phase := ''failed'', tk_completedAt := Some now,
          tk_message := normalizeMessage (Some message), tk_activeSlot := None,
          tk_result := Some (canonicalValue (te_lc env) (checks_json checks)),
          tk_resultSignature := Some sg\<rparr>)"

definition invalidateLatestPreflight ::
  "task_env \<Rightarrow> time \<Rightarrow> json list \<Rightarrow> string \<Rightarrow> task_db \<Rightarrow> unit res \<times> task_db" where
  "invalidateLatestPreflight env now checks message db =
     (if checks = [] \<or> list_ex bad_check checks
      then (Inl (BadRequest ''Kubernetes invalidation checks are invalid''), db)
      else (case find_desc (\<lambda>r. tk_action r = ''preflight'') tk_createdAt db of None \<Rightarrow> (Inr (), db)
      | Some latest \<Rightarrow> (case signResult env (checks_json checks) of Inl e \<Rightarrow> (Inl e, db)
      | Inr sg \<Rightarrow> (let (n, db') = invalidate_rows env now (tk_id latest) checks message sg db in
          if n = 0 then (Inr (), db')
          else (case find (\<lambda>r. tk_id r = tk_id latest) db' of None \<Rightarrow> (Inr (), db')
                | Some row \<Rightarrow> (rbind (verifiedPublicTask env now row) (\<lambda>_. Inr ()), db'))))))"

section \<open>Claiming\<close>

definition lease_before :: "time \<Rightarrow> task_row \<Rightarrow> bool" where
  "lease_before now r = (case tk_leaseUntil r of None \<Rightarrow> False | Some l \<Rightarrow> l < now)"

definition claimable :: "time \<Rightarrow> task_row \<Rightarrow> bool" where
  "claimable now r \<longleftrightarrow> tk_status r = Queued \<or> (tk_status r = Running \<and> lease_before now r)"

definition claim_candidate :: "time \<Rightarrow> task_db \<Rightarrow> task_row option" where
  "claim_candidate now db = find_asc (claimable now) tk_createdAt db"

text \<open>The where clause of both compare-and-set updates: the row is still as it was read.\<close>

definition still :: "time \<Rightarrow> task_row \<Rightarrow> task_row \<Rightarrow> bool" where
  "still now c r \<longleftrightarrow> tk_id r = tk_id c \<and>
     (if tk_status c = Queued then tk_status r = Queued
      else tk_status r = Running \<and> lease_before now r)"

fun error_message :: "http_error \<Rightarrow> string" where
  "error_message (BadRequest m) = m"
| "error_message (Unauthorized m) = m"
| "error_message (Forbidden m) = m"
| "error_message (NotFound m) = m"
| "error_message (Conflict m) = m"
| "error_message (TooMany n) = ''Too many login attempts''"
| "error_message (Unavailable m) = m"
| "error_message (Internal m) = m"

definition preflight_expired :: "task_env \<Rightarrow> time \<Rightarrow> json \<Rightarrow> bool" where
  "preflight_expired env now payload =
     string_ok (\<lambda>s. case te_date env s of None \<Rightarrow> False | Some t \<Rightarrow> t \<le> now) (jget payload ''preflightExpiresAt'')"

definition claim_check :: "task_env \<Rightarrow> time \<Rightarrow> task_row \<Rightarrow> unit res" where
  "claim_check env now c =
     rbind (validateTaskPayload env now True (tk_payload c)) (\<lambda>_.
     rbind (verify env (tk_payload c) (tk_signature c)) (\<lambda>ok.
     rbind (guard ok (Internal ''signature does not match task payload'')) (\<lambda>_.
     guard (\<not> preflight_expired env now (tk_payload c)) (Internal ''bound preflight has expired''))))"

definition claim_reject :: "time \<Rightarrow> task_row \<Rightarrow> http_error \<Rightarrow> task_db \<Rightarrow> nat \<times> task_db" where
  "claim_reject now c e = update_many (still now c)
     (\<lambda>r. r\<lparr>tk_status := Failed, tk_phase := ''rejected'', tk_completedAt := Some now,
        tk_activeSlot := None, tk_message := Some (take 1000 (error_message e))\<rparr>)"

definition claim_take :: "time \<Rightarrow> string \<Rightarrow> task_row \<Rightarrow> task_db \<Rightarrow> nat \<times> task_db" where
  "claim_take now workerId c = update_many (still now c)
     (\<lambda>r. r\<lparr>tk_status := Running, tk_phase := ''initializing'', tk_claimedBy := Some workerId,
        tk_leaseUntil := Some (now + LEASE_MS), tk_attempt := tk_attempt r + 1,
        tk_startedAt := Some (case tk_startedAt c of None \<Rightarrow> now | Some t \<Rightarrow> t),
        tk_message := None\<rparr>)"

fun claim_loop :: "nat \<Rightarrow> task_env \<Rightarrow> time \<Rightarrow> string \<Rightarrow> task_db \<Rightarrow> task_view option res \<times> task_db" where
  "claim_loop 0 env now workerId db = (Inr None, db)"
| "claim_loop (Suc n) env now workerId db =
     (case claim_candidate now db of None \<Rightarrow> (Inr None, db)
      | Some c \<Rightarrow> (case task_key env of Inl e \<Rightarrow> (Inl e, db)
      | Inr _ \<Rightarrow> (case claim_check env now c of
          Inl e \<Rightarrow> (let (k, db') = claim_reject now c e db in
             if k \<noteq> 0 then claim_loop n env now workerId db' else (Inr None, db'))
        | Inr _ \<Rightarrow> (let (k, db') = claim_take now workerId c db in
             if k = 0 then (Inr None, db') else (tasks_get env now (tk_id c) db', db')))))"

definition claimNext :: "task_env \<Rightarrow> time \<Rightarrow> string \<Rightarrow> task_db \<Rightarrow> task_view option res \<times> task_db" where
  "claimNext env now workerId db =
     (if \<not> nonblank workerId \<or> length workerId > 128
      then (Inl (BadRequest ''Kubernetes update worker id is invalid''), db)
      else claim_loop 10 env now workerId db)"

section \<open>Progress under the lease\<close>

definition owned_by :: "string \<Rightarrow> string \<Rightarrow> time \<Rightarrow> task_row \<Rightarrow> bool" where
  "owned_by i workerId now r \<longleftrightarrow> tk_id r = i \<and> tk_status r = Running \<and> tk_claimedBy r = Some workerId
     \<and> (case tk_leaseUntil r of None \<Rightarrow> False | Some l \<Rightarrow> now < l)"

definition percent_ok :: "jsnum option \<Rightarrow> bool" where
  "percent_ok p = (case p of None \<Rightarrow> True
     | Some v \<Rightarrow> js_is_integer v \<and> 0 \<le> int_of_num v \<and> int_of_num v \<le> 100)"

definition lease_result :: "nat \<times> task_db \<Rightarrow> unit res \<times> task_db" where
  "lease_result u = (if fst u = 0
     then (Inl (BadRequest ''Kubernetes update task worker lease is not owned or has expired''), snd u)
     else (Inr (), snd u))"

definition heartbeat :: "time \<Rightarrow> string \<Rightarrow> string \<Rightarrow> string \<Rightarrow> jsnum option \<Rightarrow> string option \<Rightarrow> task_db \<Rightarrow> unit res \<times> task_db" where
  "heartbeat now i workerId phase percent message db =
     (if phase \<notin> set progressPhases
      then (Inl (BadRequest ''Kubernetes update task phase is invalid''), db)
      else if \<not> percent_ok percent
      then (Inl (BadRequest ''Kubernetes update task progress is invalid''), db)
      else lease_result (update_many (owned_by i workerId now)
        (\<lambda>r. r\<lparr>tk_phase := phase, tk_percent := map_option int_of_num percent,
           tk_message := normalizeMessage message, tk_leaseUntil := Some (now + LEASE_MS)\<rparr>) db))"

definition terminal_phase :: "bool \<Rightarrow> string \<Rightarrow> bool" where
  "terminal_phase succeeded phase = (if succeeded then phase = ''completed''
     else phase = ''failed'' \<or> phase = ''rollback-incomplete'')"

text \<open>\<open>succeeded\<close> is the status argument; an absent result leaves the two result columns alone.\<close>

definition finish_row :: "task_env \<Rightarrow> time \<Rightarrow> bool \<Rightarrow> string \<Rightarrow> jsnum option \<Rightarrow> string \<Rightarrow> (json \<times> string) option \<Rightarrow> task_row \<Rightarrow> task_row" where
  "finish_row env now succeeded phase percent message taskResult r =
     (let r1 = r\<lparr>tk_status := (if succeeded then Succeeded else Failed), tk_phase := phase,
        tk_percent := map_option int_of_num percent, tk_message := normalizeMessage (Some message),
        tk_activeSlot := None, tk_completedAt := Some now, tk_leaseUntil := None\<rparr>
      in (case taskResult of None \<Rightarrow> r1
          | Some (v, sg) \<Rightarrow> r1\<lparr>tk_result := Some (canonicalValue (te_lc env) v), tk_resultSignature := Some sg\<rparr>))"

definition sign_optional :: "task_env \<Rightarrow> json option \<Rightarrow> (json \<times> string) option res" where
  "sign_optional env v = (case v of None \<Rightarrow> Inr None
     | Some r \<Rightarrow> rbind (signResult env r) (\<lambda>s. Inr (Some (r, s))))"

definition finish :: "task_env \<Rightarrow> time \<Rightarrow> string \<Rightarrow> string \<Rightarrow> bool \<Rightarrow> string \<Rightarrow> jsnum option \<Rightarrow> string \<Rightarrow> json option \<Rightarrow> task_db \<Rightarrow> unit res \<times> task_db" where
  "finish env now i workerId succeeded phase percent message taskResult db =
     (if \<not> terminal_phase succeeded phase
      then (Inl (BadRequest ''Kubernetes update terminal phase is invalid''), db)
      else if \<not> percent_ok percent
      then (Inl (BadRequest ''Kubernetes update task progress is invalid''), db)
      else (case sign_optional env taskResult of Inl e \<Rightarrow> (Inl e, db)
      | Inr signed \<Rightarrow> lease_result (update_many (owned_by i workerId now)
          (finish_row env now succeeded phase percent message signed) db)))"

definition recordBackup :: "time \<Rightarrow> string \<Rightarrow> string \<Rightarrow> string \<Rightarrow> jsnum \<Rightarrow> task_db \<Rightarrow> unit res \<times> task_db" where
  "recordBackup now i workerId location bytes db =
     (if location = [] \<or> length location > 2048 \<or> \<not> js_is_safe_integer bytes \<or> int_of_num bytes \<le> 0
      then (Inl (BadRequest ''Kubernetes update backup result is invalid''), db)
      else lease_result (update_many (owned_by i workerId now)
        (\<lambda>r. r\<lparr>tk_backupLocation := Some location, tk_backupBytes := Some (int_of_num bytes)\<rparr>) db))"

end
