(* ===== verification/Kn_QueueSafety.thy ===== *)
theory Kn_QueueSafety
  imports Kn_Queue
begin

text \<open>
  Interleaved runs of the update queue and their invariant. Every rule of the step relation is one
  database statement of a handler; a worker that has read a candidate keeps it, with the instant
  it read, until its own compare-and-set runs, and anything may happen in between.
\<close>

record q_state =
  q_db :: task_db
  q_now :: time
  q_pick :: "string \<Rightarrow> (time \<times> task_row) option"

datatype q_event = Tick | Submit | Invalidate | Pick string | Take string | Reject string
  | Beat string | Done string | Backup string

fun event_worker :: "q_event \<Rightarrow> string option" where
  "event_worker (Take w) = Some w"
| "event_worker (Reject w) = Some w"
| "event_worker (Beat w) = Some w"
| "event_worker (Done w) = Some w"
| "event_worker (Backup w) = Some w"
| "event_worker (Pick w) = Some w"
| "event_worker _ = None"

inductive q_step :: "task_env \<Rightarrow> q_state \<Rightarrow> q_event \<Rightarrow> q_state \<Rightarrow> bool" for env where
  q_tick: "q_now s \<le> t \<Longrightarrow> q_step env s Tick (s\<lparr>q_now := t\<rparr>)"
| q_submit: "i \<notin> tk_id ` set (q_db s) \<Longrightarrow>
     q_step env s Submit (s\<lparr>q_db := snd (tasks_submit env (q_now s) i payload (q_db s))\<rparr>)"
| q_invalidate: "q_step env s Invalidate
     (s\<lparr>q_db := snd (invalidateLatestPreflight env (q_now s) checks message (q_db s))\<rparr>)"
| q_pick: "claim_candidate (q_now s) (q_db s) = Some c \<Longrightarrow>
     q_step env s (Pick w) (s\<lparr>q_pick := (q_pick s)(w := Some (q_now s, c))\<rparr>)"
| q_take: "q_pick s w = Some (t, c) \<Longrightarrow> claim_check env t c = Inr () \<Longrightarrow>
     q_step env s (Take w) (s\<lparr>q_db := snd (claim_take t w c (q_db s)), q_pick := (q_pick s)(w := None)\<rparr>)"
| q_reject: "q_pick s w = Some (t, c) \<Longrightarrow> claim_check env t c = Inl e \<Longrightarrow>
     q_step env s (Reject w) (s\<lparr>q_db := snd (claim_reject t c e (q_db s)), q_pick := (q_pick s)(w := None)\<rparr>)"
| q_beat: "q_step env s (Beat w) (s\<lparr>q_db := snd (heartbeat (q_now s) i w phase percent message (q_db s))\<rparr>)"
| q_done: "q_step env s (Done w)
     (s\<lparr>q_db := snd (finish env (q_now s) i w succeeded phase percent msg taskResult (q_db s))\<rparr>)"
| q_backup: "q_step env s (Backup w) (s\<lparr>q_db := snd (recordBackup (q_now s) i w location bytes (q_db s))\<rparr>)"

inductive_cases q_stepE: "q_step env s e t"

definition q_init :: "q_state \<Rightarrow> bool" where
  "q_init s \<longleftrightarrow> q_db s = [] \<and> (\<forall>w. q_pick s w = None)"

section \<open>The invariant\<close>

definition active :: "task_row \<Rightarrow> bool" where
  "active r \<longleftrightarrow> tk_status r = Queued \<or> tk_status r = Running"

definition row_ok :: "task_row \<Rightarrow> bool" where
  "row_ok r \<longleftrightarrow> tk_activeSlot r = (if active r then Some SLOT else None)
     \<and> (tk_status r = Queued \<longrightarrow> tk_claimedBy r = None \<and> tk_leaseUntil r = None \<and> tk_attempt r = 0)
     \<and> (tk_status r = Running \<longrightarrow> tk_claimedBy r \<noteq> None \<and> tk_leaseUntil r \<noteq> None \<and> 0 < tk_attempt r
          \<and> tk_startedAt r \<noteq> None)
     \<and> (\<not> active r \<longrightarrow> tk_completedAt r \<noteq> None)
     \<and> (case tk_percent r of None \<Rightarrow> True | Some p \<Rightarrow> 0 \<le> p \<and> p \<le> 100)"

definition db_ok :: "task_db \<Rightarrow> bool" where
  "db_ok db \<longleftrightarrow> distinct (map tk_id db) \<and> (\<forall>r \<in> set db. row_ok r) \<and> length (filter active db) \<le> 1"

definition q_inv :: "q_state \<Rightarrow> bool" where
  "q_inv s \<longleftrightarrow> db_ok (q_db s) \<and> (\<forall>w t c. q_pick s w = Some (t, c) \<longrightarrow> t \<le> q_now s)"

text \<open>An update that keeps rows well formed and never activates a row keeps the table well formed.\<close>

lemma length_filter_mono:
  "(\<And>r. r \<in> set xs \<Longrightarrow> P (f r) \<Longrightarrow> P r) \<Longrightarrow> length (filter P (map f xs)) \<le> length (filter P xs)"
  by (induction xs) auto

lemma db_ok_update:
  assumes "db_ok db" and id: "\<And>r. tk_id (f r) = tk_id r"
    and ok: "\<And>r. r \<in> set db \<Longrightarrow> p r \<Longrightarrow> row_ok r \<Longrightarrow> row_ok (f r)"
    and act: "\<And>r. r \<in> set db \<Longrightarrow> p r \<Longrightarrow> active (f r) \<Longrightarrow> active r"
  shows "db_ok (snd (update_many p f db))"
proof -
  have "distinct (map tk_id (snd (update_many p f db)))"
    using assms(1) update_many_keys [of tk_id f p db] id by (simp add: db_ok_def)
  moreover have "\<forall>r \<in> set (snd (update_many p f db)). row_ok r"
    using assms(1) ok by (auto simp: db_ok_def update_many_def)
  moreover have "length (filter active (snd (update_many p f db))) \<le> length (filter active db)"
    unfolding update_many_def snd_conv using act by (intro length_filter_mono) (auto split: if_splits)
  ultimately show ?thesis using assms(1) by (auto simp: db_ok_def)
qed

lemma snd_lease_result [simp]: "snd (lease_result u) = snd u"
  by (simp add: lease_result_def)

lemma heartbeat_db: "snd (heartbeat now i w phase percent message db) = db \<or>
   (percent_ok percent \<and> phase \<in> set progressPhases \<and>
    snd (heartbeat now i w phase percent message db) = snd (update_many (owned_by i w now)
      (\<lambda>r. r\<lparr>tk_phase := phase, tk_percent := map_option int_of_num percent,
         tk_message := normalizeMessage message, tk_leaseUntil := Some (now + LEASE_MS)\<rparr>) db))"
  by (simp add: heartbeat_def)

lemma finish_db: "snd (finish env now i w succeeded phase percent msg taskResult db) = db \<or>
   (\<exists>signed. percent_ok percent \<and>
    snd (finish env now i w succeeded phase percent msg taskResult db) =
      snd (update_many (owned_by i w now) (finish_row env now succeeded phase percent msg signed) db))"
  by (auto simp: finish_def split: sum.splits)

lemma recordBackup_db: "snd (recordBackup now i w location bytes db) = db \<or>
   snd (recordBackup now i w location bytes db) = snd (update_many (owned_by i w now)
     (\<lambda>r. r\<lparr>tk_backupLocation := Some location, tk_backupBytes := Some (int_of_num bytes)\<rparr>) db)"
  by (simp add: recordBackup_def)

lemma invalidate_db: "snd (invalidateLatestPreflight env now checks message db) = db \<or>
   (\<exists>i sg. snd (invalidateLatestPreflight env now checks message db) =
      snd (invalidate_rows env now i checks message sg db))"
  by (auto simp: invalidateLatestPreflight_def Let_def case_prod_beta split: option.splits sum.splits)

lemma finish_row_frame [simp]:
  "tk_id (finish_row env now b ph pc m sg r) = tk_id r"
  "tk_status (finish_row env now b ph pc m sg r) = (if b then Succeeded else Failed)"
  "tk_activeSlot (finish_row env now b ph pc m sg r) = None"
  "tk_completedAt (finish_row env now b ph pc m sg r) = Some now"
  "tk_percent (finish_row env now b ph pc m sg r) = map_option int_of_num pc"
  "tk_attempt (finish_row env now b ph pc m sg r) = tk_attempt r"
  by (auto simp: finish_row_def Let_def split: option.splits prod.splits)

lemma percent_ok_range: "percent_ok p \<Longrightarrow>
   (case map_option int_of_num p of None \<Rightarrow> True | Some q \<Rightarrow> 0 \<le> q \<and> q \<le> 100)"
  by (auto simp: percent_ok_def split: option.splits)

lemma claim_take_ok: "db_ok db \<Longrightarrow> db_ok (snd (claim_take t w c db))"
  unfolding claim_take_def
  by (rule db_ok_update) (auto simp: row_ok_def active_def still_def split: if_splits)

lemma claim_reject_ok: "db_ok db \<Longrightarrow> db_ok (snd (claim_reject t c e db))"
  unfolding claim_reject_def
  by (rule db_ok_update) (auto simp: row_ok_def active_def)

lemma invalidate_ok: "db_ok db \<Longrightarrow> db_ok (snd (invalidate_rows env now i checks m sg db))"
  unfolding invalidate_rows_def
  by (rule db_ok_update) (auto simp: row_ok_def active_def)

lemma heartbeat_ok: "db_ok db \<Longrightarrow> db_ok (snd (heartbeat now i w phase percent message db))"
  using heartbeat_db [of now i w phase percent message db]
  by (elim disjE conjE; simp only:)
     (rule db_ok_update, auto simp: row_ok_def active_def owned_by_def dest: percent_ok_range)

lemma finish_ok: "db_ok db \<Longrightarrow> db_ok (snd (finish env now i w b phase percent msg r db))"
  using finish_db [of env now i w b phase percent msg r db]
  by (elim disjE exE conjE; simp only:)
     (rule db_ok_update, auto simp: row_ok_def active_def owned_by_def dest: percent_ok_range split: if_splits)

lemma recordBackup_ok: "db_ok db \<Longrightarrow> db_ok (snd (recordBackup now i w location bytes db))"
  using recordBackup_db [of now i w location bytes db]
  by (elim disjE; simp only:) (rule db_ok_update, auto simp: row_ok_def active_def)

lemma submit_ok:
  assumes "db_ok db" and "i \<notin> tk_id ` set db"
  shows "db_ok (snd (tasks_submit env now i payload db))"
proof -
  have free: "filter active db = []" if "\<not> list_ex (\<lambda>r. tk_activeSlot r = Some SLOT) db"
    using assms(1) that by (auto simp: db_ok_def row_ok_def list_ex_iff filter_empty_conv split: if_splits)
  show ?thesis
    using assms free
    by (auto simp: tasks_submit_def Let_def db_ok_def new_task_def row_ok_def active_def split: sum.splits)
qed

lemma q_step_inv: "q_inv s \<Longrightarrow> q_step env s e t \<Longrightarrow> q_inv t"
proof (erule q_step.cases, goal_cases)
  case (1 s ta)
  then show ?case by (fastforce simp: q_inv_def)
next
  case (3 s checks message)
  then show ?case
    using invalidate_db [of env "q_now s" checks message "q_db s"] invalidate_ok by (auto simp: q_inv_def)
next
  case (4 s c w)
  then show ?case by (auto simp: q_inv_def split: if_splits)
qed (auto simp: q_inv_def intro: submit_ok claim_take_ok claim_reject_ok heartbeat_ok finish_ok recordBackup_ok)

interpretation queue: invariant_system q_init "q_step env" q_inv for env
proof unfold_locales
  show "q_init s \<Longrightarrow> q_inv s" for s by (auto simp: q_init_def q_inv_def db_ok_def)
  show "q_inv s \<Longrightarrow> q_step env s e t \<Longrightarrow> q_inv t" for s e t by (rule q_step_inv)
qed

end
