(* ===== verification/Kn_QueueExamples.thy ===== *)
theory Kn_QueueExamples
  imports Kn_QueueSafety
begin

text \<open>Concrete environment, payloads and rows that the witnesses of the queue evaluate.\<close>

definition hex_a :: string where
  "hex_a = replicate 64 CHR ''a''"

definition ex_env :: task_env where
  "ex_env = \<lparr>te_key = Some (concat (replicate 4 ''0123456789abcdef'')), te_hmac = (\<lambda>k m. hex_a),
     te_text = (\<lambda>_. []), te_lc = code_unit_cmp,
     te_date = (\<lambda>s. if s = ''2030'' then Some 1000000 else None)\<rparr>"

definition ex_image :: "string \<Rightarrow> json" where
  "ex_image suffix = JStr (image_prefix suffix @ hex_a)"

definition ex_payload :: json where
  "ex_payload = JObj [(''action'', JStr ''install''), (''targetVersion'', JStr ''v1.2''),
     (''preflightId'', JStr ''p1''), (''preflightExpiresAt'', JStr ''2030''),
     (''backupTargetId'', JStr ''b1''), (''settingsFingerprint'', JStr hex_a),
     (''images'', JObj [(''frontend'', ex_image ''frontend''), (''controlApi'', ex_image ''control-api''),
        (''runtimeGateway'', ex_image ''runtime-gateway'')]),
     (''operator'', JStr ''admin'')]"

lemma ex_valid: "validateTaskPayload ex_env 5 True ex_payload = Inr ()"
  by code_simp

lemma ex_key: "task_key ex_env = Inr (concat (replicate 4 ''0123456789abcdef''))"
  by code_simp

lemma ex_sign: "sign ex_env v = Inr hex_a"
  by (simp add: sign_def ex_key) (simp add: ex_env_def)

lemma ex_hex: "is_lower_hex64 hex_a"
  by code_simp

lemma ex_verify: "verify ex_env v hex_a = Inr True"
  by (simp add: verify_def ex_sign ex_hex)

lemma ex_order: "key_order (te_lc ex_env)"
  by (simp add: ex_env_def code_units.key_order_axioms)

lemma ex_wf: "wf_json ex_payload"
  by code_simp

definition ex_queued :: task_row where
  "ex_queued = new_task ex_env 5 ''t1'' hex_a ex_payload"

definition ex_running :: task_row where
  "ex_running = ex_queued\<lparr>tk_status := Running, tk_phase := ''initializing'', tk_claimedBy := Some ''w1'',
     tk_leaseUntil := Some 30005, tk_attempt := 1, tk_startedAt := Some 5, tk_message := None\<rparr>"

lemma ex_submitted: "tasks_submit ex_env 5 ''t1'' ex_payload [] = (Inr (publicTask ex_queued), [ex_queued])"
  by (simp add: tasks_submit_def ex_valid ex_sign Let_def ex_queued_def)

lemma ex_candidate: "claim_candidate 5 [ex_queued] = Some ex_queued"
  by (simp add: claim_candidate_def find_asc_def claimable_def ex_queued_def new_task_def)

lemma ex_queued_payload: "tk_payload ex_queued = canonicalValue code_unit_cmp ex_payload"
  by (simp add: ex_queued_def new_task_def ex_env_def)

lemma ex_check: "claim_check ex_env 5 ex_queued = Inr ()"
proof -
  have "validateTaskPayload ex_env 5 True (tk_payload ex_queued) = Inr ()"
    unfolding ex_queued_payload by code_simp
  moreover have "\<not> preflight_expired ex_env 5 (tk_payload ex_queued)"
    unfolding ex_queued_payload by code_simp
  moreover have "tk_signature ex_queued = hex_a" by (simp add: ex_queued_def new_task_def)
  ultimately show ?thesis by (simp add: claim_check_def ex_verify)
qed

lemma ex_taken: "claim_take 5 ''w1'' ex_queued [ex_queued] = (1, [ex_running])"
  by (simp add: claim_take_def update_many_def still_def ex_running_def LEASE_MS_def)
     (simp add: ex_queued_def new_task_def)

definition ex_start :: q_state where
  "ex_start = \<lparr>q_db = [], q_now = 5, q_pick = (\<lambda>_. None)\<rparr>"

lemma ex_reach: "reach q_init (q_step ex_env) ex_start"
  by (rule reach_init) (simp add: q_init_def ex_start_def)

lemma ex_reach_queued: "reach q_init (q_step ex_env) (ex_start\<lparr>q_db := [ex_queued]\<rparr>)"
proof (rule reach_step [OF ex_reach])
  show "q_step ex_env ex_start Submit (ex_start\<lparr>q_db := [ex_queued]\<rparr>)"
    using q_submit [of "''t1''" ex_start ex_env ex_payload] by (simp add: ex_start_def ex_submitted)
qed

definition ex_picked :: q_state where
  "ex_picked = \<lparr>q_db = [ex_queued], q_now = 5, q_pick = (\<lambda>_. None)(''w1'' := Some (5, ex_queued))\<rparr>"

definition ex_claimed :: q_state where
  "ex_claimed = \<lparr>q_db = [ex_running], q_now = 5, q_pick = (\<lambda>_. None)\<rparr>"

lemma ex_reach_picked: "reach q_init (q_step ex_env) ex_picked"
proof (rule reach_step [OF ex_reach_queued])
  show "q_step ex_env (ex_start\<lparr>q_db := [ex_queued]\<rparr>) (Pick ''w1'') ex_picked"
    using q_pick [of "ex_start\<lparr>q_db := [ex_queued]\<rparr>" ex_queued ex_env "''w1''"]
    by (simp add: ex_start_def ex_candidate ex_picked_def)
qed

lemma ex_step_take: "q_step ex_env ex_picked (Take ''w1'') ex_claimed"
proof -
  have "(\<lambda>a::string. None :: (time \<times> task_row) option)(''w1'' := None) = (\<lambda>_. None)" by (rule ext) simp
  then show ?thesis
    using q_take [of ex_picked "''w1''" 5 ex_queued ex_env]
    by (simp add: ex_picked_def ex_check ex_taken ex_claimed_def)
qed

lemma ex_reach_claimed: "reach q_init (q_step ex_env) ex_claimed"
  using ex_reach_picked ex_step_take by (rule reach_step)

end
