(* ===== verification/Kn_QueueProps.thy ===== *)
theory Kn_QueueProps
  imports Kn_QueueExamples
begin

text \<open>The properties of the Kubernetes update queue, with their witnesses.\<close>

section \<open>Validation and signatures survive storage\<close>


lemma truthy_canonical [simp]: "truthy (map_option (canonicalValue lc) w) = truthy w"
proof (cases w)
  case (Some a)
  then show ?thesis by (cases a) (auto simp: truthy_def)
qed (simp add: truthy_def)








lemma expiry_ok_unexpired: "expiry_ok env now True w \<Longrightarrow> expiry_ok env t False w"
  by (auto simp: expiry_ok_def string_ok_def split: option.splits)

lemma validate_unexpired:
  assumes "validateTaskPayload env now True v = Inr ()"
  shows "validateTaskPayload env t False v = Inr ()"
proof -
  have "expiry_ok env now True (jget v ''preflightExpiresAt'') \<Longrightarrow> expiry_ok env t False (jget v ''preflightExpiresAt'')"
    by (rule expiry_ok_unexpired)
  with assms show ?thesis
    unfolding validateTaskPayload_def checks_run_Inr payload_checks_def trustedImages_def list.map map_append
      prod.case fst_conv
    by (simp only: list.pred_inject list_all_append id_apply simp_thms) blast
qed


text \<open>
  Verification of a task signature does not depend on the order of the keys of the payload,
  at any depth: reordering an object changes nothing.
\<close>

theorem task_signature_reorder:
  assumes "key_order (te_lc env)" and "reordered v w"
  shows "verify env w sg = verify env v sg"
  using key_order.canonical_reordered [OF assms] by (simp add: verify_def sign_def canonicalJson_def)

lemma task_signature_reorder_witness:
  "verify ex_env (JObj [(''b'', JNull), (''a'', JStr ''x'')]) hex_a
     = verify ex_env (JObj [(''a'', JStr ''x''), (''b'', JNull)]) hex_a"
proof (rule task_signature_reorder [OF ex_order])
  show "reordered (JObj [(''a'', JStr ''x''), (''b'', JNull)]) (JObj [(''b'', JNull), (''a'', JStr ''x'')])"
    by (rule re_obj [where kus = "[(''a'', JStr ''x''), (''b'', JNull)]"])
       (auto intro: reordered.intros)
qed



section \<open>One active task\<close>

text \<open>
  C2. In every reachable state of the queue at most one task is queued or running, and a row holds
  the active slot exactly when it is queued or running.
\<close>

theorem task_single_active:
  assumes "reach q_init (q_step env) s"
  shows "length (filter active (q_db s)) \<le> 1
     \<and> (\<forall>r \<in> set (q_db s). tk_activeSlot r = (if active r then Some SLOT else None))"
  using queue.reach_inv [OF assms] by (auto simp: q_inv_def db_ok_def row_ok_def)

lemma task_single_active_witness:
  "length (filter active (q_db ex_claimed)) \<le> 1 \<and> tk_activeSlot ex_running = Some SLOT"
  using task_single_active [OF ex_reach_claimed]
  by (simp add: ex_claimed_def) (simp add: ex_running_def active_def)

text \<open>
  In a well-formed table a valid payload is accepted by submit exactly when no task is queued
  or running.
\<close>

theorem submit_iff_slot_free:
  assumes "db_ok db" and "validateTaskPayload env now True payload = Inr ()" and "sign env payload = Inr sg"
  shows "(\<exists>v. fst (tasks_submit env now newId payload db) = Inr v) \<longleftrightarrow> (\<forall>r \<in> set db. \<not> active r)"
  using assms by (auto simp: tasks_submit_def Let_def db_ok_def row_ok_def list_ex_iff)

lemma submit_iff_slot_free_witness:
  "(\<exists>v. fst (tasks_submit ex_env 5 ''t1'' ex_payload []) = Inr v)
     \<and> \<not> (\<exists>v. fst (tasks_submit ex_env 5 ''t2'' ex_payload [ex_queued]) = Inr v)"
proof -
  have ok: "db_ok []" by (simp add: db_ok_def)
  have ok1: "db_ok [ex_queued]" using submit_ok [OF ok, of "''t1''" ex_env 5 ex_payload] by (simp add: ex_submitted)
  have "active ex_queued" by (simp add: ex_queued_def new_task_def active_def)
  then show ?thesis
    using submit_iff_slot_free [OF ok ex_valid ex_sign] submit_iff_slot_free [OF ok1 ex_valid ex_sign] by simp
qed

section \<open>The lease\<close>

lemma mem_updated: "r \<in> set db \<Longrightarrow> (if p r then f r else r) \<in> set (snd (update_many p f db))"
  by (auto simp: update_many_def)

lemma mem_unmatched: "r \<in> set db \<Longrightarrow> \<not> p r \<Longrightarrow> r \<in> set (snd (update_many p f db))"
  using mem_updated [of r db p f] by simp

lemma unowned_kept:
  "r \<in> set db \<Longrightarrow> tk_claimedBy r \<noteq> Some w \<Longrightarrow> r \<in> set (snd (update_many (owned_by i w now) f db))"
  by (rule mem_unmatched) (simp_all add: owned_by_def)

lemma heartbeat_other: "r \<in> set db \<Longrightarrow> tk_claimedBy r \<noteq> Some w \<Longrightarrow>
    r \<in> set (snd (heartbeat now i w phase percent message db))"
  using heartbeat_db [of now i w phase percent message db] by (elim disjE conjE) (simp_all add: unowned_kept)

lemma finish_other: "r \<in> set db \<Longrightarrow> tk_claimedBy r \<noteq> Some w \<Longrightarrow>
    r \<in> set (snd (finish env now i w b phase percent msg tr db))"
  using finish_db [of env now i w b phase percent msg tr db] by (elim disjE exE conjE) (simp_all add: unowned_kept)

lemma recordBackup_other: "r \<in> set db \<Longrightarrow> tk_claimedBy r \<noteq> Some w \<Longrightarrow>
    r \<in> set (snd (recordBackup now i w location bytes db))"
  using recordBackup_db [of now i w location bytes db] by (elim disjE) (simp_all add: unowned_kept)

lemma invalidate_other: "r \<in> set db \<Longrightarrow> tk_status r \<noteq> Succeeded \<Longrightarrow>
    r \<in> set (snd (invalidateLatestPreflight env now checks message db))"
  using invalidate_db [of env now checks message db]
  by (elim disjE exE) (simp_all add: invalidate_rows_def mem_unmatched)

lemma submit_keeps: "r \<in> set db \<Longrightarrow> r \<in> set (snd (tasks_submit env now i payload db))"
  by (simp add: tasks_submit_def Let_def split: sum.splits)

lemma not_still: "t \<le> now \<Longrightarrow> tk_status r = Running \<Longrightarrow> tk_leaseUntil r = Some l \<Longrightarrow> now \<le> l \<Longrightarrow> \<not> still t c r"
  by (simp add: still_def lease_before_def)

text \<open>
  C1. While a running task has an unexpired lease, no step of another worker, of a submitter or of
  the clock changes its row: claims, rejections, heartbeats, completions and backup records of
  other workers leave it as it is, even when their candidate was read earlier.
\<close>

theorem task_lease_exclusive:
  assumes "reach q_init (q_step env) s" and "q_step env s e s'"
    and "r \<in> set (q_db s)" and "tk_status r = Running" and "tk_claimedBy r = Some w"
    and "tk_leaseUntil r = Some l" and "q_now s \<le> l" and "event_worker e \<noteq> Some w"
  shows "r \<in> set (q_db s')"
proof -
  have inv: "q_pick s u = Some (t, c) \<Longrightarrow> t \<le> q_now s" for u t c
    using queue.reach_inv [OF assms(1)] unfolding q_inv_def by blast
  have ns: "\<not> still t c r" if "q_pick s u = Some (t, c)" for u t c
    using inv [OF that] assms(4,6,7) by (rule not_still)
  from assms(2) show ?thesis
  proof cases
    case (q_take u t c)
    have "r \<in> set (snd (claim_take t u c (q_db s)))"
      unfolding claim_take_def using assms(3) ns [OF q_take(3)] by (rule mem_unmatched)
    then show ?thesis using q_take by simp
  next
    case (q_reject u t c err)
    have "r \<in> set (snd (claim_reject t c err (q_db s)))"
      unfolding claim_reject_def using assms(3) ns [OF q_reject(3)] by (rule mem_unmatched)
    then show ?thesis using q_reject by simp
  qed (use assms in \<open>auto intro: submit_keeps invalidate_other heartbeat_other finish_other recordBackup_other\<close>)
qed

lemma task_lease_exclusive_witness: "ex_running \<in> set (q_db (ex_claimed\<lparr>q_now := 30000\<rparr>))"
proof (rule task_lease_exclusive [OF ex_reach_claimed, where w = "''w1''" and l = 30005 and e = Tick])
  show "q_step ex_env ex_claimed Tick (ex_claimed\<lparr>q_now := 30000\<rparr>)"
    by (rule q_tick) (simp add: ex_claimed_def)
qed (simp_all add: ex_claimed_def, simp_all add: ex_running_def)

section \<open>The life of a task\<close>

text \<open>The transitions a stored task may make; a task that failed never changes its status again.\<close>

fun allowed :: "string \<Rightarrow> task_status \<Rightarrow> task_status \<Rightarrow> bool" where
  "allowed a Queued y \<longleftrightarrow> y \<noteq> Succeeded"
| "allowed a Running y \<longleftrightarrow> y \<noteq> Queued"
| "allowed a Succeeded y \<longleftrightarrow> y = Succeeded \<or> (y = Failed \<and> a = ''preflight'')"
| "allowed a Failed y \<longleftrightarrow> y = Failed"

definition evolves :: "task_row \<Rightarrow> task_row \<Rightarrow> bool" where
  "evolves r r' \<longleftrightarrow> tk_id r' = tk_id r \<and> tk_action r' = tk_action r \<and> tk_payload r' = tk_payload r
     \<and> tk_signature r' = tk_signature r \<and> tk_createdAt r' = tk_createdAt r
     \<and> tk_attempt r \<le> tk_attempt r' \<and> allowed (tk_action r) (tk_status r) (tk_status r')"

lemma evolves_refl [simp]: "evolves r r"
  by (cases "tk_status r") (simp_all add: evolves_def)

lemma evolves_update:
  assumes "r \<in> set db" and "p r \<Longrightarrow> evolves r (f r)"
  shows "\<exists>r' \<in> set (snd (update_many p f db)). evolves r r'"
  using mem_updated [OF assms(1), of p f] assms(2) by (intro bexI [where x = "if p r then f r else r"]) auto

lemma evolves_self: "r \<in> set db' \<Longrightarrow> \<exists>r' \<in> set db'. evolves r r'"
  by (rule bexI [of _ r]) simp_all

lemma finish_row_evolves: "tk_status r = Running \<Longrightarrow> evolves r (finish_row env now b ph pc m sg r)"
  by (auto simp: evolves_def finish_row_def Let_def split: option.splits prod.splits)

lemma invalidate_evolves:
  "r \<in> set db \<Longrightarrow> \<exists>r' \<in> set (snd (invalidate_rows env now i checks m sg db)). evolves r r'"
  unfolding invalidate_rows_def by (erule evolves_update) (simp add: evolves_def)

lemma take_evolves: "r \<in> set db \<Longrightarrow> \<exists>r' \<in> set (snd (claim_take t w c db)). evolves r r'"
  unfolding claim_take_def by (erule evolves_update) (auto simp: evolves_def still_def split: if_splits)

lemma reject_evolves: "r \<in> set db \<Longrightarrow> \<exists>r' \<in> set (snd (claim_reject t c err db)). evolves r r'"
  unfolding claim_reject_def by (erule evolves_update) (auto simp: evolves_def still_def split: if_splits)

lemma owned_evolves:
  assumes "r \<in> set db" and "tk_status r = Running \<Longrightarrow> evolves r (f r)"
  shows "\<exists>r' \<in> set (snd (update_many (owned_by i w now) f db)). evolves r r'"
  using assms(1) by (rule evolves_update) (use assms(2) in \<open>simp add: owned_by_def\<close>)

lemma beat_evolves: "r \<in> set db \<Longrightarrow> \<exists>r' \<in> set (snd (heartbeat now i w phase percent message db)). evolves r r'"
  using heartbeat_db [of now i w phase percent message db]
  by (elim disjE conjE; simp only:) (erule evolves_self | (erule owned_evolves, simp add: evolves_def))+

lemma done_evolves: "r \<in> set db \<Longrightarrow> \<exists>r' \<in> set (snd (finish env now i w b phase percent msg tr db)). evolves r r'"
  using finish_db [of env now i w b phase percent msg tr db]
  by (elim disjE exE conjE; simp only:) (rule evolves_self owned_evolves, assumption | erule finish_row_evolves)+

lemma backup_evolves: "r \<in> set db \<Longrightarrow> \<exists>r' \<in> set (snd (recordBackup now i w location bytes db)). evolves r r'"
  using recordBackup_db [of now i w location bytes db]
  by (elim disjE; simp only:) (erule evolves_self | (erule owned_evolves, simp add: evolves_def))+

text \<open>
  C18. Every step keeps every stored task with its identity, payload, signature and creation time,
  never decreases its attempt count, and moves its status only along queued to running or failed,
  running to any terminal status, and succeeded to failed for a preflight.
\<close>

theorem task_status_lifecycle:
  assumes "q_step env s e s'" and "r \<in> set (q_db s)"
  shows "\<exists>r' \<in> set (q_db s'). evolves r r'"
  using assms(1)
proof cases
  case (q_submit i payload)
  then show ?thesis using submit_keeps [OF assms(2)] by (auto intro: evolves_self)
next
  case (q_invalidate checks message)
  then show ?thesis using invalidate_db [of env "q_now s" checks message "q_db s"]
      invalidate_evolves [OF assms(2)] evolves_self [OF assms(2)] by auto
qed (use assms(2) in \<open>auto intro: evolves_self take_evolves reject_evolves beat_evolves done_evolves backup_evolves\<close>)

lemma task_status_lifecycle_witness: "\<exists>r' \<in> set (q_db ex_claimed). evolves ex_queued r'"
  by (rule task_status_lifecycle [OF ex_step_take]) (simp add: ex_picked_def)

section \<open>Claiming\<close>

lemma two_active:
  assumes "length (filter P db) \<le> 1" and "distinct (map tk_id db)"
    and "a \<in> set db" and "b \<in> set db" and "P a" and "P b"
  shows "a = b"
proof -
  have "a \<in> set (filter P db)" "b \<in> set (filter P db)" using assms by auto
  then show ?thesis using assms(1) by (cases "filter P db") auto
qed

lemma claimable_active: "claimable now r \<Longrightarrow> active r"
  by (auto simp: claimable_def active_def)

lemma still_only:
  assumes "db_ok db" and "c \<in> set db" and "claimable now c" and "r \<in> set db"
  shows "still now c r \<longleftrightarrow> r = c"
  using assms distinct_key_unique [of tk_id db r c]
  by (auto simp: db_ok_def still_def claimable_def split: if_splits)

lemma update_still:
  assumes "db_ok db" and "c \<in> set db" and "claimable now c"
  shows "snd (update_many (still now c) f db) = map (\<lambda>r. if r = c then f c else r) db"
    and "fst (update_many (still now c) f db) \<noteq> 0"
proof -
  show "snd (update_many (still now c) f db) = map (\<lambda>r. if r = c then f c else r) db"
    using still_only [OF assms] by (auto simp: update_many_def)
  show "fst (update_many (still now c) f db) \<noteq> 0"
    using still_only [OF assms, of c] assms(2) by (auto simp: update_many_zero_iff)
qed

lemma candidate_gone:
  assumes "db_ok db" and "c \<in> set db" and "claimable now c" and "\<not> active x"
  shows "claim_candidate now (map (\<lambda>r. if r = c then x else r) db) = None"
    and "\<forall>r \<in> set (map (\<lambda>r. if r = c then x else r) db). \<not> active r"
proof -
  have "\<not> active r" if "r \<in> set db" "r \<noteq> c" for r
    using two_active [of active db r c] that assms claimable_active [OF assms(3)] by (auto simp: db_ok_def)
  then show "\<forall>r \<in> set (map (\<lambda>r. if r = c then x else r) db). \<not> active r" using assms(4) by auto
  then show "claim_candidate now (map (\<lambda>r. if r = c then x else r) db) = None"
    unfolding claim_candidate_def find_asc_None using claimable_active by blast
qed

lemma claim_candidate_mem: "claim_candidate now db = Some c \<Longrightarrow> c \<in> set db \<and> claimable now c"
  by (simp add: claim_candidate_def find_asc_Some)

lemma claim_loop_reject:
  assumes "db_ok db" and "claim_candidate now db = Some c" and "task_key env = Inr k" and "claim_check env now c = Inl e"
  shows "claim_loop (Suc n) env now w db = (Inr None, snd (claim_reject now c e db))
     \<and> (\<forall>r \<in> set (snd (claim_reject now c e db)). \<not> active r)"
proof -
  note c = claim_candidate_mem [OF assms(2), THEN conjunct1] claim_candidate_mem [OF assms(2), THEN conjunct2]
  note u = update_still [OF assms(1) c] and g = candidate_gone [OF assms(1) c]
  have "claim_candidate now (snd (claim_reject now c e db)) = None"
    unfolding claim_reject_def u(1) by (rule g(1)) (simp add: active_def)
  moreover have "\<forall>r \<in> set (snd (claim_reject now c e db)). \<not> active r"
    unfolding claim_reject_def u(1) by (rule g(2)) (simp add: active_def)
  moreover have "fst (claim_reject now c e db) \<noteq> 0" unfolding claim_reject_def by (rule u(2))
  ultimately show ?thesis by (cases n) (simp_all add: assms Let_def case_prod_beta)
qed

definition taken :: "time \<Rightarrow> string \<Rightarrow> task_row \<Rightarrow> task_row" where
  "taken now w c = c\<lparr>tk_status := Running, tk_phase := ''initializing'', tk_claimedBy := Some w,
     tk_leaseUntil := Some (now + LEASE_MS), tk_attempt := tk_attempt c + 1,
     tk_startedAt := Some (case tk_startedAt c of None \<Rightarrow> now | Some t \<Rightarrow> t), tk_message := None\<rparr>"

lemma claim_loop_take:
  assumes "db_ok db" and "claim_candidate now db = Some c" and "task_key env = Inr k" and "claim_check env now c = Inr ()"
  shows "claim_loop (Suc n) env now w db =
    (tasks_get env now (tk_id c) (map (\<lambda>r. if r = c then taken now w c else r) db),
     map (\<lambda>r. if r = c then taken now w c else r) db)"
proof -
  note c = claim_candidate_mem [OF assms(2), THEN conjunct1] claim_candidate_mem [OF assms(2), THEN conjunct2]
  note u = update_still [OF assms(1) c]
  have "snd (claim_take now w c db) = map (\<lambda>r. if r = c then taken now w c else r) db"
    unfolding claim_take_def u(1) taken_def by (rule refl)
  moreover have "fst (claim_take now w c db) \<noteq> 0" unfolding claim_take_def by (rule u(2))
  ultimately show ?thesis by (simp add: assms Let_def case_prod_beta)
qed

lemma find_replaced:
  assumes "distinct (map tk_id db)" and "c \<in> set db" and "tk_id x = tk_id c"
  shows "find (\<lambda>r. tk_id r = tk_id c) (map (\<lambda>r. if r = c then x else r) db) = Some x"
proof -
  have d: "distinct (map tk_id (map (\<lambda>r. if r = c then x else r) db))"
  proof -
    have "map tk_id (map (\<lambda>r. if r = c then x else r) db) = map tk_id db" by (auto simp: assms(3))
    then show ?thesis using assms(1) by (simp only:)
  qed
  have "x \<in> set (map (\<lambda>r. if r = c then x else r) db)" using assms(2) by auto
  from find_key [OF d this] show ?thesis by (simp add: assms(3))
qed

lemma claim_check_parts:
  "claim_check env now c = Inr () \<longleftrightarrow> validateTaskPayload env now True (tk_payload c) = Inr ()
     \<and> verify env (tk_payload c) (tk_signature c) = Inr True \<and> \<not> preflight_expired env now (tk_payload c)"
  by (auto simp: claim_check_def rbind_Inr_iff guard_Inr_iff)

lemma claim_loop_none: "claim_candidate now db = None \<Longrightarrow> claim_loop (Suc n) env now w db = (Inr None, db)"
  by simp

lemma claim_loop_nokey:
  "claim_candidate now db = Some c \<Longrightarrow> task_key env = Inl e \<Longrightarrow> claim_loop (Suc n) env now w db = (Inl e, db)"
  by simp

text \<open>
  C5. A task returned by claimNext was the oldest claimable row, passed payload validation, its
  signature matches its payload and its preflight has not expired; the only change of the table is
  that this row is now running under the worker with a fresh 30 second lease and one more attempt.
\<close>

theorem claimNext_verified:
  assumes "db_ok db" and "claimNext env now w db = (Inr (Some v), db')"
  shows "\<exists>c. claim_candidate now db = Some c \<and> validateTaskPayload env now True (tk_payload c) = Inr ()
     \<and> verify env (tk_payload c) (tk_signature c) = Inr True \<and> \<not> preflight_expired env now (tk_payload c)
     \<and> db' = map (\<lambda>r. if r = c then taken now w c else r) db \<and> v = publicTask (taken now w c)"
proof -
  have l: "claim_loop (Suc 9) env now w db = (Inr (Some v), db')"
    using assms(2) by (simp add: claimNext_def split: if_splits)
  obtain c where c: "claim_candidate now db = Some c"
    using l claim_loop_none [of now db 9 env w] by (cases "claim_candidate now db") simp_all
  obtain k where k: "task_key env = Inr k"
    using l claim_loop_nokey [OF c, of env _ 9 w] by (cases "task_key env") auto
  have ok: "claim_check env now c = Inr ()"
  proof (cases "claim_check env now c")
    case (Inl e)
    then show ?thesis using claim_loop_reject [OF assms(1) c k Inl, of 9 w] l by simp
  qed simp
  have t: "tk_id (taken now w c) = tk_id c" by (simp add: taken_def)
  have "find (\<lambda>r. tk_id r = tk_id c) (map (\<lambda>r. if r = c then taken now w c else r) db) = Some (taken now w c)"
    using assms(1) claim_candidate_mem [OF c] t by (intro find_replaced) (auto simp: db_ok_def)
  then show ?thesis
    using claim_loop_take [OF assms(1) c k ok, of 9 w] l c ok
    by (auto simp: tasks_get_def rbind_Inr_iff verifiedPublicTask_def claim_check_parts)
qed

text \<open>
  C13. When the task a worker would claim fails validation, signature or expiry checks, claimNext
  returns nothing, the row becomes failed in phase rejected with its slot released, and no active
  task is left, so the queue is not blocked by it.
\<close>

theorem claim_rejects_invalid:
  assumes "db_ok db" and "nonblank w" and "length w \<le> 128" and "task_key env = Inr k"
    and "claim_candidate now db = Some c" and "claim_check env now c = Inl e"
  shows "fst (claimNext env now w db) = Inr None
     \<and> (\<forall>r \<in> set (snd (claimNext env now w db)). \<not> active r)
     \<and> (\<exists>r \<in> set (snd (claimNext env now w db)). tk_id r = tk_id c \<and> tk_status r = Failed
          \<and> tk_phase r = ''rejected'' \<and> tk_activeSlot r = None \<and> tk_completedAt r = Some now)"
proof -
  note l = claim_loop_reject [OF assms(1,5,4,6), of 9 w]
  have eq: "claimNext env now w db = claim_loop (Suc 9) env now w db"
    using assms(2,3) by (simp add: claimNext_def)
  note c = claim_candidate_mem [OF assms(5), THEN conjunct1] claim_candidate_mem [OF assms(5), THEN conjunct2]
  have "\<exists>r \<in> set (snd (claim_reject now c e db)). tk_id r = tk_id c \<and> tk_status r = Failed
          \<and> tk_phase r = ''rejected'' \<and> tk_activeSlot r = None \<and> tk_completedAt r = Some now"
    unfolding claim_reject_def update_still(1) [OF assms(1) c] using c(1) by auto
  then show ?thesis unfolding eq using l by simp
qed

section \<open>Progress and completion\<close>

lemma lease_result_iff: "fst (lease_result (update_many p f db)) = Inr () \<longleftrightarrow> (\<exists>r \<in> set db. p r)"
  by (simp add: lease_result_def update_many_zero_iff)

text \<open>
  A heartbeat with a valid phase and percentage succeeds exactly when the worker owns the
  running task under an unexpired lease; then the lease is extended to 30 seconds from now,
  otherwise the call fails and the table is unchanged.
\<close>

theorem heartbeat_renews_iff_owned:
  assumes "phase \<in> set progressPhases" and "percent_ok percent"
  shows "if \<exists>r \<in> set db. owned_by i w now r
     then fst (heartbeat now i w phase percent message db) = Inr ()
       \<and> (\<exists>r \<in> set (snd (heartbeat now i w phase percent message db)). tk_id r = i \<and> tk_claimedBy r = Some w
          \<and> tk_status r = Running \<and> tk_leaseUntil r = Some (now + LEASE_MS) \<and> tk_phase r = phase)
     else (\<exists>e. fst (heartbeat now i w phase percent message db) = Inl e)
       \<and> snd (heartbeat now i w phase percent message db) = db"
proof -
  let ?f = "\<lambda>r. r\<lparr>tk_phase := phase, tk_percent := map_option int_of_num percent,
         tk_message := normalizeMessage message, tk_leaseUntil := Some (now + LEASE_MS)\<rparr>"
  have eq: "heartbeat now i w phase percent message db = lease_result (update_many (owned_by i w now) ?f db)"
    using assms by (simp add: heartbeat_def)
  have pos: "\<exists>r \<in> set (snd (update_many (owned_by i w now) ?f db)). tk_id r = i \<and> tk_claimedBy r = Some w
          \<and> tk_status r = Running \<and> tk_leaseUntil r = Some (now + LEASE_MS) \<and> tk_phase r = phase"
    if "r \<in> set db" "owned_by i w now r" for r
    using mem_updated [OF that(1), of "owned_by i w now" ?f] that(2)
    by (intro bexI [where x = "?f r"]) (auto simp: owned_by_def)
  have "fst (update_many (owned_by i w now) ?f db) = 0" if "\<not> (\<exists>r \<in> set db. owned_by i w now r)"
    using that by (simp add: update_many_zero_iff)
  then show ?thesis
    using pos lease_result_iff [of "owned_by i w now" ?f db] update_many_zero [of "owned_by i w now" ?f db]
    unfolding eq by (auto simp: lease_result_def)
qed

text \<open>
  A successful finish was called by the owner of an unexpired lease, leaves the task in the
  requested terminal status with its lease cleared, and leaves no active task, so the next
  submission can enter.
\<close>

theorem finish_frees_slot:
  assumes "db_ok db" and "fst (finish env now i w succeeded phase percent msg tr db) = Inr ()"
  shows "(\<exists>r \<in> set db. owned_by i w now r)
     \<and> (\<forall>r \<in> set (snd (finish env now i w succeeded phase percent msg tr db)). \<not> active r)
     \<and> (\<exists>r \<in> set (snd (finish env now i w succeeded phase percent msg tr db)). tk_id r = i
          \<and> tk_status r = (if succeeded then Succeeded else Failed) \<and> tk_phase r = phase
          \<and> tk_leaseUntil r = None \<and> tk_completedAt r = Some now)"
proof -
  from assms(2) obtain sg where eq: "finish env now i w succeeded phase percent msg tr db = lease_result (update_many
      (owned_by i w now) (finish_row env now succeeded phase percent msg sg) db)"
    by (auto simp: finish_def split: if_splits sum.splits)
  then obtain r where r: "r \<in> set db" "owned_by i w now r" using assms(2) lease_result_iff by metis
  have act: "active r" using r(2) by (simp add: owned_by_def active_def)
  have other: "q = r" if "q \<in> set db" "active q" for q
    using two_active [of active db q r] that r act assms(1) by (auto simp: db_ok_def)
  have "\<forall>q \<in> set (snd (update_many (owned_by i w now) (finish_row env now succeeded phase percent msg sg) db)). \<not> active q"
    using other r(2) by (auto simp: update_many_def active_def split: if_splits)
  moreover have "finish_row env now succeeded phase percent msg sg r \<in>
      set (snd (update_many (owned_by i w now) (finish_row env now succeeded phase percent msg sg) db))"
    using mem_updated [OF r(1)] r(2) by (metis (full_types))
  moreover have "tk_phase (finish_row env now succeeded phase percent msg sg r) = phase"
      "tk_leaseUntil (finish_row env now succeeded phase percent msg sg r) = None"
    by (auto simp: finish_row_def Let_def split: option.splits prod.splits)
  moreover have "tk_id r = i" using r(2) by (simp add: owned_by_def)
  ultimately show ?thesis unfolding eq snd_lease_result using r
    by (intro conjI bexI [where x = r] bexI [where x = "finish_row env now succeeded phase percent msg sg r"]) simp_all
qed

lemma ex_ok_queued: "db_ok [ex_queued]"
  using submit_ok [of "[]" "''t1''" ex_env 5 ex_payload] by (simp add: ex_submitted db_ok_def)

lemma ex_ok_running: "db_ok [ex_running]"
  using claim_take_ok [OF ex_ok_queued, of 5 "''w1''" ex_queued] by (simp add: ex_taken)

lemma ex_taken_running: "taken 5 ''w1'' ex_queued = ex_running"
  by (simp add: taken_def ex_running_def LEASE_MS_def) (simp add: ex_queued_def new_task_def)

lemma ex_claim: "claimNext ex_env 5 ''w1'' [ex_queued] = (Inr (Some (publicTask ex_running)), [ex_running])"
proof -
  have w: "nonblank ''w1''" by code_simp
  have p: "verifiedPublicTask ex_env 5 ex_running = Inr (publicTask ex_running)"
  proof -
    have "validateTaskPayload ex_env 5 False (tk_payload ex_running) = Inr ()"
      using ex_check validate_unexpired [of ex_env 5 "tk_payload ex_queued" 5]
      by (simp add: claim_check_parts ex_running_def)
    then show ?thesis
      by (simp add: verifiedPublicTask_def) (simp add: ex_running_def ex_queued_def new_task_def ex_verify result_signed_def)
  qed
  have i: "tk_id ex_running = tk_id ex_queued" by (simp add: ex_running_def)
  show ?thesis
    using claim_loop_take [OF ex_ok_queued ex_candidate ex_key ex_check, of 9 "''w1''"] w
    by (simp add: claimNext_def ex_taken_running tasks_get_def i p)
qed

lemma claimNext_verified_witness:
  "claim_candidate 5 [ex_queued] = Some ex_queued \<and> (\<exists>c. publicTask ex_running = publicTask (taken 5 ''w1'' c))"
  using claimNext_verified [OF ex_ok_queued ex_claim] ex_candidate by metis

text \<open>A queued row whose stored signature is not the one its payload has.\<close>

definition ex_forged :: task_row where
  "ex_forged = ex_queued\<lparr>tk_signature := replicate 64 CHR ''b''\<rparr>"

lemma ex_forged_check: "claim_check ex_env 5 ex_forged = Inl (Internal ''signature does not match task payload'')"
proof -
  have "is_lower_hex64 (replicate 64 CHR ''b'')" "hex_a \<noteq> replicate 64 CHR ''b''" by code_simp+
  then have "verify ex_env (tk_payload ex_forged) (tk_signature ex_forged) = Inr False"
    by (simp add: verify_def ex_sign ex_forged_def)
  moreover have "validateTaskPayload ex_env 5 True (tk_payload ex_forged) = Inr ()"
    using ex_check by (simp add: claim_check_parts ex_forged_def)
  ultimately show ?thesis by (simp add: claim_check_def)
qed

lemma claim_rejects_invalid_witness: "fst (claimNext ex_env 5 ''w1'' [ex_forged]) = Inr None"
proof -
  have ok: "db_ok [ex_forged]"
    using ex_ok_queued by (simp add: db_ok_def ex_forged_def row_ok_def active_def)
  have w: "nonblank ''w1''" by code_simp
  have c: "claim_candidate 5 [ex_forged] = Some ex_forged"
    by (simp add: claim_candidate_def find_asc_def claimable_def ex_forged_def ex_queued_def new_task_def)
  show ?thesis using claim_rejects_invalid [OF ok w _ ex_key c ex_forged_check] by simp
qed

lemma ex_owned: "owned_by ''t1'' ''w1'' 30000 ex_running"
  by (simp add: owned_by_def ex_running_def) (simp add: ex_queued_def new_task_def)

lemma heartbeat_renews_iff_owned_witness:
  "fst (heartbeat 30000 ''t1'' ''w1'' ''backing-up'' (Some (num 20)) None [ex_running]) = Inr ()"
  using heartbeat_renews_iff_owned [of "''backing-up''" "Some (num 20)" "[ex_running]" "''t1''" "''w1''" 30000 None] ex_owned
  by (simp add: progressPhases_def percent_ok_def)

lemma finish_frees_slot_witness:
  "filter active (snd (finish ex_env 30000 ''t1'' ''w1'' True ''completed'' None [] None [ex_running])) = []"
proof -
  have "fst (finish ex_env 30000 ''t1'' ''w1'' True ''completed'' None [] None [ex_running]) = Inr ()"
    using ex_owned by (simp add: finish_def terminal_phase_def percent_ok_def sign_optional_def lease_result_iff)
  from finish_frees_slot [OF ex_ok_running this] show ?thesis by (simp add: filter_empty_conv)
qed

end
