(* ===== verification/Kn_Watch.thy ===== *)
theory Kn_Watch
  imports Kn_Json
begin

text \<open>
  The watch manager of the control API: clusters/cluster-event-sync.service.ts.

  The service keeps, per cluster, a watch generation, the handles of its open watches, a debounce
  timer, a restart timer and a failure count. Its asynchronous methods are split at their awaits:
  a run of \<open>startForCluster\<close> is a process of the state, and every resumption, callback and timer is
  an operation of its own, so that any interleaving of them is a sequence of operations. Watches
  are identified by numbers; \<open>client-node\<close> itself and the logger are not modelled. The clock is an
  argument, timers hold the instant they are due.
\<close>

section \<open>Data\<close>

datatype target_kind = KNamespaces | KPods | KDeployments | KReplicasets | KStatefulsets | KDaemonsets
  | KJobs | KCronjobs | KServices | KEndpoints | KEndpointSlices | KIngresses | KNetworkPolicies
  | KIngressroutes | KConfigmaps | KSecrets | KServiceaccounts | KPvs | KPvcs | KStorageclasses

record watch_target =
  wt_path :: string
  wt_kind :: target_kind

datatype domain = DWorkloads | DNetwork | DConfigs | DStorage | DNamespaces | DClusters

datatype rt_action = Upsert | Delete | Unknown

record snapshot =
  sn_apiVersion :: "string option"
  sn_kind :: "string option"
  sn_name :: "string option"
  sn_namespace :: "string option"
  sn_uid :: "string option"
  sn_resourceVersion :: "string option"
  sn_labels :: "json option"
  sn_annotations :: "json option"
  sn_state :: "string option"

record rt_event =
  re_cluster :: string
  re_domains :: "domain list"
  re_kind :: target_kind
  re_phase :: string
  re_action :: rt_action
  re_resource :: snapshot
  re_timestamp :: time

text \<open>
  A watch: \<open>cn_open\<close> once the call that opens it has returned, \<open>cn_stopped\<close> the flag its callbacks
  read, \<open>cn_aborted\<close> once its controller was aborted.
\<close>

record conn =
  cn_cluster :: string
  cn_gen :: nat
  cn_target :: watch_target
  cn_open :: bool
  cn_stopped :: bool
  cn_aborted :: bool

text \<open>Where a run of \<open>startForCluster\<close> is suspended.\<close>

datatype pr_point = AwaitConfig | Looping | Opening nat

record proc =
  pr_cluster :: string
  pr_gen :: nat
  pr_left :: "watch_target list"
  pr_handles :: "nat list"
  pr_at :: pr_point

record ws_state =
  ws_gen :: "string \<Rightarrow> nat option"
  ws_watches :: "string \<Rightarrow> nat list option"
  ws_debounce :: "string \<Rightarrow> time option"
  ws_restart :: "string \<Rightarrow> (time \<times> nat) option"
  ws_failures :: "string \<Rightarrow> nat option"
  ws_dirty :: "string set"
  ws_conns :: "nat \<Rightarrow> conn option"
  ws_procs :: "nat \<Rightarrow> proc option"
  ws_pending :: "string list"
  ws_events :: "rt_event list"
  ws_syncs :: "(string \<times> string) list"

definition debounceMs :: int where "debounceMs = 1500"
definition restartBaseDelayMs :: int where "restartBaseDelayMs = 30000"
definition restartMaxDelayMs :: int where "restartMaxDelayMs = 600000"

definition ws_start :: ws_state where
  "ws_start = \<lparr>ws_gen = (\<lambda>_. None), ws_watches = (\<lambda>_. None), ws_debounce = (\<lambda>_. None),
     ws_restart = (\<lambda>_. None), ws_failures = (\<lambda>_. None), ws_dirty = {}, ws_conns = (\<lambda>_. None),
     ws_procs = (\<lambda>_. None), ws_pending = [], ws_events = [], ws_syncs = []\<rparr>"

section \<open>Events\<close>

fun mapDomains :: "target_kind \<Rightarrow> domain list" where
  "mapDomains KDeployments = [DWorkloads]"
| "mapDomains KReplicasets = [DWorkloads]"
| "mapDomains KStatefulsets = [DWorkloads]"
| "mapDomains KDaemonsets = [DWorkloads]"
| "mapDomains KJobs = [DWorkloads]"
| "mapDomains KCronjobs = [DWorkloads]"
| "mapDomains KPods = [DWorkloads]"
| "mapDomains KServices = [DNetwork]"
| "mapDomains KEndpoints = [DNetwork]"
| "mapDomains KEndpointSlices = [DNetwork]"
| "mapDomains KIngresses = [DNetwork]"
| "mapDomains KNetworkPolicies = [DNetwork]"
| "mapDomains KIngressroutes = [DNetwork]"
| "mapDomains KConfigmaps = [DConfigs]"
| "mapDomains KSecrets = [DConfigs]"
| "mapDomains KServiceaccounts = [DConfigs]"
| "mapDomains KPvs = [DStorage]"
| "mapDomains KPvcs = [DStorage]"
| "mapDomains KStorageclasses = [DStorage]"
| "mapDomains KNamespaces = [DNamespaces, DWorkloads, DNetwork, DConfigs, DStorage]"

definition object_of :: "json option \<Rightarrow> json option" where
  "object_of v = (case v of None \<Rightarrow> None | Some w \<Rightarrow> if is_object w then Some w else None)"

definition extractResourceSnapshot :: "json option \<Rightarrow> snapshot" where
  "extractResourceSnapshot apiObj =
    (case object_of apiObj of
       None \<Rightarrow> \<lparr>sn_apiVersion = None, sn_kind = None, sn_name = None, sn_namespace = None, sn_uid = None,
         sn_resourceVersion = None, sn_labels = None, sn_annotations = None, sn_state = None\<rparr>
     | Some object \<Rightarrow> (let metadata = object_of (jget object ''metadata'') in
        \<lparr>sn_apiVersion = jstring (jget object ''apiVersion''),
         sn_kind = jstring (jget object ''kind''),
         sn_name = jstring (jget_opt metadata ''name''),
         sn_namespace = jstring (jget_opt metadata ''namespace''),
         sn_uid = jstring (jget_opt metadata ''uid''),
         sn_resourceVersion = jstring (jget_opt metadata ''resourceVersion''),
         sn_labels = object_of (jget_opt metadata ''labels''),
         sn_annotations = object_of (jget_opt metadata ''annotations''),
         sn_state = (case jstring (jget object ''state'') of Some s \<Rightarrow> Some s
           | None \<Rightarrow> (if jstring (jget_opt metadata ''deletionTimestamp'') \<noteq> None
                      then Some ''deleted'' else None))\<rparr>))"

definition event_action :: "string \<Rightarrow> rt_action" where
  "event_action phase = (let p = js_lower (js_trim phase) in
     if js_includes ''delete'' p \<or> js_includes ''removed'' p then Delete
     else if js_includes ''add'' p \<or> js_includes ''modify'' p \<or> js_includes ''update'' p then Upsert
     else Unknown)"

definition buildRealtimeEvent :: "time \<Rightarrow> string \<Rightarrow> watch_target \<Rightarrow> string \<Rightarrow> json option \<Rightarrow> rt_event" where
  "buildRealtimeEvent now clusterId target phase apiObj =
     \<lparr>re_cluster = clusterId, re_domains = mapDomains (wt_kind target), re_kind = wt_kind target,
      re_phase = phase, re_action = event_action phase,
      re_resource = extractResourceSnapshot apiObj, re_timestamp = now\<rparr>"

definition emitRealtimeEvent :: "rt_event \<Rightarrow> ws_state \<Rightarrow> ws_state" where
  "emitRealtimeEvent e s = s\<lparr>ws_events := ws_events s @ [e]\<rparr>"

section \<open>Dirty marks, debounce and sync\<close>

definition markClusterDirty :: "string \<Rightarrow> ws_state \<Rightarrow> ws_state" where
  "markClusterDirty c s = s\<lparr>ws_dirty := insert c (ws_dirty s)\<rparr>"

definition consumeClusterDirty :: "string \<Rightarrow> ws_state \<Rightarrow> bool \<times> ws_state" where
  "consumeClusterDirty c s =
     (if c \<notin> ws_dirty s then (False, s) else (True, s\<lparr>ws_dirty := ws_dirty s - {c}\<rparr>))"

definition scheduleSync :: "time \<Rightarrow> string \<Rightarrow> ws_state \<Rightarrow> ws_state" where
  "scheduleSync now c s = s\<lparr>ws_debounce := (ws_debounce s)(c := Some (now + debounceMs))\<rparr>"

text \<open>\<open>kubeconfig\<close> is what the clusters service returns; the sync it starts is recorded.\<close>

definition runSync :: "string \<Rightarrow> string option \<Rightarrow> ws_state \<Rightarrow> ws_state" where
  "runSync c kubeconfig s = (let s1 = s\<lparr>ws_debounce := (ws_debounce s)(c := None)\<rparr> in
     case kubeconfig of None \<Rightarrow> s1 | Some k \<Rightarrow> s1\<lparr>ws_syncs := ws_syncs s1 @ [(c, k)]\<rparr>)"

section \<open>Generations and restarts\<close>

definition isCurrentWatchGeneration :: "string \<Rightarrow> nat \<Rightarrow> ws_state \<Rightarrow> bool" where
  "isCurrentWatchGeneration c g s \<longleftrightarrow> ws_gen s c = Some g"

definition gen_of :: "ws_state \<Rightarrow> string \<Rightarrow> nat" where
  "gen_of s c = (case ws_gen s c of None \<Rightarrow> 0 | Some g \<Rightarrow> g)"

definition failures_of :: "ws_state \<Rightarrow> string \<Rightarrow> nat" where
  "failures_of s c = (case ws_failures s c of None \<Rightarrow> 0 | Some n \<Rightarrow> n)"

definition getRestartDelayMs :: "string \<Rightarrow> ws_state \<Rightarrow> int \<times> ws_state" where
  "getRestartDelayMs c s = (let failures = failures_of s c + 1;
       delay = restartBaseDelayMs * 2 ^ min (failures - 1) 5 in
     (min delay restartMaxDelayMs, s\<lparr>ws_failures := (ws_failures s)(c := Some failures)\<rparr>))"

definition scheduleRestart :: "time \<Rightarrow> string \<Rightarrow> nat \<Rightarrow> ws_state \<Rightarrow> ws_state" where
  "scheduleRestart now c g s =
     (if \<not> isCurrentWatchGeneration c g s then s
      else if ws_restart s c \<noteq> None then s
      else (let (delayMs, s1) = getRestartDelayMs c s in
        s1\<lparr>ws_restart := (ws_restart s1)(c := Some (now + delayMs, g))\<rparr>))"

text \<open>Running the abort functions of a list of handles.\<close>

definition abort_conn :: "conn \<Rightarrow> conn" where
  "abort_conn k = k\<lparr>cn_stopped := True, cn_aborted := True\<rparr>"

definition abort_handles :: "nat list \<Rightarrow> ws_state \<Rightarrow> ws_state" where
  "abort_handles hs s = s\<lparr>ws_conns :=
     (\<lambda>h. if h \<in> set hs then map_option abort_conn (ws_conns s h) else ws_conns s h)\<rparr>"

definition stopForCluster :: "string \<Rightarrow> ws_state \<Rightarrow> ws_state" where
  "stopForCluster c s =
     (let s1 = s\<lparr>ws_gen := (ws_gen s)(c := Some (gen_of s c + 1)), ws_restart := (ws_restart s)(c := None)\<rparr> in
      case ws_watches s1 c of None \<Rightarrow> s1
      | Some existing \<Rightarrow> (let s2 = abort_handles existing s1 in s2\<lparr>ws_watches := (ws_watches s2)(c := None)\<rparr>))"

definition ensureClusterWatching :: "string \<Rightarrow> ws_state \<Rightarrow> ws_state" where
  "ensureClusterWatching c s = s\<lparr>ws_pending := c # ws_pending s\<rparr>"

definition buildTargets :: "watch_target list" where
  "buildTargets =
    [\<lparr>wt_path = ''/api/v1/namespaces'', wt_kind = KNamespaces\<rparr>,
     \<lparr>wt_path = ''/api/v1/pods'', wt_kind = KPods\<rparr>,
     \<lparr>wt_path = ''/apis/apps/v1/deployments'', wt_kind = KDeployments\<rparr>,
     \<lparr>wt_path = ''/apis/apps/v1/replicasets'', wt_kind = KReplicasets\<rparr>,
     \<lparr>wt_path = ''/apis/apps/v1/statefulsets'', wt_kind = KStatefulsets\<rparr>,
     \<lparr>wt_path = ''/apis/apps/v1/daemonsets'', wt_kind = KDaemonsets\<rparr>,
     \<lparr>wt_path = ''/apis/batch/v1/jobs'', wt_kind = KJobs\<rparr>,
     \<lparr>wt_path = ''/apis/batch/v1/cronjobs'', wt_kind = KCronjobs\<rparr>,
     \<lparr>wt_path = ''/api/v1/services'', wt_kind = KServices\<rparr>,
     \<lparr>wt_path = ''/api/v1/endpoints'', wt_kind = KEndpoints\<rparr>,
     \<lparr>wt_path = ''/apis/discovery.k8s.io/v1/endpointslices'', wt_kind = KEndpointSlices\<rparr>,
     \<lparr>wt_path = ''/apis/networking.k8s.io/v1/ingresses'', wt_kind = KIngresses\<rparr>,
     \<lparr>wt_path = ''/apis/networking.k8s.io/v1/networkpolicies'', wt_kind = KNetworkPolicies\<rparr>,
     \<lparr>wt_path = ''/apis/traefik.io/v1alpha1/ingressroutes'', wt_kind = KIngressroutes\<rparr>,
     \<lparr>wt_path = ''/apis/traefik.containo.us/v1alpha1/ingressroutes'', wt_kind = KIngressroutes\<rparr>,
     \<lparr>wt_path = ''/api/v1/configmaps'', wt_kind = KConfigmaps\<rparr>,
     \<lparr>wt_path = ''/api/v1/secrets'', wt_kind = KSecrets\<rparr>,
     \<lparr>wt_path = ''/api/v1/serviceaccounts'', wt_kind = KServiceaccounts\<rparr>,
     \<lparr>wt_path = ''/api/v1/persistentvolumes'', wt_kind = KPvs\<rparr>,
     \<lparr>wt_path = ''/api/v1/persistentvolumeclaims'', wt_kind = KPvcs\<rparr>,
     \<lparr>wt_path = ''/apis/storage.k8s.io/v1/storageclasses'', wt_kind = KStorageclasses\<rparr>]"

section \<open>A run of startForCluster, split at its awaits\<close>

definition startForCluster :: "string \<Rightarrow> nat \<Rightarrow> ws_state \<Rightarrow> ws_state" where
  "startForCluster c p s = (let s1 = stopForCluster c s; g = gen_of s1 c + 1 in
     s1\<lparr>ws_gen := (ws_gen s1)(c := Some g), ws_procs := (ws_procs s1)(p :=
        Some \<lparr>pr_cluster = c, pr_gen = g, pr_left = buildTargets, pr_handles = [], pr_at = AwaitConfig\<rparr>)\<rparr>)"

text \<open>The kubeconfig arrives: an absent one ends the run.\<close>

definition start_configured :: "nat \<Rightarrow> proc \<Rightarrow> bool \<Rightarrow> ws_state \<Rightarrow> ws_state" where
  "start_configured p r found s = s\<lparr>ws_procs := (ws_procs s)(p :=
     (if found then Some (r\<lparr>pr_at := Looping\<rparr>) else None))\<rparr>"

text \<open>After the loop.\<close>

definition start_done :: "nat \<Rightarrow> proc \<Rightarrow> ws_state \<Rightarrow> ws_state" where
  "start_done p r s = (let s1 = s\<lparr>ws_procs := (ws_procs s)(p := None)\<rparr>; c = pr_cluster r in
     if \<not> isCurrentWatchGeneration c (pr_gen r) s1 then abort_handles (pr_handles r) s1
     else (let s2 = s1\<lparr>ws_watches := (ws_watches s1)(c := Some (pr_handles r))\<rparr> in
       if length (pr_handles r) = length buildTargets
       then s2\<lparr>ws_failures := (ws_failures s2)(c := None)\<rparr> else s2))"

text \<open>One turn of the loop up to its await; \<open>h\<close> names the new watch.\<close>

definition start_next :: "nat \<Rightarrow> proc \<Rightarrow> nat \<Rightarrow> ws_state \<Rightarrow> ws_state" where
  "start_next p r h s = (case pr_left r of [] \<Rightarrow> start_done p r s
     | t # ts \<Rightarrow> (if \<not> isCurrentWatchGeneration (pr_cluster r) (pr_gen r) s then start_done p r s
        else s\<lparr>ws_procs := (ws_procs s)(p := Some (r\<lparr>pr_left := ts, pr_at := Opening h\<rparr>)),
               ws_conns := (ws_conns s)(h := Some \<lparr>cn_cluster = pr_cluster r, cn_gen = pr_gen r,
                 cn_target = t, cn_open = False, cn_stopped = False, cn_aborted = False\<rparr>)\<rparr>))"

definition start_opened :: "nat \<Rightarrow> proc \<Rightarrow> nat \<Rightarrow> conn \<Rightarrow> ws_state \<Rightarrow> ws_state" where
  "start_opened p r h k s =
     (if \<not> isCurrentWatchGeneration (pr_cluster r) (pr_gen r) s
      then s\<lparr>ws_procs := (ws_procs s)(p := Some (r\<lparr>pr_at := Looping\<rparr>)),
             ws_conns := (ws_conns s)(h := Some (k\<lparr>cn_open := True, cn_aborted := True\<rparr>))\<rparr>
      else s\<lparr>ws_procs := (ws_procs s)(p := Some (r\<lparr>pr_at := Looping, pr_handles := pr_handles r @ [h]\<rparr>)),
             ws_conns := (ws_conns s)(h := Some (k\<lparr>cn_open := True\<rparr>))\<rparr>)"

definition start_failed :: "time \<Rightarrow> nat \<Rightarrow> proc \<Rightarrow> ws_state \<Rightarrow> ws_state" where
  "start_failed now p r s = (let s1 = s\<lparr>ws_procs := (ws_procs s)(p := Some (r\<lparr>pr_at := Looping\<rparr>))\<rparr> in
     if \<not> isCurrentWatchGeneration (pr_cluster r) (pr_gen r) s1 then s1
     else scheduleRestart now (pr_cluster r) (pr_gen r) (markClusterDirty (pr_cluster r) s1))"

section \<open>Callbacks and timers\<close>

definition silenced :: "conn \<Rightarrow> ws_state \<Rightarrow> bool" where
  "silenced k s \<longleftrightarrow> cn_stopped k \<or> \<not> isCurrentWatchGeneration (cn_cluster k) (cn_gen k) s"

definition on_watch_event :: "time \<Rightarrow> conn \<Rightarrow> string \<Rightarrow> json option \<Rightarrow> ws_state \<Rightarrow> ws_state" where
  "on_watch_event now k phase apiObj s = (if silenced k s then s
     else scheduleSync now (cn_cluster k)
       (emitRealtimeEvent (buildRealtimeEvent now (cn_cluster k) (cn_target k) phase apiObj)
         (markClusterDirty (cn_cluster k) s)))"

definition on_watch_end :: "time \<Rightarrow> conn \<Rightarrow> ws_state \<Rightarrow> ws_state" where
  "on_watch_end now k s = (if silenced k s then s
     else scheduleRestart now (cn_cluster k) (cn_gen k) (markClusterDirty (cn_cluster k) s))"

definition restart_fires :: "string \<Rightarrow> nat \<Rightarrow> ws_state \<Rightarrow> ws_state" where
  "restart_fires c g s = (let s1 = s\<lparr>ws_restart := (ws_restart s)(c := None)\<rparr> in
     if \<not> isCurrentWatchGeneration c g s1 then s1 else ensureClusterWatching c s1)"

text \<open>\<open>ensureClusterWatching\<close> resumes with the kubeconfig it asked for.\<close>

definition ensure_configured :: "string \<Rightarrow> bool \<Rightarrow> nat \<Rightarrow> ws_state \<Rightarrow> ws_state" where
  "ensure_configured c found p s = (let s1 = s\<lparr>ws_pending := remove1 c (ws_pending s)\<rparr> in
     if found then startForCluster c p s1 else s1)"

text \<open>The clusters \<open>start\<close> begins to watch, from the items of the page it lists.\<close>

definition start_clusters :: "(string \<times> bool) list \<Rightarrow> string list" where
  "start_clusters items = map fst (filter (\<lambda>(i, hasKubeconfig). hasKubeconfig) items)"

definition onModuleDestroy :: "(string list) \<Rightarrow> ws_state \<Rightarrow> ws_state" where
  "onModuleDestroy clusters s =
     (let s1 = foldr (\<lambda>c t. case ws_watches t c of None \<Rightarrow> t | Some hs \<Rightarrow> abort_handles hs t) clusters s in
      s1\<lparr>ws_watches := (\<lambda>_. None), ws_debounce := (\<lambda>_. None), ws_restart := (\<lambda>_. None),
         ws_failures := (\<lambda>_. None), ws_dirty := {}, ws_gen := (\<lambda>_. None)\<rparr>)"

end
