(* ===== verification/Kn_WatchSafety.thy ===== *)
theory Kn_WatchSafety
  imports Kn_Watch
begin

text \<open>
  Interleaved runs of the watch manager and their invariant: restart timers belong to the current
  generation, at most one run per cluster is current, the watches stored for a cluster are live and
  of its current generation, and every open watch is either stored or held by a run that will still
  store or abort it.
\<close>

inductive ws_step :: "ws_state \<Rightarrow> unit \<Rightarrow> ws_state \<Rightarrow> bool" where
  w_ensure: "ws_step s () (ensureClusterWatching c s)"
| w_ensured: "c \<in> set (ws_pending s) \<Longrightarrow> ws_procs s p = None \<Longrightarrow> ws_step s () (ensure_configured c found p s)"
| w_boot: "ws_procs s p = None \<Longrightarrow> ws_step s () (startForCluster c p s)"
| w_config: "ws_procs s p = Some r \<Longrightarrow> pr_at r = AwaitConfig \<Longrightarrow> ws_step s () (start_configured p r found s)"
| w_next: "ws_procs s p = Some r \<Longrightarrow> pr_at r = Looping \<Longrightarrow> ws_conns s h = None \<Longrightarrow> ws_step s () (start_next p r h s)"
| w_opened: "ws_procs s p = Some r \<Longrightarrow> pr_at r = Opening h \<Longrightarrow> ws_conns s h = Some k \<Longrightarrow>
     ws_step s () (start_opened p r h k s)"
| w_failed: "ws_procs s p = Some r \<Longrightarrow> pr_at r = Opening h \<Longrightarrow> ws_step s () (start_failed now p r s)"
| w_event: "ws_conns s h = Some k \<Longrightarrow> ws_step s () (on_watch_event now k phase obj s)"
| w_end: "ws_conns s h = Some k \<Longrightarrow> ws_step s () (on_watch_end now k s)"
| w_restart: "ws_restart s c = Some (d, g) \<Longrightarrow> ws_step s () (restart_fires c g s)"
| w_sync: "ws_debounce s c = Some d \<Longrightarrow> ws_step s () (runSync c kubeconfig s)"
| w_consume: "ws_step s () (snd (consumeClusterDirty c s))"

definition ws_init :: "ws_state \<Rightarrow> bool" where
  "ws_init s \<longleftrightarrow> s = ws_start"

section \<open>The invariant\<close>

definition inv_restart :: "ws_state \<Rightarrow> bool" where
  "inv_restart s \<longleftrightarrow> (\<forall>c d g. ws_restart s c = Some (d, g) \<longrightarrow> ws_gen s c = Some g)"

definition inv_procs :: "ws_state \<Rightarrow> bool" where
  "inv_procs s \<longleftrightarrow> (\<forall>p r. ws_procs s p = Some r \<longrightarrow> 0 < pr_gen r \<and> pr_gen r \<le> gen_of s (pr_cluster r)
     \<and> (ws_gen s (pr_cluster r) = Some (pr_gen r) \<longrightarrow> ws_watches s (pr_cluster r) = None)
     \<and> (\<forall>q r'. ws_procs s q = Some r' \<longrightarrow> pr_cluster r' = pr_cluster r \<longrightarrow> pr_gen r' = pr_gen r \<longrightarrow> q = p))"

definition inv_conns :: "ws_state \<Rightarrow> bool" where
  "inv_conns s \<longleftrightarrow> (\<forall>h k. ws_conns s h = Some k \<longrightarrow> 0 < cn_gen k \<and> cn_gen k \<le> gen_of s (cn_cluster k))"

definition held :: "ws_state \<Rightarrow> string \<Rightarrow> nat \<Rightarrow> nat \<Rightarrow> bool" where
  "held s c g h \<longleftrightarrow> (\<exists>k. ws_conns s h = Some k \<and> cn_cluster k = c \<and> cn_gen k = g
     \<and> (ws_gen s c = Some g \<longrightarrow> \<not> cn_stopped k \<and> \<not> cn_aborted k))"

definition inv_watched :: "ws_state \<Rightarrow> bool" where
  "inv_watched s \<longleftrightarrow> (\<forall>c hs h. ws_watches s c = Some hs \<longrightarrow> h \<in> set hs \<longrightarrow> (\<exists>g. ws_gen s c = Some g \<and> held s c g h))"

definition inv_held :: "ws_state \<Rightarrow> bool" where
  "inv_held s \<longleftrightarrow> (\<forall>p r h. ws_procs s p = Some r \<longrightarrow> h \<in> set (pr_handles r) \<or> pr_at r = Opening h \<longrightarrow>
     held s (pr_cluster r) (pr_gen r) h)"

definition kept :: "ws_state \<Rightarrow> nat \<Rightarrow> conn \<Rightarrow> bool" where
  "kept s h k \<longleftrightarrow> (\<exists>hs. ws_watches s (cn_cluster k) = Some hs \<and> h \<in> set hs)
     \<or> (\<exists>p r. ws_procs s p = Some r \<and> pr_cluster r = cn_cluster k \<and> pr_gen r = cn_gen k \<and> h \<in> set (pr_handles r))"

definition inv_kept :: "ws_state \<Rightarrow> bool" where
  "inv_kept s \<longleftrightarrow> (\<forall>h k. ws_conns s h = Some k \<longrightarrow> cn_open k \<longrightarrow> \<not> cn_aborted k \<longrightarrow> kept s h k)"

definition inv_fresh :: "ws_state \<Rightarrow> bool" where
  "inv_fresh s \<longleftrightarrow> (\<forall>p r. ws_procs s p = Some r \<longrightarrow> pr_at r = AwaitConfig \<longrightarrow> pr_handles r = [])"

definition ws_inv :: "ws_state \<Rightarrow> bool" where
  "ws_inv s \<longleftrightarrow> inv_restart s \<and> inv_procs s \<and> inv_conns s \<and> inv_watched s \<and> inv_held s \<and> inv_kept s
     \<and> inv_fresh s"

lemmas inv_parts = inv_restart_def inv_procs_def inv_conns_def inv_watched_def inv_held_def inv_kept_def
  inv_fresh_def

text \<open>The part of the state the invariant speaks of.\<close>

definition same_core :: "ws_state \<Rightarrow> ws_state \<Rightarrow> bool" where
  "same_core s t \<longleftrightarrow> ws_gen t = ws_gen s \<and> ws_watches t = ws_watches s \<and> ws_conns t = ws_conns s
     \<and> ws_procs t = ws_procs s \<and> ws_restart t = ws_restart s"

lemma ws_inv_core: "same_core s t \<Longrightarrow> ws_inv t = ws_inv s"
  by (simp add: same_core_def ws_inv_def inv_parts held_def kept_def gen_of_def)

lemma gen_of_Some: "ws_gen s c = Some g \<Longrightarrow> gen_of s c = g"
  by (simp add: gen_of_def)

lemma current_iff: "0 < g \<Longrightarrow> ws_gen s c = Some g \<longleftrightarrow> gen_of s c = g"
  by (simp add: gen_of_def split: option.splits)

text \<open>Writing the restart timer of the current generation, or none.\<close>

lemma ws_inv_restart:
  assumes "ws_inv s" and "ws_gen t = ws_gen s" and "ws_watches t = ws_watches s" and "ws_conns t = ws_conns s"
    and "ws_procs t = ws_procs s" and "inv_restart t"
  shows "ws_inv t"
  using assms by (simp add: ws_inv_def inv_parts held_def kept_def gen_of_def)

lemma scheduleRestart_inv: "ws_inv s \<Longrightarrow> ws_inv (scheduleRestart now c g s)"
  by (rule ws_inv_restart, assumption)
     (auto simp: scheduleRestart_def getRestartDelayMs_def Let_def isCurrentWatchGeneration_def
        ws_inv_def inv_restart_def)

lemma mark_core: "same_core s (markClusterDirty c s)"
  by (simp add: same_core_def markClusterDirty_def)

lemma on_watch_event_inv: "ws_inv s \<Longrightarrow> ws_inv (on_watch_event now k ph obj s)"
proof -
  have "same_core s (on_watch_event now k ph obj s)"
    by (simp add: same_core_def on_watch_event_def scheduleSync_def emitRealtimeEvent_def markClusterDirty_def)
  from ws_inv_core [OF this] show "ws_inv s \<Longrightarrow> ws_inv (on_watch_event now k ph obj s)" by simp
qed

lemma on_watch_end_inv: "ws_inv s \<Longrightarrow> ws_inv (on_watch_end now k s)"
  by (simp add: on_watch_end_def scheduleRestart_inv ws_inv_core [OF mark_core])

lemma restart_fires_inv: "ws_inv s \<Longrightarrow> ws_inv (restart_fires c g s)"
  by (rule ws_inv_restart, assumption)
     (auto simp: restart_fires_def Let_def ensureClusterWatching_def ws_inv_def inv_restart_def)

section \<open>Stopping and starting\<close>

lemma inv_procsD:
  "inv_procs s \<Longrightarrow> ws_procs s p = Some r \<Longrightarrow> 0 < pr_gen r"
  "inv_procs s \<Longrightarrow> ws_procs s p = Some r \<Longrightarrow> pr_gen r \<le> gen_of s (pr_cluster r)"
  "inv_procs s \<Longrightarrow> ws_procs s p = Some r \<Longrightarrow> ws_gen s (pr_cluster r) = Some (pr_gen r) \<Longrightarrow> ws_watches s (pr_cluster r) = None"
  "inv_procs s \<Longrightarrow> ws_procs s p = Some r \<Longrightarrow> ws_procs s q = Some r' \<Longrightarrow> pr_cluster r' = pr_cluster r \<Longrightarrow>
     pr_gen r' = pr_gen r \<Longrightarrow> q = p"
  unfolding inv_procs_def by blast+

lemma inv_procsI:
  assumes "\<And>p r. ws_procs s p = Some r \<Longrightarrow> 0 < pr_gen r"
    and "\<And>p r. ws_procs s p = Some r \<Longrightarrow> pr_gen r \<le> gen_of s (pr_cluster r)"
    and "\<And>p r. ws_procs s p = Some r \<Longrightarrow> ws_gen s (pr_cluster r) = Some (pr_gen r) \<Longrightarrow> ws_watches s (pr_cluster r) = None"
    and "\<And>p r q r'. ws_procs s p = Some r \<Longrightarrow> ws_procs s q = Some r' \<Longrightarrow> pr_cluster r' = pr_cluster r \<Longrightarrow>
     pr_gen r' = pr_gen r \<Longrightarrow> q = p"
  shows "inv_procs s"
  unfolding inv_procs_def using assms by blast

text \<open>A watch that was kept stays kept when its table entries stay.\<close>

lemma kept_mono:
  assumes "kept s h k"
    and "\<And>hs. ws_watches s (cn_cluster k) = Some hs \<Longrightarrow> h \<in> set hs \<Longrightarrow> kept t h k"
    and "\<And>p r. ws_procs s p = Some r \<Longrightarrow> pr_cluster r = cn_cluster k \<Longrightarrow> pr_gen r = cn_gen k \<Longrightarrow>
       h \<in> set (pr_handles r) \<Longrightarrow> kept t h k"
  shows "kept t h k"
  using assms unfolding kept_def [of s] by blast

lemma kept_watch: "ws_watches t (cn_cluster k) = Some hs \<Longrightarrow> h \<in> set hs \<Longrightarrow> kept t h k"
  unfolding kept_def by blast

lemma kept_proc: "ws_procs t p = Some r \<Longrightarrow> pr_cluster r = cn_cluster k \<Longrightarrow> pr_gen r = cn_gen k \<Longrightarrow>
    h \<in> set (pr_handles r) \<Longrightarrow> kept t h k"
  unfolding kept_def by blast

lemma stop_fields:
  "ws_gen (stopForCluster c s) = (ws_gen s)(c := Some (gen_of s c + 1))"
  "ws_watches (stopForCluster c s) = (ws_watches s)(c := None)"
  "ws_procs (stopForCluster c s) = ws_procs s"
  "ws_restart (stopForCluster c s) = (ws_restart s)(c := None)"
  by (auto simp: stopForCluster_def Let_def abort_handles_def split: option.splits)

lemma stop_conns: "ws_conns (stopForCluster c s) h =
    (if \<exists>hs. ws_watches s c = Some hs \<and> h \<in> set hs then map_option abort_conn (ws_conns s h) else ws_conns s h)"
  by (simp add: stopForCluster_def Let_def abort_handles_def split: option.splits)

lemma gen_of_upd: "gen_of (s\<lparr>ws_gen := g\<rparr>) c = (case g c of None \<Rightarrow> 0 | Some n \<Rightarrow> n)"
  by (simp add: gen_of_def)

lemma stop_gen_of: "gen_of (stopForCluster c s) d = (if d = c then gen_of s c + 1 else gen_of s d)"
  by (simp add: gen_of_def stop_fields)

lemma held_old: "held s c g h \<Longrightarrow> g \<le> gen_of s c \<Longrightarrow> 0 < g \<Longrightarrow> held (stopForCluster d s) c g h"
  if "inv_watched s" "c = d \<or> (\<nexists>hs. ws_watches s d = Some hs \<and> h \<in> set hs)"
  using that by (auto simp: held_def stop_fields stop_conns abort_conn_def gen_of_def split: if_splits option.splits)

lemma abort_conn_simps [simp]:
  "cn_cluster (abort_conn k) = cn_cluster k" "cn_gen (abort_conn k) = cn_gen k"
  "cn_open (abort_conn k) = cn_open k" "cn_aborted (abort_conn k)" "cn_stopped (abort_conn k)"
  by (simp_all add: abort_conn_def)

lemma watched_cluster: "inv_watched s \<Longrightarrow> ws_watches s d = Some hs \<Longrightarrow> h \<in> set hs \<Longrightarrow>
    held s c g h \<Longrightarrow> c = d \<and> ws_gen s c = Some g"
  unfolding inv_watched_def held_def by (metis option.inject)

lemma stop_held:
  assumes "inv_watched s" and "held s c g h" and "0 < g" and "g \<le> gen_of s c"
  shows "held (stopForCluster d s) c g h"
  using assms(2-) watched_cluster [OF assms(1) _ _ assms(2)]
  by (intro held_old [OF assms(1)]) blast+

lemma stop_inv:
  assumes "ws_inv s"
  shows "ws_inv (stopForCluster c s)"
proof -
  from assms have i: "inv_restart s" "inv_procs s" "inv_conns s" "inv_watched s" "inv_held s" "inv_kept s" "inv_fresh s"
    by (simp_all add: ws_inv_def)
  have "inv_restart (stopForCluster c s)" using i(1) by (auto simp: inv_restart_def stop_fields)
  moreover have "inv_procs (stopForCluster c s)"
  proof (rule inv_procsI; unfold stop_fields stop_gen_of)
    note old = inv_procsD [OF i(2)]
    show "0 < pr_gen r" if "ws_procs s q = Some r" for q r by (rule old(1) [OF that])
    show "pr_gen r \<le> (if pr_cluster r = c then gen_of s c + 1 else gen_of s (pr_cluster r))"
      if "ws_procs s q = Some r" for q r using old(2) [OF that] by auto
    show "((ws_watches s)(c := None)) (pr_cluster r) = None"
      if "ws_procs s q = Some r" "((ws_gen s)(c \<mapsto> gen_of s c + 1)) (pr_cluster r) = Some (pr_gen r)" for q r
      using old(3) [OF that(1)] that(2) by (auto split: if_splits)
    show "q' = q" if "ws_procs s q = Some r" "ws_procs s q' = Some r'" "pr_cluster r' = pr_cluster r" "pr_gen r' = pr_gen r"
      for q r q' r' by (rule old(4) [OF that])
  qed
  moreover have "inv_conns (stopForCluster c s)"
    using i(3) unfolding inv_conns_def stop_conns stop_gen_of by (fastforce split: if_splits)
  moreover have "inv_watched (stopForCluster c s)"
  proof (unfold inv_watched_def, intro allI impI)
    fix d hs h assume a: "ws_watches (stopForCluster c s) d = Some hs" "h \<in> set hs"
    then have d: "d \<noteq> c" "ws_watches s d = Some hs" by (auto simp: stop_fields split: if_splits)
    then obtain g where g: "ws_gen s d = Some g" "held s d g h" using i(4) a(2) unfolding inv_watched_def by blast
    then have "0 < g" "g \<le> gen_of s d" using i(3) by (auto simp: held_def inv_conns_def)
    then show "\<exists>g. ws_gen (stopForCluster c s) d = Some g \<and> held (stopForCluster c s) d g h"
      using g d stop_held [OF i(4) g(2)] by (simp add: stop_fields)
  qed
  moreover have "inv_held (stopForCluster c s)"
    using i(2,5) stop_held [OF i(4)] by (simp add: inv_held_def stop_fields inv_procs_def)
  moreover have "inv_kept (stopForCluster c s)"
    unfolding inv_kept_def
  proof (intro allI impI)
    let ?t = "stopForCluster c s"
    fix h k assume k: "ws_conns ?t h = Some k" "cn_open k" "\<not> cn_aborted k"
    then have old: "ws_conns s h = Some k" "\<And>hs. ws_watches s c = Some hs \<Longrightarrow> h \<notin> set hs"
      by (auto simp: stop_conns split: if_splits)
    then have "kept s h k" using i(6) k by (simp add: inv_kept_def)
    then show "kept ?t h k"
    proof (rule kept_mono)
      show "kept ?t h k" if "ws_watches s (cn_cluster k) = Some hs" "h \<in> set hs" for hs
        by (rule kept_watch [where hs = hs]) (use that old in \<open>auto simp: stop_fields\<close>)
      show "kept ?t h k" if "ws_procs s q = Some r" "pr_cluster r = cn_cluster k" "pr_gen r = cn_gen k" "h \<in> set (pr_handles r)"
        for q r by (rule kept_proc [where p = q]) (use that in \<open>simp_all add: stop_fields\<close>)
    qed
  qed
  moreover have "inv_fresh (stopForCluster c s)" using i(7) by (simp add: inv_fresh_def stop_fields)
  ultimately show ?thesis by (simp add: ws_inv_def)
qed

lemma begin_inv:
  assumes "ws_inv s" and free: "ws_watches s c = None" "ws_restart s c = None" "ws_procs s p = None"
    and t: "t = s\<lparr>ws_gen := (ws_gen s)(c := Some (gen_of s c + 1)), ws_procs := (ws_procs s)(p :=
        Some \<lparr>pr_cluster = c, pr_gen = gen_of s c + 1, pr_left = ts, pr_handles = [], pr_at = AwaitConfig\<rparr>)\<rparr>"
  shows "ws_inv t"
proof -
  from assms(1) have i: "inv_restart s" "inv_procs s" "inv_conns s" "inv_watched s" "inv_held s" "inv_kept s" "inv_fresh s"
    by (simp_all add: ws_inv_def)
  have go: "gen_of t d = (if d = c then gen_of s c + 1 else gen_of s d)" for d by (simp add: t gen_of_def)
  have held: "held t d g h" if "held s d g h" "d = c \<Longrightarrow> g \<le> gen_of s c" for d g h
    using that by (auto simp: held_def t)
  have "inv_restart t" using i(1) free by (auto simp: inv_restart_def t)
  moreover have "inv_procs t"
  proof (rule inv_procsI)
    note old = inv_procsD [OF i(2)]
    have sp: "ws_procs t q = Some r \<Longrightarrow> (q = p \<and> pr_cluster r = c \<and> pr_gen r = gen_of s c + 1) \<or> (q \<noteq> p \<and> ws_procs s q = Some r)"
      for q r by (auto simp: t split: if_splits)
    show "0 < pr_gen r" if "ws_procs t q = Some r" for q r using sp [OF that] old(1) by auto
    show "pr_gen r \<le> gen_of t (pr_cluster r)" if "ws_procs t q = Some r" for q r
      using sp [OF that] old(2) by (auto simp: go intro: le_SucI)
    show "ws_watches t (pr_cluster r) = None"
      if "ws_procs t q = Some r" "ws_gen t (pr_cluster r) = Some (pr_gen r)" for q r
      using sp [OF that(1)] that(2) old(3) free(1) by (cases "pr_cluster r = c") (auto simp: t)
    show "q' = q" if "ws_procs t q = Some r" "ws_procs t q' = Some r'" "pr_cluster r' = pr_cluster r" "pr_gen r' = pr_gen r"
      for q r q' r'
      using sp [OF that(1)] sp [OF that(2)] that(3,4) old(2) [of q r] old(2) [of q' r'] old(4) [of q r q' r'] by auto
  qed
  moreover have "inv_conns t" using i(3) unfolding inv_conns_def go by (fastforce simp: t)
  moreover have "inv_watched t"
    using i(4) free held unfolding inv_watched_def by (auto simp: t) (metis fun_upd_apply option.distinct(1))
  moreover have "inv_held t"
    unfolding inv_held_def
  proof (intro allI impI)
    fix q r h assume r: "ws_procs t q = Some r" "h \<in> set (pr_handles r) \<or> pr_at r = Opening h"
    then have "ws_procs s q = Some r" by (auto simp: t split: if_splits)
    moreover from this have "held s (pr_cluster r) (pr_gen r) h" using i(5) r(2) unfolding inv_held_def by blast
    ultimately show "held t (pr_cluster r) (pr_gen r) h"
      using held inv_procsD(2) [OF i(2)] by metis
  qed
  moreover have "inv_kept t"
    unfolding inv_kept_def
  proof (intro allI impI)
    fix h k assume k: "ws_conns t h = Some k" "cn_open k" "\<not> cn_aborted k"
    then have "kept s h k" using i(6) by (auto simp: inv_kept_def t)
    then show "kept t h k"
    proof (rule kept_mono)
      show "kept t h k" if "ws_watches s (cn_cluster k) = Some hs" "h \<in> set hs" for hs
        by (rule kept_watch) (use that in \<open>simp_all add: t\<close>)
      show "kept t h k" if "ws_procs s q = Some r" "pr_cluster r = cn_cluster k" "pr_gen r = cn_gen k" "h \<in> set (pr_handles r)"
        for q r by (rule kept_proc [of t q r]) (use that free(3) in \<open>auto simp: t\<close>)
    qed
  qed
  moreover have "inv_fresh t" using i(7) by (simp add: inv_fresh_def t)
  ultimately show ?thesis by (simp add: ws_inv_def)
qed

lemma start_inv:
  assumes "ws_inv s" and "ws_procs s p = None"
  shows "ws_inv (startForCluster c p s)"
proof -
  have "ws_gen (stopForCluster c s) c = Some (gen_of s c + 1)" by (simp add: stop_fields)
  then show ?thesis
    using begin_inv [OF stop_inv [OF assms(1), of c], of c p _ buildTargets]
    by (simp add: startForCluster_def Let_def stop_fields assms(2))
qed

section \<open>The steps of a run\<close>

text \<open>
  A step of one run: it stays a run of its cluster and generation, watches keep their cluster and
  generation, and those of the current generation keep their flags.
\<close>

lemma run_inv:
  assumes "ws_inv s" and p: "ws_procs s p = Some r"
    and same: "ws_gen t = ws_gen s" "ws_watches t = ws_watches s" "ws_restart t = ws_restart s"
    and procs: "ws_procs t = (ws_procs s)(p := Some r')"
    and r': "pr_cluster r' = pr_cluster r" "pr_gen r' = pr_gen r" "pr_at r' \<noteq> AwaitConfig"
    and mono: "\<And>h k. ws_conns s h = Some k \<Longrightarrow> \<exists>k'. ws_conns t h = Some k' \<and> cn_cluster k' = cn_cluster k
       \<and> cn_gen k' = cn_gen k \<and> (ws_gen s (cn_cluster k) = Some (cn_gen k) \<longrightarrow>
            cn_stopped k' = cn_stopped k \<and> cn_aborted k' = cn_aborted k)"
    and new: "\<And>h k. ws_conns t h = Some k \<Longrightarrow> 0 < cn_gen k \<and> cn_gen k \<le> gen_of s (cn_cluster k)"
    and held: "\<And>h. h \<in> set (pr_handles r') \<or> pr_at r' = Opening h \<Longrightarrow> held t (pr_cluster r) (pr_gen r) h"
    and kept: "inv_kept t"
  shows "ws_inv t"
proof -
  from assms(1) have i: "inv_restart s" "inv_procs s" "inv_conns s" "inv_watched s" "inv_held s" "inv_kept s" "inv_fresh s"
    by (simp_all add: ws_inv_def)
  have go: "gen_of t = gen_of s" by (intro ext) (simp add: gen_of_def same)
  have hm: "held t c g h" if "held s c g h" for c g h
    using that mono unfolding held_def same by metis
  have sp: "ws_procs t q = Some x \<Longrightarrow> \<exists>y. ws_procs s q = Some y \<and> pr_cluster x = pr_cluster y \<and> pr_gen x = pr_gen y" for q x
    using p r' by (auto simp: procs split: if_splits)
  have "inv_restart t" using i(1) by (simp add: inv_restart_def same)
  moreover have "inv_conns t" using new unfolding inv_conns_def go by blast
  moreover have "inv_watched t" using i(4) hm unfolding inv_watched_def same by blast
  moreover have "inv_fresh t" using i(7) r'(3) by (auto simp: inv_fresh_def procs)
  moreover have "inv_procs t"
  proof (rule inv_procsI; (unfold go same)?)
    note old = inv_procsD [OF i(2)]
    show "0 < pr_gen x" if "ws_procs t q = Some x" for q x using sp [OF that] old(1) by metis
    show "pr_gen x \<le> gen_of s (pr_cluster x)" if "ws_procs t q = Some x" for q x
      using sp [OF that] old(2) by metis
    show "ws_watches s (pr_cluster x) = None"
      if "ws_procs t q = Some x" "ws_gen s (pr_cluster x) = Some (pr_gen x)" for q x
      using sp [OF that(1)] that(2) old(3) by metis
    show "q' = q" if "ws_procs t q = Some x" "ws_procs t q' = Some x'" "pr_cluster x' = pr_cluster x" "pr_gen x' = pr_gen x"
      for q x q' x'
      using sp [OF that(1)] sp [OF that(2)] that(3,4) old(4) by metis
  qed
  moreover have "inv_held t"
    unfolding inv_held_def
  proof (intro allI impI)
    fix q x h assume x: "ws_procs t q = Some x" "h \<in> set (pr_handles x) \<or> pr_at x = Opening h"
    show "held t (pr_cluster x) (pr_gen x) h"
    proof (cases "q = p")
      case True
      then show ?thesis using x held [of h] r' by (simp add: procs)
    next
      case False
      then have "ws_procs s q = Some x" using x(1) by (simp add: procs)
      then show ?thesis using x(2) i(5) hm unfolding inv_held_def by blast
    qed
  qed
  ultimately show ?thesis using kept by (simp add: ws_inv_def)
qed

text \<open>The same with every watch as it was.\<close>

lemma kept_run:
  assumes "kept s h k" and "ws_procs s p = Some r" and "ws_watches t = ws_watches s"
    and "ws_procs t = (ws_procs s)(p := Some r')"
    and "pr_cluster r' = pr_cluster r" "pr_gen r' = pr_gen r" "set (pr_handles r) \<subseteq> set (pr_handles r')"
    and "cn_cluster k' = cn_cluster k" "cn_gen k' = cn_gen k"
  shows "kept t h k'"
proof -
  from assms(1) consider (w) hs where "ws_watches s (cn_cluster k) = Some hs" "h \<in> set hs"
    | (p) q x where "ws_procs s q = Some x" "pr_cluster x = cn_cluster k" "pr_gen x = cn_gen k" "h \<in> set (pr_handles x)"
    unfolding kept_def by blast
  then show ?thesis
  proof cases
    case w
    then show ?thesis using assms(3,8) by (intro kept_watch) simp_all
  next
    case p
    then show ?thesis
      using assms by (intro kept_proc [of t q "if q = p then r' else x"]) auto
  qed
qed

lemma replace_inv:
  assumes "ws_inv s" and "ws_procs s p = Some r"
    and "t = s\<lparr>ws_procs := (ws_procs s)(p := Some r')\<rparr>"
    and "pr_cluster r' = pr_cluster r" "pr_gen r' = pr_gen r" "pr_handles r' = pr_handles r" "pr_at r' = Looping"
  shows "ws_inv t"
proof -
  have "held t c g h = held s c g h" for c g h by (simp add: held_def assms(3))
  moreover have "inv_kept t"
    unfolding inv_kept_def
  proof (intro allI impI)
    fix h k assume "ws_conns t h = Some k" "cn_open k" "\<not> cn_aborted k"
    then have "kept s h k" using assms(1,3) by (simp add: ws_inv_def inv_kept_def)
    then show "kept t h k" by (rule kept_run [OF _ assms(2), where r' = r']) (simp_all add: assms(3-6))
  qed
  ultimately show ?thesis
    by (intro run_inv [OF assms(1,2), where r' = r'])
       (use assms in \<open>auto simp: ws_inv_def inv_conns_def inv_held_def\<close>)
qed

lemma start_configured_inv:
  assumes "ws_inv s" and "ws_procs s p = Some r" and "pr_at r = AwaitConfig"
  shows "ws_inv (start_configured p r found s)"
proof (cases found)
  case True
  show ?thesis
    by (rule replace_inv [OF assms(1,2), where r' = "r\<lparr>pr_at := Looping\<rparr>"]) (simp_all add: start_configured_def True)
next
  case False
  let ?t = "start_configured p r found s"
  have e: "pr_handles r = []" using assms by (simp add: ws_inv_def inv_fresh_def)
  have t: "?t = s\<lparr>ws_procs := (ws_procs s)(p := None)\<rparr>" by (simp add: start_configured_def False)
  have k: "kept ?t h k = kept s h k" for h k
  proof
    show "kept s h k" if "kept ?t h k"
      using that by (rule kept_mono) (auto simp: t split: if_splits intro: kept_watch kept_proc)
    show "kept ?t h k" if "kept s h k"
      using that
    proof (rule kept_mono)
      show "kept ?t h k" if "ws_watches s (cn_cluster k) = Some hs" "h \<in> set hs" for hs
        by (rule kept_watch [where hs = hs]) (use that in \<open>simp_all add: t\<close>)
      show "kept ?t h k" if "ws_procs s q = Some x" "pr_cluster x = cn_cluster k" "pr_gen x = cn_gen k" "h \<in> set (pr_handles x)"
        for q x by (rule kept_proc [where p = q and r = x]) (use that assms(2) e in \<open>auto simp: t\<close>)
    qed
  qed
  have h: "held ?t = held s" and g: "gen_of ?t = gen_of s" by (intro ext, simp add: held_def gen_of_def t)+
  have sp: "ws_procs ?t q = Some x \<Longrightarrow> ws_procs s q = Some x" for q x by (auto simp: t split: if_splits)
  have old: "inv_procs s" using assms(1) by (simp add: ws_inv_def)
  have "inv_procs ?t"
  proof (rule inv_procsI; (unfold g)?)
    show "0 < pr_gen x" if "ws_procs ?t q = Some x" for q x by (rule inv_procsD(1) [OF old sp [OF that]])
    show "pr_gen x \<le> gen_of s (pr_cluster x)" if "ws_procs ?t q = Some x" for q x
      by (rule inv_procsD(2) [OF old sp [OF that]])
    show "ws_watches ?t (pr_cluster x) = None"
      if "ws_procs ?t q = Some x" "ws_gen ?t (pr_cluster x) = Some (pr_gen x)" for q x
      using inv_procsD(3) [OF old sp [OF that(1)]] that(2) by (simp add: t)
    show "q' = q" if "ws_procs ?t q = Some x" "ws_procs ?t q' = Some x'" "pr_cluster x' = pr_cluster x" "pr_gen x' = pr_gen x"
      for q x q' x' by (rule inv_procsD(4) [OF old sp [OF that(1)] sp [OF that(2)] that(3,4)])
  qed
  moreover have "inv_held ?t" "inv_fresh ?t"
    using assms(1) sp unfolding ws_inv_def inv_held_def inv_fresh_def h by blast+
  ultimately show ?thesis
    using assms(1) by (simp add: ws_inv_def inv_restart_def inv_conns_def inv_watched_def inv_kept_def h g k) (simp add: t)
qed

lemma start_failed_inv: "ws_inv s \<Longrightarrow> ws_procs s p = Some r \<Longrightarrow> ws_inv (start_failed now p r s)"
  using replace_inv [of s p r "s\<lparr>ws_procs := (ws_procs s)(p := Some (r\<lparr>pr_at := Looping\<rparr>))\<rparr>" "r\<lparr>pr_at := Looping\<rparr>"]
  by (simp add: start_failed_def Let_def scheduleRestart_inv ws_inv_core [OF mark_core])

lemma start_opened_inv:
  assumes "ws_inv s" and p: "ws_procs s p = Some r" and at: "pr_at r = Opening h" and k: "ws_conns s h = Some k"
  shows "ws_inv (start_opened p r h k s)"
proof -
  let ?t = "start_opened p r h k s"
  let ?now = "isCurrentWatchGeneration (pr_cluster r) (pr_gen r) s"
  let ?r' = "if ?now then r\<lparr>pr_at := Looping, pr_handles := pr_handles r @ [h]\<rparr> else r\<lparr>pr_at := Looping\<rparr>"
  have hd: "held s (pr_cluster r) (pr_gen r) h"
    and hr: "\<And>x. x \<in> set (pr_handles r) \<Longrightarrow> held s (pr_cluster r) (pr_gen r) x"
    using assms by (auto simp: ws_inv_def inv_held_def)
  then have kc: "cn_cluster k = pr_cluster r" "cn_gen k = pr_gen r" using k by (auto simp: held_def)
  have procs: "ws_procs ?t = (ws_procs s)(p := Some ?r')" by (simp add: start_opened_def)
  have w: "ws_watches ?t = ws_watches s" by (simp add: start_opened_def)
  have gn: "ws_gen ?t = ws_gen s" by (simp add: start_opened_def)
  have held: "held ?t (pr_cluster r) (pr_gen r) x" if "held s (pr_cluster r) (pr_gen r) x" for x
    using that k unfolding held_def gn by (auto simp: start_opened_def isCurrentWatchGeneration_def)
  show ?thesis
  proof (rule run_inv [OF assms(1) p, where r' = ?r'])
    show "held ?t (pr_cluster r) (pr_gen r) x" if "x \<in> set (pr_handles ?r') \<or> pr_at ?r' = Opening x" for x
      using that hd hr by (intro held) (auto split: if_splits)
    show "0 < cn_gen k' \<and> cn_gen k' \<le> gen_of s (cn_cluster k')" if "ws_conns ?t x = Some k'" for x k'
      using that assms(1) k by (auto simp: start_opened_def ws_inv_def inv_conns_def split: if_splits)
    show "\<exists>k''. ws_conns ?t x = Some k'' \<and> cn_cluster k'' = cn_cluster k' \<and> cn_gen k'' = cn_gen k'
       \<and> (ws_gen s (cn_cluster k') = Some (cn_gen k') \<longrightarrow>
            cn_stopped k'' = cn_stopped k' \<and> cn_aborted k'' = cn_aborted k')" if "ws_conns s x = Some k'" for x k'
      using that k kc by (auto simp: start_opened_def isCurrentWatchGeneration_def)
    show "inv_kept ?t"
      unfolding inv_kept_def
    proof (intro allI impI)
      fix x k' assume x: "ws_conns ?t x = Some k'" "cn_open k'" "\<not> cn_aborted k'"
      show "kept ?t x k'"
      proof (cases "x = h")
        case True
        then have now: ?now using x by (auto simp: start_opened_def split: if_splits)
        then have "cn_cluster k' = pr_cluster r" "cn_gen k' = pr_gen r"
          using x(1) True kc by (auto simp: start_opened_def)
        then show ?thesis using True now by (intro kept_proc [where p = p and r = ?r']) (simp_all add: procs)
      next
        case False
        then have "ws_conns s x = Some k'" using x(1) by (auto simp: start_opened_def split: if_splits)
        then have "kept s x k'" using assms(1) x by (simp add: ws_inv_def inv_kept_def)
        then show ?thesis by (rule kept_run [OF _ p w procs]) auto
      qed
    qed
  qed (auto simp: start_opened_def)
qed

text \<open>Watches are only ever aborted together with their stopped flag, or when they are stale.\<close>

lemma start_done_fields:
  "ws_procs (start_done p r s) = (ws_procs s)(p := None)"
  "ws_gen (start_done p r s) = ws_gen s" "ws_restart (start_done p r s) = ws_restart s"
  "ws_watches (start_done p r s) = (if isCurrentWatchGeneration (pr_cluster r) (pr_gen r) s
     then (ws_watches s)(pr_cluster r := Some (pr_handles r)) else ws_watches s)"
  "ws_conns (start_done p r s) = (if isCurrentWatchGeneration (pr_cluster r) (pr_gen r) s then ws_conns s
     else (\<lambda>h. if h \<in> set (pr_handles r) then map_option abort_conn (ws_conns s h) else ws_conns s h))"
  by (auto simp: start_done_def Let_def isCurrentWatchGeneration_def abort_handles_def)

lemma start_done_inv:
  assumes "ws_inv s" and p: "ws_procs s p = Some r"
  shows "ws_inv (start_done p r s)"
proof -
  let ?t = "start_done p r s"
  let ?now = "ws_gen s (pr_cluster r) = Some (pr_gen r)"
  note f = start_done_fields [of p r s, unfolded isCurrentWatchGeneration_def]
  from assms(1) have i: "inv_restart s" "inv_procs s" "inv_conns s" "inv_watched s" "inv_held s" "inv_kept s" "inv_fresh s"
    by (simp_all add: ws_inv_def)
  note old = inv_procsD [OF i(2)]
  have go: "gen_of ?t = gen_of s" by (intro ext) (simp add: gen_of_def f)
  have hr: "held s (pr_cluster r) (pr_gen r) h" if "h \<in> set (pr_handles r)" for h
    using i(5) p that unfolding inv_held_def by blast
  have hm: "held ?t c g h" if "held s c g h" for c g h
  proof (cases "?now \<or> h \<notin> set (pr_handles r)")
    case True
    then show ?thesis using that by (auto simp: held_def f)
  next
    case False
    then show ?thesis using that hr [of h] by (auto simp: held_def f)
  qed
  have sp: "ws_procs ?t q = Some x \<Longrightarrow> q \<noteq> p \<and> ws_procs s q = Some x" for q x by (auto simp: f split: if_splits)
  have "inv_restart ?t" using i(1) by (simp add: inv_restart_def f)
  moreover have "inv_conns ?t" using i(3) unfolding inv_conns_def go f by (auto split: if_splits)
  moreover have "inv_fresh ?t" using i(7) sp unfolding inv_fresh_def by blast
  moreover have "inv_held ?t" using i(5) sp hm unfolding inv_held_def by blast
  moreover have "inv_watched ?t"
  proof (unfold inv_watched_def, intro allI impI)
    fix c hs h assume a: "ws_watches ?t c = Some hs" "h \<in> set hs"
    have "\<exists>g. ws_gen s c = Some g \<and> held s c g h"
    proof (cases "?now \<and> c = pr_cluster r")
      case True
      then show ?thesis using a hr by (auto simp: f)
    next
      case False
      then have "ws_watches s c = Some hs" using a by (auto simp: f split: if_splits)
      then show ?thesis using i(4) a(2) unfolding inv_watched_def by blast
    qed
    then show "\<exists>g. ws_gen ?t c = Some g \<and> held ?t c g h" using hm by (auto simp: f(2))
  qed
  moreover have "inv_procs ?t"
  proof (rule inv_procsI; (unfold go f(2))?)
    show "0 < pr_gen x" if "ws_procs ?t q = Some x" for q x using sp [OF that] old(1) by metis
    show "pr_gen x \<le> gen_of s (pr_cluster x)" if "ws_procs ?t q = Some x" for q x using sp [OF that] old(2) by metis
    show "ws_watches ?t (pr_cluster x) = None"
      if "ws_procs ?t q = Some x" "ws_gen s (pr_cluster x) = Some (pr_gen x)" for q x
    proof (cases "?now \<and> pr_cluster x = pr_cluster r")
      case True
      then have "q = p" using sp [OF that(1)] that(2) old(4) [OF p] by auto
      then show ?thesis using sp [OF that(1)] by simp
    next
      case False
      then show ?thesis using sp [OF that(1)] that(2) old(3) by (auto simp: f)
    qed
    show "q' = q" if "ws_procs ?t q = Some x" "ws_procs ?t q' = Some x'" "pr_cluster x' = pr_cluster x" "pr_gen x' = pr_gen x"
      for q x q' x'
      using sp [OF that(1)] sp [OF that(2)] that(3,4) old(4) by metis
  qed
  moreover have "inv_kept ?t"
    unfolding inv_kept_def
  proof (intro allI impI)
    fix h k assume k: "ws_conns ?t h = Some k" "cn_open k" "\<not> cn_aborted k"
    have ks: "ws_conns s h = Some k" and nh: "?now \<or> h \<notin> set (pr_handles r)"
      using k by (auto simp: f split: if_splits)
    have "kept s h k" using i(6) ks k by (simp add: inv_kept_def)
    then show "kept ?t h k"
    proof (rule kept_mono)
      show "kept ?t h k" if "ws_watches s (cn_cluster k) = Some hs" "h \<in> set hs" for hs
        using that old(3) [OF p] by (intro kept_watch [where hs = hs]) (auto simp: f)
      show "kept ?t h k" if x: "ws_procs s q = Some x" "pr_cluster x = cn_cluster k" "pr_gen x = cn_gen k" "h \<in> set (pr_handles x)"
        for q x
      proof (cases "q = p")
        case True
        then have "x = r" using x p by simp
        then show ?thesis using x nh by (intro kept_watch [where hs = "pr_handles r"]) (auto simp: f)
      next
        case False
        then show ?thesis using x by (intro kept_proc [where p = q]) (simp_all add: f)
      qed
    qed
  qed
  ultimately show ?thesis by (simp add: ws_inv_def)
qed

lemma start_next_inv:
  assumes "ws_inv s" and p: "ws_procs s p = Some r" and "pr_at r = Looping" and h: "ws_conns s h = None"
  shows "ws_inv (start_next p r h s)"
proof (cases "pr_left r = [] \<or> \<not> isCurrentWatchGeneration (pr_cluster r) (pr_gen r) s")
  case True
  then have "start_next p r h s = start_done p r s" by (auto simp: start_next_def split: list.splits)
  then show ?thesis using start_done_inv [OF assms(1) p] by simp
next
  case False
  then obtain x ts where l: "pr_left r = x # ts" by (cases "pr_left r") auto
  let ?t = "start_next p r h s"
  let ?k = "\<lparr>cn_cluster = pr_cluster r, cn_gen = pr_gen r, cn_target = x, cn_open = False,
     cn_stopped = False, cn_aborted = False\<rparr>"
  let ?r' = "r\<lparr>pr_left := ts, pr_at := Opening h\<rparr>"
  have t: "?t = s\<lparr>ws_procs := (ws_procs s)(p := Some ?r'), ws_conns := (ws_conns s)(h := Some ?k)\<rparr>"
    using False by (simp add: start_next_def l)
  have pg: "0 < pr_gen r" "pr_gen r \<le> gen_of s (pr_cluster r)"
    using assms(1) p by (auto simp: ws_inv_def dest: inv_procsD)
  show ?thesis
  proof (rule run_inv [OF assms(1) p, where r' = ?r'])
    show "held ?t (pr_cluster r) (pr_gen r) y" if "y \<in> set (pr_handles ?r') \<or> pr_at ?r' = Opening y" for y
    proof (cases "y = h")
      case True
      then show ?thesis by (simp add: held_def t)
    next
      case False
      then have "held s (pr_cluster r) (pr_gen r) y" using that assms(1) p by (auto simp: ws_inv_def inv_held_def)
      then show ?thesis using False by (auto simp: held_def t)
    qed
    show "inv_kept ?t"
      unfolding inv_kept_def
    proof (intro allI impI)
      fix y k assume k: "ws_conns ?t y = Some k" "cn_open k" "\<not> cn_aborted k"
      then have "ws_conns s y = Some k" by (auto simp: t split: if_splits)
      then have "kept s y k" using assms(1) k by (simp add: ws_inv_def inv_kept_def)
      then show "kept ?t y k" by (rule kept_run [OF _ p, where r' = ?r']) (simp_all add: t)
    qed
    show "0 < cn_gen k \<and> cn_gen k \<le> gen_of s (cn_cluster k)" if "ws_conns ?t y = Some k" for y k
      using that assms(1) pg by (auto simp: t ws_inv_def inv_conns_def split: if_splits)
    show "\<exists>k'. ws_conns ?t y = Some k' \<and> cn_cluster k' = cn_cluster k \<and> cn_gen k' = cn_gen k
       \<and> (ws_gen s (cn_cluster k) = Some (cn_gen k) \<longrightarrow> cn_stopped k' = cn_stopped k \<and> cn_aborted k' = cn_aborted k)"
      if "ws_conns s y = Some k" for y k
      using that h by (intro exI [where x = k]) (auto simp: t)
  qed (simp_all add: t)
qed

lemma ws_step_inv: "ws_inv s \<Longrightarrow> ws_step s e t \<Longrightarrow> ws_inv t"
proof (erule ws_step.cases, goal_cases)
  case (1 s c)
  have "same_core s (ensureClusterWatching c s)" by (simp add: same_core_def ensureClusterWatching_def)
  then show ?case using 1 ws_inv_core by metis
next
  case (2 c s p found)
  have core: "same_core s (s\<lparr>ws_pending := remove1 c (ws_pending s)\<rparr>)" by (simp add: same_core_def)
  then have "ws_inv (s\<lparr>ws_pending := remove1 c (ws_pending s)\<rparr>)" using 2 ws_inv_core by metis
  then show ?case using 2 start_inv [of "s\<lparr>ws_pending := remove1 c (ws_pending s)\<rparr>" p c]
    by (simp add: ensure_configured_def Let_def)
next
  case (11 s c d kc)
  have "same_core s (runSync c kc s)" by (simp add: same_core_def runSync_def Let_def split: option.splits)
  then show ?case using 11 ws_inv_core by metis
next
  case (12 s c)
  have "same_core s (snd (consumeClusterDirty c s))" by (simp add: same_core_def consumeClusterDirty_def)
  then show ?case using 12 ws_inv_core by metis
qed (auto intro: start_inv start_configured_inv start_next_inv start_opened_inv start_failed_inv on_watch_event_inv
   on_watch_end_inv restart_fires_inv)

interpretation watcher: invariant_system ws_init ws_step ws_inv
proof unfold_locales
  show "ws_init s \<Longrightarrow> ws_inv s" for s
    by (simp add: ws_init_def ws_start_def ws_inv_def inv_parts)
  show "ws_inv s \<Longrightarrow> ws_step s e t \<Longrightarrow> ws_inv t" for s e t by (rule ws_step_inv)
qed

end
