(* ===== verification/Kn_WatchProps.thy ===== *)
theory Kn_WatchProps
  imports Kn_WatchSafety
begin

text \<open>The properties of the watch manager, with their witnesses.\<close>

section \<open>A concrete run: one cluster, its first watch open\<close>

definition ex_w1 :: ws_state where "ex_w1 = startForCluster ''c'' 0 ws_start"

definition ex_run :: proc where
  "ex_run = \<lparr>pr_cluster = ''c'', pr_gen = 2, pr_left = buildTargets, pr_handles = [], pr_at = AwaitConfig\<rparr>"

definition ex_w2 :: ws_state where "ex_w2 = start_configured 0 ex_run True ex_w1"

definition ex_w3 :: ws_state where "ex_w3 = start_next 0 (ex_run\<lparr>pr_at := Looping\<rparr>) 7 ex_w2"

definition ex_conn :: conn where
  "ex_conn = \<lparr>cn_cluster = ''c'', cn_gen = 2, cn_target = hd buildTargets, cn_open = False,
     cn_stopped = False, cn_aborted = False\<rparr>"

definition ex_w4 :: ws_state where
  "ex_w4 = start_opened 0 (ex_run\<lparr>pr_left := tl buildTargets, pr_at := Opening 7\<rparr>) 7 ex_conn ex_w3"

lemma ex_w1_fields: "ws_procs ex_w1 = (\<lambda>_. None)(0 := Some ex_run)" "ws_gen ex_w1 ''c'' = Some 2"
    "ws_conns ex_w1 = (\<lambda>_. None)" "ws_restart ex_w1 = (\<lambda>_. None)"
  by (auto simp: ex_w1_def startForCluster_def stopForCluster_def ws_start_def ex_run_def gen_of_def Let_def)

lemma ex_w2_fields: "ws_procs ex_w2 = (\<lambda>_. None)(0 := Some (ex_run\<lparr>pr_at := Looping\<rparr>))" "ws_gen ex_w2 ''c'' = Some 2"
    "ws_conns ex_w2 = (\<lambda>_. None)" "ws_restart ex_w2 = (\<lambda>_. None)"
  by (auto simp: ex_w2_def start_configured_def ex_w1_fields)

lemma targets_split: "buildTargets = hd buildTargets # tl buildTargets"
  by (simp add: buildTargets_def)

lemma ex_w3_fields:
  "ws_procs ex_w3 0 = Some (ex_run\<lparr>pr_left := tl buildTargets, pr_at := Opening 7\<rparr>)" "ws_gen ex_w3 ''c'' = Some 2"
  "ws_conns ex_w3 7 = Some ex_conn" "ws_restart ex_w3 = (\<lambda>_. None)"
proof -
  have "pr_left ex_run = hd buildTargets # tl buildTargets" unfolding ex_run_def proc.simps by (rule targets_split)
  then have eq: "ex_w3 = ex_w2\<lparr>ws_procs := (ws_procs ex_w2)(0 := Some (ex_run\<lparr>pr_left := tl buildTargets, pr_at := Opening 7\<rparr>)),
      ws_conns := (ws_conns ex_w2)(7 := Some ex_conn)\<rparr>"
    by (simp add: ex_w3_def start_next_def isCurrentWatchGeneration_def ex_conn_def)
       (simp add: ex_run_def ex_w2_fields)
  show "ws_procs ex_w3 0 = Some (ex_run\<lparr>pr_left := tl buildTargets, pr_at := Opening 7\<rparr>)" "ws_gen ex_w3 ''c'' = Some 2"
    "ws_conns ex_w3 7 = Some ex_conn" "ws_restart ex_w3 = (\<lambda>_. None)" by (simp_all add: eq ex_w2_fields)
qed

lemma ex_w4_fields: "ws_gen ex_w4 ''c'' = Some 2" "ws_conns ex_w4 7 = Some (ex_conn\<lparr>cn_open := True\<rparr>)"
    "ws_restart ex_w4 = (\<lambda>_. None)"
  by (simp_all add: ex_w4_def start_opened_def isCurrentWatchGeneration_def ex_w3_fields)
     (simp_all add: ex_run_def ex_w3_fields)

lemma ex_w4_reach: "reach ws_init ws_step ex_w4"
proof -
  have 0: "reach ws_init ws_step ws_start" by (rule reach_init) (simp add: ws_init_def)
  have "ws_step ws_start () ex_w1" unfolding ex_w1_def by (rule w_boot) (simp add: ws_start_def)
  with 0 have 1: "reach ws_init ws_step ex_w1" by (rule reach_step)
  have "ws_step ex_w1 () ex_w2" unfolding ex_w2_def by (rule w_config) (simp_all add: ex_w1_fields ex_run_def)
  with 1 have 2: "reach ws_init ws_step ex_w2" by (rule reach_step)
  have "ws_step ex_w2 () ex_w3" unfolding ex_w3_def by (rule w_next) (simp_all add: ex_w2_fields)
  with 2 have 3: "reach ws_init ws_step ex_w3" by (rule reach_step)
  have "ws_step ex_w3 () ex_w4" unfolding ex_w4_def by (rule w_opened) (simp_all add: ex_w3_fields)
  with 3 show ?thesis by (rule reach_step)
qed

section \<open>No watch is lost\<close>

text \<open>
  C9. In every reachable state of the watch manager, a watch that is open and not aborted is
  either a live watch stored for its cluster under the current generation, or held by a run of
  startForCluster of its own generation that will still store or abort it; no interleaving of
  starts, stops, failures and restarts leaks one.
\<close>

theorem watch_no_leak:
  assumes "reach ws_init ws_step s" and "ws_conns s h = Some k" and "cn_open k" and "\<not> cn_aborted k"
  shows "(\<exists>hs. ws_watches s (cn_cluster k) = Some hs \<and> h \<in> set hs \<and> \<not> silenced k s)
     \<or> (\<exists>p r. ws_procs s p = Some r \<and> pr_cluster r = cn_cluster k \<and> pr_gen r = cn_gen k \<and> h \<in> set (pr_handles r))"
proof -
  have i: "inv_kept s" "inv_watched s" using watcher.reach_inv [OF assms(1)] by (simp_all add: ws_inv_def)
  have "kept s h k" using i(1) assms(2-4) by (simp add: inv_kept_def)
  moreover have "\<not> silenced k s" if a: "ws_watches s (cn_cluster k) = Some hs" "h \<in> set hs" for hs
  proof -
    obtain g where "ws_gen s (cn_cluster k) = Some g" "held s (cn_cluster k) g h"
      using i(2) [unfolded inv_watched_def, rule_format, OF a] by blast
    then show ?thesis using assms(2) by (auto simp: silenced_def isCurrentWatchGeneration_def held_def)
  qed
  ultimately show ?thesis unfolding kept_def by blast
qed

lemma watch_no_leak_witness:
  "(\<exists>hs. ws_watches ex_w4 ''c'' = Some hs \<and> 7 \<in> set hs)
     \<or> (\<exists>p r. ws_procs ex_w4 p = Some r \<and> pr_gen r = 2 \<and> 7 \<in> set (pr_handles r))"
  using watch_no_leak [OF ex_w4_reach ex_w4_fields(2)] by (auto simp: ex_conn_def)

section \<open>Restarting\<close>

text \<open>
  Once a cluster is started again, the callbacks of every watch opened before have no effect
  on the state: no event, no dirty mark, no restart.
\<close>

theorem restart_silences_old:
  assumes "reach ws_init ws_step s" and "ws_conns s h = Some k"
    and "ws_conns (startForCluster (cn_cluster k) p s) h = Some k'"
  shows "on_watch_event now k' phase obj (startForCluster (cn_cluster k) p s) = startForCluster (cn_cluster k) p s
     \<and> on_watch_end now k' (startForCluster (cn_cluster k) p s) = startForCluster (cn_cluster k) p s"
proof -
  have le: "cn_gen k \<le> gen_of s (cn_cluster k)"
    using watcher.reach_inv [OF assms(1)] assms(2) by (simp add: ws_inv_def inv_conns_def)
  have "cn_cluster k' = cn_cluster k" "cn_gen k' = cn_gen k"
    using assms(2,3) by (auto simp: startForCluster_def Let_def stop_conns split: if_splits)
  moreover have "ws_gen (startForCluster (cn_cluster k) p s) (cn_cluster k) = Some (gen_of s (cn_cluster k) + 2)"
    by (simp add: startForCluster_def Let_def stop_gen_of)
  ultimately have "silenced k' (startForCluster (cn_cluster k) p s)"
    using le by (simp add: silenced_def isCurrentWatchGeneration_def)
  then show ?thesis by (simp add: on_watch_event_def on_watch_end_def)
qed

lemma restart_silences_old_witness:
  "\<exists>k'. ws_conns (startForCluster ''c'' 1 ex_w4) 7 = Some k'
     \<and> on_watch_end 0 k' (startForCluster ''c'' 1 ex_w4) = startForCluster ''c'' 1 ex_w4"
proof -
  have "\<exists>k'. ws_conns (startForCluster ''c'' 1 ex_w4) 7 = Some k'"
    using ex_w4_fields(2) by (simp add: startForCluster_def Let_def stop_conns)
  then obtain k' where k': "ws_conns (startForCluster ''c'' 1 ex_w4) 7 = Some k'" by blast
  then show ?thesis
    using restart_silences_old [OF ex_w4_reach ex_w4_fields(2), of 1 k' 0] by (auto simp: ex_conn_def)
qed

lemma restart_delay: "fst (getRestartDelayMs c s) = min (30000 * 2 ^ min (failures_of s c) 5) 600000"
  by (simp add: getRestartDelayMs_def Let_def restartBaseDelayMs_def restartMaxDelayMs_def)

lemma restart_delay_range: "30000 \<le> fst (getRestartDelayMs c s) \<and> fst (getRestartDelayMs c s) \<le> 600000"
  by (simp add: restart_delay)

text \<open>
  When a live watch ends, its cluster is marked dirty and a restart timer exists afterwards:
  a new one of the same generation, due between 30 seconds and 10 minutes later and counted as a
  failure, or the one already running, which is not postponed.
\<close>

theorem lost_watch_restarts:
  assumes "\<not> silenced k s"
  shows "cn_cluster k \<in> ws_dirty (on_watch_end now k s)
     \<and> (\<exists>d g. ws_restart (on_watch_end now k s) (cn_cluster k) = Some (d, g)
         \<and> (if ws_restart s (cn_cluster k) = None
            then g = cn_gen k \<and> now + 30000 \<le> d \<and> d \<le> now + 600000
               \<and> failures_of (on_watch_end now k s) (cn_cluster k) = failures_of s (cn_cluster k) + 1
            else ws_restart s (cn_cluster k) = Some (d, g)
               \<and> failures_of (on_watch_end now k s) (cn_cluster k) = failures_of s (cn_cluster k)))"
  using assms restart_delay_range [of "cn_cluster k" "markClusterDirty (cn_cluster k) s"]
  by (auto simp: on_watch_end_def silenced_def scheduleRestart_def markClusterDirty_def isCurrentWatchGeneration_def
      getRestartDelayMs_def Let_def failures_of_def)

lemma lost_watch_restarts_witness:
  "\<exists>d g. ws_restart (on_watch_end 100 ex_conn ex_w4) ''c'' = Some (d, g) \<and> 30100 \<le> d \<and> d \<le> 600100"
proof -
  have "\<not> silenced ex_conn ex_w4"
    by (simp add: silenced_def isCurrentWatchGeneration_def) (simp add: ex_conn_def ex_w4_fields)
  from lost_watch_restarts [OF this, of 100] show ?thesis
    by (auto simp: ex_conn_def ex_w4_fields)
qed

text \<open>
  The restart delay is 30 seconds doubled per recorded failure and capped at 10 minutes, it
  never decreases with more failures, and computing it counts one more failure.
\<close>

theorem restart_backoff:
  "fst (getRestartDelayMs c s) = min (30000 * 2 ^ min (failures_of s c) 5) 600000
     \<and> (failures_of s c \<le> failures_of s' c' \<longrightarrow> fst (getRestartDelayMs c s) \<le> fst (getRestartDelayMs c' s'))
     \<and> failures_of (snd (getRestartDelayMs c s)) c = failures_of s c + 1"
proof -
  have "(2::int) ^ min m 5 \<le> 2 ^ min n 5" if "m \<le> n" for m n :: nat
    using that by (intro power_increasing) auto
  then have "failures_of s c \<le> failures_of s' c' \<longrightarrow> fst (getRestartDelayMs c s) \<le> fst (getRestartDelayMs c' s')"
    unfolding restart_delay by (intro impI min.mono mult_left_mono) auto
  then show ?thesis
    by (simp add: restart_delay) (simp add: getRestartDelayMs_def Let_def failures_of_def)
qed

lemma restart_backoff_witness:
  "fst (getRestartDelayMs ''c'' ex_w4) \<le> fst (getRestartDelayMs ''c'' (snd (getRestartDelayMs ''c'' ex_w4)))"
  using restart_backoff [of "''c''" ex_w4 "snd (getRestartDelayMs ''c'' ex_w4)" "''c''"] by linarith

section \<open>Events\<close>

lemma watch_event_live: "\<not> silenced k s \<Longrightarrow> on_watch_event now k phase obj s =
    s\<lparr>ws_dirty := insert (cn_cluster k) (ws_dirty s),
      ws_events := ws_events s @ [buildRealtimeEvent now (cn_cluster k) (cn_target k) phase obj],
      ws_debounce := (ws_debounce s)(cn_cluster k := Some (now + 1500))\<rparr>"
  by (simp add: on_watch_event_def scheduleSync_def emitRealtimeEvent_def markClusterDirty_def debounceMs_def)

definition deliver :: "conn \<Rightarrow> (time \<times> string \<times> json option) list \<Rightarrow> ws_state \<Rightarrow> ws_state" where
  "deliver k es s = foldl (\<lambda>s (now, phase, obj). on_watch_event now k phase obj s) s es"

text \<open>
  A burst of events on a live watch emits one realtime event per message, in order, marks the
  cluster dirty and leaves one debounce timer due 1.5 seconds after the last message, without
  starting a sync.
\<close>

theorem watch_burst_debounced:
  assumes "\<not> silenced k s" and "es \<noteq> []"
  shows "ws_events (deliver k es s) = ws_events s
       @ map (\<lambda>(now, phase, obj). buildRealtimeEvent now (cn_cluster k) (cn_target k) phase obj) es
     \<and> ws_debounce (deliver k es s) = (ws_debounce s)(cn_cluster k := Some (fst (last es) + 1500))
     \<and> cn_cluster k \<in> ws_dirty (deliver k es s) \<and> ws_syncs (deliver k es s) = ws_syncs s"
  using assms
proof (induction es arbitrary: s)
  case (Cons e es)
  obtain now phase obj where e: "e = (now, phase, obj)" by (cases e)
  let ?s = "on_watch_event now k phase obj s"
  have "\<not> silenced k ?s"
    using Cons.prems(1) by (simp add: watch_event_live silenced_def isCurrentWatchGeneration_def)
  then show ?case
    using Cons.IH [of ?s] Cons.prems(1) by (cases "es = []") (simp_all add: deliver_def e watch_event_live fun_eq_iff)
qed simp

lemma watch_burst_debounced_witness:
  "ws_debounce (deliver ex_conn [(10, ''ADDED'', None), (900, ''MODIFIED'', None)] ex_w4) ''c'' = Some 2400"
proof -
  have "\<not> silenced ex_conn ex_w4"
    by (simp add: silenced_def isCurrentWatchGeneration_def) (simp add: ex_conn_def ex_w4_fields)
  from watch_burst_debounced [OF this, of "[(10, ''ADDED'', None), (900, ''MODIFIED'', None)]"] show ?thesis
    by (simp add: ex_conn_def)
qed

end
