(* ===== verification/Kn_Scale.thy ===== *)
theory Kn_Scale
  imports Kn_Prelude
begin

text \<open>
  The scale convergence loop of the workload pages: frontend/src/lib/workloads/scale-convergence.ts.

  The loop talks to a cluster through \<open>refetch\<close> and reads the clock; both are given to the model by
  the attempt they belong to (\<open>se_data\<close>, \<open>se_stamp\<close> for the time stamp of a round, \<open>se_now\<close> for its
  elapsed time). A missing or null number is \<open>None\<close>. The interval and timeout options are finite
  numbers; a rejected refetch, which ends the run with that rejection, is not modelled.
\<close>

datatype scale_status = Accepted | Converging | Stable | Timeout

record scale_observed_state =
  so_observedReplicas :: "jsnum option"
  so_readyReplicas :: "jsnum option"
  so_availableReplicas :: "jsnum option"
  so_observedAt :: "string option"

record scale_observed =
  ob_desiredReplicas :: int
  ob_observedReplicas :: "int option"
  ob_readyReplicas :: "int option"
  ob_availableReplicas :: "int option"
  ob_observedAt :: string

record scale_round =
  sr_status :: scale_status
  sr_attempt :: int
  sr_maxAttempts :: int
  sr_elapsedMs :: int
  sr_observed :: scale_observed

record scale_options =
  sc_desiredReplicas :: "jsnum option"
  sc_initial :: "scale_observed_state option"
  sc_intervalMs :: "rat option"
  sc_timeoutMs :: "rat option"
  sc_maxAttempts :: "jsnum option"
  sc_requireAvailable :: bool

record 'd scale_env =
  se_data :: "int \<Rightarrow> 'd option"
  se_resolve :: "'d option \<Rightarrow> scale_observed_state option"
  se_started :: time
  se_stamp :: "int \<Rightarrow> time"
  se_now :: "int \<Rightarrow> time"
  se_iso :: "time \<Rightarrow> string"

record 'd scale_result =
  rs_rounds :: "scale_round list"
  rs_finalRound :: scale_round
  rs_lastData :: "'d option"

definition js_trunc :: "rat \<Rightarrow> int" where
  "js_trunc q = (if 0 \<le> q then \<lfloor>q\<rfloor> else \<lceil>q\<rceil>)"

definition toSafeInt :: "jsnum option \<Rightarrow> int option" where
  "toSafeInt v = (case v of Some (Fin q) \<Rightarrow> Some (max 0 (js_trunc q)) | _ \<Rightarrow> None)"

definition normalizeDesiredReplicas :: "jsnum option \<Rightarrow> int" where
  "normalizeDesiredReplicas v = (case v of Some (Fin q) \<Rightarrow> max 0 (js_trunc q) | _ \<Rightarrow> 0)"

text \<open>\<open>next?.f ?? previous?.f\<close>.\<close>

definition coalesce :: "jsnum option \<Rightarrow> int option \<Rightarrow> jsnum option" where
  "coalesce a b = (case a of Some v \<Rightarrow> Some v | None \<Rightarrow> map_option num b)"

definition normalizeObservedState ::
  "int \<Rightarrow> scale_observed option \<Rightarrow> scale_observed_state option \<Rightarrow> string \<Rightarrow> scale_observed" where
  "normalizeObservedState desired previous patch observedAtFallback =
    (let field = (\<lambda>f g. toSafeInt (coalesce (Option.bind patch f) (Option.bind previous g))) in
     \<lparr>ob_desiredReplicas = desired,
      ob_observedReplicas = field so_observedReplicas ob_observedReplicas,
      ob_readyReplicas = field so_readyReplicas ob_readyReplicas,
      ob_availableReplicas = field so_availableReplicas ob_availableReplicas,
      ob_observedAt = (case Option.bind patch so_observedAt of Some t \<Rightarrow> t
        | None \<Rightarrow> (case map_option ob_observedAt previous of
            Some t \<Rightarrow> (if t \<noteq> [] then t else observedAtFallback)
          | None \<Rightarrow> observedAtFallback))\<rparr>)"

definition isConverged :: "scale_observed \<Rightarrow> bool \<Rightarrow> bool" where
  "isConverged observed requireAvailable =
    (let desired = ob_desiredReplicas observed in
     if ob_observedReplicas observed \<noteq> Some desired \<or> ob_readyReplicas observed \<noteq> Some desired then False
     else if \<not> requireAvailable then True
     else ob_availableReplicas observed = Some desired)"

definition resolveScaleConvergenceRefetchInterval :: "scale_status option \<Rightarrow> rat \<Rightarrow> int option" where
  "resolveScaleConvergenceRefetchInterval status activeIntervalMs =
     (if status = Some Accepted \<or> status = Some Converging then Some (max 250 (js_trunc activeIntervalMs)) else None)"

definition intervalMs :: "scale_options \<Rightarrow> int" where
  "intervalMs opt = max 250 (js_trunc (case sc_intervalMs opt of None \<Rightarrow> 1000 | Some q \<Rightarrow> q))"

definition timeoutMs :: "scale_options \<Rightarrow> int" where
  "timeoutMs opt = max (intervalMs opt) (js_trunc (case sc_timeoutMs opt of None \<Rightarrow> 60000 | Some q \<Rightarrow> q))"

definition maxAttempts :: "scale_options \<Rightarrow> int" where
  "maxAttempts opt = (let derived = max 1 (\<lceil>of_int (timeoutMs opt) / (of_int (intervalMs opt) :: rat)\<rceil>) in
     case sc_maxAttempts opt of Some (Fin q) \<Rightarrow> (if 0 < q then js_trunc q else derived) | _ \<Rightarrow> derived)"

text \<open>The rounds of the loop from an attempt on; \<open>remaining\<close> attempts are left, this one included.\<close>

fun scale_loop :: "scale_options \<Rightarrow> 'd scale_env \<Rightarrow> scale_observed \<Rightarrow> 'd option \<Rightarrow> int \<Rightarrow> nat \<Rightarrow> 'd scale_result" where
  "scale_loop opt env previous lastData attempt 0 =
     (let r = \<lparr>sr_status = Timeout, sr_attempt = maxAttempts opt, sr_maxAttempts = maxAttempts opt,
        sr_elapsedMs = max 0 (se_now env attempt - se_started env), sr_observed = previous\<rparr> in
      \<lparr>rs_rounds = [r], rs_finalRound = r, rs_lastData = lastData\<rparr>)"
| "scale_loop opt env previous lastData attempt (Suc remaining) =
     (let data = se_data env attempt;
          observed = normalizeObservedState (ob_desiredReplicas previous) (Some previous)
            (se_resolve env data) (se_iso env (se_stamp env attempt));
          elapsed = max 0 (se_now env attempt - se_started env);
          converging = \<lparr>sr_status = Converging, sr_attempt = attempt, sr_maxAttempts = maxAttempts opt,
            sr_elapsedMs = elapsed, sr_observed = observed\<rparr> in
      if isConverged observed (sc_requireAvailable opt) then
        (let r = converging\<lparr>sr_status := Stable\<rparr> in
         \<lparr>rs_rounds = [converging, r], rs_finalRound = r, rs_lastData = data\<rparr>)
      else if timeoutMs opt \<le> elapsed \<or> maxAttempts opt \<le> attempt then
        (let r = converging\<lparr>sr_status := Timeout\<rparr> in
         \<lparr>rs_rounds = [converging, r], rs_finalRound = r, rs_lastData = data\<rparr>)
      else (let rest = scale_loop opt env observed data (attempt + 1) remaining in
        rest\<lparr>rs_rounds := converging # rs_rounds rest\<rparr>))"

definition runScaleConvergence :: "scale_options \<Rightarrow> 'd scale_env \<Rightarrow> 'd scale_result" where
  "runScaleConvergence opt env =
    (let accepted = normalizeObservedState (normalizeDesiredReplicas (sc_desiredReplicas opt)) None
          (sc_initial opt) (se_iso env (se_started env));
         acceptedRound = \<lparr>sr_status = Accepted, sr_attempt = 0, sr_maxAttempts = maxAttempts opt,
          sr_elapsedMs = 0, sr_observed = accepted\<rparr>;
         rest = scale_loop opt env accepted None 1 (nat (maxAttempts opt)) in
     rest\<lparr>rs_rounds := acceptedRound # rs_rounds rest\<rparr>)"

section \<open>Lemmas\<close>

lemma maxAttempts_nonneg: "0 \<le> maxAttempts opt"
  by (auto simp: maxAttempts_def Let_def js_trunc_def split: option.splits jsnum.splits)

lemma desired_kept [simp]: "ob_desiredReplicas (normalizeObservedState d p patch t) = d"
  by (simp add: normalizeObservedState_def Let_def)

definition met :: "bool \<Rightarrow> int \<Rightarrow> scale_observed \<Rightarrow> bool" where
  "met requireAvailable desired x \<longleftrightarrow> ob_desiredReplicas x = desired \<and> ob_observedReplicas x = Some desired
     \<and> ob_readyReplicas x = Some desired \<and> (requireAvailable \<longrightarrow> ob_availableReplicas x = Some desired)"

lemma isConverged_met: "isConverged x b \<longleftrightarrow> met b (ob_desiredReplicas x) x"
  by (auto simp: isConverged_def met_def Let_def)

lemma loop_final_last: "rs_rounds (scale_loop opt env pv ld a n) \<noteq> []
    \<and> last (rs_rounds (scale_loop opt env pv ld a n)) = rs_finalRound (scale_loop opt env pv ld a n)"
  by (induction opt env pv ld a n rule: scale_loop.induct) (simp_all add: Let_def)

lemma loop_length: "length (rs_rounds (scale_loop opt env pv ld a n)) \<le> n + 1"
  by (induction opt env pv ld a n rule: scale_loop.induct) (simp_all add: Let_def)

lemma loop_final:
  assumes "a + int n = maxAttempts opt + 1" and "0 < n"
  shows "(sr_status (rs_finalRound (scale_loop opt env pv ld a n)) = Stable \<and>
        met (sc_requireAvailable opt) (ob_desiredReplicas pv) (sr_observed (rs_finalRound (scale_loop opt env pv ld a n))))
    \<or> (sr_status (rs_finalRound (scale_loop opt env pv ld a n)) = Timeout \<and>
        \<not> met (sc_requireAvailable opt) (ob_desiredReplicas pv) (sr_observed (rs_finalRound (scale_loop opt env pv ld a n)))
        \<and> (timeoutMs opt \<le> sr_elapsedMs (rs_finalRound (scale_loop opt env pv ld a n))
           \<or> sr_attempt (rs_finalRound (scale_loop opt env pv ld a n)) = maxAttempts opt))"
  using assms
proof (induction opt env pv ld a n rule: scale_loop.induct)
  case (2 opt env pv ld a n)
  let ?x = "normalizeObservedState (ob_desiredReplicas pv) (Some pv) (se_resolve env (se_data env a)) (se_iso env (se_stamp env a))"
  let ?e = "max 0 (se_now env a - se_started env)"
  show ?case
  proof (cases "isConverged ?x (sc_requireAvailable opt) \<or> timeoutMs opt \<le> ?e \<or> maxAttempts opt \<le> a")
    case True
    then show ?thesis using 2(2,3) by (auto simp: Let_def isConverged_met)
  next
    case False
    moreover have "0 < n" using False 2(2) by (cases n) auto
    ultimately show ?thesis using 2 by (simp add: Let_def)
  qed
qed simp

lemma loop_attempts:
  assumes "a + int n = maxAttempts opt + 1"
  shows "\<forall>r \<in> set (rs_rounds (scale_loop opt env pv ld a n)). sr_maxAttempts r = maxAttempts opt
    \<and> sr_attempt r \<le> maxAttempts opt \<and> sr_status r \<noteq> Accepted \<and> 0 \<le> sr_elapsedMs r
    \<and> ob_desiredReplicas (sr_observed r) = ob_desiredReplicas pv"
  using assms
proof (induction opt env pv ld a n rule: scale_loop.induct)
  case (2 opt env pv ld a n)
  let ?x = "normalizeObservedState (ob_desiredReplicas pv) (Some pv) (se_resolve env (se_data env a)) (se_iso env (se_stamp env a))"
  let ?e = "max 0 (se_now env a - se_started env)"
  show ?case
  proof (cases "isConverged ?x (sc_requireAvailable opt) \<or> timeoutMs opt \<le> ?e \<or> maxAttempts opt \<le> a")
    case True
    then show ?thesis using 2(2) by (auto simp: Let_def)
  next
    case False
    then show ?thesis using 2 by (auto simp: Let_def)
  qed
qed (simp add: Let_def)

text \<open>
  With at least one attempt, the convergence loop ends in status stable exactly when the last
  observed state meets the desired replica count (ready, observed, and available when required),
  and otherwise in status timeout, and then only because the timeout elapsed or the attempts were
  used up.
\<close>

theorem scale_verdict_sound:
  assumes "1 \<le> maxAttempts opt"
  shows "(sr_status (rs_finalRound (runScaleConvergence opt env)) = Stable \<longleftrightarrow>
        met (sc_requireAvailable opt) (normalizeDesiredReplicas (sc_desiredReplicas opt))
          (sr_observed (rs_finalRound (runScaleConvergence opt env))))
    \<and> sr_status (rs_finalRound (runScaleConvergence opt env)) \<in> {Stable, Timeout}
    \<and> (sr_status (rs_finalRound (runScaleConvergence opt env)) = Timeout \<longrightarrow>
        timeoutMs opt \<le> sr_elapsedMs (rs_finalRound (runScaleConvergence opt env))
        \<or> sr_attempt (rs_finalRound (runScaleConvergence opt env)) = maxAttempts opt)"
proof -
  let ?acc = "normalizeObservedState (normalizeDesiredReplicas (sc_desiredReplicas opt)) None
          (sc_initial opt) (se_iso env (se_started env))"
  have "(1::int) + int (nat (maxAttempts opt)) = maxAttempts opt + 1" "0 < nat (maxAttempts opt)" using assms by auto
  from loop_final [OF this, of env ?acc None] show ?thesis
    by (auto simp: runScaleConvergence_def Let_def)
qed

definition ex_scale :: scale_options where
  "ex_scale = \<lparr>sc_desiredReplicas = Some (num 3), sc_initial = None, sc_intervalMs = None, sc_timeoutMs = None,
     sc_maxAttempts = Some (num 2), sc_requireAvailable = False\<rparr>"

definition ex_scale_env :: "int scale_env" where
  "ex_scale_env = \<lparr>se_data = Some, se_resolve = map_option (\<lambda>n. \<lparr>so_observedReplicas = Some (num (n + 1)),
     so_readyReplicas = Some (num (n + 1)), so_availableReplicas = None, so_observedAt = None\<rparr>),
     se_started = 0, se_stamp = (\<lambda>n. n * 1000), se_now = (\<lambda>n. n * 1000), se_iso = (\<lambda>_. ''t'')\<rparr>"

lemma ex_scale_attempts: "maxAttempts ex_scale = 2"
  by (simp add: maxAttempts_def ex_scale_def Let_def js_trunc_def num_def)

lemma scale_verdict_sound_witness:
  "sr_status (rs_finalRound (runScaleConvergence ex_scale ex_scale_env)) \<in> {Stable, Timeout}"
  using scale_verdict_sound [of ex_scale ex_scale_env] unfolding ex_scale_attempts by auto

text \<open>
  Every run of the convergence loop ends: its rounds begin with the accepted round of attempt
  0, end with the final round, are at most two more than the allowed attempts, and all keep the
  desired count and the attempt bound.
\<close>

theorem scale_rounds_shape:
  "hd (rs_rounds (runScaleConvergence opt env)) = \<lparr>sr_status = Accepted, sr_attempt = 0,
       sr_maxAttempts = maxAttempts opt, sr_elapsedMs = 0,
       sr_observed = normalizeObservedState (normalizeDesiredReplicas (sc_desiredReplicas opt)) None
          (sc_initial opt) (se_iso env (se_started env))\<rparr>
   \<and> last (rs_rounds (runScaleConvergence opt env)) = rs_finalRound (runScaleConvergence opt env)
   \<and> int (length (rs_rounds (runScaleConvergence opt env))) \<le> maxAttempts opt + 2
   \<and> list_all (\<lambda>r. sr_status r \<noteq> Accepted \<and> sr_attempt r \<le> maxAttempts opt
        \<and> ob_desiredReplicas (sr_observed r) = normalizeDesiredReplicas (sc_desiredReplicas opt))
      (tl (rs_rounds (runScaleConvergence opt env)))"
proof -
  let ?acc = "normalizeObservedState (normalizeDesiredReplicas (sc_desiredReplicas opt)) None
          (sc_initial opt) (se_iso env (se_started env))"
  let ?n = "nat (maxAttempts opt)"
  have n: "(1::int) + int ?n = maxAttempts opt + 1" using maxAttempts_nonneg [of opt] by simp
  show ?thesis
    using loop_final_last [of opt env ?acc None 1 ?n] loop_length [of opt env ?acc None 1 ?n]
      loop_attempts [OF n, of env ?acc None] maxAttempts_nonneg [of opt]
    by (auto simp: runScaleConvergence_def Let_def list_all_iff)
qed

end
