(* ===== verification/Kn_Capacity.thy ===== *)
theory Kn_Capacity
  imports Kn_Prelude
begin

text \<open>
  The topology capacity projection: frontend/src/modules/topology-kubejojo/engine/capacity.ts.

  A graph of resources and relations is reduced to a rendering budget by grouping resources along
  ever coarser semantic keys. \<open>localeCompare\<close> and \<open>encodeURIComponent\<close> are the fields of the
  environment record; weights and warning counts are finite numbers. A thrown RangeError is \<open>Inl\<close>.
\<close>

section \<open>Data\<close>

record cap_env =
  ce_lc :: "string \<Rightarrow> string \<Rightarrow> int"
  ce_enc :: "string \<Rightarrow> string"

datatype capacity_mode = Backend | Expanded | DefaultCanvas | Neighborhood

fun limit_nodes :: "capacity_mode \<Rightarrow> nat" where
  "limit_nodes Backend = 10000"
| "limit_nodes Expanded = 1500"
| "limit_nodes DefaultCanvas = 600"
| "limit_nodes Neighborhood = 300"

fun limit_edges :: "capacity_mode \<Rightarrow> nat" where
  "limit_edges Backend = 30000"
| "limit_edges Expanded = 5000"
| "limit_edges DefaultCanvas = 2000"
| "limit_edges Neighborhood = 1000"

datatype semantic_field = FNamespace | FInstance | FKind | FComponent

fun field_text :: "semantic_field \<Rightarrow> string" where
  "field_text FNamespace = ''namespace''"
| "field_text FInstance = ''instance''"
| "field_text FKind = ''kind''"
| "field_text FComponent = ''component''"

record level_def =
  ld_level :: string
  ld_fields :: "semantic_field list"

definition AGGREGATION_LEVELS :: "level_def list" where
  "AGGREGATION_LEVELS =
    [\<lparr>ld_level = ''namespace-instance-kind-component'', ld_fields = [FNamespace, FInstance, FKind, FComponent]\<rparr>,
     \<lparr>ld_level = ''namespace-instance-kind'', ld_fields = [FNamespace, FInstance, FKind]\<rparr>,
     \<lparr>ld_level = ''namespace-instance'', ld_fields = [FNamespace, FInstance]\<rparr>,
     \<lparr>ld_level = ''namespace-kind'', ld_fields = [FNamespace, FKind]\<rparr>,
     \<lparr>ld_level = ''namespace'', ld_fields = [FNamespace]\<rparr>,
     \<lparr>ld_level = ''kind-component'', ld_fields = [FKind, FComponent]\<rparr>,
     \<lparr>ld_level = ''kind'', ld_fields = [FKind]\<rparr>,
     \<lparr>ld_level = ''component'', ld_fields = [FComponent]\<rparr>,
     \<lparr>ld_level = ''cluster'', ld_fields = []\<rparr>]"

record resource_aggregation =
  ag_level :: string
  ag_memberCount :: nat
  ag_representativeId :: string
  ag_memberIds :: "string list"
  ag_membersByKind :: "(string \<times> nat) list"
  ag_semanticKey :: "(semantic_field \<times> string) list"

record relation_aggregation =
  rg_memberCount :: nat
  rg_membersByType :: "(string \<times> nat) list"
  rg_internal :: bool

datatype warnings = WNone | WList "string list" | WCount int

record cap_resource =
  cr_id :: string
  cr_name :: "string option"
  cr_kind :: "string option"
  cr_namespace :: "string option"
  cr_instanceName :: "string option"
  cr_weight :: "rat option"
  cr_status :: "string option"
  cr_warnings :: warnings
  cr_aggregation :: "resource_aggregation option"

record cap_relation =
  cl_id :: string
  cl_source :: string
  cl_target :: string
  cl_type :: "string option"
  cl_role :: "string option"
  cl_label :: "string option"
  cl_aggregation :: "relation_aggregation option"

record cap_metadata =
  cm_mode :: capacity_mode
  cm_strategy :: string
  cm_complete :: bool
  cm_limits :: "nat \<times> nat"
  cm_input :: "nat \<times> nat"
  cm_visible :: "nat \<times> nat"
  cm_represented :: "nat \<times> nat"
  cm_level :: "string option"
  cm_resourceGroups :: nat
  cm_resourceMembers :: nat
  cm_relationGroups :: nat
  cm_relationMembers :: nat
  cm_omittedEdges :: nat

record cap_projection =
  cp_resources :: "cap_resource list"
  cp_relations :: "cap_relation list"
  cp_capacity :: cap_metadata

record cap_candidate =
  cc_resources :: "cap_resource list"
  cc_relations :: "cap_relation list"
  cc_level :: string
  cc_resourceGroups :: nat
  cc_resourceMembers :: nat
  cc_relationGroups :: nat
  cc_relationMembers :: nat

section \<open>Comparators, kinds and health\<close>

definition compareIds :: "cap_env \<Rightarrow> cap_relation \<Rightarrow> cap_relation \<Rightarrow> int" where
  "compareIds env a b = ce_lc env (cl_id a) (cl_id b)"

definition rat_sign :: "rat \<Rightarrow> int" where
  "rat_sign q = (if q < 0 then -1 else if q = 0 then 0 else 1)"

definition weight_or_zero :: "cap_resource \<Rightarrow> rat" where
  "weight_or_zero r = (case cr_weight r of None \<Rightarrow> 0 | Some w \<Rightarrow> w)"

definition compareResources :: "cap_env \<Rightarrow> cap_resource \<Rightarrow> cap_resource \<Rightarrow> int" where
  "compareResources env a b = (let d = rat_sign (weight_or_zero b - weight_or_zero a) in
     if d \<noteq> 0 then d else ce_lc env (cr_id a) (cr_id b))"

definition aggregateExplicitWeight :: "cap_resource list \<Rightarrow> rat option" where
  "aggregateExplicitWeight members = foldl (\<lambda>cur r. case cr_weight r of None \<Rightarrow> cur
     | Some w \<Rightarrow> (case cur of None \<Rightarrow> Some w | Some c \<Rightarrow> Some (max c w))) None members"

definition normalizedValue :: "string option \<Rightarrow> string \<Rightarrow> string" where
  "normalizedValue v fallback = (case v of None \<Rightarrow> fallback
     | Some s \<Rightarrow> (if js_trim s = [] then fallback else js_trim s))"

definition resourceKind :: "cap_resource \<Rightarrow> string" where
  "resourceKind r = normalizedValue (cr_kind r) ''Unknown''"

definition relationKind :: "cap_relation \<Rightarrow> string" where
  "relationKind r = normalizedValue (cl_type r) (normalizedValue (cl_role r) (normalizedValue (cl_label r) ''Relation''))"

definition countByKind :: "cap_resource list \<Rightarrow> (string \<times> nat) list" where
  "countByKind rs = count_by resourceKind rs"

definition countRelationsByType :: "cap_relation list \<Rightarrow> (string \<times> nat) list" where
  "countRelationsByType rs = count_by relationKind rs"

definition STATUS_PRIORITY :: "string \<Rightarrow> int" where
  "STATUS_PRIORITY s = (if s = ''healthy'' then 0 else if s = ''unknown'' then 1 else if s = ''warning'' then 2 else 3)"

definition warning_count :: "warnings \<Rightarrow> int" where
  "warning_count w = (case w of WNone \<Rightarrow> 0 | WList ws \<Rightarrow> int (length ws) | WCount n \<Rightarrow> n)"

definition normalizedStatus :: "cap_resource \<Rightarrow> string option" where
  "normalizedStatus r = (let s = (case cr_status r of None \<Rightarrow> [] | Some t \<Rightarrow> js_lower (js_trim t)) in
     if s \<in> {''error'', ''failed'', ''failure'', ''unhealthy'', ''critical''} then Some ''critical''
     else if warning_count (cr_warnings r) > 0 \<or> s \<in> {''warning'', ''pending'', ''degraded''} then Some ''warning''
     else if s \<in> {''unknown'', ''unavailable''} then Some ''unknown''
     else if s \<noteq> [] then Some ''healthy'' else None)"

definition worst_status :: "cap_resource list \<Rightarrow> string option" where
  "worst_status rs = (case js_sort (\<lambda>a b. STATUS_PRIORITY b - STATUS_PRIORITY a) (List.map_filter normalizedStatus rs) of
     [] \<Rightarrow> None | s # _ \<Rightarrow> Some s)"

definition array_warnings :: "cap_resource list \<Rightarrow> string list" where
  "array_warnings rs = concat (map (\<lambda>r. case cr_warnings r of WList ws \<Rightarrow> ws | _ \<Rightarrow> []) rs)"

definition numeric_warnings :: "cap_resource list \<Rightarrow> int" where
  "numeric_warnings rs = sum_list (map (\<lambda>r. case cr_warnings r of WCount n \<Rightarrow> n | _ \<Rightarrow> 0) rs)"

text \<open>The representative with the health fields that \<open>aggregateResourceHealth\<close> returns spread over it.\<close>

definition aggregateResourceHealth :: "cap_resource list \<Rightarrow> cap_resource \<Rightarrow> cap_resource" where
  "aggregateResourceHealth rs base =
    (let b1 = (case worst_status rs of None \<Rightarrow> base | Some s \<Rightarrow> base\<lparr>cr_status := Some s\<rparr>) in
     if array_warnings rs \<noteq> [] then b1\<lparr>cr_warnings := WList (js_unique (array_warnings rs))\<rparr>
     else if numeric_warnings rs > 0 then b1\<lparr>cr_warnings := WCount (numeric_warnings rs)\<rparr>
     else b1)"

section \<open>Connected components\<close>

definition neighbours :: "string list \<Rightarrow> cap_relation list \<Rightarrow> string \<Rightarrow> string list" where
  "neighbours known relations i =
     js_unique (concat (map (\<lambda>r. if cl_source r \<in> set known \<and> cl_target r \<in> set known
        then (if cl_source r = i then [cl_target r] else []) @ (if cl_target r = i then [cl_source r] else [])
        else []) relations))"

text \<open>
  The queue of the search: every identifier enters it once, so as many turns as there are
  identifiers empty it.
\<close>

fun component_search :: "cap_env \<Rightarrow> (string \<Rightarrow> string list) \<Rightarrow> nat \<Rightarrow> string list \<Rightarrow> string list \<Rightarrow> string list \<Rightarrow> string list" where
  "component_search env adj 0 queue seen members = members"
| "component_search env adj (Suc n) [] seen members = members"
| "component_search env adj (Suc n) (current # queue) seen members =
     (let fresh = filter (\<lambda>i. i \<notin> set seen) (js_sort (ce_lc env) (adj current)) in
      component_search env adj n (queue @ fresh) (seen @ fresh) (members @ [current]))"

definition connectedComponents :: "cap_env \<Rightarrow> cap_resource list \<Rightarrow> cap_relation list \<Rightarrow> string \<Rightarrow> string option" where
  "connectedComponents env resources relations =
    (let ids = map cr_id resources; adj = neighbours ids relations in
     foldl (\<lambda>comp start. if comp start \<noteq> None then comp
        else (let members = js_sort (ce_lc env) (component_search env adj (length ids) [start] [start] []) in
          (\<lambda>i. if i \<in> set members then Some (hd members) else comp i)))
      (\<lambda>_. None) (map cr_id (js_sort (\<lambda>a b. ce_lc env (cr_id a) (cr_id b)) resources)))"

section \<open>Aggregation keys\<close>

definition semanticValues :: "cap_resource \<Rightarrow> (string \<Rightarrow> string option) \<Rightarrow> semantic_field \<Rightarrow> string" where
  "semanticValues r componentById f = (case f of
     FNamespace \<Rightarrow> normalizedValue (cr_namespace r) ''_cluster''
   | FInstance \<Rightarrow> normalizedValue (cr_instanceName r) ''_unassigned''
   | FKind \<Rightarrow> resourceKind r
   | FComponent \<Rightarrow> (case componentById (cr_id r) of Some c \<Rightarrow> c | None \<Rightarrow> cr_id r))"

fun join_with :: "string \<Rightarrow> string list \<Rightarrow> string" where
  "join_with sep [] = []"
| "join_with sep [x] = x"
| "join_with sep (x # y # xs) = x @ sep @ join_with sep (y # xs)"

definition aggregationKey ::
  "cap_resource \<Rightarrow> level_def \<Rightarrow> (string \<Rightarrow> string option) \<Rightarrow> string \<times> (semantic_field \<times> string) list" where
  "aggregationKey r d componentById =
    (let values = semanticValues r componentById in
     (if ld_fields d \<noteq> [] then join_with ''|'' (map (\<lambda>f. field_text f @ ''='' @ values f) (ld_fields d))
      else ''cluster=all'',
      map (\<lambda>f. (f, values f)) (ld_fields d)))"

definition stableAggregateId :: "cap_env \<Rightarrow> string \<Rightarrow> string \<Rightarrow> string \<Rightarrow> string" where
  "stableAggregateId env entity level key = ''capacity:'' @ entity @ '':'' @ level @ '':'' @ ce_enc env key"

definition aggregateLabel :: "string \<Rightarrow> (semantic_field \<times> string) list \<Rightarrow> nat \<Rightarrow> string" where
  "aggregateLabel level semanticKey memberCount =
    (let scope = join_with '' / '' (filter (\<lambda>v. \<not> starts_with ''_'' v) (map snd semanticKey)) in
     (if scope \<noteq> [] then scope else level) @ '' ('' @ show_nat memberCount @ '')'')"

section \<open>A candidate projection\<close>

type_synonym resource_group = "string \<times> (semantic_field \<times> string) list \<times> cap_resource list"

definition aggregate_of :: "cap_env \<Rightarrow> level_def \<Rightarrow> resource_group \<Rightarrow> cap_resource" where
  "aggregate_of env d g = (case g of (key, semanticKey, members) \<Rightarrow>
     (let representative = hd (js_sort (compareResources env) members);
          base = aggregateResourceHealth members representative in
      base\<lparr>cr_id := stableAggregateId env ''resource'' (ld_level d) key,
           cr_kind := Some ''Aggregate'',
           cr_name := Some (aggregateLabel (ld_level d) semanticKey (length members)),
           cr_namespace := (if FNamespace \<in> set (ld_fields d) then cr_namespace representative else None),
           cr_instanceName := (if FInstance \<in> set (ld_fields d) then cr_instanceName representative else None),
           cr_weight := (case aggregateExplicitWeight members of None \<Rightarrow> cr_weight base | Some w \<Rightarrow> Some w),
           cr_aggregation := Some \<lparr>ag_level = ld_level d, ag_memberCount = length members,
             ag_representativeId = cr_id representative, ag_memberIds = map cr_id members,
             ag_membersByKind = countByKind members, ag_semanticKey = semanticKey\<rparr>\<rparr>))"

definition project_group :: "cap_env \<Rightarrow> level_def \<Rightarrow> resource_group \<Rightarrow> cap_resource" where
  "project_group env d g = (if length (snd (snd g)) = 1 then hd (snd (snd g)) else aggregate_of env d g)"

definition resource_groups ::
  "cap_env \<Rightarrow> level_def \<Rightarrow> (string \<Rightarrow> string option) \<Rightarrow> string list \<Rightarrow> cap_resource list \<Rightarrow> resource_group list" where
  "resource_groups env d componentById pinned resources =
     js_sort (\<lambda>a b. ce_lc env (fst a) (fst b))
       (group_by (\<lambda>r. aggregationKey r d componentById)
         (filter (\<lambda>r. cr_id r \<notin> set pinned) (js_sort (compareResources env) resources)))"

text \<open>\<open>visibleByOriginalId\<close>: the pinned resources first, then the members of the groups.\<close>

definition visible_id :: "cap_env \<Rightarrow> level_def \<Rightarrow> string list \<Rightarrow> cap_resource list \<Rightarrow> resource_group list \<Rightarrow> string \<Rightarrow> string" where
  "visible_id env d pinned resources groups i =
     (case find (\<lambda>g. i \<in> cr_id ` set (snd (snd g))) (rev groups) of
        Some g \<Rightarrow> (if length (snd (snd g)) = 1 then i else stableAggregateId env ''resource'' (ld_level d) (fst g))
      | None \<Rightarrow> (if i \<in> cr_id ` set (filter (\<lambda>r. cr_id r \<in> set pinned) resources) then i else ''undefined''))"

type_synonym relation_group = "string \<times> (string \<times> string) \<times> cap_relation list"

definition relation_key :: "(string \<Rightarrow> string) \<Rightarrow> bool \<Rightarrow> cap_relation \<Rightarrow> string \<times> string \<times> string" where
  "relation_key vis preserve r =
    (let s = vis (cl_source r); t = vis (cl_target r) in
     (s @ ''->'' @ t @ ''|'' @ (if preserve then relationKind r else ''all''), (s, t)))"

definition relation_groups ::
  "cap_env \<Rightarrow> (string \<Rightarrow> string) \<Rightarrow> bool \<Rightarrow> cap_resource list \<Rightarrow> cap_relation list \<Rightarrow> relation_group list" where
  "relation_groups env vis preserve resources relations =
     js_sort (\<lambda>a b. ce_lc env (fst a) (fst b))
       (group_by (relation_key vis preserve)
         (filter (\<lambda>r. cl_source r \<in> cr_id ` set resources \<and> cl_target r \<in> cr_id ` set resources)
           (js_sort (compareIds env) relations)))"

definition kept_relation :: "relation_group \<Rightarrow> bool" where
  "kept_relation g = (case g of (key, (s, t), members) \<Rightarrow>
     length members = 1 \<and> \<not> (cl_source (hd members) \<noteq> s \<or> cl_target (hd members) \<noteq> t))"

definition project_relation :: "cap_env \<Rightarrow> level_def \<Rightarrow> relation_group \<Rightarrow> cap_relation" where
  "project_relation env d g = (case g of (key, (s, t), members) \<Rightarrow>
     (if kept_relation g then hd members
      else (hd members)\<lparr>cl_id := stableAggregateId env ''relation'' (ld_level d) key,
        cl_source := s, cl_target := t,
        cl_aggregation := Some \<lparr>rg_memberCount = length members,
          rg_membersByType = countRelationsByType members, rg_internal = (s = t)\<rparr>\<rparr>))"

definition buildCandidate ::
  "cap_env \<Rightarrow> cap_resource list \<Rightarrow> cap_relation list \<Rightarrow> level_def \<Rightarrow> (string \<Rightarrow> string option) \<Rightarrow> string list \<Rightarrow> bool
     \<Rightarrow> cap_candidate" where
  "buildCandidate env resources relations d componentById pinned preserve =
    (let groups = resource_groups env d componentById pinned resources;
         vis = visible_id env d pinned resources groups;
         rels = relation_groups env vis preserve resources relations;
         aggregated = filter (\<lambda>g. length (snd (snd g)) \<noteq> 1) groups;
         merged = filter (\<lambda>g. \<not> kept_relation g) rels in
     \<lparr>cc_resources = js_sort (compareResources env)
        (filter (\<lambda>r. cr_id r \<in> set pinned) (js_sort (compareResources env) resources) @ map (project_group env d) groups),
      cc_relations = js_sort (compareIds env) (map (project_relation env d) rels),
      cc_level = ld_level d,
      cc_resourceGroups = length aggregated,
      cc_resourceMembers = sum_list (map (\<lambda>g. length (snd (snd g))) aggregated),
      cc_relationGroups = length merged,
      cc_relationMembers = sum_list (map (\<lambda>g. length (snd (snd g))) merged)\<rparr>)"

section \<open>The projection\<close>

definition candidate_metadata ::
  "capacity_mode \<Rightarrow> nat \<times> nat \<Rightarrow> nat \<times> nat \<Rightarrow> cap_candidate option \<Rightarrow> nat \<Rightarrow> cap_metadata" where
  "candidate_metadata mode input visible c omittedEdges =
     \<lparr>cm_mode = mode,
      cm_strategy = (case c of None \<Rightarrow> ''none'' | Some _ \<Rightarrow> ''semantic-aggregation''),
      cm_complete = (c = None \<and> omittedEdges = 0),
      cm_limits = (limit_nodes mode, limit_edges mode), cm_input = input, cm_visible = visible,
      cm_represented = (fst input, snd input - omittedEdges),
      cm_level = map_option cc_level c,
      cm_resourceGroups = (case c of None \<Rightarrow> 0 | Some k \<Rightarrow> cc_resourceGroups k),
      cm_resourceMembers = (case c of None \<Rightarrow> 0 | Some k \<Rightarrow> cc_resourceMembers k),
      cm_relationGroups = (case c of None \<Rightarrow> 0 | Some k \<Rightarrow> cc_relationGroups k),
      cm_relationMembers = (case c of None \<Rightarrow> 0 | Some k \<Rightarrow> cc_relationMembers k),
      cm_omittedEdges = omittedEdges\<rparr>"

definition level_choices :: "(level_def \<times> bool) list" where
  "level_choices = concat (map (\<lambda>d. (d, True) # (if ld_level d = ''cluster'' then [(d, False)] else [])) AGGREGATION_LEVELS)"

definition fits :: "capacity_mode \<Rightarrow> nat \<Rightarrow> cap_candidate \<Rightarrow> bool" where
  "fits mode nodeLimit c \<longleftrightarrow> length (cc_resources c) \<le> nodeLimit \<and> length (cc_relations c) \<le> limit_edges mode"

definition node_limit :: "capacity_mode \<Rightarrow> rat option \<Rightarrow> nat" where
  "node_limit mode maxVisibleNodes = nat (max 1 (min (int (limit_nodes mode))
     (case maxVisibleNodes of None \<Rightarrow> int (limit_nodes mode) | Some q \<Rightarrow> \<lfloor>q\<rfloor>)))"

definition valid_relations :: "cap_env \<Rightarrow> cap_resource list \<Rightarrow> cap_relation list \<Rightarrow> cap_relation list" where
  "valid_relations env resources relations = js_sort (compareIds env)
     (filter (\<lambda>r. cl_source r \<in> cr_id ` set resources \<and> cl_target r \<in> cr_id ` set resources) relations)"

definition applyTopologyCapacity ::
  "cap_env \<Rightarrow> cap_resource list \<Rightarrow> cap_relation list \<Rightarrow> capacity_mode \<Rightarrow> string list \<Rightarrow> rat option \<Rightarrow> string + cap_projection" where
  "applyTopologyCapacity env resources relations mode pinned maxVisibleNodes =
    (let nodeLimit = node_limit mode maxVisibleNodes;
         validPinned = filter (\<lambda>i. i \<in> cr_id ` set resources) (js_unique pinned);
         ordered = js_sort (\<lambda>a b. let pinDelta = of_bool (cr_id b \<in> set pinned) - of_bool (cr_id a \<in> set pinned) :: int in
            if pinDelta \<noteq> 0 then pinDelta else compareResources env a b) resources;
         valid = valid_relations env resources relations;
         omittedEdges = length relations - length valid;
         input = (length resources, length relations) in
     if nodeLimit < length validPinned then Inl ''pinned resources exceed the budget''
     else if length ordered \<le> nodeLimit \<and> length valid \<le> limit_edges mode \<and> omittedEdges = 0
     then Inr \<lparr>cp_resources = ordered, cp_relations = valid,
        cp_capacity = candidate_metadata mode input (length ordered, length valid) None 0\<rparr>
     else (let componentById = connectedComponents env resources valid in
       case find (fits mode nodeLimit) (map (\<lambda>(d, preserve).
          buildCandidate env resources valid d componentById pinned preserve) level_choices) of
         None \<Rightarrow> Inl ''pinned topology exceeds the budget''
       | Some c \<Rightarrow> Inr \<lparr>cp_resources = cc_resources c, cp_relations = cc_relations c,
           cp_capacity = candidate_metadata mode input (length (cc_resources c), length (cc_relations c)) (Some c) omittedEdges\<rparr>))"

section \<open>The neighbourhood of a resource\<close>

definition all_neighbours :: "cap_relation list \<Rightarrow> string \<Rightarrow> string list" where
  "all_neighbours relations i = js_unique (concat (map (\<lambda>r.
     (if cl_source r = i then [cl_target r] else []) @ (if cl_target r = i then [cl_source r] else [])) relations))"

fun neighbourhood :: "cap_env \<Rightarrow> cap_relation list \<Rightarrow> nat \<Rightarrow> string list \<Rightarrow> string list \<Rightarrow> string list" where
  "neighbourhood env relations 0 frontier selected = selected"
| "neighbourhood env relations (Suc depth) frontier selected =
    (let next = js_unique (concat (map (\<lambda>i. filter (\<lambda>x. x \<notin> set selected)
           (js_sort (ce_lc env) (all_neighbours relations i))) (js_sort (ce_lc env) frontier))) in
     neighbourhood env relations depth next (selected @ next))"

definition projectTopologyNeighborhood ::
  "cap_env \<Rightarrow> cap_resource list \<Rightarrow> cap_relation list \<Rightarrow> string \<Rightarrow> nat \<Rightarrow> string + cap_projection" where
  "projectTopologyNeighborhood env resources relations focusId depth =
    (let selected = neighbourhood env relations depth [focusId] [focusId] in
     applyTopologyCapacity env
       (filter (\<lambda>r. cr_id r \<in> set selected) resources)
       (filter (\<lambda>r. cl_source r \<in> set selected \<and> cl_target r \<in> set selected) relations)
       Neighborhood [focusId] None)"

end
