(* ===== verification/Kn_CapacityProps.thy ===== *)
theory Kn_CapacityProps
  imports Kn_Capacity "HOL-Library.Multiset"
begin

text \<open>The properties of the capacity projection, with their witnesses.\<close>

section \<open>Helpers\<close>

lemma mset_insert_cmp [simp]: "mset (insert_cmp cmp x ys) = add_mset x (mset ys)"
  by (induction ys) auto

lemma mset_js_sort [simp]: "mset (js_sort cmp xs) = mset xs"
  by (induction xs) (auto simp: js_sort_def)

lemma sum_list_insert_cmp: "sum_list (map f (insert_cmp cmp x ys)) = f x + sum_list (map (f :: _ \<Rightarrow> nat) ys)"
  by (induction ys) auto

lemma sum_list_js_sort: "sum_list (map f (js_sort cmp xs)) = sum_list (map (f :: _ \<Rightarrow> nat) xs)"
  by (induction xs) (simp_all add: js_sort_def sum_list_insert_cmp)

lemma node_limit_pos: "1 \<le> node_limit mode v"
  by (simp add: node_limit_def)

lemma apply_cases:
  assumes "applyTopologyCapacity env resources relations mode pinned v = Inr p"
  obtains (whole) "mset (cp_resources p) = mset resources" "cp_relations p = valid_relations env resources relations"
      "length resources \<le> node_limit mode v" "length (cp_relations p) \<le> limit_edges mode"
      "length (cp_relations p) = length relations"
      "cp_capacity p = candidate_metadata mode (length resources, length relations)
          (length (cp_resources p), length (cp_relations p)) None 0"
  | (reduced) d preserve c where "(d, preserve) \<in> set level_choices"
      "c = buildCandidate env resources (valid_relations env resources relations) d
          (connectedComponents env resources (valid_relations env resources relations)) pinned preserve"
      "fits mode (node_limit mode v) c" "cp_resources p = cc_resources c" "cp_relations p = cc_relations c"
      "cp_capacity p = candidate_metadata mode (length resources, length relations)
          (length (cp_resources p), length (cp_relations p)) (Some c) (length relations - length (valid_relations env resources relations))"
proof -
  let ?valid = "valid_relations env resources relations"
  let ?cs = "map (\<lambda>(d, preserve). buildCandidate env resources ?valid d
      (connectedComponents env resources ?valid) pinned preserve) level_choices"
  have len: "length ?valid \<le> length relations" by (simp add: valid_relations_def)
  show thesis
  proof (cases "length resources \<le> node_limit mode v \<and> length ?valid \<le> limit_edges mode \<and> length relations - length ?valid = 0")
    case True
    then show thesis using assms len
      by (intro whole) (auto simp: applyTopologyCapacity_def Let_def split: if_splits)
  next
    case False
    then obtain c where c: "find (fits mode (node_limit mode v)) ?cs = Some c" and
      p: "cp_resources p = cc_resources c" "cp_relations p = cc_relations c" "cp_capacity p = candidate_metadata mode
        (length resources, length relations) (length (cc_resources c), length (cc_relations c)) (Some c) (length relations - length ?valid)"
      using assms by (auto simp: applyTopologyCapacity_def Let_def split: if_splits option.splits)
    from find_Some_mem [OF c] obtain d preserve where "(d, preserve) \<in> set level_choices"
      "c = buildCandidate env resources ?valid d (connectedComponents env resources ?valid) pinned preserve"
      "fits mode (node_limit mode v) c" by auto
    then show thesis using p by (intro reduced) simp_all
  qed
qed

section \<open>The budget\<close>

text \<open>
  C37. A capacity projection never shows more resources than the node limit (itself at most the
  limit of the mode) nor more relations than the edge limit of the mode, and its metadata reports
  the counts it shows.
\<close>

theorem capacity_within_limits:
  assumes "applyTopologyCapacity env resources relations mode pinned v = Inr p"
  shows "length (cp_resources p) \<le> node_limit mode v \<and> node_limit mode v \<le> limit_nodes mode
     \<and> length (cp_relations p) \<le> limit_edges mode
     \<and> cm_visible (cp_capacity p) = (length (cp_resources p), length (cp_relations p))"
proof -
  have le: "node_limit mode v \<le> limit_nodes mode" by (cases mode) (simp_all add: node_limit_def)
  from assms show ?thesis
  proof (cases rule: apply_cases)
    case whole
    have "length (cp_resources p) = length resources" using whole(1) by (rule mset_eq_length)
    then show ?thesis using le whole(3,4) unfolding whole(6) by (simp add: candidate_metadata_def)
  next
    case (reduced d preserve c)
    then show ?thesis using le by (simp add: candidate_metadata_def fits_def)
  qed
qed

section \<open>Conservation\<close>

definition represents :: "cap_resource \<Rightarrow> nat" where
  "represents r = (case cr_aggregation r of None \<Rightarrow> 1 | Some a \<Rightarrow> ag_memberCount a)"

lemma represents_aggregate: "represents (aggregate_of env d g) = length (snd (snd g))"
  by (cases g) (simp add: aggregate_of_def represents_def Let_def)

lemma represents_group:
  assumes "\<forall>r \<in> set (snd (snd g)). cr_aggregation r = None" and "snd (snd g) \<noteq> []"
  shows "represents (project_group env d g) = length (snd (snd g))"
proof (cases "length (snd (snd g)) = 1")
  case True
  then obtain x where "snd (snd g) = [x]" by (auto simp: length_Suc_conv)
  then show ?thesis using assms(1) by (simp add: project_group_def represents_def)
next
  case False
  then show ?thesis by (simp add: project_group_def represents_aggregate)
qed

lemma groups_of:
  "set (resource_groups env d ci pinned resources) = set (group_by (\<lambda>r. aggregationKey r d ci)
     (filter (\<lambda>r. cr_id r \<notin> set pinned) (js_sort (compareResources env) resources)))"
  by (simp add: resource_groups_def)

lemma candidate_represents:
  assumes "\<forall>r \<in> set resources. cr_aggregation r = None"
  shows "sum_list (map represents (cc_resources (buildCandidate env resources rels d ci pinned preserve))) = length resources"
proof -
  let ?sorted = "js_sort (compareResources env) resources"
  let ?gs = "resource_groups env d ci pinned resources"
  have members: "set (snd (snd g)) \<subseteq> set resources" if "g \<in> set ?gs" for g
    using that set_group_by [of "\<lambda>r. aggregationKey r d ci" "filter (\<lambda>r. cr_id r \<notin> set pinned) ?sorted"]
    unfolding groups_of by auto
  have "represents (project_group env d g) = length (snd (snd g))" if "g \<in> set ?gs" for g
  proof (rule represents_group)
    show "\<forall>r \<in> set (snd (snd g)). cr_aggregation r = None" using members [OF that] assms by blast
    show "snd (snd g) \<noteq> []" using that unfolding groups_of by (rule group_by_nonempty)
  qed
  then have "sum_list (map represents (map (project_group env d) ?gs)) = sum_list (map (\<lambda>g. length (snd (snd g))) ?gs)"
    by (simp add: comp_def cong: map_cong)
  also have "\<dots> = group_size (group_by (\<lambda>r. aggregationKey r d ci) (filter (\<lambda>r. cr_id r \<notin> set pinned) ?sorted))"
    unfolding resource_groups_def sum_list_js_sort group_size_def
    by (intro arg_cong [where f = sum_list] map_cong) auto
  also have "\<dots> = length (filter (\<lambda>r. cr_id r \<notin> set pinned) ?sorted)" by (rule group_by_size)
  finally have g: "sum_list (map represents (map (project_group env d) ?gs)) = length (filter (\<lambda>r. cr_id r \<notin> set pinned) ?sorted)" .
  have p: "sum_list (map represents (filter (\<lambda>r. cr_id r \<in> set pinned) ?sorted)) = length (filter (\<lambda>r. cr_id r \<in> set pinned) ?sorted)"
  proof -
    have "\<forall>r \<in> set xs. cr_aggregation r = None \<Longrightarrow> sum_list (map represents xs) = length xs" for xs
      by (induction xs) (auto simp: represents_def)
    then show ?thesis using assms by simp
  qed
  have "length (filter P xs) + length (filter (\<lambda>x. \<not> P x) xs) = length xs" for P and xs :: "cap_resource list"
    by (rule sum_length_filter_compl)
  from this [of "\<lambda>r. cr_id r \<in> set pinned" ?sorted] show ?thesis
    using g p by (simp add: buildCandidate_def Let_def sum_list_js_sort)
qed

text \<open>
  C36. A capacity projection loses no resource: counting one for every resource shown as it is and
  the member count for every aggregate gives exactly the number of resources of the input, which
  is also the represented count of the metadata.
\<close>

theorem capacity_conserves_resources:
  assumes "applyTopologyCapacity env resources relations mode pinned v = Inr p"
    and "list_all (\<lambda>r. cr_aggregation r = None) resources"
  shows "sum_list (map represents (cp_resources p)) = length resources
     \<and> fst (cm_represented (cp_capacity p)) = length resources"
  using assms(1)
proof (cases rule: apply_cases)
  case whole
  have "sum_list (map represents (cp_resources p)) = sum_list (map represents resources)"
    using arg_cong [OF whole(1), of "\<lambda>m. sum_mset (image_mset represents m)"]
    by (simp add: mset_map [symmetric] sum_mset_sum_list del: mset_map)
  also have "\<dots> = length resources" using assms(2) by (induction resources) (auto simp: represents_def)
  finally show ?thesis unfolding whole(6) by (simp add: candidate_metadata_def)
next
  case (reduced d preserve c)
  then show ?thesis using candidate_represents assms(2) by (simp add: candidate_metadata_def list_all_iff)
qed

section \<open>Pinned resources\<close>

text \<open>
  Every pinned resource is shown in the projection, unchanged, whatever grouping was chosen.
\<close>

theorem capacity_keeps_pinned:
  assumes "applyTopologyCapacity env resources relations mode pinned v = Inr p"
    and "r \<in> set resources" and "cr_id r \<in> set pinned"
  shows "r \<in> set (cp_resources p)"
  using assms(1)
proof (cases rule: apply_cases)
  case whole
  then show ?thesis using assms(2) mset_eq_setD [OF whole(1)] by simp
next
  case (reduced d preserve c)
  then show ?thesis using assms(2,3) by (simp add: buildCandidate_def Let_def)
qed

section \<open>Without pinned resources a projection always exists\<close>

lemma cluster_choice: "(\<lparr>ld_level = ''cluster'', ld_fields = []\<rparr>, False) \<in> set level_choices"
  by (simp add: level_choices_def AGGREGATION_LEVELS_def)

lemma cluster_groups: "length (resource_groups env \<lparr>ld_level = l, ld_fields = []\<rparr> ci [] resources) \<le> 1"
  unfolding resource_groups_def length_js_sort
  by (rule group_by_one_key [where k = "''cluster=all''"]) (simp add: aggregationKey_def Let_def)

lemma cluster_visible:
  assumes "i \<in> cr_id ` set resources"
  shows "\<exists>g. resource_groups env \<lparr>ld_level = l, ld_fields = []\<rparr> ci [] resources = [g] \<and>
    visible_id env \<lparr>ld_level = l, ld_fields = []\<rparr> [] resources [g] i =
      (if length (snd (snd g)) = 1 then i else stableAggregateId env ''resource'' l (fst g)) \<and> i \<in> cr_id ` set (snd (snd g))"
proof -
  let ?gs = "resource_groups env \<lparr>ld_level = l, ld_fields = []\<rparr> ci [] resources"
  have u: "(\<Union>g \<in> set ?gs. set (snd (snd g))) = set resources"
    unfolding groups_of set_group_by by simp
  have "i \<in> cr_id ` (\<Union>g \<in> set ?gs. set (snd (snd g)))" unfolding u by (rule assms)
  then obtain g where g: "g \<in> set ?gs" "i \<in> cr_id ` set (snd (snd g))" by blast
  then have "?gs = [g]" using cluster_groups [of env l ci resources] by (cases ?gs) (auto simp: le_Suc_eq)
  then show ?thesis using g(2) by (intro exI [where x = g]) (simp add: visible_id_def)
qed

lemma cluster_relations:
  "length (relation_groups env (visible_id env \<lparr>ld_level = l, ld_fields = []\<rparr> [] resources
     (resource_groups env \<lparr>ld_level = l, ld_fields = []\<rparr> ci [] resources)) False resources rels) \<le> 1"
proof -
  let ?gs = "resource_groups env \<lparr>ld_level = l, ld_fields = []\<rparr> ci [] resources"
  let ?vis = "visible_id env \<lparr>ld_level = l, ld_fields = []\<rparr> [] resources ?gs"
  have same: "?vis i = ?vis j" if a: "i \<in> cr_id ` set resources" and b: "j \<in> cr_id ` set resources" for i j
  proof -
    obtain g where g: "?gs = [g]" "?vis i = (if length (snd (snd g)) = 1 then i else stableAggregateId env ''resource'' l (fst g))"
        "i \<in> cr_id ` set (snd (snd g))"
      using cluster_visible [OF a] by metis
    obtain h where h: "?gs = [h]" "?vis j = (if length (snd (snd h)) = 1 then j else stableAggregateId env ''resource'' l (fst h))"
        "j \<in> cr_id ` set (snd (snd h))"
      using cluster_visible [OF b] by metis
    have gh: "g = h" using g(1) h(1) by simp
    show ?thesis
    proof (cases "length (snd (snd g)) = 1")
      case True
      then obtain x where "snd (snd g) = [x]" by (auto simp: length_Suc_conv)
      then show ?thesis using g h gh by simp
    next
      case False
      then show ?thesis using g h gh by simp
    qed
  qed
  show ?thesis
  proof (cases "cr_id ` set resources = {}")
    case True
    then show ?thesis by (simp add: relation_groups_def group_by_def)
  next
    case False
    then have "\<exists>i. i \<in> cr_id ` set resources" by (simp only: ex_in_conv not_False_eq_True)
    then obtain i where i: "i \<in> cr_id ` set resources" ..
    show ?thesis
      unfolding relation_groups_def length_js_sort
    proof (rule group_by_one_key [where k = "?vis i @ ''->'' @ ?vis i @ ''|all''"])
      fix x assume "x \<in> set (filter (\<lambda>r. cl_source r \<in> cr_id ` set resources \<and> cl_target r \<in> cr_id ` set resources)
           (js_sort (compareIds env) rels))"
      then show "fst (relation_key ?vis False x) = ?vis i @ ''->'' @ ?vis i @ ''|all''"
        using same [OF _ i, of "cl_source x"] same [OF _ i, of "cl_target x"] unfolding relation_key_def Let_def by auto
    qed
  qed
qed

text \<open>
  Without pinned resources a projection exists for every graph, mode and requested node
  limit: the search over ever coarser groupings always ends with one that fits, so the RangeErrors
  are unreachable.
\<close>

theorem capacity_total_unpinned:
  "\<exists>p. applyTopologyCapacity env resources relations mode [] v = Inr p"
proof -
  let ?valid = "valid_relations env resources relations"
  let ?d = "\<lparr>ld_level = ''cluster'', ld_fields = []\<rparr>"
  let ?c = "buildCandidate env resources ?valid ?d (connectedComponents env resources ?valid) [] False"
  let ?cs = "map (\<lambda>(d, preserve). buildCandidate env resources ?valid d
      (connectedComponents env resources ?valid) [] preserve) level_choices"
  have "length (cc_resources ?c) \<le> 1" "length (cc_relations ?c) \<le> 1"
    using cluster_groups cluster_relations by (simp_all add: buildCandidate_def Let_def)
  moreover have "1 \<le> limit_edges mode" by (cases mode) simp_all
  ultimately have "fits mode (node_limit mode v) ?c" using node_limit_pos [of mode v] by (simp add: fits_def)
  moreover have "?c \<in> set ?cs" using cluster_choice by force
  ultimately obtain c where "find (fits mode (node_limit mode v)) ?cs = Some c"
    by (cases "find (fits mode (node_limit mode v)) ?cs") (auto simp: find_None_iff)
  then show ?thesis by (simp add: applyTopologyCapacity_def Let_def js_unique_def)
qed

section \<open>A concrete graph\<close>

definition ex_cap :: cap_env where
  "ex_cap = \<lparr>ce_lc = (\<lambda>a b. int (length a) - int (length b)), ce_enc = (\<lambda>s. s)\<rparr>"

definition ex_res :: "string \<Rightarrow> cap_resource" where
  "ex_res i = \<lparr>cr_id = i, cr_name = None, cr_kind = Some ''Pod'', cr_namespace = Some ''ns'', cr_instanceName = None,
     cr_weight = None, cr_status = None, cr_warnings = WNone, cr_aggregation = None\<rparr>"

lemma ex_cap_result: "\<exists>p. applyTopologyCapacity ex_cap [ex_res ''a'', ex_res ''bb'', ex_res ''ccc''] [] Neighborhood [] (Some 1) = Inr p"
  by (rule capacity_total_unpinned)

lemma capacity_within_limits_witness:
  "\<exists>p. applyTopologyCapacity ex_cap [ex_res ''a'', ex_res ''bb'', ex_res ''ccc''] [] Neighborhood [] (Some 1) = Inr p
     \<and> length (cp_resources p) \<le> 1"
  using ex_cap_result capacity_within_limits [of ex_cap "[ex_res ''a'', ex_res ''bb'', ex_res ''ccc'']" "[]" Neighborhood "[]" "Some 1"]
  by (fastforce simp: node_limit_def)

lemma capacity_conserves_resources_witness:
  "\<exists>p. applyTopologyCapacity ex_cap [ex_res ''a'', ex_res ''bb'', ex_res ''ccc''] [] Neighborhood [] (Some 1) = Inr p
     \<and> sum_list (map represents (cp_resources p)) = 3"
  using ex_cap_result capacity_conserves_resources [of ex_cap "[ex_res ''a'', ex_res ''bb'', ex_res ''ccc'']" "[]" Neighborhood "[]" "Some 1"]
  by (fastforce simp: ex_res_def)

lemma capacity_keeps_pinned_witness:
  "\<exists>p. applyTopologyCapacity ex_cap [ex_res ''a''] [] Neighborhood [''a''] None = Inr p \<and> ex_res ''a'' \<in> set (cp_resources p)"
proof -
  have "\<exists>p. applyTopologyCapacity ex_cap [ex_res ''a''] [] Neighborhood [''a''] None = Inr p"
    by (simp add: applyTopologyCapacity_def Let_def js_unique_def node_limit_def valid_relations_def ex_res_def)
  then show ?thesis
    using capacity_keeps_pinned [of ex_cap "[ex_res ''a'']" "[]" Neighborhood "[''a'']" None _ "ex_res ''a''"]
    by (auto simp: ex_res_def)
qed

end
