(* ===== verification/Kn_Totp.thy ===== *)
theory Kn_Totp
  imports Kn_Prelude "HOL-Library.Word"
begin

text \<open>
  Time based one-time passwords: auth/mfa-totp.ts.

  Bytes are \<open>8 word\<close>, the bit buffers of the base32 routines are \<open>32 word\<close> as in the sources, where
  shifts act on 32 bits. HMAC-SHA1 is the argument \<open>hmac\<close> from key bytes and message bytes to digest
  bytes; the division of a time stamp by 1000 and 30 is exact. A thrown error is \<open>Inl\<close>.
\<close>

unbundle bit_operations_syntax

type_synonym byte = "8 word"

definition PERIOD :: int where "PERIOD = 30"
definition DIGITS :: nat where "DIGITS = 6"

definition alphabet :: string where "alphabet = ''ABCDEFGHIJKLMNOPQRSTUVWXYZ234567''"

fun index_of :: "char \<Rightarrow> string \<Rightarrow> nat option" where
  "index_of c [] = None"
| "index_of c (d # ds) = (if c = d then Some 0 else map_option Suc (index_of c ds))"

definition js_upper_char :: "char \<Rightarrow> char" where
  "js_upper_char c = (let n = (of_char c :: nat) in if 97 \<le> n \<and> n \<le> 122 then char_of (n - 32) else c)"

section \<open>Base32\<close>

text \<open>The decoding loop: the bits held, the buffer and the bytes written so far.\<close>

fun decode_loop :: "string \<Rightarrow> nat \<Rightarrow> 32 word \<Rightarrow> byte list \<Rightarrow> (nat \<times> 32 word \<times> byte list) option" where
  "decode_loop [] bits buffer out = Some (bits, buffer, out)"
| "decode_loop (c # cs) bits buffer out = (case index_of c alphabet of None \<Rightarrow> None
     | Some n \<Rightarrow> (let buffer' = push_bit 5 buffer OR word_of_nat n; bits' = bits + 5 in
         if 8 \<le> bits' then decode_loop cs (bits' - 8) buffer' (out @ [ucast (drop_bit (bits' - 8) buffer')])
         else decode_loop cs bits' buffer' out))"

definition base32Decode :: "string \<Rightarrow> string + byte list" where
  "base32Decode value =
    (let body = takeWhile (\<lambda>c. c \<noteq> CHR ''='') value; padding = dropWhile (\<lambda>c. c \<noteq> CHR ''='') value;
         input = map js_upper_char body in
     if body = [] \<or> \<not> list_all (\<lambda>c. js_upper_char c \<in> set alphabet) body
        \<or> \<not> list_all (\<lambda>c. c = CHR ''='') padding \<or> length padding > 6
     then Inl ''invalid MFA secret''
     else if length input mod 8 \<notin> {0, 2, 4, 5, 7} \<or> (padding \<noteq> [] \<and> length value mod 8 \<noteq> 0)
     then Inl ''invalid MFA secret''
     else (case decode_loop input 0 0 [] of None \<Rightarrow> Inl ''invalid MFA secret''
       | Some (bits, buffer, out) \<Rightarrow>
         (if out = [] \<or> buffer AND mask bits \<noteq> 0 then Inl ''invalid MFA secret'' else Inr out)))"

text \<open>The inner loop of the encoder: a character for every five bits held.\<close>

fun emit_chars :: "32 word \<Rightarrow> nat \<Rightarrow> string \<times> nat" where
  "emit_chars buffer bits = (if bits < 5 then ([], bits)
     else (let (rest, left) = emit_chars buffer (bits - 5) in
       (alphabet ! unat (drop_bit (bits - 5) buffer AND 31) # rest, left)))"

declare emit_chars.simps [simp del]

fun encode_loop :: "byte list \<Rightarrow> nat \<Rightarrow> 32 word \<Rightarrow> string \<Rightarrow> nat \<times> 32 word \<times> string" where
  "encode_loop [] bits buffer result = (bits, buffer, result)"
| "encode_loop (b # bs) bits buffer result = (let buffer' = push_bit 8 buffer OR ucast b;
       (chars, left) = emit_chars buffer' (bits + 8) in
     encode_loop bs left buffer' (result @ chars))"

text \<open>\<open>bytes\<close> are the 20 random bytes.\<close>

definition generateTotpSecret :: "byte list \<Rightarrow> string" where
  "generateTotpSecret bytes = (let (bits, buffer, result) = encode_loop bytes 0 0 [] in
     if bits \<noteq> 0 then result @ [alphabet ! unat (push_bit (5 - bits) buffer AND 31)] else result)"

section \<open>Codes\<close>

definition counter_of :: "time \<Rightarrow> int" where
  "counter_of t = t div (1000 * PERIOD)"

text \<open>The counter as eight bytes, most significant first.\<close>

definition counter_bytes :: "int \<Rightarrow> byte list" where
  "counter_bytes c = map (\<lambda>i. word_of_int (c div 2 ^ (8 * i))) [7, 6, 5, 4, 3, 2, 1, 0]"

definition read_u32 :: "byte list \<Rightarrow> nat \<Rightarrow> 32 word" where
  "read_u32 bs i = foldl (\<lambda>acc b. push_bit 8 acc OR ucast b) 0 (take 4 (drop i bs))"

fun decimals :: "nat \<Rightarrow> nat \<Rightarrow> string" where
  "decimals 0 n = []"
| "decimals (Suc d) n = decimals d (n div 10) @ [char_of (48 + n mod 10)]"

definition code_at :: "(byte list \<Rightarrow> byte list \<Rightarrow> byte list) \<Rightarrow> byte list \<Rightarrow> int \<Rightarrow> string" where
  "code_at hmac key counter = (let digest = hmac key (counter_bytes counter);
       offset = unat (last digest AND 15);
       value = unat (read_u32 digest offset AND 0x7fffffff) mod 1000000 in
     decimals DIGITS value)"

definition totpCode :: "(byte list \<Rightarrow> byte list \<Rightarrow> byte list) \<Rightarrow> string \<Rightarrow> time \<Rightarrow> string + string" where
  "totpCode hmac secret timestamp =
     (if \<not> safe_int timestamp \<or> timestamp < 0 then Inl ''invalid MFA timestamp''
      else rbind (base32Decode secret) (\<lambda>key. Inr (code_at hmac key (counter_of timestamp))))"

definition six_digits :: "string \<Rightarrow> bool" where
  "six_digits s \<longleftrightarrow> length s = 6 \<and> list_all is_digit s"

text \<open>The loop over the window, from the newest candidate on; \<open>left\<close> candidates remain.\<close>

fun match_loop :: "(byte list \<Rightarrow> byte list \<Rightarrow> byte list) \<Rightarrow> string \<Rightarrow> string \<Rightarrow> time \<Rightarrow> int \<Rightarrow> nat \<Rightarrow> string + int option" where
  "match_loop hmac secret code timestamp delta 0 = Inr None"
| "match_loop hmac secret code timestamp delta (Suc left) =
     (let candidate = timestamp + delta * PERIOD * 1000 in
      if candidate < 0 \<or> \<not> safe_int candidate then match_loop hmac secret code timestamp (delta - 1) left
      else rbind (totpCode hmac secret candidate) (\<lambda>expected.
        if expected = code then Inr (Some (counter_of candidate))
        else match_loop hmac secret code timestamp (delta - 1) left))"

definition matchTotpCounter ::
  "(byte list \<Rightarrow> byte list \<Rightarrow> byte list) \<Rightarrow> string \<Rightarrow> string \<Rightarrow> time \<Rightarrow> nat \<Rightarrow> string + int option" where
  "matchTotpCounter hmac secret code timestamp window =
     (if \<not> safe_int timestamp \<or> timestamp < 0 then Inl ''invalid MFA timestamp''
      else if window > 10 then Inl ''invalid MFA window''
      else rbind (base32Decode secret) (\<lambda>_.
        if \<not> six_digits code then Inr None
        else match_loop hmac secret code timestamp (int window) (2 * window + 1)))"

definition verifyTotp ::
  "(byte list \<Rightarrow> byte list \<Rightarrow> byte list) \<Rightarrow> string \<Rightarrow> string \<Rightarrow> time \<Rightarrow> nat \<Rightarrow> string + bool" where
  "verifyTotp hmac secret code timestamp window =
     rbind (matchTotpCounter hmac secret code timestamp window) (\<lambda>m. Inr (m \<noteq> None))"

section \<open>The newest matching counter\<close>

lemma counter_shift: "counter_of (t + d * PERIOD * 1000) = counter_of t + d"
  by (simp add: counter_of_def PERIOD_def)

lemma match_loop_newest:
  assumes "match_loop hmac secret code t d n = Inr (Some k)" and "base32Decode secret = Inr key"
  shows "\<exists>e \<le> d. k = counter_of t + e \<and> code_at hmac key k = code
     \<and> (\<forall>e'. e < e' \<longrightarrow> e' \<le> d \<longrightarrow> 0 \<le> t + e' * PERIOD * 1000 \<longrightarrow> safe_int (t + e' * PERIOD * 1000) \<longrightarrow>
          code_at hmac key (counter_of t + e') \<noteq> code)"
  using assms
proof (induction hmac secret code t d n rule: match_loop.induct)
  case (2 hmac secret code t d n)
  let ?c = "t + d * PERIOD * 1000"
  show ?case
  proof (cases "\<not> (?c < 0 \<or> \<not> safe_int ?c) \<and> code_at hmac key (counter_of t + d) = code")
    case True
    then have "k = counter_of t + d"
      using 2(3,4) by (simp add: Let_def totpCode_def counter_shift)
    then show ?thesis using True by (intro exI [where x = d]) auto
  next
    case False
    then have "match_loop hmac secret code t (d - 1) n = Inr (Some k)"
      using 2(3,4) by (auto simp: Let_def totpCode_def counter_shift split: if_splits)
    then have "\<exists>e \<le> d - 1. k = counter_of t + e \<and> code_at hmac key k = code
     \<and> (\<forall>e'. e < e' \<longrightarrow> e' \<le> d - 1 \<longrightarrow> 0 \<le> t + e' * PERIOD * 1000 \<longrightarrow> safe_int (t + e' * PERIOD * 1000) \<longrightarrow>
          code_at hmac key (counter_of t + e') \<noteq> code)"
      using 2 False by (auto simp: Let_def totpCode_def counter_shift)
    then obtain e where e: "e \<le> d - 1" "k = counter_of t + e" "code_at hmac key k = code"
      "\<And>e'. e < e' \<Longrightarrow> e' \<le> d - 1 \<Longrightarrow> 0 \<le> t + e' * PERIOD * 1000 \<Longrightarrow> safe_int (t + e' * PERIOD * 1000) \<Longrightarrow>
          code_at hmac key (counter_of t + e') \<noteq> code" by blast
    have "code_at hmac key (counter_of t + e') \<noteq> code"
      if "e < e'" "e' \<le> d" "0 \<le> t + e' * PERIOD * 1000" "safe_int (t + e' * PERIOD * 1000)" for e'
      using e(4) [of e'] that False by (cases "e' = d") auto
    then show ?thesis using e by (intro exI [where x = e]) auto
  qed
qed simp

end
