(* ===== verification/Kn_Redis.thy ===== *)
theory Kn_Redis
  imports Kn_Json
begin

text \<open>
  The commands of Redis the authentication stores use, over a map from keys to values with an
  optional expiry: \<open>SET key value EX seconds NX\<close>, \<open>GETDEL\<close> and the script of the login limiter.
  A key is live while its expiry is in the future. Also the contract of a store of one-time tokens,
  as a locale, with the fact that a token is redeemed at most once.
\<close>

datatype rvalue = Counter int | Doc json | Raw string

type_synonym redis = "string \<Rightarrow> (rvalue \<times> time option) option"

definition r_live :: "time \<Rightarrow> redis \<Rightarrow> string \<Rightarrow> (rvalue \<times> time option) option" where
  "r_live now r k = (case r k of None \<Rightarrow> None
     | Some (v, None) \<Rightarrow> Some (v, None)
     | Some (v, Some e) \<Rightarrow> (if now < e then Some (v, Some e) else None))"

definition r_set_nx :: "time \<Rightarrow> string \<Rightarrow> rvalue \<Rightarrow> int \<Rightarrow> redis \<Rightarrow> bool \<times> redis" where
  "r_set_nx now k v seconds r = (case r_live now r k of
     None \<Rightarrow> (True, r(k := Some (v, Some (now + seconds * 1000)))) | Some _ \<Rightarrow> (False, r))"

definition r_getdel :: "time \<Rightarrow> string \<Rightarrow> redis \<Rightarrow> rvalue option \<times> redis" where
  "r_getdel now k r = (map_option fst (r_live now r k), r(k := None))"

lemma r_live_same [simp]: "r_live now (r(k := v)) k = r_live now (\<lambda>_. v) k"
  by (simp add: r_live_def)

lemma r_live_other: "j \<noteq> k \<Longrightarrow> r_live now (r(k := v)) j = r_live now r j"
  by (simp add: r_live_def)

lemma r_live_None [simp]: "r_live now (r(k := None)) k = None"
  by (simp add: r_live_def)

lemma r_getdel_gone: "r_getdel now k r = (x, r') \<Longrightarrow> r' k = None"
  by (auto simp: r_getdel_def)

lemma r_getdel_none: "r k = None \<Longrightarrow> r_getdel now k r = (None, r)"
  by (auto simp: r_getdel_def r_live_def)

lemma r_getdel_mono: "r_getdel now k r = (x, r') \<Longrightarrow> r j = None \<Longrightarrow> r' j = None"
  by (auto simp: r_getdel_def)

section \<open>One-time tokens\<close>

text \<open>Attempts to redeem one token, by any identities, at any times, with Redis up or down.\<close>

fun redemptions :: "(time \<Rightarrow> bool \<Rightarrow> 't \<Rightarrow> 'i \<Rightarrow> redis \<Rightarrow> 'p res \<times> redis) \<Rightarrow> 't \<Rightarrow> (time \<times> bool \<times> 'i) list \<Rightarrow> redis \<Rightarrow> 'p list" where
  "redemptions consume t [] r = []"
| "redemptions consume t ((now, up, i) # rest) r = (case consume now up t i r of
     (Inl e, r') \<Rightarrow> redemptions consume t rest r' | (Inr p, r') \<Rightarrow> p # redemptions consume t rest r')"

text \<open>
  What a store of one-time tokens promises about \<open>consume\<close> of a token whose key is \<open>key t\<close>: it
  needs an entry under the key, a successful call leaves none, and no call adds one.
\<close>

locale one_time_store =
  fixes key :: "'t \<Rightarrow> string"
    and consume :: "time \<Rightarrow> bool \<Rightarrow> 't \<Rightarrow> 'i \<Rightarrow> redis \<Rightarrow> 'p res \<times> redis"
  assumes consume_needs: "consume now up t i r = (Inr p, r') \<Longrightarrow> r (key t) \<noteq> None"
    and consume_takes: "consume now up t i r = (Inr p, r') \<Longrightarrow> r' (key t) = None"
    and consume_mono: "r (key t) = None \<Longrightarrow> consume now up t i r = (x, r') \<Longrightarrow> r' (key t) = None"
begin

lemma no_entry_no_redemption: "r (key t) = None \<Longrightarrow> redemptions consume t xs r = []"
proof (induction xs arbitrary: r)
  case (Cons x xs)
  obtain now up i where x: "x = (now, up, i)" by (cases x)
  obtain y r' where c: "consume now up t i r = (y, r')" by (cases "consume now up t i r")
  have "r' (key t) = None" using consume_mono [OF Cons.prems c] .
  moreover have "\<exists>e. y = Inl e" using consume_needs [of now up t i r _ r'] c Cons.prems by (cases y) auto
  ultimately show ?case using Cons.IH c x by auto
qed simp

lemma at_most_once: "length (redemptions consume t xs r) \<le> 1"
proof (induction xs arbitrary: r)
  case (Cons x xs)
  obtain now up i where x: "x = (now, up, i)" by (cases x)
  obtain y r' where c: "consume now up t i r = (y, r')" by (cases "consume now up t i r")
  show ?case
  proof (cases y)
    case (Inl e)
    then show ?thesis using Cons.IH [of r'] c x by simp
  next
    case (Inr p)
    then have "r' (key t) = None" using consume_takes c by blast
    then show ?thesis using no_entry_no_redemption c x Inr by simp
  qed
qed simp

end

end
