(* ===== verification/Kn_Tokens.thy ===== *)
theory Kn_Tokens
  imports Kn_Redis
begin

text \<open>
  The Redis stores of the authentication service: auth/login-attempt-limiter.ts,
  auth/mfa-challenge.store.ts, auth/mfa-enrollment.store.ts, auth/mfa-reset.store.ts and
  auth/oidc-transaction.store.ts.

  SHA-256 and the secret encryption are fields of the environment; the random token is an argument.
  \<open>up\<close> tells whether the Redis call succeeds. A stored JSON text is the value it parses to.
\<close>

record tok_env =
  te_sha :: "string \<Rightarrow> string"
  te_encrypt :: "string \<Rightarrow> string \<Rightarrow> string"
  te_decrypt :: "string \<Rightarrow> string \<Rightarrow> string option"
  te_encryptionKey :: string

definition js_truthy_text :: "json option \<Rightarrow> bool" where
  "js_truthy_text v = (case jstring v of None \<Rightarrow> False | Some s \<Rightarrow> s \<noteq> [])"

text \<open>\<open>Number.isSafeInteger(v) && v > 0\<close>.\<close>

definition positive_safe :: "json option \<Rightarrow> bool" where
  "positive_safe v = (case v of Some (JNum n) \<Rightarrow> js_is_safe_integer n \<and> 0 < int_of_num n | _ \<Rightarrow> False)"

definition token_ok :: "string \<Rightarrow> bool" where
  "token_ok t \<longleftrightarrow> length t = 43 \<and> list_all is_b64url t"

text \<open>\<open>id.length > 0 && id.length <= 256 && id.trim() === id\<close> for a string.\<close>

definition bounded_id :: "json option \<Rightarrow> bool" where
  "bounded_id v = (case jstring v of None \<Rightarrow> False | Some s \<Rightarrow> 0 < length s \<and> length s \<le> 256 \<and> js_trim s = s)"

lemma bounded_id_given: "bounded_id v \<Longrightarrow> v \<noteq> None"
  by (cases v) (simp_all add: bounded_id_def jstring_def)

lemma positive_safe_given: "positive_safe v \<Longrightarrow> v \<noteq> None"
  by (cases v) (simp_all add: positive_safe_def)

section \<open>The login attempt limiter\<close>

text \<open>
  The script: count the attempt, start the five minute window with the first one, and return the
  count with the time left in whole seconds (Redis rounds), or -1 for a key without expiry.
\<close>

definition ttl_seconds :: "time \<Rightarrow> time option \<Rightarrow> int" where
  "ttl_seconds now e = (case e of None \<Rightarrow> -1 | Some t \<Rightarrow> (t - now + 500) div 1000)"

definition CONSUME :: "time \<Rightarrow> string \<Rightarrow> redis \<Rightarrow> (int \<times> int) option \<times> redis" where
  "CONSUME now k r = (case r_live now r k of
     None \<Rightarrow> (Some (1, ttl_seconds now (Some (now + 300000))), r(k := Some (Counter 1, Some (now + 300000))))
   | Some (Counter n, e) \<Rightarrow> (let e' = (if n + 1 = 1 then Some (now + 300000) else e) in
       (Some (n + 1, ttl_seconds now e'), r(k := Some (Counter (n + 1), e'))))
   | Some _ \<Rightarrow> (None, r))"

definition limiter_key :: "tok_env \<Rightarrow> string \<Rightarrow> string \<Rightarrow> string" where
  "limiter_key env scope identifier = ''kubenova:login:'' @ scope @ '':'' @ te_sha env identifier"

text \<open>\<open>bytes\<close> is the length of the identifier in bytes.\<close>

definition limiter_consume ::
  "tok_env \<Rightarrow> time \<Rightarrow> bool \<Rightarrow> string \<Rightarrow> string \<Rightarrow> nat \<Rightarrow> int \<Rightarrow> redis \<Rightarrow> unit res \<times> redis" where
  "limiter_consume env now up scope identifier bytes limit r =
     (if \<not> nonblank identifier \<or> bytes > 1024 then (Inl (BadRequest ''Invalid login identifier''), r)
      else if \<not> up then (Inl (Unavailable ''Login temporarily unavailable''), r)
      else (case CONSUME now (limiter_key env scope identifier) r of
          (None, r') \<Rightarrow> (Inl (Unavailable ''Login temporarily unavailable''), r')
        | (Some (count, ttl), r') \<Rightarrow>
          (if \<not> safe_int count \<or> count < 1 \<or> ttl < 0 \<or> ttl > 300
           then (Inl (Unavailable ''Login temporarily unavailable''), r')
           else if count > limit then (Inl (TooMany (max 1 ttl)), r')
           else (Inr (), r'))))"

definition consumeAccount :: "tok_env \<Rightarrow> time \<Rightarrow> bool \<Rightarrow> string \<Rightarrow> nat \<Rightarrow> redis \<Rightarrow> unit res \<times> redis" where
  "consumeAccount env now up i bytes r = limiter_consume env now up ''account'' i bytes 10 r"

definition consumeIp :: "tok_env \<Rightarrow> time \<Rightarrow> bool \<Rightarrow> string \<Rightarrow> nat \<Rightarrow> redis \<Rightarrow> unit res \<times> redis" where
  "consumeIp env now up address bytes r = limiter_consume env now up ''ip'' address bytes 100 r"

section \<open>MFA challenges\<close>

definition challenge_key :: "tok_env \<Rightarrow> string \<Rightarrow> string" where
  "challenge_key env token = ''kubenova:mfa:challenge:'' @ te_sha env token"

definition challenge_ok :: "json \<Rightarrow> bool" where
  "challenge_ok v \<longleftrightarrow> (case jstring (jget v ''userId'') of None \<Rightarrow> False | Some s \<Rightarrow> s \<noteq> [] \<and> js_trim s = s)
     \<and> positive_safe (jget v ''authzVersion'') \<and> positive_safe (jget v ''enrollmentVersion'')"

definition challenge_validate :: "json \<Rightarrow> json res" where
  "challenge_validate v = (if \<not> challenge_ok v then Inl (Unauthorized ''Invalid MFA challenge'')
     else Inr (JObj [(''userId'', the (jget v ''userId'')), (''authzVersion'', the (jget v ''authzVersion'')),
       (''enrollmentVersion'', the (jget v ''enrollmentVersion''))]))"

definition challenge_save :: "tok_env \<Rightarrow> time \<Rightarrow> bool \<Rightarrow> string \<Rightarrow> json \<Rightarrow> redis \<Rightarrow> string res \<times> redis" where
  "challenge_save env now up token challenge r =
     (case challenge_validate challenge of Inl e \<Rightarrow> (Inl e, r)
      | Inr payload \<Rightarrow>
        (if \<not> token_ok token \<or> \<not> up then (Inl (Unavailable ''MFA challenge storage unavailable''), r)
         else (case r_set_nx now (challenge_key env token) (Doc payload) 300 r of
             (False, r') \<Rightarrow> (Inl (Unavailable ''MFA challenge storage unavailable''), r')
           | (True, r') \<Rightarrow> (Inr token, r'))))"

definition own_keys :: "json \<Rightarrow> nat" where
  "own_keys v = (case v of JObj kvs \<Rightarrow> length kvs | JArr xs \<Rightarrow> length xs | _ \<Rightarrow> 0)"

definition challenge_read :: "rvalue \<Rightarrow> json res" where
  "challenge_read v = (case v of Doc d \<Rightarrow>
       rbind (challenge_validate d) (\<lambda>p. if own_keys d \<noteq> 3 then Inl (Unauthorized ''Invalid MFA challenge'') else Inr p)
     | _ \<Rightarrow> Inl (Unauthorized ''Invalid MFA challenge''))"

definition challenge_consume :: "tok_env \<Rightarrow> time \<Rightarrow> bool \<Rightarrow> string \<Rightarrow> redis \<Rightarrow> json res \<times> redis" where
  "challenge_consume env now up token r =
     (if \<not> token_ok token then (Inl (Unauthorized ''Invalid MFA challenge''), r)
      else if \<not> up then (Inl (Unavailable ''MFA challenge storage unavailable''), r)
      else (case r_getdel now (challenge_key env token) r of
          (None, r') \<Rightarrow> (Inl (Unauthorized ''Invalid MFA challenge''), r')
        | (Some v, r') \<Rightarrow> (challenge_read v, r')))"

section \<open>MFA enrollment\<close>

definition enrollment_identity_ok :: "json \<Rightarrow> bool" where
  "enrollment_identity_ok v \<longleftrightarrow> bounded_id (jget v ''userId'') \<and> bounded_id (jget v ''sessionId'')
     \<and> positive_safe (jget v ''authzVersion'')"

definition enrollment_key :: "tok_env \<Rightarrow> string \<Rightarrow> string" where
  "enrollment_key env token = ''kubenova:mfa:enrollment:'' @ te_sha env token"

definition enrollment_payload :: "tok_env \<Rightarrow> json \<Rightarrow> string \<Rightarrow> json" where
  "enrollment_payload env identity secret = JObj [(''userId'', the (jget identity ''userId'')),
     (''sessionId'', the (jget identity ''sessionId'')), (''authzVersion'', the (jget identity ''authzVersion'')),
     (''encryptedSecret'', JStr (te_encrypt env (te_encryptionKey env) secret))]"

definition enrollment_save ::
  "tok_env \<Rightarrow> time \<Rightarrow> bool \<Rightarrow> string \<Rightarrow> string \<Rightarrow> json \<Rightarrow> redis \<Rightarrow> (string \<times> string) res \<times> redis" where
  "enrollment_save env now up token secret identity r =
     (if \<not> enrollment_identity_ok identity then (Inl (Unauthorized ''Invalid MFA enrollment''), r)
      else if \<not> nonblank (te_encryptionKey env) then (Inl (Unavailable ''MFA enrollment unavailable''), r)
      else if \<not> token_ok token \<or> \<not> up then (Inl (Unavailable ''MFA enrollment unavailable''), r)
      else (case r_set_nx now (enrollment_key env token) (Doc (enrollment_payload env identity secret)) 300 r of
          (False, r') \<Rightarrow> (Inl (Unavailable ''MFA enrollment unavailable''), r')
        | (True, r') \<Rightarrow> (Inr (token, secret), r')))"

definition enrollment_read :: "tok_env \<Rightarrow> json \<Rightarrow> rvalue option \<Rightarrow> string res" where
  "enrollment_read env identity raw = (case raw of
     Some (Doc payload) \<Rightarrow>
       (if jget payload ''userId'' \<noteq> jget identity ''userId'' \<or> jget payload ''sessionId'' \<noteq> jget identity ''sessionId''
           \<or> jget payload ''authzVersion'' \<noteq> jget identity ''authzVersion''
        then Inl (Unauthorized ''Invalid MFA enrollment'')
        else (case jstring (jget payload ''encryptedSecret'') of None \<Rightarrow> Inl (Unauthorized ''Invalid MFA enrollment'')
          | Some c \<Rightarrow> (case te_decrypt env (te_encryptionKey env) c of
              None \<Rightarrow> Inl (Unauthorized ''Invalid MFA enrollment'') | Some s \<Rightarrow> Inr s)))
   | _ \<Rightarrow> Inl (Unauthorized ''Invalid MFA enrollment''))"

definition enrollment_consume :: "tok_env \<Rightarrow> time \<Rightarrow> bool \<Rightarrow> string \<Rightarrow> json \<Rightarrow> redis \<Rightarrow> string res \<times> redis" where
  "enrollment_consume env now up token identity r =
     (if \<not> enrollment_identity_ok identity \<or> \<not> token_ok token then (Inl (Unauthorized ''Invalid MFA enrollment''), r)
      else if \<not> up then (Inl (Unavailable ''MFA enrollment unavailable''), r)
      else (case r_getdel now (enrollment_key env token) r of (raw, r') \<Rightarrow> (enrollment_read env identity raw, r')))"

section \<open>MFA reset\<close>

definition reset_ids :: "string list" where
  "reset_ids = [''actorUserId'', ''actorSessionId'', ''targetUserId'']"

definition reset_versions :: "string list" where
  "reset_versions = [''actorAuthzVersion'', ''targetAuthzVersion'', ''targetMfaVersion'']"

definition reset_identity_ok :: "json \<Rightarrow> bool" where
  "reset_identity_ok v \<longleftrightarrow> list_all (\<lambda>f. bounded_id (jget v f)) reset_ids
     \<and> list_all (\<lambda>f. positive_safe (jget v f)) reset_versions"

definition reset_key :: "tok_env \<Rightarrow> string \<Rightarrow> string" where
  "reset_key env token = ''kubenova:mfa:reset:'' @ te_sha env token"

definition reset_payload :: "time \<Rightarrow> json \<Rightarrow> json" where
  "reset_payload now identity = JObj [(''actorUserId'', the (jget identity ''actorUserId'')),
     (''actorSessionId'', the (jget identity ''actorSessionId'')), (''actorAuthzVersion'', the (jget identity ''actorAuthzVersion'')),
     (''targetUserId'', the (jget identity ''targetUserId'')), (''targetAuthzVersion'', the (jget identity ''targetAuthzVersion'')),
     (''targetMfaVersion'', the (jget identity ''targetMfaVersion'')), (''action'', JStr ''mfa-reset''),
     (''expiresAt'', JNum (num (now + 300000)))]"

definition reset_save :: "tok_env \<Rightarrow> time \<Rightarrow> bool \<Rightarrow> string \<Rightarrow> json \<Rightarrow> redis \<Rightarrow> string res \<times> redis" where
  "reset_save env now up token identity r =
     (if \<not> reset_identity_ok identity then (Inl (Unauthorized ''Invalid MFA reset''), r)
      else if \<not> token_ok token \<or> \<not> up then (Inl (Unavailable ''MFA reset unavailable''), r)
      else (case r_set_nx now (reset_key env token) (Doc (reset_payload now identity)) 300 r of
          (False, r') \<Rightarrow> (Inl (Unavailable ''MFA reset unavailable''), r')
        | (True, r') \<Rightarrow> (Inr token, r')))"

definition reset_expiry_ok :: "time \<Rightarrow> json option \<Rightarrow> bool" where
  "reset_expiry_ok now v = (case v of Some (JNum n) \<Rightarrow>
     js_is_safe_integer n \<and> now < int_of_num n \<and> int_of_num n \<le> now + 300000 | _ \<Rightarrow> False)"

definition reset_read :: "time \<Rightarrow> json \<Rightarrow> rvalue option \<Rightarrow> json res" where
  "reset_read now identity raw = (case raw of
     Some (Doc payload) \<Rightarrow>
       (if \<not> reset_identity_ok payload \<or> jget payload ''action'' \<noteq> Some (JStr ''mfa-reset'')
           \<or> \<not> reset_expiry_ok now (jget payload ''expiresAt'')
           \<or> list_ex (\<lambda>f. jget payload f \<noteq> jget identity f) (reset_ids @ reset_versions)
        then Inl (Unauthorized ''Invalid MFA reset'') else Inr payload)
   | _ \<Rightarrow> Inl (Unauthorized ''Invalid MFA reset''))"

definition reset_consume :: "tok_env \<Rightarrow> time \<Rightarrow> bool \<Rightarrow> string \<Rightarrow> json \<Rightarrow> redis \<Rightarrow> json res \<times> redis" where
  "reset_consume env now up token identity r =
     (if \<not> reset_identity_ok identity \<or> \<not> token_ok token then (Inl (Unauthorized ''Invalid MFA reset''), r)
      else if \<not> up then (Inl (Unavailable ''MFA reset unavailable''), r)
      else (case r_getdel now (reset_key env token) r of (raw, r') \<Rightarrow> (reset_read now identity raw, r')))"

section \<open>OIDC login transactions\<close>

definition oidc_key :: "tok_env \<Rightarrow> string \<Rightarrow> string \<Rightarrow> string" where
  "oidc_key env st binding = ''kubenova:oidc:transaction:'' @ st @ '':'' @ te_sha env binding"

definition oidc_fields :: "string list" where
  "oidc_fields = [''nonce'', ''codeVerifier'', ''issuer'', ''clientId'', ''redirectUri'']"

definition oidc_save :: "tok_env \<Rightarrow> time \<Rightarrow> bool \<Rightarrow> string \<Rightarrow> json \<Rightarrow> string \<Rightarrow> redis \<Rightarrow> string res \<times> redis" where
  "oidc_save env now up st transaction binding r =
     (if \<not> token_ok st \<or> binding = [] then (Inl (Unauthorized ''Invalid OIDC login transaction''), r)
      else if \<not> up then (Inl (Unavailable ''OIDC login transaction storage unavailable''), r)
      else (case r_set_nx now (oidc_key env st binding) (Doc transaction) 300 r of
          (False, r') \<Rightarrow> (Inl (Unavailable ''OIDC login transaction storage unavailable''), r')
        | (True, r') \<Rightarrow> (Inr st, r')))"

definition oidc_read :: "rvalue option \<Rightarrow> json res" where
  "oidc_read raw = (case raw of None \<Rightarrow> Inl (Unauthorized ''OIDC login transaction expired or already used'')
     | Some (Doc t) \<Rightarrow> (if list_ex (\<lambda>f. \<not> js_truthy_text (jget t f)) oidc_fields
         then Inl (Unauthorized ''Invalid OIDC login transaction'') else Inr t)
     | _ \<Rightarrow> Inl (Unauthorized ''Invalid OIDC login transaction''))"

definition oidc_consume :: "tok_env \<Rightarrow> time \<Rightarrow> bool \<Rightarrow> string \<Rightarrow> string \<Rightarrow> redis \<Rightarrow> json res \<times> redis" where
  "oidc_consume env now up st binding r =
     (if \<not> token_ok st \<or> binding = [] then (Inl (Unauthorized ''Invalid OIDC login transaction''), r)
      else if \<not> up then (Inl (Unavailable ''OIDC login transaction storage unavailable''), r)
      else (case r_getdel now (oidc_key env st binding) r of (raw, r') \<Rightarrow> (oidc_read raw, r')))"

section \<open>The stores are one-time stores\<close>

interpretation challenges: one_time_store "challenge_key env" "\<lambda>now up t (i :: unit). challenge_consume env now up t" for env
  by unfold_locales
     (auto simp: challenge_consume_def r_getdel_def r_live_def split: if_splits option.splits prod.splits)

interpretation enrollments: one_time_store "enrollment_key env" "\<lambda>now up t. enrollment_consume env now up t" for env
  by unfold_locales
     (auto simp: enrollment_consume_def enrollment_read_def r_getdel_def r_live_def
        split: if_splits option.splits prod.splits)

interpretation resets: one_time_store "reset_key env" "\<lambda>now up t. reset_consume env now up t" for env
  by unfold_locales
     (auto simp: reset_consume_def reset_read_def r_getdel_def r_live_def split: if_splits option.splits prod.splits)

interpretation logins: one_time_store "\<lambda>(st, b). oidc_key env st b"
  "\<lambda>now up (st, b) (i :: unit). oidc_consume env now up st b" for env
  by unfold_locales
     (auto simp: oidc_consume_def oidc_read_def r_getdel_def r_live_def split: if_splits option.splits prod.splits)

end
