(* ===== verification/Kn_AuthDb.thy ===== *)
theory Kn_AuthDb
  imports Kn_Totp Kn_Tokens
begin

text \<open>
  The authentication tables and their repositories: auth/auth.repository.ts and
  auth/mfa-credential.repository.ts.

  The tables User, MfaCredential, Session and AuthorizationChange are lists of rows in one record.
  A transaction is one function of the whole record. Each method reads the clock once; the clock of
  the database is the same one. New identifiers are arguments.
\<close>

record user_row =
  us_id :: string
  us_email :: string
  us_name :: "string option"
  us_passwordHash :: "string option"
  us_role :: string
  us_isActive :: bool
  us_mfaEnabled :: bool
  us_authzVersion :: int

record cred_row =
  mc_userId :: string
  mc_encryptedSecret :: string
  mc_version :: int
  mc_confirmedAt :: time
  mc_lastTotpCounter :: "int option"
  mc_recoveryCodeHashes :: "string list"

record session_row =
  ss_id :: string
  ss_userId :: string
  ss_refreshTokenHash :: string
  ss_expiresAt :: time
  ss_refreshExpiresAt :: time
  ss_revokedAt :: "time option"
  ss_authzVersion :: int
  ss_mfaVersion :: "int option"
  ss_mfaVerifiedAt :: "time option"

record change_row =
  ch_actorUserId :: string
  ch_affectedUserId :: string
  ch_version :: int
  ch_reason :: string

record auth_db =
  ad_users :: "user_row list"
  ad_creds :: "cred_row list"
  ad_sessions :: "session_row list"
  ad_changes :: "change_row list"

definition user_of :: "auth_db \<Rightarrow> string \<Rightarrow> user_row option" where
  "user_of db i = find (\<lambda>u. us_id u = i) (ad_users db)"

definition cred_of :: "auth_db \<Rightarrow> string \<Rightarrow> cred_row option" where
  "cred_of db i = find (\<lambda>c. mc_userId c = i) (ad_creds db)"

definition active_user :: "auth_db \<Rightarrow> string \<Rightarrow> bool" where
  "active_user db i \<longleftrightarrow> (case user_of db i of None \<Rightarrow> False | Some u \<Rightarrow> us_isActive u)"

section \<open>auth.repository.ts\<close>

definition findActiveUserByUsername :: "auth_db \<Rightarrow> string \<Rightarrow> user_row option" where
  "findActiveUserByUsername db username = (let n = js_trim username in
     find (\<lambda>u. us_isActive u \<and> (us_email u = n \<or> us_name u = Some n)) (ad_users db))"

definition new_session :: "string \<Rightarrow> string \<Rightarrow> int \<Rightarrow> string \<Rightarrow> time \<Rightarrow> time \<Rightarrow> session_row" where
  "new_session newId userId authzVersion hash expiresAt refreshExpiresAt =
     \<lparr>ss_id = newId, ss_userId = userId, ss_refreshTokenHash = hash, ss_expiresAt = expiresAt,
      ss_refreshExpiresAt = refreshExpiresAt, ss_revokedAt = None, ss_authzVersion = authzVersion,
      ss_mfaVersion = None, ss_mfaVerifiedAt = None\<rparr>"

definition createSession :: "session_row \<Rightarrow> auth_db \<Rightarrow> auth_db" where
  "createSession s db = db\<lparr>ad_sessions := ad_sessions db @ [s]\<rparr>"

definition findValidSessionById :: "auth_db \<Rightarrow> time \<Rightarrow> string \<Rightarrow> session_row option" where
  "findValidSessionById db now i = find (\<lambda>s. ss_id s = i \<and> ss_revokedAt s = None \<and> now < ss_expiresAt s
     \<and> active_user db (ss_userId s)) (ad_sessions db)"

definition findValidSessionByRefreshTokenHash :: "auth_db \<Rightarrow> time \<Rightarrow> string \<Rightarrow> session_row option" where
  "findValidSessionByRefreshTokenHash db now h = find (\<lambda>s. ss_refreshTokenHash s = h \<and> ss_revokedAt s = None
     \<and> now < ss_refreshExpiresAt s \<and> active_user db (ss_userId s)) (ad_sessions db)"

definition revoke_where :: "time \<Rightarrow> (session_row \<Rightarrow> bool) \<Rightarrow> auth_db \<Rightarrow> nat \<times> auth_db" where
  "revoke_where now p db = (let (n, t) = update_many p (\<lambda>s. s\<lparr>ss_revokedAt := Some now\<rparr>) (ad_sessions db) in
     (n, db\<lparr>ad_sessions := t\<rparr>))"

definition revokeSessionById :: "time \<Rightarrow> string \<Rightarrow> auth_db \<Rightarrow> auth_db" where
  "revokeSessionById now i db = snd (revoke_where now (\<lambda>s. ss_id s = i \<and> ss_revokedAt s = None) db)"

definition revokeSessionByRefreshTokenHash :: "time \<Rightarrow> string \<Rightarrow> string \<Rightarrow> auth_db \<Rightarrow> bool \<times> auth_db" where
  "revokeSessionByRefreshTokenHash now i h db =
     (let (n, db') = revoke_where now (\<lambda>s. ss_id s = i \<and> ss_refreshTokenHash s = h \<and> ss_revokedAt s = None
        \<and> now < ss_refreshExpiresAt s) db in (n = 1, db'))"

record rotation =
  ro_sessionId :: string
  ro_userId :: string
  ro_authzVersion :: int
  ro_current :: string
  ro_next :: string
  ro_expiresAt :: time
  ro_refreshExpiresAt :: time

definition rotateSession :: "time \<Rightarrow> string \<Rightarrow> rotation \<Rightarrow> auth_db \<Rightarrow> session_row option \<times> auth_db" where
  "rotateSession now newId q db =
     (let (n, db') = revoke_where now (\<lambda>s. ss_id s = ro_sessionId q \<and> ss_authzVersion s = ro_authzVersion q
          \<and> (case user_of db (ss_userId s) of None \<Rightarrow> False | Some u \<Rightarrow> us_isActive u \<and> us_authzVersion u = ro_authzVersion q)
          \<and> ss_refreshTokenHash s = ro_current q \<and> ss_revokedAt s = None \<and> now < ss_refreshExpiresAt s) db in
      if n \<noteq> 1 then (None, db)
      else (let s = new_session newId (ro_userId q) (ro_authzVersion q) (ro_next q)
              (min (ro_expiresAt q) (ro_refreshExpiresAt q)) (ro_refreshExpiresAt q) in
        (Some s, createSession s db')))"

section \<open>mfa-credential.repository.ts\<close>

text \<open>The configured superadmin, the encryption key and the cryptographic routines.\<close>

record mfa_env =
  me_superadmin :: "string option"
  me_key :: string
  me_encrypt :: "string \<Rightarrow> string \<Rightarrow> string"
  me_decrypt :: "string \<Rightarrow> string \<Rightarrow> string option"
  me_hash :: "string \<Rightarrow> string"
  me_hmac :: "byte list \<Rightarrow> byte list \<Rightarrow> byte list"

record mfa_challenge =
  mh_userId :: string
  mh_authzVersion :: int
  mh_enrollmentVersion :: int

datatype mfa_method = Totp | Recovery

definition ok_version :: "int \<Rightarrow> bool" where
  "ok_version v \<longleftrightarrow> safe_int v \<and> 0 < v"

definition ok_id :: "string \<Rightarrow> bool" where
  "ok_id s \<longleftrightarrow> 0 < length s \<and> length s \<le> 256 \<and> js_trim s = s"

record reset_proof =
  rp_actorUserId :: string
  rp_actorSessionId :: string
  rp_actorAuthzVersion :: int
  rp_targetUserId :: string
  rp_targetAuthzVersion :: int
  rp_targetMfaVersion :: int
  rp_action :: string
  rp_expiresAt :: int

definition proof_ok :: "mfa_env \<Rightarrow> time \<Rightarrow> reset_proof \<Rightarrow> bool" where
  "proof_ok env now p \<longleftrightarrow> rp_action p = ''mfa-reset''
     \<and> ok_id (rp_actorUserId p) \<and> ok_id (rp_actorSessionId p) \<and> ok_id (rp_targetUserId p)
     \<and> ok_version (rp_actorAuthzVersion p) \<and> ok_version (rp_targetAuthzVersion p) \<and> ok_version (rp_targetMfaVersion p)
     \<and> safe_int (rp_expiresAt p) \<and> now < rp_expiresAt p \<and> rp_expiresAt p \<le> now + 300000
     \<and> me_superadmin env = Some (rp_actorUserId p)"

text \<open>Multi-factor state a session of the actor must carry when the actor has it enabled.\<close>

definition assured :: "time \<Rightarrow> cred_row \<Rightarrow> session_row \<Rightarrow> bool" where
  "assured now c s \<longleftrightarrow> ss_mfaVersion s = Some (mc_version c)
     \<and> (case ss_mfaVerifiedAt s of None \<Rightarrow> False | Some t \<Rightarrow> mc_confirmedAt c \<le> t \<and> t \<le> now)"

definition reset_allowed :: "mfa_env \<Rightarrow> time \<Rightarrow> reset_proof \<Rightarrow> auth_db \<Rightarrow> user_row \<Rightarrow> user_row \<Rightarrow> bool" where
  "reset_allowed env now p db actor target \<longleftrightarrow>
     us_isActive actor \<and> us_role actor \<in> {''admin'', ''platform-admin''} \<and> us_authzVersion actor = rp_actorAuthzVersion p
     \<and> us_mfaEnabled target \<and> us_authzVersion target = rp_targetAuthzVersion p
     \<and> map_option mc_version (cred_of db (us_id target)) = Some (rp_targetMfaVersion p)
     \<and> (case find (\<lambda>s. ss_id s = rp_actorSessionId p \<and> ss_userId s = us_id actor
            \<and> ss_authzVersion s = rp_actorAuthzVersion p \<and> ss_revokedAt s = None \<and> now < ss_expiresAt s) (ad_sessions db) of
          None \<Rightarrow> False
        | Some s \<Rightarrow> (us_mfaEnabled actor \<longrightarrow> (case cred_of db (us_id actor) of None \<Rightarrow> False | Some c \<Rightarrow> assured now c s)))"

definition set_mfa :: "bool \<Rightarrow> string \<Rightarrow> user_row list \<Rightarrow> user_row list" where
  "set_mfa b i us = map (\<lambda>u. if us_id u = i then u\<lparr>us_mfaEnabled := b, us_authzVersion := us_authzVersion u + 1\<rparr> else u) us"

definition reset_target :: "time \<Rightarrow> string \<Rightarrow> user_row \<Rightarrow> auth_db \<Rightarrow> auth_db" where
  "reset_target now actorId target db =
     (let db1 = db\<lparr>ad_creds := filter (\<lambda>c. mc_userId c \<noteq> us_id target) (ad_creds db),
                   ad_users := set_mfa False (us_id target) (ad_users db)\<rparr>;
          db2 = snd (revoke_where now (\<lambda>s. ss_userId s = us_id target \<and> ss_revokedAt s = None) db1) in
      db2\<lparr>ad_changes := ad_changes db2 @ [\<lparr>ch_actorUserId = actorId, ch_affectedUserId = us_id target,
        ch_version = us_authzVersion target + 1, ch_reason = ''mfa-reset''\<rparr>]\<rparr>)"

definition mfa_reset :: "mfa_env \<Rightarrow> time \<Rightarrow> reset_proof \<Rightarrow> auth_db \<Rightarrow> string option \<times> auth_db" where
  "mfa_reset env now p db =
     (if \<not> proof_ok env now p then (None, db)
      else (case (user_of db (rp_actorUserId p), user_of db (rp_targetUserId p)) of
          (Some actor, Some target) \<Rightarrow>
            (if reset_allowed env now p db actor target
             then (Some (us_id target), reset_target now (us_id actor) target db) else (None, db))
        | _ \<Rightarrow> (None, db)))"

definition is_secret :: "string \<Rightarrow> bool" where
  "is_secret s \<longleftrightarrow> length s = 32 \<and> list_all (\<lambda>c. c \<in> set alphabet) s"

text \<open>\<open>codes\<close> are the ten random recovery codes.\<close>

definition confirmEnrollment ::
  "mfa_env \<Rightarrow> time \<Rightarrow> string \<Rightarrow> string \<Rightarrow> int \<Rightarrow> string \<Rightarrow> string \<Rightarrow> string list \<Rightarrow> auth_db \<Rightarrow> string list option res \<times> auth_db" where
  "confirmEnrollment env now userId sessionId authzVersion secret code codes db =
     (if \<not> ok_id userId \<or> \<not> ok_id sessionId \<or> \<not> ok_version authzVersion \<or> \<not> is_secret secret \<or> \<not> six_digits code
      then (Inr None, db)
      else (case matchTotpCounter (me_hmac env) secret code now 1 of
          Inl e \<Rightarrow> (Inl (Internal e), db)
        | Inr None \<Rightarrow> (Inr None, db)
        | Inr (Some counter) \<Rightarrow>
          (if \<not> nonblank (me_key env) then (Inl (Unavailable ''MFA enrollment unavailable''), db)
           else (case user_of db userId of None \<Rightarrow> (Inr None, db)
             | Some u \<Rightarrow>
               (if \<not> us_isActive u \<or> us_mfaEnabled u \<or> us_authzVersion u \<noteq> authzVersion
                   \<or> \<not> list_ex (\<lambda>s. ss_id s = sessionId \<and> ss_userId s = userId \<and> ss_authzVersion s = authzVersion
                        \<and> ss_revokedAt s = None \<and> now < ss_expiresAt s) (ad_sessions db)
                   \<or> cred_of db userId \<noteq> None
                then (Inr None, db)
                else (let db1 = db\<lparr>ad_creds := ad_creds db @ [\<lparr>mc_userId = userId, mc_encryptedSecret = me_encrypt env (me_key env) secret,
                             mc_version = 1, mc_confirmedAt = now, mc_lastTotpCounter = Some counter,
                             mc_recoveryCodeHashes = map (me_hash env) codes\<rparr>],
                           ad_users := set_mfa True userId (ad_users db)\<rparr>;
                         db2 = snd (revoke_where now (\<lambda>s. ss_userId s = userId \<and> ss_revokedAt s = None) db1) in
                  (Inr (Some codes), db2\<lparr>ad_changes := ad_changes db2 @ [\<lparr>ch_actorUserId = userId, ch_affectedUserId = userId,
                     ch_version = authzVersion + 1, ch_reason = ''mfa-enrolled''\<rparr>]\<rparr>)))))))"

definition prepareChallenge :: "auth_db \<Rightarrow> time \<Rightarrow> string \<Rightarrow> int \<Rightarrow> mfa_challenge option" where
  "prepareChallenge db now userId authzVersion =
     (if \<not> nonblank userId \<or> userId \<noteq> js_trim userId \<or> \<not> ok_version authzVersion then None
      else (case (user_of db userId, cred_of db userId) of
          (Some u, Some c) \<Rightarrow> (if us_authzVersion u = authzVersion \<and> us_isActive u \<and> us_mfaEnabled u \<and> mc_confirmedAt c \<le> now
             then Some \<lparr>mh_userId = userId, mh_authzVersion = authzVersion, mh_enrollmentVersion = mc_version c\<rparr> else None)
        | _ \<Rightarrow> None))"

definition mfa_rotateSession :: "time \<Rightarrow> string \<Rightarrow> rotation \<Rightarrow> auth_db \<Rightarrow> session_row option \<times> auth_db" where
  "mfa_rotateSession now newId q db =
     (case (user_of db (ro_userId q), cred_of db (ro_userId q)) of
        (Some u, Some c) \<Rightarrow>
          (let held = (\<lambda>s. ss_id s = ro_sessionId q \<and> ss_userId s = ro_userId q \<and> ss_authzVersion s = ro_authzVersion q
               \<and> ss_refreshTokenHash s = ro_current q \<and> ss_revokedAt s = None \<and> now < ss_refreshExpiresAt s \<and> assured now c s) in
           (if \<not> (us_isActive u \<and> us_mfaEnabled u \<and> us_authzVersion u = ro_authzVersion q) then (None, db)
            else (case find held (ad_sessions db) of None \<Rightarrow> (None, db)
              | Some old \<Rightarrow>
                (let db' = snd (revoke_where now held db);
                     s = (new_session newId (ro_userId q) (ro_authzVersion q) (ro_next q)
                           (min (ro_expiresAt q) (ss_refreshExpiresAt old)) (ss_refreshExpiresAt old))
                         \<lparr>ss_mfaVersion := ss_mfaVersion old, ss_mfaVerifiedAt := ss_mfaVerifiedAt old\<rparr> in
                 (Some s, createSession s db')))))
      | _ \<Rightarrow> (None, db))"

definition hasSessionAssurance :: "auth_db \<Rightarrow> time \<Rightarrow> string \<Rightarrow> string \<Rightarrow> int \<Rightarrow> bool" where
  "hasSessionAssurance db now sessionId userId authzVersion \<longleftrightarrow>
     (case (user_of db userId, cred_of db userId) of
        (Some u, Some c) \<Rightarrow> us_isActive u \<and> us_mfaEnabled u \<and> us_authzVersion u = authzVersion
          \<and> length (filter (\<lambda>s. ss_id s = sessionId \<and> ss_userId s = userId \<and> ss_authzVersion s = us_authzVersion u
               \<and> ss_revokedAt s = None \<and> now < ss_expiresAt s \<and> assured now c s) (ad_sessions db)) = 1
      | _ \<Rightarrow> False)"

definition validInput :: "mfa_challenge \<Rightarrow> string \<Rightarrow> bool" where
  "validInput ch code \<longleftrightarrow> nonblank (mh_userId ch) \<and> mh_userId ch = js_trim (mh_userId ch)
     \<and> ok_version (mh_authzVersion ch) \<and> ok_version (mh_enrollmentVersion ch) \<and> 0 < length code \<and> length code \<le> 128"

text \<open>The credential a challenge speaks of, under the conditions of the statements of \<open>redeem\<close>.\<close>

definition redeemable :: "auth_db \<Rightarrow> mfa_challenge \<Rightarrow> cred_row option" where
  "redeemable db ch = (case (user_of db (mh_userId ch), cred_of db (mh_userId ch)) of
     (Some u, Some c) \<Rightarrow> (if mc_version c = mh_enrollmentVersion ch \<and> us_isActive u \<and> us_mfaEnabled u
          \<and> us_authzVersion u = mh_authzVersion ch then Some c else None)
   | _ \<Rightarrow> None)"

definition update_cred :: "string \<Rightarrow> (cred_row \<Rightarrow> cred_row) \<Rightarrow> auth_db \<Rightarrow> auth_db" where
  "update_cred i f db = db\<lparr>ad_creds := map (\<lambda>c. if mc_userId c = i then f c else c) (ad_creds db)\<rparr>"

definition redeem ::
  "mfa_env \<Rightarrow> time \<Rightarrow> mfa_challenge \<Rightarrow> string \<Rightarrow> mfa_method \<Rightarrow> auth_db \<Rightarrow> (int \<times> time) option res \<times> auth_db" where
  "redeem env now ch code method db =
     (if \<not> validInput ch code then (Inr None, db)
      else (case redeemable db ch of None \<Rightarrow> (Inr None, db)
        | Some c \<Rightarrow> (case method of
            Totp \<Rightarrow> (case (case me_decrypt env (me_key env) (mc_encryptedSecret c) of None \<Rightarrow> Inl ''invalid MFA secret''
                 | Some secret \<Rightarrow> matchTotpCounter (me_hmac env) secret code now 1) of
                Inl e \<Rightarrow> (Inl (Unavailable ''MFA verification unavailable''), db)
              | Inr None \<Rightarrow> (Inr None, db)
              | Inr (Some counter) \<Rightarrow>
                (if (case mc_lastTotpCounter c of None \<Rightarrow> True | Some l \<Rightarrow> l < counter)
                 then (Inr (Some (mc_version c, now)), update_cred (mh_userId ch) (\<lambda>c. c\<lparr>mc_lastTotpCounter := Some counter\<rparr>) db)
                 else (Inr None, db)))
          | Recovery \<Rightarrow> (let hash = me_hash env code in
              (if hash \<in> set (mc_recoveryCodeHashes c)
               then (Inr (Some (mc_version c, now)),
                 update_cred (mh_userId ch) (\<lambda>c. c\<lparr>mc_recoveryCodeHashes := filter (\<lambda>h. h \<noteq> hash) (mc_recoveryCodeHashes c)\<rparr>) db)
               else (Inr None, db))))))"

definition redeemAndCreateSession ::
  "mfa_env \<Rightarrow> time \<Rightarrow> string \<Rightarrow> mfa_challenge \<Rightarrow> string \<Rightarrow> mfa_method \<Rightarrow> string \<Rightarrow> time \<Rightarrow> time \<Rightarrow> auth_db
     \<Rightarrow> (session_row \<times> user_row) option res \<times> auth_db" where
  "redeemAndCreateSession env now newId ch code method hash expiresAt refreshExpiresAt db =
     (if \<not> validInput ch code \<or> hash = [] \<or> expiresAt \<le> now \<or> refreshExpiresAt < expiresAt then (Inr None, db)
      else (case user_of db (mh_userId ch) of None \<Rightarrow> (Inr None, db)
        | Some u \<Rightarrow>
          (if \<not> us_isActive u \<or> \<not> us_mfaEnabled u \<or> us_authzVersion u \<noteq> mh_authzVersion ch then (Inr None, db)
           else (case redeem env now ch code method db of
               (Inl e, db') \<Rightarrow> (Inl e, db)
             | (Inr None, db') \<Rightarrow> (Inr None, db')
             | (Inr (Some (mfaVersion, t)), db') \<Rightarrow>
               (let s = (new_session newId (us_id u) (us_authzVersion u) hash expiresAt refreshExpiresAt)
                      \<lparr>ss_mfaVersion := Some mfaVersion, ss_mfaVerifiedAt := Some now\<rparr> in
                (Inr (Some (s, u)), createSession s db'))))))"

section \<open>Tables after an MFA reset\<close>

lemma set_mfa_user:
  "find (\<lambda>u. us_id u = i) us = Some u \<Longrightarrow>
   find (\<lambda>u. us_id u = i) (set_mfa b i us) = Some (u\<lparr>us_mfaEnabled := b, us_authzVersion := us_authzVersion u + 1\<rparr>)"
  by (induction us) (auto simp: set_mfa_def split: if_splits)

lemma reset_target_tables:
  "ad_users (reset_target now a t db) = set_mfa False (us_id t) (ad_users db)"
  "ad_creds (reset_target now a t db) = filter (\<lambda>c. mc_userId c \<noteq> us_id t) (ad_creds db)"
  "s \<in> set (ad_sessions (reset_target now a t db)) \<Longrightarrow> ss_userId s = us_id t \<Longrightarrow> ss_revokedAt s \<noteq> None"
  by (auto simp: reset_target_def Let_def revoke_where_def update_many_def)

end
