(* ===== verification/Kn_Auth.thy ===== *)
theory Kn_Auth
  imports Kn_AuthDb
begin

text \<open>
  Sessions and multi-factor flows of the authentication service: auth/auth.service.ts and
  auth/token.service.ts, over the tables of Kn_AuthDb and the Redis stores of Kn_Tokens.

  A handler is one function of both stores: interleavings are those of whole handlers. Random
  values are in a record argument, scrypt is a field of the environment (the derived key as
  lower-case hex, or \<open>None\<close> when it throws), and \<open>up\<close> tells whether Redis answers. The flows through
  an OIDC provider are not modelled.
\<close>

section \<open>Tokens\<close>

definition parseDurationToMs :: "string \<Rightarrow> int" where
  "parseDurationToMs input = (let value = js_trim input; digits = takeWhile is_digit value; rest = dropWhile is_digit value;
       amount = foldl (\<lambda>a c. a * 10 + (int (of_char c :: nat) - 48)) 0 digits in
     if digits = [] then 30 * 60 * 1000
     else if js_lower rest = ''s'' then amount * 1000
     else if js_lower rest = ''m'' then amount * 60 * 1000
     else if js_lower rest = ''h'' then amount * 60 * 60 * 1000
     else if js_lower rest = ''d'' then amount * 24 * 60 * 60 * 1000
     else 30 * 60 * 1000)"

definition resolveSessionId :: "string \<Rightarrow> string option" where
  "resolveSessionId accessToken = (if js_trim accessToken = [] then None else Some (js_trim accessToken))"

definition createAccessToken :: "string \<Rightarrow> string" where
  "createAccessToken sessionId = sessionId"

section \<open>Environment, state and results\<close>

record auth_env =
  ae_tok :: tok_env
  ae_mfa :: mfa_env
  ae_scrypt :: "string \<Rightarrow> string \<Rightarrow> string option"
  ae_jwtExpiresIn :: "string option"
  ae_refreshExpiresIn :: "string option"
  ae_limiter :: bool
  ae_challenges :: bool
  ae_credentials :: bool
  ae_enrollments :: bool
  ae_resets :: bool

record auth_state =
  as_db :: auth_db
  as_redis :: redis

record fresh =
  fr_refreshToken :: string
  fr_sessionId :: string
  fr_token :: string
  fr_secret :: string
  fr_codes :: "string list"

record auth_user =
  au_id :: string
  au_username :: string
  au_displayName :: string
  au_role :: string

record auth_session =
  ax_token :: string
  ax_refreshToken :: string
  ax_user :: auth_user
  ax_expiresAt :: time

datatype login_result = LoggedIn auth_session | MfaRequired string

record validated =
  vs_token :: string
  vs_authzVersion :: int
  vs_user :: auth_user
  vs_expiresAt :: time

definition hashToken :: "auth_env \<Rightarrow> string \<Rightarrow> string" where
  "hashToken env t = te_sha (ae_tok env) t"

definition resolveAccessTokenExpiry :: "auth_env \<Rightarrow> time \<Rightarrow> time" where
  "resolveAccessTokenExpiry env now = now + parseDurationToMs (case ae_jwtExpiresIn env of None \<Rightarrow> ''30m'' | Some s \<Rightarrow> s)"

definition resolveRefreshTokenExpiry :: "auth_env \<Rightarrow> time \<Rightarrow> time" where
  "resolveRefreshTokenExpiry env now = now + parseDurationToMs (case ae_refreshExpiresIn env of None \<Rightarrow> ''7d'' | Some s \<Rightarrow> s)"

definition mapUser :: "user_row \<Rightarrow> auth_user" where
  "mapUser u = \<lparr>au_id = us_id u, au_username = us_email u,
     au_displayName = (case us_name u of None \<Rightarrow> us_email u | Some n \<Rightarrow> n), au_role = us_role u\<rparr>"

text \<open>\<open>Buffer.from(text, 'hex')\<close>: the longest prefix of pairs of hex digits, in lower case.\<close>

fun hex_prefix :: "string \<Rightarrow> string" where
  "hex_prefix (a # b # s) = (if is_hex a \<and> is_hex b then js_lower_char a # js_lower_char b # hex_prefix s else [])"
| "hex_prefix _ = []"

definition verifyPassword :: "auth_env \<Rightarrow> string \<Rightarrow> string option \<Rightarrow> bool" where
  "verifyPassword env password passwordHash = (case passwordHash of None \<Rightarrow> False
     | Some h \<Rightarrow> (case js_split (CHR '':'') h of
         [salt, storedHex] \<Rightarrow> h \<noteq> [] \<and> (case ae_scrypt env password salt of None \<Rightarrow> False
            | Some derived \<Rightarrow> derived = hex_prefix storedHex)
       | _ \<Rightarrow> False))"

definition utf8_length :: "string \<Rightarrow> nat" where
  "utf8_length s = sum_list (map (\<lambda>c. if (of_char c :: nat) < 128 then 1 else 2) s)"

definition limit_account :: "auth_env \<Rightarrow> time \<Rightarrow> bool \<Rightarrow> string \<Rightarrow> auth_state \<Rightarrow> unit res \<times> auth_state" where
  "limit_account env now up i st =
     (let (x, r) = consumeAccount (ae_tok env) now up i (utf8_length i) (as_redis st) in (x, st\<lparr>as_redis := r\<rparr>))"

definition set_db :: "'a \<times> auth_db \<Rightarrow> auth_state \<Rightarrow> 'a \<times> auth_state" where
  "set_db p st = (fst p, st\<lparr>as_db := snd p\<rparr>)"

definition set_redis :: "'a \<times> redis \<Rightarrow> auth_state \<Rightarrow> 'a \<times> auth_state" where
  "set_redis p st = (fst p, st\<lparr>as_redis := snd p\<rparr>)"

section \<open>Login\<close>

definition challenge_json :: "mfa_challenge \<Rightarrow> json" where
  "challenge_json c = JObj [(''userId'', JStr (mh_userId c)), (''authzVersion'', JNum (num (mh_authzVersion c))),
     (''enrollmentVersion'', JNum (num (mh_enrollmentVersion c)))]"

definition json_int :: "json option \<Rightarrow> int" where
  "json_int v = (case v of Some (JNum n) \<Rightarrow> int_of_num n | _ \<Rightarrow> 0)"

definition challenge_of_json :: "json \<Rightarrow> mfa_challenge" where
  "challenge_of_json v = \<lparr>mh_userId = (case jstring (jget v ''userId'') of None \<Rightarrow> [] | Some s \<Rightarrow> s),
     mh_authzVersion = json_int (jget v ''authzVersion''), mh_enrollmentVersion = json_int (jget v ''enrollmentVersion'')\<rparr>"

definition session_view :: "auth_env \<Rightarrow> fresh \<Rightarrow> session_row \<Rightarrow> user_row \<Rightarrow> auth_session" where
  "session_view env fr s u = \<lparr>ax_token = createAccessToken (ss_id s), ax_refreshToken = fr_refreshToken fr,
     ax_user = mapUser u, ax_expiresAt = ss_expiresAt s\<rparr>"

definition issueSession ::
  "auth_env \<Rightarrow> time \<Rightarrow> bool \<Rightarrow> fresh \<Rightarrow> user_row \<Rightarrow> auth_state \<Rightarrow> login_result option res \<times> auth_state" where
  "issueSession env now up fr u st =
     (if \<not> us_isActive u \<or> \<not> safe_int (us_authzVersion u) \<or> us_authzVersion u < 1 then (Inr None, st)
      else if us_mfaEnabled u then
        (if \<not> ae_credentials env \<or> \<not> ae_challenges env then (Inr None, st)
         else (case prepareChallenge (as_db st) now (us_id u) (us_authzVersion u) of None \<Rightarrow> (Inr None, st)
           | Some ch \<Rightarrow> (case set_redis (challenge_save (ae_tok env) now up (fr_token fr) (challenge_json ch) (as_redis st)) st of
               (Inl e, st') \<Rightarrow> (Inl e, st') | (Inr t, st') \<Rightarrow> (Inr (Some (MfaRequired t)), st'))))
      else (let s = new_session (fr_sessionId fr) (us_id u) (us_authzVersion u) (hashToken env (fr_refreshToken fr))
              (resolveAccessTokenExpiry env now) (resolveRefreshTokenExpiry env now) in
        (Inr (Some (LoggedIn (session_view env fr s u))), st\<lparr>as_db := createSession s (as_db st)\<rparr>)))"

definition login ::
  "auth_env \<Rightarrow> time \<Rightarrow> bool \<Rightarrow> fresh \<Rightarrow> string \<Rightarrow> string \<Rightarrow> auth_state \<Rightarrow> login_result option res \<times> auth_state" where
  "login env now up fr username password st =
     (if \<not> ae_limiter env then (Inl (Unavailable ''Login temporarily unavailable''), st)
      else (let userRecord = findActiveUserByUsername (as_db st) username in
       case limit_account env now up (case userRecord of Some u \<Rightarrow> ''user:'' @ us_id u | None \<Rightarrow> ''name:'' @ js_trim username) st of
         (Inl e, st') \<Rightarrow> (Inl e, st')
       | (Inr _, st') \<Rightarrow> (case userRecord of None \<Rightarrow> (Inr None, st')
           | Some u \<Rightarrow> (if \<not> verifyPassword env password (us_passwordHash u) then (Inr None, st')
               else issueSession env now up fr u st'))))"

definition completeMfa ::
  "auth_env \<Rightarrow> time \<Rightarrow> bool \<Rightarrow> fresh \<Rightarrow> string \<Rightarrow> string \<Rightarrow> mfa_method \<Rightarrow> auth_state \<Rightarrow> auth_session option res \<times> auth_state" where
  "completeMfa env now up fr challengeToken code method st =
     (if \<not> ae_challenges env \<or> \<not> ae_credentials env then (Inl (Unavailable ''MFA verification unavailable''), st)
      else (case set_redis (challenge_consume (ae_tok env) now up challengeToken (as_redis st)) st of
          (Inl e, st') \<Rightarrow> (Inl e, st')
        | (Inr ch, st') \<Rightarrow> (case set_db (redeemAndCreateSession (ae_mfa env) now (fr_sessionId fr) (challenge_of_json ch) code method
              (hashToken env (fr_refreshToken fr)) (resolveAccessTokenExpiry env now) (resolveRefreshTokenExpiry env now) (as_db st')) st' of
            (Inl e, st2) \<Rightarrow> (Inl e, st2)
          | (Inr None, st2) \<Rightarrow> (Inr None, st2)
          | (Inr (Some (s, u)), st2) \<Rightarrow> (Inr (Some (session_view env fr s u)), st2))))"

section \<open>Refreshing, validating, logging out\<close>

definition refresh :: "auth_env \<Rightarrow> time \<Rightarrow> fresh \<Rightarrow> string \<Rightarrow> auth_state \<Rightarrow> auth_session option \<times> auth_state" where
  "refresh env now fr refreshToken st =
     (let h = hashToken env refreshToken; db = as_db st in
      case findValidSessionByRefreshTokenHash db now h of None \<Rightarrow> (None, st)
      | Some cur \<Rightarrow> (case user_of db (ss_userId cur) of None \<Rightarrow> (None, st)
        | Some u \<Rightarrow>
          (if us_mfaEnabled u \<and> \<not> ae_credentials env then (None, st)
           else if \<not> safe_int (ss_authzVersion cur) \<or> ss_authzVersion cur < 1 \<or> ss_authzVersion cur \<noteq> us_authzVersion u then (None, st)
           else (let q = \<lparr>ro_sessionId = ss_id cur, ro_userId = ss_userId cur, ro_authzVersion = ss_authzVersion cur,
                   ro_current = h, ro_next = hashToken env (fr_refreshToken fr),
                   ro_expiresAt = resolveAccessTokenExpiry env now, ro_refreshExpiresAt = ss_refreshExpiresAt cur\<rparr> in
             case set_db (if us_mfaEnabled u then mfa_rotateSession now (fr_sessionId fr) q db
                          else rotateSession now (fr_sessionId fr) q db) st of
               (None, st') \<Rightarrow> (None, st')
             | (Some s, st') \<Rightarrow> (Some (session_view env fr s u), st')))))"

definition validate :: "auth_env \<Rightarrow> time \<Rightarrow> string \<Rightarrow> auth_state \<Rightarrow> validated option" where
  "validate env now accessToken st =
     (case resolveSessionId accessToken of None \<Rightarrow> None
      | Some i \<Rightarrow> (case findValidSessionById (as_db st) now i of None \<Rightarrow> None
        | Some s \<Rightarrow> (case user_of (as_db st) (ss_userId s) of None \<Rightarrow> None
          | Some u \<Rightarrow>
            (if us_mfaEnabled u \<and> \<not> (ae_credentials env \<and> hasSessionAssurance (as_db st) now (ss_id s) (us_id u) (ss_authzVersion s)) then None
             else if \<not> safe_int (ss_authzVersion s) \<or> ss_authzVersion s < 1 \<or> ss_authzVersion s \<noteq> us_authzVersion u then None
             else Some \<lparr>vs_token = accessToken, vs_authzVersion = ss_authzVersion s, vs_user = mapUser u, vs_expiresAt = ss_expiresAt s\<rparr>))))"

definition logout :: "time \<Rightarrow> string \<Rightarrow> auth_state \<Rightarrow> auth_state" where
  "logout now accessToken st = (case resolveSessionId accessToken of None \<Rightarrow> st
     | Some i \<Rightarrow> st\<lparr>as_db := revokeSessionById now i (as_db st)\<rparr>)"

section \<open>Resetting the second factor of a user\<close>

record reset_identity =
  ri_actorUserId :: string
  ri_actorSessionId :: string
  ri_actorAuthzVersion :: int
  ri_targetUserId :: string
  ri_targetAuthzVersion :: int
  ri_targetMfaVersion :: int

definition identity_json :: "reset_identity \<Rightarrow> json" where
  "identity_json i = JObj [(''actorUserId'', JStr (ri_actorUserId i)), (''actorSessionId'', JStr (ri_actorSessionId i)),
     (''actorAuthzVersion'', JNum (num (ri_actorAuthzVersion i))), (''targetUserId'', JStr (ri_targetUserId i)),
     (''targetAuthzVersion'', JNum (num (ri_targetAuthzVersion i))), (''targetMfaVersion'', JNum (num (ri_targetMfaVersion i)))]"

definition json_text :: "json option \<Rightarrow> string" where
  "json_text v = (case jstring v of None \<Rightarrow> [] | Some s \<Rightarrow> s)"

definition proof_of_json :: "json \<Rightarrow> reset_proof" where
  "proof_of_json v = \<lparr>rp_actorUserId = json_text (jget v ''actorUserId''), rp_actorSessionId = json_text (jget v ''actorSessionId''),
     rp_actorAuthzVersion = json_int (jget v ''actorAuthzVersion''), rp_targetUserId = json_text (jget v ''targetUserId''),
     rp_targetAuthzVersion = json_int (jget v ''targetAuthzVersion''), rp_targetMfaVersion = json_int (jget v ''targetMfaVersion''),
     rp_action = json_text (jget v ''action''), rp_expiresAt = json_int (jget v ''expiresAt'')\<rparr>"

definition resetContext :: "auth_env \<Rightarrow> time \<Rightarrow> validated \<Rightarrow> string \<Rightarrow> auth_db \<Rightarrow> (reset_identity \<times> session_row \<times> user_row) res" where
  "resetContext env now actor targetUserId db =
     (if \<not> ae_resets env \<or> \<not> ae_limiter env \<or> \<not> ae_credentials env then Inl (Unavailable ''MFA reset unavailable'')
      else if me_superadmin (ae_mfa env) \<noteq> Some (au_id (vs_user actor)) \<or> au_id (vs_user actor) = []
         \<or> \<not> safe_int (vs_authzVersion actor) \<or> vs_authzVersion actor < 1
         \<or> targetUserId = [] \<or> length targetUserId > 256 \<or> js_trim targetUserId \<noteq> targetUserId
      then Inl (Unauthorized ''MFA reset unavailable'')
      else (case findValidSessionById db now (vs_token actor) of None \<Rightarrow> Inl (Unauthorized ''Invalid session'')
        | Some s \<Rightarrow> (case user_of db (ss_userId s) of None \<Rightarrow> Inl (Unauthorized ''Invalid session'')
          | Some u \<Rightarrow>
            (if ss_userId s \<noteq> au_id (vs_user actor) \<or> \<not> us_isActive u \<or> ss_authzVersion s \<noteq> vs_authzVersion actor
                \<or> us_authzVersion u \<noteq> vs_authzVersion actor \<or> us_role u \<notin> {''admin'', ''platform-admin''}
             then Inl (Unauthorized ''Invalid session'')
             else (case (user_of db targetUserId, cred_of db targetUserId) of
                 (Some t, Some c) \<Rightarrow>
                   (if \<not> us_mfaEnabled t \<or> \<not> ok_version (us_authzVersion t) \<or> \<not> ok_version (mc_version c)
                    then Inl (Unauthorized ''MFA reset unavailable'')
                    else Inr (\<lparr>ri_actorUserId = ss_userId s, ri_actorSessionId = ss_id s, ri_actorAuthzVersion = ss_authzVersion s,
                        ri_targetUserId = us_id t, ri_targetAuthzVersion = us_authzVersion t, ri_targetMfaVersion = mc_version c\<rparr>, s, u))
               | _ \<Rightarrow> Inl (Unauthorized ''MFA reset unavailable''))))))"

text \<open>A factor is a code with its method; \<open>None\<close> when none was sent.\<close>

definition step_up :: "auth_env \<Rightarrow> time \<Rightarrow> reset_identity \<Rightarrow> (string \<times> mfa_method) option \<Rightarrow> auth_db \<Rightarrow> unit res \<times> auth_db" where
  "step_up env now i factor db = (case factor of None \<Rightarrow> (Inl (Unauthorized ''Fresh MFA verification required''), db)
     | Some (code, method) \<Rightarrow>
       (if code = [] \<or> length code > 128 then (Inl (Unauthorized ''Fresh MFA verification required''), db)
        else (case prepareChallenge db now (ri_actorUserId i) (ri_actorAuthzVersion i) of
            None \<Rightarrow> (Inl (Unauthorized ''Fresh MFA verification failed''), db)
          | Some ch \<Rightarrow> (case redeem (ae_mfa env) now ch code method db of
              (Inl e, db') \<Rightarrow> (Inl e, db')
            | (Inr None, db') \<Rightarrow> (Inl (Unauthorized ''Fresh MFA verification failed''), db')
            | (Inr (Some _), db') \<Rightarrow> (Inr (), db')))))"

definition finishResetStepUp ::
  "auth_env \<Rightarrow> time \<Rightarrow> bool \<Rightarrow> fresh \<Rightarrow> validated \<Rightarrow> reset_identity \<times> session_row \<times> user_row \<Rightarrow> (string \<times> mfa_method) option
     \<Rightarrow> auth_state \<Rightarrow> string res \<times> auth_state" where
  "finishResetStepUp env now up fr actor original factor st = (case original of (i, s, u) \<Rightarrow>
     (case (if us_mfaEnabled u then set_db (step_up env now i factor (as_db st)) st else (Inr (), st)) of
        (Inl e, st') \<Rightarrow> (Inl e, st')
      | (Inr _, st') \<Rightarrow> (case resetContext env now actor (ri_targetUserId i) (as_db st') of
          Inl e \<Rightarrow> (Inl e, st')
        | Inr (i', s', u') \<Rightarrow>
          (if i' \<noteq> i \<or> us_mfaEnabled u' \<noteq> us_mfaEnabled u \<or> us_passwordHash u' \<noteq> us_passwordHash u
           then (Inl (Unauthorized ''Reset identity changed''), st')
           else set_redis (reset_save (ae_tok env) now up (fr_token fr) (identity_json i') (as_redis st')) st'))))"

definition prepareMfaReset ::
  "auth_env \<Rightarrow> time \<Rightarrow> bool \<Rightarrow> fresh \<Rightarrow> validated \<Rightarrow> string \<Rightarrow> string \<Rightarrow> (string \<times> mfa_method) option \<Rightarrow> auth_state \<Rightarrow> string res \<times> auth_state" where
  "prepareMfaReset env now up fr actor targetUserId password factor st =
     (case resetContext env now actor targetUserId (as_db st) of Inl e \<Rightarrow> (Inl e, st)
      | Inr (i, s, u) \<Rightarrow> (case limit_account env now up (''user:'' @ ri_actorUserId i) st of
          (Inl e, st') \<Rightarrow> (Inl e, st')
        | (Inr _, st') \<Rightarrow>
          (if password = [] \<or> length password > 1024 \<or> \<not> verifyPassword env password (us_passwordHash u)
           then (Inl (Unauthorized ''Reauthentication failed''), st')
           else finishResetStepUp env now up fr actor (i, s, u) factor st')))"

definition confirmMfaReset ::
  "auth_env \<Rightarrow> time \<Rightarrow> bool \<Rightarrow> validated \<Rightarrow> string \<Rightarrow> string \<Rightarrow> auth_state \<Rightarrow> string res \<times> auth_state" where
  "confirmMfaReset env now up actor targetUserId token st =
     (case resetContext env now actor targetUserId (as_db st) of Inl e \<Rightarrow> (Inl e, st)
      | Inr (i, s, u) \<Rightarrow> (case set_redis (reset_consume (ae_tok env) now up token (identity_json i) (as_redis st)) st of
          (Inl e, st') \<Rightarrow> (Inl e, st')
        | (Inr p, st') \<Rightarrow> (case set_db (mfa_reset (ae_mfa env) now (proof_of_json p) (as_db st')) st' of
            (None, st2) \<Rightarrow> (Inl (Unauthorized ''MFA reset failed; start again''), st2)
          | (Some userId, st2) \<Rightarrow> (Inr userId, st2))))"

section \<open>Enrolling a second factor\<close>

definition enrollmentIdentity :: "time \<Rightarrow> validated \<Rightarrow> auth_db \<Rightarrow> (session_row \<times> user_row) res" where
  "enrollmentIdentity now actor db = (case findValidSessionById db now (vs_token actor) of
       None \<Rightarrow> Inl (Unauthorized ''MFA enrollment unavailable for this session'')
     | Some s \<Rightarrow> (case user_of db (ss_userId s) of None \<Rightarrow> Inl (Unauthorized ''MFA enrollment unavailable for this session'')
       | Some u \<Rightarrow> (if ss_userId s \<noteq> au_id (vs_user actor) \<or> us_mfaEnabled u \<or> ss_authzVersion s \<noteq> vs_authzVersion actor
             \<or> us_authzVersion u \<noteq> vs_authzVersion actor
           then Inl (Unauthorized ''MFA enrollment unavailable for this session'') else Inr (s, u))))"

definition enrollment_json :: "session_row \<Rightarrow> json" where
  "enrollment_json s = JObj [(''userId'', JStr (ss_userId s)), (''sessionId'', JStr (ss_id s)),
     (''authzVersion'', JNum (num (ss_authzVersion s)))]"

definition beginMfaEnrollment ::
  "auth_env \<Rightarrow> time \<Rightarrow> bool \<Rightarrow> fresh \<Rightarrow> validated \<Rightarrow> string \<Rightarrow> auth_state \<Rightarrow> (string \<times> string) res \<times> auth_state" where
  "beginMfaEnrollment env now up fr actor password st =
     (if \<not> ae_enrollments env \<or> \<not> ae_limiter env then (Inl (Unavailable ''MFA enrollment unavailable''), st)
      else (case enrollmentIdentity now actor (as_db st) of Inl e \<Rightarrow> (Inl e, st)
      | Inr (s, u) \<Rightarrow> (case limit_account env now up (''user:'' @ ss_userId s) st of
          (Inl e, st') \<Rightarrow> (Inl e, st')
        | (Inr _, st') \<Rightarrow> (case findValidSessionById (as_db st') now (ss_id s) of
            None \<Rightarrow> (Inl (Unauthorized ''reauthentication failed''), st')
          | Some s2 \<Rightarrow> (case user_of (as_db st') (ss_userId s2) of None \<Rightarrow> (Inl (Unauthorized ''reauthentication failed''), st')
            | Some u2 \<Rightarrow>
              (if ss_userId s2 \<noteq> ss_userId s \<or> us_authzVersion u2 \<noteq> ss_authzVersion s \<or> password = [] \<or> length password > 1024
                  \<or> \<not> verifyPassword env password (us_passwordHash u2)
               then (Inl (Unauthorized ''reauthentication failed''), st')
               else set_redis (enrollment_save (ae_tok env) now up (fr_token fr) (fr_secret fr) (enrollment_json s) (as_redis st')) st'))))))"

definition confirmMfaEnrollment ::
  "auth_env \<Rightarrow> time \<Rightarrow> bool \<Rightarrow> fresh \<Rightarrow> validated \<Rightarrow> string \<Rightarrow> string \<Rightarrow> auth_state \<Rightarrow> string list res \<times> auth_state" where
  "confirmMfaEnrollment env now up fr actor token code st =
     (if \<not> ae_enrollments env \<or> \<not> ae_credentials env then (Inl (Unavailable ''MFA enrollment unavailable''), st)
      else (case enrollmentIdentity now actor (as_db st) of Inl e \<Rightarrow> (Inl e, st)
      | Inr (s, u) \<Rightarrow> (case set_redis (enrollment_consume (ae_tok env) now up token (enrollment_json s) (as_redis st)) st of
          (Inl e, st') \<Rightarrow> (Inl e, st')
        | (Inr secret, st') \<Rightarrow> (case set_db (confirmEnrollment (ae_mfa env) now (ss_userId s) (ss_id s) (ss_authzVersion s)
              secret code (fr_codes fr) (as_db st')) st' of
            (Inl e, st2) \<Rightarrow> (Inl e, st2)
          | (Inr None, st2) \<Rightarrow> (Inl (Unauthorized ''MFA enrollment failed; start again''), st2)
          | (Inr (Some codes), st2) \<Rightarrow> (Inr codes, st2)))))"

record mfa_status =
  ms_enabled :: bool
  ms_passwordReauthenticationAvailable :: bool
  ms_canManageMfa :: bool

definition mfaStatus :: "auth_env \<Rightarrow> time \<Rightarrow> validated \<Rightarrow> auth_db \<Rightarrow> mfa_status res" where
  "mfaStatus env now actor db = (case findValidSessionById db now (vs_token actor) of None \<Rightarrow> Inl (Unauthorized ''Invalid session'')
     | Some s \<Rightarrow> (case user_of db (ss_userId s) of None \<Rightarrow> Inl (Unauthorized ''Invalid session'')
       | Some u \<Rightarrow> (if ss_userId s \<noteq> au_id (vs_user actor) \<or> ss_authzVersion s \<noteq> vs_authzVersion actor
             \<or> us_authzVersion u \<noteq> vs_authzVersion actor
           then Inl (Unauthorized ''Invalid session'')
           else Inr \<lparr>ms_enabled = us_mfaEnabled u,
             ms_passwordReauthenticationAvailable = (case us_passwordHash u of None \<Rightarrow> False | Some h \<Rightarrow> h \<noteq> []),
             ms_canManageMfa = (me_superadmin (ae_mfa env) = Some (ss_userId s) \<and> us_isActive u
               \<and> us_role u \<in> {''admin'', ''platform-admin''} \<and> ae_resets env \<and> ae_credentials env \<and> ae_limiter env)\<rparr>)))"

end
