(* ===== verification/Kn_AuthSafety.thy ===== *)
theory Kn_AuthSafety
  imports Kn_Auth
begin

text \<open>
  The authentication service as a system of requests: one request runs one handler of Kn_Auth. A
  request that may create a session brings an unused session id (the key of the table) and a refresh
  token whose hash is not in use.

  Two facts are kept by every request: sessions are only appended or revoked, and a user has a
  second-factor credential exactly when the flag of the user says so.
\<close>

section \<open>Requests\<close>

datatype auth_request =
    RLogin bool fresh string string
  | RCompleteMfa bool fresh string string mfa_method
  | RRefresh fresh string
  | RLogout string
  | RPrepareReset bool fresh validated string string "(string \<times> mfa_method) option"
  | RConfirmReset bool validated string string
  | RBeginEnrollment bool fresh validated string
  | RConfirmEnrollment bool fresh validated string string

fun serve :: "auth_env \<Rightarrow> time \<Rightarrow> auth_request \<Rightarrow> auth_state \<Rightarrow> auth_state" where
  "serve env now (RLogin up fr u p) st = snd (login env now up fr u p st)"
| "serve env now (RCompleteMfa up fr t c m) st = snd (completeMfa env now up fr t c m st)"
| "serve env now (RRefresh fr t) st = snd (refresh env now fr t st)"
| "serve env now (RLogout t) st = logout now t st"
| "serve env now (RPrepareReset up fr a i p f) st = snd (prepareMfaReset env now up fr a i p f st)"
| "serve env now (RConfirmReset up a i t) st = snd (confirmMfaReset env now up a i t st)"
| "serve env now (RBeginEnrollment up fr a p) st = snd (beginMfaEnrollment env now up fr a p st)"
| "serve env now (RConfirmEnrollment up fr a t c) st = snd (confirmMfaEnrollment env now up fr a t c st)"

fun new_of :: "auth_request \<Rightarrow> fresh option" where
  "new_of (RLogin up fr u p) = Some fr"
| "new_of (RCompleteMfa up fr t c m) = Some fr"
| "new_of (RRefresh fr t) = Some fr"
| "new_of r = None"

definition unused :: "auth_env \<Rightarrow> fresh \<Rightarrow> auth_state \<Rightarrow> bool" where
  "unused env fr st \<longleftrightarrow> fr_sessionId fr \<notin> ss_id ` set (ad_sessions (as_db st))
     \<and> hashToken env (fr_refreshToken fr) \<notin> ss_refreshTokenHash ` set (ad_sessions (as_db st))"

definition auth_step :: "auth_env \<Rightarrow> auth_state \<Rightarrow> time \<times> auth_request \<Rightarrow> auth_state \<Rightarrow> bool" where
  "auth_step env st e st' \<longleftrightarrow> (case new_of (snd e) of None \<Rightarrow> True | Some fr \<Rightarrow> unused env fr st)
     \<and> st' = serve env (fst e) (snd e) st"

section \<open>Sessions are only appended or revoked\<close>

definition kept_session :: "session_row \<Rightarrow> session_row \<Rightarrow> bool" where
  "kept_session s t \<longleftrightarrow> ss_id t = ss_id s \<and> ss_refreshTokenHash t = ss_refreshTokenHash s \<and> ss_userId t = ss_userId s
     \<and> (ss_revokedAt s \<noteq> None \<longrightarrow> ss_revokedAt t \<noteq> None)"

definition kept_sessions :: "auth_db \<Rightarrow> auth_db \<Rightarrow> bool" where
  "kept_sessions db db' \<longleftrightarrow> list_all2 kept_session (ad_sessions db) (ad_sessions db')"

definition grown_sessions :: "string \<Rightarrow> string \<Rightarrow> auth_db \<Rightarrow> auth_db \<Rightarrow> bool" where
  "grown_sessions i h db db' \<longleftrightarrow> kept_sessions db db' \<or>
     (\<exists>ss s. ad_sessions db' = ss @ [s] \<and> list_all2 kept_session (ad_sessions db) ss \<and> ss_id s = i \<and> ss_refreshTokenHash s = h)"

named_theorems kept_intros

lemma kept_session_refl [simp]: "kept_session s s"
  by (simp add: kept_session_def)

lemma kept_refl [simp, kept_intros]: "kept_sessions db db"
  by (simp add: kept_sessions_def list_all2_same)

lemma kept_same: "ad_sessions db' = ad_sessions db \<Longrightarrow> kept_sessions db db'"
  by (simp add: kept_sessions_def list_all2_same)

lemma kept_revoke: "kept_sessions db (snd (revoke_where now p db))"
  by (auto simp: kept_sessions_def revoke_where_def update_many_def list_all2_conv_all_nth kept_session_def)

lemma kept_update_cred [simp]: "kept_sessions db (update_cred i f db)"
  by (rule kept_same) (simp add: update_cred_def)

lemma grown_kept [kept_intros]: "kept_sessions db db' \<Longrightarrow> grown_sessions i h db db'"
  by (simp add: grown_sessions_def)

lemma grown_refl [simp]: "grown_sessions i h db db"
  by (simp add: grown_kept)

lemma grown_create:
  "kept_sessions db db' \<Longrightarrow> ss_id s = i \<Longrightarrow> ss_refreshTokenHash s = h \<Longrightarrow> grown_sessions i h db (createSession s db')"
  by (auto simp: grown_sessions_def createSession_def kept_sessions_def)

lemma redeem_kept: "kept_sessions db (snd (redeem env now ch code m db))"
  by (auto simp: redeem_def Let_def split: option.split sum.split mfa_method.split)

lemma reset_target_kept: "kept_sessions db (reset_target now a t db)"
  by (auto simp: reset_target_def Let_def kept_sessions_def revoke_where_def update_many_def list_all2_conv_all_nth kept_session_def)

lemma mfa_reset_kept: "kept_sessions db (snd (mfa_reset env now p db))"
  by (auto simp: mfa_reset_def reset_target_kept split: option.split)

lemma confirmEnrollment_kept: "kept_sessions db (snd (confirmEnrollment env now u s v sec code codes db))"
proof -
  have "kept_sessions db (db2\<lparr>ad_changes := x\<rparr>)"
    if "db2 = snd (revoke_where now p (db\<lparr>ad_creds := y, ad_users := z\<rparr>))" for db2 x y z p
    using that
    by (auto simp: kept_sessions_def revoke_where_def update_many_def list_all2_conv_all_nth kept_session_def)
  then show ?thesis by (auto simp: confirmEnrollment_def Let_def split: option.split sum.split)
qed

lemma rotateSession_grown: "grown_sessions i (ro_next q) db (snd (rotateSession now i q db))"
  by (auto simp: rotateSession_def Let_def new_session_def case_prod_beta intro!: grown_create kept_revoke)

lemma mfa_rotateSession_grown: "grown_sessions i (ro_next q) db (snd (mfa_rotateSession now i q db))"
  by (auto simp: mfa_rotateSession_def Let_def new_session_def split: option.split intro!: grown_create kept_revoke)

lemma redeemAndCreateSession_grown:
  "grown_sessions i h db (snd (redeemAndCreateSession env now i ch code m h e r db))"
  using redeem_kept [of db env now ch code m]
  by (auto simp: redeemAndCreateSession_def Let_def new_session_def split: option.split sum.split prod.split
      intro!: grown_create intro: grown_kept)

section \<open>The handlers\<close>

lemma limit_account_db [simp]: "as_db (snd (limit_account env now up i st)) = as_db st"
  by (simp add: limit_account_def case_prod_beta)

lemma limit_account_dbD: "limit_account env now up i st = (x, st') \<Longrightarrow> as_db st' = as_db st"
  using limit_account_db [of env now up i st] by simp

lemma set_redis_db [simp]: "as_db (snd (set_redis p st)) = as_db st"
  by (simp add: set_redis_def)

lemma set_redis_dbD: "set_redis p st = (x, st') \<Longrightarrow> as_db st' = as_db st"
  using set_redis_db [of p st] by simp

lemma set_db_db [simp]: "as_db (snd (set_db p st)) = snd p"
  by (simp add: set_db_def)

lemma set_db_dbD: "set_db p st = (x, st') \<Longrightarrow> as_db st' = snd p"
  using set_db_db [of p st] by simp

lemma set_db_fst [simp]: "fst (set_db p st) = fst p"
  by (simp add: set_db_def)

lemma beginMfaEnrollment_db: "as_db (snd (beginMfaEnrollment env now up fr a p st)) = as_db st"
  by (auto simp: beginMfaEnrollment_def split: option.split sum.split prod.split dest: limit_account_dbD)

text \<open>
  What every request does to the tables, from what the repositories do: \<open>K\<close> relates the tables before
  and after an operation that creates no session, \<open>G\<close> those around one that may create the session of
  the request.
\<close>

locale table_relation =
  fixes env :: auth_env and fr :: fresh
    and K G :: "auth_db \<Rightarrow> auth_db \<Rightarrow> bool"
  assumes K_refl: "K db db"
    and K_G: "K db db' \<Longrightarrow> G db db'"
    and K_revoke: "K db (revokeSessionById now i db)"
    and K_redeem: "K db (snd (redeem me now ch code m db))"
    and K_reset: "K db (snd (mfa_reset me now p db))"
    and K_confirm: "K db (snd (confirmEnrollment me now u s v sec code codes db))"
    and G_create: "ss_id x = fr_sessionId fr \<Longrightarrow> ss_refreshTokenHash x = hashToken env (fr_refreshToken fr) \<Longrightarrow>
        G db (createSession x db)"
    and G_redeem: "G db (snd (redeemAndCreateSession me now (fr_sessionId fr) ch code m (hashToken env (fr_refreshToken fr)) e r db))"
    and G_rotate: "ro_next q = hashToken env (fr_refreshToken fr) \<Longrightarrow> G db (snd (rotateSession now (fr_sessionId fr) q db))"
    and G_mfa_rotate: "ro_next q = hashToken env (fr_refreshToken fr) \<Longrightarrow> G db (snd (mfa_rotateSession now (fr_sessionId fr) q db))"
begin

declare K_refl [simp]

lemma G_refl [simp]: "G db db"
  by (rule K_G) (rule K_refl)

lemma issueSession_G:
  "G (as_db st) (as_db (snd (issueSession env now up fr u st)))"
  by (auto simp: issueSession_def Let_def new_session_def dest!: set_redis_dbD split: option.split sum.split prod.split
      intro!: G_create G_refl)

lemma login_G:
  "G (as_db st) (as_db (snd (login env now up fr u p st)))"
proof -
  have "G (as_db st) (as_db (snd (issueSession env now up fr w st')))"
    if "as_db st' = as_db st" for st' w using issueSession_G [of st'] that by simp
  then show ?thesis
    by (auto simp: login_def Let_def split: option.split sum.split prod.split intro: G_refl dest!: limit_account_dbD)
qed

lemma completeMfa_G:
  "G (as_db st) (as_db (snd (completeMfa env now up fr t c m st)))"
proof -
  have k: "G (as_db st) (as_db st2)"
    if "set_db (redeemAndCreateSession me now (fr_sessionId fr) ch c m (hashToken env (fr_refreshToken fr)) e r (as_db st)) st1 = (y, st2)"
    for st1 me ch e r y st2
    using set_db_dbD [OF that] by (simp add: G_redeem)
  show ?thesis
    by (auto simp: completeMfa_def split: option.split sum.split prod.split dest!: set_redis_dbD
      intro: k G_refl)
qed

lemma refresh_G:
  "G (as_db st) (as_db (snd (refresh env now fr t st)))"
proof -
  have k: "G (as_db st) (as_db st')"
    if "set_db (if b then mfa_rotateSession now (fr_sessionId fr) q (as_db st) else rotateSession now (fr_sessionId fr) q (as_db st)) st = (x, st')"
      "ro_next q = hashToken env (fr_refreshToken fr)" for b q x st'
    using set_db_dbD [OF that(1)] G_rotate [OF that(2)] G_mfa_rotate [OF that(2)] by (auto split: if_splits)
  show ?thesis
    by (auto simp: refresh_def Let_def split: option.split prod.split
      intro: k G_refl)
qed

lemma logout_K: "K (as_db st) (as_db (logout now t st))"
  by (auto simp: logout_def  K_revoke split: option.split)

lemma step_up_K: "K db (snd (step_up env now i f db))"
proof -
  have k: "K db db'" if "redeem me now ch c m db = (x, db')" for me ch c m x db'
    using K_redeem [of db me now ch c m] that by simp
  show ?thesis by (auto simp: step_up_def  split: option.split sum.split prod.split intro: k)
qed

lemma finishResetStepUp_K: "K (as_db st) (as_db (snd (finishResetStepUp env now up fresh a orig f st)))"
proof -
  have k: "K (as_db st) (as_db st')"
    if "(if b then set_db (step_up env now i f (as_db st)) st else (Inr (), st)) = (x, st')" for b i x st'
    using that step_up_K [of "as_db st" now i f] by (auto split: if_splits dest: set_db_dbD)
  show ?thesis
    by (auto simp: finishResetStepUp_def split: option.split sum.split prod.split
      intro: k)
qed

lemma prepareMfaReset_K: "K (as_db st) (as_db (snd (prepareMfaReset env now up fresh a i p f st)))"
proof -
  have k: "K (as_db st) (as_db (snd (finishResetStepUp env now up fresh a orig f st')))"
    if "as_db st' = as_db st" for orig st' using finishResetStepUp_K [of st' now up fresh a orig f] that by simp
  show ?thesis
    by (auto simp: prepareMfaReset_def  split: sum.split prod.split dest!: limit_account_dbD intro: k)
qed

lemma confirmMfaReset_K: "K (as_db st) (as_db (snd (confirmMfaReset env now up a i t st)))"
proof -
  have k: "K (as_db st) (as_db st2)"
    if "set_db (mfa_reset me now q (as_db st)) st1 = (y, st2)" for st1 me q y st2
    using set_db_dbD [OF that] by (simp add: K_reset)
  show ?thesis
    by (auto simp: confirmMfaReset_def split: option.split sum.split prod.split dest!: set_redis_dbD
      intro: k)
qed

lemma confirmMfaEnrollment_K: "K (as_db st) (as_db (snd (confirmMfaEnrollment env now up fresh a t c st)))"
proof -
  have k: "K (as_db st) (as_db st2)"
    if "set_db (confirmEnrollment me now u s v sec c codes (as_db st)) st1 = (y, st2)"
    for st1 me u s v sec codes y st2
    using set_db_dbD [OF that] by (simp add: K_confirm)
  show ?thesis
    by (auto simp: confirmMfaEnrollment_def split: option.split sum.split prod.split dest!: set_redis_dbD
      intro: k)
qed

lemma serve_relates:
  "new_of r = Some fr \<Longrightarrow> G (as_db st) (as_db (serve env now r st))"
  "new_of r = None \<Longrightarrow> K (as_db st) (as_db (serve env now r st))"
  by (cases r; simp add: login_G completeMfa_G refresh_G logout_K prepareMfaReset_K
      confirmMfaReset_K beginMfaEnrollment_db confirmMfaEnrollment_K )+

end


interpretation sessions: table_relation env fr kept_sessions
  "grown_sessions (fr_sessionId fr) (hashToken env (fr_refreshToken fr))" for env fr
proof unfold_locales
  show "kept_sessions db (revokeSessionById now i db)" for now i db
    by (simp add: revokeSessionById_def kept_revoke)
  show "grown_sessions (fr_sessionId fr) (hashToken env (fr_refreshToken fr)) db (snd (rotateSession now (fr_sessionId fr) q db))"
    if "ro_next q = hashToken env (fr_refreshToken fr)" for q now db
    using rotateSession_grown [of "fr_sessionId fr" q db now] that by simp
  show "grown_sessions (fr_sessionId fr) (hashToken env (fr_refreshToken fr)) db (snd (mfa_rotateSession now (fr_sessionId fr) q db))"
    if "ro_next q = hashToken env (fr_refreshToken fr)" for q now db
    using mfa_rotateSession_grown [of "fr_sessionId fr" q db now] that by simp
qed (simp_all add: grown_kept redeem_kept mfa_reset_kept confirmEnrollment_kept redeemAndCreateSession_grown grown_create)

section \<open>Finality of revocation\<close>

text \<open>The sessions under a key (their id, or their refresh hash) are there and all revoked.\<close>

definition all_revoked :: "(session_row \<Rightarrow> string) \<Rightarrow> string \<Rightarrow> auth_state \<Rightarrow> bool" where
  "all_revoked key k st \<longleftrightarrow> k \<in> key ` set (ad_sessions (as_db st))
     \<and> (\<forall>s \<in> set (ad_sessions (as_db st)). key s = k \<longrightarrow> ss_revokedAt s \<noteq> None)"

lemma kept_list_revoked:
  assumes "list_all2 kept_session ss ts" and "\<And>s t. kept_session s t \<Longrightarrow> key t = key s"
  shows "key ` set ts = key ` set ss"
    and "(\<forall>s \<in> set ss. key s = k \<longrightarrow> ss_revokedAt s \<noteq> None) \<Longrightarrow> (\<forall>t \<in> set ts. key t = k \<longrightarrow> ss_revokedAt t \<noteq> None)"
  using assms(1)
proof (induction rule: list_all2_induct)
  case (Cons x xs y ys)
  { case 1 then show ?case using Cons assms(2) by simp }
  { case 2 then show ?case using Cons assms(2) [OF Cons(1)] by (auto simp: kept_session_def) }
qed simp_all

lemma auth_step_sessions:
  assumes "auth_step env st e st'"
  shows "\<exists>ss ext. ad_sessions (as_db st') = ss @ ext \<and> list_all2 kept_session (ad_sessions (as_db st)) ss
     \<and> (ext = [] \<or> (\<exists>s. ext = [s] \<and> ss_id s \<notin> ss_id ` set (ad_sessions (as_db st))
          \<and> ss_refreshTokenHash s \<notin> ss_refreshTokenHash ` set (ad_sessions (as_db st))))"
proof (cases "new_of (snd e)")
  case None
  then have "kept_sessions (as_db st) (as_db st')"
    using assms sessions.serve_relates(2) [of "snd e" st env "fst e"] by (simp add: auth_step_def)
  then show ?thesis by (auto simp: kept_sessions_def)
next
  case (Some fr)
  then have g: "grown_sessions (fr_sessionId fr) (hashToken env (fr_refreshToken fr)) (as_db st) (as_db st')"
    and u: "unused env fr st"
    using assms sessions.serve_relates(1) [of "snd e" fr env st "fst e"] by (simp_all add: auth_step_def)
  show ?thesis
  proof (cases "kept_sessions (as_db st) (as_db st')")
    case True then show ?thesis by (auto simp: kept_sessions_def)
  next
    case False
    then obtain ss s where s: "ad_sessions (as_db st') = ss @ [s]" "list_all2 kept_session (ad_sessions (as_db st)) ss"
      "ss_id s = fr_sessionId fr" "ss_refreshTokenHash s = hashToken env (fr_refreshToken fr)"
      using g by (auto simp: grown_sessions_def)
    then show ?thesis using u by (intro exI [where x = ss] exI [where x = "[s]"]) (auto simp: unused_def)
  qed
qed

lemma all_revoked_step:
  assumes "auth_step env st e st'" and "all_revoked key k st" and "key = ss_id \<or> key = ss_refreshTokenHash"
  shows "all_revoked key k st'"
proof -
  obtain ss ext where s: "ad_sessions (as_db st') = ss @ ext" "list_all2 kept_session (ad_sessions (as_db st)) ss"
    and ext: "ext = [] \<or> (\<exists>s. ext = [s] \<and> ss_id s \<notin> ss_id ` set (ad_sessions (as_db st))
        \<and> ss_refreshTokenHash s \<notin> ss_refreshTokenHash ` set (ad_sessions (as_db st)))"
    using auth_step_sessions [OF assms(1)] by blast
  have key: "kept_session a b \<Longrightarrow> key b = key a" for a b
    using assms(3) by (auto simp: kept_session_def)
  have r: "key ` set ss = key ` set (ad_sessions (as_db st))"
    "\<forall>t \<in> set ss. key t = k \<longrightarrow> ss_revokedAt t \<noteq> None"
    using kept_list_revoked(1) [OF s(2) key] kept_list_revoked(2) [OF s(2) key, where k = k] assms(2)
    by (auto simp: all_revoked_def)
  show ?thesis
    using assms(2,3) ext r by (fastforce simp: all_revoked_def s(1))
qed

lemma all_revoked_reach:
  "reach (\<lambda>s. s = st) (auth_step env) s \<Longrightarrow> all_revoked key k st \<Longrightarrow> key = ss_id \<or> key = ss_refreshTokenHash \<Longrightarrow> all_revoked key k s"
  by (induction rule: reach.induct) (auto intro: all_revoked_step)

section \<open>Credentials and flags\<close>

definition mfa_consistent :: "auth_db \<Rightarrow> bool" where
  "mfa_consistent db \<longleftrightarrow> distinct (map us_id (ad_users db)) \<and> distinct (map mc_userId (ad_creds db))
     \<and> mc_userId ` set (ad_creds db) = us_id ` {u \<in> set (ad_users db). us_mfaEnabled u}"

definition same_flags :: "auth_db \<Rightarrow> auth_db \<Rightarrow> bool" where
  "same_flags db db' \<longleftrightarrow> map us_id (ad_users db') = map us_id (ad_users db) \<and> map us_mfaEnabled (ad_users db') = map us_mfaEnabled (ad_users db)
     \<and> map mc_userId (ad_creds db') = map mc_userId (ad_creds db)"

lemma mfa_consistent_same:
  assumes "same_flags db db'" and "mfa_consistent db"
  shows "mfa_consistent db'"
proof -
  have flags: "map (\<lambda>u. (us_id u, us_mfaEnabled u)) (ad_users db') = map (\<lambda>u. (us_id u, us_mfaEnabled u)) (ad_users db)"
    using assms(1) by (intro pair_list_eqI) (simp_all add: same_flags_def comp_def)
  have pick: "us_id ` {u \<in> set us. us_mfaEnabled u} = fst ` {p \<in> set (map (\<lambda>u. (us_id u, us_mfaEnabled u)) us). snd p}" for us
    by force
  have "mc_userId ` set (ad_creds db') = mc_userId ` set (ad_creds db)"
    using assms(1) unfolding same_flags_def by (metis list.set_map)
  then show ?thesis using assms by (simp add: mfa_consistent_def same_flags_def pick flags del: set_map list.set_map)
qed

lemma same_flags_refl [simp]: "same_flags db db"
  by (simp add: same_flags_def)

lemma same_flags_revoke [simp]: "same_flags db (snd (revoke_where now p db))"
  by (simp add: same_flags_def revoke_where_def update_many_def)

lemma same_flags_create [simp]: "same_flags db (createSession s db') \<longleftrightarrow> same_flags db db'"
  by (simp add: same_flags_def createSession_def)

lemma same_flags_cred [simp]: "(\<And>c. mc_userId (f c) = mc_userId c) \<Longrightarrow> same_flags db (update_cred i f db)"
  by (simp add: same_flags_def update_cred_def comp_def)

lemma redeem_flags: "same_flags db (snd (redeem env now ch code m db))"
  by (auto simp: redeem_def Let_def split: option.split sum.split mfa_method.split)

lemma rotateSession_flags: "same_flags db (snd (rotateSession now i q db))"
  by (auto simp: rotateSession_def Let_def case_prod_beta)

lemma mfa_rotateSession_flags: "same_flags db (snd (mfa_rotateSession now i q db))"
  by (auto simp: mfa_rotateSession_def Let_def split: option.split)

lemma redeemAndCreateSession_flags: "same_flags db (snd (redeemAndCreateSession env now i ch code m h e r db))"
  using redeem_flags [of db env now ch code m]
  by (auto simp: redeemAndCreateSession_def Let_def split: option.split sum.split prod.split)

lemma find_Some: "find P xs = Some x \<Longrightarrow> x \<in> set xs \<and> P x"
  by (induction xs) (auto split: if_splits)

lemma set_mfa_enabled:
  "us_id ` {u \<in> set (set_mfa b i us). us_mfaEnabled u}
     = (us_id ` {u \<in> set us. us_mfaEnabled u} - {i}) \<union> (if b \<and> i \<in> us_id ` set us then {i} else {})"
proof (rule set_eqI)
  fix x
  have mem: "x \<in> us_id ` {u \<in> A. P u} \<longleftrightarrow> (\<exists>u \<in> A. us_id u = x \<and> P u)" for A P by blast
  have "(\<exists>u \<in> set (set_mfa b i us). us_id u = x \<and> us_mfaEnabled u)
      \<longleftrightarrow> (\<exists>u \<in> set us. us_id u = x \<and> (if us_id u = i then b else us_mfaEnabled u))"
    by (induction us) (simp_all add: set_mfa_def)
  also have "\<dots> \<longleftrightarrow> (if x = i then b \<and> i \<in> us_id ` set us else (\<exists>u \<in> set us. us_id u = x \<and> us_mfaEnabled u))"
    by (cases "x = i") (auto cong: conj_cong)
  finally show "x \<in> us_id ` {u \<in> set (set_mfa b i us). us_mfaEnabled u}
      \<longleftrightarrow> x \<in> (us_id ` {u \<in> set us. us_mfaEnabled u} - {i}) \<union> (if b \<and> i \<in> us_id ` set us then {i} else {})"
    unfolding mem Un_iff Diff_iff by simp
qed

lemma set_mfa_ids [simp]: "map us_id (set_mfa b i us) = map us_id us"
  by (induction us) (simp_all add: set_mfa_def)

lemma revoke_where_tables [simp]:
  "ad_users (snd (revoke_where now p db)) = ad_users db" "ad_creds (snd (revoke_where now p db)) = ad_creds db"
  "ad_changes (snd (revoke_where now p db)) = ad_changes db"
  by (simp_all add: revoke_where_def update_many_def)

lemma image_others: "f ` {x \<in> A. f x \<noteq> i} = f ` A - {i}"
  by auto

lemma reset_target_consistent: "mfa_consistent db \<Longrightarrow> mfa_consistent (reset_target now a t db)"
  by (simp add: mfa_consistent_def reset_target_def Let_def set_mfa_enabled distinct_map_filter image_others)

lemma mfa_reset_consistent: "mfa_consistent db \<Longrightarrow> mfa_consistent (snd (mfa_reset env now p db))"
  by (auto simp: mfa_reset_def reset_target_consistent split: option.split)

lemma confirmEnrollment_consistent:
  "mfa_consistent db \<Longrightarrow> mfa_consistent (snd (confirmEnrollment env now u s v sec code codes db))"
proof -
  assume c: "mfa_consistent db"
  have k: "mfa_consistent (db2\<lparr>ad_changes := x\<rparr>)"
    if "db2 = snd (revoke_where now p (db\<lparr>ad_creds := ad_creds db @ [y], ad_users := set_mfa True u (ad_users db)\<rparr>))"
      and "mc_userId y = u" "cred_of db u = None" "user_of db u = Some w" for db2 x y p w
  proof -
    have "u \<notin> mc_userId ` set (ad_creds db)" using that(3) by (auto simp: cred_of_def find_None_iff)
    moreover have "u \<in> us_id ` set (ad_users db)" using that(4) by (auto simp: user_of_def dest: find_Some)
    ultimately show ?thesis using c that(1,2) by (auto simp: mfa_consistent_def set_mfa_enabled)
  qed
  then show ?thesis using c by (auto simp: confirmEnrollment_def Let_def split: option.split sum.split)
qed

interpretation consistent: table_relation env fr
  "\<lambda>db db'. mfa_consistent db \<longrightarrow> mfa_consistent db'" "\<lambda>db db'. mfa_consistent db \<longrightarrow> mfa_consistent db'" for env fr
proof unfold_locales
  show "mfa_consistent db \<longrightarrow> mfa_consistent (revokeSessionById now i db)" for now i db
    using mfa_consistent_same [of db] by (simp add: revokeSessionById_def)
  show "mfa_consistent db \<longrightarrow> mfa_consistent (createSession x db)" for x db
    using mfa_consistent_same [of db] by simp
qed (simp_all add: mfa_consistent_same [OF redeem_flags] mfa_consistent_same [OF rotateSession_flags]
     mfa_consistent_same [OF mfa_rotateSession_flags] mfa_consistent_same [OF redeemAndCreateSession_flags]
     mfa_reset_consistent confirmEnrollment_consistent)

definition auth_init :: "auth_state \<Rightarrow> bool" where
  "auth_init st \<longleftrightarrow> distinct (map us_id (ad_users (as_db st))) \<and> ad_creds (as_db st) = []
     \<and> list_all (\<lambda>u. \<not> us_mfaEnabled u) (ad_users (as_db st))"

interpretation service: invariant_system auth_init "auth_step env" "\<lambda>st. mfa_consistent (as_db st)" for env
proof unfold_locales
  show "mfa_consistent (as_db st)" if "auth_init st" for st
    using that by (auto simp: auth_init_def mfa_consistent_def list_all_iff)
  show "mfa_consistent (as_db st')" if c: "mfa_consistent (as_db st)" and s: "auth_step env st e st'" for st e st'
  proof (cases "new_of (snd e)")
    case None
    then show ?thesis using consistent.serve_relates(2) [of "snd e" st env "fst e"] c s by (simp add: auth_step_def)
  next
    case (Some fr)
    then show ?thesis using consistent.serve_relates(1) [of "snd e" fr st env "fst e"] c s by (simp add: auth_step_def)
  qed
qed

end
