(* ===== verification/Kn_AuthExamples.thy ===== *)
theory Kn_AuthExamples
  imports Kn_AuthSafety
begin

text \<open>A small installation on which the witnesses of the authentication properties run the handlers.\<close>

definition ex_tok :: tok_env where
  "ex_tok = \<lparr>te_sha = (\<lambda>s. s), te_encrypt = (\<lambda>k s. k @ s), te_decrypt = (\<lambda>k c. Some (drop (length k) c)), te_encryptionKey = ''key''\<rparr>"

definition ex_token :: string where "ex_token = replicate 43 CHR ''t''"



definition ex_hmac :: "byte list \<Rightarrow> byte list \<Rightarrow> byte list" where
  "ex_hmac k m = replicate 20 0"

definition ex_digits :: string where "ex_digits = replicate 6 CHR ''0''"

definition ex_mfa :: mfa_env where
  "ex_mfa = \<lparr>me_superadmin = Some ''u1'', me_key = ''k'', me_encrypt = (\<lambda>k s. k @ s), me_decrypt = (\<lambda>k c. Some (drop (length k) c)),
     me_hash = (\<lambda>s. s), me_hmac = ex_hmac\<rparr>"

definition ex_auth :: auth_env where
  "ex_auth = \<lparr>ae_tok = ex_tok, ae_mfa = ex_mfa, ae_scrypt = (\<lambda>p s. Some p), ae_jwtExpiresIn = None, ae_refreshExpiresIn = None,
     ae_limiter = True, ae_challenges = True, ae_credentials = True, ae_enrollments = True, ae_resets = True\<rparr>"

definition ex_user :: "string \<Rightarrow> string \<Rightarrow> bool \<Rightarrow> user_row" where
  "ex_user i role m = \<lparr>us_id = i, us_email = i @ ''@kn'', us_name = None, us_passwordHash = Some ''salt:ab'', us_role = role,
     us_isActive = True, us_mfaEnabled = m, us_authzVersion = 1\<rparr>"

definition ex_db :: "bool \<Rightarrow> auth_db" where
  "ex_db m = \<lparr>ad_users = [ex_user ''u1'' ''admin'' False, ex_user ''u2'' ''viewer'' m],
     ad_creds = (if m then [\<lparr>mc_userId = ''u2'', mc_encryptedSecret = ''kAAAAAAAA'', mc_version = 1, mc_confirmedAt = 1,
        mc_lastTotpCounter = Some 2, mc_recoveryCodeHashes = [''one'', ''two'']\<rparr>] else []),
     ad_sessions = [new_session ''s1'' ''u1'' 1 ''r1'' 900000 9000000, new_session ''s2'' ''u2'' 1 ''r2'' 900000 9000000],
     ad_changes = []\<rparr>"

definition ex_state :: "bool \<Rightarrow> auth_state" where
  "ex_state m = \<lparr>as_db = ex_db m, as_redis = (\<lambda>_. None)\<rparr>"

definition ex_fresh :: "string \<Rightarrow> fresh" where
  "ex_fresh t = \<lparr>fr_refreshToken = ''r'' @ t, fr_sessionId = ''s'' @ t, fr_token = ex_token, fr_secret = replicate 32 CHR ''A'',
     fr_codes = []\<rparr>"

definition ex_login :: auth_request where
  "ex_login = RLogin True (ex_fresh ''9'') ''u1@kn'' ''ab''"

definition ex_challenge :: mfa_challenge where
  "ex_challenge = \<lparr>mh_userId = ''u2'', mh_authzVersion = 1, mh_enrollmentVersion = 1\<rparr>"

definition ex_actor :: validated where
  "ex_actor = \<lparr>vs_token = ''s1'', vs_authzVersion = 1, vs_user = mapUser (ex_user ''u1'' ''admin'' False), vs_expiresAt = 900000\<rparr>"

definition ex_reset_identity :: reset_identity where
  "ex_reset_identity = \<lparr>ri_actorUserId = ''u1'', ri_actorSessionId = ''s1'', ri_actorAuthzVersion = 1,
     ri_targetUserId = ''u2'', ri_targetAuthzVersion = 1, ri_targetMfaVersion = 1\<rparr>"

lemma ex_secret_key: "\<exists>key. base32Decode ''AAAAAAAA'' = Inr key"
proof -
  have a: "index_of CHR ''A'' alphabet = Some 0" by code_simp
  have "decode_loop ''AAAAAAAA'' 0 0 [] = Some (0, 0, [0, 0, 0, 0, 0])" by (simp add: a)
  moreover have "map js_upper_char ''AAAAAAAA'' = ''AAAAAAAA''" "takeWhile (\<lambda>c. c \<noteq> CHR ''='') ''AAAAAAAA'' = ''AAAAAAAA''"
    "dropWhile (\<lambda>c. c \<noteq> CHR ''='') ''AAAAAAAA'' = []" "list_all (\<lambda>c. js_upper_char c \<in> set alphabet) ''AAAAAAAA''"
    by code_simp+
  ultimately show ?thesis by (simp add: base32Decode_def)
qed

lemma ex_code: "code_at ex_hmac key n = ex_digits"
proof -
  have "read_u32 (replicate 20 0) 0 = 0" by (simp add: read_u32_def eval_nat_numeral)
  moreover have "decimals DIGITS 0 = ex_digits" by code_simp
  ultimately show ?thesis by (simp add: code_at_def ex_hmac_def last_replicate)
qed

lemma ex_match: "matchTotpCounter ex_hmac ''AAAAAAAA'' ex_digits 100000 1 = Inr (Some 4)"
proof -
  have "six_digits ex_digits" by code_simp
  then show ?thesis using ex_secret_key
    by (auto simp: matchTotpCounter_def totpCode_def ex_code Let_def safe_int_def max_safe_def PERIOD_def counter_of_def numeral_2_eq_2 numeral_3_eq_3)
qed

lemma ex_redeemable: "redeemable (ex_db True) ex_challenge = Some \<lparr>mc_userId = ''u2'', mc_encryptedSecret = ''kAAAAAAAA'', mc_version = 1,
    mc_confirmedAt = 1, mc_lastTotpCounter = Some 2, mc_recoveryCodeHashes = [''one'', ''two'']\<rparr>"
  by (simp add: redeemable_def user_of_def cred_of_def ex_db_def ex_user_def ex_challenge_def)

lemma ex_totp: "fst (redeem ex_mfa 100000 ex_challenge ex_digits Totp (ex_db True)) = Inr (Some (1, 100000))"
proof -
  have "validInput ex_challenge ex_digits" by code_simp
  then show ?thesis by (simp add: redeem_def ex_redeemable) (simp add: ex_mfa_def ex_match [simplified])
qed

end
