(* ===== verification/Kn_TokenProps.thy ===== *)
theory Kn_TokenProps
  imports Kn_AuthExamples
begin

text \<open>The properties of the Redis stores, with their witnesses.\<close>

section \<open>Tokens are redeemed at most once\<close>

text \<open>
  However often an MFA challenge token is consumed, with Redis reachable or not, at most one
  call returns a challenge.
\<close>

theorem challenge_single_use:
  "length (redemptions (\<lambda>now up t (i :: unit). challenge_consume env now up t) token attempts r) \<le> 1"
  by (rule challenges.at_most_once)

text \<open>
  However often, at whatever times and by whatever identities an MFA reset token is consumed,
  at most one call succeeds.
\<close>

theorem mfa_reset_single_use:
  "length (redemptions (\<lambda>now up t. reset_consume env now up t) token attempts r) \<le> 1"
  by (rule resets.at_most_once)

text \<open>
  However often an OIDC state with its browser binding is presented, at most one callback
  obtains the transaction.
\<close>

theorem oidc_single_use:
  "length (redemptions (\<lambda>now up (st, b) (i :: unit). oidc_consume env now up st b) (st, binding) attempts r) \<le> 1"
  by (rule logins.at_most_once)

section \<open>A reset proof is bound to its identity and its time\<close>

lemma reset_field_given: "reset_identity_ok i \<Longrightarrow> f \<in> set (reset_ids @ reset_versions) \<Longrightarrow> jget i f \<noteq> None"
  unfolding reset_identity_ok_def list_all_iff set_append using bounded_id_given positive_safe_given by blast

lemma reset_payload_lookup: "f \<in> set (reset_ids @ reset_versions) \<Longrightarrow> jget (reset_payload now i) f = Some (the (jget i f))"
  unfolding reset_ids_def reset_versions_def
  by (simp only: append.simps list.set insert_iff empty_iff) (elim disjE; simp add: reset_payload_def jget_def)

lemma reset_payload_fields:
  "reset_identity_ok i \<Longrightarrow> f \<in> set (reset_ids @ reset_versions) \<Longrightarrow> jget (reset_payload now i) f = jget i f"
  using reset_field_given [of i f] reset_payload_lookup [of f now i] by auto

lemma reset_payload_rest:
  "jget (reset_payload now i) ''action'' = Some (JStr ''mfa-reset'')"
  "jget (reset_payload now i) ''expiresAt'' = Some (JNum (num (now + 300000)))"
  by (simp_all add: reset_payload_def jget_def)

lemma reset_payload_ok: "reset_identity_ok i \<Longrightarrow> reset_identity_ok (reset_payload now i)"
  using reset_payload_fields [of i _ now]
  by (simp add: reset_identity_ok_def list_all_iff)

lemma reset_payload_differs:
  assumes "reset_identity_ok i"
  shows "list_ex (\<lambda>f. jget (reset_payload now i) f \<noteq> jget j f) (reset_ids @ reset_versions)
     \<longleftrightarrow> \<not> list_all (\<lambda>f. jget i f = jget j f) (reset_ids @ reset_versions)"
  using reset_payload_fields [OF assms, of _ now] unfolding list_ex_iff list_all_iff by metis

text \<open>
  After a reset proof is saved, consuming its token returns the proof exactly when less than
  five minutes have passed and all six identity fields (actor user, session and version, target
  user, version and MFA version) are those it was issued for; anything else is unauthorized.
\<close>

theorem mfa_reset_proof_exact:
  assumes "reset_save env t0 True token i r = (Inr token', r1)" and "t0 \<le> t1" and "safe_int (t0 + 300000)"
  shows "fst (reset_consume env t1 True token j r1) =
     (if t1 < t0 + 300000 \<and> reset_identity_ok j \<and> list_all (\<lambda>f. jget i f = jget j f) (reset_ids @ reset_versions)
      then Inr (reset_payload t0 i) else Inl (Unauthorized ''Invalid MFA reset''))"
proof -
  have ok: "reset_identity_ok i" "token_ok token"
    and r1: "r1 = r(reset_key env token := Some (Doc (reset_payload t0 i), Some (t0 + 300000)))"
    using assms(1) by (auto simp: reset_save_def r_set_nx_def split: if_splits option.splits)
  have get: "fst (r_getdel t1 (reset_key env token) r1)
      = (if t1 < t0 + 300000 then Some (Doc (reset_payload t0 i)) else None)"
    by (simp add: r1 r_getdel_def r_live_def)
  have "reset_expiry_ok t1 (jget (reset_payload t0 i) ''expiresAt'') \<longleftrightarrow> t1 < t0 + 300000"
    using assms(2,3) by (simp add: reset_payload_rest reset_expiry_ok_def)
  then have "reset_read t1 j (Some (Doc (reset_payload t0 i))) =
     (if t1 < t0 + 300000 \<and> list_all (\<lambda>f. jget i f = jget j f) (reset_ids @ reset_versions)
      then Inr (reset_payload t0 i) else Inl (Unauthorized ''Invalid MFA reset''))"
    by (simp add: reset_read_def reset_payload_ok [OF ok(1)] reset_payload_rest reset_payload_differs [OF ok(1)]
        del: list_ex_append list_all_append)
  moreover have "reset_read t1 j None = Inl (Unauthorized ''Invalid MFA reset'')" by (simp add: reset_read_def)
  ultimately show ?thesis
    using get ok(2) by (simp add: reset_consume_def case_prod_beta del: list_all_append)
qed

definition ex_identity :: json where
  "ex_identity = JObj [(''actorUserId'', JStr ''u1''), (''actorSessionId'', JStr ''s1''), (''targetUserId'', JStr ''u2''),
     (''actorAuthzVersion'', JNum (num 1)), (''targetAuthzVersion'', JNum (num 2)), (''targetMfaVersion'', JNum (num 3))]"

lemma ex_identity_ok: "reset_identity_ok ex_identity"
proof -
  have t: "js_trim ''u1'' = ''u1''" "js_trim ''s1'' = ''s1''" "js_trim ''u2'' = ''u2''" by code_simp+
  show ?thesis
    by (simp add: reset_identity_ok_def reset_ids_def reset_versions_def ex_identity_def jget_def bounded_id_def
        jstring_def positive_safe_def safe_int_def max_safe_def t)
qed

lemma ex_token_ok: "token_ok ex_token"
  by code_simp

lemma mfa_reset_proof_exact_witness:
  "fst (reset_consume ex_tok 400 True ex_token ex_identity
      (snd (reset_save ex_tok 100 True ex_token ex_identity (\<lambda>_. None)))) = Inr (reset_payload 100 ex_identity)"
proof -
  have s: "reset_save ex_tok 100 True ex_token ex_identity (\<lambda>_. None)
      = (Inr ex_token, snd (reset_save ex_tok 100 True ex_token ex_identity (\<lambda>_. None)))"
    by (simp add: reset_save_def ex_identity_ok ex_token_ok r_set_nx_def r_live_def)
  show ?thesis
    using mfa_reset_proof_exact [OF s, of 400 ex_identity] ex_identity_ok
    by (simp add: safe_int_def max_safe_def list_all_iff)
qed

section \<open>Enrollment returns the secret to the session that asked for it\<close>

text \<open>
  A saved MFA enrollment gives back exactly its secret to the same user, session and
  authorization version within five minutes, and is unauthorized otherwise, given that decryption
  undoes encryption under the configured key.
\<close>

theorem enrollment_roundtrip:
  assumes "enrollment_save env t0 True token secret i r = (Inr x, r1)" and "t0 \<le> t1"
    and "te_decrypt env (te_encryptionKey env) (te_encrypt env (te_encryptionKey env) secret) = Some secret"
  shows "fst (enrollment_consume env t1 True token j r1) =
     (if t1 < t0 + 300000 \<and> enrollment_identity_ok j \<and> jget i ''userId'' = jget j ''userId''
         \<and> jget i ''sessionId'' = jget j ''sessionId'' \<and> jget i ''authzVersion'' = jget j ''authzVersion''
      then Inr secret else Inl (Unauthorized ''Invalid MFA enrollment''))"
proof -
  have ok: "enrollment_identity_ok i" "token_ok token"
    and r1: "r1 = r(enrollment_key env token := Some (Doc (enrollment_payload env i secret), Some (t0 + 300000)))"
    using assms(1) by (auto simp: enrollment_save_def r_set_nx_def split: if_splits option.splits)
  have get: "fst (r_getdel t1 (enrollment_key env token) r1)
      = (if t1 < t0 + 300000 then Some (Doc (enrollment_payload env i secret)) else None)"
    by (simp add: r1 r_getdel_def r_live_def)
  have given: "jget i ''userId'' \<noteq> None" "jget i ''sessionId'' \<noteq> None" "jget i ''authzVersion'' \<noteq> None"
    using ok(1) bounded_id_given positive_safe_given unfolding enrollment_identity_ok_def by blast+
  then have f: "jget (enrollment_payload env i secret) ''userId'' = jget i ''userId''"
    "jget (enrollment_payload env i secret) ''sessionId'' = jget i ''sessionId''"
    "jget (enrollment_payload env i secret) ''authzVersion'' = jget i ''authzVersion''"
    "jget (enrollment_payload env i secret) ''encryptedSecret'' = Some (JStr (te_encrypt env (te_encryptionKey env) secret))"
    by (auto simp: enrollment_payload_def jget_def [of "JObj _"])
  have "enrollment_read env j (Some (Doc (enrollment_payload env i secret))) =
     (if jget i ''userId'' = jget j ''userId'' \<and> jget i ''sessionId'' = jget j ''sessionId'' \<and> jget i ''authzVersion'' = jget j ''authzVersion''
      then Inr secret else Inl (Unauthorized ''Invalid MFA enrollment''))"
    by (simp add: enrollment_read_def f assms(3) jstring_def)
  moreover have "enrollment_read env j None = Inl (Unauthorized ''Invalid MFA enrollment'')" by (simp add: enrollment_read_def)
  ultimately show ?thesis using get ok(2) by (simp add: enrollment_consume_def case_prod_beta)
qed

definition ex_session :: json where
  "ex_session = JObj [(''userId'', JStr ''u1''), (''sessionId'', JStr ''s1''), (''authzVersion'', JNum (num 1))]"

lemma ex_session_ok: "enrollment_identity_ok ex_session"
proof -
  have t: "js_trim ''u1'' = ''u1''" "js_trim ''s1'' = ''s1''" by code_simp+
  show ?thesis
    by (simp add: enrollment_identity_ok_def ex_session_def jget_def bounded_id_def
        jstring_def positive_safe_def safe_int_def max_safe_def t)
qed

lemma enrollment_roundtrip_witness:
  "fst (enrollment_consume ex_tok 400 True ex_token ex_session
      (snd (enrollment_save ex_tok 100 True ex_token ''ABCD'' ex_session (\<lambda>_. None)))) = Inr ''ABCD''"
proof -
  have k: "nonblank (te_encryptionKey ex_tok)" by code_simp
  have s: "enrollment_save ex_tok 100 True ex_token ''ABCD'' ex_session (\<lambda>_. None)
      = (Inr (ex_token, ''ABCD''), snd (enrollment_save ex_tok 100 True ex_token ''ABCD'' ex_session (\<lambda>_. None)))"
    by (simp add: enrollment_save_def ex_session_ok ex_token_ok k r_set_nx_def r_live_def)
  show ?thesis
    using enrollment_roundtrip [OF s, of 400 ex_session] ex_session_ok by (simp add: ex_tok_def)
qed

section \<open>The login limiter\<close>

text \<open>The results of login attempts at the given instants on one identifier.\<close>

fun limiter_run :: "tok_env \<Rightarrow> string \<Rightarrow> string \<Rightarrow> nat \<Rightarrow> int \<Rightarrow> time list \<Rightarrow> redis \<Rightarrow> unit res list" where
  "limiter_run env scope i bytes limit [] r = []"
| "limiter_run env scope i bytes limit (t # ts) r = (case limiter_consume env t True scope i bytes limit r of
     (x, r') \<Rightarrow> x # limiter_run env scope i bytes limit ts r')"

lemma window_ttl: "(t0 :: int) \<le> t \<Longrightarrow> t < t0 + 300000 \<Longrightarrow>
    0 \<le> (t0 + 300000 - t + 500) div 1000 \<and> (t0 + 300000 - t + 500) div 1000 \<le> 300"
  by auto

lemma limiter_counting:
  assumes "nonblank i" and "bytes \<le> 1024" and "0 < limit"
    and "r (limiter_key env scope i) = Some (Counter (int n), Some (t0 + 300000))" and "0 < n"
    and "\<forall>t \<in> set ts. t0 \<le> t \<and> t < t0 + 300000" and "int n + int (length ts) \<le> max_safe"
  shows "\<forall>m < length ts. (limiter_run env scope i bytes limit ts r ! m = Inr ()) \<longleftrightarrow> int (n + m) < limit"
  using assms
proof (induction ts arbitrary: r n)
  case (Cons t ts)
  let ?k = "limiter_key env scope i"
  let ?r = "r(?k := Some (Counter (int (n + 1)), Some (t0 + 300000)))"
  have t: "t0 \<le> t" "t < t0 + 300000" using Cons.prems(6) by auto
  have c: "CONSUME t ?k r = (Some (int n + 1, (t0 + 300000 - t + 500) div 1000), ?r)"
    using Cons.prems(4,5) t by (simp add: CONSUME_def r_live_def ttl_seconds_def add.commute)
  have step: "limiter_consume env t True scope i bytes limit r =
      (if int n + 1 > limit then Inl (TooMany (max 1 ((t0 + 300000 - t + 500) div 1000))) else Inr (), ?r)"
    using Cons.prems(1,2,7) window_ttl [OF t] by (simp add: limiter_consume_def c safe_int_def)
  have "\<forall>m < length ts. (limiter_run env scope i bytes limit ts ?r ! m = Inr ()) \<longleftrightarrow> int (n + 1 + m) < limit"
    using Cons.prems by (intro Cons.IH) auto
  then show ?case
    unfolding limiter_run.simps step by (auto simp: less_Suc_eq_0_disj)
qed simp

text \<open>
  C33. In the five minutes after the first attempt on an identifier, the attempts that pass are
  exactly the first ones up to the limit; every later attempt in the window is refused.
\<close>

theorem login_limit_window:
  assumes "nonblank i" and "bytes \<le> 1024" and "0 < limit" and "r_live t0 r (limiter_key env scope i) = None"
    and "\<forall>t \<in> set ts. t0 \<le> t \<and> t < t0 + 300000" and "int (length ts) < max_safe"
  shows "\<forall>m < length (t0 # ts). (limiter_run env scope i bytes limit (t0 # ts) r ! m = Inr ()) \<longleftrightarrow> int m < limit"
proof -
  let ?r = "r(limiter_key env scope i := Some (Counter (int 1), Some (t0 + 300000)))"
  have step: "limiter_consume env t0 True scope i bytes limit r = (Inr (), ?r)"
    using assms(1-4) by (simp add: limiter_consume_def CONSUME_def ttl_seconds_def safe_int_def max_safe_def)
  have "\<forall>m < length ts. (limiter_run env scope i bytes limit ts ?r ! m = Inr ()) \<longleftrightarrow> int (1 + m) < limit"
    using assms by (intro limiter_counting) auto
  then show ?thesis
    unfolding limiter_run.simps step using assms(3) by (auto simp: less_Suc_eq_0_disj)
qed

lemma login_limit_window_witness:
  "limiter_run ex_tok ''account'' ''bob'' 3 2 [0, 10, 20] (\<lambda>_. None) ! 1 = Inr ()
     \<and> limiter_run ex_tok ''account'' ''bob'' 3 2 [0, 10, 20] (\<lambda>_. None) ! 2 \<noteq> Inr ()"
proof -
  have b: "nonblank ''bob''" by code_simp
  show ?thesis
    using login_limit_window [OF b, of 3 2 0 "\<lambda>_. None" ex_tok "''account''" "[10, 20]"]
    by (simp add: r_live_def max_safe_def)
qed

end
