(* ===== verification/Kn_Access.thy ===== *)
theory Kn_Access
  imports Kn_Prelude
begin

text \<open>
  Authorization of the control API: common/authorization.service.ts (access grants of users and
  groups), common/cluster-access.service.ts (cluster level access by platform role, role binding or
  grant) and common/governance.ts (role checks and the audit log).

  The tables are fields of one record; a cluster a row refers to is looked up by its identifier. A
  role or capability is the string stored for it. Errors with a code carry the code.
\<close>

section \<open>Tables\<close>

record grant =
  gr_id :: string
  gr_userId :: "string option"
  gr_groupId :: "string option"
  gr_clusterId :: string
  gr_role :: string
  gr_state :: string
  gr_validFrom :: time
  gr_expiresAt :: "time option"
  gr_revokedAt :: "time option"
  gr_scopes :: "(string \<times> string) list"
  gr_capabilities :: "string list"

text \<open>A scope of a grant is a namespace UID with the name the namespace had; authorization looks at the UIDs.\<close>

definition gr_namespaces :: "grant \<Rightarrow> string list" where
  "gr_namespaces g = map fst (gr_scopes g)"

record membership =
  gm_groupId :: string
  gm_userId :: string
  gm_state :: string
  gm_groupActive :: bool
  gm_validFrom :: time
  gm_expiresAt :: "time option"

record cluster_row =
  rc_id :: string
  rc_deletedAt :: "time option"
  rc_status :: string

record binding_row =
  rb_userId :: string
  rb_clusterId :: string
  rb_role :: string
  rb_state :: string

record access_db =
  az_grants :: "grant list"
  az_memberships :: "membership list"
  az_clusters :: "cluster_row list"
  az_bindings :: "binding_row list"
  az_bindingTable :: bool
  az_authorization :: bool

text \<open>
  \<open>az_bindingTable\<close>: the legacy binding table exists (its absence is the error the service
  tolerates). \<open>az_authorization\<close>: the optional authorization service is present.
\<close>

definition live_cluster :: "access_db \<Rightarrow> string \<Rightarrow> bool" where
  "live_cluster db c \<longleftrightarrow> list_ex (\<lambda>k. rc_id k = c \<and> rc_deletedAt k = None \<and> rc_status k \<noteq> ''deleted'') (az_clusters db)"

section \<open>Effective grants\<close>

definition roles :: "string list" where "roles = [''cluster-admin'', ''operator'', ''viewer'']"

definition capabilities :: "string list" where
  "capabilities = [''logs'', ''exec'', ''secrets'', ''kubeconfig'', ''ai-assistant:use'']"

definition after :: "time \<Rightarrow> time option \<Rightarrow> bool" where
  "after now e = (case e of None \<Rightarrow> True | Some t \<Rightarrow> now < t)"

definition valid_memberships :: "access_db \<Rightarrow> string \<Rightarrow> time \<Rightarrow> membership list" where
  "valid_memberships db userId now = filter (\<lambda>m. gm_userId m = userId \<and> gm_state m = ''active'' \<and> gm_groupActive m
     \<and> gm_validFrom m \<le> now \<and> after now (gm_expiresAt m)) (az_memberships db)"

definition clip_expiry :: "string \<Rightarrow> membership list \<Rightarrow> grant \<Rightarrow> grant" where
  "clip_expiry userId memberships g =
    (let membershipExpiry = (if gr_userId g = Some userId then None
        else Option.bind (find (\<lambda>m. Some (gm_groupId m) = gr_groupId g) memberships) gm_expiresAt) in
     case membershipExpiry of None \<Rightarrow> g
     | Some e \<Rightarrow> (case gr_expiresAt g of None \<Rightarrow> g\<lparr>gr_expiresAt := Some e\<rparr>
         | Some t \<Rightarrow> (if e < t then g\<lparr>gr_expiresAt := Some e\<rparr> else g)))"

definition stored_grants :: "access_db \<Rightarrow> string \<Rightarrow> string list \<Rightarrow> string option \<Rightarrow> grant list" where
  "stored_grants db userId groupIds clusterId = filter (\<lambda>g.
     (case clusterId of None \<Rightarrow> True | Some c \<Rightarrow> gr_clusterId g = c) \<and> gr_state g = ''active'' \<and> gr_revokedAt g = None
     \<and> live_cluster db (gr_clusterId g)
     \<and> (gr_userId g = Some userId \<or> (case gr_groupId g of None \<Rightarrow> False | Some i \<Rightarrow> i \<in> set groupIds))) (az_grants db)"

definition grant_effective :: "string \<Rightarrow> time \<Rightarrow> string option \<Rightarrow> string list \<Rightarrow> grant \<Rightarrow> bool" where
  "grant_effective userId now clusterId groupIds g \<longleftrightarrow>
     \<not> (gr_userId g \<noteq> Some userId \<and> (case gr_groupId g of None \<Rightarrow> [] | Some i \<Rightarrow> i) \<notin> set groupIds)
     \<and> gr_state g = ''active'' \<and> (case clusterId of None \<Rightarrow> True | Some c \<Rightarrow> c = [] \<or> gr_clusterId g = c)
     \<and> gr_role g \<in> set roles
     \<and> gr_validFrom g \<le> now \<and> after now (gr_expiresAt g) \<and> gr_revokedAt g = None
     \<and> list_ex nonblank (gr_namespaces g)"

definition listEffectiveGrants :: "access_db \<Rightarrow> string \<Rightarrow> time \<Rightarrow> string option \<Rightarrow> grant list" where
  "listEffectiveGrants db userId now clusterId =
    (if \<not> nonblank userId then []
     else (let memberships = valid_memberships db userId now; groupIds = map gm_groupId memberships in
       filter (grant_effective userId now clusterId groupIds)
         (map (clip_expiry userId memberships) (stored_grants db userId groupIds clusterId))))"

section \<open>Authorizing a request\<close>

record authz_request =
  rq_userId :: string
  rq_clusterId :: string
  rq_namespaceUid :: "string option"
  rq_capability :: "string option"
  rq_mutation :: bool

record authz_decision =
  dc_allowed :: bool
  dc_reasonCode :: string
  dc_grantIds :: "string list"
  dc_expiresAt :: "time option"
  dc_role :: "string option"

definition deny :: "string \<Rightarrow> authz_decision" where
  "deny reasonCode = \<lparr>dc_allowed = False, dc_reasonCode = reasonCode, dc_grantIds = [], dc_expiresAt = None, dc_role = None\<rparr>"

definition role_rank :: "string \<Rightarrow> nat" where
  "role_rank r = (if r = ''viewer'' then 0 else if r = ''operator'' then 1 else 2)"

text \<open>An absent or empty capability is no capability.\<close>

definition wanted :: "authz_request \<Rightarrow> string option" where
  "wanted q = (case rq_capability q of Some c \<Rightarrow> (if c = [] then None else Some c) | None \<Rightarrow> None)"

definition grant_matches :: "authz_request \<Rightarrow> grant \<Rightarrow> bool" where
  "grant_matches q g \<longleftrightarrow> gr_clusterId g = rq_clusterId q
     \<and> list_ex (\<lambda>u. Some u = rq_namespaceUid q) (gr_namespaces g)
     \<and> (case wanted q of None \<Rightarrow> True | Some c \<Rightarrow> c \<in> set (gr_capabilities g))
     \<and> \<not> (rq_mutation q \<and> gr_role g = ''viewer'')"

definition earliest :: "time option \<Rightarrow> grant \<Rightarrow> time option" where
  "earliest cur g = (case gr_expiresAt g of None \<Rightarrow> cur
     | Some t \<Rightarrow> (case cur of None \<Rightarrow> Some t | Some e \<Rightarrow> if t < e then Some t else Some e))"

definition best_role :: "string \<Rightarrow> grant \<Rightarrow> string" where
  "best_role best g = (if role_rank (gr_role g) > role_rank best then gr_role g else best)"

definition authorize :: "access_db \<Rightarrow> time \<Rightarrow> authz_request \<Rightarrow> authz_decision" where
  "authorize db now q =
    (if rq_userId q = [] \<or> rq_clusterId q = [] then deny ''IDENTITY_OR_CLUSTER_REQUIRED''
     else if (case wanted q of None \<Rightarrow> False | Some c \<Rightarrow> c \<notin> set capabilities) then deny ''CAPABILITY_NOT_SUPPORTED''
     else if \<not> (case rq_namespaceUid q of None \<Rightarrow> False | Some u \<Rightarrow> nonblank u) then deny ''NAMESPACE_SCOPE_REQUIRED''
     else (let matching = filter (grant_matches q) (listEffectiveGrants db (rq_userId q) now (Some (rq_clusterId q))) in
       if matching = [] then deny ''GRANT_NOT_FOUND''
       else \<lparr>dc_allowed = True, dc_reasonCode = ''GRANT_MATCHED'', dc_grantIds = map gr_id matching,
              dc_expiresAt = foldl earliest None matching, dc_role = Some (foldl best_role ''viewer'' matching)\<rparr>))"

section \<open>Cluster access\<close>

record subject =
  sj_id :: "string option"
  sj_role :: "string option"

record access_context =
  ax_clusterId :: string
  ax_accessRole :: string
  ax_source :: string

definition PLATFORM_ADMIN_ROLES :: "string list" where "PLATFORM_ADMIN_ROLES = [''platform-admin'', ''admin'']"
definition PLATFORM_OPERATOR_ROLES :: "string list" where "PLATFORM_OPERATOR_ROLES = [''cluster-operator'', ''operator'']"
definition PLATFORM_READ_ONLY_ROLES :: "string list" where "PLATFORM_READ_ONLY_ROLES = [''read-only'', ''user'']"
definition BINDING_ROLES :: "string list" where "BINDING_ROLES = [''viewer'', ''operator'', ''cluster-admin'']"

definition normalizeRole :: "string option \<Rightarrow> string" where
  "normalizeRole r = js_lower (js_trim (case r of None \<Rightarrow> [] | Some s \<Rightarrow> s))"

definition subject_role :: "subject option \<Rightarrow> string" where
  "subject_role s = normalizeRole (Option.bind s sj_role)"

definition isPlatformAdmin :: "subject option \<Rightarrow> bool" where
  "isPlatformAdmin s \<longleftrightarrow> subject_role s \<in> set PLATFORM_ADMIN_ROLES"

definition isPlatformOperator :: "subject option \<Rightarrow> bool" where
  "isPlatformOperator s \<longleftrightarrow> subject_role s \<in> set PLATFORM_OPERATOR_ROLES"

definition isKnownPlatformRole :: "subject option \<Rightarrow> bool" where
  "isKnownPlatformRole s \<longleftrightarrow> subject_role s \<in> set PLATFORM_ADMIN_ROLES \<or> subject_role s \<in> set PLATFORM_OPERATOR_ROLES
     \<or> subject_role s \<in> set PLATFORM_READ_ONLY_ROLES"

definition inaccessibleCluster :: http_error where
  "inaccessibleCluster = NotFound ''CLUSTER_NOT_FOUND_OR_INACCESSIBLE''"

definition assertPlatformAdmin :: "subject option \<Rightarrow> unit res" where
  "assertPlatformAdmin s = guard (isPlatformAdmin s) (Forbidden ''PLATFORM_ADMIN_REQUIRED'')"

definition requireClusterId :: "string option \<Rightarrow> string res" where
  "requireClusterId c = (case c of None \<Rightarrow> Inl (BadRequest ''CLUSTER_ID_REQUIRED'')
     | Some s \<Rightarrow> (if js_trim s = [] then Inl (BadRequest ''CLUSTER_ID_REQUIRED'') else Inr (js_trim s)))"

definition requireUserId :: "subject option \<Rightarrow> string res" where
  "requireUserId s = (case Option.bind s sj_id of None \<Rightarrow> Inl (Unauthorized ''AUTH_SESSION_REQUIRED'')
     | Some u \<Rightarrow> (if js_trim u = [] then Inl (Unauthorized ''AUTH_SESSION_REQUIRED'') else Inr (js_trim u)))"

definition bindings_of :: "access_db \<Rightarrow> string \<Rightarrow> binding_row list" where
  "bindings_of db userId = (if \<not> az_bindingTable db then []
     else filter (\<lambda>b. rb_userId b = userId \<and> rb_state b = ''active'' \<and> rb_role b \<in> set BINDING_ROLES
       \<and> live_cluster db (rb_clusterId b)) (az_bindings db))"

definition grants_of :: "access_db \<Rightarrow> string \<Rightarrow> time \<Rightarrow> string option \<Rightarrow> grant list" where
  "grants_of db userId now c = (if az_authorization db then listEffectiveGrants db userId now c else [])"

definition assertCanRead :: "access_db \<Rightarrow> time \<Rightarrow> subject option \<Rightarrow> string option \<Rightarrow> access_context res" where
  "assertCanRead db now s clusterId = rbind (requireClusterId clusterId) (\<lambda>c.
     if isPlatformAdmin s then
       (if live_cluster db c then Inr \<lparr>ax_clusterId = c, ax_accessRole = ''cluster-admin'', ax_source = ''platform-admin''\<rparr>
        else Inl (NotFound ''CLUSTER_NOT_FOUND''))
     else rbind (requireUserId s) (\<lambda>userId.
       if \<not> isKnownPlatformRole s then Inl inaccessibleCluster
       else (case find (\<lambda>b. rb_clusterId b = c) (bindings_of db userId) of
           Some b \<Rightarrow> Inr \<lparr>ax_clusterId = rb_clusterId b, ax_accessRole = rb_role b, ax_source = ''role-binding''\<rparr>
         | None \<Rightarrow> (case find (\<lambda>g. gr_role g \<in> set BINDING_ROLES) (grants_of db userId now (Some c)) of
             None \<Rightarrow> Inl inaccessibleCluster
           | Some g \<Rightarrow> Inr \<lparr>ax_clusterId = c, ax_accessRole = gr_role g, ax_source = ''access-grant''\<rparr>))))"

definition assertCanAccess :: "access_db \<Rightarrow> time \<Rightarrow> subject option \<Rightarrow> string option \<Rightarrow> access_context res" where
  "assertCanAccess db now s clusterId = assertCanRead db now s clusterId"

definition assertCanMutate :: "access_db \<Rightarrow> time \<Rightarrow> subject option \<Rightarrow> string option \<Rightarrow> access_context res" where
  "assertCanMutate db now s clusterId = rbind (assertCanRead db now s clusterId) (\<lambda>access.
     if isPlatformAdmin s then Inr access
     else if \<not> isPlatformOperator s then Inl (Forbidden ''PLATFORM_WRITE_FORBIDDEN'')
     else if ax_accessRole access = ''viewer'' then Inl (Forbidden ''CLUSTER_WRITE_FORBIDDEN'')
     else Inr access)"

definition assertClusterAdmin :: "access_db \<Rightarrow> time \<Rightarrow> subject option \<Rightarrow> string option \<Rightarrow> access_context res" where
  "assertClusterAdmin db now s clusterId = rbind (assertCanMutate db now s clusterId) (\<lambda>access.
     if ax_accessRole access \<noteq> ''cluster-admin'' then Inl (Forbidden ''CLUSTER_ADMIN_REQUIRED'') else Inr access)"

text \<open>\<open>None\<close> as the list stands for every cluster.\<close>

definition listAccessibleClusterIds :: "access_db \<Rightarrow> subject option \<Rightarrow> string list option res" where
  "listAccessibleClusterIds db s = (if isPlatformAdmin s then Inr None
     else rbind (requireUserId s) (\<lambda>userId.
       if \<not> isKnownPlatformRole s then Inr (Some [])
       else Inr (Some (js_unique (map rb_clusterId (bindings_of db userId))))))"

definition listDiscoverableClusterIds :: "access_db \<Rightarrow> time \<Rightarrow> subject option \<Rightarrow> string list option res" where
  "listDiscoverableClusterIds db now s = rbind (listAccessibleClusterIds db s) (\<lambda>legacy. case legacy of
       None \<Rightarrow> Inr None
     | Some ids \<Rightarrow> (if \<not> isKnownPlatformRole s then Inr legacy
         else rbind (requireUserId s) (\<lambda>userId.
           Inr (Some (js_unique (ids @ map gr_clusterId (grants_of db userId now None)))))))"

definition assertCanDiscover :: "access_db \<Rightarrow> time \<Rightarrow> subject option \<Rightarrow> string option \<Rightarrow> unit res" where
  "assertCanDiscover db now s clusterId = rbind (requireClusterId clusterId) (\<lambda>i.
     if isPlatformAdmin s then rbind (assertCanRead db now s (Some i)) (\<lambda>_. Inr ())
     else rbind (listDiscoverableClusterIds db now s) (\<lambda>ids. case ids of
         Some l \<Rightarrow> (if i \<in> set l then Inr () else Inl inaccessibleCluster)
       | None \<Rightarrow> Inl inaccessibleCluster))"

section \<open>Governance\<close>

record audit_record =
  au_id :: string
  au_actor :: string
  au_role :: string
  au_action :: string
  au_resourceType :: string
  au_resourceId :: string
  au_result :: string
  au_reason :: "string option"
  au_requestId :: "string option"
  au_timestamp :: time

record audit_filters =
  af_action :: "string option"
  af_resourceType :: "string option"
  af_actor :: "string option"
  af_result :: "string option"
  af_requestId :: "string option"
  af_page :: "jsnum option"
  af_pageSize :: "jsnum option"

record audit_page =
  ap_items :: "audit_record list"
  ap_total :: nat
  ap_page :: nat
  ap_pageSize :: nat

definition assertWritePermission :: "string option \<Rightarrow> unit res" where
  "assertWritePermission role = guard ((case role of None \<Rightarrow> [] | Some r \<Rightarrow> r)
     \<in> {''platform-admin'', ''admin'', ''cluster-operator'', ''operator''}) (Forbidden ''write permission required'')"

definition assertAdministrationPermission :: "string option \<Rightarrow> unit res" where
  "assertAdministrationPermission role =
     guard (\<not> (role \<noteq> Some ''platform-admin'' \<and> role \<noteq> Some ''admin'')) (Forbidden ''platform administrator required'')"

text \<open>\<open>newId\<close> is the identifier \<open>createAuditId\<close> makes.\<close>

definition appendAudit :: "string \<Rightarrow> time \<Rightarrow> audit_record \<Rightarrow> audit_record list \<Rightarrow> audit_record \<times> audit_record list" where
  "appendAudit newId now rec store = (let next = rec\<lparr>au_id := newId, au_timestamp := now\<rparr> in (next, next # store))"

definition positive_or :: "nat \<Rightarrow> jsnum option \<Rightarrow> nat" where
  "positive_or d v = (case v of None \<Rightarrow> d | Some n \<Rightarrow> (if js_is_integer n \<and> 0 < int_of_num n then nat (int_of_num n) else d))"

definition filter_ok :: "string option \<Rightarrow> string option \<Rightarrow> bool" where
  "filter_ok f v \<longleftrightarrow> (case f of None \<Rightarrow> True | Some s \<Rightarrow> s = [] \<or> v = Some s)"

definition audit_matches :: "audit_filters \<Rightarrow> audit_record \<Rightarrow> bool" where
  "audit_matches f x \<longleftrightarrow> filter_ok (af_action f) (Some (au_action x)) \<and> filter_ok (af_resourceType f) (Some (au_resourceType x))
     \<and> filter_ok (af_actor f) (Some (au_actor x)) \<and> filter_ok (af_result f) (Some (au_result x))
     \<and> filter_ok (af_requestId f) (au_requestId x)"

definition listAudits :: "audit_filters \<Rightarrow> audit_record list \<Rightarrow> audit_page" where
  "listAudits f store = (let page = positive_or 1 (af_page f); pageSize = positive_or 20 (af_pageSize f);
       filtered = filter (audit_matches f) store; start = (page - 1) * pageSize in
     \<lparr>ap_items = take pageSize (drop start filtered), ap_total = length filtered, ap_page = page, ap_pageSize = pageSize\<rparr>)"

end
