(* ===== verification/Kn_AccessProps.thy ===== *)
theory Kn_AccessProps
  imports Kn_Access
begin

text \<open>The properties of authorization, cluster access and the audit log, with their witnesses.\<close>

section \<open>What an effective grant is\<close>

definition covers :: "access_db \<Rightarrow> string \<Rightarrow> time \<Rightarrow> grant \<Rightarrow> bool" where
  "covers db userId now g \<longleftrightarrow> g \<in> set (az_grants db) \<and> gr_state g = ''active'' \<and> gr_revokedAt g = None
     \<and> live_cluster db (gr_clusterId g) \<and> gr_role g \<in> set roles \<and> gr_validFrom g \<le> now \<and> after now (gr_expiresAt g)
     \<and> list_ex nonblank (gr_namespaces g)
     \<and> (gr_userId g = Some userId
        \<or> (\<exists>m \<in> set (valid_memberships db userId now). gr_groupId g = Some (gm_groupId m)))"

lemma clip_fields [simp]:
  "gr_id (clip_expiry u ms g) = gr_id g" "gr_userId (clip_expiry u ms g) = gr_userId g"
  "gr_groupId (clip_expiry u ms g) = gr_groupId g" "gr_clusterId (clip_expiry u ms g) = gr_clusterId g"
  "gr_role (clip_expiry u ms g) = gr_role g" "gr_state (clip_expiry u ms g) = gr_state g"
  "gr_validFrom (clip_expiry u ms g) = gr_validFrom g" "gr_revokedAt (clip_expiry u ms g) = gr_revokedAt g"
  "gr_scopes (clip_expiry u ms g) = gr_scopes g" "gr_namespaces (clip_expiry u ms g) = gr_namespaces g" "gr_capabilities (clip_expiry u ms g) = gr_capabilities g"
  by (auto simp: clip_expiry_def gr_namespaces_def Let_def split: option.splits)

lemma clip_after:
  "after now (gr_expiresAt (clip_expiry u ms g)) \<longleftrightarrow> after now (gr_expiresAt g)
     \<and> (gr_userId g = Some u \<or> (case find (\<lambda>m. Some (gm_groupId m) = gr_groupId g) ms of None \<Rightarrow> True | Some m \<Rightarrow> after now (gm_expiresAt m)))"
  by (auto simp: clip_expiry_def Let_def after_def split: option.splits)

lemma membership_valid: "m \<in> set (valid_memberships db u now) \<Longrightarrow> after now (gm_expiresAt m)"
  by (simp add: valid_memberships_def)

lemma clip_valid:
  "after now (gr_expiresAt (clip_expiry u (valid_memberships db u now) g)) \<longleftrightarrow> after now (gr_expiresAt g)"
  unfolding clip_after by (auto split: option.splits dest: find_Some_mem membership_valid)

lemma effective_covers:
  assumes "nonblank userId" and "c \<noteq> []"
  shows "x \<in> set (listEffectiveGrants db userId now (Some c)) \<longleftrightarrow>
    (\<exists>g. covers db userId now g \<and> gr_clusterId g = c \<and> x = clip_expiry userId (valid_memberships db userId now) g)"
proof
  assume "x \<in> set (listEffectiveGrants db userId now (Some c))"
  then obtain g where g: "g \<in> set (stored_grants db userId (map gm_groupId (valid_memberships db userId now)) (Some c))"
    and x: "x = clip_expiry userId (valid_memberships db userId now) g"
    and e: "grant_effective userId now (Some c) (map gm_groupId (valid_memberships db userId now)) x"
    using assms(1) by (auto simp: listEffectiveGrants_def Let_def)
  have "covers db userId now g \<and> gr_clusterId g = c"
    using g e unfolding x covers_def grant_effective_def clip_fields clip_valid
    by (auto simp: stored_grants_def split: option.splits)
  then show "\<exists>g. covers db userId now g \<and> gr_clusterId g = c \<and> x = clip_expiry userId (valid_memberships db userId now) g"
    using x by blast
next
  assume "\<exists>g. covers db userId now g \<and> gr_clusterId g = c \<and> x = clip_expiry userId (valid_memberships db userId now) g"
  then obtain g where g: "covers db userId now g" "gr_clusterId g = c"
    and x: "x = clip_expiry userId (valid_memberships db userId now) g" by blast
  have "g \<in> set (stored_grants db userId (map gm_groupId (valid_memberships db userId now)) (Some c))"
    using g by (auto simp: stored_grants_def covers_def)
  moreover have "grant_effective userId now (Some c) (map gm_groupId (valid_memberships db userId now)) x"
    using g assms(2) unfolding x grant_effective_def clip_fields clip_valid by (auto simp: covers_def)
  ultimately show "x \<in> set (listEffectiveGrants db userId now (Some c))"
    using assms(1) x by (auto simp: listEffectiveGrants_def Let_def)
qed

lemma clip_matches [simp]: "grant_matches q (clip_expiry u ms g) = grant_matches q g"
  by (cases "wanted q") (simp_all add: grant_matches_def)

section \<open>Decisions\<close>

lemma authorize_allowed:
  assumes "nonblank (rq_userId q)" and "rq_clusterId q \<noteq> []" and "rq_namespaceUid q = Some u" and "nonblank u"
    and "\<And>c. wanted q = Some c \<Longrightarrow> c \<in> set capabilities"
  shows "dc_allowed (authorize db now q) \<longleftrightarrow> (\<exists>g. covers db (rq_userId q) now g \<and> gr_clusterId g = rq_clusterId q
     \<and> u \<in> set (gr_namespaces g) \<and> (\<forall>c. wanted q = Some c \<longrightarrow> c \<in> set (gr_capabilities g))
     \<and> (rq_mutation q \<longrightarrow> gr_role g \<noteq> ''viewer''))"
proof -
  let ?m = "filter (grant_matches q) (listEffectiveGrants db (rq_userId q) now (Some (rq_clusterId q)))"
  have n: "rq_userId q \<noteq> []" using assms(1) by (auto simp: nonblank_def)
  have "dc_allowed (authorize db now q) \<longleftrightarrow> ?m \<noteq> []"
    using assms n by (auto simp: authorize_def deny_def Let_def split: option.splits)
  also have "\<dots> \<longleftrightarrow> (\<exists>g. covers db (rq_userId q) now g \<and> gr_clusterId g = rq_clusterId q \<and> grant_matches q g)"
  proof
    assume "?m \<noteq> []"
    then obtain x where "x \<in> set (listEffectiveGrants db (rq_userId q) now (Some (rq_clusterId q)))" "grant_matches q x"
      by (auto simp: filter_empty_conv)
    then show "\<exists>g. covers db (rq_userId q) now g \<and> gr_clusterId g = rq_clusterId q \<and> grant_matches q g"
      unfolding effective_covers [OF assms(1,2)] by auto
  next
    assume "\<exists>g. covers db (rq_userId q) now g \<and> gr_clusterId g = rq_clusterId q \<and> grant_matches q g"
    then obtain g where g: "covers db (rq_userId q) now g" "gr_clusterId g = rq_clusterId q" "grant_matches q g" by blast
    then have "clip_expiry (rq_userId q) (valid_memberships db (rq_userId q) now) g
        \<in> set (listEffectiveGrants db (rq_userId q) now (Some (rq_clusterId q)))"
      unfolding effective_covers [OF assms(1,2)] by blast
    moreover have "grant_matches q (clip_expiry (rq_userId q) (valid_memberships db (rq_userId q) now) g)" using g(3) by simp
    ultimately show "?m \<noteq> []" by (metis filter_empty_conv)
  qed
  also have "\<dots> \<longleftrightarrow> (\<exists>g. covers db (rq_userId q) now g \<and> gr_clusterId g = rq_clusterId q
     \<and> u \<in> set (gr_namespaces g) \<and> (\<forall>c. wanted q = Some c \<longrightarrow> c \<in> set (gr_capabilities g))
     \<and> (rq_mutation q \<longrightarrow> gr_role g \<noteq> ''viewer''))"
    using assms(3) by (auto simp: grant_matches_def list_ex_iff split: option.splits)
  finally show ?thesis .
qed

text \<open>
  C8. For a request that names a user, a cluster, a namespace and at most one supported
  capability, authorize allows it exactly when some stored grant covers it: active, not revoked,
  in force, on that live cluster, given to the user or to a group the user is an active member of,
  listing the namespace and the capability, and not a viewer grant for a mutation.
\<close>

theorem authorize_iff:
  assumes "nonblank (rq_userId q)" and "rq_clusterId q \<noteq> []" and "rq_namespaceUid q = Some u" and "nonblank u"
    and "\<And>c. wanted q = Some c \<Longrightarrow> c \<in> set capabilities"
  shows "dc_allowed (authorize db now q) \<longleftrightarrow> (\<exists>g. covers db (rq_userId q) now g \<and> gr_clusterId g = rq_clusterId q
     \<and> u \<in> set (gr_namespaces g) \<and> (\<forall>c. wanted q = Some c \<longrightarrow> c \<in> set (gr_capabilities g))
     \<and> (rq_mutation q \<longrightarrow> gr_role g \<noteq> ''viewer''))"
  by (rule authorize_allowed) (use assms in auto)

lemma earliest_le:
  "(\<forall>e. cur = Some e \<longrightarrow> (\<exists>e'. foldl earliest cur gs = Some e' \<and> e' \<le> e))
   \<and> (\<forall>g \<in> set gs. \<forall>e. gr_expiresAt g = Some e \<longrightarrow> (\<exists>e'. foldl earliest cur gs = Some e' \<and> e' \<le> e))"
proof (induction gs arbitrary: cur)
  case (Cons g gs)
  have h: "\<exists>e'. foldl earliest (earliest cur g) gs = Some e' \<and> e' \<le> e" if "cur = Some e \<or> gr_expiresAt g = Some e" for e
  proof -
    have "\<exists>d. earliest cur g = Some d \<and> d \<le> e"
      using that by (cases cur; cases "gr_expiresAt g") (auto simp: earliest_def)
    then obtain d where d: "earliest cur g = Some d" "d \<le> e" by blast
    then obtain e' where "foldl earliest (earliest cur g) gs = Some e'" "e' \<le> d" using Cons.IH by blast
    then show ?thesis using d(2) by auto
  qed
  then show ?case using Cons.IH [of "earliest cur g"] by auto
qed simp

lemma membership_lasts:
  "m \<in> set (valid_memberships db u now) \<Longrightarrow> now \<le> t \<Longrightarrow> after t (gm_expiresAt m) \<Longrightarrow> m \<in> set (valid_memberships db u t)"
  by (auto simp: valid_memberships_def)

lemma covers_lasts:
  assumes "covers db u now g" and "now \<le> t"
    and "after t (gr_expiresAt (clip_expiry u (valid_memberships db u now) g))"
  shows "covers db u t g"
proof (cases "gr_userId g = Some u")
  case True
  then show ?thesis using assms by (auto simp: covers_def clip_after)
next
  case False
  then obtain m where m: "m \<in> set (valid_memberships db u now)" "gr_groupId g = Some (gm_groupId m)"
    using assms(1) by (auto simp: covers_def)
  then obtain m' where f: "find (\<lambda>m. Some (gm_groupId m) = gr_groupId g) (valid_memberships db u now) = Some m'"
    by (cases "find (\<lambda>m. Some (gm_groupId m) = gr_groupId g) (valid_memberships db u now)") (auto simp: find_None_iff)
  then have "m' \<in> set (valid_memberships db u now)" "Some (gm_groupId m') = gr_groupId g" "after t (gm_expiresAt m')"
    using find_Some_mem [OF f] assms(3) False by (auto simp: clip_after)
  then have "m' \<in> set (valid_memberships db u t)" "gr_groupId g = Some (gm_groupId m')"
    using membership_lasts assms(2) by auto
  then show ?thesis using assms False by (auto simp: covers_def clip_after)
qed

text \<open>
  C22. A positive decision can be relied on until its expiry: as long as the tables do not change,
  the same request is still allowed at every later instant before the expiry the decision reports,
  memberships that end meanwhile included.
\<close>

theorem authorize_lasts:
  assumes "nonblank (rq_userId q)" and "dc_allowed (authorize db now q)" and "now \<le> t"
    and "after t (dc_expiresAt (authorize db now q))"
  shows "dc_allowed (authorize db t q)"
proof -
  let ?m = "\<lambda>n. filter (grant_matches q) (listEffectiveGrants db (rq_userId q) n (Some (rq_clusterId q)))"
  have pre: "rq_clusterId q \<noteq> []" "?m now \<noteq> []" "dc_expiresAt (authorize db now q) = foldl earliest None (?m now)"
    and allowed: "?m t \<noteq> [] \<Longrightarrow> dc_allowed (authorize db t q)"
    using assms(2) by (auto simp: authorize_def deny_def Let_def split: if_splits)
  note cov = effective_covers [OF assms(1) pre(1)]
  from pre(2) obtain x where x: "x \<in> set (?m now)" by (cases "?m now") auto
  then obtain g where g: "covers db (rq_userId q) now g" "gr_clusterId g = rq_clusterId q"
      "x = clip_expiry (rq_userId q) (valid_memberships db (rq_userId q) now) g" "grant_matches q g"
    using cov by auto
  have "after t (gr_expiresAt x)"
  proof (cases "gr_expiresAt x")
    case (Some e)
    then obtain e' where "foldl earliest None (?m now) = Some e'" "e' \<le> e" using earliest_le [of None "?m now"] x by blast
    then show ?thesis using assms(4) Some by (simp add: pre(3) after_def)
  qed (simp add: after_def)
  then have "covers db (rq_userId q) t g" using covers_lasts g(1,3) assms(3) by blast
  then have "clip_expiry (rq_userId q) (valid_memberships db (rq_userId q) t) g \<in> set (?m t)"
    using cov [of _ db t] g(2,4) by auto
  then have "?m t \<noteq> []" by (metis empty_iff list.set(1))
  then show ?thesis by (rule allowed)
qed

section \<open>Cluster access\<close>

text \<open>
  A mutation on a cluster is let through only after the read check, and only for a platform
  administrator on a live cluster or for a platform operator whose role on that cluster is
  operator or cluster administrator.
\<close>

theorem mutate_requires_write_role:
  assumes "assertCanMutate db now s c = Inr ctx"
  shows "assertCanRead db now s c = Inr ctx
     \<and> (if isPlatformAdmin s then ax_source ctx = ''platform-admin'' \<and> live_cluster db (ax_clusterId ctx)
        else isPlatformOperator s \<and> ax_accessRole ctx \<in> {''operator'', ''cluster-admin''})"
proof -
  have r: "assertCanRead db now s c = Inr ctx"
    using assms by (auto simp: assertCanMutate_def rbind_Inr_iff split: if_splits)
  have "ax_accessRole ctx \<in> set BINDING_ROLES" if "\<not> isPlatformAdmin s"
    using r that by (auto simp: assertCanRead_def rbind_Inr_iff bindings_of_def split: if_splits option.splits dest!: find_Some_mem)
  moreover have "ax_source ctx = ''platform-admin'' \<and> live_cluster db (ax_clusterId ctx)" if "isPlatformAdmin s"
    using r that by (auto simp: assertCanRead_def rbind_Inr_iff split: if_splits)
  ultimately show ?thesis using r assms
    by (auto simp: assertCanMutate_def BINDING_ROLES_def rbind_Inr_iff split: if_splits)
qed

lemma trimmed: "requireClusterId c = Inr i \<Longrightarrow> i \<noteq> []"
  by (auto simp: requireClusterId_def split: option.splits if_splits)

lemma user_nonblank: "requireUserId s = Inr u \<Longrightarrow> u \<noteq> []"
  by (auto simp: requireUserId_def split: option.splits if_splits)

lemma effective_unscoped:
  assumes "c \<noteq> []"
  shows "(\<exists>g \<in> set (listEffectiveGrants db u now (Some c)). gr_role g \<in> set BINDING_ROLES)
     \<longleftrightarrow> c \<in> gr_clusterId ` set (listEffectiveGrants db u now None)"
proof -
  have r: "set roles = set BINDING_ROLES" by (auto simp: roles_def BINDING_ROLES_def)
  have e: "set (listEffectiveGrants db u now (Some c)) = {g \<in> set (listEffectiveGrants db u now None). gr_clusterId g = c}"
    using assms by (auto simp: listEffectiveGrants_def Let_def stored_grants_def grant_effective_def)
  have "gr_role g \<in> set BINDING_ROLES" if "g \<in> set (listEffectiveGrants db u now None)" for g
    using that r by (auto simp: listEffectiveGrants_def Let_def grant_effective_def split: if_splits)
  then show ?thesis unfolding e by auto
qed

lemma trim_twice: "js_trim (js_trim s) = js_trim s"
proof -
  have d: "dropWhile js_ws (dropWhile js_ws xs) = dropWhile js_ws xs" for xs
    by (induction xs) auto
  have r: "dropWhile js_ws (rev (dropWhile js_ws (rev (dropWhile js_ws xs)))) = rev (dropWhile js_ws (rev (dropWhile js_ws xs)))" for xs
  proof (cases "dropWhile js_ws (rev (dropWhile js_ws xs)) = []")
    case False
    let ?y = "dropWhile js_ws xs"
    have ne: "?y \<noteq> []" using False by (cases "?y = []") (simp_all del: dropWhile_eq_Nil_conv)
    then have h: "\<not> js_ws (hd ?y)" by (rule hd_dropWhile)
    have "hd (rev (dropWhile js_ws (rev ?y))) = hd ?y"
    proof -
      have "rev ?y = takeWhile js_ws (rev ?y) @ dropWhile js_ws (rev ?y)" by simp
      then have "?y = rev (dropWhile js_ws (rev ?y)) @ rev (takeWhile js_ws (rev ?y))" by (metis rev_append rev_rev_ident)
      then show ?thesis using False by (metis Nil_is_rev_conv hd_append2)
    qed
    then show ?thesis using h False by (cases "rev (dropWhile js_ws (rev ?y))") auto
  next
    case True
    then show ?thesis by (simp only: rev.simps dropWhile.simps)
  qed
  show ?thesis unfolding js_trim_def r rev_rev_ident d by (rule refl)
qed

text \<open>
  A subject can discover a cluster exactly when the subject can read it: the discovery list
  and the read check agree for administrators, role bindings and grants.
\<close>

theorem discover_iff_read:
  "assertCanDiscover db now s c = Inr () \<longleftrightarrow> (\<exists>ctx. assertCanRead db now s c = Inr ctx)"
proof (cases "requireClusterId c")
  case (Inl e)
  then show ?thesis by (simp add: assertCanDiscover_def assertCanRead_def)
next
  case (Inr i)
  have i: "requireClusterId (Some i) = Inr i"
    using Inr by (auto simp: requireClusterId_def trim_twice split: option.splits if_splits)
  note i0 = trimmed [OF Inr]
  show ?thesis
  proof (cases "isPlatformAdmin s")
    case True
    then show ?thesis using Inr i by (auto simp: assertCanDiscover_def assertCanRead_def rbind_Inr_iff split: if_splits)
  next
    case False
    show ?thesis
    proof (cases "requireUserId s")
      case (Inl e)
      then show ?thesis using Inr False
        by (simp add: assertCanDiscover_def assertCanRead_def listDiscoverableClusterIds_def listAccessibleClusterIds_def)
    next
      case u: (Inr u)
      have b: "(\<exists>b. find (\<lambda>b. rb_clusterId b = i) (bindings_of db u) = Some b) \<longleftrightarrow> i \<in> rb_clusterId ` set (bindings_of db u)"
        by (cases "find (\<lambda>b. rb_clusterId b = i) (bindings_of db u)") (auto simp: find_None_iff dest: find_Some_mem)
      have g: "(\<exists>g. find (\<lambda>g. gr_role g \<in> set BINDING_ROLES) (grants_of db u now (Some i)) = Some g)
          \<longleftrightarrow> i \<in> gr_clusterId ` set (grants_of db u now None)"
        using effective_unscoped [OF i0, of db u now]
        by (cases "find (\<lambda>g. gr_role g \<in> set BINDING_ROLES) (grants_of db u now (Some i))")
           (auto simp: find_None_iff grants_of_def dest: find_Some_mem)
      show ?thesis
        using Inr False u b g
        by (cases "isKnownPlatformRole s")
           (auto simp: assertCanDiscover_def assertCanRead_def listDiscoverableClusterIds_def listAccessibleClusterIds_def
              rbind_Inr_iff split: option.splits if_splits)
    qed
  qed
qed

section \<open>The audit log\<close>

lemma pages_concat: "0 < n \<Longrightarrow> concat (map (\<lambda>p. take n (drop (p * n) xs)) [0..<k]) = take (k * n) xs"
proof (induction k)
  case (Suc k)
  then show ?case by (simp add: take_add [symmetric] add.commute)
qed simp

text \<open>
  Reading the audit log page by page returns every record that matches the filters exactly
  once and in order, as soon as enough pages are read.
\<close>

theorem audit_pages_complete:
  assumes "0 < n" and "length (filter (audit_matches f) store) \<le> k * n"
  shows "concat (map (\<lambda>p. ap_items (listAudits (f\<lparr>af_page := Some (num (int p + 1)), af_pageSize := Some (num (int n))\<rparr>) store)) [0..<k])
     = filter (audit_matches f) store"
proof -
  have m: "audit_matches (f\<lparr>af_page := a, af_pageSize := b\<rparr>) = audit_matches f" for a b
    by (intro ext) (simp add: audit_matches_def)
  have "positive_or d (Some (num (int q + 1))) = q + 1" for d q by (simp add: positive_or_def)
  moreover have "positive_or d (Some (num (int n))) = n" for d using assms(1) by (simp add: positive_or_def)
  ultimately show ?thesis
    using pages_concat [OF assms(1), of "filter (audit_matches f) store" k] assms(2)
    by (simp add: listAudits_def Let_def m)
qed

section \<open>Witnesses\<close>

definition ex_grant :: grant where
  "ex_grant = \<lparr>gr_id = ''g1'', gr_userId = None, gr_groupId = Some ''team'', gr_clusterId = ''c1'', gr_role = ''operator'',
     gr_state = ''active'', gr_validFrom = 0, gr_expiresAt = None, gr_revokedAt = None, gr_scopes = [(''ns1'', ''team'')],
     gr_capabilities = [''logs'']\<rparr>"

definition ex_db :: access_db where
  "ex_db = \<lparr>az_grants = [ex_grant],
     az_memberships = [\<lparr>gm_groupId = ''team'', gm_userId = ''u1'', gm_state = ''active'', gm_groupActive = True,
        gm_validFrom = 0, gm_expiresAt = Some 100\<rparr>],
     az_clusters = [\<lparr>rc_id = ''c1'', rc_deletedAt = None, rc_status = ''ready''\<rparr>], az_bindings = [],
     az_bindingTable = False, az_authorization = True\<rparr>"

definition ex_request :: authz_request where
  "ex_request = \<lparr>rq_userId = ''u1'', rq_clusterId = ''c1'', rq_namespaceUid = Some ''ns1'', rq_capability = Some ''logs'', rq_mutation = True\<rparr>"

lemma ex_authorized: "authorize ex_db 5 ex_request = \<lparr>dc_allowed = True, dc_reasonCode = ''GRANT_MATCHED'',
    dc_grantIds = [''g1''], dc_expiresAt = Some 100, dc_role = Some ''operator''\<rparr>"
  by code_simp

lemma authorize_iff_witness: "dc_allowed (authorize ex_db 5 ex_request)"
proof -
  have n: "nonblank (rq_userId ex_request)" "nonblank ''ns1''" by code_simp+
  have w: "wanted ex_request = Some ''logs''" by code_simp
  have "covers ex_db (rq_userId ex_request) 5 ex_grant"
    unfolding covers_def by (intro conjI disjI2 bexI) (simp_all add: ex_db_def ex_grant_def ex_request_def valid_memberships_def
        live_cluster_def roles_def after_def n gr_namespaces_def)
  then show ?thesis
    using w by (subst authorize_iff [OF n(1) _ _ n(2)])
      (auto simp: ex_request_def capabilities_def ex_grant_def gr_namespaces_def intro!: exI [where x = ex_grant])
qed

lemma authorize_lasts_witness: "dc_allowed (authorize ex_db 99 ex_request)"
proof (rule authorize_lasts [where now = 5])
  show "nonblank (rq_userId ex_request)" by code_simp
qed (simp_all add: ex_authorized after_def)

definition ex_operator :: "subject option" where
  "ex_operator = Some \<lparr>sj_id = Some ''u1'', sj_role = Some ''Operator''\<rparr>"

lemma ex_mutate: "assertCanMutate ex_db 5 ex_operator (Some ''c1'')
    = Inr \<lparr>ax_clusterId = ''c1'', ax_accessRole = ''operator'', ax_source = ''access-grant''\<rparr>"
  by code_simp

lemma mutate_requires_write_role_witness: "isPlatformAdmin ex_operator \<or> isPlatformOperator ex_operator"
  using mutate_requires_write_role [OF ex_mutate] by (auto split: if_splits)

definition ex_audit :: audit_record where
  "ex_audit = \<lparr>au_id = ''a'', au_actor = ''admin'', au_role = ''platform-admin'', au_action = ''scale'', au_resourceType = ''workload'',
     au_resourceId = ''w'', au_result = ''success'', au_reason = None, au_requestId = None, au_timestamp = 0\<rparr>"

definition ex_filters :: audit_filters where
  "ex_filters = \<lparr>af_action = Some ''scale'', af_resourceType = None, af_actor = Some [], af_result = None, af_requestId = None,
     af_page = None, af_pageSize = None\<rparr>"

lemma audit_pages_complete_witness:
  "concat (map (\<lambda>p. ap_items (listAudits (ex_filters\<lparr>af_page := Some (num (int p + 1)), af_pageSize := Some (num (int 2))\<rparr>)
     (replicate 5 ex_audit))) [0..<3]) = replicate 5 ex_audit"
proof -
  have m: "audit_matches ex_filters ex_audit" by code_simp
  have f: "filter (audit_matches ex_filters) (replicate 5 ex_audit) = replicate 5 ex_audit" using m by (simp add: filter_replicate)
  show ?thesis using audit_pages_complete [of 2 ex_filters "replicate 5 ex_audit" 3] unfolding f by simp
qed

end
