(* ===== verification/Kn_AuthProps.thy ===== *)
theory Kn_AuthProps
  imports Kn_AuthExamples
begin

text \<open>The properties of the authentication service, with their witnesses.\<close>

section \<open>What is looked up is there\<close>

lemma user_of_SomeD: "user_of db i = Some u \<Longrightarrow> u \<in> set (ad_users db) \<and> us_id u = i"
  by (auto simp: user_of_def dest: find_Some)

lemma cred_of_SomeD: "cred_of db i = Some c \<Longrightarrow> c \<in> set (ad_creds db) \<and> mc_userId c = i"
  by (auto simp: cred_of_def dest: find_Some)

lemma cred_of_None: "cred_of db i = None \<longleftrightarrow> i \<notin> mc_userId ` set (ad_creds db)"
  by (auto simp: cred_of_def find_None_iff)

lemma user_of_None: "user_of db i = None \<longleftrightarrow> i \<notin> us_id ` set (ad_users db)"
  by (auto simp: user_of_def find_None_iff)

lemma validate_session:
  "validate env t tok st = Some v \<Longrightarrow> \<exists>s u. s \<in> set (ad_sessions (as_db st)) \<and> ss_id s = js_trim tok \<and> ss_revokedAt s = None
     \<and> user_of (as_db st) (ss_userId s) = Some u \<and> vs_user v = mapUser u"
  by (auto simp: validate_def resolveSessionId_def findValidSessionById_def split: option.splits if_splits dest!: find_Some)

section \<open>Finality\<close>

lemma all_revoked_validate: "all_revoked ss_id (js_trim tok) s \<Longrightarrow> validate env t tok s = None"
  using validate_session [of env t tok s] by (cases "validate env t tok s") (auto simp: all_revoked_def)

lemma all_revoked_refresh: "all_revoked ss_refreshTokenHash (hashToken env tok) s \<Longrightarrow> refresh env t fr tok s = (None, s)"
  by (auto simp: refresh_def Let_def findValidSessionByRefreshTokenHash_def all_revoked_def split: option.split dest!: find_Some)

lemma revoke_where_mem:
  "r \<in> set (ad_sessions (snd (revoke_where now p db))) \<longleftrightarrow> (\<exists>s \<in> set (ad_sessions db). r = (if p s then s\<lparr>ss_revokedAt := Some now\<rparr> else s))"
  by (auto simp: revoke_where_def update_many_def)

lemma revoke_where_lists:
  "map ss_id (ad_sessions (snd (revoke_where now p db))) = map ss_id (ad_sessions db)"
  "map ss_refreshTokenHash (ad_sessions (snd (revoke_where now p db))) = map ss_refreshTokenHash (ad_sessions db)"
  by (simp_all add: revoke_where_def update_many_def)

lemmas revoke_where_keys = revoke_where_lists [THEN arg_cong [where f = set], unfolded set_map]

lemma logout_revokes:
  assumes "validate env t0 tok st = Some v"
  shows "all_revoked ss_id (js_trim tok) (logout t tok st)"
proof -
  obtain s where s: "s \<in> set (ad_sessions (as_db st))" "ss_id s = js_trim tok"
    using validate_session [OF assms] by blast
  have "resolveSessionId tok = Some (js_trim tok)"
    using assms by (auto simp: validate_def resolveSessionId_def split: if_splits)
  then have "as_db (logout t tok st) = snd (revoke_where t (\<lambda>s. ss_id s = js_trim tok \<and> ss_revokedAt s = None) (as_db st))"
    by (simp add: logout_def revokeSessionById_def)
  then show ?thesis
    using s by (auto simp: all_revoked_def revoke_where_keys revoke_where_mem intro: rev_image_eqI)
qed

text \<open>
  C17. An access token that was valid and is logged out never validates again, whatever requests
  run afterwards.
\<close>

theorem logout_is_final:
  assumes "validate env t0 tok st = Some v"
    and "reach (\<lambda>s. s = logout t1 tok st) (auth_step env) s"
  shows "validate env t2 tok s = None"
  using all_revoked_reach [OF assms(2) logout_revokes [OF assms(1)]] by (simp add: all_revoked_validate)

lemma ex_unused: "unused ex_auth (ex_fresh ''9'') (logout 12 ''s1'' (ex_state True))" "unused ex_auth (ex_fresh ''9'') (ex_state m)"
    "unused ex_auth (ex_fresh ''8'') (ex_state True)"
  by (code_simp, cases m) code_simp+

lemma logout_is_final_witness:
  "validate ex_auth 10 ''s1'' (ex_state True) \<noteq> None
   \<and> validate ex_auth 20 ''s1'' (serve ex_auth 15 ex_login (logout 12 ''s1'' (ex_state True))) = None"
proof -
  have v: "validate ex_auth 10 ''s1'' (ex_state True) \<noteq> None" by code_simp
  have "reach (\<lambda>s. s = logout 12 ''s1'' (ex_state True)) (auth_step ex_auth) (serve ex_auth 15 ex_login (logout 12 ''s1'' (ex_state True)))"
    by (rule reach_step [where e = "(15, ex_login)", OF reach_init], rule refl) (simp add: auth_step_def ex_login_def ex_unused)
  then show ?thesis using v logout_is_final [of ex_auth 10 "''s1''" "ex_state True" _ 12] by blast
qed

lemma rotateSession_revokes:
  assumes "rotateSession now i q db = (Some y, db')"
  shows "\<exists>s p n. s \<in> set (ad_sessions db) \<and> p s \<and> ss_refreshTokenHash s = ro_current q \<and> ss_refreshTokenHash n = ro_next q
     \<and> db' = createSession n (snd (revoke_where now p db))"
proof -
  let ?p = "\<lambda>s. ss_id s = ro_sessionId q \<and> ss_authzVersion s = ro_authzVersion q
          \<and> (case user_of db (ss_userId s) of None \<Rightarrow> False | Some u \<Rightarrow> us_isActive u \<and> us_authzVersion u = ro_authzVersion q)
          \<and> ss_refreshTokenHash s = ro_current q \<and> ss_revokedAt s = None \<and> now < ss_refreshExpiresAt s"
  have one: "fst (revoke_where now ?p db) = 1"
    using assms by (auto simp: rotateSession_def Let_def case_prod_beta split: if_splits)
  then have "db' = createSession (the (fst (rotateSession now i q db))) (snd (revoke_where now ?p db))"
    and "ss_refreshTokenHash (the (fst (rotateSession now i q db))) = ro_next q"
    using assms by (auto simp: rotateSession_def Let_def new_session_def case_prod_beta)
  then have db': "\<exists>n. ss_refreshTokenHash n = ro_next q \<and> db' = createSession n (snd (revoke_where now ?p db))" by blast
  have "fst (update_many ?p (\<lambda>s. s\<lparr>ss_revokedAt := Some now\<rparr>) (ad_sessions db)) \<noteq> 0"
    using one by (simp add: revoke_where_def case_prod_beta)
  then obtain s where "s \<in> set (ad_sessions db)" "?p s" unfolding update_many_zero_iff by blast
  then show ?thesis using db' by - (rule exI [where x = s], rule exI [where x = ?p], blast)
qed

lemma mfa_rotateSession_revokes:
  assumes "mfa_rotateSession now i q db = (Some y, db')"
  shows "\<exists>s p n. s \<in> set (ad_sessions db) \<and> p s \<and> ss_refreshTokenHash s = ro_current q \<and> ss_refreshTokenHash n = ro_next q
     \<and> db' = createSession n (snd (revoke_where now p db))"
proof -
  obtain u c where uc: "user_of db (ro_userId q) = Some u" "cred_of db (ro_userId q) = Some c"
    using assms by (auto simp: mfa_rotateSession_def split: option.splits)
  let ?p = "\<lambda>s. ss_id s = ro_sessionId q \<and> ss_userId s = ro_userId q \<and> ss_authzVersion s = ro_authzVersion q
               \<and> ss_refreshTokenHash s = ro_current q \<and> ss_revokedAt s = None \<and> now < ss_refreshExpiresAt s \<and> assured now c s"
  obtain s where s: "find ?p (ad_sessions db) = Some s"
    using assms uc by (auto simp: mfa_rotateSession_def Let_def split: option.splits if_splits)
  then have "ss_refreshTokenHash y = ro_next q \<and> db' = createSession y (snd (revoke_where now ?p db))"
    using assms uc by (auto simp: mfa_rotateSession_def Let_def new_session_def split: if_splits)
  then show ?thesis using find_Some [OF s] by - (rule exI [where x = s], rule exI [where x = ?p], blast)
qed

text \<open>The rotation of the session found by its refresh hash revokes it.\<close>

lemma refresh_revokes:
  assumes "refresh env now fr tok st = (Some x, st')" and "unused env fr st"
    and d: "distinct (map ss_refreshTokenHash (ad_sessions (as_db st)))"
  shows "all_revoked ss_refreshTokenHash (hashToken env tok) st'"
proof -
  let ?h = "hashToken env tok" and ?db = "as_db st"
  obtain b i q y where *: "(if b then mfa_rotateSession now i q ?db else rotateSession now i q ?db) = (Some y, as_db st')"
      "ro_current q = ?h" "ro_next q = hashToken env (fr_refreshToken fr)"
  proof -
    assume k: thesis if "(if b then mfa_rotateSession now i q ?db else rotateSession now i q ?db) = (Some y, as_db st')"
        "ro_current q = ?h" "ro_next q = hashToken env (fr_refreshToken fr)" for b i q y
    obtain cur u where "findValidSessionByRefreshTokenHash ?db now ?h = Some cur" "user_of ?db (ss_userId cur) = Some u"
      using assms(1) by (auto simp: refresh_def Let_def split: option.splits)
    then show thesis using assms(1) k [of "us_mfaEnabled u"]
      by (auto simp: refresh_def Let_def set_db_def prod_eq_iff split: option.splits if_splits prod.splits)
  qed
  obtain p n s where s: "s \<in> set (ad_sessions ?db)" "p s" "ss_refreshTokenHash s = ?h"
    and n: "ss_refreshTokenHash n = hashToken env (fr_refreshToken fr)"
    and db': "as_db st' = createSession n (snd (revoke_where now p ?db))"
    using * rotateSession_revokes [of now i q ?db y "as_db st'"] mfa_rotateSession_revokes [of now i q ?db y "as_db st'"]
    by (cases b) auto
  have "ss_refreshTokenHash n \<noteq> ?h" using assms(2) n s(3) imageI [OF s(1), of ss_refreshTokenHash] by (auto simp: unused_def)
  moreover have "ss_revokedAt r \<noteq> None"
    if r: "r \<in> set (ad_sessions (snd (revoke_where now p ?db)))" "ss_refreshTokenHash r = ?h" for r
  proof -
    obtain w where w: "w \<in> set (ad_sessions ?db)" "r = (if p w then w\<lparr>ss_revokedAt := Some now\<rparr> else w)"
      using r(1) unfolding revoke_where_mem by blast
    then have "ss_refreshTokenHash w = ?h" using r(2) by (auto split: if_splits)
    then have "w = s" using distinct_key_unique [OF d w(1) s(1)] s(3) by simp
    then show ?thesis using w(2) s(2) by simp
  qed
  moreover have "?h \<in> ss_refreshTokenHash ` set (ad_sessions ?db)" using imageI [OF s(1), of ss_refreshTokenHash] s(3) by simp
  ultimately show ?thesis
    unfolding all_revoked_def db' createSession_def by (auto simp: image_Un revoke_where_keys)
qed

text \<open>
  C16. A refresh token that was rotated is refused by every later refresh, whatever requests run
  in between, when refresh hashes in the table are distinct and the new session brought an unused
  one.
\<close>

theorem refresh_token_single_use:
  assumes "refresh env t0 fr tok st = (Some x, st')" and "unused env fr st"
    and "distinct (map ss_refreshTokenHash (ad_sessions (as_db st)))"
    and "reach (\<lambda>s. s = st') (auth_step env) s"
  shows "refresh env t1 fr' tok s = (None, s)"
  using all_revoked_reach [OF assms(4) refresh_revokes [OF assms(1,2,3)]] by (simp add: all_revoked_refresh)

lemma refresh_token_single_use_witness:
  "fst (refresh ex_auth 10 (ex_fresh ''8'') ''r1'' (ex_state True)) \<noteq> None
   \<and> (let s = snd (refresh ex_auth 10 (ex_fresh ''8'') ''r1'' (ex_state True)) in refresh ex_auth 12 (ex_fresh ''9'') ''r1'' s = (None, s))"
proof -
  have r: "fst (refresh ex_auth 10 (ex_fresh ''8'') ''r1'' (ex_state True)) \<noteq> None"
    and d: "distinct (map ss_refreshTokenHash (ad_sessions (as_db (ex_state True))))" by code_simp+
  then obtain x where "refresh ex_auth 10 (ex_fresh ''8'') ''r1'' (ex_state True) = (Some x, snd (refresh ex_auth 10 (ex_fresh ''8'') ''r1'' (ex_state True)))"
    by (auto simp: prod_eq_iff)
  from refresh_token_single_use [OF this ex_unused(3) d reach_init] r show ?thesis by (simp add: Let_def)
qed

text \<open>
  C31. In every state the handlers reach from a table without second factors, a user has an MFA
  credential exactly when the mfaEnabled flag of the user is set.
\<close>

theorem mfa_flag_matches_credential:
  assumes "reach auth_init (auth_step env) st"
  shows "cred_of (as_db st) i \<noteq> None \<longleftrightarrow> (\<exists>u. user_of (as_db st) i = Some u \<and> us_mfaEnabled u)"
proof -
  have c: "mfa_consistent (as_db st)" using assms by (rule service.reach_inv)
  have one: "us_mfaEnabled u" if "user_of (as_db st) i = Some u" "w \<in> set (ad_users (as_db st))" "us_id w = i" "us_mfaEnabled w" for u w
    using c user_of_SomeD [OF that(1)] that(2-4) distinct_key_unique [of us_id "ad_users (as_db st)" u w]
    by (auto simp: mfa_consistent_def)
  have "cred_of (as_db st) i \<noteq> None \<longleftrightarrow> i \<in> us_id ` {u \<in> set (ad_users (as_db st)). us_mfaEnabled u}"
    using c by (simp add: cred_of_None mfa_consistent_def)
  also have "\<dots> \<longleftrightarrow> (\<exists>u. user_of (as_db st) i = Some u \<and> us_mfaEnabled u)"
  proof (cases "user_of (as_db st) i")
    case None
    then show ?thesis using user_of_None [of "as_db st" i] by auto
  next
    case (Some u)
    then show ?thesis using one [OF Some] user_of_SomeD [OF Some] by auto
  qed
  finally show ?thesis .
qed

lemma mfa_flag_matches_credential_witness:
  "cred_of (as_db (serve ex_auth 15 ex_login (ex_state False))) ''u2'' = None"
proof -
  have "auth_init (ex_state False)" by code_simp
  then have r: "reach auth_init (auth_step ex_auth) (serve ex_auth 15 ex_login (ex_state False))"
    by - (rule reach_step [where e = "(15, ex_login)", OF reach_init], assumption, simp add: auth_step_def ex_login_def ex_unused)
  have "map_option us_mfaEnabled (user_of (as_db (serve ex_auth 15 ex_login (ex_state False))) ''u2'') = Some False" by code_simp
  then show ?thesis using mfa_flag_matches_credential [OF r, of "''u2''"] by auto
qed

section \<open>Resetting a second factor\<close>







section \<open>One-time codes\<close>

lemma cred_of_update:
  "(\<And>c. mc_userId (f c) = mc_userId c) \<Longrightarrow> cred_of (update_cred i f db) j = map_option (if i = j then f else id) (cred_of db j)"
proof -
  assume f: "\<And>c. mc_userId (f c) = mc_userId c"
  have "find (\<lambda>c. mc_userId c = j) (map (\<lambda>c. if mc_userId c = i then f c else c) cs)
     = map_option (if i = j then f else id) (find (\<lambda>c. mc_userId c = j) cs)" for cs
    by (induction cs) (auto simp: f)
  then show ?thesis by (simp add: cred_of_def update_cred_def)
qed

lemma redeemable_cred: "redeemable db ch = Some c \<Longrightarrow> cred_of db (mh_userId ch) = Some c"
  by (auto simp: redeemable_def split: option.splits if_splits)

text \<open>
  A recovery code that was accepted is refused ever after for the same user, under whatever
  challenge.
\<close>

theorem recovery_code_single_use:
  assumes "redeem env now ch code Recovery db = (Inr (Some x), db')" and "mh_userId ch' = mh_userId ch"
  shows "redeem env now' ch' code Recovery db' = (Inr None, db')"
proof -
  have db': "db' = update_cred (mh_userId ch)
      (\<lambda>c. c\<lparr>mc_recoveryCodeHashes := filter (\<lambda>h. h \<noteq> me_hash env code) (mc_recoveryCodeHashes c)\<rparr>) db"
    using assms(1) by (auto simp: redeem_def Let_def split: if_splits option.splits)
  have "me_hash env code \<notin> set (mc_recoveryCodeHashes d)" if "redeemable db' ch' = Some d" for d
    using redeemable_cred [OF that] by (auto simp: db' assms(2) cred_of_update)
  then show ?thesis by (auto simp: redeem_def Let_def split: option.split)
qed

lemma recovery_code_single_use_witness:
  "fst (redeem ex_mfa 100000 ex_challenge ''one'' Recovery (ex_db True)) = Inr (Some (1, 100000))
   \<and> (let db = snd (redeem ex_mfa 100000 ex_challenge ''one'' Recovery (ex_db True)) in
      redeem ex_mfa 200000 ex_challenge ''one'' Recovery db = (Inr None, db))"
proof -
  have r: "fst (redeem ex_mfa 100000 ex_challenge ''one'' Recovery (ex_db True)) = Inr (Some (1, 100000))" by code_simp
  then have "redeem ex_mfa 100000 ex_challenge ''one'' Recovery (ex_db True)
      = (Inr (Some (1, 100000)), snd (redeem ex_mfa 100000 ex_challenge ''one'' Recovery (ex_db True)))" by (simp add: prod_eq_iff)
  from recovery_code_single_use [OF this, of ex_challenge 200000] r show ?thesis by (simp add: Let_def)
qed

lemma matchTotpCounter_window:
  assumes "matchTotpCounter hmac secret code now w = Inr (Some k)"
  shows "\<exists>key. base32Decode secret = Inr key \<and> code_at hmac key k = code \<and> k \<le> counter_of now + int w"
proof -
  obtain key where key: "base32Decode secret = Inr key"
    using assms by (cases "base32Decode secret") (auto simp: matchTotpCounter_def split: if_splits)
  then have m: "match_loop hmac secret code now (int w) (2 * w + 1) = Inr (Some k)"
    using assms by (auto simp: matchTotpCounter_def split: if_splits)
  show ?thesis using match_loop_newest [OF m key] key by auto
qed

text \<open>
  An accepted TOTP code is the code of a counter above the last one accepted for this
  credential and at most one step ahead of the clock, and that counter becomes the last one.
\<close>

theorem totp_counter_advances:
  assumes "redeem env now ch code Totp db = (Inr (Some x), db')"
  shows "\<exists>c secret key k. cred_of db (mh_userId ch) = Some c \<and> me_decrypt env (me_key env) (mc_encryptedSecret c) = Some secret
     \<and> base32Decode secret = Inr key \<and> code_at (me_hmac env) key k = code \<and> k \<le> counter_of now + 1
     \<and> (mc_lastTotpCounter c = None \<or> the (mc_lastTotpCounter c) < k)
     \<and> cred_of db' (mh_userId ch) = Some (c\<lparr>mc_lastTotpCounter := Some k\<rparr>)"
proof -
  obtain c secret k where *: "redeemable db ch = Some c" "me_decrypt env (me_key env) (mc_encryptedSecret c) = Some secret"
    "matchTotpCounter (me_hmac env) secret code now 1 = Inr (Some k)"
    "case mc_lastTotpCounter c of None \<Rightarrow> True | Some l \<Rightarrow> l < k"
    "db' = update_cred (mh_userId ch) (\<lambda>c. c\<lparr>mc_lastTotpCounter := Some k\<rparr>) db"
    using assms by (auto simp: redeem_def split: if_splits option.splits sum.splits)
  have "mc_lastTotpCounter c = None \<or> the (mc_lastTotpCounter c) < k" using *(4) by (auto split: option.splits)
  then show ?thesis
    using matchTotpCounter_window [OF *(3)] redeemable_cred [OF *(1)] *(2,5) by (auto simp: cred_of_update)
qed

lemma totp_counter_advances_witness:
  "\<exists>k. 2 < k \<and> map_option mc_lastTotpCounter (cred_of (snd (redeem ex_mfa 100000 ex_challenge ex_digits Totp (ex_db True))) ''u2'') = Some (Some k)"
proof -
  have "redeem ex_mfa 100000 ex_challenge ex_digits Totp (ex_db True)
      = (Inr (Some (1, 100000)), snd (redeem ex_mfa 100000 ex_challenge ex_digits Totp (ex_db True)))"
    using ex_totp by (simp add: prod_eq_iff)
  moreover have "map_option mc_lastTotpCounter (cred_of (ex_db True) ''u2'') = Some (Some 2)" "mh_userId ex_challenge = ''u2''" by code_simp+
  ultimately show ?thesis using totp_counter_advances [of ex_mfa 100000 ex_challenge ex_digits "ex_db True"] by fastforce
qed

section \<open>The password alone opens no session of a user with a second factor\<close>

text \<open>
  C32. For a user with a second factor login never creates a session and never returns one: it
  changes no table, and a challenge is issued only to the right password.
\<close>

theorem second_factor_required:
  assumes "findActiveUserByUsername (as_db st) username = Some u" and "us_mfaEnabled u"
  shows "as_db (snd (login env now up fr username password st)) = as_db st
     \<and> (case fst (login env now up fr username password st) of Inr (Some (LoggedIn s)) \<Rightarrow> False
        | Inr (Some (MfaRequired t)) \<Rightarrow> verifyPassword env password (us_passwordHash u) | _ \<Rightarrow> True)"
  using assms
  by (auto simp: login_def issueSession_def Let_def split: option.split sum.split prod.split dest!: limit_account_dbD set_redis_dbD)

lemma second_factor_required_witness:
  "as_db (snd (login ex_auth 10 True (ex_fresh ''9'') ''u2@kn'' ''ab'' (ex_state True))) = ex_db True
   \<and> fst (login ex_auth 10 True (ex_fresh ''9'') ''u2@kn'' ''ab'' (ex_state True)) = Inr (Some (MfaRequired ex_token))"
proof -
  have "findActiveUserByUsername (as_db (ex_state True)) ''u2@kn'' = Some (ex_user ''u2'' ''viewer'' True)" by code_simp
  moreover have "us_mfaEnabled (ex_user ''u2'' ''viewer'' True)" by (simp add: ex_user_def)
  moreover have "fst (login ex_auth 10 True (ex_fresh ''9'') ''u2@kn'' ''ab'' (ex_state True)) = Inr (Some (MfaRequired ex_token))" by code_simp
  ultimately show ?thesis
    using second_factor_required [of "ex_state True" "''u2@kn''" "ex_user ''u2'' ''viewer'' True" ex_auth 10 True "ex_fresh ''9''" "''ab''"]
    by (simp add: ex_state_def)
qed

end
