(* ===== verification/Kn_Topo.thy ===== *)
theory Kn_Topo
  imports Kn_Json
begin

text \<open>
  The data of the topology graph (topology-graph/topology-graph.contract.ts) and the readers of
  stored JSON it is built with (the functions at the end of topology-resource.projector.ts).

  A column that is null or missing is \<open>None\<close>, and an instant stands for its ISO text (equal texts and
  the order of texts are those of the instants of four-digit years). \<open>localeCompare\<close> and the text of a
  number that is not an integer, and the reading of a text as a number, are fields of the environment.
\<close>

record topo_env =
  to_lc :: "string \<Rightarrow> string \<Rightarrow> int"
  to_num :: "jsnum \<Rightarrow> string"
  to_parse :: "string \<Rightarrow> jsnum"

section \<open>Rows, resources and relations\<close>

datatype topo_source = Workloads | Network | Storage | Configuration | GatewayApi

fun source_text :: "topo_source \<Rightarrow> string" where
  "source_text Workloads = ''workloads''"
| "source_text Network = ''network''"
| "source_text Storage = ''storage''"
| "source_text Configuration = ''configuration''"
| "source_text GatewayApi = ''gateway''"

datatype relation_role = ROwner | RNetwork | RStorage | RConfig | RPolicy | RGateway

fun role_text :: "relation_role \<Rightarrow> string" where
  "role_text ROwner = ''owner''"
| "role_text RNetwork = ''network''"
| "role_text RStorage = ''storage''"
| "role_text RConfig = ''config''"
| "role_text RPolicy = ''policy''"
| "role_text RGateway = ''gateway''"

datatype relation_type = OWNS | SELECTS | PUBLISHES | RESOLVES | ROUTES_TO | GOVERNS | PROVISIONS | ACCEPTS
  | MOUNTS | BINDS | USES_STORAGE_CLASS | USES_CONFIG | USES_SECRET | USES_SERVICE_ACCOUNT

record persisted =
  pr_id :: string
  pr_clusterId :: string
  pr_namespace :: "string option"
  pr_kind :: string
  pr_name :: string
  pr_state :: string
  pr_spec :: "json option"
  pr_statusJson :: "json option"
  pr_labels :: "json option"
  pr_replicas :: "int option"
  pr_readyReplicas :: "int option"
  pr_capacity :: "string option"
  pr_storageClass :: "string option"
  pr_bindingMode :: "string option"
  pr_dataKeys :: "json option"
  pr_currentRev :: "int option"
  pr_updatedAt :: "time option"

record topo_row =
  tr_source :: topo_source
  tr_row :: persisted

record topo_relation =
  tl_id :: string
  tl_source :: string
  tl_target :: string
  tl_label :: string
  tl_role :: relation_role
  tl_type :: relation_type
  tl_confidence :: rat
  tl_evidence :: "string list"
  tl_ports :: "string list"

section \<open>Reading stored JSON\<close>

definition asRecord :: "json option \<Rightarrow> json option" where
  "asRecord v = (case v of Some (JObj kvs) \<Rightarrow> Some (JObj kvs) | _ \<Rightarrow> None)"

text \<open>\<open>asRecord(v)?.[k]\<close>.\<close>

definition field :: "json option \<Rightarrow> string \<Rightarrow> json option" where
  "field v k = jget_opt (asRecord v) k"

definition asArray :: "json option \<Rightarrow> json list" where
  "asArray v = (case v of Some (JArr xs) \<Rightarrow> xs | _ \<Rightarrow> [])"

definition show_int :: "int \<Rightarrow> string" where
  "show_int n = (if n < 0 then CHR ''-'' # show_nat (nat (- n)) else show_nat (nat n))"

text \<open>\<open>String(n)\<close>: integers below \<open>10^21\<close> are written in decimal.\<close>

definition js_num_text :: "topo_env \<Rightarrow> jsnum \<Rightarrow> string" where
  "js_num_text env n = (if js_is_integer n \<and> \<bar>int_of_num n\<bar> < 10 ^ 21 then show_int (int_of_num n) else to_num env n)"

definition asString :: "topo_env \<Rightarrow> json option \<Rightarrow> string option" where
  "asString env v = (case v of
     Some (JStr s) \<Rightarrow> (if js_trim s = [] then None else Some (js_trim s))
   | Some (JNum n) \<Rightarrow> Some (js_num_text env n)
   | Some (JBool b) \<Rightarrow> Some (if b then ''true'' else ''false'')
   | _ \<Rightarrow> None)"

definition asStringRecord :: "topo_env \<Rightarrow> json option \<Rightarrow> (string \<times> string) list option" where
  "asStringRecord env v = (case asRecord v of
     Some (JObj kvs) \<Rightarrow> Some (concat (map (\<lambda>(k, x). case asString env (Some x) of None \<Rightarrow> [] | Some s \<Rightarrow> [(k, s)]) kvs))
   | _ \<Rightarrow> None)"

text \<open>\<open>record?.[k]\<close> on a record of strings, and \<open>a ?? b\<close> on JSON values.\<close>

definition text_field :: "(string \<times> string) list option \<Rightarrow> string \<Rightarrow> string option" where
  "text_field r k = (case r of None \<Rightarrow> None | Some kvs \<Rightarrow> map_of kvs k)"

definition coalesce :: "json option \<Rightarrow> json option \<Rightarrow> json option" where
  "coalesce a b = (case a of None \<Rightarrow> b | Some JNull \<Rightarrow> b | Some v \<Rightarrow> Some v)"

definition or_else :: "'a option \<Rightarrow> 'a option \<Rightarrow> 'a option" where
  "or_else a b = (case a of None \<Rightarrow> b | Some x \<Rightarrow> Some x)"

definition uniqueSorted :: "topo_env \<Rightarrow> string list \<Rightarrow> string list" where
  "uniqueSorted env xs = js_sort (to_lc env) (js_unique xs)"

section \<open>Keys\<close>

definition NUL :: string where "NUL = [CHR 0x00]"

definition or_empty :: "string option \<Rightarrow> string" where
  "or_empty s = (case s of None \<Rightarrow> [] | Some t \<Rightarrow> t)"

definition row_key :: "string \<Rightarrow> string option \<Rightarrow> string \<Rightarrow> string \<Rightarrow> string" where
  "row_key c n k m = c @ NUL @ or_empty n @ NUL @ k @ NUL @ m"

definition kindNameKey :: "persisted \<Rightarrow> string" where
  "kindNameKey r = row_key (pr_clusterId r) (pr_namespace r) (pr_kind r) (pr_name r)"

definition serviceKey :: "persisted \<Rightarrow> string \<Rightarrow> string" where
  "serviceKey r name = pr_clusterId r @ NUL @ or_empty (pr_namespace r) @ NUL @ name"

definition warningKey :: "string \<Rightarrow> string option \<Rightarrow> string \<Rightarrow> string \<Rightarrow> string" where
  "warningKey c n k m = row_key c n k m"

definition sameNamespace :: "persisted \<Rightarrow> persisted \<Rightarrow> bool" where
  "sameNamespace l r \<longleftrightarrow> pr_clusterId l = pr_clusterId r \<and> pr_namespace l = pr_namespace r"

section \<open>Indexes\<close>

text \<open>A \<open>Map\<close> from keys to rows, in insertion order.\<close>

fun addToIndex :: "(string \<times> 'a list) list \<Rightarrow> string \<Rightarrow> 'a \<Rightarrow> (string \<times> 'a list) list" where
  "addToIndex [] k v = [(k, [v])]"
| "addToIndex ((k', vs) # ix) k v = (if k' = k then (k', vs @ [v]) # ix else (k', vs) # addToIndex ix k v)"

definition index_rows :: "('a \<Rightarrow> string) \<Rightarrow> 'a list \<Rightarrow> (string \<times> 'a list) list" where
  "index_rows key rows = foldl (\<lambda>ix r. addToIndex ix (key r) r) [] rows"

definition index_get :: "(string \<times> 'a list) list \<Rightarrow> string \<Rightarrow> 'a list" where
  "index_get ix k = (case map_of ix k of None \<Rightarrow> [] | Some rs \<Rightarrow> rs)"

lemma index_get_add: "index_get (addToIndex ix k v) k' = (if k' = k then index_get ix k @ [v] else index_get ix k')"
  by (induction ix k v rule: addToIndex.induct) (auto simp: index_get_def)

text \<open>Looking up a key gives the rows with that key, in order.\<close>

lemma index_get_rows: "index_get (index_rows key rows) k = filter (\<lambda>r. key r = k) rows"
proof -
  have "index_get (foldl (\<lambda>ix r. addToIndex ix (key r) r) ix rows) k = index_get ix k @ filter (\<lambda>r. key r = k) rows" for ix
    by (induction rows arbitrary: ix) (auto simp: index_get_add)
  then show ?thesis by (simp add: index_rows_def index_get_def)
qed

end
