(* ===== verification/Kn_TopoScope.thy ===== *)
theory Kn_TopoScope
  imports Kn_Access Kn_Topo
begin

text \<open>
  Who may see which part of the topology: topology-graph/topology-access.ts over the access tables of
  Kn_Access. The live look-up of a namespace UID (a read of the Kubernetes API) is the argument
  \<open>identity\<close>, \<open>None\<close> where it throws.
\<close>

record topo_scope =
  sp_clusterId :: string
  sp_namespace :: "string option"
  sp_namespaceUid :: "string option"
  sp_secrets :: bool

definition given :: "string option \<Rightarrow> bool" where
  "given s \<longleftrightarrow> (case s of None \<Rightarrow> False | Some t \<Rightarrow> t \<noteq> [])"

definition trimmed_opt :: "string option \<Rightarrow> string option" where
  "trimmed_opt s = map_option js_trim s"

text \<open>
  One scope of one grant: \<open>checked\<close> holds the UIDs looked up so far.
\<close>

definition scope_step ::
  "(string \<Rightarrow> string \<Rightarrow> string option) \<Rightarrow> string option \<Rightarrow> string option
     \<Rightarrow> (string \<times> string option) list \<times> topo_scope list \<Rightarrow> grant \<times> string \<times> string
     \<Rightarrow> (string \<times> string option) list \<times> topo_scope list" where
  "scope_step identity clusterId namespace acc item = (case (acc, item) of ((checked, scopes), (g, uid, name)) \<Rightarrow>
     (if given clusterId \<and> Some (gr_clusterId g) \<noteq> clusterId then (checked, scopes)
      else if name = [] \<or> (given namespace \<and> Some name \<noteq> namespace) then (checked, scopes)
      else (let key = gr_clusterId g @ ''/'' @ name;
            checked' = (if key \<in> fst ` set checked then checked else (key, identity (gr_clusterId g) name) # checked) in
        if map_of checked' key \<noteq> Some (Some uid) then (checked', scopes)
        else (checked', scopes @ [\<lparr>sp_clusterId = gr_clusterId g, sp_namespace = Some name, sp_namespaceUid = Some uid,
               sp_secrets = (''secrets'' \<in> set (gr_capabilities g))\<rparr>]))))"

definition grant_scopes :: "grant list \<Rightarrow> (grant \<times> string \<times> string) list" where
  "grant_scopes gs = concat (map (\<lambda>g. map (\<lambda>s. (g, s)) (gr_scopes g)) gs)"

text \<open>\<open>None\<close> as the result stands for \<open>undefined\<close>: no restriction.\<close>

definition resolveTopologyScopes ::
  "access_db \<Rightarrow> time \<Rightarrow> (string \<Rightarrow> string \<Rightarrow> string option) \<Rightarrow> bool \<Rightarrow> subject option \<Rightarrow> string option \<Rightarrow> string option
     \<Rightarrow> topo_scope list option res" where
  "resolveTopologyScopes db now identity deps actor query_cluster query_namespace =
     (case actor of None \<Rightarrow> Inr None
      | Some a \<Rightarrow>
        (if (case sj_id a of None \<Rightarrow> True | Some i \<Rightarrow> \<not> nonblank i) \<or> \<not> deps \<or> \<not> isKnownPlatformRole (Some a)
         then Inl (Forbidden ''Forbidden'')
         else if isPlatformAdmin (Some a) then Inr None
         else (let clusterId = trimmed_opt query_cluster; namespace = trimmed_opt query_namespace in
           rbind (listAccessibleClusterIds db (Some a)) (\<lambda>ids.
             let bound = map (\<lambda>i. \<lparr>sp_clusterId = i, sp_namespace = None, sp_namespaceUid = None, sp_secrets = False\<rparr>)
                   (filter (\<lambda>i. \<not> given clusterId \<or> Some i = clusterId) (case ids of None \<Rightarrow> [] | Some l \<Rightarrow> l));
                 grants = listEffectiveGrants db (case sj_id a of None \<Rightarrow> [] | Some i \<Rightarrow> i) now None;
                 scopes = snd (foldl (scope_step identity clusterId namespace) ([], bound) (grant_scopes grants)) in
             if scopes = [] \<and> (given clusterId \<or> given namespace) then Inl (Forbidden ''topology resources outside the granted scope'')
             else Inr (Some scopes)))))"

section \<open>The filter of a query\<close>

datatype scope_target = Resources | ConfigTarget | Namespaces

text \<open>
  What \<open>topologyScopeWhere\<close> asks of a row: its cluster, its namespace (for the target \<open>Namespaces\<close> its
  name stands for it), its kind. No scopes at all is no restriction, an empty list admits nothing.
\<close>

definition scope_admits :: "scope_target \<Rightarrow> topo_scope \<Rightarrow> string \<Rightarrow> string option \<Rightarrow> string \<Rightarrow> string \<Rightarrow> bool" where
  "scope_admits target s c n m k \<longleftrightarrow> c = sp_clusterId s
     \<and> (given (sp_namespace s) \<longrightarrow> (if target = Namespaces then Some m else n) = sp_namespace s)
     \<and> (target = ConfigTarget \<and> \<not> sp_secrets s \<longrightarrow> k \<noteq> ''Secret'')"

definition topologyScopeWhere :: "topo_scope list option \<Rightarrow> scope_target \<Rightarrow> persisted \<Rightarrow> bool" where
  "topologyScopeWhere scopes target r \<longleftrightarrow> (case scopes of None \<Rightarrow> True
     | Some l \<Rightarrow> list_ex (\<lambda>s. scope_admits target s (pr_clusterId r) (pr_namespace r) (pr_name r) (pr_kind r)) l)"

record topo_alert =
  ta_clusterId :: "string option"
  ta_namespace :: "string option"
  ta_resourceType :: "string option"
  ta_resourceName :: "string option"
  ta_status :: string
  ta_severity :: string
  ta_updatedAt :: time

definition alertScopeWhere :: "topo_scope list option \<Rightarrow> topo_alert \<Rightarrow> bool" where
  "alertScopeWhere scopes a \<longleftrightarrow> (case scopes of None \<Rightarrow> True
     | Some l \<Rightarrow> list_ex (\<lambda>s. ta_clusterId a = Some (sp_clusterId s)
         \<and> (given (sp_namespace s) \<longrightarrow> ta_namespace a = sp_namespace s)
         \<and> (\<not> sp_secrets s \<longrightarrow> ta_resourceType a \<noteq> Some ''Secret'')) l)"

section \<open>What a scope stands for\<close>

text \<open>A scope is either a cluster binding without secrets, or a namespace of an effective grant whose UID is the live one.\<close>

definition scope_granted :: "access_db \<Rightarrow> time \<Rightarrow> (string \<Rightarrow> string \<Rightarrow> string option) \<Rightarrow> subject \<Rightarrow> topo_scope \<Rightarrow> bool" where
  "scope_granted db now identity a s \<longleftrightarrow>
     (sp_namespace s = None \<and> \<not> sp_secrets s \<and> (\<exists>b \<in> set (bindings_of db (js_trim (or_empty (sj_id a)))). rb_clusterId b = sp_clusterId s))
     \<or> (\<exists>g \<in> set (listEffectiveGrants db (or_empty (sj_id a)) now None). \<exists>u n. (u, n) \<in> set (gr_scopes g) \<and> n \<noteq> []
          \<and> gr_clusterId g = sp_clusterId s \<and> sp_namespace s = Some n \<and> identity (gr_clusterId g) n = Some u
          \<and> (sp_secrets s \<longrightarrow> ''secrets'' \<in> set (gr_capabilities g)))"

lemma scope_key_inj:
  "CHR ''/'' \<notin> set c \<Longrightarrow> CHR ''/'' \<notin> set c' \<Longrightarrow> c @ ''/'' @ n = c' @ ''/'' @ n' \<Longrightarrow> c = c' \<and> n = n'"
proof (induction c arbitrary: c')
  case Nil
  then show ?case by (cases c') auto
next
  case (Cons x xs)
  then show ?case by (cases c') auto
qed

lemma scope_fold:
  assumes "\<forall>i \<in> set items. P (fst i) (snd i) \<and> CHR ''/'' \<notin> set (gr_clusterId (fst i))"
    and "\<forall>(k, v) \<in> set checked. \<exists>c n. CHR ''/'' \<notin> set c \<and> k = c @ ''/'' @ n \<and> v = identity c n"
    and "s \<in> set (snd (foldl (scope_step identity c n) (checked, scopes) items))"
  shows "s \<in> set scopes \<or> (\<exists>g u m. P g (u, m) \<and> m \<noteq> [] \<and> sp_clusterId s = gr_clusterId g \<and> sp_namespace s = Some m
     \<and> identity (gr_clusterId g) m = Some u \<and> (sp_secrets s \<longleftrightarrow> ''secrets'' \<in> set (gr_capabilities g)))"
  using assms
proof (induction items arbitrary: checked scopes)
  case (Cons item items)
  obtain g u m where item: "item = (g, u, m)" by (cases item) auto
  let ?key = "gr_clusterId g @ ''/'' @ m"
  let ?checked = "if ?key \<in> fst ` set checked then checked else (?key, identity (gr_clusterId g) m) # checked"
  have g: "P g (u, m)" "CHR ''/'' \<notin> set (gr_clusterId g)" using Cons.prems(1) item by auto
  have rest: "\<forall>i \<in> set items. P (fst i) (snd i) \<and> CHR ''/'' \<notin> set (gr_clusterId (fst i))" using Cons.prems(1) by simp
  have ok: "\<forall>(k, v) \<in> set ?checked. \<exists>c n. CHR ''/'' \<notin> set c \<and> k = c @ ''/'' @ n \<and> v = identity c n"
    using Cons.prems(2) g(2) by auto
  have seen: "identity (gr_clusterId g) m = v" if "map_of ?checked ?key = Some v" for v
  proof -
    have "(?key, v) \<in> set ?checked" using that by (rule map_of_SomeD)
    then obtain c' n' where "CHR ''/'' \<notin> set c'" "?key = c' @ ''/'' @ n'" "v = identity c' n'" using ok by fast
    then show ?thesis using scope_key_inj [OF g(2), of c' m n'] by auto
  qed
  let ?new = "\<lparr>sp_clusterId = gr_clusterId g, sp_namespace = Some m, sp_namespaceUid = Some u, sp_secrets = (''secrets'' \<in> set (gr_capabilities g))\<rparr>"
  consider "scope_step identity c n (checked, scopes) item = (checked, scopes)"
    | "scope_step identity c n (checked, scopes) item = (?checked, scopes)"
    | "scope_step identity c n (checked, scopes) item = (?checked, scopes @ [?new])" "m \<noteq> []" "map_of ?checked ?key = Some (Some u)"
  proof -
    assume skip: "scope_step identity c n (checked, scopes) item = (checked, scopes) \<Longrightarrow> thesis"
      and miss: "scope_step identity c n (checked, scopes) item = (?checked, scopes) \<Longrightarrow> thesis"
      and hit: "scope_step identity c n (checked, scopes) item = (?checked, scopes @ [?new]) \<Longrightarrow> m \<noteq> [] \<Longrightarrow>
        map_of ?checked ?key = Some (Some u) \<Longrightarrow> thesis"
    show thesis
    proof (cases "(given c \<and> Some (gr_clusterId g) \<noteq> c) \<or> m = [] \<or> (given n \<and> Some m \<noteq> n)")
      case True
      then show thesis by (intro skip) (auto simp: scope_step_def item)
    next
      case False
      then have no: "\<not> (given c \<and> Some (gr_clusterId g) \<noteq> c)" "\<not> (m = [] \<or> (given n \<and> Some m \<noteq> n))" by auto
      have e: "scope_step identity c n (checked, scopes) item
          = (if map_of ?checked ?key \<noteq> Some (Some u) then (?checked, scopes) else (?checked, scopes @ [?new]))"
        unfolding scope_step_def item prod.case Let_def if_not_P [OF no(1)] if_not_P [OF no(2)] by (rule refl)
      show thesis
      proof (cases "map_of ?checked ?key = Some (Some u)")
        case True then show thesis using e False by (intro hit) simp_all
      next
        case False then show thesis using e by (intro miss) simp
      qed
    qed
  qed
  then show ?case
  proof cases
    case 1 then show ?thesis using Cons.IH [OF rest Cons.prems(2)] Cons.prems(3) by simp
  next
    case 2 then show ?thesis by (intro Cons.IH [OF rest ok]) (use Cons.prems(3) in \<open>simp only: foldl.simps\<close>)
  next
    case 3
    have "s \<in> set (scopes @ [?new]) \<or> (\<exists>g u m. P g (u, m) \<and> m \<noteq> [] \<and> sp_clusterId s = gr_clusterId g \<and> sp_namespace s = Some m
     \<and> identity (gr_clusterId g) m = Some u \<and> (sp_secrets s \<longleftrightarrow> ''secrets'' \<in> set (gr_capabilities g)))"
      by (rule Cons.IH [OF rest ok]) (use Cons.prems(3) 3(1) in \<open>simp only: foldl.simps\<close>)
    moreover have "P g (u, m) \<and> m \<noteq> [] \<and> sp_clusterId ?new = gr_clusterId g \<and> sp_namespace ?new = Some m
       \<and> identity (gr_clusterId g) m = Some u \<and> (sp_secrets ?new \<longleftrightarrow> ''secrets'' \<in> set (gr_capabilities g))"
      using seen [OF 3(3)] g(1) 3(2) by simp
    ultimately show ?thesis unfolding set_append Un_iff list.set insert_iff empty_iff by blast
  qed
qed simp

text \<open>Every scope handed to the queries is granted, when cluster ids hold no slash (they key the looked up UIDs).\<close>

lemma scopes_granted:
  assumes "resolveTopologyScopes db now identity deps (Some a) c n = Inr (Some scopes)" and "s \<in> set scopes"
    and "list_all (\<lambda>g. CHR ''/'' \<notin> set (gr_clusterId g)) (listEffectiveGrants db (or_empty (sj_id a)) now None)"
  shows "scope_granted db now identity a s"
proof -
  let ?gs = "listEffectiveGrants db (or_empty (sj_id a)) now None"
  obtain i where i: "sj_id a = Some i" "nonblank i"
    using assms(1) by (auto simp: resolveTopologyScopes_def split: option.splits if_splits)
  obtain ids where ids: "listAccessibleClusterIds db (Some a) = Inr (Some ids)"
      "s \<in> set (snd (foldl (scope_step identity (trimmed_opt c) (trimmed_opt n)) ([], map (\<lambda>i. \<lparr>sp_clusterId = i, sp_namespace = None,
         sp_namespaceUid = None, sp_secrets = False\<rparr>) (filter (\<lambda>i. \<not> given (trimmed_opt c) \<or> Some i = trimmed_opt c) ids)) (grant_scopes ?gs)))"
    using assms(1,2) i
    by (auto simp: resolveTopologyScopes_def Let_def listAccessibleClusterIds_def requireUserId_def or_empty_def nonblank_def split: if_splits)
  have "set ids \<subseteq> rb_clusterId ` set (bindings_of db (js_trim i))"
    using ids(1) i by (auto simp: listAccessibleClusterIds_def requireUserId_def split: if_splits)
  moreover have "\<forall>x \<in> set (grant_scopes ?gs). (fst x \<in> set ?gs \<and> snd x \<in> set (gr_scopes (fst x))) \<and> CHR ''/'' \<notin> set (gr_clusterId (fst x))"
    using assms(3) by (auto simp: grant_scopes_def list_all_iff)
  ultimately show ?thesis
    using scope_fold [where P = "\<lambda>g x. g \<in> set ?gs \<and> x \<in> set (gr_scopes g)", OF _ _ ids(2)] i
    unfolding scope_granted_def or_empty_def by fastforce
qed

text \<open>Who is not a platform administrator is always restricted.\<close>

lemma restricted_scopes:
  "resolveTopologyScopes db now identity deps (Some a) c n = Inr scopes \<Longrightarrow> \<not> isPlatformAdmin (Some a) \<Longrightarrow> \<exists>l. scopes = Some l"
  by (auto simp: resolveTopologyScopes_def Let_def rbind_Inr_iff split: if_splits option.splits)

end
