(* ===== verification/Kn_TopoRelations.thy ===== *)
theory Kn_TopoRelations
  imports Kn_Topo
begin

text \<open>
  Relations between the persisted resources: topology-graph/topology-relation.resolver.ts.

  The loop of \<open>resolve\<close> is the list of its calls of \<open>add\<close>, row by row and branch by branch in the
  order of the source, folded over the relations found so far.
\<close>

section \<open>References of a row\<close>

record named_ref =
  nf_kind :: string
  nf_name :: string
  nf_path :: string

definition ownerReferences :: "topo_env \<Rightarrow> persisted \<Rightarrow> named_ref list" where
  "ownerReferences env row = (let status = pr_statusJson row;
       references = map (\<lambda>v. (v, ''statusJson.ownerReferences'')) (asArray (field status ''ownerReferences''))
         @ map (\<lambda>v. (v, ''statusJson.metadata.ownerReferences'')) (asArray (field (field status ''metadata'') ''ownerReferences'')) in
     concat (map (\<lambda>(v, path). case (asString env (field (Some v) ''kind''), asString env (field (Some v) ''name'')) of
         (Some kind, Some name) \<Rightarrow> [\<lparr>nf_kind = kind, nf_name = name, nf_path = path\<rparr>] | _ \<Rightarrow> []) references))"

definition podTemplateSpec :: "string \<Rightarrow> json option \<Rightarrow> json option" where
  "podTemplateSpec kind spec =
     (if kind = ''Pod'' then asRecord spec
      else if kind = ''CronJob'' then asRecord (field (field (field (field spec ''jobTemplate'') ''spec'') ''template'') ''spec'')
      else asRecord (field (field spec ''template'') ''spec''))"

datatype ref_kind = Claim | ConfigMap | Secret | ServiceAccount

record config_ref =
  cf_kind :: ref_kind
  cf_name :: string
  cf_path :: string

definition ref_add :: "ref_kind \<Rightarrow> string option \<Rightarrow> string \<Rightarrow> config_ref list" where
  "ref_add kind name path = (case name of None \<Rightarrow> [] | Some n \<Rightarrow> [\<lparr>cf_kind = kind, cf_name = n, cf_path = path\<rparr>])"

definition projected_refs :: "topo_env \<Rightarrow> json \<Rightarrow> config_ref list" where
  "projected_refs env source =
     ref_add ConfigMap (asString env (field (field (Some source) ''configMap'') ''name''))
       ''spec.volumes[].projected.sources[].configMap.name''
     @ ref_add Secret (asString env (field (field (Some source) ''secret'') ''name''))
       ''spec.volumes[].projected.sources[].secret.name''"

definition volume_refs :: "topo_env \<Rightarrow> json \<Rightarrow> config_ref list" where
  "volume_refs env item =
     ref_add Claim (asString env (field (field (Some item) ''persistentVolumeClaim'') ''claimName''))
       ''spec.volumes[].persistentVolumeClaim.claimName''
     @ ref_add ConfigMap (asString env (field (field (Some item) ''configMap'') ''name'')) ''spec.volumes[].configMap.name''
     @ ref_add Secret (asString env (field (field (Some item) ''secret'') ''secretName'')) ''spec.volumes[].secret.secretName''
     @ concat (map (projected_refs env) (asArray (field (field (Some item) ''projected'') ''sources'')))"

definition env_refs :: "topo_env \<Rightarrow> json \<Rightarrow> config_ref list" where
  "env_refs env item = (let valueFrom = field (Some item) ''valueFrom'' in
     ref_add ConfigMap (asString env (field (field valueFrom ''configMapKeyRef'') ''name''))
       ''spec.containers[].env[].valueFrom.configMapKeyRef.name''
     @ ref_add Secret (asString env (field (field valueFrom ''secretKeyRef'') ''name''))
       ''spec.containers[].env[].valueFrom.secretKeyRef.name'')"

definition envFrom_refs :: "topo_env \<Rightarrow> json \<Rightarrow> config_ref list" where
  "envFrom_refs env item =
     ref_add ConfigMap (asString env (field (field (Some item) ''configMapRef'') ''name''))
       ''spec.containers[].envFrom[].configMapRef.name''
     @ ref_add Secret (asString env (field (field (Some item) ''secretRef'') ''name''))
       ''spec.containers[].envFrom[].secretRef.name''"

definition container_refs :: "topo_env \<Rightarrow> json \<Rightarrow> config_ref list" where
  "container_refs env item = concat (map (env_refs env) (asArray (field (Some item) ''env'')))
     @ concat (map (envFrom_refs env) (asArray (field (Some item) ''envFrom'')))"

definition workloadReferences :: "topo_env \<Rightarrow> persisted \<Rightarrow> config_ref list" where
  "workloadReferences env row = (let podSpec = podTemplateSpec (pr_kind row) (asRecord (pr_spec row)) in
     concat (map (volume_refs env) (asArray (field podSpec ''volumes'')))
     @ concat (map (container_refs env) (asArray (field podSpec ''containers'') @ asArray (field podSpec ''initContainers'')))
     @ ref_add ServiceAccount (asString env (field podSpec ''serviceAccountName'')) ''spec.serviceAccountName''
     @ concat (map (\<lambda>s. ref_add Secret (asString env (field (Some s) ''name'')) ''spec.imagePullSecrets[].name'')
         (asArray (field podSpec ''imagePullSecrets''))))"

section \<open>Endpoints, backends, parents and ports\<close>

datatype endpoint_target = ByName string string string | ByAddress string string

definition target_add :: "topo_env \<Rightarrow> json option \<Rightarrow> string \<Rightarrow> endpoint_target list" where
  "target_add env v path = (case (asString env (field v ''kind''), asString env (field v ''name'')) of
     (Some kind, Some name) \<Rightarrow> [ByName kind name path]
   | _ \<Rightarrow> (case asString env (field v ''ip'') of Some ip \<Rightarrow> [ByAddress ip path] | None \<Rightarrow> []))"

definition endpoint_refs :: "topo_env \<Rightarrow> json \<Rightarrow> endpoint_target list" where
  "endpoint_refs env endpoint = (let item = asRecord (Some endpoint); targetRef = field item ''targetRef'' in
     if truthy targetRef then target_add env targetRef ''spec.endpoints[].targetRef''
     else concat (map (\<lambda>a. case asString env (Some a) of Some ip \<Rightarrow> [ByAddress ip ''spec.endpoints[].addresses[]''] | None \<Rightarrow> [])
            (asArray (field item ''addresses'')))
       @ target_add env item ''spec.endpoints[].addresses[]'')"

definition address_refs :: "topo_env \<Rightarrow> json \<Rightarrow> endpoint_target list" where
  "address_refs env address = (let item = asRecord (Some address); targetRef = field item ''targetRef'' in
     target_add env (coalesce targetRef item)
       (if truthy targetRef then ''spec.subsets[].addresses[].targetRef'' else ''spec.subsets[].addresses[].ip''))"

definition subset_refs :: "topo_env \<Rightarrow> json \<Rightarrow> endpoint_target list" where
  "subset_refs env sub = concat (map (address_refs env)
     (asArray (field (Some sub) ''addresses'') @ asArray (field (Some sub) ''notReadyAddresses'')))"

definition endpointTargets :: "topo_env \<Rightarrow> persisted \<Rightarrow> endpoint_target list" where
  "endpointTargets env row =
     concat (map (endpoint_refs env) (asArray (field (pr_spec row) ''endpoints'')))
     @ concat (map (subset_refs env) (asArray (field (pr_spec row) ''subsets'')))"

definition podIpMatches :: "topo_env \<Rightarrow> persisted \<Rightarrow> string \<Rightarrow> bool" where
  "podIpMatches env pod ip \<longleftrightarrow> asString env (field (pr_statusJson pod) ''podIP'') = Some ip
     \<or> list_ex (\<lambda>item. asString env (field (Some item) ''ip'') = Some ip) (asArray (field (pr_statusJson pod) ''podIPs''))"

record backend_ref =
  bf_name :: string
  bf_path :: string
  bf_ports :: "string list"

definition backend_add :: "topo_env \<Rightarrow> json option \<Rightarrow> string \<Rightarrow> backend_ref list" where
  "backend_add env v path = (let backend = asRecord v; service = asRecord (field backend ''service'') in
     case or_else (asString env (field service ''name''))
            (or_else (asString env (field backend ''serviceName'')) (asString env (field backend ''name''))) of
       None \<Rightarrow> []
     | Some name \<Rightarrow> (let rawPort = coalesce (field service ''port'') (coalesce (field backend ''servicePort'') (field backend ''port''));
           portValue = or_else (asString env (field rawPort ''number''))
             (or_else (asString env (field rawPort ''name'')) (asString env rawPort)) in
         [\<lparr>bf_name = name, bf_path = path, bf_ports = (case portValue of None \<Rightarrow> [] | Some p \<Rightarrow> [p])\<rparr>]))"

definition serviceBackends :: "topo_env \<Rightarrow> persisted \<Rightarrow> backend_ref list" where
  "serviceBackends env row = (let spec = pr_spec row in
     backend_add env (field spec ''defaultBackend'') ''spec.defaultBackend''
     @ concat (map (\<lambda>rule. concat (map (\<lambda>p. backend_add env (field (Some p) ''backend'') ''spec.rules[].http.paths[].backend'')
         (asArray (field (field (Some rule) ''http'') ''paths'')))) (asArray (field spec ''rules'')))
     @ concat (map (\<lambda>route. concat (map (\<lambda>s. backend_add env (Some s) ''spec.routes[].services[]'')
         (asArray (field (Some route) ''services'')))) (asArray (field spec ''routes'')))
     @ concat (map (\<lambda>rule. concat (map (\<lambda>b. backend_add env (Some b) ''spec.rules[].backendRefs[]'')
         (asArray (field (Some rule) ''backendRefs'')))) (asArray (field spec ''rules''))))"

record parent_ref =
  pf_name :: string
  pf_namespace :: "string option"
  pf_path :: string

definition gatewayParents :: "topo_env \<Rightarrow> persisted \<Rightarrow> parent_ref list" where
  "gatewayParents env row = concat (map (\<lambda>v. case asString env (field (Some v) ''name'') of None \<Rightarrow> []
       | Some name \<Rightarrow> [\<lparr>pf_name = name, pf_namespace = asString env (field (Some v) ''namespace''), pf_path = ''spec.parentRefs[]''\<rparr>])
     (asArray (field (pr_spec row) ''parentRefs'')))"

definition servicePorts :: "topo_env \<Rightarrow> persisted \<Rightarrow> string list" where
  "servicePorts env row = concat (map (\<lambda>item. (let port = Some item; protocol = asString env (field port ''protocol'');
         target = asString env (field port ''targetPort'') in
       case asString env (field port ''port'') of None \<Rightarrow> []
       | Some value \<Rightarrow> (let text = (case target of Some t \<Rightarrow> value @ ''->'' @ t | None \<Rightarrow> value) in
           [case protocol of Some p \<Rightarrow> p @ '':'' @ text | None \<Rightarrow> text])))
     (asArray (field (pr_spec row) ''ports'')))"

section \<open>Matching\<close>

fun configRelationType :: "ref_kind \<Rightarrow> relation_type" where
  "configRelationType ConfigMap = USES_CONFIG"
| "configRelationType ServiceAccount = USES_SERVICE_ACCOUNT"
| "configRelationType _ = USES_SECRET"

fun ref_kind_text :: "ref_kind \<Rightarrow> string" where
  "ref_kind_text Claim = ''PVC''"
| "ref_kind_text ConfigMap = ''ConfigMap''"
| "ref_kind_text Secret = ''Secret''"
| "ref_kind_text ServiceAccount = ''ServiceAccount''"

definition findByKindAndName :: "(string \<times> persisted list) list \<Rightarrow> persisted \<Rightarrow> string \<Rightarrow> string \<Rightarrow> persisted list" where
  "findByKindAndName index row kind name = index_get index (kindNameKey (row\<lparr>pr_kind := kind, pr_name := name\<rparr>))"

definition findClusterScopedByKindAndName ::
  "(string \<times> persisted list) list \<Rightarrow> persisted \<Rightarrow> string list \<Rightarrow> string \<Rightarrow> persisted list" where
  "findClusterScopedByKindAndName index row kinds name =
     concat (map (\<lambda>kind. index_get index (kindNameKey (row\<lparr>pr_namespace := None, pr_kind := kind, pr_name := name\<rparr>))) kinds)"

definition isPersistentVolumeClaim :: "string \<Rightarrow> bool" where
  "isPersistentVolumeClaim kind \<longleftrightarrow> kind = ''PVC'' \<or> kind = ''PersistentVolumeClaim''"

definition isGatewayRoute :: "string \<Rightarrow> bool" where
  "isGatewayRoute kind \<longleftrightarrow> kind \<in> {''HTTPRoute'', ''GRPCRoute'', ''TCPRoute'', ''TLSRoute'', ''UDPRoute''}"

definition labelsMatch :: "topo_env \<Rightarrow> (string \<times> string) list \<Rightarrow> json option \<Rightarrow> bool" where
  "labelsMatch env selector labels \<longleftrightarrow>
     list_all (\<lambda>(k, v). text_field (asStringRecord env labels) k = Some v) selector"

definition selectorEvidence :: "(string \<times> string) list \<Rightarrow> string list" where
  "selectorEvidence selector = ''spec.selector'' # map (\<lambda>(k, v). ''selector:'' @ k @ ''='' @ v) selector"

definition confidenceFor :: "relation_type \<Rightarrow> rat" where
  "confidenceFor t = (if t \<in> {SELECTS, GOVERNS} then 9 / 10 else if t \<in> {RESOLVES, ROUTES_TO, ACCEPTS} then 98 / 100 else 1)"

section \<open>The calls of add\<close>

record rel_call =
  rc_from :: persisted
  rc_to :: persisted
  rc_label :: string
  rc_role :: relation_role
  rc_type :: relation_type
  rc_evidence :: "string list"
  rc_ports :: "string list"

definition call :: "persisted \<Rightarrow> persisted \<Rightarrow> string \<Rightarrow> relation_role \<Rightarrow> relation_type \<Rightarrow> string list \<Rightarrow> rel_call" where
  "call s t label role ty evidence = \<lparr>rc_from = s, rc_to = t, rc_label = label, rc_role = role, rc_type = ty,
     rc_evidence = evidence, rc_ports = []\<rparr>"

text \<open>What the loop looks up: the environment, the two indexes and the services with endpoint objects.\<close>

record topo_index =
  ti_env :: topo_env
  ti_byKindName :: "(string \<times> persisted list) list"
  ti_byKind :: "(string \<times> persisted list) list"
  ti_sliceServices :: "string list"
  ti_endpointServices :: "string list"

definition owner_calls :: "topo_index \<Rightarrow> persisted \<Rightarrow> rel_call list" where
  "owner_calls ix row = concat (map (\<lambda>ref. concat (map (\<lambda>owner.
       if sameNamespace row owner then [call owner row ''owns'' ROwner OWNS [nf_path ref]] else [])
     (findByKindAndName (ti_byKindName ix) row (nf_kind ref) (nf_name ref)))) (ownerReferences (ti_env ix) row))"

definition workload_calls :: "topo_index \<Rightarrow> persisted \<Rightarrow> rel_call list" where
  "workload_calls ix row = concat (map (\<lambda>ref. concat (map (\<lambda>target.
       if \<not> sameNamespace row target then []
       else if cf_kind ref = Claim then [call row target ''mounts'' RStorage MOUNTS [cf_path ref]]
       else [call row target ''uses'' RConfig (configRelationType (cf_kind ref)) [cf_path ref]])
     (findByKindAndName (ti_byKindName ix) row (ref_kind_text (cf_kind ref)) (cf_name ref)))) (workloadReferences (ti_env ix) row))"

definition pods :: "topo_index \<Rightarrow> persisted list" where
  "pods ix = index_get (ti_byKind ix) ''Pod''"

definition service_calls :: "topo_index \<Rightarrow> persisted \<Rightarrow> rel_call list" where
  "service_calls ix row = (let env = ti_env ix; key = serviceKey row (pr_name row) in
     case asStringRecord env (field (pr_spec row) ''selector'') of None \<Rightarrow> []
     | Some selector \<Rightarrow>
       (if key \<notin> set (ti_sliceServices ix) \<and> key \<notin> set (ti_endpointServices ix) \<and> selector \<noteq> []
        then concat (map (\<lambda>pod. if sameNamespace row pod \<and> labelsMatch env selector (pr_labels pod)
            then [(call row pod ''selects'' RNetwork SELECTS (selectorEvidence selector))\<lparr>rc_ports := servicePorts env row\<rparr>] else [])
          (pods ix))
        else []))"

definition published_by :: "topo_index \<Rightarrow> persisted \<Rightarrow> string \<Rightarrow> string \<Rightarrow> rel_call list" where
  "published_by ix row name evidence = concat (map (\<lambda>service.
       if sameNamespace row service then [call service row ''publishes'' RNetwork PUBLISHES [evidence]] else [])
     (findByKindAndName (ti_byKindName ix) row ''Service'' name))"

fun target_rows :: "topo_index \<Rightarrow> persisted \<Rightarrow> endpoint_target \<Rightarrow> persisted list" where
  "target_rows ix row (ByName kind name path) = findByKindAndName (ti_byKindName ix) row kind name"
| "target_rows ix row (ByAddress ip path) = filter (\<lambda>pod. sameNamespace row pod \<and> podIpMatches (ti_env ix) pod ip) (pods ix)"

fun target_path :: "endpoint_target \<Rightarrow> string" where
  "target_path (ByName kind name path) = path"
| "target_path (ByAddress ip path) = path"

definition resolved_calls :: "topo_index \<Rightarrow> persisted \<Rightarrow> rel_call list" where
  "resolved_calls ix row = concat (map (\<lambda>target. concat (map (\<lambda>workload.
       if sameNamespace row workload then [call row workload ''resolves'' RNetwork RESOLVES [target_path target]] else [])
     (target_rows ix row target))) (endpointTargets (ti_env ix) row))"

definition slice_service :: "topo_env \<Rightarrow> persisted \<Rightarrow> string option" where
  "slice_service env row = (case text_field (asStringRecord env (pr_labels row)) ''kubernetes.io/service-name'' of
     None \<Rightarrow> None | Some s \<Rightarrow> asString env (Some (JStr s)))"

definition slice_calls :: "topo_index \<Rightarrow> persisted \<Rightarrow> rel_call list" where
  "slice_calls ix row =
     (case slice_service (ti_env ix) row of None \<Rightarrow> []
      | Some name \<Rightarrow> published_by ix row name ''metadata.labels.kubernetes.io/service-name'')
     @ resolved_calls ix row"

definition endpoints_calls :: "topo_index \<Rightarrow> persisted \<Rightarrow> rel_call list" where
  "endpoints_calls ix row = published_by ix row (pr_name row) ''metadata.name''
     @ (if serviceKey row (pr_name row) \<in> set (ti_sliceServices ix) then [] else resolved_calls ix row)"

definition policy_calls :: "topo_index \<Rightarrow> persisted \<Rightarrow> rel_call list" where
  "policy_calls ix row = (let env = ti_env ix in
     case asStringRecord env (field (field (pr_spec row) ''podSelector'') ''matchLabels'') of None \<Rightarrow> []
     | Some selector \<Rightarrow> (if selector = [] then [] else concat (map (\<lambda>pod.
           if sameNamespace row pod \<and> labelsMatch env selector (pr_labels pod)
           then [call row pod ''governs'' RPolicy GOVERNS (selectorEvidence selector)] else []) (pods ix))))"

definition resolveServiceRoutes :: "topo_index \<Rightarrow> persisted \<Rightarrow> relation_role \<Rightarrow> rel_call list" where
  "resolveServiceRoutes ix row role = concat (map (\<lambda>backend. concat (map (\<lambda>service.
       if sameNamespace row service
       then [(call row service ''routes'' role ROUTES_TO [bf_path backend])\<lparr>rc_ports := bf_ports backend\<rparr>] else [])
     (findByKindAndName (ti_byKindName ix) row ''Service'' (bf_name backend)))) (serviceBackends (ti_env ix) row))"

definition class_calls :: "topo_index \<Rightarrow> persisted \<Rightarrow> rel_call list" where
  "class_calls ix row = (case asString (ti_env ix) (field (pr_spec row) ''gatewayClassName'') of None \<Rightarrow> []
     | Some name \<Rightarrow> concat (map (\<lambda>g. if pr_clusterId g = pr_clusterId row \<and> pr_name g = name
           then [call g row ''provisions'' RGateway PROVISIONS [''spec.gatewayClassName'']] else [])
         (index_get (ti_byKind ix) ''GatewayClass'')))"

definition parent_calls :: "topo_index \<Rightarrow> persisted \<Rightarrow> rel_call list" where
  "parent_calls ix row = concat (map (\<lambda>parent. concat (map (\<lambda>g.
       if pr_clusterId g = pr_clusterId row \<and> pr_name g = pf_name parent
          \<and> or_else (pf_namespace parent) (pr_namespace row) = pr_namespace g
       then [call g row ''accepts'' RGateway ACCEPTS [pf_path parent]] else [])
     (index_get (ti_byKind ix) ''Gateway''))) (gatewayParents (ti_env ix) row))"

definition claim_calls :: "topo_index \<Rightarrow> persisted \<Rightarrow> rel_call list" where
  "claim_calls ix row = (let env = ti_env ix; spec = pr_spec row;
       storageClass = or_else (asString env (field spec ''storageClassName'')) (pr_storageClass row) in
     (case asString env (field spec ''volumeName'') of None \<Rightarrow> []
      | Some v \<Rightarrow> map (\<lambda>pv. call row pv ''binds'' RStorage BINDS [''spec.volumeName''])
          (findClusterScopedByKindAndName (ti_byKindName ix) row [''PV'', ''PersistentVolume''] v))
     @ (case storageClass of None \<Rightarrow> []
      | Some c \<Rightarrow> (if c = [] then [] else map (\<lambda>item. call row item ''class'' RStorage USES_STORAGE_CLASS [''spec.storageClassName''])
          (findClusterScopedByKindAndName (ti_byKindName ix) row [''SC'', ''StorageClass''] c))))"

text \<open>
  One turn of the loop. A row of kind \<open>Endpoints\<close> that the source leaves with \<open>continue\<close> meets no
  later branch.
\<close>

definition row_calls :: "topo_index \<Rightarrow> topo_row \<Rightarrow> rel_call list" where
  "row_calls ix item = (let source = tr_source item; row = tr_row item; kind = pr_kind row in
     (if source = Workloads then owner_calls ix row @ workload_calls ix row else [])
     @ (if source = Network \<and> kind = ''Service'' then service_calls ix row else [])
     @ (if source = Network \<and> kind = ''EndpointSlice'' then slice_calls ix row else [])
     @ (if source = Network \<and> kind = ''Endpoints'' then endpoints_calls ix row else [])
     @ (if source = Network \<and> kind = ''NetworkPolicy'' then policy_calls ix row else [])
     @ (if source = Network \<and> (kind = ''Ingress'' \<or> kind = ''IngressRoute'') then resolveServiceRoutes ix row RNetwork else [])
     @ (if source = GatewayApi \<and> kind = ''Gateway'' then class_calls ix row else [])
     @ (if source = GatewayApi \<and> isGatewayRoute kind then parent_calls ix row @ resolveServiceRoutes ix row RGateway else [])
     @ (if source = Storage \<and> isPersistentVolumeClaim kind then claim_calls ix row else []))"

section \<open>Adding relations\<close>

text \<open>\<open>resources\<close> are pairs of id and record id; in the map a later resource replaces an earlier one.\<close>

definition resource_id :: "(string \<times> string) list \<Rightarrow> persisted \<Rightarrow> string option" where
  "resource_id resources row = map_of (rev (map (\<lambda>(i, r). (r, i)) resources)) (pr_id row)"

definition relation_id :: "relation_role \<Rightarrow> string \<Rightarrow> string \<Rightarrow> string" where
  "relation_id role s t = role_text role @ '':'' @ s @ ''->'' @ t"

definition add_relation :: "topo_env \<Rightarrow> (string \<times> string) list \<Rightarrow> topo_relation list \<Rightarrow> rel_call \<Rightarrow> topo_relation list" where
  "add_relation env resources relations c =
     (case (resource_id resources (rc_from c), resource_id resources (rc_to c)) of
        (Some s, Some t) \<Rightarrow>
          (if s = t then relations
           else (let i = relation_id (rc_role c) s t in
             if i \<in> tl_id ` set relations
             then map (\<lambda>r. if tl_id r = i then r\<lparr>tl_evidence := uniqueSorted env (tl_evidence r @ rc_evidence c),
                    tl_ports := uniqueSorted env (tl_ports r @ rc_ports c)\<rparr> else r) relations
             else relations @ [\<lparr>tl_id = i, tl_source = s, tl_target = t, tl_label = rc_label c, tl_role = rc_role c,
                    tl_type = rc_type c, tl_confidence = confidenceFor (rc_type c),
                    tl_evidence = uniqueSorted env (rc_evidence c), tl_ports = uniqueSorted env (rc_ports c)\<rparr>]))
      | _ \<Rightarrow> relations)"

definition slice_services :: "topo_env \<Rightarrow> topo_row list \<Rightarrow> string list" where
  "slice_services env rows = concat (map (\<lambda>item.
     if tr_source item = Network \<and> pr_kind (tr_row item) = ''EndpointSlice''
     then (case slice_service env (tr_row item) of None \<Rightarrow> [] | Some n \<Rightarrow> [serviceKey (tr_row item) n]) else []) rows)"

definition endpoint_services :: "topo_row list \<Rightarrow> string list" where
  "endpoint_services rows = concat (map (\<lambda>item.
     if tr_source item = Network \<and> pr_kind (tr_row item) = ''Endpoints''
     then [serviceKey (tr_row item) (pr_name (tr_row item))] else []) rows)"

definition topo_indexes :: "topo_env \<Rightarrow> topo_row list \<Rightarrow> topo_index" where
  "topo_indexes env rows = \<lparr>ti_env = env, ti_byKindName = index_rows kindNameKey (map tr_row rows),
     ti_byKind = index_rows pr_kind (map tr_row rows), ti_sliceServices = slice_services env rows,
     ti_endpointServices = endpoint_services rows\<rparr>"

definition relation_calls :: "topo_env \<Rightarrow> topo_row list \<Rightarrow> rel_call list" where
  "relation_calls env rows = concat (map (row_calls (topo_indexes env rows)) rows)"

definition resolveRelations :: "topo_env \<Rightarrow> topo_row list \<Rightarrow> (string \<times> string) list \<Rightarrow> topo_relation list" where
  "resolveRelations env rows resources =
     js_sort (\<lambda>a b. to_lc env (tl_id a) (tl_id b)) (foldl (add_relation env resources) [] (relation_calls env rows))"

definition resolveV2 :: "topo_env \<Rightarrow> topo_row list \<Rightarrow> (string \<times> string) list \<Rightarrow> topo_relation list" where
  "resolveV2 env rows resources = resolveRelations env rows resources"

text \<open>\<open>resolveLegacy\<close> drops type and confidence; the direction of every relation is outbound.\<close>

record legacy_relation =
  ll_id :: string
  ll_source :: string
  ll_target :: string
  ll_label :: string
  ll_role :: relation_role
  ll_evidence :: "string list"
  ll_ports :: "string list"

definition resolveLegacy :: "topo_env \<Rightarrow> topo_row list \<Rightarrow> (string \<times> string) list \<Rightarrow> legacy_relation list" where
  "resolveLegacy env rows resources = map (\<lambda>r. \<lparr>ll_id = tl_id r, ll_source = tl_source r, ll_target = tl_target r,
     ll_label = tl_label r, ll_role = tl_role r, ll_evidence = tl_evidence r, ll_ports = tl_ports r\<rparr>) (resolveRelations env rows resources)"

end
