(* ===== verification/Kn_TopoGraph.thy ===== *)
theory Kn_TopoGraph
  imports Kn_TopoScope Kn_TopoRelations
begin

text \<open>
  Building a topology graph: the projection of rows (topology-resource.projector.ts), the assembly
  of the answer (topology-graph.assembler.ts, topology-graph.capacity.ts), its cache
  (topology-graph-cache.service.ts) and the service (topology-graph.service.ts).

  The inventory tables are lists in one record, in the order the database returns rows. The cache is
  a map with the instant an entry expires; a look-up that fails is a cache that is not \<open>up\<close>. The
  latest health snapshot of a cluster is an argument. SHA-256 of the serialized inventory is the
  argument \<open>digest\<close>, and \<open>scope_text\<close> is \<open>JSON.stringify\<close> of a scope.
\<close>

section \<open>Projected resources\<close>

record topo_resource =
  tp_id :: string
  tp_recordId :: string
  tp_clusterId :: string
  tp_namespace :: "string option"
  tp_kind :: string
  tp_name :: string
  tp_source :: topo_source
  tp_status :: string
  tp_instanceName :: "string option"
  tp_nodeName :: "string option"
  tp_summary :: string
  tp_detailLines :: "string list"
  tp_tags :: "string list"
  tp_warnings :: nat

record topo_identity =
  te_clusterId :: string
  te_uid :: "string option"
  te_apiVersion :: "string option"
  te_resourceVersion :: "string option"
  te_kind :: string
  te_namespace :: "string option"
  te_name :: string

datatype freshness_status = Fresh | Stale | Unavailable_data

record topo_freshness =
  tf_status :: freshness_status
  tf_observedAt :: "time option"
  tf_ageMs :: "int option"
  tf_staleAfterMs :: int

record topo_v2 =
  tv_resource :: topo_resource
  tv_identity :: topo_identity
  tv_freshness :: topo_freshness

definition resolveStatus :: "topo_env \<Rightarrow> persisted \<Rightarrow> string" where
  "resolveStatus env row = (case or_else (asString env (field (pr_statusJson row) ''phase'')) (asString env (field (pr_statusJson row) ''state'')) of
     Some s \<Rightarrow> s | None \<Rightarrow> pr_state row)"

definition int_or_zero :: "int option \<Rightarrow> int" where
  "int_or_zero v = (case v of None \<Rightarrow> 0 | Some n \<Rightarrow> n)"

definition summaryFor :: "persisted \<Rightarrow> string \<Rightarrow> string" where
  "summaryFor row status = (case pr_replicas row of
       Some n \<Rightarrow> show_int (int_or_zero (pr_readyReplicas row)) @ ''/'' @ show_int n @ '' ready''
     | None \<Rightarrow> (if given (pr_capacity row) then or_empty (pr_capacity row)
         else if truthy (pr_dataKeys row) then show_nat (length (asArray (pr_dataKeys row))) @ '' keys''
         else status))"

definition detail_if :: "string \<Rightarrow> string option \<Rightarrow> string list" where
  "detail_if label v = (if given v then [label @ or_empty v] else [])"

definition detailLinesFor :: "persisted \<Rightarrow> string \<Rightarrow> string list" where
  "detailLinesFor row status = [''State: '' @ pr_state row, ''Status: '' @ status]
     @ (case pr_replicas row of None \<Rightarrow> []
        | Some n \<Rightarrow> [''Ready replicas: '' @ show_int (int_or_zero (pr_readyReplicas row)) @ ''/'' @ show_int n])
     @ detail_if ''Capacity: '' (pr_capacity row)
     @ detail_if ''Storage class: '' (pr_storageClass row)
     @ detail_if ''Binding mode: '' (pr_bindingMode row)
     @ (case pr_currentRev row of None \<Rightarrow> [] | Some n \<Rightarrow> [''Revision: '' @ show_int n])"

definition indexWarnings :: "topo_alert list \<Rightarrow> (string \<times> nat) list" where
  "indexWarnings alerts = count_by id (concat (map (\<lambda>a.
     if given (ta_clusterId a) \<and> given (ta_resourceType a) \<and> given (ta_resourceName a)
     then [warningKey (or_empty (ta_clusterId a)) (ta_namespace a) (or_empty (ta_resourceType a)) (or_empty (ta_resourceName a))]
     else []) alerts))"

definition toLegacyResource :: "topo_env \<Rightarrow> persisted \<Rightarrow> topo_source \<Rightarrow> (string \<times> nat) list \<Rightarrow> topo_resource" where
  "toLegacyResource env row source warnings = (let labels = asStringRecord env (pr_labels row); status = resolveStatus env row in
     \<lparr>tp_id = source_text source @ '':'' @ pr_id row, tp_recordId = pr_id row, tp_clusterId = pr_clusterId row,
      tp_namespace = pr_namespace row, tp_kind = pr_kind row, tp_name = pr_name row, tp_source = source, tp_status = status,
      tp_instanceName = or_else
        (Option.bind (text_field labels ''app.kubernetes.io/instance'') (\<lambda>s. asString env (Some (JStr s))))
        (Option.bind (text_field labels ''instance'') (\<lambda>s. asString env (Some (JStr s)))),
      tp_nodeName = asString env (field (pr_statusJson row) ''nodeName''),
      tp_summary = summaryFor row status, tp_detailLines = detailLinesFor row status,
      tp_tags = js_sort (to_lc env) (map (\<lambda>(k, v). k @ ''='' @ v) (case labels of None \<Rightarrow> [] | Some l \<Rightarrow> l)),
      tp_warnings = (case map_of warnings (warningKey (pr_clusterId row) (pr_namespace row) (pr_kind row) (pr_name row)) of
        None \<Rightarrow> 0 | Some n \<Rightarrow> n)\<rparr>)"

fun v2Source :: "topo_source \<Rightarrow> topo_source" where
  "v2Source GatewayApi = Network"
| "v2Source s = s"

definition projectLegacy :: "topo_env \<Rightarrow> topo_row list \<Rightarrow> (string \<times> nat) list \<Rightarrow> topo_resource list" where
  "projectLegacy env rows warnings = js_sort (\<lambda>a b. to_lc env (tp_id a) (tp_id b))
     (map (\<lambda>x. toLegacyResource env (tr_row x) (tr_source x) warnings) rows)"

definition v2_resource :: "topo_env \<Rightarrow> (string \<times> nat) list \<Rightarrow> topo_row \<Rightarrow> topo_v2" where
  "v2_resource env warnings x = (let row = tr_row x;
       metadata = or_else (asRecord (field (pr_statusJson row) ''metadata'')) (asRecord (field (pr_spec row) ''metadata'')) in
     \<lparr>tv_resource = toLegacyResource env row (v2Source (tr_source x)) warnings,
      tv_identity = \<lparr>te_clusterId = pr_clusterId row, te_uid = asString env (field metadata ''uid''),
        te_apiVersion = or_else (asString env (field (pr_statusJson row) ''apiVersion'')) (asString env (field (pr_spec row) ''apiVersion'')),
        te_resourceVersion = asString env (field metadata ''resourceVersion''), te_kind = pr_kind row,
        te_namespace = pr_namespace row, te_name = pr_name row\<rparr>,
      tv_freshness = \<lparr>tf_status = Fresh, tf_observedAt = pr_updatedAt row, tf_ageMs = None, tf_staleAfterMs = 0\<rparr>\<rparr>)"

definition v2_id :: "topo_v2 \<Rightarrow> string" where
  "v2_id r = tp_id (tv_resource r)"

definition projectV2 :: "topo_env \<Rightarrow> topo_row list \<Rightarrow> (string \<times> nat) list \<Rightarrow> topo_v2 list" where
  "projectV2 env rows warnings = js_sort (\<lambda>a b. to_lc env (v2_id a) (v2_id b)) (map (v2_resource env warnings) rows)"

section \<open>Assembly\<close>

definition LEGACY_SOURCES :: "topo_source list" where
  "LEGACY_SOURCES = [Workloads, Network, Storage, Configuration, GatewayApi]"

definition TOPOLOGY_V2_SOURCES :: "topo_source list" where
  "TOPOLOGY_V2_SOURCES = [Workloads, Network, Storage, Configuration]"

definition NODE_LIMIT :: nat where "NODE_LIMIT = 10000"
definition RELATION_LIMIT :: nat where "RELATION_LIMIT = 30000"

definition enforceTopologyGraphV2Capacity :: "nat \<Rightarrow> nat \<Rightarrow> unit res" where
  "enforceTopologyGraphV2Capacity nodes relations =
     guard (nodes \<le> NODE_LIMIT \<and> relations \<le> RELATION_LIMIT) (Internal ''Topology graph V2 capacity exceeded'')"

record legacy_graph =
  lg_resources :: "topo_resource list"
  lg_relations :: "legacy_relation list"
  lg_records :: "(topo_source \<times> nat) list"
  lg_warningRecords :: nat
  lg_timestamp :: time

definition assembleLegacy :: "topo_resource list \<Rightarrow> legacy_relation list \<Rightarrow> nat \<Rightarrow> time \<Rightarrow> legacy_graph" where
  "assembleLegacy resources relations warningRecords now =
     \<lparr>lg_resources = resources, lg_relations = relations,
      lg_records = map (\<lambda>s. (s, length (filter (\<lambda>r. tp_source r = s) resources))) LEGACY_SOURCES,
      lg_warningRecords = warningRecords, lg_timestamp = now\<rparr>"

record source_coverage =
  sc_records :: nat
  sc_complete :: bool
  sc_dataAsOf :: "time option"

record v2_graph =
  vg_clusterId :: string
  vg_revision :: string
  vg_generatedAt :: time
  vg_dataAsOf :: "time option"
  vg_freshness :: topo_freshness
  vg_resources :: "topo_v2 list"
  vg_relations :: "topo_relation list"
  vg_coverage :: "(topo_source \<times> source_coverage) list"
  vg_warningRecords :: nat

definition latestObservedAt :: "topo_row list \<Rightarrow> time option" where
  "latestObservedAt rows = foldl (\<lambda>latest x. case pr_updatedAt (tr_row x) of None \<Rightarrow> latest
     | Some v \<Rightarrow> (case latest of None \<Rightarrow> Some v | Some l \<Rightarrow> if l < v then Some v else latest)) None rows"

text \<open>A source that was not requested is \<open>unavailable\<close>; every other one is complete.\<close>

definition sourceCoverage :: "topo_source \<Rightarrow> topo_source list \<Rightarrow> topo_row list \<Rightarrow> source_coverage" where
  "sourceCoverage source enabled rows = (if source \<notin> set enabled
     then \<lparr>sc_records = 0, sc_complete = False, sc_dataAsOf = None\<rparr>
     else (let matching = filter (\<lambda>x. v2Source (tr_source x) = source) rows in
       \<lparr>sc_records = length matching, sc_complete = True, sc_dataAsOf = latestObservedAt matching\<rparr>))"

definition assembleV2 ::
  "string \<Rightarrow> topo_source list \<Rightarrow> topo_row list \<Rightarrow> topo_v2 list \<Rightarrow> topo_relation list \<Rightarrow> nat \<Rightarrow> time \<Rightarrow> string \<Rightarrow> v2_graph res" where
  "assembleV2 clusterId enabled rows resources relations warningRecords now revision =
     rbind (enforceTopologyGraphV2Capacity (length resources) (length relations)) (\<lambda>_.
       let dataAsOf = latestObservedAt rows in
       Inr \<lparr>vg_clusterId = clusterId, vg_revision = revision, vg_generatedAt = now, vg_dataAsOf = dataAsOf,
         vg_freshness = \<lparr>tf_status = (if dataAsOf = None then Unavailable_data else Fresh), tf_observedAt = dataAsOf,
           tf_ageMs = None, tf_staleAfterMs = 0\<rparr>,
         vg_resources = resources, vg_relations = relations,
         vg_coverage = map (\<lambda>s. (s, sourceCoverage s enabled rows)) TOPOLOGY_V2_SOURCES,
         vg_warningRecords = warningRecords\<rparr>)"

end
