(* ===== verification/Kn_TopoService.thy ===== *)
theory Kn_TopoService
  imports Kn_TopoGraph
begin

text \<open>
  The service of the topology graph: topology-graph/topology-graph.service.ts with its cache
  (topology-graph-cache.service.ts).
\<close>

section \<open>The inventory\<close>

record topo_db =
  td_workloads :: "persisted list"
  td_network :: "persisted list"
  td_storage :: "persisted list"
  td_configs :: "persisted list"
  td_alerts :: "topo_alert list"
  td_access :: access_db

text \<open>The columns each query selects: the others are missing from its rows.\<close>

definition select_workload :: "persisted \<Rightarrow> persisted" where
  "select_workload r = r\<lparr>pr_capacity := None, pr_storageClass := None, pr_bindingMode := None, pr_dataKeys := None, pr_currentRev := None\<rparr>"

definition select_network :: "persisted \<Rightarrow> persisted" where
  "select_network r = (select_workload r)\<lparr>pr_replicas := None, pr_readyReplicas := None\<rparr>"

definition select_storage :: "persisted \<Rightarrow> persisted" where
  "select_storage r = r\<lparr>pr_labels := None, pr_replicas := None, pr_readyReplicas := None, pr_dataKeys := None, pr_currentRev := None\<rparr>"

definition select_config :: "persisted \<Rightarrow> persisted" where
  "select_config r = r\<lparr>pr_spec := None, pr_statusJson := None, pr_replicas := None, pr_readyReplicas := None, pr_capacity := None,
     pr_storageClass := None, pr_bindingMode := None\<rparr>"

definition networkSource :: "string \<Rightarrow> topo_source" where
  "networkSource kind = (if kind \<in> {''GatewayClass'', ''Gateway'', ''HTTPRoute'', ''GRPCRoute'', ''TCPRoute'', ''TLSRoute'', ''UDPRoute''}
     then GatewayApi else Network)"

definition row_where :: "topo_db \<Rightarrow> string list \<Rightarrow> string option \<Rightarrow> persisted \<Rightarrow> bool" where
  "row_where db clusterIds namespace r \<longleftrightarrow> pr_clusterId r \<in> set clusterIds \<and> pr_state r \<noteq> ''deleted''
     \<and> live_cluster (td_access db) (pr_clusterId r) \<and> (given namespace \<longrightarrow> pr_namespace r = namespace)"

definition rows_from :: "(persisted \<Rightarrow> bool) \<Rightarrow> (persisted \<Rightarrow> topo_source) \<Rightarrow> (persisted \<Rightarrow> persisted) \<Rightarrow> persisted list \<Rightarrow> topo_row list" where
  "rows_from p source select table = map (\<lambda>r. \<lparr>tr_source = source r, tr_row = select r\<rparr>) (filter p table)"

definition alert_where :: "string list \<Rightarrow> string option \<Rightarrow> topo_scope list option \<Rightarrow> topo_alert \<Rightarrow> bool" where
  "alert_where clusterIds namespace scopes a \<longleftrightarrow> (case ta_clusterId a of None \<Rightarrow> False | Some c \<Rightarrow> c \<in> set clusterIds)
     \<and> ta_status a = ''firing'' \<and> ta_severity a \<in> {''warning'', ''critical''}
     \<and> (given namespace \<longrightarrow> ta_namespace a = namespace) \<and> alertScopeWhere scopes a"

definition loadRows ::
  "topo_db \<Rightarrow> string list \<Rightarrow> string option \<Rightarrow> topo_source list \<Rightarrow> topo_scope list option \<Rightarrow> topo_row list \<times> topo_alert list" where
  "loadRows db clusterIds namespace enabled scopes =
     (let where = (\<lambda>target r. row_where db clusterIds namespace r \<and> topologyScopeWhere scopes target r) in
      ((if Workloads \<in> set enabled then rows_from (where Resources) (\<lambda>_. Workloads) select_workload (td_workloads db) else [])
       @ (if Network \<in> set enabled \<or> GatewayApi \<in> set enabled
          then rows_from (where Resources) (\<lambda>r. networkSource (pr_kind r)) select_network (td_network db) else [])
       @ (if Storage \<in> set enabled then rows_from (where Resources) (\<lambda>_. Storage) select_storage (td_storage db) else [])
       @ (if Configuration \<in> set enabled
          then rows_from (where ConfigTarget) (\<lambda>_. Configuration) select_config (td_configs db) else []),
       filter (alert_where clusterIds namespace scopes) (td_alerts db)))"

section \<open>Collapsing the ReplicaSets of a Deployment\<close>

definition owner_values :: "persisted \<Rightarrow> json list" where
  "owner_values row = asArray (field (pr_statusJson row) ''ownerReferences'')
     @ asArray (field (field (pr_statusJson row) ''metadata'') ''ownerReferences'')"

definition hasDeploymentOwner :: "topo_env \<Rightarrow> persisted \<Rightarrow> bool" where
  "hasDeploymentOwner env row \<longleftrightarrow> list_ex (\<lambda>v. asString env (field (Some v) ''kind'') = Some ''Deployment'') (owner_values row)"

definition deployment_key :: "persisted \<Rightarrow> string \<Rightarrow> string" where
  "deployment_key row name = pr_clusterId row @ NUL @ or_empty (pr_namespace row) @ NUL @ name"

definition deployments :: "topo_row list \<Rightarrow> string list" where
  "deployments rows = map (\<lambda>x. deployment_key (tr_row x) (pr_name (tr_row x)))
     (filter (\<lambda>x. tr_source x = Workloads \<and> pr_kind (tr_row x) = ''Deployment'') rows)"

text \<open>\<open>Number(text)\<close>, zero unless finite; \<open>Number(null)\<close> is zero.\<close>

definition finite_number :: "topo_env \<Rightarrow> string option \<Rightarrow> rat" where
  "finite_number env s = (case s of None \<Rightarrow> 0 | Some t \<Rightarrow> (case to_parse env t of Fin q \<Rightarrow> q | _ \<Rightarrow> 0))"

definition replicaSetRevision :: "topo_env \<Rightarrow> persisted \<Rightarrow> rat" where
  "replicaSetRevision env row = (let status = pr_statusJson row;
       annotations = or_else (asRecord (field (field status ''metadata'') ''annotations'')) (asRecord (field status ''annotations'')) in
     finite_number env (asString env (field annotations ''deployment.kubernetes.io/revision'')))"

text \<open>\<open>Date.parse(String(date))\<close>: the text of a date has whole seconds.\<close>

definition whole_seconds :: "time option \<Rightarrow> int" where
  "whole_seconds t = (case t of None \<Rightarrow> 0 | Some v \<Rightarrow> v div 1000 * 1000)"

definition compareReplicaSets :: "topo_env \<Rightarrow> persisted \<Rightarrow> persisted \<Rightarrow> int" where
  "compareReplicaSets env l r =
    (let lr = replicaSetRevision env l; rr = replicaSetRevision env r;
         lready = int_or_zero (pr_readyReplicas l); rready = int_or_zero (pr_readyReplicas r);
         ln = int_or_zero (pr_replicas l); rn = int_or_zero (pr_replicas r);
         lt = whole_seconds (pr_updatedAt l); rt = whole_seconds (pr_updatedAt r) in
     if lr \<noteq> rr then (if rr < lr then -1 else 1)
     else if lready \<noteq> rready then rready - lready
     else if ln \<noteq> rn then rn - ln
     else if lt \<noteq> rt then rt - lt
     else to_lc env (pr_name r) (pr_name l))"

definition rs_candidates :: "topo_env \<Rightarrow> topo_row list \<Rightarrow> (string \<times> persisted) list" where
  "rs_candidates env rows = concat (map (\<lambda>x.
     if tr_source x \<noteq> Workloads \<or> pr_kind (tr_row x) \<noteq> ''ReplicaSet'' then []
     else concat (map (\<lambda>v. if asString env (field (Some v) ''kind'') \<noteq> Some ''Deployment'' then []
         else (case asString env (field (Some v) ''name'') of None \<Rightarrow> []
           | Some name \<Rightarrow> (if deployment_key (tr_row x) name \<in> set (deployments rows)
               then [(deployment_key (tr_row x) name, tr_row x)] else [])))
       (owner_values (tr_row x)))) rows)"

definition retained_sets :: "topo_env \<Rightarrow> topo_row list \<Rightarrow> string list" where
  "retained_sets env rows = concat (map (\<lambda>(k, list).
       case js_sort (compareReplicaSets env) (map snd list) of [] \<Rightarrow> [] | r # _ \<Rightarrow> [pr_id r])
     (index_rows fst (rs_candidates env rows)))"

definition collapseDeploymentReplicaSets :: "topo_env \<Rightarrow> topo_row list \<Rightarrow> topo_row list" where
  "collapseDeploymentReplicaSets env rows = filter (\<lambda>x. tr_source x \<noteq> Workloads \<or> pr_kind (tr_row x) \<noteq> ''ReplicaSet''
     \<or> \<not> hasDeploymentOwner env (tr_row x) \<or> pr_id (tr_row x) \<in> set (retained_sets env rows)) rows"

section \<open>Sources, revision and cache\<close>

definition source_of_text :: "string \<Rightarrow> topo_source option" where
  "source_of_text s = find (\<lambda>x. source_text x = s) LEGACY_SOURCES"

definition normalizeLegacySources :: "string list option \<Rightarrow> topo_source list" where
  "normalizeLegacySources sources = (let requested = js_unique (concat (map (\<lambda>s. case source_of_text s of None \<Rightarrow> [] | Some x \<Rightarrow> [x])
       (case sources of None \<Rightarrow> [] | Some l \<Rightarrow> l))) in
     if requested = [] then LEGACY_SOURCES else requested)"

definition normalizeV2Sources :: "string list option \<Rightarrow> topo_source list" where
  "normalizeV2Sources sources = (let requested = js_unique (concat (map (\<lambda>s. case source_of_text s of None \<Rightarrow> [] | Some x \<Rightarrow> [v2Source x])
       (case sources of None \<Rightarrow> [] | Some l \<Rightarrow> l))) in
     if requested = [] then TOPOLOGY_V2_SOURCES else requested)"

type_synonym revision_part = "(nat \<times> time option) option"

record revision_payload =
  vp_clusterId :: string
  vp_namespace :: "string option"
  vp_sources :: "topo_source list"
  vp_scopes :: "string list option"
  vp_workloads :: revision_part
  vp_network :: revision_part
  vp_storage :: revision_part
  vp_configuration :: revision_part
  vp_alerts :: revision_part

text \<open>What the digest, the sorting of texts and the serialization of a scope are.\<close>

record service_env =
  se_topo :: topo_env
  se_digest :: "revision_payload \<Rightarrow> string"
  se_scopeText :: "topo_scope \<Rightarrow> string"
  se_sort :: "string list \<Rightarrow> string list"
  se_encode :: "string \<Rightarrow> string"
  se_deps :: bool
  se_staleAfterMs :: int
  se_ttlSeconds :: int

definition latest_time :: "time option list \<Rightarrow> time option" where
  "latest_time ts = foldl (\<lambda>a t. case (a, t) of (None, _) \<Rightarrow> t | (_, None) \<Rightarrow> a | (Some x, Some y) \<Rightarrow> Some (max x y)) None ts"

definition aggregateRevision :: "time option list \<Rightarrow> nat \<times> time option" where
  "aggregateRevision ts = (length ts, latest_time ts)"

definition revision_of :: "bool \<Rightarrow> (persisted \<Rightarrow> bool) \<Rightarrow> persisted list \<Rightarrow> revision_part" where
  "revision_of enabled p table = (if enabled then Some (aggregateRevision (map pr_updatedAt (filter p table))) else None)"

definition sort_sources :: "topo_source list \<Rightarrow> topo_source list" where
  "sort_sources xs = filter (\<lambda>s. s \<in> set xs) [Configuration, GatewayApi, Network, Storage, Workloads]"

definition inventory_payload ::
  "service_env \<Rightarrow> topo_db \<Rightarrow> string \<Rightarrow> string option \<Rightarrow> topo_source list \<Rightarrow> topo_scope list option \<Rightarrow> revision_payload" where
  "inventory_payload env db clusterId namespace enabled scopes =
     (let where = (\<lambda>target r. row_where db [clusterId] namespace r \<and> topologyScopeWhere scopes target r) in
      \<lparr>vp_clusterId = clusterId, vp_namespace = namespace, vp_sources = sort_sources enabled,
       vp_scopes = map_option (\<lambda>l. se_sort env (map (se_scopeText env) l)) scopes,
       vp_workloads = revision_of (Workloads \<in> set enabled) (where Resources) (td_workloads db),
       vp_network = revision_of (Network \<in> set enabled) (where Resources) (td_network db),
       vp_storage = revision_of (Storage \<in> set enabled) (where Resources) (td_storage db),
       vp_configuration = revision_of (Configuration \<in> set enabled) (where ConfigTarget) (td_configs db),
       vp_alerts = Some (aggregateRevision (map (\<lambda>a. Some (ta_updatedAt a)) (filter (alert_where [clusterId] namespace scopes) (td_alerts db))))\<rparr>)"

definition loadInventoryRevision ::
  "service_env \<Rightarrow> topo_db \<Rightarrow> string \<Rightarrow> string option \<Rightarrow> topo_source list \<Rightarrow> topo_scope list option \<Rightarrow> string" where
  "loadInventoryRevision env db clusterId namespace enabled scopes =
     ''sha256:'' @ se_digest env (inventory_payload env db clusterId namespace enabled scopes)"

fun join_text :: "string \<Rightarrow> string list \<Rightarrow> string" where
  "join_text sep [] = []"
| "join_text sep [x] = x"
| "join_text sep (x # xs) = x @ sep @ join_text sep xs"

definition v2CacheKey :: "service_env \<Rightarrow> string \<Rightarrow> string option \<Rightarrow> topo_source list \<Rightarrow> string \<Rightarrow> string" where
  "v2CacheKey env clusterId namespace sources revision = join_text '':'' [''kubenova'', ''topology'', ''v2'',
     se_encode env clusterId, se_encode env (case namespace of None \<Rightarrow> ''*'' | Some n \<Rightarrow> n),
     join_text '','' (map source_text (sort_sources sources)), revision]"

definition boundedInteger :: "jsnum \<Rightarrow> int \<Rightarrow> int \<Rightarrow> int \<Rightarrow> int" where
  "boundedInteger parsed fallback minimum maximum = (case parsed of
     Fin q \<Rightarrow> min maximum (max minimum (if q < 0 then \<lceil>q\<rceil> else \<lfloor>q\<rfloor>)) | _ \<Rightarrow> fallback)"

type_synonym graph_cache = "(string \<times> v2_graph \<times> time) list"

definition cache_get :: "bool \<Rightarrow> time \<Rightarrow> string \<Rightarrow> graph_cache \<Rightarrow> v2_graph option" where
  "cache_get up now key cache = (if \<not> up then None else
     (case map_of cache key of None \<Rightarrow> None | Some (g, expires) \<Rightarrow> (if now < expires then Some g else None)))"

definition cache_set :: "service_env \<Rightarrow> bool \<Rightarrow> time \<Rightarrow> string \<Rightarrow> v2_graph \<Rightarrow> graph_cache \<Rightarrow> graph_cache" where
  "cache_set env up now key g cache = (if up then (key, g, now + se_ttlSeconds env * 1000) # cache else cache)"

section \<open>Freshness\<close>

definition ageOf :: "time option \<Rightarrow> time \<Rightarrow> int option" where
  "ageOf observedAt now = map_option (\<lambda>t. max 0 (now - t)) observedAt"

text \<open>\<open>health\<close>: whether the latest snapshot is good, and when it was taken.\<close>

definition graph_status :: "service_env \<Rightarrow> time \<Rightarrow> v2_graph \<Rightarrow> (bool \<times> time option) option \<Rightarrow> freshness_status" where
  "graph_status env now g health = (let ageMs = ageOf (vg_dataAsOf g) now;
       healthAgeMs = ageOf (Option.bind health snd) now;
       old = (\<lambda>a. case a of None \<Rightarrow> True | Some n \<Rightarrow> se_staleAfterMs env < n) in
     if vg_resources g = [] then Unavailable_data
     else if (case health of None \<Rightarrow> True | Some (ok, _) \<Rightarrow> \<not> ok) \<or> old healthAgeMs \<or> old ageMs then Stale else Fresh)"

definition decorateFreshness :: "service_env \<Rightarrow> time \<Rightarrow> v2_graph \<Rightarrow> (bool \<times> time option) option \<Rightarrow> v2_graph" where
  "decorateFreshness env now g health = (let status = graph_status env now g health in
     g\<lparr>vg_freshness := \<lparr>tf_status = status, tf_observedAt = vg_dataAsOf g, tf_ageMs = ageOf (vg_dataAsOf g) now,
         tf_staleAfterMs = se_staleAfterMs env\<rparr>,
       vg_resources := map (\<lambda>r. r\<lparr>tv_freshness := \<lparr>tf_status = status, tf_observedAt = tf_observedAt (tv_freshness r),
         tf_ageMs = ageOf (tf_observedAt (tv_freshness r)) now, tf_staleAfterMs = se_staleAfterMs env\<rparr>\<rparr>) (vg_resources g)\<rparr>)"

section \<open>The two queries\<close>

record topo_query =
  tq_clusterId :: "string option"
  tq_namespace :: "string option"
  tq_sources :: "string list option"

definition build_graph ::
  "service_env \<Rightarrow> topo_db \<Rightarrow> time \<Rightarrow> string \<Rightarrow> string option \<Rightarrow> topo_source list \<Rightarrow> topo_scope list option \<Rightarrow> string \<Rightarrow> v2_graph res" where
  "build_graph env db now clusterId namespace enabled scopes revision =
     (let legacySources = enabled @ (if Network \<in> set enabled then [GatewayApi] else []) in
      case loadRows db [clusterId] namespace legacySources scopes of (rows, alerts) \<Rightarrow>
        (let topologyRows = collapseDeploymentReplicaSets (se_topo env) rows;
             resources = projectV2 (se_topo env) topologyRows (indexWarnings alerts);
             relations = resolveV2 (se_topo env) topologyRows (map (\<lambda>r. (v2_id r, tp_recordId (tv_resource r))) resources) in
         assembleV2 clusterId enabled topologyRows resources relations (length alerts) now revision))"

definition nonempty_opt :: "string option \<Rightarrow> string option" where
  "nonempty_opt s = (if given s then s else None)"

text \<open>
  \<open>getGraphV2\<close> with the cache before and after. \<open>actor\<close> is \<open>None\<close> for the callers inside the service.
\<close>

definition getGraphV2 ::
  "service_env \<Rightarrow> (string \<Rightarrow> string \<Rightarrow> string option) \<Rightarrow> topo_db \<Rightarrow> time \<Rightarrow> bool \<Rightarrow> (bool \<times> time option) option
     \<Rightarrow> topo_query \<Rightarrow> subject option \<Rightarrow> graph_cache \<Rightarrow> v2_graph res \<times> graph_cache" where
  "getGraphV2 env identity db now up health q actor cache =
     (let clusterId = trimmed_opt (tq_clusterId q) in
      if \<not> given clusterId then (Inl (BadRequest ''clusterId is required for a single-cluster topology graph''), cache)
      else (let c = or_empty clusterId; enabled = normalizeV2Sources (tq_sources q);
                namespace = nonempty_opt (trimmed_opt (tq_namespace q)) in
        case resolveTopologyScopes (td_access db) now identity (se_deps env) actor (Some c) namespace of
          Inl e \<Rightarrow> (Inl e, cache)
        | Inr scopes \<Rightarrow> (let revision = loadInventoryRevision env db c namespace enabled scopes;
              key = v2CacheKey env c namespace enabled revision in
            case cache_get up now key cache of
              Some g \<Rightarrow> (Inr (decorateFreshness env now g health), cache)
            | None \<Rightarrow> (case build_graph env db now c namespace enabled scopes revision of
                Inl e \<Rightarrow> (Inl e, cache)
              | Inr g \<Rightarrow> (Inr (decorateFreshness env now g health), cache_set env up now key g cache)))))"

text \<open>\<open>readable\<close> is what the cluster health service answers for the query: the clusters that may be read, or its error.\<close>

definition getGraph ::
  "service_env \<Rightarrow> (string \<Rightarrow> string \<Rightarrow> string option) \<Rightarrow> topo_db \<Rightarrow> time \<Rightarrow> string list res \<Rightarrow> topo_query \<Rightarrow> subject \<Rightarrow> legacy_graph res" where
  "getGraph env identity db now readable q actor =
     rbind (resolveTopologyScopes (td_access db) now identity (se_deps env) (Some actor) (tq_clusterId q) (tq_namespace q)) (\<lambda>scopes.
     rbind readable (\<lambda>ids.
       let clusterIds = filter (\<lambda>i. case scopes of None \<Rightarrow> True | Some l \<Rightarrow> list_ex (\<lambda>s. sp_clusterId s = i) l) ids in
       if clusterIds = [] then Inr (assembleLegacy [] [] 0 now)
       else (case loadRows db clusterIds (tq_namespace q) (normalizeLegacySources (tq_sources q)) scopes of (rows, alerts) \<Rightarrow>
         (let topologyRows = collapseDeploymentReplicaSets (se_topo env) rows;
              resources = projectLegacy (se_topo env) topologyRows (indexWarnings alerts) in
          Inr (assembleLegacy resources
            (resolveLegacy (se_topo env) topologyRows (map (\<lambda>r. (tp_id r, tp_recordId r)) resources)) (length alerts) now)))))"

end
