(* ===== verification/Kn_TopoExamples.thy ===== *)
theory Kn_TopoExamples
  imports Kn_TopoService
begin

text \<open>A small inventory and environment on which the witnesses of the topology properties run.\<close>

definition ex_topo :: topo_env where
  "ex_topo = \<lparr>to_lc = (\<lambda>a b. int (length a) - int (length b)), to_num = (\<lambda>n. ''number''), to_parse = (\<lambda>s. Fin 0)\<rparr>"

definition ex_persisted :: "string \<Rightarrow> string \<Rightarrow> string \<Rightarrow> json option \<Rightarrow> json option \<Rightarrow> persisted" where
  "ex_persisted i kind name spec labels = \<lparr>pr_id = i, pr_clusterId = ''c1'', pr_namespace = Some ''team'', pr_kind = kind,
     pr_name = name, pr_state = ''active'', pr_spec = spec, pr_statusJson = None, pr_labels = labels, pr_replicas = None,
     pr_readyReplicas = None, pr_capacity = None, pr_storageClass = None, pr_bindingMode = None, pr_dataKeys = None,
     pr_currentRev = None, pr_updatedAt = Some 5\<rparr>"

definition ex_labels :: json where "ex_labels = JObj [(''app'', JStr ''web'')]"

definition ex_pod :: persisted where "ex_pod = ex_persisted ''p1'' ''Pod'' ''web-1'' None (Some ex_labels)"

definition ex_service :: persisted where
  "ex_service = ex_persisted ''s1'' ''Service'' ''web'' (Some (JObj [(''selector'', ex_labels)])) None"

definition ex_topo_rows :: "topo_row list" where
  "ex_topo_rows = [\<lparr>tr_source = Workloads, tr_row = ex_pod\<rparr>, \<lparr>tr_source = Network, tr_row = ex_service\<rparr>]"

definition ex_resources :: "(string \<times> string) list" where
  "ex_resources = [(''workloads:p1'', ''p1''), (''network:s1'', ''s1'')]"

definition ex_access :: access_db where
  "ex_access = \<lparr>az_grants = [\<lparr>gr_id = ''g1'', gr_userId = Some ''u1'', gr_groupId = None, gr_clusterId = ''c1'', gr_role = ''viewer'',
       gr_state = ''active'', gr_validFrom = 0, gr_expiresAt = None, gr_revokedAt = None, gr_scopes = [(''uid1'', ''team'')],
       gr_capabilities = [''logs'']\<rparr>],
     az_memberships = [], az_clusters = [\<lparr>rc_id = ''c1'', rc_deletedAt = None, rc_status = ''ready''\<rparr>], az_bindings = [],
     az_bindingTable = True, az_authorization = True\<rparr>"

definition ex_topo_db :: topo_db where
  "ex_topo_db = \<lparr>td_workloads = [ex_pod], td_network = [ex_service], td_storage = [],
     td_configs = [ex_persisted ''k1'' ''Secret'' ''token'' None None, ex_persisted ''k2'' ''ConfigMap'' ''conf'' None None],
     td_alerts = [], td_access = ex_access\<rparr>"

definition ex_uid :: "string \<Rightarrow> string \<Rightarrow> string option" where
  "ex_uid c n = (if c = ''c1'' \<and> n = ''team'' then Some ''uid1'' else None)"

definition ex_reader :: subject where "ex_reader = \<lparr>sj_id = Some ''u1'', sj_role = Some ''user''\<rparr>"

text \<open>An injective text of a list of texts.\<close>

definition ex_word :: "string \<Rightarrow> string" where
  "ex_word s = concat (map (\<lambda>c. [CHR ''a'', c]) s)"

definition ex_text :: "string list \<Rightarrow> string" where
  "ex_text ss = concat (map (\<lambda>s. ex_word s @ ''b'') ss)"

lemma ex_word_split: "ex_word s @ CHR ''b'' # u = ex_word t @ CHR ''b'' # v \<Longrightarrow> s = t \<and> u = v"
proof (induction s arbitrary: t)
  case Nil then show ?case by (cases t) (auto simp: ex_word_def)
next
  case (Cons c s) then show ?case by (cases t) (auto simp: ex_word_def)
qed

lemma ex_text_inj: "ex_text ss = ex_text ts \<Longrightarrow> ss = ts"
proof (induction ss arbitrary: ts)
  case Nil then show ?case by (cases ts) (auto simp: ex_text_def)
next
  case (Cons s ss)
  then obtain t ts' where t: "ts = t # ts'" by (cases ts) (auto simp: ex_text_def)
  then have "ex_word s @ CHR ''b'' # ex_text ss = ex_word t @ CHR ''b'' # ex_text ts'" using Cons.prems by (simp add: ex_text_def)
  then show ?case using ex_word_split Cons.IH t by blast
qed

definition ex_option :: "string option \<Rightarrow> string" where
  "ex_option s = (case s of None \<Rightarrow> [] | Some t \<Rightarrow> CHR ''x'' # t)"

definition ex_service_env :: service_env where
  "ex_service_env = \<lparr>se_topo = ex_topo, se_digest = (\<lambda>p. case vp_scopes p of None \<Rightarrow> [] | Some l \<Rightarrow> CHR ''s'' # ex_text l),
     se_scopeText = (\<lambda>s. ex_text [sp_clusterId s, ex_option (sp_namespace s), ex_option (sp_namespaceUid s),
        if sp_secrets s then ''1'' else ''0'']),
     se_sort = (\<lambda>xs. xs), se_encode = filter (\<lambda>c. c \<noteq> CHR '':''), se_deps = True, se_staleAfterMs = 900000, se_ttlSeconds = 300\<rparr>"

definition ex_query :: topo_query where
  "ex_query = \<lparr>tq_clusterId = Some ''c1'', tq_namespace = None, tq_sources = None\<rparr>"

end
