(* ===== verification/Kn_TopoProps.thy ===== *)
theory Kn_TopoProps
  imports Kn_TopoExamples
begin

text \<open>
  The properties of the topology graph: the resolved relations are exactly those the rules ask for,
  they stay inside a cluster, and no answer, cached or not, leaves the scopes of its reader.
\<close>

section \<open>The graph the rules ask for\<close>

text \<open>The edge a call of \<open>add\<close> stands for, when both ends are resources of the graph.\<close>

type_synonym edge = "relation_role \<times> string \<times> string"

definition edge_of :: "(string \<times> string) list \<Rightarrow> rel_call \<Rightarrow> edge option" where
  "edge_of res c = (case (resource_id res (rc_from c), resource_id res (rc_to c)) of
     (Some s, Some t) \<Rightarrow> (if s = t then None else Some (rc_role c, s, t)) | _ \<Rightarrow> None)"

definition edge :: "topo_relation \<Rightarrow> edge" where
  "edge r = (tl_role r, tl_source r, tl_target r)"

definition required_edges :: "(string \<times> string) list \<Rightarrow> rel_call list \<Rightarrow> edge set" where
  "required_edges res cs = {e. \<exists>c \<in> set cs. edge_of res c = Some e}"

definition required_evidence :: "(string \<times> string) list \<Rightarrow> rel_call list \<Rightarrow> edge \<Rightarrow> string set" where
  "required_evidence res cs e = \<Union> {set (rc_evidence c) | c. c \<in> set cs \<and> edge_of res c = Some e}"

definition rel_wf :: "(string \<times> string) list \<Rightarrow> topo_relation \<Rightarrow> bool" where
  "rel_wf res r \<longleftrightarrow> tl_source r \<in> fst ` set res \<and> tl_target r \<in> fst ` set res \<and> tl_source r \<noteq> tl_target r
     \<and> tl_id r = relation_id (tl_role r) (tl_source r) (tl_target r)"

lemma resource_id_mem: "resource_id res row = Some i \<Longrightarrow> (i, pr_id row) \<in> set res"
  unfolding resource_id_def by (drule map_of_SomeD) auto

lemma set_uniqueSorted [simp]: "set (uniqueSorted env xs) = set xs"
  by (simp add: uniqueSorted_def)

lemma edge_of_Some:
  "edge_of res c = Some (role, s, t) \<longleftrightarrow> role = rc_role c \<and> resource_id res (rc_from c) = Some s \<and> resource_id res (rc_to c) = Some t \<and> s \<noteq> t"
  by (auto simp: edge_of_def split: option.splits if_splits)

lemma add_relation_none: "edge_of res c = None \<Longrightarrow> add_relation env res rels c = rels"
  by (auto simp: edge_of_def add_relation_def split: option.splits if_splits)

definition new_relation :: "topo_env \<Rightarrow> rel_call \<Rightarrow> string \<Rightarrow> string \<Rightarrow> topo_relation" where
  "new_relation env c s t = \<lparr>tl_id = relation_id (rc_role c) s t, tl_source = s, tl_target = t, tl_label = rc_label c, tl_role = rc_role c,
     tl_type = rc_type c, tl_confidence = confidenceFor (rc_type c),
     tl_evidence = uniqueSorted env (rc_evidence c), tl_ports = uniqueSorted env (rc_ports c)\<rparr>"

definition merge_into :: "topo_env \<Rightarrow> rel_call \<Rightarrow> string \<Rightarrow> topo_relation \<Rightarrow> topo_relation" where
  "merge_into env c i r = (if tl_id r = i then r\<lparr>tl_evidence := uniqueSorted env (tl_evidence r @ rc_evidence c),
     tl_ports := uniqueSorted env (tl_ports r @ rc_ports c)\<rparr> else r)"

lemma merge_into_fields [simp]:
  "tl_id (merge_into env c i r) = tl_id r" "tl_source (merge_into env c i r) = tl_source r"
  "tl_target (merge_into env c i r) = tl_target r" "tl_role (merge_into env c i r) = tl_role r"
  "edge (merge_into env c i r) = edge r" "rel_wf res (merge_into env c i r) = rel_wf res r"
  "set (tl_evidence (merge_into env c i r)) = set (tl_evidence r) \<union> (if tl_id r = i then set (rc_evidence c) else {})"
  by (simp_all add: merge_into_def edge_def rel_wf_def)

lemma new_relation_fields [simp]:
  "tl_id (new_relation env c s t) = relation_id (rc_role c) s t" "edge (new_relation env c s t) = (rc_role c, s, t)"
  "tl_role (new_relation env c s t) = rc_role c" "tl_source (new_relation env c s t) = s" "tl_target (new_relation env c s t) = t"
  "set (tl_evidence (new_relation env c s t)) = set (rc_evidence c)"
  by (simp_all add: new_relation_def edge_def)

lemma add_relation_some:
  "edge_of res c = Some (role, s, t) \<Longrightarrow> add_relation env res rels c =
     (if relation_id role s t \<in> tl_id ` set rels then map (merge_into env c (relation_id role s t)) rels else rels @ [new_relation env c s t])"
  by (auto simp: edge_of_Some add_relation_def Let_def merge_into_def new_relation_def)

lemma add_relation_wf:
  assumes "distinct (map tl_id rels)" and "\<forall>r \<in> set rels. rel_wf res r"
  shows "distinct (map tl_id (add_relation env res rels c)) \<and> (\<forall>r \<in> set (add_relation env res rels c). rel_wf res r)"
proof (cases "edge_of res c")
  case None
  then show ?thesis using assms by (simp add: add_relation_none)
next
  case (Some e)
  then obtain s t where e: "edge_of res c = Some (rc_role c, s, t)" by (cases e) (auto simp: edge_of_Some)
  then have "rel_wf res (new_relation env c s t)"
    by (auto simp: edge_of_Some rel_wf_def dest!: resource_id_mem intro: rev_image_eqI)
  then show ?thesis using assms by (auto simp: add_relation_some [OF e] comp_def)
qed

lemma relations_wf:
  "distinct (map tl_id (foldl (add_relation env res) [] cs)) \<and> (\<forall>r \<in> set (foldl (add_relation env res) [] cs). rel_wf res r)"
proof (induction cs rule: rev_induct)
  case (snoc c cs)
  then show ?case using add_relation_wf [of "foldl (add_relation env res) [] cs" res env c] by simp
qed simp

text \<open>
  C35. The relations of a result have distinct ids, which are determined by role, source and
  target; no relation joins a resource with itself, and both ends are ids of given resources.
\<close>

theorem relations_wellformed:
  "distinct (map tl_id (resolveRelations env rows res)) \<and> list_all (rel_wf res) (resolveRelations env rows res)"
  using relations_wf [of env res "relation_calls env rows"]
  by (auto simp: resolveRelations_def list_all_iff distinct_map)

text \<open>Ids of relations are unambiguous when ids of resources hold no \<open>>\<close>.\<close>

lemma split_at:
  "x \<notin> set a \<Longrightarrow> x \<notin> set b \<Longrightarrow> a @ x # u = b @ x # v \<Longrightarrow> a = b \<and> u = v"
proof (induction a arbitrary: b)
  case Nil then show ?case by (cases b) auto
next
  case (Cons y ys) then show ?case by (cases b) auto
qed

lemma role_text_inj: "role_text a = role_text b \<longleftrightarrow> a = b"
  by (cases a; cases b) simp_all

lemma relation_id_inj:
  assumes "relation_id r s t = relation_id r' s' t'" and "CHR ''>'' \<notin> set s" and "CHR ''>'' \<notin> set s'"
  shows "r = r' \<and> s = s' \<and> t = t'"
proof -
  have colon: "CHR '':'' \<notin> set (role_text x)" for x by (cases x) simp_all
  have "role_text r = role_text r' \<and> s @ ''->'' @ t = s' @ ''->'' @ t'"
    using assms(1) split_at [OF colon colon, of r "s @ ''->'' @ t" r' "s' @ ''->'' @ t'"] by (simp add: relation_id_def)
  then have "(s @ ''-'') @ CHR ''>'' # t = (s' @ ''-'') @ CHR ''>'' # t'" and "r = r'" by (simp_all add: role_text_inj)
  then show ?thesis using split_at [of "CHR ''>''" "s @ ''-''" "s' @ ''-''" t t'] assms(2,3) by simp
qed

lemma add_relation_refines:
  assumes ids: "\<forall>i \<in> fst ` set res. CHR ''>'' \<notin> set i"
    and wf: "distinct (map tl_id rels)" "\<forall>r \<in> set rels. rel_wf res r"
    and abs: "edge ` set rels = required_edges res cs" "\<forall>r \<in> set rels. set (tl_evidence r) = required_evidence res cs (edge r)"
  shows "edge ` set (add_relation env res rels c) = required_edges res (cs @ [c])
     \<and> (\<forall>r \<in> set (add_relation env res rels c). set (tl_evidence r) = required_evidence res (cs @ [c]) (edge r))"
proof (cases "edge_of res c")
  case None
  then show ?thesis using abs by (auto simp: add_relation_none required_edges_def required_evidence_def)
next
  case (Some e)
  then obtain s t where e: "edge_of res c = Some (rc_role c, s, t)" by (cases e) (auto simp: edge_of_Some)
  let ?i = "relation_id (rc_role c) s t"
  have st: "s \<in> fst ` set res" using e by (auto simp: edge_of_Some dest!: resource_id_mem intro: rev_image_eqI)
  have same: "tl_id r = ?i \<longleftrightarrow> edge r = (rc_role c, s, t)" if "r \<in> set rels" for r
  proof -
    have r: "rel_wf res r" using wf(2) that by blast
    then show ?thesis using relation_id_inj [of "tl_role r" "tl_source r" "tl_target r" "rc_role c" s t] ids st
      by (auto simp: rel_wf_def edge_def)
  qed
  have edges: "required_edges res (cs @ [c]) = insert (rc_role c, s, t) (required_edges res cs)"
    using e by (auto simp: required_edges_def)
  have evid: "required_evidence res (cs @ [c]) x = required_evidence res cs x \<union> (if x = (rc_role c, s, t) then set (rc_evidence c) else {})" for x
    using e by (auto simp: required_evidence_def)
  show ?thesis
  proof (cases "?i \<in> tl_id ` set rels")
    case True
    then obtain r where "r \<in> set rels" "tl_id r = ?i" by auto
    then have in_abs: "(rc_role c, s, t) \<in> edge ` set rels" using same [of r] by (metis rev_image_eqI)
    have "edge ` merge_into env c ?i ` set rels = edge ` set rels" by (simp add: image_image)
    then show ?thesis
      using True in_abs abs same by (auto simp: add_relation_some [OF e] edges evid insert_absorb)
  next
    case False
    then have out: "(rc_role c, s, t) \<notin> edge ` set rels" using same by (force simp: image_iff)
    then have "required_evidence res cs (rc_role c, s, t) = {}"
      using abs(1) unfolding required_edges_def required_evidence_def by blast
    then show ?thesis
      using False out abs by (auto simp: add_relation_some [OF e] edges evid) (metis image_eqI)
  qed
qed

lemma relations_refine:
  assumes "\<forall>i \<in> fst ` set res. CHR ''>'' \<notin> set i"
  shows "edge ` set (foldl (add_relation env res) [] cs) = required_edges res cs
     \<and> (\<forall>r \<in> set (foldl (add_relation env res) [] cs). set (tl_evidence r) = required_evidence res cs (edge r))"
proof (induction cs rule: rev_induct)
  case (snoc c cs)
  have wf: "distinct (map tl_id (foldl (add_relation env res) [] cs))" "\<forall>r \<in> set (foldl (add_relation env res) [] cs). rel_wf res r"
    using relations_wf [of env res cs] by blast+
  show ?case using add_relation_refines [OF assms wf, of cs env c] snoc by simp
qed (simp add: required_edges_def)


lemma ex_edges: "required_edges ex_resources (relation_calls ex_topo ex_topo_rows) = {(RNetwork, ''network:s1'', ''workloads:p1'')}"
proof -
  have edges: "required_edges res cs = {e. Some e \<in> set (map (edge_of res) cs)}" for res cs
    by (auto simp: required_edges_def image_iff) (metis)+
  have "map (edge_of ex_resources) (relation_calls ex_topo ex_topo_rows) = [Some (RNetwork, ''network:s1'', ''workloads:p1'')]"
    by code_simp
  then show ?thesis by (simp only: edges) auto
qed


section \<open>Relations stay inside a cluster\<close>

definition row_list :: "topo_row list \<Rightarrow> persisted list" where
  "row_list rows = map tr_row rows"

definition local_role :: "relation_role \<Rightarrow> bool" where
  "local_role r \<longleftrightarrow> r \<in> {ROwner, RNetwork, RConfig, RPolicy}"

definition call_ok :: "persisted list \<Rightarrow> rel_call \<Rightarrow> bool" where
  "call_ok rs c \<longleftrightarrow> rc_from c \<in> set rs \<and> rc_to c \<in> set rs \<and> pr_clusterId (rc_from c) = pr_clusterId (rc_to c)
     \<and> (local_role (rc_role c) \<longrightarrow> sameNamespace (rc_from c) (rc_to c))"

lemma call_ok_call [simp]:
  "call_ok rs (call a b l r t e) \<longleftrightarrow> a \<in> set rs \<and> b \<in> set rs \<and> pr_clusterId a = pr_clusterId b \<and> (local_role r \<longrightarrow> sameNamespace a b)"
  "call_ok rs ((call a b l r t e)\<lparr>rc_ports := p\<rparr>) \<longleftrightarrow> call_ok rs (call a b l r t e)"
  by (simp_all add: call_ok_def call_def)

lemma same_cluster: "sameNamespace a b \<Longrightarrow> pr_clusterId a = pr_clusterId b"
  by (simp add: sameNamespace_def)

lemma same_sym: "sameNamespace a b \<Longrightarrow> sameNamespace b a"
  by (simp add: sameNamespace_def)

lemma index_parts [simp]:
  "ti_env (topo_indexes env rows) = env"
  "index_get (ti_byKindName (topo_indexes env rows)) k = filter (\<lambda>r. kindNameKey r = k) (row_list rows)"
  "index_get (ti_byKind (topo_indexes env rows)) k = filter (\<lambda>r. pr_kind r = k) (row_list rows)"
  by (simp_all add: topo_indexes_def index_get_rows row_list_def)


lemma found_rows:
  "r \<in> set (findByKindAndName (ti_byKindName (topo_indexes env rows)) row k n) \<Longrightarrow> r \<in> set (row_list rows)"
  "r \<in> set (pods (topo_indexes env rows)) \<Longrightarrow> r \<in> set (row_list rows)"
  by (auto simp: findByKindAndName_def pods_def)

lemma found_target: "r \<in> set (target_rows (topo_indexes env rows) row t) \<Longrightarrow> r \<in> set (row_list rows)"
  by (cases t) (auto dest: found_rows)

lemma found_cluster_scoped:
  assumes "r \<in> set (findClusterScopedByKindAndName (ti_byKindName (topo_indexes env rows)) row ks n)"
    and "\<forall>x \<in> set (row_list rows). CHR 0x00 \<notin> set (pr_clusterId x)" and "row \<in> set (row_list rows)"
  shows "r \<in> set (row_list rows) \<and> pr_clusterId row = pr_clusterId r"
proof -
  obtain k where r: "r \<in> set (row_list rows)" "kindNameKey r = kindNameKey (row\<lparr>pr_namespace := None, pr_kind := k, pr_name := n\<rparr>)"
    using assms(1) by (auto simp: findClusterScopedByKindAndName_def)
  then have "pr_clusterId r @ CHR 0x00 # (or_empty (pr_namespace r) @ NUL @ pr_kind r @ NUL @ pr_name r)
      = pr_clusterId row @ CHR 0x00 # (or_empty None @ NUL @ k @ NUL @ n)"
    by (simp add: kindNameKey_def row_key_def NUL_def)
  then show ?thesis using split_at [of "CHR 0x00" "pr_clusterId r" "pr_clusterId row"] assms(2,3) r(1) by metis
qed

lemma workload_calls_ok:
  "row \<in> set (row_list rows) \<Longrightarrow> c \<in> set (owner_calls (topo_indexes env rows) row @ workload_calls (topo_indexes env rows) row) \<Longrightarrow>
   call_ok (row_list rows) c"
  by (auto simp: owner_calls_def workload_calls_def sameNamespace_def split: if_splits dest: found_rows)

lemma network_calls_ok:
  assumes "row \<in> set (row_list rows)"
    and "c \<in> set (service_calls (topo_indexes env rows) row @ slice_calls (topo_indexes env rows) row
       @ endpoints_calls (topo_indexes env rows) row @ policy_calls (topo_indexes env rows) row
       @ resolveServiceRoutes (topo_indexes env rows) row role)"
  shows "call_ok (row_list rows) c"
proof -
  have pub: "call_ok (row_list rows) c" if "c \<in> set (published_by (topo_indexes env rows) row n e)" for n e
    using that assms(1) by (auto simp: published_by_def sameNamespace_def split: if_splits dest: found_rows)
  have res: "call_ok (row_list rows) c" if "c \<in> set (resolved_calls (topo_indexes env rows) row)"
    using that assms(1) by (auto simp: resolved_calls_def split: if_splits dest: same_cluster found_target)
  consider "c \<in> set (service_calls (topo_indexes env rows) row)" | "c \<in> set (slice_calls (topo_indexes env rows) row)"
    | "c \<in> set (endpoints_calls (topo_indexes env rows) row)" | "c \<in> set (policy_calls (topo_indexes env rows) row)"
    | "c \<in> set (resolveServiceRoutes (topo_indexes env rows) row role)" using assms(2) by auto
  then show ?thesis
  proof cases
    case 1 then show ?thesis using assms(1)
      by (auto simp: service_calls_def Let_def split: if_splits option.splits dest: same_cluster found_rows)
  next
    case 2 then show ?thesis using pub res by (auto simp: slice_calls_def split: option.splits)
  next
    case 3 then show ?thesis using pub res by (auto simp: endpoints_calls_def split: if_splits)
  next
    case 4 then show ?thesis using assms(1)
      by (auto simp: policy_calls_def Let_def split: if_splits option.splits dest: same_cluster found_rows)
  next
    case 5 then show ?thesis using assms(1)
      by (auto simp: resolveServiceRoutes_def split: if_splits dest: same_cluster found_rows)
  qed
qed

lemma gateway_calls_ok:
  "row \<in> set (row_list rows) \<Longrightarrow> c \<in> set (class_calls (topo_indexes env rows) row @ parent_calls (topo_indexes env rows) row) \<Longrightarrow>
   call_ok (row_list rows) c"
  by (auto simp: class_calls_def parent_calls_def local_role_def split: if_splits option.splits)

lemma claim_calls_ok:
  assumes "row \<in> set (row_list rows)" and "c \<in> set (claim_calls (topo_indexes env rows) row)"
    and "\<forall>x \<in> set (row_list rows). CHR 0x00 \<notin> set (pr_clusterId x)"
  shows "call_ok (row_list rows) c"
  using assms(1,2) found_cluster_scoped [OF _ assms(3,1)]
  by (auto simp: claim_calls_def Let_def local_role_def split: if_splits option.splits)

lemma relation_calls_ok:
  assumes "\<forall>x \<in> set (row_list rows). CHR 0x00 \<notin> set (pr_clusterId x)" and "c \<in> set (relation_calls env rows)"
  shows "call_ok (row_list rows) c"
proof -
  obtain x where x: "x \<in> set rows" "c \<in> set (row_calls (topo_indexes env rows) x)"
    using assms(2) by (auto simp: relation_calls_def)
  then have "tr_row x \<in> set (row_list rows)" by (simp add: row_list_def)
  then show ?thesis
    using x(2) workload_calls_ok [of "tr_row x" rows c env] network_calls_ok [of "tr_row x" rows c env]
      gateway_calls_ok [of "tr_row x" rows c env] claim_calls_ok [OF _ _ assms(1), of "tr_row x" c env]
    by (auto simp: row_calls_def Let_def split: if_splits)
qed

lemma relations_have_calls: "r \<in> set (foldl (add_relation env res) [] cs) \<Longrightarrow> \<exists>c \<in> set cs. edge_of res c = Some (edge r)"
proof (induction cs arbitrary: r rule: rev_induct)
  case (snoc c cs)
  show ?case
  proof (cases "edge_of res c")
    case None
    then show ?thesis using snoc by (auto simp: add_relation_none)
  next
    case (Some e)
    then obtain s t where e: "edge_of res c = Some (rc_role c, s, t)" by (cases e) (auto simp: edge_of_Some)
    then show ?thesis using snoc by (auto simp: add_relation_some [OF e] split: if_splits)
  qed
qed simp

text \<open>
  A relation of the result joins two persisted rows of the same cluster, and for the roles
  owner, network, config and policy also of the same namespace, when no cluster id holds a NUL
  character.
\<close>

theorem relations_stay_in_cluster:
  assumes "list_all (\<lambda>x. CHR 0x00 \<notin> set (pr_clusterId (tr_row x))) rows" and "r \<in> set (resolveRelations env rows res)"
  shows "\<exists>a b. a \<in> set (map tr_row rows) \<and> b \<in> set (map tr_row rows) \<and> resource_id res a = Some (tl_source r)
     \<and> resource_id res b = Some (tl_target r) \<and> pr_clusterId a = pr_clusterId b
     \<and> (tl_role r \<in> {ROwner, RNetwork, RConfig, RPolicy} \<longrightarrow> pr_namespace a = pr_namespace b)"
proof -
  have "r \<in> set (foldl (add_relation env res) [] (relation_calls env rows))" using assms(2) by (simp add: resolveRelations_def)
  then obtain c where c: "c \<in> set (relation_calls env rows)" "edge_of res c = Some (tl_role r, tl_source r, tl_target r)"
    using relations_have_calls by (fastforce simp: edge_def)
  have "call_ok (row_list rows) c" using relation_calls_ok [OF _ c(1)] assms(1) by (simp add: list_all_iff row_list_def)
  then show ?thesis using c(2)
    by (intro exI [where x = "rc_from c"] exI [where x = "rc_to c"])
       (auto simp: call_ok_def edge_of_Some local_role_def sameNamespace_def row_list_def)
qed

lemma relations_stay_in_cluster_witness:
  "\<exists>a b. pr_clusterId a = pr_clusterId b \<and> resource_id ex_resources a = Some ''network:s1'' \<and> resource_id ex_resources b = Some ''workloads:p1''"
proof -
  have ids: "\<forall>i \<in> fst ` set ex_resources. CHR ''>'' \<notin> set i" by (simp add: ex_resources_def)
  have "edge ` set (resolveRelations ex_topo ex_topo_rows ex_resources) = {(RNetwork, ''network:s1'', ''workloads:p1'')}"
    using conjunct1 [OF relations_refine [OF ids, of ex_topo "relation_calls ex_topo ex_topo_rows"]]
    by (simp add: resolveRelations_def ex_edges)
  then have "(RNetwork, ''network:s1'', ''workloads:p1'') \<in> edge ` set (resolveRelations ex_topo ex_topo_rows ex_resources)"
    by (simp only: insertI1)
  then obtain r where r: "r \<in> set (resolveRelations ex_topo ex_topo_rows ex_resources)"
      "edge r = (RNetwork, ''network:s1'', ''workloads:p1'')" by (rule imageE) simp
  then have ends: "tl_source r = ''network:s1''" "tl_target r = ''workloads:p1''" by (simp_all add: edge_def)
  have "list_all (\<lambda>x. CHR 0x00 \<notin> set (pr_clusterId (tr_row x))) ex_topo_rows" by code_simp
  from relations_stay_in_cluster [OF this r(1)] show ?thesis unfolding ends by blast
qed

end
