(* ===== verification/Kn_TopoSafety.thy ===== *)
theory Kn_TopoSafety
  imports Kn_TopoExamples
begin

text \<open>
  The answers of \<open>getGraphV2\<close> over a shared cache: every request runs the whole handler against
  the inventory, the grants and the clock of its moment. The invariant is that an entry of the
  cache holds nothing outside the scopes that went into its key.
\<close>

section \<open>Requests\<close>

type_synonym topo_request =
  "(string \<Rightarrow> string \<Rightarrow> string option) \<times> topo_db \<times> time \<times> bool \<times> (bool \<times> time option) option \<times> topo_query \<times> subject option"

definition topo_step :: "service_env \<Rightarrow> graph_cache \<Rightarrow> topo_request \<Rightarrow> graph_cache \<Rightarrow> bool" where
  "topo_step env cache e cache' \<longleftrightarrow> (case e of (identity, db, now, up, health, q, actor) \<Rightarrow>
     cache' = snd (getGraphV2 env identity db now up health q actor cache))"

text \<open>
  What the digest and the texts are relied on for: different sorted lists of scope texts are
  digested differently, a scope is read back from its text, sorting keeps the elements, and an
  encoded part of the key holds no colon.
\<close>

definition faithful_env :: "service_env \<Rightarrow> bool" where
  "faithful_env env \<longleftrightarrow> (\<forall>p q. se_digest env p = se_digest env q \<longrightarrow> vp_scopes p = vp_scopes q)
     \<and> inj (se_scopeText env) \<and> (\<forall>xs. set (se_sort env xs) = set xs) \<and> (\<forall>s. CHR '':'' \<notin> set (se_encode env s))"

section \<open>What scopes show\<close>

definition target_of :: "topo_source \<Rightarrow> scope_target" where
  "target_of s = (if s = Configuration then ConfigTarget else Resources)"

definition scope_shows :: "topo_scope \<Rightarrow> topo_resource \<Rightarrow> bool" where
  "scope_shows s r \<longleftrightarrow> scope_admits (target_of (tp_source r)) s (tp_clusterId r) (tp_namespace r) (tp_name r) (tp_kind r)"

definition shown_by :: "topo_scope list option \<Rightarrow> topo_resource \<Rightarrow> bool" where
  "shown_by scopes r \<longleftrightarrow> (case scopes of None \<Rightarrow> True | Some l \<Rightarrow> \<exists>s \<in> set l. scope_shows s r)"

lemma select_fields [simp]:
  "pr_clusterId (select_workload r) = pr_clusterId r" "pr_namespace (select_workload r) = pr_namespace r"
  "pr_name (select_workload r) = pr_name r" "pr_kind (select_workload r) = pr_kind r"
  "pr_clusterId (select_network r) = pr_clusterId r" "pr_namespace (select_network r) = pr_namespace r"
  "pr_name (select_network r) = pr_name r" "pr_kind (select_network r) = pr_kind r"
  "pr_clusterId (select_storage r) = pr_clusterId r" "pr_namespace (select_storage r) = pr_namespace r"
  "pr_name (select_storage r) = pr_name r" "pr_kind (select_storage r) = pr_kind r"
  "pr_clusterId (select_config r) = pr_clusterId r" "pr_namespace (select_config r) = pr_namespace r"
  "pr_name (select_config r) = pr_name r" "pr_kind (select_config r) = pr_kind r"
  by (simp_all add: select_workload_def select_network_def select_storage_def select_config_def)

lemma v2Source_network [simp]: "v2Source (networkSource k) = Network"
  by (simp add: networkSource_def)

definition row_resource :: "topo_row \<Rightarrow> topo_resource \<Rightarrow> bool" where
  "row_resource x r \<longleftrightarrow> tp_source r = v2Source (tr_source x) \<and> tp_clusterId r = pr_clusterId (tr_row x)
     \<and> tp_namespace r = pr_namespace (tr_row x) \<and> tp_name r = pr_name (tr_row x) \<and> tp_kind r = pr_kind (tr_row x)"

lemma rows_shown:
  assumes "x \<in> set (fst (loadRows db cs ns enabled scopes))" and "row_resource x r"
  shows "shown_by scopes r"
  using assms
  by (auto simp: loadRows_def Let_def rows_from_def row_resource_def shown_by_def scope_shows_def target_of_def
      topologyScopeWhere_def list_ex_iff split: if_splits option.splits)

lemma projected_resource: "row_resource x (tv_resource (v2_resource env w x))"
  by (simp add: row_resource_def v2_resource_def toLegacyResource_def Let_def)

lemma assembleV2_resources: "assembleV2 c en rows resources relations n now revision = Inr g \<Longrightarrow> vg_resources g = resources"
  by (auto simp: assembleV2_def enforceTopologyGraphV2Capacity_def guard_def Let_def split: if_splits)

lemma build_graph_shown:
  assumes "build_graph env db now c ns enabled scopes revision = Inr g" and "r \<in> set (vg_resources g)"
  shows "shown_by scopes (tv_resource r)"
proof -
  define en where "en = enabled @ (if Network \<in> set enabled then [GatewayApi] else [])"
  have "vg_resources g = projectV2 (se_topo env) (collapseDeploymentReplicaSets (se_topo env) (fst (loadRows db [c] ns en scopes)))
      (indexWarnings (snd (loadRows db [c] ns en scopes)))"
    using assms(1) unfolding build_graph_def Let_def case_prod_beta en_def by (rule assembleV2_resources)
  then have "r \<in> v2_resource (se_topo env) (indexWarnings (snd (loadRows db [c] ns en scopes)))
      ` set (collapseDeploymentReplicaSets (se_topo env) (fst (loadRows db [c] ns en scopes)))"
    using assms(2) by (simp add: projectV2_def)
  then obtain x where "x \<in> set (fst (loadRows db [c] ns en scopes))"
      "r = v2_resource (se_topo env) (indexWarnings (snd (loadRows db [c] ns en scopes))) x"
    by (auto simp: collapseDeploymentReplicaSets_def)
  then show ?thesis using rows_shown projected_resource by blast
qed

lemma decorated_resources: "tv_resource ` set (vg_resources (decorateFreshness env now g h)) = tv_resource ` set (vg_resources g)"
  by (simp add: decorateFreshness_def Let_def image_image)

section \<open>Keys of the cache\<close>

lemma split_colon: "CHR '':'' \<notin> set a \<Longrightarrow> CHR '':'' \<notin> set b \<Longrightarrow> a @ CHR '':'' # u = b @ CHR '':'' # v \<Longrightarrow> a = b \<and> u = v"
proof (induction a arbitrary: b)
  case Nil then show ?case by (cases b) auto
next
  case (Cons y ys) then show ?case by (cases b) auto
qed

lemma source_text_no_colon: "CHR '':'' \<notin> set (source_text s)"
  by (cases s) simp_all

lemma sources_no_colon: "CHR '':'' \<notin> set (join_text '','' (map source_text xs))"
proof (induction xs)
  case (Cons x xs)
  then show ?case using source_text_no_colon by (cases xs) auto
qed simp

lemma cache_key_revision:
  assumes "faithful_env env" and "v2CacheKey env c n en rv = v2CacheKey env c' n' en' rv'"
  shows "rv = rv'"
proof -
  have enc: "CHR '':'' \<notin> set (se_encode env s)" for s using assms(1) by (simp add: faithful_env_def)
  have "se_encode env c @ CHR '':'' # se_encode env (case n of None \<Rightarrow> ''*'' | Some x \<Rightarrow> x) @ CHR '':''
      # join_text '','' (map source_text (sort_sources en)) @ CHR '':'' # rv
    = se_encode env c' @ CHR '':'' # se_encode env (case n' of None \<Rightarrow> ''*'' | Some x \<Rightarrow> x) @ CHR '':''
      # join_text '','' (map source_text (sort_sources en')) @ CHR '':'' # rv'"
    using assms(2) by (simp add: v2CacheKey_def)
  from split_colon [OF enc enc this]
  have "se_encode env (case n of None \<Rightarrow> ''*'' | Some x \<Rightarrow> x) @ CHR '':'' # join_text '','' (map source_text (sort_sources en)) @ CHR '':'' # rv
    = se_encode env (case n' of None \<Rightarrow> ''*'' | Some x \<Rightarrow> x) @ CHR '':'' # join_text '','' (map source_text (sort_sources en')) @ CHR '':'' # rv'"
    by blast
  from split_colon [OF enc enc this]
  have "join_text '','' (map source_text (sort_sources en)) @ CHR '':'' # rv
    = join_text '','' (map source_text (sort_sources en')) @ CHR '':'' # rv'" by blast
  from split_colon [OF sources_no_colon sources_no_colon this] show ?thesis by blast
qed

lemma same_revision_scopes:
  assumes "faithful_env env" and "loadInventoryRevision env db c n en scopes = loadInventoryRevision env db' c' n' en' scopes'"
  shows "map_option set scopes = map_option set scopes'"
proof -
  have eq: "map_option (\<lambda>l. se_sort env (map (se_scopeText env) l)) scopes = map_option (\<lambda>l. se_sort env (map (se_scopeText env) l)) scopes'"
  proof -
    have "se_digest env (inventory_payload env db c n en scopes) = se_digest env (inventory_payload env db' c' n' en' scopes')"
      using assms(2) by (simp add: loadInventoryRevision_def)
    then have "vp_scopes (inventory_payload env db c n en scopes) = vp_scopes (inventory_payload env db' c' n' en' scopes')"
      using assms(1) unfolding faithful_env_def by blast
    then show ?thesis by (simp add: inventory_payload_def Let_def)
  qed
  have same: "set l = set l'" if "se_sort env (map (se_scopeText env) l) = se_sort env (map (se_scopeText env) l')" for l l'
  proof -
    have sorted: "set (se_sort env xs) = set xs" and inj: "inj (se_scopeText env)" for xs
      using assms(1) unfolding faithful_env_def by blast+
    have "se_scopeText env ` set l = se_scopeText env ` set l'"
      using arg_cong [OF that, of set] by (simp only: sorted set_map)
    then show ?thesis by (simp only: inj_image_eq_iff [OF inj])
  qed
  show ?thesis
  proof (cases scopes)
    case None then show ?thesis using eq by simp
  next
    case (Some l)
    then obtain l' where "scopes' = Some l'" "se_sort env (map (se_scopeText env) l) = se_sort env (map (se_scopeText env) l')"
      using eq by (cases scopes') auto
    then show ?thesis using Some same [of l l'] by simp
  qed
qed

lemma shown_by_same: "map_option set scopes = map_option set scopes' \<Longrightarrow> shown_by scopes r = shown_by scopes' r"
  by (cases scopes; cases scopes') (auto simp: shown_by_def)

section \<open>The invariant of the cache\<close>

definition entry_ok :: "service_env \<Rightarrow> string \<times> v2_graph \<times> time \<Rightarrow> bool" where
  "entry_ok env x \<longleftrightarrow> (\<exists>db c n en scopes. fst x = v2CacheKey env c n en (loadInventoryRevision env db c n en scopes)
     \<and> (\<forall>r \<in> set (vg_resources (fst (snd x))). shown_by scopes (tv_resource r)))"

definition cache_ok :: "service_env \<Rightarrow> graph_cache \<Rightarrow> bool" where
  "cache_ok env cache \<longleftrightarrow> (\<forall>x \<in> set cache. entry_ok env x)"

lemma cache_get_mem: "cache_get up now k cache = Some g \<Longrightarrow> \<exists>t. (k, g, t) \<in> set cache"
  by (auto simp: cache_get_def split: if_splits option.splits prod.splits dest!: map_of_SomeD)

text \<open>Both ways to an answer, in terms of the scopes of the request.\<close>

lemma getGraphV2_cases:
  assumes "getGraphV2 env identity db now up health q actor cache = (x, cache')"
  obtains (error) e where "x = Inl e" "cache' = cache"
  | (answer) c n en scopes rv g where "resolveTopologyScopes (td_access db) now identity (se_deps env) actor (Some c) n = Inr scopes"
      "rv = loadInventoryRevision env db c n en scopes" "x = Inr (decorateFreshness env now g health)"
      "(cache_get up now (v2CacheKey env c n en rv) cache = Some g \<and> cache' = cache)
       \<or> (build_graph env db now c n en scopes rv = Inr g \<and> cache' = cache_set env up now (v2CacheKey env c n en rv) g cache)"
proof (cases "given (trimmed_opt (tq_clusterId q))")
  case False
  then show thesis using assms by (intro error) (auto simp: getGraphV2_def Let_def)
next
  case True
  define c en n where "c = or_empty (trimmed_opt (tq_clusterId q))" and "en = normalizeV2Sources (tq_sources q)"
    and "n = nonempty_opt (trimmed_opt (tq_namespace q))"
  note parts = c_def [symmetric] en_def [symmetric] n_def [symmetric]
  show thesis
  proof (cases "resolveTopologyScopes (td_access db) now identity (se_deps env) actor (Some c) n")
    case (Inl e)
    then show thesis using assms True by (intro error) (auto simp: getGraphV2_def Let_def parts)
  next
    case scopes: (Inr scopes)
    define rv where "rv = loadInventoryRevision env db c n en scopes"
    have get: "getGraphV2 env identity db now up health q actor cache
       = (case cache_get up now (v2CacheKey env c n en rv) cache of
              Some g \<Rightarrow> (Inr (decorateFreshness env now g health), cache)
            | None \<Rightarrow> (case build_graph env db now c n en scopes rv of
                Inl e \<Rightarrow> (Inl e, cache)
              | Inr g \<Rightarrow> (Inr (decorateFreshness env now g health), cache_set env up now (v2CacheKey env c n en rv) g cache)))"
      using True scopes by (simp add: getGraphV2_def Let_def parts flip: rv_def)
    show thesis
    proof (cases "cache_get up now (v2CacheKey env c n en rv) cache")
      case (Some g)
      then show thesis using assms get by (intro answer [OF scopes rv_def]) auto
    next
      case None
      show thesis
      proof (cases "build_graph env db now c n en scopes rv")
        case (Inl e) then show thesis using assms get None by (intro error [of e]) simp_all
      next
        case (Inr g) then show thesis using assms get None by (intro answer [OF scopes rv_def, of g]) simp_all
      qed
    qed
  qed
qed

lemma answer_shown:
  assumes "faithful_env env" and "cache_ok env cache" and "rv = loadInventoryRevision env db c n en scopes"
    and "(cache_get up now (v2CacheKey env c n en rv) cache = Some g) \<or> build_graph env db now c n en scopes rv = Inr g"
    and "r \<in> set (vg_resources g)"
  shows "shown_by scopes (tv_resource r)"
  using assms(4)
proof
  assume "cache_get up now (v2CacheKey env c n en rv) cache = Some g"
  then obtain t where "(v2CacheKey env c n en rv, g, t) \<in> set cache" using cache_get_mem by blast
  then have "entry_ok env (v2CacheKey env c n en rv, g, t)" using assms(2) by (auto simp: cache_ok_def)
  then obtain db' c' n' en' scopes' where
    e: "v2CacheKey env c n en rv = v2CacheKey env c' n' en' (loadInventoryRevision env db' c' n' en' scopes')"
      "\<forall>r \<in> set (vg_resources g). shown_by scopes' (tv_resource r)" by (auto simp: entry_ok_def)
  have "map_option set scopes = map_option set scopes'"
    using same_revision_scopes [OF assms(1)] cache_key_revision [OF assms(1) e(1)] assms(3) by metis
  then show ?thesis using e(2) assms(5) shown_by_same by blast
qed (use build_graph_shown assms(5) in blast)

lemma topo_step_ok:
  assumes "cache_ok env cache" and "topo_step env cache e cache'"
  shows "cache_ok env cache'"
proof -
  obtain identity db now up health q actor where e: "e = (identity, db, now, up, health, q, actor)" by (cases e) auto
  obtain x where "getGraphV2 env identity db now up health q actor cache = (x, cache')"
    using assms(2) by (auto simp: topo_step_def e prod_eq_iff)
  then show ?thesis
  proof (cases rule: getGraphV2_cases)
    case error then show ?thesis using assms(1) by simp
  next
    case (answer c n en scopes rv g)
    have "entry_ok env (v2CacheKey env c n en rv, g, t)" if "build_graph env db now c n en scopes rv = Inr g" for t
      unfolding entry_ok_def using build_graph_shown [OF that] answer(2)
      by - (rule exI [where x = db], rule exI [where x = c], rule exI [where x = n], rule exI [where x = en], rule exI [where x = scopes], simp)
    then show ?thesis using answer(4) assms(1) by (cases up) (auto simp: cache_ok_def cache_set_def)
  qed
qed

interpretation topology: invariant_system "\<lambda>cache. cache = []" "topo_step env" "cache_ok env" for env
  by unfold_locales (simp add: cache_ok_def, rule topo_step_ok)

text \<open>
  C12. Whatever queries filled the cache before, and whoever asked them, a graph that getGraphV2
  returns to an actor who is no platform administrator holds only resources that a scope granted
  to this actor shows: the cluster of a role binding without its Secrets, or a namespace of an
  effective grant whose UID is the live one, with Secrets only where the grant has the capability.
  It is assumed that the digest, the scope text and the encoding are injective and that cluster
  ids hold no slash.
\<close>

theorem topology_scope_safe:
  assumes "faithful_env env" and "reach (\<lambda>cache. cache = []) (topo_step env) cache"
    and "getGraphV2 env identity db now up health q (Some a) cache = (Inr g, cache')"
    and "\<not> isPlatformAdmin (Some a)"
    and "list_all (\<lambda>g. CHR ''/'' \<notin> set (gr_clusterId g)) (listEffectiveGrants (td_access db) (or_empty (sj_id a)) now None)"
    and "r \<in> tv_resource ` set (vg_resources g)"
  shows "\<exists>s. scope_granted (td_access db) now identity a s \<and> scope_shows s r"
  using assms(3)
proof (cases rule: getGraphV2_cases)
  case (answer c n en scopes rv g0)
  have "r \<in> tv_resource ` set (vg_resources g0)" using answer(3) assms(6) decorated_resources by auto
  then have shown: "shown_by scopes r"
    using answer_shown [OF assms(1) topology.reach_inv [OF assms(2)] answer(2), of up now g0] answer(4) by blast
  obtain l where l: "scopes = Some l"
    using restricted_scopes [OF answer(1) assms(4)] by blast
  then obtain s where "s \<in> set l" "scope_shows s r" using shown by (auto simp: shown_by_def)
  then show ?thesis using scopes_granted [OF answer(1) [unfolded l] _ assms(5)] by blast
qed simp

lemma ex_faithful: "faithful_env ex_service_env"
proof -
  have opt: "ex_option a = ex_option b \<Longrightarrow> a = b" for a b by (cases a; cases b) (auto simp: ex_option_def)
  have "inj (se_scopeText ex_service_env)"
  proof (rule injI)
    fix s t :: topo_scope
    assume "se_scopeText ex_service_env s = se_scopeText ex_service_env t"
    then have "[sp_clusterId s, ex_option (sp_namespace s), ex_option (sp_namespaceUid s), if sp_secrets s then ''1'' else ''0'']
        = [sp_clusterId t, ex_option (sp_namespace t), ex_option (sp_namespaceUid t), if sp_secrets t then ''1'' else ''0'']"
      by (intro ex_text_inj) (simp add: ex_service_env_def)
    then show "s = t" using opt by (cases s; cases t) (auto split: if_splits)
  qed
  then show ?thesis
    by (auto simp: faithful_env_def ex_service_env_def split: option.splits dest: ex_text_inj)
qed

lemma topology_scope_safe_witness:
  "\<exists>r s. tp_name r = ''web-1'' \<and> scope_granted ex_access 10 ex_uid ex_reader s \<and> scope_shows s r \<and> sp_namespace s = Some ''team''"
proof -
  let ?x = "getGraphV2 ex_service_env ex_uid ex_topo_db 10 True None ex_query (Some ex_reader) []"
  have names: "(case fst ?x of Inl _ \<Rightarrow> [] | Inr g \<Rightarrow> map (\<lambda>r. tp_name (tv_resource r)) (vg_resources g)) = [''web'', ''web-1'', ''conf'']"
    by code_simp
  then obtain g where g: "fst ?x = Inr g" by (cases "fst ?x") auto
  then have "''web-1'' \<in> tp_name ` tv_resource ` set (vg_resources g)" using names by (auto dest: arg_cong [where f = set] simp: image_image)
  then obtain r where r: "r \<in> tv_resource ` set (vg_resources g)" "tp_name r = ''web-1''" by fastforce
  have x: "?x = (Inr g, snd ?x)" using g by (simp add: prod_eq_iff)
  have a: "\<not> isPlatformAdmin (Some ex_reader)" by code_simp
  have l: "list_all (\<lambda>g. CHR ''/'' \<notin> set (gr_clusterId g)) (listEffectiveGrants (td_access ex_topo_db) (or_empty (sj_id ex_reader)) 10 None)"
    by code_simp
  have scopes: "map gr_scopes (listEffectiveGrants ex_access (or_empty (sj_id ex_reader)) 10 None) = [[(''uid1'', ''team'')]]"
    and none: "bindings_of ex_access (js_trim (or_empty (sj_id ex_reader))) = []" by code_simp+
  obtain s where s: "scope_granted (td_access ex_topo_db) 10 ex_uid ex_reader s" "scope_shows s r"
    using topology_scope_safe [OF ex_faithful reach_init x a l r(1)] by blast
  then have "sp_namespace s = Some ''team''"
    using none scopes by (auto simp: scope_granted_def ex_topo_db_def)
  then show ?thesis using s r(2) by (auto simp: ex_topo_db_def)
qed

end
