(* ===== verification/Kn_Prog.thy ===== *)
theory Kn_Prog
  imports Kn_Prelude
begin

text \<open>
  Programs that call services outside the model: a program takes the state of the outside world and
  returns an error or a value, with the state after it. An awaited call is such a program; a
  thrown error is the left value: its message in the components that only report messages (\<open>prog\<close>). \<open>p_bind\<close> is sequencing, \<open>p_catch\<close> is \<open>try/catch\<close>, and
  \<open>p_lift\<close> runs a pure computation that may throw.

  A service is given to a program as a record of such functions, so that it can be instrumented:
  \<open>traced\<close> runs a call and appends what it did to a trace, \<open>untraced\<close> runs a call that leaves the
  trace alone.
\<close>

section \<open>Programs\<close>

type_synonym ('e, 's, 'a) eprog = "'s \<Rightarrow> ('e + 'a) \<times> 's"

type_synonym ('s, 'a) prog = "(string, 's, 'a) eprog"

definition p_ok :: "'a \<Rightarrow> ('e, 's, 'a) eprog" where
  "p_ok x s = (Inr x, s)"

definition p_err :: "'e \<Rightarrow> ('e, 's, 'a) eprog" where
  "p_err e s = (Inl e, s)"

definition p_lift :: "'e + 'a \<Rightarrow> ('e, 's, 'a) eprog" where
  "p_lift r s = (r, s)"

definition p_do :: "('s \<Rightarrow> 's) \<Rightarrow> ('e, 's, unit) eprog" where
  "p_do f s = (Inr (), f s)"

definition p_bind :: "('e, 's, 'a) eprog \<Rightarrow> ('a \<Rightarrow> ('e, 's, 'b) eprog) \<Rightarrow> ('e, 's, 'b) eprog" where
  "p_bind m f s = (case m s of (Inl e, s') \<Rightarrow> (Inl e, s') | (Inr a, s') \<Rightarrow> f a s')"

definition p_catch :: "('e, 's, 'a) eprog \<Rightarrow> ('e \<Rightarrow> ('f, 's, 'a) eprog) \<Rightarrow> ('f, 's, 'a) eprog" where
  "p_catch m h s = (case m s of (Inl e, s') \<Rightarrow> h e s' | (Inr a, s') \<Rightarrow> (Inr a, s'))"

text \<open>The outcome of a call as a value: the program goes on either way.\<close>

definition p_try :: "('e, 's, 'a) eprog \<Rightarrow> ('f, 's, 'e + 'a) eprog" where
  "p_try m s = (case m s of (r, s') \<Rightarrow> (Inr r, s'))"

lemma p_simps [simp]:
  "p_ok x s = (Inr x, s)" "p_err e s = (Inl e, s)" "p_lift r s = (r, s)" "p_do f s = (Inr (), f s)"
  by (simp_all add: p_ok_def p_err_def p_lift_def p_do_def)

lemma p_bind_Inr: "p_bind m f s = (Inr b, s') \<longleftrightarrow> (\<exists>a t. m s = (Inr a, t) \<and> f a t = (Inr b, s'))"
  by (auto simp: p_bind_def split: prod.splits sum.splits)

lemma p_bind_Inl:
  "p_bind m f s = (Inl e, s') \<longleftrightarrow> m s = (Inl e, s') \<or> (\<exists>a t. m s = (Inr a, t) \<and> f a t = (Inl e, s'))"
  by (auto simp: p_bind_def split: prod.splits sum.splits)

lemma p_bind_run: "p_bind m f s = (case m s of (Inl e, t) \<Rightarrow> (Inl e, t) | (Inr a, t) \<Rightarrow> f a t)"
  by (simp add: p_bind_def)

lemma p_bind_lift [simp]: "p_bind (p_lift r) f s = (case r of Inl e \<Rightarrow> (Inl e, s) | Inr a \<Rightarrow> f a s)"
  by (cases r) (simp_all add: p_bind_def)

lemmas p_results = p_bind_Inr p_bind_Inl

text \<open>A loop over a list whose body is a program: \<open>p_map\<close> collects the values, \<open>p_each\<close> drops them.\<close>

fun p_map :: "('a \<Rightarrow> ('e, 's, 'b) eprog) \<Rightarrow> 'a list \<Rightarrow> ('e, 's, 'b list) eprog" where
  "p_map f [] = p_ok []"
| "p_map f (x # xs) = p_bind (f x) (\<lambda>y. p_bind (p_map f xs) (\<lambda>ys. p_ok (y # ys)))"

definition p_each :: "('a \<Rightarrow> ('e, 's, 'b) eprog) \<Rightarrow> 'a list \<Rightarrow> ('e, 's, unit) eprog" where
  "p_each f xs = p_bind (p_map f xs) (\<lambda>_. p_ok ())"

section \<open>What a program keeps\<close>

text \<open>\<open>keeps I m\<close>: wherever \<open>m\<close> starts with \<open>I\<close>, it ends with \<open>I\<close>, whatever its outcome.\<close>

definition keeps :: "('s \<Rightarrow> bool) \<Rightarrow> ('s \<Rightarrow> 'r \<times> 's) \<Rightarrow> bool" where
  "keeps I m \<longleftrightarrow> (\<forall>s. I s \<longrightarrow> I (snd (m s)))"

named_theorems keep_rules \<open>rules for \<open>keeps\<close>, one per construct\<close>

lemma keepsI: "(\<And>s r s'. I s \<Longrightarrow> m s = (r, s') \<Longrightarrow> I s') \<Longrightarrow> keeps I m"
  unfolding keeps_def by (metis surjective_pairing)

lemma keepsD: "keeps I m \<Longrightarrow> I s \<Longrightarrow> m s = (r, s') \<Longrightarrow> I s'"
  unfolding keeps_def by (metis snd_conv)

lemma keeps_run: "keeps I m \<Longrightarrow> I s \<Longrightarrow> I (snd (m s))"
  by (simp add: keeps_def)

lemma keeps_simple [keep_rules]: "keeps I (p_ok x)" "keeps I (p_err e)" "keeps I (p_lift r)"
  by (simp_all add: keeps_def)

lemma keeps_bind [keep_rules]: "keeps I m \<Longrightarrow> (\<And>a. keeps I (f a)) \<Longrightarrow> keeps I (p_bind m f)"
  unfolding keeps_def p_bind_def by (force split: prod.splits sum.splits)

lemma keeps_catch [keep_rules]: "keeps I m \<Longrightarrow> (\<And>e. keeps I (h e)) \<Longrightarrow> keeps I (p_catch m h)"
  unfolding keeps_def p_catch_def by (force split: prod.splits sum.splits)

lemma keeps_try [keep_rules]: "keeps I m \<Longrightarrow> keeps I (p_try m)"
  unfolding keeps_def p_try_def by (force split: prod.splits)

lemma keeps_if [keep_rules]: "(b \<Longrightarrow> keeps I m) \<Longrightarrow> (\<not> b \<Longrightarrow> keeps I m') \<Longrightarrow> keeps I (if b then m else m')"
  by simp

lemma keeps_do [keep_rules]: "(\<And>s. I s \<Longrightarrow> I (f s)) \<Longrightarrow> keeps I (p_do f)"
  by (simp add: keeps_def)

lemma keeps_map [keep_rules]: "(\<And>x. keeps I (f x)) \<Longrightarrow> keeps I (p_map f xs)"
  by (induction xs) (auto intro!: keep_rules)

lemma keeps_each [keep_rules]: "(\<And>x. keeps I (f x)) \<Longrightarrow> keeps I (p_each f xs)"
  by (auto simp: p_each_def intro!: keep_rules)

text \<open>\<open>hoare P m Q E\<close>: from \<open>P\<close>, a returned value meets \<open>Q\<close> and an error leaves \<open>E\<close>.\<close>

definition hoare :: "('s \<Rightarrow> bool) \<Rightarrow> ('e, 's, 'a) eprog \<Rightarrow> ('a \<Rightarrow> 's \<Rightarrow> bool) \<Rightarrow> ('s \<Rightarrow> bool) \<Rightarrow> bool" where
  "hoare P m Q E \<longleftrightarrow> (\<forall>s. P s \<longrightarrow> (case m s of (Inl e, s') \<Rightarrow> E s' | (Inr a, s') \<Rightarrow> Q a s'))"

lemma hoareI: "(\<And>s a s'. P s \<Longrightarrow> m s = (Inr a, s') \<Longrightarrow> Q a s') \<Longrightarrow> (\<And>s e s'. P s \<Longrightarrow> m s = (Inl e, s') \<Longrightarrow> E s') \<Longrightarrow> hoare P m Q E"
  unfolding hoare_def by (auto split: prod.split sum.split)

lemma hoareD: "hoare P m Q E \<Longrightarrow> P s \<Longrightarrow> m s = (Inr a, s') \<Longrightarrow> Q a s'" "hoare P m Q E \<Longrightarrow> P s \<Longrightarrow> m s = (Inl e, s') \<Longrightarrow> E s'"
  unfolding hoare_def by fastforce+

lemma hoare_bind: "hoare P m R E \<Longrightarrow> (\<And>a. hoare (R a) (f a) Q E) \<Longrightarrow> hoare P (p_bind m f) Q E"
  by (rule hoareI) (auto simp: p_bind_Inr p_bind_Inl dest: hoareD)

lemma hoare_keeps:
  assumes "keeps I m" and "\<And>s. P s \<Longrightarrow> I s" and "\<And>a s. I s \<Longrightarrow> Q a s" and "\<And>s. I s \<Longrightarrow> E s"
  shows "hoare P m Q E"
  using assms by (intro hoareI) (metis keepsD)+

lemma hoare_post: "hoare P m Q E \<Longrightarrow> (\<And>a s. Q a s \<Longrightarrow> Q' a s) \<Longrightarrow> (\<And>s. E s \<Longrightarrow> E' s) \<Longrightarrow> hoare P m Q' E'"
  by (rule hoareI) (metis hoareD)+

lemma hoare_pre: "hoare P m Q E \<Longrightarrow> (\<And>s. P' s \<Longrightarrow> P s) \<Longrightarrow> hoare P' m Q E"
  by (rule hoareI) (metis hoareD)+

section \<open>Traces\<close>

type_synonym ('w, 'e) traced_state = "'w \<times> 'e list"

definition untraced :: "('w \<Rightarrow> 'r \<times> 'w) \<Rightarrow> ('w, 'e) traced_state \<Rightarrow> 'r \<times> ('w, 'e) traced_state" where
  "untraced m s = (case m (fst s) of (r, w) \<Rightarrow> (r, (w, snd s)))"

definition traced :: "('x + 'a \<Rightarrow> 'e list) \<Rightarrow> ('x, 'w, 'a) eprog \<Rightarrow> ('x, ('w, 'e) traced_state, 'a) eprog" where
  "traced ev m s = (case m (fst s) of (r, w) \<Rightarrow> (r, (w, snd s @ ev r)))"

lemma untraced_run: "untraced m s = (r, s') \<longleftrightarrow> (\<exists>w. m (fst s) = (r, w) \<and> s' = (w, snd s))"
  by (auto simp: untraced_def split: prod.splits)

lemma traced_run: "traced ev m s = (r, s') \<longleftrightarrow> (\<exists>w. m (fst s) = (r, w) \<and> s' = (w, snd s @ ev r))"
  by (auto simp: traced_def split: prod.splits)

end
