(* ===== verification/Kn_Rollout.thy ===== *)
theory Kn_Rollout
  imports Kn_Prog
begin

text \<open>
  The image update of the three Deployments of the platform: system-update/kubernetes-update.adapter.ts.

  A Deployment is the part of the API object the code reads. The Kubernetes API, the clock and
  \<open>setTimeout\<close> are a record of programs over the state of the outside world; between two calls that
  state may have changed in any way. Progress texts are short English ones.
\<close>

section \<open>Deployments\<close>

datatype component = ControlApi | RuntimeGateway | Frontend

definition components :: "component list" where
  "components = [ControlApi, RuntimeGateway, Frontend]"

fun component_key :: "component \<Rightarrow> string" where
  "component_key ControlApi = ''controlApi''"
| "component_key RuntimeGateway = ''runtimeGateway''"
| "component_key Frontend = ''frontend''"

text \<open>The name of the Deployment and of its container.\<close>

fun deployment_name :: "component \<Rightarrow> string" where
  "deployment_name ControlApi = ''control-api''"
| "deployment_name RuntimeGateway = ''runtime-gateway''"
| "deployment_name Frontend = ''frontend''"

definition immutable_image :: "component \<Rightarrow> string \<Rightarrow> bool" where
  "immutable_image c s \<longleftrightarrow> (let p = ''ghcr.io/feize666/kubenova-'' @ deployment_name c @ ''@sha256:'' in
     starts_with p s \<and> length s = length p + 64 \<and> list_all is_lower_hex (drop (length p) s))"

record deployment_status =
  ds_observedGeneration :: "int option"
  ds_updatedReplicas :: "int option"
  ds_availableReplicas :: "int option"
  ds_reasons :: "string option list"

record deployment =
  dp_generation :: "int option"
  dp_resourceVersion :: "string option"
  dp_labels :: "(string \<times> string) list"
  dp_annotations :: "(string \<times> string) list"
  dp_managers :: "string option list"
  dp_replicas :: "int option"
  dp_containers :: "(string option \<times> string option) list"
  dp_status :: "deployment_status option"

definition or_zero :: "int option \<Rightarrow> int" where
  "or_zero v = (case v of None \<Rightarrow> 0 | Some n \<Rightarrow> n)"

section \<open>GitOps\<close>

definition gitOpsMarker :: "string \<Rightarrow> bool" where
  "gitOpsMarker key \<longleftrightarrow> list_ex (\<lambda>p. starts_with p (js_lower key))
     [''argocd.'', ''meta.helm.sh/'', ''kustomize.toolkit.fluxcd.io/'', ''helm.toolkit.fluxcd.io/'', ''source.toolkit.fluxcd.io/'']"

definition gitOpsManager :: "string \<Rightarrow> bool" where
  "gitOpsManager m \<longleftrightarrow> list_ex (\<lambda>p. js_includes p (js_lower m)) [''argocd'', ''flux'', ''kustomize-controller'', ''helm-controller'']
     \<or> js_lower m = ''helm''"

text \<open>\<open>{ ...labels, ...annotations }\<close>: an annotation hides the label of the same key.\<close>

definition marks_of :: "deployment \<Rightarrow> (string \<times> string) list" where
  "marks_of d = filter (\<lambda>(k, v). k \<notin> fst ` set (dp_annotations d)) (dp_labels d) @ dp_annotations d"

definition isGitOpsManagedDeployment :: "deployment \<Rightarrow> bool" where
  "isGitOpsManagedDeployment d \<longleftrightarrow> list_ex (\<lambda>(k, v). gitOpsMarker k) (marks_of d)
     \<or> list_ex (\<lambda>(k, v). k = ''app.kubernetes.io/managed-by'' \<and> js_lower v \<in> {''argocd'', ''flux'', ''helm''}) (marks_of d)
     \<or> list_ex (\<lambda>m. gitOpsManager (case m of None \<Rightarrow> [] | Some s \<Rightarrow> s)) (dp_managers d)"

section \<open>Images and readiness\<close>

definition container_image :: "string \<Rightarrow> deployment \<Rightarrow> string option" where
  "container_image name d = (case find (\<lambda>x. fst x = Some name) (dp_containers d) of None \<Rightarrow> None | Some x \<Rightarrow> snd x)"

definition deploymentImage :: "deployment \<Rightarrow> component \<Rightarrow> string + string" where
  "deploymentImage d c = (case container_image (deployment_name c) d of
     Some img \<Rightarrow> (if img = [] then Inl (''Kubernetes deployment '' @ deployment_name c @ '' is missing container '' @ deployment_name c)
       else Inr img)
   | None \<Rightarrow> Inl (''Kubernetes deployment '' @ deployment_name c @ '' is missing container '' @ deployment_name c))"

definition desired_replicas :: "deployment \<Rightarrow> int" where
  "desired_replicas d = (case dp_replicas d of None \<Rightarrow> 1 | Some n \<Rightarrow> n)"

definition unready :: "deployment \<Rightarrow> bool" where
  "unready d \<longleftrightarrow> desired_replicas d < 1 \<or> (case dp_status d of None \<Rightarrow> True
     | Some st \<Rightarrow> or_zero (ds_observedGeneration st) < or_zero (dp_generation d)
         \<or> or_zero (ds_updatedReplicas st) < desired_replicas d \<or> or_zero (ds_availableReplicas st) < desired_replicas d)"

definition assertDeploymentReady :: "deployment \<Rightarrow> component \<Rightarrow> string + unit" where
  "assertDeploymentReady d c =
     (if isGitOpsManagedDeployment d
      then Inl (''Kubernetes deployment '' @ deployment_name c @ '' is GitOps-managed; direct updates are blocked'')
      else if unready d then Inl (''Kubernetes deployment '' @ deployment_name c @ '' is not ready'')
      else rbind (deploymentImage d c) (\<lambda>_. Inr ()))"

section \<open>The update of the three images\<close>

text \<open>
  The functions \<open>applyKubernetesImageUpdate\<close> is given. The callback of \<open>ro_wait\<close> has the instant of
  the last heartbeat as its state.
\<close>

record 's rollout_ops =
  ro_read :: "string \<Rightarrow> ('s, deployment) prog"
  ro_patch :: "string \<Rightarrow> string \<Rightarrow> string \<Rightarrow> string \<Rightarrow> ('s, unit) prog"
  ro_wait :: "string \<Rightarrow> string \<Rightarrow> (time \<Rightarrow> ('s, time) prog) \<Rightarrow> time \<Rightarrow> ('s, unit) prog"
  ro_progress :: "string \<Rightarrow> int \<Rightarrow> string \<Rightarrow> ('s, unit) prog"
  ro_now :: "'s \<Rightarrow> time"

definition check_component :: "'s rollout_ops \<Rightarrow> (component \<Rightarrow> string) \<Rightarrow> component \<Rightarrow> ('s, string) prog" where
  "check_component ops target c =
     (if \<not> immutable_image c (target c)
      then p_err (''target '' @ component_key c @ '' image must use a trusted immutable digest'')
      else p_bind (ro_read ops (deployment_name c)) (\<lambda>d.
        p_lift (rbind (assertDeploymentReady d c) (\<lambda>_. deploymentImage d c))))"

fun check_components :: "'s rollout_ops \<Rightarrow> (component \<Rightarrow> string) \<Rightarrow> component list \<Rightarrow> ('s, (component \<times> string) list) prog" where
  "check_components ops target [] = p_ok []"
| "check_components ops target (c # cs) = p_bind (check_component ops target c) (\<lambda>prev.
     p_bind (check_components ops target cs) (\<lambda>rest. p_ok ((c, prev) # rest)))"

text \<open>The callback while a rollout is awaited: a heartbeat when the last one is ten seconds old.\<close>

definition waiting :: "'s rollout_ops \<Rightarrow> int \<Rightarrow> string \<Rightarrow> time \<Rightarrow> ('s, time) prog" where
  "waiting ops percent message beat s =
     (if ro_now ops s - beat \<ge> 10000
      then p_bind (ro_progress ops ''health-check'' percent message) (\<lambda>_. p_ok (ro_now ops s)) s
      else (Inr beat, s))"

definition wait_ready :: "'s rollout_ops \<Rightarrow> component \<Rightarrow> string \<Rightarrow> int \<Rightarrow> string \<Rightarrow> ('s, unit) prog" where
  "wait_ready ops c img percent message s =
     ro_wait ops (deployment_name c) img (waiting ops percent message) (ro_now ops s) s"

definition update_one :: "'s rollout_ops \<Rightarrow> nat \<Rightarrow> component \<Rightarrow> string \<Rightarrow> string \<Rightarrow> ('s, unit) prog" where
  "update_one ops i c img previous =
     p_bind (ro_progress ops ''updating'' (10 + int i * 25) (''updating '' @ deployment_name c)) (\<lambda>_.
     p_bind (ro_patch ops (deployment_name c) (deployment_name c) img previous) (\<lambda>_.
     p_bind (ro_progress ops ''health-check'' (15 + int i * 25) (''waiting for '' @ deployment_name c)) (\<lambda>_.
     wait_ready ops c img (20 + int i * 25) (''waiting for the rollout of '' @ deployment_name c))))"

text \<open>\<open>changed\<close> is the list of changes begun, with the previous images; the first error stops the loop.\<close>

fun update_loop ::
  "'s rollout_ops \<Rightarrow> (component \<Rightarrow> string) \<Rightarrow> nat \<Rightarrow> (component \<times> string) list \<Rightarrow> (component \<times> string) list
     \<Rightarrow> 's \<Rightarrow> (string option \<times> (component \<times> string) list) \<times> 's" where
  "update_loop ops target i [] changed s = ((None, changed), s)"
| "update_loop ops target i ((c, previous) # rest) changed s =
     (if target c = previous then update_loop ops target (Suc i) rest changed s
      else (case update_one ops i c (target c) previous s of
        (Inl e, s') \<Rightarrow> ((Some e, changed @ [(c, previous)]), s')
      | (Inr _, s') \<Rightarrow> update_loop ops target (Suc i) rest (changed @ [(c, previous)]) s'))"

definition restore_one :: "'s rollout_ops \<Rightarrow> component \<Rightarrow> string \<Rightarrow> string \<Rightarrow> ('s, unit) prog" where
  "restore_one ops c previous img =
     p_bind (ro_progress ops ''updating'' 75 (''restoring '' @ deployment_name c)) (\<lambda>_.
     p_bind (ro_patch ops (deployment_name c) (deployment_name c) previous img) (\<lambda>_.
     wait_ready ops c previous 80 (''waiting for the previous version of '' @ deployment_name c)))"

text \<open>Whether some restoration failed; every change is tried.\<close>

fun restore_loop :: "'s rollout_ops \<Rightarrow> (component \<Rightarrow> string) \<Rightarrow> (component \<times> string) list \<Rightarrow> 's \<Rightarrow> bool \<times> 's" where
  "restore_loop ops target [] s = (False, s)"
| "restore_loop ops target ((c, previous) # rest) s =
     (case restore_one ops c previous (target c) s of (r, s') \<Rightarrow>
        (case restore_loop ops target rest s' of (failed, s'') \<Rightarrow> (isl r \<or> failed, s'')))"

definition INCOMPLETE :: string where
  "INCOMPLETE = ''Kubernetes update failed and automatic rollback was incomplete; inspect all three Deployments immediately''"

definition applyKubernetesImageUpdate :: "'s rollout_ops \<Rightarrow> (component \<Rightarrow> string) \<Rightarrow> ('s, (component \<times> string) list) prog" where
  "applyKubernetesImageUpdate ops target =
     p_bind (check_components ops target components) (\<lambda>previousImages s.
       case update_loop ops target 0 previousImages [] s of
         ((None, _), s') \<Rightarrow> (Inr previousImages, s')
       | ((Some e, changed), s') \<Rightarrow> (case restore_loop ops target (rev changed) s' of
           (True, s'') \<Rightarrow> (Inl INCOMPLETE, s'')
         | (False, s'') \<Rightarrow> (Inl (''Kubernetes update failed; restored previous images: '' @ e), s'')))"

section \<open>The adapter of the Kubernetes API\<close>

text \<open>The three operations of the JSON patch: two tests and the replacement.\<close>

record image_patch =
  ip_resourceVersion :: string
  ip_index :: nat
  ip_container :: string
  ip_image :: string

record 's kube_api =
  ka_read :: "string \<Rightarrow> ('s, deployment) prog"
  ka_patch :: "string \<Rightarrow> image_patch \<Rightarrow> ('s, unit) prog"
  ka_now :: "'s \<Rightarrow> time"
  ka_sleep :: "int \<Rightarrow> 's \<Rightarrow> 's"

definition patch_of :: "string \<Rightarrow> string \<Rightarrow> string \<Rightarrow> string \<Rightarrow> deployment \<Rightarrow> string + image_patch option" where
  "patch_of name container img expected d =
     (if isGitOpsManagedDeployment d then Inl (''Kubernetes deployment '' @ name @ '' became GitOps-managed during update'')
      else if \<not> list_ex (\<lambda>x. fst x = Some container) (dp_containers d)
      then Inl (''Kubernetes deployment '' @ name @ '' is missing container '' @ container)
      else (let current = container_image container d in
        if current = Some img then Inr None
        else (case dp_resourceVersion d of
          Some v \<Rightarrow> (if v = [] \<or> current \<noteq> Some expected
            then Inl (''Kubernetes deployment '' @ name @ '' changed outside this update; refusing to overwrite it'')
            else Inr (Some \<lparr>ip_resourceVersion = v, ip_index = length (takeWhile (\<lambda>x. fst x \<noteq> Some container) (dp_containers d)),
                   ip_container = container, ip_image = img\<rparr>))
        | None \<Rightarrow> Inl (''Kubernetes deployment '' @ name @ '' changed outside this update; refusing to overwrite it''))))"

definition patchImage :: "'s kube_api \<Rightarrow> string \<Rightarrow> string \<Rightarrow> string \<Rightarrow> string \<Rightarrow> ('s, unit) prog" where
  "patchImage api name container img expected = p_bind (ka_read api name) (\<lambda>d.
     p_bind (p_lift (patch_of name container img expected d)) (\<lambda>p.
       case p of None \<Rightarrow> p_ok () | Some patch \<Rightarrow> ka_patch api name patch))"

definition component_of :: "string \<Rightarrow> component option" where
  "component_of name = find (\<lambda>c. deployment_name c = name) components"

definition rolled_out :: "deployment \<Rightarrow> bool" where
  "rolled_out d \<longleftrightarrow> (let st = dp_status d; n = (\<lambda>f. or_zero (Option.bind st f)) in
     or_zero (dp_generation d) \<le> n ds_observedGeneration \<and> desired_replicas d \<le> n ds_updatedReplicas
     \<and> desired_replicas d \<le> n ds_availableReplicas)"

definition deadline_exceeded :: "deployment \<Rightarrow> bool" where
  "deadline_exceeded d \<longleftrightarrow> (case dp_status d of None \<Rightarrow> False | Some st \<Rightarrow> Some ''ProgressDeadlineExceeded'' \<in> set (ds_reasons st))"

text \<open>One look at a Deployment during a rollout: done, not yet, or an error.\<close>

definition rollout_state :: "string \<Rightarrow> string \<Rightarrow> deployment \<Rightarrow> string + bool" where
  "rollout_state name img d = (case component_of name of
     None \<Rightarrow> Inl (''Unexpected Kubernetes deployment '' @ name)
   | Some c \<Rightarrow> rbind (deploymentImage d c) (\<lambda>current.
       if current \<noteq> img then Inl (''Kubernetes deployment '' @ name @ '' was changed by another controller during rollout'')
       else if rolled_out d then Inr True
       else if deadline_exceeded d then Inl (''Kubernetes deployment '' @ name @ '' exceeded its rollout deadline'')
       else Inr False))"

definition timed_out :: "string \<Rightarrow> string" where
  "timed_out name = ''Kubernetes deployment '' @ name @ '' rollout timed out''"

text \<open>The first argument bounds the rounds; \<open>wait_rounds\<close> below is enough for a clock that sleeping advances.\<close>

fun wait_loop ::
  "nat \<Rightarrow> 's kube_api \<Rightarrow> int \<Rightarrow> string \<Rightarrow> string \<Rightarrow> (time \<Rightarrow> ('s, time) prog) \<Rightarrow> time \<Rightarrow> time \<Rightarrow> ('s, unit) prog" where
  "wait_loop 0 api interval name img onWaiting deadline beat s = (Inl (timed_out name), s)"
| "wait_loop (Suc n) api interval name img onWaiting deadline beat s =
     (if deadline \<le> ka_now api s then (Inl (timed_out name), s)
      else p_bind (ka_read api name) (\<lambda>d. p_bind (p_lift (rollout_state name img d)) (\<lambda>done.
        if done then p_ok ()
        else p_bind (onWaiting beat) (\<lambda>beat2. p_bind (p_do (ka_sleep api interval))
          (\<lambda>_. wait_loop n api interval name img onWaiting deadline beat2)))) s)"

definition wait_rounds :: "int \<Rightarrow> int \<Rightarrow> nat" where
  "wait_rounds interval timeout = nat (timeout div interval) + 2"

definition waitForDeployment ::
  "'s kube_api \<Rightarrow> int \<Rightarrow> int \<Rightarrow> string \<Rightarrow> string \<Rightarrow> (time \<Rightarrow> ('s, time) prog) \<Rightarrow> time \<Rightarrow> ('s, unit) prog" where
  "waitForDeployment api interval timeout name img onWaiting beat s =
     wait_loop (wait_rounds interval timeout) api interval name img onWaiting (ka_now api s + timeout) beat s"

definition adapter_ops :: "'s kube_api \<Rightarrow> int \<Rightarrow> int \<Rightarrow> (string \<Rightarrow> int \<Rightarrow> string \<Rightarrow> ('s, unit) prog) \<Rightarrow> 's rollout_ops" where
  "adapter_ops api interval timeout progress = \<lparr>ro_read = ka_read api, ro_patch = patchImage api,
     ro_wait = waitForDeployment api interval timeout, ro_progress = progress, ro_now = ka_now api\<rparr>"

text \<open>\<open>KubernetesUpdateAdapter.apply\<close>, with the default interval of two seconds and timeout of ten minutes as arguments.\<close>

definition adapter_apply ::
  "'s kube_api \<Rightarrow> int \<Rightarrow> int \<Rightarrow> (component \<Rightarrow> string) \<Rightarrow> (string \<Rightarrow> int \<Rightarrow> string \<Rightarrow> ('s, unit) prog)
     \<Rightarrow> ('s, (component \<times> string) list) prog" where
  "adapter_apply api interval timeout target progress =
     applyKubernetesImageUpdate (adapter_ops api interval timeout progress) target"

end
