(* ===== verification/Kn_Rehearsal.thy ===== *)
theory Kn_Rehearsal
  imports Kn_Prog
begin

text \<open>
  The migration rehearsal on a temporary database: system-update/kubernetes-migration-rehearsal.service.ts.

  The five adapters are programs over the state of the outside world. An error of
  \<open>createTemporaryDatabase\<close> may carry the handle of a database that possibly exists. Names and texts of
  the checks are short English ones.
\<close>

section \<open>The service\<close>

record temp_db =
  tb_name :: string
  tb_connectionString :: string

datatype check_status = Passed | CheckFailed | Skipped

record rehearsal_check =
  ck_name :: string
  ck_status :: check_status
  ck_message :: string

record 's rehearsal_ops =
  rh_create :: "'s \<Rightarrow> (temp_db option + temp_db option) \<times> 's"
  rh_restore :: "temp_db \<Rightarrow> string \<Rightarrow> ('s, unit) prog"
  rh_migrate :: "temp_db \<Rightarrow> string \<Rightarrow> string \<Rightarrow> ('s, unit) prog"
  rh_compatible :: "temp_db \<Rightarrow> string \<Rightarrow> ('s, unit) prog"
  rh_drop :: "temp_db \<Rightarrow> ('s, unit) prog"

record rehearsal_input =
  ri_backupLocation :: string
  ri_targetVersion :: string
  ri_targetImage :: string
  ri_previousImage :: string

definition check :: "string \<Rightarrow> check_status \<Rightarrow> string \<Rightarrow> rehearsal_check" where
  "check name st message = \<lparr>ck_name = name, ck_status = st, ck_message = message\<rparr>"

definition complete_handle :: "temp_db \<Rightarrow> bool" where
  "complete_handle h \<longleftrightarrow> tb_name h \<noteq> [] \<and> tb_connectionString h \<noteq> []"

text \<open>The first step: whether the database was created, and the handle that is known, if any.\<close>

definition create_step :: "'s rehearsal_ops \<Rightarrow> 's \<Rightarrow> (bool \<times> temp_db option \<times> rehearsal_check list) \<times> 's" where
  "create_step ops s = (case rh_create ops s of
     (Inr h, s') \<Rightarrow> (if (case h of None \<Rightarrow> False | Some d \<Rightarrow> complete_handle d)
       then ((True, h, [check ''temporary database'' Passed ''created'']), s')
       else ((False, h, [check ''temporary database'' CheckFailed ''not created'']), s'))
   | (Inl h, s') \<Rightarrow> ((False, (case h of None \<Rightarrow> None | Some d \<Rightarrow> if complete_handle d then h else None),
       [check ''temporary database'' CheckFailed ''not created'']), s'))"

definition step_of :: "string \<Rightarrow> ('s, unit) prog \<Rightarrow> 's \<Rightarrow> (bool \<times> rehearsal_check list) \<times> 's" where
  "step_of name m s = (case m s of (Inr _, s') \<Rightarrow> ((True, [check name Passed ''passed'']), s')
     | (Inl _, s') \<Rightarrow> ((False, [check name CheckFailed ''failed'']), s'))"

definition skipped :: "string \<Rightarrow> 's \<Rightarrow> (bool \<times> rehearsal_check list) \<times> 's" where
  "skipped name s = ((False, [check name Skipped ''skipped'']), s)"

definition rehearsal_run :: "'s rehearsal_ops \<Rightarrow> rehearsal_input \<Rightarrow> 's \<Rightarrow> (bool \<times> rehearsal_check list) \<times> 's" where
  "rehearsal_run ops i s =
    (case create_step ops s of ((created, database, c1), s1) \<Rightarrow>
     (case (case database of Some d \<Rightarrow> if created then step_of ''backup restore'' (rh_restore ops d (ri_backupLocation i)) s1
              else skipped ''backup restore'' s1 | None \<Rightarrow> skipped ''backup restore'' s1) of ((restored, c2), s2) \<Rightarrow>
     (case (case database of Some d \<Rightarrow> if restored then step_of ''target migration'' (rh_migrate ops d (ri_targetVersion i) (ri_targetImage i)) s2
              else skipped ''target migration'' s2 | None \<Rightarrow> skipped ''target migration'' s2) of ((migrated, c3), s3) \<Rightarrow>
     (case (case database of Some d \<Rightarrow> if migrated then step_of ''previous version'' (rh_compatible ops d (ri_previousImage i)) s3
              else skipped ''previous version'' s3 | None \<Rightarrow> skipped ''previous version'' s3) of ((compatible, c4), s4) \<Rightarrow>
     (case (case database of Some d \<Rightarrow> step_of ''cleanup'' (rh_drop ops d) s4
              | None \<Rightarrow> ((False, [check ''cleanup'' CheckFailed ''unknown'']), s4)) of ((cleanupPassed, c5), s5) \<Rightarrow>
       (let checks = c1 @ c2 @ c3 @ c4 @ c5 in
        ((created \<and> restored \<and> migrated \<and> compatible \<and> cleanupPassed \<and> list_all (\<lambda>c. ck_status c = Passed) checks, checks), s5)))))))"

section \<open>Traced adapters\<close>

datatype rehearsal_event =
    Created "temp_db option" bool
  | Restored temp_db bool
  | Migrated temp_db bool
  | Compatible temp_db bool
  | Dropped temp_db bool

definition outcome_event :: "(bool \<Rightarrow> rehearsal_event) \<Rightarrow> string + unit \<Rightarrow> rehearsal_event list" where
  "outcome_event f r = [f (r = Inr ())]"

definition traced_rehearsal :: "'w rehearsal_ops \<Rightarrow> ('w, rehearsal_event) traced_state rehearsal_ops" where
  "traced_rehearsal ops = \<lparr>
     rh_create = \<lambda>s. (case rh_create ops (fst s) of (Inl h, w) \<Rightarrow> (Inl h, (w, snd s @ [Created h False])) | (Inr h, w) \<Rightarrow> (Inr h, (w, snd s @ [Created h True]))),
     rh_restore = \<lambda>d f. traced (outcome_event (Restored d)) (rh_restore ops d f),
     rh_migrate = \<lambda>d v i. traced (outcome_event (Migrated d)) (rh_migrate ops d v i),
     rh_compatible = \<lambda>d i. traced (outcome_event (Compatible d)) (rh_compatible ops d i),
     rh_drop = \<lambda>d. traced (outcome_event (Dropped d)) (rh_drop ops d)\<rparr>"

lemma step_of_traced:
  assumes "step_of name (traced (outcome_event f) m) s = ((ok, cs), s')"
  shows "snd s' = snd s @ [f ok] \<and> length cs = 1 \<and> (ok \<longleftrightarrow> list_all (\<lambda>c. ck_status c = Passed) cs)"
proof -
  obtain r w where "m (fst s) = (r, w)" by fastforce
  then show ?thesis using assms by (cases r) (auto simp: step_of_def traced_def outcome_event_def check_def)
qed

lemma skipped_run: "skipped name s = ((ok, cs), s') \<Longrightarrow> s' = s \<and> \<not> ok \<and> length cs = 1 \<and> \<not> list_all (\<lambda>c. ck_status c = Passed) cs"
  by (auto simp: skipped_def check_def)

lemma traced_rehearsal_simps [simp]:
  "rh_restore (traced_rehearsal ops) d f = traced (outcome_event (Restored d)) (rh_restore ops d f)"
  "rh_migrate (traced_rehearsal ops) d v i = traced (outcome_event (Migrated d)) (rh_migrate ops d v i)"
  "rh_compatible (traced_rehearsal ops) d i = traced (outcome_event (Compatible d)) (rh_compatible ops d i)"
  "rh_drop (traced_rehearsal ops) d = traced (outcome_event (Dropped d)) (rh_drop ops d)"
  by (simp_all add: traced_rehearsal_def)

lemma create_traced:
  assumes "create_step (traced_rehearsal ops) s = ((created, database, cs), s')"
  shows "length cs = 1 \<and> (created \<longleftrightarrow> list_all (\<lambda>c. ck_status c = Passed) cs)
     \<and> (created \<longrightarrow> (\<exists>d. database = Some d \<and> complete_handle d))
     \<and> (\<exists>h ok. snd s' = snd s @ [Created h ok] \<and> (created \<longrightarrow> ok \<and> h = database)
          \<and> (\<forall>d. h = Some d \<and> complete_handle d \<longrightarrow> database = Some d))"
  using assms
  by (auto simp: create_step_def traced_rehearsal_def check_def split: prod.splits sum.splits option.splits if_splits)

text \<open>
  The shape of every run: five checks; a passed rehearsal did all five steps in order on one database
  and removed it; a database that was or may have been created is dropped last, whatever happened.
\<close>

lemma rehearsal_shape:
  assumes "rehearsal_run (traced_rehearsal ops) i (w, []) = ((ok, checks), (w', l))"
  shows "length checks = 5 \<and> (ok \<longleftrightarrow> list_all (\<lambda>c. ck_status c = Passed) checks)
     \<and> (ok \<longrightarrow> (\<exists>d. complete_handle d \<and> l = [Created (Some d) True, Restored d True, Migrated d True, Compatible d True, Dropped d True]))
     \<and> (\<exists>h b. hd l = Created h b \<and> (\<forall>d. h = Some d \<and> complete_handle d \<longrightarrow> (\<exists>e. last l = Dropped d e)))"
proof -
  obtain created database c1 s1 where 1: "create_step (traced_rehearsal ops) (w, []) = ((created, database, c1), s1)"
    by (metis prod.collapse)
  note c = create_traced [OF 1]
  show ?thesis
  proof (cases database)
    case None
    then show ?thesis using assms 1 c
      by (auto simp: rehearsal_run_def skipped_def check_def numeral_eq_Suc)
  next
    case (Some d)
    let ?t = "traced_rehearsal ops"
    obtain r c2 s2 where 2: "(if created then step_of ''backup restore'' (rh_restore ?t d (ri_backupLocation i)) s1
        else skipped ''backup restore'' s1) = ((r, c2), s2)" by (metis prod.collapse)
    obtain m c3 s3 where 3: "(if r then step_of ''target migration'' (rh_migrate ?t d (ri_targetVersion i) (ri_targetImage i)) s2
        else skipped ''target migration'' s2) = ((m, c3), s3)" by (metis prod.collapse)
    obtain p c4 s4 where 4: "(if m then step_of ''previous version'' (rh_compatible ?t d (ri_previousImage i)) s3
        else skipped ''previous version'' s3) = ((p, c4), s4)" by (metis prod.collapse)
    obtain q c5 s5 where 5: "step_of ''cleanup'' (rh_drop ?t d) s4 = ((q, c5), s5)" by (metis prod.collapse)
    have res: "checks = c1 @ c2 @ c3 @ c4 @ c5" "s5 = (w', l)"
        "ok = (created \<and> r \<and> m \<and> p \<and> q \<and> list_all (\<lambda>c. ck_status c = Passed) checks)"
      using assms 1 2 3 4 5 Some by (auto simp: rehearsal_run_def Let_def)
    have 22: "length c2 = 1 \<and> (r \<longleftrightarrow> list_all (\<lambda>c. ck_status c = Passed) c2) \<and> (r \<longrightarrow> created)
        \<and> snd s2 = snd s1 @ (if created then [Restored d r] else [])"
      using 2 by (auto split: if_splits dest!: step_of_traced skipped_run)
    have 33: "length c3 = 1 \<and> (m \<longleftrightarrow> list_all (\<lambda>c. ck_status c = Passed) c3) \<and> (m \<longrightarrow> r)
        \<and> snd s3 = snd s2 @ (if r then [Migrated d m] else [])"
      using 3 by (auto split: if_splits dest!: step_of_traced skipped_run)
    have 44: "length c4 = 1 \<and> (p \<longleftrightarrow> list_all (\<lambda>c. ck_status c = Passed) c4) \<and> (p \<longrightarrow> m)
        \<and> snd s4 = snd s3 @ (if m then [Compatible d p] else [])"
      using 4 by (auto split: if_splits dest!: step_of_traced skipped_run)
    have 55: "length c5 = 1 \<and> (q \<longleftrightarrow> list_all (\<lambda>c. ck_status c = Passed) c5) \<and> snd s5 = snd s4 @ [Dropped d q]"
      using step_of_traced [OF 5 [unfolded traced_rehearsal_simps]] by blast
    obtain h b where h: "snd s1 = [Created h b]" "created \<longrightarrow> b \<and> h = Some d \<and> complete_handle d"
        "\<forall>e. h = Some e \<and> complete_handle e \<longrightarrow> e = d"
      using c Some by auto
    have "length checks = 5" using res(1) c 22 33 44 55 by simp
    moreover have "ok \<longleftrightarrow> list_all (\<lambda>c. ck_status c = Passed) checks" using res(1,3) c 22 33 44 55 by auto
    moreover have "l = snd s4 @ [Dropped d q]" "hd (snd s4) = Created h b" "snd s4 \<noteq> []"
      using res(2) 22 33 44 55 h(1) by (auto split: if_splits)
    moreover have "l = [Created (Some d) True, Restored d True, Migrated d True, Compatible d True, Dropped d True] \<and> complete_handle d" if ok
    proof -
      have all: created r m p q using that res(3) by auto
      have "l = snd s5" using res(2) by simp
      also have "\<dots> = [Created (Some d) True, Restored d True, Migrated d True, Compatible d True, Dropped d True]"
        using 22 33 44 55 h(1,2) all by simp
      finally show ?thesis using h(2) all by simp
    qed
    ultimately show ?thesis using h(3)
      by (intro conjI) (blast, blast, blast, metis hd_append last_snoc)
  qed
qed

end
