(* ===== verification/Kn_UpdateWorker.thy ===== *)
theory Kn_UpdateWorker
  imports Kn_Queue Kn_Rollout Kn_Rehearsal
begin

text \<open>
  The worker that executes a queued update: system-update/kubernetes-update.worker.ts, over the queue
  (Kn_Queue), the image update (Kn_Rollout) and the migration rehearsal (Kn_Rehearsal).

  The state of a run is the outside world and the local variables the lease timer shares with the
  run. The backup service, the settings, the temporary database and the migration jobs are given as
  programs over the world. Every awaited call may be followed by turns of the timer that completed
  while it was awaited; how many is read off the world.
\<close>

section \<open>What the worker is given\<close>

record backup_target =
  bt_id :: string
  bt_name :: string
  bt_s3 :: bool
  bt_location :: string

record migration_target =
  mt_id :: string
  mt_local :: bool
  mt_connection :: "string option"

record exec_settings =
  es_backupTargets :: "backup_target list"
  es_migrationTargets :: "migration_target list"
  es_fingerprint :: "string option"

record 's worker_ops =
  wo_heartbeat :: "string \<Rightarrow> int \<Rightarrow> string \<Rightarrow> ('s, unit) prog"
  wo_recordBackup :: "string \<Rightarrow> int \<Rightarrow> ('s, unit) prog"
  wo_finish :: "bool \<Rightarrow> string \<Rightarrow> int option \<Rightarrow> string \<Rightarrow> json option \<Rightarrow> ('s, unit) prog"
  wo_settings :: "('s, exec_settings) prog"
  wo_createBackup :: "backup_target \<Rightarrow> ('s, string \<times> int) prog"
  wo_openBackup :: "string \<Rightarrow> backup_target \<Rightarrow> ('s, string) prog"
  wo_closeBackup :: "('s, unit) prog"
  wo_createDb :: "string \<Rightarrow> 's \<Rightarrow> (temp_db option + temp_db option) \<times> 's"
  wo_restore :: "temp_db \<Rightarrow> string \<Rightarrow> ('s, unit) prog"
  wo_migrate :: "string \<Rightarrow> string \<Rightarrow> ('s, unit) prog"
  wo_compatible :: "string \<Rightarrow> ('s, unit) prog"
  wo_drop :: "temp_db \<Rightarrow> ('s, unit) prog"
  wo_kube :: "'s kube_api"
  wo_turns :: "'s \<Rightarrow> nat"
  wo_configured :: bool
  wo_databaseUrl :: string

section \<open>The lease timer\<close>

record 's run_state =
  rn_world :: 's
  rn_phase :: string
  rn_percent :: int
  rn_message :: string
  rn_leaseError :: "string option"

fun renew :: "'s worker_ops \<Rightarrow> nat \<Rightarrow> 's run_state \<Rightarrow> 's run_state" where
  "renew ops 0 st = st"
| "renew ops (Suc n) st = (case rn_leaseError st of Some e \<Rightarrow> st
     | None \<Rightarrow> (case wo_heartbeat ops (rn_phase st) (rn_percent st) (rn_message st) (rn_world st) of
         (Inl e, w) \<Rightarrow> renew ops n (st\<lparr>rn_world := w, rn_leaseError := Some e\<rparr>)
       | (Inr _, w) \<Rightarrow> renew ops n (st\<lparr>rn_world := w\<rparr>)))"

text \<open>\<open>await m\<close>, and the turns of the timer meanwhile.\<close>

definition awaiting :: "'s worker_ops \<Rightarrow> ('s \<Rightarrow> 'r \<times> 's) \<Rightarrow> 's run_state \<Rightarrow> 'r \<times> 's run_state" where
  "awaiting ops m st = (case m (rn_world st) of (r, w) \<Rightarrow> (r, renew ops (wo_turns ops w) (st\<lparr>rn_world := w\<rparr>)))"

definition assertLease :: "('s run_state, unit) prog" where
  "assertLease st = (case rn_leaseError st of
     Some e \<Rightarrow> (Inl (''Kubernetes update worker lease renewal failed: '' @ e), st) | None \<Rightarrow> (Inr (), st))"

definition verifyLease :: "'s worker_ops \<Rightarrow> ('s run_state, unit) prog" where
  "verifyLease ops = p_bind (awaiting ops (p_ok ())) (\<lambda>_. assertLease)"

definition set_progress :: "string \<Rightarrow> int \<Rightarrow> string \<Rightarrow> ('s run_state, unit) prog" where
  "set_progress ph pc m = p_do (\<lambda>st. st\<lparr>rn_phase := ph, rn_percent := pc, rn_message := m\<rparr>)"

definition reportProgress :: "'s worker_ops \<Rightarrow> string \<Rightarrow> int \<Rightarrow> string \<Rightarrow> ('s run_state, unit) prog" where
  "reportProgress ops ph pc m =
     p_bind assertLease (\<lambda>_. p_bind (set_progress ph pc m) (\<lambda>_.
     p_bind (awaiting ops (wo_heartbeat ops ph pc m)) (\<lambda>_. assertLease)))"

section \<open>One task\<close>

definition text_of :: "json option \<Rightarrow> string" where
  "text_of v = (case v of None \<Rightarrow> ''undefined'' | Some j \<Rightarrow> (case regex_text j of None \<Rightarrow> [] | Some s \<Rightarrow> s))"

definition payload_image :: "json \<Rightarrow> component \<Rightarrow> string" where
  "payload_image payload c = text_of (jget_opt (jget payload ''images'') (component_key c))"

fun status_text :: "check_status \<Rightarrow> string" where
  "status_text Passed = ''passed''"
| "status_text CheckFailed = ''failed''"
| "status_text Skipped = ''skipped''"

definition check_json :: "rehearsal_check \<Rightarrow> json" where
  "check_json c = JObj [(''name'', JStr (ck_name c)), (''status'', JStr (status_text (ck_status c))), (''message'', JStr (ck_message c))]"

definition preflight_checks :: "json \<Rightarrow> json list" where
  "preflight_checks payload = (case jget payload ''preflightChecks'' of Some (JArr cs) \<Rightarrow> cs | _ \<Rightarrow> [])"

text \<open>The adapters of the rehearsal, for one connection and one backup file.\<close>

definition rehearsal_adapters :: "'s worker_ops \<Rightarrow> string \<Rightarrow> string \<Rightarrow> 's run_state rehearsal_ops" where
  "rehearsal_adapters ops connection backupFile = \<lparr>
     rh_create = awaiting ops (wo_createDb ops connection),
     rh_restore = \<lambda>d _. awaiting ops (wo_restore ops d backupFile),
     rh_migrate = \<lambda>d _ img. awaiting ops (wo_migrate ops img (tb_connectionString d)),
     rh_compatible = \<lambda>d _. awaiting ops (wo_compatible ops (tb_connectionString d)),
     rh_drop = \<lambda>d. awaiting ops (wo_drop ops d)\<rparr>"

text \<open>\<open>withBackupFile\<close>: the file is removed whatever the consumer did, and an error of the removal wins.\<close>

definition withBackupFile ::
  "'s worker_ops \<Rightarrow> string \<Rightarrow> backup_target \<Rightarrow> (string \<Rightarrow> 's run_state \<Rightarrow> 'r \<times> 's run_state) \<Rightarrow> ('s run_state, 'r) prog" where
  "withBackupFile ops location target consume =
     p_bind (awaiting ops (wo_openBackup ops location target)) (\<lambda>f st. case consume f st of (r, st') \<Rightarrow>
       p_bind (awaiting ops (wo_closeBackup ops)) (\<lambda>_. p_ok r) st')"

definition migration_connection :: "'s worker_ops \<Rightarrow> json \<Rightarrow> exec_settings \<Rightarrow> string" where
  "migration_connection ops payload settings =
     (case find (\<lambda>t. Some (JStr (mt_id t)) = jget payload ''migrationTargetId'') (es_migrationTargets settings) of
        None \<Rightarrow> []
      | Some t \<Rightarrow> (case mt_connection t of Some c \<Rightarrow> (if c \<noteq> [] then c else if mt_local t then wo_databaseUrl ops else [])
          | None \<Rightarrow> (if mt_local t then wo_databaseUrl ops else [])))"

definition run_preflight ::
  "'s worker_ops \<Rightarrow> json \<Rightarrow> exec_settings \<Rightarrow> backup_target \<Rightarrow> string \<times> int \<Rightarrow> ('s run_state, unit) prog" where
  "run_preflight ops payload settings target backup =
     (let connection = migration_connection ops payload settings; img = payload_image payload ControlApi in
      if connection = [] \<or> \<not> wo_configured ops
      then p_err ''Kubernetes temporary-database migration rehearsal is not fully configured''
      else p_bind (reportProgress ops ''migration-test'' 35 ''restoring a temporary database and migrating it'') (\<lambda>_.
        p_bind (withBackupFile ops (fst backup) target (\<lambda>f. rehearsal_run (rehearsal_adapters ops connection f)
          \<lparr>ri_backupLocation = f, ri_targetVersion = text_of (jget payload ''targetVersion''), ri_targetImage = img, ri_previousImage = img\<rparr>))
        (\<lambda>(passed, checks).
          let all_checks = preflight_checks payload @ check_json (check ''database backup'' Passed ''created'') # map check_json checks in
          p_bind (verifyLease ops) (\<lambda>_.
          if \<not> passed then awaiting ops (wo_finish ops False ''failed'' None ''rehearsal did not pass; the update is blocked'' (Some (checks_json all_checks)))
          else awaiting ops (wo_finish ops True ''completed'' (Some 100) ''rehearsal passed'' (Some (checks_json all_checks)))))))"

text \<open>The Kubernetes API as the run sees it: the timer may turn during each call.\<close>

definition run_kube :: "'s worker_ops \<Rightarrow> 's run_state kube_api" where
  "run_kube ops = \<lparr>ka_read = \<lambda>n. awaiting ops (ka_read (wo_kube ops) n), ka_patch = \<lambda>n p. awaiting ops (ka_patch (wo_kube ops) n p),
     ka_now = \<lambda>st. ka_now (wo_kube ops) (rn_world st), ka_sleep = \<lambda>i st. snd (awaiting ops (p_do (ka_sleep (wo_kube ops) i) :: ('s, unit) prog) st)\<rparr>"

definition rollback_state :: "json \<Rightarrow> (component \<times> string) list \<Rightarrow> json option" where
  "rollback_state payload previousImages = (if truthy (jget payload ''previousVersion'')
     then Some (JObj [(''previousImages'', JObj (map (\<lambda>(c, img). (component_key c, JStr img)) previousImages)),
        (''previousVersion'', the (jget payload ''previousVersion''))])
     else None)"

definition run_update :: "'s worker_ops \<Rightarrow> json \<Rightarrow> ('s run_state, unit) prog" where
  "run_update ops payload =
     p_bind (adapter_apply (run_kube ops) 2000 600000 (payload_image payload) (reportProgress ops)) (\<lambda>previousImages.
     p_bind (verifyLease ops) (\<lambda>_.
     awaiting ops (wo_finish ops True ''completed'' (Some 100) (text_of (jget payload ''targetVersion'') @ '' rolled out'')
       (rollback_state payload previousImages))))"

definition running_message :: "json \<Rightarrow> string" where
  "running_message payload = ''running '' @ action_of payload @ '' '' @ text_of (jget payload ''targetVersion'')"

definition run_body :: "'s worker_ops \<Rightarrow> json \<Rightarrow> ('s run_state, unit) prog" where
  "run_body ops payload =
     p_bind (reportProgress ops ''updating'' 5 (running_message payload)) (\<lambda>_.
     p_bind (reportProgress ops ''backing-up'' 8 ''backing up PostgreSQL'') (\<lambda>_.
     p_bind (awaiting ops (wo_settings ops)) (\<lambda>settings.
     if truthy (jget payload ''settingsFingerprint'') \<and> map_option JStr (es_fingerprint settings) \<noteq> jget payload ''settingsFingerprint''
     then p_err ''update settings changed after the task was queued''
     else (case find (\<lambda>t. Some (JStr (bt_id t)) = jget payload ''backupTargetId'') (es_backupTargets settings) of
       None \<Rightarrow> p_err ''the bound backup target does not exist''
     | Some target \<Rightarrow>
       p_bind (awaiting ops (wo_createBackup ops target)) (\<lambda>backup.
       p_bind (verifyLease ops) (\<lambda>_.
       p_bind (awaiting ops (wo_recordBackup ops (fst backup) (snd backup))) (\<lambda>_.
       p_bind (reportProgress ops ''updating'' 25 ''database backup complete'') (\<lambda>_.
       if action_of payload = ''preflight'' then run_preflight ops payload settings target backup
       else run_update ops payload))))))))"

definition failure_phase :: "string \<Rightarrow> string" where
  "failure_phase message = (if js_includes ''rollback was incomplete'' (js_lower message) then ''rollback-incomplete'' else ''failed'')"

definition failure_result :: "json \<Rightarrow> string \<Rightarrow> json option" where
  "failure_result payload message = (if action_of payload = ''preflight''
     then Some (checks_json (preflight_checks payload @ [check_json (check
        (if failure_phase message = ''rollback-incomplete'' then ''recovery state'' else ''Kubernetes database rehearsal'') CheckFailed message)]))
     else None)"

text \<open>An error of the last \<open>finish\<close> is only written to the log.\<close>

definition run_failure :: "'s worker_ops \<Rightarrow> json \<Rightarrow> string \<Rightarrow> ('s run_state, unit) prog" where
  "run_failure ops payload message st = (case awaiting ops
      (wo_finish ops False (failure_phase message) None message (failure_result payload message)) st of (_, st') \<Rightarrow> (Inr (), st'))"

definition runTask :: "'s worker_ops \<Rightarrow> json \<Rightarrow> 's \<Rightarrow> 's run_state" where
  "runTask ops payload w = snd (p_catch (run_body ops payload) (run_failure ops payload)
     \<lparr>rn_world = w, rn_phase = ''initializing'', rn_percent = 5, rn_message = running_message payload, rn_leaseError = None\<rparr>)"

section \<open>The worker on the queue\<close>

text \<open>The outside world has the table of tasks and a clock; other services may change both during any call.\<close>

record outside =
  od_tasks :: task_db
  od_now :: time

definition on_tasks :: "(time \<Rightarrow> task_db \<Rightarrow> unit res \<times> task_db) \<Rightarrow> ('z outside_scheme, unit) prog" where
  "on_tasks f w = (case f (od_now w) (od_tasks w) of (r, db) \<Rightarrow>
     ((case r of Inl e \<Rightarrow> Inl (error_message e) | Inr u \<Rightarrow> Inr u), w\<lparr>od_tasks := db\<rparr>))"

text \<open>The three calls of the queue service, for a task and a worker; the rest of \<open>ops\<close> is left as it is.\<close>

definition queue_ops :: "task_env \<Rightarrow> string \<Rightarrow> string \<Rightarrow> 'z outside_scheme worker_ops \<Rightarrow> 'z outside_scheme worker_ops" where
  "queue_ops env i workerId ops = ops\<lparr>
     wo_heartbeat := \<lambda>ph pc m. on_tasks (\<lambda>now. heartbeat now i workerId ph (Some (num pc)) (Some m)),
     wo_recordBackup := \<lambda>location bytes. on_tasks (\<lambda>now. recordBackup now i workerId location (num bytes)),
     wo_finish := \<lambda>succeeded ph pc m res. on_tasks (\<lambda>now. finish env now i workerId succeeded ph (map_option num pc) m res)\<rparr>"

definition runOnce :: "task_env \<Rightarrow> string \<Rightarrow> 'z outside_scheme worker_ops \<Rightarrow> ('z outside_scheme, bool) prog" where
  "runOnce env workerId ops w = (case claimNext env (od_now w) workerId (od_tasks w) of
     (Inl e, db) \<Rightarrow> (Inl (error_message e), w\<lparr>od_tasks := db\<rparr>)
   | (Inr None, db) \<Rightarrow> (Inr False, w\<lparr>od_tasks := db\<rparr>)
   | (Inr (Some task), db) \<Rightarrow>
       (Inr True, rn_world (runTask (queue_ops env (tv_id task) workerId ops) (tv_payload task) (w\<lparr>od_tasks := db\<rparr>))))"

end
