(* ===== verification/Kn_RolloutSafety.thy ===== *)
theory Kn_RolloutSafety
  imports Kn_Rollout
begin

text \<open>
  What an image update does to the three Deployments, read off the trace of its API calls: the trace
  has every answer the API gave to a read and every patch that was sent to it. The interface between
  the update loop and the adapter is the locale \<open>rollout_service\<close>, interpreted on the adapter over any
  traced API.
\<close>

section \<open>Traces of the API\<close>

datatype rollout_event = Looked string deployment | Patched string image_patch

fun ev_name :: "rollout_event \<Rightarrow> string" where
  "ev_name (Looked n d) = n"
| "ev_name (Patched n p) = n"

fun is_patch :: "rollout_event \<Rightarrow> bool" where
  "is_patch (Patched n p) \<longleftrightarrow> True"
| "is_patch (Looked n d) \<longleftrightarrow> False"

definition look_event :: "string \<Rightarrow> string + deployment \<Rightarrow> rollout_event list" where
  "look_event n r = (case r of Inl _ \<Rightarrow> [] | Inr d \<Rightarrow> [Looked n d])"

text \<open>The traced API: a patch is recorded when it is sent, whether or not it succeeds.\<close>

definition traced_api :: "'w kube_api \<Rightarrow> ('w, rollout_event) traced_state kube_api" where
  "traced_api api = \<lparr>ka_read = \<lambda>n. traced (look_event n) (ka_read api n),
     ka_patch = \<lambda>n p. traced (\<lambda>_. [Patched n p]) (ka_patch api n p),
     ka_now = \<lambda>s. ka_now api (fst s), ka_sleep = \<lambda>i s. (ka_sleep api i (fst s), snd s)\<rparr>"

definition latest :: "string \<Rightarrow> rollout_event list \<Rightarrow> rollout_event option" where
  "latest n l = find (\<lambda>e. ev_name e = n) (rev l)"

definition shows_image :: "component \<Rightarrow> string \<Rightarrow> rollout_event \<Rightarrow> bool" where
  "shows_image c img e \<longleftrightarrow> (case e of Looked n d \<Rightarrow> n = deployment_name c \<and> deploymentImage d c = Inr img | _ \<Rightarrow> False)"

text \<open>
  \<open>settled c img\<close>: the last that was seen of or done to the Deployment of \<open>c\<close> is a read that shows it
  completely rolled out with this image. \<open>started c img\<close>: the first read of it shows this image.
\<close>

definition settled :: "component \<Rightarrow> string \<Rightarrow> rollout_event list \<Rightarrow> bool" where
  "settled c img l \<longleftrightarrow> (case latest (deployment_name c) l of
     Some (Looked n d) \<Rightarrow> deploymentImage d c = Inr img \<and> rolled_out d | _ \<Rightarrow> False)"

definition started :: "component \<Rightarrow> string \<Rightarrow> rollout_event list \<Rightarrow> bool" where
  "started c img l \<longleftrightarrow> (case find (\<lambda>e. ev_name e = deployment_name c) l of None \<Rightarrow> False | Some e \<Rightarrow> shows_image c img e)"

lemma find_append: "find p (a @ b) = (case find p a of None \<Rightarrow> find p b | Some x \<Rightarrow> Some x)"
  by (induction a) auto

lemma latest_append: "latest n (l @ l') = (case latest n l' of None \<Rightarrow> latest n l | Some e \<Rightarrow> Some e)"
  by (simp add: latest_def find_append split: option.splits)

lemma latest_other: "(\<forall>e \<in> set l'. ev_name e \<noteq> n) \<Longrightarrow> latest n (l @ l') = latest n l"
proof -
  assume "\<forall>e \<in> set l'. ev_name e \<noteq> n"
  then have "latest n l' = None" by (simp add: latest_def find_None_iff)
  then show ?thesis by (simp add: latest_append)
qed

lemma settled_append_other: "(\<forall>e \<in> set l'. ev_name e \<noteq> deployment_name c) \<Longrightarrow> settled c img (l @ l') = settled c img l"
  by (simp add: settled_def latest_other)

lemma settled_look: "deploymentImage d c = Inr img \<Longrightarrow> rolled_out d \<Longrightarrow> settled c img (l @ [Looked (deployment_name c) d])"
  by (simp add: settled_def latest_def)

lemma started_append: "started c img l \<Longrightarrow> started c img (l @ l')"
  by (auto simp: started_def find_append split: option.splits)

lemma deployment_name_inj [simp]: "deployment_name a = deployment_name b \<longleftrightarrow> a = b"
  by (cases a; cases b) auto

lemma component_of_name [simp]: "component_of (deployment_name c) = Some c"
  by (cases c) (simp_all add: component_of_def components_def)

lemma set_components [simp]: "c \<in> set components"
  by (cases c) (simp_all add: components_def)

lemma ready_rolled_out: "\<not> unready d \<Longrightarrow> rolled_out d"
  by (auto simp: unready_def rolled_out_def Let_def split: option.splits)

section \<open>Guarded patches\<close>

text \<open>
  Every patch directly follows the read it was computed from, and replaces one image by another as
  \<open>ok\<close> allows.
\<close>

fun swaps :: "(string \<Rightarrow> string \<Rightarrow> string \<Rightarrow> bool) \<Rightarrow> rollout_event list \<Rightarrow> bool" where
  "swaps ok [] \<longleftrightarrow> True"
| "swaps ok (Patched n p # l) \<longleftrightarrow> False"
| "swaps ok [Looked n d] \<longleftrightarrow> True"
| "swaps ok (Looked n d # Looked m d' # l) \<longleftrightarrow> swaps ok (Looked m d' # l)"
| "swaps ok (Looked n d # Patched m p # l) \<longleftrightarrow>
     m = n \<and> (\<exists>img e. ok n img e \<and> patch_of n n img e d = Inr (Some p)) \<and> swaps ok l"

lemma swaps_append: "swaps ok a \<Longrightarrow> swaps ok b \<Longrightarrow> swaps ok (a @ b)"
proof (induction ok a rule: swaps.induct)
  case (3 ok n d)
  show ?case
  proof (cases b)
    case (Cons e l)
    then show ?thesis using 3 by (cases e) auto
  qed simp
qed auto

lemma swaps_looks [simp]: "swaps ok (map (Looked n) ds)"
proof (induction ds)
  case (Cons d ds)
  then show ?case by (cases ds) auto
qed simp

lemma swaps_mono: "swaps ok l \<Longrightarrow> (\<And>n i e. ok n i e \<Longrightarrow> ok' n i e) \<Longrightarrow> swaps ok' l"
  by (induction ok l rule: swaps.induct) (auto, blast)

lemma swaps_looked: "(\<forall>e \<in> set l. \<not> is_patch e) \<Longrightarrow> swaps ok l"
proof (induction ok l rule: swaps.induct)
qed auto

definition touches :: "component \<Rightarrow> string \<Rightarrow> string \<Rightarrow> bool \<Rightarrow> rollout_event list \<Rightarrow> bool" where
  "touches c img e ok evs \<longleftrightarrow> (\<forall>x \<in> set evs. ev_name x = deployment_name c)
     \<and> swaps (\<lambda>n x y. n = deployment_name c \<and> x = img \<and> y = e) evs
     \<and> (ok \<longrightarrow> (\<forall>l. settled c img (l @ evs)))"

lemma touches_Nil [simp]: "touches c img e False []"
  by (simp add: touches_def)

lemma touches_append: "touches c img e ok a \<Longrightarrow> touches c img e ok' b \<Longrightarrow> touches c img e ok' (a @ b)"
  by (simp add: touches_def swaps_append ball_Un flip: append_assoc)

lemma touches_weaken: "touches c img e ok evs \<Longrightarrow> touches c img e False evs"
  by (simp add: touches_def)

text \<open>A program that adds such a piece of trace; it is settled where it succeeds, or never (\<open>stirs\<close>).\<close>

definition touching :: "('s \<Rightarrow> rollout_event list) \<Rightarrow> component \<Rightarrow> string \<Rightarrow> string \<Rightarrow> ('s, unit) prog \<Rightarrow> bool" where
  "touching tr c img e m \<longleftrightarrow> (\<forall>s. \<exists>evs. tr (snd (m s)) = tr s @ evs \<and> touches c img e (fst (m s) = Inr ()) evs)"

definition stirs :: "('s \<Rightarrow> rollout_event list) \<Rightarrow> component \<Rightarrow> string \<Rightarrow> string \<Rightarrow> ('s, 'a) prog \<Rightarrow> bool" where
  "stirs tr c img e m \<longleftrightarrow> (\<forall>s. \<exists>evs. tr (snd (m s)) = tr s @ evs \<and> touches c img e False evs)"

lemma stirs_quiet: "(\<And>s. tr (snd (m s)) = tr s) \<Longrightarrow> stirs tr c img e m"
  unfolding stirs_def by (metis append_Nil2 touches_Nil)

lemma touching_stirs: "touching tr c img e m \<Longrightarrow> stirs tr c img e m"
  unfolding touching_def stirs_def by (meson touches_weaken)

lemma touching_bind:
  assumes "stirs tr c img e m" and "\<And>a. touching tr c img e (f a)"
  shows "touching tr c img e (p_bind m f)"
  unfolding touching_def
proof
  fix s
  obtain r t where m: "m s = (r, t)" by fastforce
  then obtain evs where evs: "tr t = tr s @ evs" "touches c img e False evs"
    using assms(1) unfolding stirs_def by (metis snd_conv)
  show "\<exists>evs. tr (snd (p_bind m f s)) = tr s @ evs \<and> touches c img e (fst (p_bind m f s) = Inr ()) evs"
  proof (cases r)
    case Inl then show ?thesis using m evs by (auto simp: p_bind_run)
  next
    case (Inr a)
    obtain begun where "tr (snd (f a t)) = tr t @ begun" "touches c img e (fst (f a t) = Inr ()) begun"
      using assms(2) unfolding touching_def by blast
    then show ?thesis using m evs Inr by (intro exI [where x = "evs @ begun"]) (auto simp: p_bind_run intro: touches_append)
  qed
qed

definition planned :: "(component \<Rightarrow> string) \<Rightarrow> (component \<times> string) list \<Rightarrow> string \<Rightarrow> string \<Rightarrow> string \<Rightarrow> bool" where
  "planned target items n x y \<longleftrightarrow> (\<exists>(c, p) \<in> set items. n = deployment_name c \<and> x = target c \<and> y = p)"

lemma planned_Cons: "planned target items n x y \<Longrightarrow> planned target (i # items) n x y"
  by (auto simp: planned_def)

text \<open>Every component of the list runs its target: it did before and was left alone, or it is settled now.\<close>

definition finished :: "(component \<Rightarrow> string) \<Rightarrow> (component \<times> string) list \<Rightarrow> (component \<times> string) list \<Rightarrow> rollout_event list \<Rightarrow> bool" where
  "finished target items begun evs \<longleftrightarrow> (\<forall>x \<in> set items. target (fst x) = snd x \<and> fst x \<notin> fst ` set begun
     \<or> (\<forall>l. settled (fst x) (target (fst x)) (l @ evs)))"

lemma finished_Nil [simp]: "finished target [] begun evs"
  by (simp add: finished_def)

lemma finished_skip: "finished target items begun evs \<Longrightarrow> target c = p \<Longrightarrow> c \<notin> fst ` set begun \<Longrightarrow> finished target ((c, p) # items) begun evs"
  by (simp add: finished_def)

lemma finished_step:
  assumes "finished target items begun evs" and "c \<notin> fst ` set items" and "\<forall>l. settled c (target c) (l @ a @ evs)"
  shows "finished target ((c, p) # items) ((c, p) # begun) (a @ evs)"
proof -
  have "\<forall>l. settled d t (l @ a @ evs)" if "\<forall>l. settled d t (l @ evs)" for d t
    using that by (metis append_assoc)
  moreover have "fst x \<noteq> c" if "x \<in> set items" for x using that assms(2) by auto
  ultimately show ?thesis using assms(1,3) unfolding finished_def by simp blast
qed

definition checked :: "(component \<times> string) list \<Rightarrow> rollout_event list \<Rightarrow> bool" where
  "checked prev evs \<longleftrightarrow> list_all2 (\<lambda>(c, p) e. \<exists>d. e = Looked (deployment_name c) d \<and> deploymentImage d c = Inr p
     \<and> \<not> unready d \<and> \<not> isGitOpsManagedDeployment d) prev evs"

lemma checked_names: "checked prev evs \<Longrightarrow> map ev_name evs = map deployment_name (map fst prev)"
  unfolding checked_def by (induction rule: list_all2_induct) auto

lemma checked_settled:
  assumes "checked prev evs" and "distinct (map fst prev)" and "(c, p) \<in> set prev"
  shows "settled c p (l @ evs)"
  using assms
proof (induction prev arbitrary: evs l)
  case (Cons x prev)
  obtain c' p' where x: "x = (c', p')" by (cases x)
  obtain d rest where e: "evs = Looked (deployment_name c') d # rest" "deploymentImage d c' = Inr p'" "\<not> unready d" "checked prev rest"
    using Cons.prems(1) x by (auto simp: checked_def list_all2_Cons1)
  show ?case
  proof (cases "(c, p) = x")
    case True
    have "set (map ev_name rest) = deployment_name ` fst ` set prev"
      unfolding checked_names [OF e(4)] by (simp only: list.set_map)
    moreover have "c \<notin> fst ` set prev" using Cons.prems(2) True x by auto
    ultimately have "deployment_name c \<notin> ev_name ` set rest" by (simp only: list.set_map) (metis deployment_name_inj imageE)
    then have "\<forall>y \<in> set rest. ev_name y \<noteq> deployment_name c" by (metis imageI)
    then show ?thesis
      using settled_append_other [of rest c p "l @ [Looked (deployment_name c) d]"] settled_look [of d c p l] ready_rolled_out e True x by simp
  next
    case False
    then show ?thesis using Cons.IH [OF e(4), of "l @ [Looked (deployment_name c') d]"] Cons.prems e(1) by auto
  qed
qed simp

lemma checked_started:
  assumes "checked prev evs" and "distinct (map fst prev)" and "(c, p) \<in> set prev"
  shows "started c p evs"
  using assms
proof (induction prev arbitrary: evs)
  case (Cons x prev)
  obtain c' p' where x: "x = (c', p')" by (cases x)
  obtain d rest where e: "evs = Looked (deployment_name c') d # rest" "deploymentImage d c' = Inr p'" "checked prev rest"
    using Cons.prems(1) x by (auto simp: checked_def list_all2_Cons1)
  show ?case
  proof (cases "(c, p) = x")
    case True
    then show ?thesis using e x by (simp add: started_def shows_image_def)
  next
    case False
    then have p: "(c, p) \<in> set prev" "c \<noteq> c'" using Cons.prems x by force+
    then show ?thesis using Cons.IH [OF e(3)] Cons.prems(2) e(1) by (auto simp: started_def)
  qed
qed simp

lemma left_alone:
  assumes "checked prev looks" and "distinct (map fst prev)" and "(c, p) \<in> set prev"
    and "\<forall>x \<in> set es. \<exists>c \<in> fst ` set begun. ev_name x = deployment_name c" and "c \<notin> fst ` set begun"
  shows "settled c p (l @ looks @ es)"
proof -
  have "\<forall>x \<in> set es. ev_name x \<noteq> deployment_name c" using assms(4,5) by (metis deployment_name_inj)
  then show ?thesis using settled_append_other [of es c p "l @ looks"] checked_settled [OF assms(1-3)] by simp
qed

section \<open>The interface between the update and the adapter\<close>

locale rollout_service =
  fixes ops :: "'s rollout_ops" and tr :: "'s \<Rightarrow> rollout_event list"
  assumes read_log: "tr (snd (ro_read ops n s)) = tr s @ look_event n (fst (ro_read ops n s))"
    and patch_log: "stirs tr c img e (ro_patch ops (deployment_name c) (deployment_name c) img e)"
    and wait_log: "(\<And>t u. tr (snd (onWaiting t u)) = tr u) \<Longrightarrow>
      touching tr c img e (ro_wait ops (deployment_name c) img onWaiting beat)"
    and progress_log: "tr (snd (ro_progress ops ph pc m s)) = tr s"
begin

lemma waiting_quiet: "tr (snd (waiting ops pc m t u)) = tr u"
  using progress_log [of "''health-check''" pc m u] by (auto simp: waiting_def p_bind_run split: prod.splits sum.splits)

lemma wait_ready_touching: "touching tr c img e (wait_ready ops c img pc m)"
  unfolding touching_def wait_ready_def
  using wait_log [of "waiting ops pc m" c img e, unfolded touching_def] waiting_quiet by blast

lemma update_one_touching: "touching tr c img e (update_one ops i c img e)"
  unfolding update_one_def
  by (intro touching_bind wait_ready_touching patch_log stirs_quiet progress_log)

lemma restore_one_touching: "touching tr c previous img (restore_one ops c previous img)"
  unfolding restore_one_def
  by (intro touching_bind wait_ready_touching patch_log stirs_quiet progress_log)

lemma update_loop_trace:
  assumes "update_loop ops target i items changed s = ((err, changed'), s')" and "distinct (map fst items)"
  shows "\<exists>begun evs. changed' = changed @ begun \<and> set begun \<subseteq> set items \<and> distinct (map fst begun) \<and> tr s' = tr s @ evs
     \<and> (\<forall>x \<in> set evs. \<exists>c \<in> fst ` set begun. ev_name x = deployment_name c)
     \<and> swaps (planned target items) evs
     \<and> (err = None \<longrightarrow> finished target items begun evs)"
  using assms
proof (induction items arbitrary: i changed s)
  case (Cons x items)
  obtain c p where x: "x = (c, p)" by (cases x)
  have c: "c \<notin> fst ` set items" "distinct (map fst items)" using Cons.prems(2) x by auto
  show ?case
  proof (cases "target c = p")
    case True
    then have "update_loop ops target (Suc i) items changed s = ((err, changed'), s')" using Cons.prems(1) x by simp
    from Cons.IH [OF this c(2)] obtain begun evs where ih: "changed' = changed @ begun" "set begun \<subseteq> set items" "distinct (map fst begun)"
        "tr s' = tr s @ evs" "\<forall>x \<in> set evs. \<exists>c \<in> fst ` set begun. ev_name x = deployment_name c"
        "swaps (planned target items) evs"
        "err = None \<longrightarrow> finished target items begun evs" by blast
    moreover have "c \<notin> fst ` set begun" using c(1) ih(2) by auto
    ultimately show ?thesis using True x by (intro exI [where x = begun] exI [where x = evs]) (auto intro: swaps_mono planned_Cons finished_skip)
  next
    case False
    obtain r t where r: "update_one ops i c (target c) p s = (r, t)" by fastforce
    obtain a where a: "tr t = tr s @ a" "touches c (target c) p (r = Inr ()) a"
      using update_one_touching [of c "target c" p i] r unfolding touching_def by (metis fst_conv snd_conv)
    have sw: "swaps (planned target (x # items)) a"
      using a(2) unfolding touches_def by (auto simp: x planned_def intro: swaps_mono)
    show ?thesis
    proof (cases r)
      case (Inl e)
      then show ?thesis using Cons.prems(1) x False r a sw
        by (intro exI [where x = "[(c, p)]"] exI [where x = a]) (auto simp: touches_def)
    next
      case (Inr u)
      then have "update_loop ops target (Suc i) items (changed @ [(c, p)]) t = ((err, changed'), s')"
        using Cons.prems(1) x False r by simp
      from Cons.IH [OF this c(2)] obtain begun evs where ih: "changed' = (changed @ [(c, p)]) @ begun" "set begun \<subseteq> set items" "distinct (map fst begun)"
          "tr s' = tr t @ evs" "\<forall>x \<in> set evs. \<exists>c \<in> fst ` set begun. ev_name x = deployment_name c"
          "swaps (planned target items) evs"
          "err = None \<longrightarrow> finished target items begun evs" by blast
      have out: "c \<notin> fst ` set begun" using c(1) ih(2) by auto
      have rest: "\<forall>x \<in> set evs. ev_name x \<noteq> deployment_name c" using out ih(5) by (metis deployment_name_inj)
      have "\<forall>l. settled c (target c) (l @ a @ evs)"
        using a(2) Inr rest settled_append_other [of evs c "target c"] by (simp add: touches_def flip: append_assoc)
      then have there: "err = None \<longrightarrow> finished target (x # items) ((c, p) # begun) (a @ evs)"
        using finished_step ih(7) c(1) x by blast
      have "swaps (planned target (x # items)) (a @ evs)"
        by (rule swaps_append [OF sw swaps_mono [OF ih(6) planned_Cons]])
      moreover have "\<forall>y \<in> set (a @ evs). \<exists>d \<in> fst ` set ((c, p) # begun). ev_name y = deployment_name d"
        using a(2) ih(5) by (auto simp: touches_def)
      ultimately show ?thesis using ih(1-4) a(1) x out there
        by (intro exI [where x = "(c, p) # begun"] exI [where x = "a @ evs"]) auto
    qed
  qed
qed simp

lemma restore_loop_trace:
  assumes "restore_loop ops target items s = (failed, s')" and "distinct (map fst items)"
  shows "\<exists>evs. tr s' = tr s @ evs \<and> (\<forall>x \<in> set evs. \<exists>c \<in> fst ` set items. ev_name x = deployment_name c)
     \<and> swaps (\<lambda>n x y. planned target items n y x) evs
     \<and> (\<not> failed \<longrightarrow> (\<forall>x \<in> set items. \<forall>l. settled (fst x) (snd x) (l @ evs)))"
  using assms
proof (induction items arbitrary: s failed)
  case (Cons x items)
  obtain c p where x: "x = (c, p)" by (cases x)
  have c: "c \<notin> fst ` set items" "distinct (map fst items)" using Cons.prems(2) x by auto
  obtain r t where r: "restore_one ops c p (target c) s = (r, t)" by fastforce
  obtain a where a: "tr t = tr s @ a" "touches c p (target c) (r = Inr ()) a"
    using restore_one_touching [of c p "target c"] r unfolding touching_def by (metis fst_conv snd_conv)
  obtain f u where f: "restore_loop ops target items t = (f, u)" by fastforce
  then have s': "failed = (isl r \<or> f)" "s' = u" using Cons.prems(1) x r by auto
  from Cons.IH [OF f [folded s'(2)] c(2)] obtain evs where ih: "tr s' = tr t @ evs"
      "\<forall>x \<in> set evs. \<exists>c \<in> fst ` set items. ev_name x = deployment_name c"
      "swaps (\<lambda>n x y. planned target items n y x) evs"
      "\<not> f \<longrightarrow> (\<forall>x \<in> set items. \<forall>l. settled (fst x) (snd x) (l @ evs))" by blast
  have rest: "\<forall>y \<in> set evs. ev_name y \<noteq> deployment_name c" using c(1) ih(2) by (metis deployment_name_inj)
  have "swaps (\<lambda>n y z. planned target (x # items) n z y) (a @ evs)"
  proof (rule swaps_append)
    show "swaps (\<lambda>n y z. planned target (x # items) n z y) a"
      using a(2) unfolding touches_def by (auto simp: x planned_def intro: swaps_mono)
    show "swaps (\<lambda>n y z. planned target (x # items) n z y) evs"
      by (rule swaps_mono [OF ih(3)]) (rule planned_Cons)
  qed
  moreover have "settled (fst y) (snd y) (l @ a @ evs)" if "\<not> failed" "y \<in> set (x # items)" for y l
  proof (cases "y = x")
    case True
    then show ?thesis using that(1) s'(1) a(2) rest settled_append_other [of evs c p "l @ a"] x by (cases r) (auto simp: touches_def)
  next
    case False
    then have "\<forall>l. settled (fst y) (snd y) (l @ evs)" using that s'(1) ih(4) by auto
    then show ?thesis by (metis append_assoc)
  qed
  moreover have "\<forall>y \<in> set (a @ evs). \<exists>d \<in> fst ` set (x # items). ev_name y = deployment_name d"
    using a(2) ih(2) x by (auto simp: touches_def)
  ultimately show ?case using a(1) ih(1) by (intro exI [where x = "a @ evs"]) auto
qed simp

lemma check_component_trace:
  assumes "check_component ops target c s = (r, s')"
  shows "\<exists>evs. tr s' = tr s @ evs \<and> (\<forall>e \<in> set evs. \<not> is_patch e) \<and> (\<forall>p. r = Inr p \<longrightarrow> checked [(c, p)] evs \<and> immutable_image c (target c))"
proof -
  obtain q t where q: "ro_read ops (deployment_name c) s = (q, t)" by fastforce
  then have t: "tr t = tr s @ look_event (deployment_name c) q" using read_log [of "deployment_name c" s] by simp
  show ?thesis
  proof (cases "immutable_image c (target c)")
    case False
    then show ?thesis using assms by (auto simp: check_component_def)
  next
    case True
    then show ?thesis using assms q t
      by (cases q) (auto simp: check_component_def p_bind_run look_event_def checked_def assertDeploymentReady_def result_iffs
          split: if_splits)
  qed
qed

lemma check_components_trace:
  assumes "check_components ops target cs s = (r, s')"
  shows "\<exists>evs. tr s' = tr s @ evs \<and> (\<forall>e \<in> set evs. \<not> is_patch e)
     \<and> (\<forall>prev. r = Inr prev \<longrightarrow> map fst prev = cs \<and> checked prev evs \<and> (\<forall>c \<in> set cs. immutable_image c (target c)))"
  using assms
proof (induction cs arbitrary: s r)
  case (Cons c cs)
  obtain q t where q: "check_component ops target c s = (q, t)" by fastforce
  obtain a where a: "tr t = tr s @ a" "\<forall>e \<in> set a. \<not> is_patch e" "\<And>p. q = Inr p \<Longrightarrow> checked [(c, p)] a \<and> immutable_image c (target c)"
    using check_component_trace [OF q] by blast
  show ?case
  proof (cases q)
    case (Inl e)
    then show ?thesis using Cons.prems q a by (auto simp: p_bind_run)
  next
    case (Inr p)
    obtain q' u where q': "check_components ops target cs t = (q', u)" by fastforce
    have u: "u = s'" "r = (case q' of Inl e \<Rightarrow> Inl e | Inr rest \<Rightarrow> Inr ((c, p) # rest))"
      using Cons.prems q Inr q' by (auto simp: p_bind_run split: sum.splits)
    obtain b where b: "tr s' = tr t @ b" "\<forall>e \<in> set b. \<not> is_patch e"
        "\<forall>prev. q' = Inr prev \<longrightarrow> map fst prev = cs \<and> checked prev b \<and> (\<forall>c \<in> set cs. immutable_image c (target c))"
      using Cons.IH [OF q' [unfolded u(1)]] by blast
    have "checked ((c, p) # prev) (a @ b)" if "checked prev b" for prev
      using a(3) [OF Inr] that by (auto simp: checked_def list_all2_Cons1)
    then show ?thesis using a b u(2) Inr by (intro exI [where x = "a @ b"]) (auto split: sum.splits)
  qed
qed (simp add: checked_def)

text \<open>The whole update: the looks of the checks, then guarded patches, then every component settled on one side.\<close>

lemma apply_trace:
  assumes "applyKubernetesImageUpdate ops target s = (r, s')"
  shows "\<exists>prev looks evs. tr s' = tr s @ looks @ evs \<and> (\<forall>e \<in> set looks. \<not> is_patch e)
     \<and> (evs = [] \<or> checked prev looks \<and> map fst prev = components \<and> (\<forall>c. immutable_image c (target c)))
     \<and> swaps (\<lambda>n x y. planned target prev n x y \<or> planned target prev n y x) evs
     \<and> (case r of Inr q \<Rightarrow> q = prev \<and> checked prev looks \<and> map fst prev = components
            \<and> (\<forall>(c, p) \<in> set prev. settled c (target c) (tr s'))
        | Inl m \<Rightarrow> evs = [] \<or> m = INCOMPLETE \<or> (\<forall>(c, p) \<in> set prev. settled c p (tr s')))"
proof -
  obtain q t where q: "check_components ops target components s = (q, t)" by fastforce
  obtain looks where looks: "tr t = tr s @ looks" "\<forall>e \<in> set looks. \<not> is_patch e"
      "\<forall>prev. q = Inr prev \<longrightarrow> map fst prev = components \<and> checked prev looks \<and> (\<forall>c \<in> set components. immutable_image c (target c))"
    using check_components_trace [OF q] by blast
  show ?thesis
  proof (cases q)
    case (Inl e)
    then show ?thesis using assms q looks by (intro exI [where x = "[]"] exI [where x = looks]) (auto simp: applyKubernetesImageUpdate_def p_bind_run)
  next
    case (Inr prev)
    then have prev: "map fst prev = components" "checked prev looks" "\<forall>c. immutable_image c (target c)" using looks(3) by auto
    then have d: "distinct (map fst prev)" by (simp add: components_def)
    obtain err begun u where loop: "update_loop ops target 0 prev [] t = ((err, begun), u)" by (metis prod.collapse)
    obtain evs where evs: "set begun \<subseteq> set prev" "distinct (map fst begun)" "tr u = tr t @ evs"
        "\<forall>x \<in> set evs. \<exists>c \<in> fst ` set begun. ev_name x = deployment_name c" "swaps (planned target prev) evs"
        "err = None \<longrightarrow> finished target prev begun evs"
      using update_loop_trace [OF loop d] by auto
    have untouched: "settled c p (tr s @ looks @ es)" if "(c, p) \<in> set prev"
        "\<forall>x \<in> set es. \<exists>c \<in> fst ` set begun. ev_name x = deployment_name c" "c \<notin> fst ` set begun" for c p es
      by (rule left_alone [OF prev(2) d that])
    show ?thesis
    proof (cases err)
      case None
      then have r: "r = Inr prev" "s' = u" using assms q Inr loop by (auto simp: applyKubernetesImageUpdate_def p_bind_run)
      have "settled c (target c) (tr s')" if "(c, p) \<in> set prev" for c p
        using evs(6) None that untouched [OF that evs(4)] looks(1) evs(3) r(2)
        unfolding finished_def by (metis append_assoc fst_conv snd_conv)
      then show ?thesis using looks prev evs r
        by (intro exI [where x = prev] exI [where x = looks] exI [where x = evs]) (auto intro: swaps_mono)
    next
      case (Some e)
      obtain failed v where rest: "restore_loop ops target (rev begun) u = (failed, v)" by fastforce
      then have r: "s' = v" "\<exists>m. r = Inl m \<and> (failed \<longrightarrow> m = INCOMPLETE)"
        using assms q Inr loop Some by (auto simp: applyKubernetesImageUpdate_def p_bind_run split: if_splits bool.splits)
      obtain es where es: "tr s' = tr u @ es" "\<forall>x \<in> set es. \<exists>c \<in> fst ` set begun. ev_name x = deployment_name c"
          "swaps (\<lambda>n x y. planned target (rev begun) n y x) es"
          "\<not> failed \<longrightarrow> (\<forall>x \<in> set begun. \<forall>l. settled (fst x) (snd x) (l @ es))"
        using restore_loop_trace [OF rest] evs(2) r(1) by (auto simp: rev_map [symmetric])
      have both: "settled c p (tr s')" if "\<not> failed" "(c, p) \<in> set prev" for c p
      proof (cases "c \<in> fst ` set begun")
        case True
        then obtain p' where p': "(c, p') \<in> set begun" by auto
        then have "(c, p) \<in> set begun" using evs(1) that(2) eq_key_imp_eq_value [OF d that(2)] by blast
        then show ?thesis using es(1,4) that(1) by auto
      next
        case False
        then show ?thesis using untouched [OF that(2), of "evs @ es"] evs(3,4) es(1,2) looks(1) by auto
      qed
      have "swaps (\<lambda>n x y. planned target prev n x y \<or> planned target prev n y x) (evs @ es)"
        using evs(1) by (intro swaps_append swaps_mono [OF evs(5)] swaps_mono [OF es(3)]) (auto simp: planned_def)
      then show ?thesis using looks prev evs(3) es(1) r both
        by (intro exI [where x = prev] exI [where x = looks] exI [where x = "evs @ es"]) auto
    qed
  qed
qed

end

section \<open>The adapter provides the interface\<close>

lemma traced_api_simps [simp]:
  "ka_read (traced_api api) n = traced (look_event n) (ka_read api n)"
  "ka_patch (traced_api api) n p = traced (\<lambda>_. [Patched n p]) (ka_patch api n p)"
  by (simp_all add: traced_api_def)

lemma patch_stirs: "stirs snd c img e (patchImage (traced_api api) (deployment_name c) (deployment_name c) img e)"
  unfolding stirs_def
proof
  fix s :: "'a \<times> rollout_event list"
  let ?n = "deployment_name c"
  obtain r w where r: "ka_read api ?n (fst s) = (r, w)" by fastforce
  show "\<exists>evs. snd (snd (patchImage (traced_api api) ?n ?n img e s)) = snd s @ evs \<and> touches c img e False evs"
  proof (cases r)
    case (Inr d)
    then show ?thesis using r
      by (cases "patch_of ?n ?n img e d")
         (auto simp: patchImage_def p_bind_run traced_def look_event_def touches_def split: prod.splits sum.splits option.splits)
  qed (use r in \<open>auto simp: patchImage_def p_bind_run traced_def look_event_def\<close>)
qed

lemma wait_loop_touching:
  assumes "\<And>t u. snd (snd (onWaiting t u)) = snd u"
  shows "touching snd c img e (wait_loop n (traced_api api) interval (deployment_name c) img onWaiting deadline beat)"
proof (induction n arbitrary: beat)
  case (Suc n)
  let ?n = "deployment_name c"
  show ?case
    unfolding touching_def
  proof
    fix s :: "'a \<times> rollout_event list"
    let ?m = "wait_loop (Suc n) (traced_api api) interval ?n img onWaiting deadline beat"
    obtain r w where r: "ka_read api ?n (fst s) = (r, w)" by fastforce
    consider (stop) "snd (snd (?m s)) = snd s" "fst (?m s) \<noteq> Inr ()"
      | (look) d where "r = Inr d" "snd (snd (?m s)) = snd s @ [Looked ?n d]" "fst (?m s) = Inr () \<longrightarrow> rollout_state ?n img d = Inr True"
      | (again) d b u where "r = Inr d" "snd u = snd s @ [Looked ?n d]"
          "?m s = wait_loop n (traced_api api) interval ?n img onWaiting deadline b u"
    proof (cases "deadline \<le> ka_now (traced_api api) s \<or> isl r")
      case True
      then show thesis using stop r by (cases r) (auto simp: p_bind_run traced_def look_event_def)
    next
      case False
      then obtain d where d: "r = Inr d" "\<not> deadline \<le> ka_now (traced_api api) s" by (cases r) auto
      show thesis
      proof (cases "rollout_state ?n img d = Inr False")
        case True
        obtain q v where q: "onWaiting beat (w, snd s @ [Looked ?n d]) = (q, v)" by (metis prod.collapse)
        have v: "snd v = snd s @ [Looked ?n d]" using assms [of beat "(w, snd s @ [Looked ?n d])"] q by simp
        show thesis
        proof (cases q)
          case Inl
          then show thesis using look [of d] d r True q v by (simp add: p_bind_run traced_def look_event_def)
        next
          case (Inr b)
          then show thesis
            using again [of d "ka_sleep (traced_api api) interval v" b] d r True q v
            by (simp add: p_bind_run traced_def look_event_def traced_api_def)
        qed
      next
        case False
        then show thesis using look [of d] d r
          by (cases "rollout_state ?n img d") (auto simp: p_bind_run traced_def look_event_def)
      qed
    qed
    then show "\<exists>evs. snd (snd (?m s)) = snd s @ evs \<and> touches c img e (fst (?m s) = Inr ()) evs"
    proof cases
      case stop then show ?thesis by (intro exI [where x = "[]"]) simp
    next
      case (look d)
      then have "fst (?m s) = Inr () \<longrightarrow> settled c img (l @ [Looked ?n d])" for l
        by (auto simp: rollout_state_def result_iffs intro!: settled_look split: if_splits)
      then show ?thesis using look by (intro exI [where x = "[Looked ?n d]"]) (auto simp: touches_def)
    next
      case (again d b u)
      obtain evs where "snd (snd (?m s)) = snd u @ evs" "touches c img e (fst (?m s) = Inr ()) evs"
        using Suc.IH [of b] again(3) unfolding touching_def by metis
      moreover have "touches c img e False [Looked ?n d]" by (simp add: touches_def)
      ultimately show ?thesis using again(2)
        by (intro exI [where x = "[Looked ?n d] @ evs"]) (auto intro: touches_append simp del: append.simps)
    qed
  qed
qed (simp add: touching_def touches_def)

lemma waitForDeployment_touching:
  assumes "\<And>t u. snd (snd (onWaiting t u)) = snd u"
  shows "touching snd c img e (waitForDeployment (traced_api api) interval timeout (deployment_name c) img onWaiting beat)"
  unfolding touching_def waitForDeployment_def
  using wait_loop_touching [where onWaiting = onWaiting, OF assms, unfolded touching_def] by blast

interpretation rollout: rollout_service "adapter_ops (traced_api api) interval timeout (\<lambda>ph pc m. untraced (progress ph pc m))" snd
  for api :: "'w kube_api" and interval timeout progress
proof unfold_locales
  fix n s show "snd (snd (ro_read (adapter_ops (traced_api api) interval timeout (\<lambda>ph pc m. untraced (progress ph pc m))) n s))
     = snd s @ look_event n (fst (ro_read (adapter_ops (traced_api api) interval timeout (\<lambda>ph pc m. untraced (progress ph pc m))) n s))"
    by (simp add: adapter_ops_def traced_def split: prod.splits)
qed (simp_all add: adapter_ops_def patch_stirs untraced_def waitForDeployment_touching split: prod.splits)

end
