(* ===== verification/Kn_UpdateSafety.thy ===== *)
theory Kn_UpdateSafety
  imports Kn_UpdateWorker Kn_RolloutSafety
begin

text \<open>
  What one run of the update worker keeps: the worker never leaves a task running under a lease it
  still holds, and the trace of a run has a recorded backup before the first patch.
\<close>

section \<open>The lease is given up\<close>

definition unowned :: "string \<Rightarrow> string \<Rightarrow> 'z outside_scheme \<Rightarrow> bool" where
  "unowned i workerId w \<longleftrightarrow> (\<forall>r \<in> set (od_tasks w). \<not> owned_by i workerId (od_now w) r)"

lemma heartbeat_unowned:
  assumes "unowned i workerId w"
  shows "snd (on_tasks (\<lambda>now. heartbeat now i workerId ph pc m) w) = w"
proof -
  have "snd (update_many (owned_by i workerId (od_now w)) f (od_tasks w)) = od_tasks w" for f
    using assms by (intro update_many_zero) (auto simp: update_many_zero_iff unowned_def)
  then show ?thesis by (auto simp: on_tasks_def heartbeat_def lease_result_def split: prod.splits)
qed

lemma finish_unowned:
  assumes "task_key env = Inr k" and "terminal_phase succeeded ph" and "percent_ok pc"
  shows "unowned i workerId (snd (on_tasks (\<lambda>now. finish env now i workerId succeeded ph pc m res) w))"
proof -
  obtain signed where s: "sign_optional env res = Inr signed"
    using assms(1) by (cases res) (auto simp: sign_optional_def signResult_def)
  have fin: "\<not> owned_by i workerId now (finish_row env now succeeded ph pc m signed r)" for now r
    by (simp add: owned_by_def finish_row_def Let_def split: option.split)
  have over: "unowned i workerId (w\<lparr>od_tasks := snd (update_many (owned_by i workerId (od_now w)) (finish_row env (od_now w) succeeded ph pc m signed) db)\<rparr>)"
    for db
    unfolding unowned_def by (auto simp: update_many_def fin)
  obtain n db where u: "update_many (owned_by i workerId (od_now w)) (finish_row env (od_now w) succeeded ph pc m signed) (od_tasks w) = (n, db)"
    by fastforce
  then show ?thesis
    using assms(2,3) s over [of "od_tasks w"] by (simp add: on_tasks_def finish_def lease_result_def)
qed

lemma renew_unowned:
  assumes "unowned i workerId (rn_world st)"
  shows "rn_world (renew (queue_ops env i workerId ops) n st) = rn_world st"
  using assms
proof (induction n arbitrary: st)
  case (Suc n)
  have "snd (wo_heartbeat (queue_ops env i workerId ops) ph pc m (rn_world st)) = rn_world st" for ph pc m
    using heartbeat_unowned [OF Suc.prems] by (simp add: queue_ops_def)
  then obtain q where q: "wo_heartbeat (queue_ops env i workerId ops) (rn_phase st) (rn_percent st) (rn_message st) (rn_world st) = (q, rn_world st)"
    by (metis prod.collapse)
  show ?case using Suc q by (auto split: option.splits sum.splits)
qed simp

lemma awaiting_finish:
  assumes "task_key env = Inr k" and "terminal_phase succeeded ph" and "percent_ok (map_option num pc)"
    and "awaiting (queue_ops env i workerId ops) (wo_finish (queue_ops env i workerId ops) succeeded ph pc m res) st = (r, st')"
  shows "unowned i workerId (rn_world st')"
proof -
  let ?w = "snd (wo_finish (queue_ops env i workerId ops) succeeded ph pc m res (rn_world st))"
  have u: "unowned i workerId ?w" using finish_unowned [OF assms(1-3)] by (simp add: queue_ops_def)
  have "rn_world st' = ?w"
    using assms(4) renew_unowned [of i workerId "st\<lparr>rn_world := ?w\<rparr>" env ops] u
    by (auto simp: awaiting_def split: prod.splits)
  then show ?thesis using u by simp
qed

lemma run_body_unowned:
  assumes "task_key env = Inr k" and "run_body (queue_ops env i workerId ops) payload st = (Inr (), st')"
  shows "unowned i workerId (rn_world st')"
proof -
  let ?ops = "queue_ops env i workerId ops"
  have over: "unowned i workerId (rn_world st')" if "awaiting ?ops (wo_finish ?ops succeeded ph pc m res) t = (Inr (), st')"
      "terminal_phase succeeded ph" "percent_ok (map_option num pc)" for succeeded ph pc m res t
    using awaiting_finish [OF assms(1) that(2,3,1)] .
  have ends: "terminal_phase True ''completed''" "terminal_phase False ''failed''" "percent_ok (map_option num (Some 100))"
      "percent_ok (map_option num None)"
    by (simp_all add: terminal_phase_def percent_ok_def)
  show ?thesis
  proof (cases "action_of payload = ''preflight''")
    case True
    then obtain settings target backup t where "run_preflight ?ops payload settings target backup t = (Inr (), st')"
      using assms(2) by (auto simp: run_body_def p_bind_Inr split: if_splits option.splits)
    then show ?thesis using ends
      by (auto simp: run_preflight_def Let_def p_bind_Inr split: if_splits intro: over)
  next
    case False
    then obtain t where "run_update ?ops payload t = (Inr (), st')"
      using assms(2) by (auto simp: run_body_def p_bind_Inr split: if_splits option.splits)
    then show ?thesis using ends by (auto simp: run_update_def p_bind_Inr intro: over)
  qed
qed

lemma runTask_unowned:
  assumes "task_key env = Inr k"
  shows "unowned i workerId (rn_world (runTask (queue_ops env i workerId ops) payload w))"
proof -
  let ?ops = "queue_ops env i workerId ops"
  have failed: "terminal_phase False (failure_phase m)" for m by (simp add: terminal_phase_def failure_phase_def)
  have "unowned i workerId (rn_world st')" if "p_catch (run_body ?ops payload) (run_failure ?ops payload) st = (r, st')" for st r st'
  proof (cases "run_body ?ops payload st")
    case (Pair q t)
    show ?thesis
    proof (cases q)
      case (Inl e)
      then have "\<exists>x. awaiting ?ops (wo_finish ?ops False (failure_phase e) None e (failure_result payload e)) t = (x, st')"
        using that Pair by (auto simp: p_catch_def run_failure_def split: prod.splits)
      moreover have "percent_ok (map_option num None)" by (simp add: percent_ok_def)
      ultimately show ?thesis using awaiting_finish [OF assms failed] by blast
    next
      case (Inr u)
      then show ?thesis using that Pair run_body_unowned [OF assms] by (auto simp: p_catch_def)
    qed
  qed
  then show ?thesis unfolding runTask_def by (metis prod.collapse)
qed

lemma claim_loop_key: "claim_loop n env now workerId db = (Inr (Some v), db') \<Longrightarrow> \<exists>k. task_key env = Inr k"
  by (induction n env now workerId db rule: claim_loop.induct) (auto split: option.splits sum.splits prod.splits if_splits)

section \<open>What the parts keep\<close>

lemma keeps_let [keep_rules]: "(\<And>x. x = t \<Longrightarrow> keeps I (f x)) \<Longrightarrow> keeps I (Let t f)"
  by simp

text \<open>An update of images keeps what the API, sleeping and the progress reports keep.\<close>

definition kube_keeps :: "('s \<Rightarrow> bool) \<Rightarrow> 's kube_api \<Rightarrow> bool" where
  "kube_keeps I api \<longleftrightarrow> (\<forall>n. keeps I (ka_read api n)) \<and> (\<forall>n p. keeps I (ka_patch api n p)) \<and> (\<forall>i s. I s \<longrightarrow> I (ka_sleep api i s))"

lemma wait_loop_keeps:
  assumes "kube_keeps I api" and "\<And>b. keeps I (onWaiting b)"
  shows "keeps I (wait_loop n api interval name img onWaiting deadline beat)"
proof (induction n arbitrary: beat)
  case 0
  then show ?case by (simp add: keeps_def)
next
  case (Suc n)
  have "keeps I (p_bind (ka_read api name) (\<lambda>d. p_bind (p_lift (rollout_state name img d)) (\<lambda>done.
        if done then p_ok ()
        else p_bind (onWaiting beat) (\<lambda>beat2. p_bind (p_do (ka_sleep api interval))
          (\<lambda>_. wait_loop n api interval name img onWaiting deadline beat2)))))"
    using assms Suc by (intro keep_rules) (auto simp: kube_keeps_def)
  then show ?case by (simp add: keeps_def)
qed

lemma waiting_keeps: "(\<And>ph pc m. keeps I (ro_progress ops ph pc m)) \<Longrightarrow> keeps I (waiting ops pc m b)"
proof (rule keepsI)
  fix s r s' assume a: "\<And>ph pc m. keeps I (ro_progress ops ph pc m)" "I s" "waiting ops pc m b s = (r, s')"
  have "keeps I (p_bind (ro_progress ops ''health-check'' pc m) (\<lambda>_. p_ok (ro_now ops s)))" by (intro keep_rules a(1))
  from keeps_run [OF this a(2)] show "I s'" using a(2,3) by (simp add: waiting_def split: if_splits)
qed

lemma wait_ready_keeps:
  assumes "kube_keeps I api" and "\<And>ph pc m. keeps I (progress ph pc m)"
  shows "keeps I (wait_ready (adapter_ops api interval timeout progress) c img pc m)"
proof (rule keepsI)
  fix s r s' assume "I s" "wait_ready (adapter_ops api interval timeout progress) c img pc m s = (r, s')"
  then show "I s'"
    using wait_loop_keeps [OF assms(1), of "waiting (adapter_ops api interval timeout progress) pc m"]
      waiting_keeps [of I "adapter_ops api interval timeout progress"] assms(2)
    by (simp add: wait_ready_def adapter_ops_def waitForDeployment_def) (metis keepsD)
qed

lemma patch_keeps: "kube_keeps I api \<Longrightarrow> keeps I (patchImage api n k img e)"
  unfolding patchImage_def by (intro keep_rules) (auto simp: kube_keeps_def keeps_simple split: option.split)

lemma update_one_keeps:
  assumes "kube_keeps I api" and "\<And>ph pc m. keeps I (progress ph pc m)"
  shows "keeps I (update_one (adapter_ops api interval timeout progress) i c img previous)"
  unfolding update_one_def
  by (intro keep_rules wait_ready_keeps assms) (simp_all add: adapter_ops_def assms patch_keeps)

lemma restore_one_keeps:
  assumes "kube_keeps I api" and "\<And>ph pc m. keeps I (progress ph pc m)"
  shows "keeps I (restore_one (adapter_ops api interval timeout progress) c previous img)"
  unfolding restore_one_def
  by (intro keep_rules wait_ready_keeps assms) (simp_all add: adapter_ops_def assms patch_keeps)

lemma update_loop_keeps:
  assumes "kube_keeps I api" and "\<And>ph pc m. keeps I (progress ph pc m)"
  shows "keeps I (update_loop (adapter_ops api interval timeout progress) target i items begun)"
proof (induction items arbitrary: i begun)
  case (Cons x items)
  obtain c p where x: "x = (c, p)" by (cases x)
  show ?case
  proof (rule keepsI)
    fix s r s' assume a: "I s" "update_loop (adapter_ops api interval timeout progress) target i (x # items) begun s = (r, s')"
    obtain q t where q: "update_one (adapter_ops api interval timeout progress) i c (target c) p s = (q, t)" by fastforce
    have "I t" by (rule keepsD [where I = I, OF update_one_keeps [OF assms] a(1) q])
    show "I s'"
    proof (cases "target c = p \<or> isl q")
      case True
      then show ?thesis using a x q \<open>I t\<close> keepsD [where I = I, OF Cons.IH a(1)] by (cases q) (auto split: if_splits)
    next
      case False
      then obtain u where "update_loop (adapter_ops api interval timeout progress) target (Suc i) items (begun @ [(c, p)]) t = (r, s')"
        using a x q by (cases q) auto
      then show ?thesis using keepsD [where I = I, OF Cons.IH \<open>I t\<close>] by blast
    qed
  qed
qed (simp add: keeps_def)

lemma restore_loop_keeps:
  assumes "kube_keeps I api" and "\<And>ph pc m. keeps I (progress ph pc m)"
  shows "keeps I (restore_loop (adapter_ops api interval timeout progress) target items)"
proof (induction items)
  case (Cons x items)
  obtain c p where x: "x = (c, p)" by (cases x)
  show ?case
  proof (rule keepsI)
    fix s r s' assume a: "I s" "restore_loop (adapter_ops api interval timeout progress) target (x # items) s = (r, s')"
    obtain q t where q: "restore_one (adapter_ops api interval timeout progress) c p (target c) s = (q, t)" by fastforce
    have "I t" by (rule keepsD [where I = I, OF restore_one_keeps [OF assms] a(1) q])
    then show "I s'" using a x q keepsD [where I = I, OF Cons.IH] by (auto split: prod.splits)
  qed
qed (simp add: keeps_def)

lemma check_components_keeps: "kube_keeps I api \<Longrightarrow> keeps I (check_components (adapter_ops api interval timeout progress) target cs)"
  by (induction cs) (auto simp: check_component_def adapter_ops_def kube_keeps_def intro!: keep_rules)

lemma adapter_apply_keeps:
  assumes "kube_keeps I api" and "\<And>ph pc m. keeps I (progress ph pc m)"
  shows "keeps I (adapter_apply api interval timeout target progress)"
  unfolding adapter_apply_def applyKubernetesImageUpdate_def
proof (intro keep_rules check_components_keeps [OF assms(1)] keepsI)
  let ?ops = "adapter_ops api interval timeout progress"
  fix prev s r s'
  assume a: "I s" "(case update_loop ?ops target 0 prev [] s of ((None, _), s') \<Rightarrow> (Inr prev, s')
       | ((Some e, changed), s') \<Rightarrow> (case restore_loop ?ops target (rev changed) s' of
           (True, s'') \<Rightarrow> (Inl INCOMPLETE, s'')
         | (False, s'') \<Rightarrow> (Inl (''Kubernetes update failed; restored previous images: '' @ e), s''))) = (r, s')"
  obtain err begun t where t: "update_loop ?ops target 0 prev [] s = ((err, begun), t)" by (metis prod.collapse)
  have "I t" by (rule keepsD [where I = I, OF update_loop_keeps [OF assms] a(1) t])
  moreover obtain f u where "restore_loop ?ops target (rev begun) t = (f, u)" by fastforce
  moreover from calculation have "I u" using keepsD [where I = I, OF restore_loop_keeps [where progress = progress, OF assms]] by blast
  ultimately show "I s'" using a(2) t by (cases err) (auto split: bool.splits if_splits)
qed

text \<open>A rehearsal keeps what its five adapters keep.\<close>

lemma step_keeps: "keeps I m \<Longrightarrow> keeps I (step_of name m)" "keeps I (skipped name)"
  by (auto simp: keeps_def step_of_def skipped_def split: prod.splits sum.splits)

lemma rehearsal_keeps:
  assumes "keeps I (rh_create ops)" and "\<And>d f. keeps I (rh_restore ops d f)" and "\<And>d v i. keeps I (rh_migrate ops d v i)"
    and "\<And>d i. keeps I (rh_compatible ops d i)" and "\<And>d. keeps I (rh_drop ops d)"
  shows "keeps I (rehearsal_run ops input)"
proof (rule keepsI)
  fix s r s' assume I: "I s" and run: "rehearsal_run ops input s = (r, s')"
  obtain created database c1 s1 where 1: "create_step ops s = ((created, database, c1), s1)" by (metis prod.collapse)
  have I1: "I s1" using assms(1) I 1 unfolding keeps_def create_step_def
    by (auto split: prod.splits sum.splits if_splits dest!: spec [of _ s])
  have rule: "I t" if "(case database of Some d \<Rightarrow> if b then step_of n (f d) u else skipped n u | None \<Rightarrow> skipped n u) = (x, t)"
      "I u" "\<And>d. keeps I (f d)" for b n f u x t
  proof -
    have "I (snd (step_of n (f d) u))" "I (snd (skipped n u))" for d
      by (rule keeps_run [where I = I, OF step_keeps(1) [OF that(3)] that(2)], rule keeps_run [where I = I, OF step_keeps(2) that(2)])
    then show ?thesis using that(1) by (cases database; cases b) (simp_all, metis snd_conv)
  qed
  obtain b2 c2 s2 where 2: "(case database of Some d \<Rightarrow> if created then step_of ''backup restore'' (rh_restore ops d (ri_backupLocation input)) s1
      else skipped ''backup restore'' s1 | None \<Rightarrow> skipped ''backup restore'' s1) = ((b2, c2), s2)" by (metis prod.collapse)
  obtain b3 c3 s3 where 3: "(case database of Some d \<Rightarrow> if b2 then step_of ''target migration'' (rh_migrate ops d (ri_targetVersion input) (ri_targetImage input)) s2
      else skipped ''target migration'' s2 | None \<Rightarrow> skipped ''target migration'' s2) = ((b3, c3), s3)" by (metis prod.collapse)
  obtain b4 c4 s4 where 4: "(case database of Some d \<Rightarrow> if b3 then step_of ''previous version'' (rh_compatible ops d (ri_previousImage input)) s3
      else skipped ''previous version'' s3 | None \<Rightarrow> skipped ''previous version'' s3) = ((b4, c4), s4)" by (metis prod.collapse)
  obtain b5 c5 s5 where 5: "(case database of Some d \<Rightarrow> step_of ''cleanup'' (rh_drop ops d) s4
      | None \<Rightarrow> ((False, [check ''cleanup'' CheckFailed ''unknown'']), s4)) = ((b5, c5), s5)" by (metis prod.collapse)
  have "I s4" by (rule rule [OF 4 rule [OF 3 rule [OF 2 I1]]]) (rule assms)+
  then have "I s5" using 5 keepsD [where I = I, OF step_keeps(1) [OF assms(5)]] by (auto split: option.splits)
  moreover have "s' = s5" using run 1 2 3 4 5 by (simp add: rehearsal_run_def Let_def)
  ultimately show "I s'" by simp
qed

end
