(* ===== verification/Kn_UpdateTrace.thy ===== *)
theory Kn_UpdateTrace
  imports Kn_UpdateSafety
begin

text \<open>
  The order of what a run of the worker does to the outside: the trace has the backups that were
  recorded and the calls of the Kubernetes API. A preflight never patches, and an update patches
  nothing before its backup is recorded.
\<close>

section \<open>The traced worker\<close>

datatype worker_event = BackupRecorded string int | Api rollout_event

fun is_api_patch :: "worker_event \<Rightarrow> bool" where
  "is_api_patch (Api e) \<longleftrightarrow> is_patch e"
| "is_api_patch (BackupRecorded l b) \<longleftrightarrow> False"

fun is_record :: "worker_event \<Rightarrow> bool" where
  "is_record (BackupRecorded l b) \<longleftrightarrow> True"
| "is_record (Api e) \<longleftrightarrow> False"

definition record_event :: "string \<Rightarrow> int \<Rightarrow> string + unit \<Rightarrow> worker_event list" where
  "record_event l b r = (case r of Inl _ \<Rightarrow> [] | Inr _ \<Rightarrow> [BackupRecorded l b])"

definition traced_kube :: "'w kube_api \<Rightarrow> ('w, worker_event) traced_state kube_api" where
  "traced_kube api = \<lparr>ka_read = \<lambda>n. traced (\<lambda>r. map Api (look_event n r)) (ka_read api n),
     ka_patch = \<lambda>n p. traced (\<lambda>_. [Api (Patched n p)]) (ka_patch api n p),
     ka_now = \<lambda>s. ka_now api (fst s), ka_sleep = \<lambda>i s. (ka_sleep api i (fst s), snd s)\<rparr>"

definition traced_worker :: "'w worker_ops \<Rightarrow> ('w, worker_event) traced_state worker_ops" where
  "traced_worker ops = \<lparr>wo_heartbeat = \<lambda>ph pc m. untraced (wo_heartbeat ops ph pc m),
     wo_recordBackup = \<lambda>l b. traced (record_event l b) (wo_recordBackup ops l b),
     wo_finish = \<lambda>succeeded ph pc m res. untraced (wo_finish ops succeeded ph pc m res),
     wo_settings = untraced (wo_settings ops), wo_createBackup = \<lambda>t. untraced (wo_createBackup ops t),
     wo_openBackup = \<lambda>l t. untraced (wo_openBackup ops l t), wo_closeBackup = untraced (wo_closeBackup ops),
     wo_createDb = \<lambda>c. untraced (wo_createDb ops c), wo_restore = \<lambda>d f. untraced (wo_restore ops d f),
     wo_migrate = \<lambda>img c. untraced (wo_migrate ops img c), wo_compatible = \<lambda>c. untraced (wo_compatible ops c),
     wo_drop = \<lambda>d. untraced (wo_drop ops d),
     wo_kube = traced_kube (wo_kube ops),
     wo_turns = \<lambda>s. wo_turns ops (fst s), wo_configured = wo_configured ops, wo_databaseUrl = wo_databaseUrl ops\<rparr>"

lemma traced_worker_simps [simp]:
  "wo_heartbeat (traced_worker ops) ph pc m = untraced (wo_heartbeat ops ph pc m)"
  "wo_recordBackup (traced_worker ops) l b = traced (record_event l b) (wo_recordBackup ops l b)"
  "wo_finish (traced_worker ops) succeeded ph opc m res = untraced (wo_finish ops succeeded ph opc m res)"
  "wo_settings (traced_worker ops) = untraced (wo_settings ops)"
  "wo_createBackup (traced_worker ops) t = untraced (wo_createBackup ops t)"
  "wo_openBackup (traced_worker ops) l t = untraced (wo_openBackup ops l t)"
  "wo_closeBackup (traced_worker ops) = untraced (wo_closeBackup ops)"
  "wo_createDb (traced_worker ops) c = untraced (wo_createDb ops c)"
  "wo_restore (traced_worker ops) d f = untraced (wo_restore ops d f)"
  "wo_migrate (traced_worker ops) img c = untraced (wo_migrate ops img c)"
  "wo_compatible (traced_worker ops) c = untraced (wo_compatible ops c)"
  "wo_drop (traced_worker ops) d = untraced (wo_drop ops d)"
  "wo_kube (traced_worker ops) = traced_kube (wo_kube ops)"
  by (simp_all add: traced_worker_def)

section \<open>Invariants of the trace\<close>

definition on_trace :: "(worker_event list \<Rightarrow> bool) \<Rightarrow> ('w, worker_event) traced_state run_state \<Rightarrow> bool" where
  "on_trace P st \<longleftrightarrow> P (snd (rn_world st))"

abbreviation world_trace :: "(worker_event list \<Rightarrow> bool) \<Rightarrow> ('w, worker_event) traced_state \<Rightarrow> bool" where
  "world_trace P s \<equiv> P (snd s)"

lemma untraced_keeps [keep_rules]: "keeps (world_trace P) (untraced m)"
  by (simp add: keeps_def untraced_def split: prod.split)

lemma traced_keeps: "(\<And>l r. P l \<Longrightarrow> P (l @ ev r)) \<Longrightarrow> keeps (world_trace P) (traced ev m)"
  by (simp add: keeps_def traced_def split: prod.split)

lemma renew_on_trace: "on_trace P st \<Longrightarrow> on_trace P (renew (traced_worker ops) n st)"
proof (induction n arbitrary: st)
  case (Suc n)
  then show ?case
    by (auto simp: on_trace_def untraced_def split: option.splits prod.splits sum.splits)
qed simp

lemma awaiting_on_trace [keep_rules]:
  assumes "keeps (world_trace P) m"
  shows "keeps (on_trace P) (awaiting (traced_worker ops) m)"
proof (rule keepsI)
  fix st r st' assume a: "on_trace P st" "awaiting (traced_worker ops) m st = (r, st')"
  obtain q w where q: "m (rn_world st) = (q, w)" by (metis prod.collapse)
  have "P (snd w)" using keeps_run [OF assms, of "rn_world st"] a(1) q by (simp add: on_trace_def)
  then have "on_trace P (st\<lparr>rn_world := w\<rparr>)" by (simp add: on_trace_def)
  then show "on_trace P st'" using a(2) q renew_on_trace by (auto simp: awaiting_def)
qed

lemma lease_on_trace [keep_rules]: "keeps (on_trace P) assertLease" "keeps (on_trace P) (set_progress ph pc m)"
  by (auto simp: keeps_def assertLease_def set_progress_def on_trace_def split: option.splits)

lemma verifyLease_on_trace [keep_rules]: "keeps (on_trace P) (verifyLease (traced_worker ops))"
  unfolding verifyLease_def by (intro keep_rules)

lemma reportProgress_on_trace [keep_rules]: "keeps (on_trace P) (reportProgress (traced_worker ops) ph pc m)"
  unfolding reportProgress_def traced_worker_simps by (intro keep_rules)

lemma rehearsal_on_trace: "keeps (on_trace P) (rehearsal_run (rehearsal_adapters (traced_worker ops) c f) input)"
  by (rule rehearsal_keeps; simp only: rehearsal_adapters_def rehearsal_ops.simps traced_worker_simps; intro keep_rules)

lemma withBackupFile_on_trace:
  "(\<And>f. keeps (on_trace P) (consume f)) \<Longrightarrow> keeps (on_trace P) (withBackupFile (traced_worker ops) l t consume)"
proof -
  assume a: "\<And>f. keeps (on_trace P) (consume f)"
  have "keeps (on_trace P) (\<lambda>st. case consume f st of (r, st') \<Rightarrow> p_bind (awaiting (traced_worker ops) (untraced (wo_closeBackup ops))) (\<lambda>_. p_ok r) st')" for f
  proof (rule keepsI)
    fix st q st2
    assume s: "on_trace P st" "(case consume f st of (r, st') \<Rightarrow> p_bind (awaiting (traced_worker ops) (untraced (wo_closeBackup ops))) (\<lambda>_. p_ok r) st') = (q, st2)"
    obtain r st' where r: "consume f st = (r, st')" by (metis prod.collapse)
    have k: "keeps (on_trace P) (p_bind (awaiting (traced_worker ops) (untraced (wo_closeBackup ops))) (\<lambda>_. p_ok r))" by (intro keep_rules)
    have "on_trace P st'" using keeps_run [OF a s(1)] r by (metis snd_conv)
    from keeps_run [OF k this] show "on_trace P st2" using s(2) r by simp
  qed
  then show ?thesis unfolding withBackupFile_def traced_worker_simps by (intro keep_rules)
qed

lemma run_preflight_on_trace: "keeps (on_trace P) (run_preflight (traced_worker ops) payload settings target backup)"
  unfolding run_preflight_def traced_worker_simps
  by (intro keep_rules withBackupFile_on_trace rehearsal_on_trace; simp split: prod.split add: keep_rules)

lemma run_failure_on_trace: "keeps (on_trace P) (run_failure (traced_worker ops) payload m)"
proof -
  have "keeps (on_trace P) (awaiting (traced_worker ops) (untraced (wo_finish ops False (failure_phase m) None m (failure_result payload m))))"
    by (intro keep_rules)
  then show ?thesis by (auto simp: keeps_def run_failure_def split: prod.splits)
qed

lemma run_update_on_trace:
  assumes "\<And>l e. P l \<Longrightarrow> P (l @ [e])"
  shows "keeps (on_trace P) (run_update (traced_worker ops) payload)"
proof -
  have app: "P l \<Longrightarrow> P (l @ es)" for l es
    using assms by (induction es arbitrary: l rule: rev_induct) (simp, metis append_assoc)
  have "kube_keeps (on_trace P) (run_kube (traced_worker ops))"
    unfolding kube_keeps_def
  proof (intro conjI allI impI)
    show "keeps (on_trace P) (ka_read (run_kube (traced_worker ops)) n)" for n
      unfolding run_kube_def kube_api.simps traced_worker_simps traced_kube_def by (intro keep_rules traced_keeps app)
    show "keeps (on_trace P) (ka_patch (run_kube (traced_worker ops)) n p)" for n p
      unfolding run_kube_def kube_api.simps traced_worker_simps traced_kube_def by (intro keep_rules traced_keeps app)
    show "on_trace P (ka_sleep (run_kube (traced_worker ops)) i s)" if "on_trace P s" for i s
      unfolding run_kube_def kube_api.simps traced_worker_simps traced_kube_def
      by (rule keeps_run [OF awaiting_on_trace that]) (intro keep_rules, simp)
  qed
  then show ?thesis
    unfolding run_update_def traced_worker_simps by (intro keep_rules adapter_apply_keeps)
qed

section \<open>The order of a run\<close>

definition no_patch :: "worker_event list \<Rightarrow> bool" where
  "no_patch l \<longleftrightarrow> \<not> list_ex is_api_patch l"

text \<open>Nothing before the first recorded backup is a patch.\<close>

definition backed_up_first :: "worker_event list \<Rightarrow> bool" where
  "backed_up_first l \<longleftrightarrow> no_patch (takeWhile (\<lambda>e. \<not> is_record e) l)"

lemma no_patch_append: "no_patch (l @ l') \<longleftrightarrow> no_patch l \<and> no_patch l'"
  by (simp add: no_patch_def)

lemma backed_up_append: "list_ex is_record l \<Longrightarrow> backed_up_first (l @ l') = backed_up_first l"
proof -
  assume "list_ex is_record l"
  then obtain x where "x \<in> set l" "\<not> \<not> is_record x" by (auto simp: list_ex_iff)
  then show ?thesis using takeWhile_append1 [of x l "\<lambda>e. \<not> is_record e" l'] by (simp add: backed_up_first_def)
qed

lemma no_patch_backed_up: "no_patch l \<Longrightarrow> backed_up_first l"
  unfolding backed_up_first_def no_patch_def by (auto simp: list_ex_iff dest: set_takeWhileD)

lemma record_keeps: "keeps (on_trace no_patch) (awaiting (traced_worker ops) (wo_recordBackup (traced_worker ops) l b))"
  unfolding traced_worker_simps
  by (intro keep_rules traced_keeps) (simp add: no_patch_append record_event_def no_patch_def split: sum.split)

lemma record_hoare:
  "hoare (on_trace no_patch) (awaiting (traced_worker ops) (wo_recordBackup (traced_worker ops) l b))
     (\<lambda>_. on_trace (\<lambda>t. no_patch t \<and> list_ex is_record t)) (on_trace no_patch)"
proof (rule hoareI)
  let ?m = "wo_recordBackup (traced_worker ops) l b"
  note all = record_keeps [of ops l b]
  show "on_trace no_patch s'" if "on_trace no_patch s" "awaiting (traced_worker ops) ?m s = (Inl e, s')" for s e s'
    using keepsD [OF all that] .
  show "on_trace (\<lambda>t. no_patch t \<and> list_ex is_record t) s'"
    if "on_trace no_patch s" "awaiting (traced_worker ops) ?m s = (Inr a, s')" for s a s'
  proof -
    obtain q w where q: "?m (rn_world s) = (q, w)" by (metis prod.collapse)
    then have "q = Inr a" using that(2) by (simp add: awaiting_def)
    then have "list_ex is_record (snd w)" using q by (auto simp: traced_run record_event_def)
    then have "on_trace (list_ex is_record) (s\<lparr>rn_world := w\<rparr>)" by (simp add: on_trace_def)
    then have "on_trace (list_ex is_record) s'" using that(2) q renew_on_trace by (auto simp: awaiting_def)
    then show ?thesis using keepsD [OF all that] by (simp add: on_trace_def)
  qed
qed

lemma quiet_hoare: "keeps (on_trace no_patch) m \<Longrightarrow> hoare (on_trace no_patch) m (\<lambda>_. on_trace no_patch) (on_trace backed_up_first)"
  by (rule hoare_keeps [where I = "on_trace no_patch"]) (auto simp: on_trace_def no_patch_backed_up)

lemma run_body_hoare:
  "hoare (on_trace no_patch) (run_body (traced_worker ops) payload)
     (\<lambda>_. on_trace backed_up_first) (on_trace backed_up_first)"
proof -
  let ?w = "traced_worker ops"
  have err: "hoare (on_trace no_patch) (p_err e) (\<lambda>_. on_trace backed_up_first) (on_trace backed_up_first)" for e
    by (rule hoareI) (auto simp: on_trace_def no_patch_backed_up)
  have rec: "hoare (on_trace no_patch) (awaiting ?w (wo_recordBackup ?w l b))
      (\<lambda>_. on_trace (\<lambda>t. no_patch t \<and> list_ex is_record t)) (on_trace backed_up_first)" for l b
    by (rule hoare_post [OF record_hoare]) (auto simp: on_trace_def no_patch_backed_up)
  have report: "hoare (on_trace (\<lambda>t. no_patch t \<and> list_ex is_record t)) (reportProgress ?w ph pc m)
      (\<lambda>_. on_trace (\<lambda>t. no_patch t \<and> list_ex is_record t)) (on_trace backed_up_first)" for ph pc m
    by (rule hoare_keeps [OF reportProgress_on_trace [where P = "\<lambda>t. no_patch t \<and> list_ex is_record t"]]) (auto simp: on_trace_def no_patch_backed_up)
  have pre: "hoare (on_trace (\<lambda>t. no_patch t \<and> list_ex is_record t)) (run_preflight ?w payload settings target backup)
      (\<lambda>_. on_trace backed_up_first) (on_trace backed_up_first)" for settings target backup
    by (rule hoare_keeps [OF run_preflight_on_trace [where P = "\<lambda>t. no_patch t \<and> list_ex is_record t"]]) (auto simp: on_trace_def no_patch_backed_up)
  have upd: "hoare (on_trace (\<lambda>t. no_patch t \<and> list_ex is_record t)) (run_update ?w payload)
      (\<lambda>_. on_trace backed_up_first) (on_trace backed_up_first)"
  proof (rule hoare_keeps [OF run_update_on_trace [where P = "\<lambda>t. backed_up_first t \<and> list_ex is_record t"]])
    show "backed_up_first (l @ [e]) \<and> list_ex is_record (l @ [e])" if "backed_up_first l \<and> list_ex is_record l" for l e
      using that backed_up_append by auto
  qed (auto simp: on_trace_def no_patch_backed_up)
  have tail: "hoare (on_trace no_patch) (p_bind (awaiting ?w (wo_recordBackup ?w l b)) (\<lambda>_. p_bind (reportProgress ?w ph pc m) (\<lambda>_.
      if c then run_preflight ?w payload settings target backup else run_update ?w payload)))
      (\<lambda>_. on_trace backed_up_first) (on_trace backed_up_first)" for l b ph pc m c settings target backup
    by (intro hoare_bind [OF rec] hoare_bind [OF report]) (simp add: pre upd)
  have found: "hoare (on_trace no_patch) (p_bind (awaiting ?w (wo_createBackup ?w target)) (\<lambda>backup. p_bind (verifyLease ?w) (\<lambda>_.
      p_bind (awaiting ?w (wo_recordBackup ?w (fst backup) (snd backup))) (\<lambda>_. p_bind (reportProgress ?w ph pc m) (\<lambda>_.
      if c then run_preflight ?w payload settings target backup else run_update ?w payload)))))
      (\<lambda>_. on_trace backed_up_first) (on_trace backed_up_first)" for target ph pc m c settings
    by (intro hoare_bind [OF quiet_hoare] tail verifyLease_on_trace awaiting_on_trace) (simp add: untraced_keeps)
  have "keeps (world_trace no_patch) (wo_settings ?w)" by (simp add: untraced_keeps)
  then show ?thesis
    unfolding run_body_def
    by (intro hoare_bind [OF quiet_hoare] reportProgress_on_trace awaiting_on_trace)
       (auto simp: err found simp del: traced_worker_simps split: option.split)
qed

lemma run_body_trace:
  assumes "on_trace no_patch st" and "run_body (traced_worker ops) payload st = (r, st')"
  shows "on_trace backed_up_first st'"
  using run_body_hoare [of ops payload, unfolded hoare_def, rule_format, OF assms(1)] assms(2) by (cases r) simp_all

lemma preflight_keeps:
  assumes "action_of payload = ''preflight''"
  shows "keeps (on_trace no_patch) (run_body (traced_worker ops) payload)"
proof -
  have q: "keeps (world_trace no_patch) (wo_settings (traced_worker ops))"
    "\<And>t. keeps (world_trace no_patch) (wo_createBackup (traced_worker ops) t)"
    by (simp_all add: untraced_keeps)
  show ?thesis
    unfolding run_body_def using assms
    by (intro keep_rules q) (auto intro!: keep_rules q record_keeps run_preflight_on_trace split: option.split simp del: traced_worker_simps)
qed

end
