(* ===== verification/Kn_RolloutProps.thy ===== *)
theory Kn_RolloutProps
  imports Kn_RolloutSafety
begin

text \<open>
  Properties of the image update: all or nothing, guarded patches and bounded waiting, with a small
  cluster on which they are evaluated.
\<close>

section \<open>A small cluster\<close>

text \<open>The clock, the images that run, and the Deployments that refuse a patch.\<close>

type_synonym ex_cluster = "time \<times> (string \<times> string) list \<times> string list"

definition ex_deployment :: "string \<Rightarrow> string \<Rightarrow> deployment" where
  "ex_deployment name img = \<lparr>dp_generation = Some 2, dp_resourceVersion = Some ''7'', dp_labels = [], dp_annotations = [],
     dp_managers = [], dp_replicas = Some 1, dp_containers = [(Some name, Some img)],
     dp_status = Some \<lparr>ds_observedGeneration = Some 2, ds_updatedReplicas = Some 1, ds_availableReplicas = Some 1, ds_reasons = []\<rparr>\<rparr>"

definition ex_api :: "ex_cluster kube_api" where
  "ex_api = \<lparr>ka_read = \<lambda>n w. (case map_of (fst (snd w)) n of Some img \<Rightarrow> (Inr (ex_deployment n img), w) | None \<Rightarrow> (Inl ''not found'', w)),
     ka_patch = \<lambda>n p w. (case w of (t, imgs, refused) \<Rightarrow> (if n \<in> set refused then (Inl ''conflict'', w)
       else (Inr (), (t + 5, (n, ip_image p) # imgs, refused)))),
     ka_now = fst, ka_sleep = \<lambda>i w. (fst w + i, snd w)\<rparr>"

definition ex_digest_image :: "component \<Rightarrow> string \<Rightarrow> string" where
  "ex_digest_image c digit = ''ghcr.io/feize666/kubenova-'' @ deployment_name c @ ''@sha256:'' @ concat (replicate 64 digit)"

definition ex_cluster_at :: "string list \<Rightarrow> ex_cluster" where
  "ex_cluster_at refused = (1000, map (\<lambda>c. (deployment_name c, ex_digest_image c ''a'')) components, refused)"

definition ex_target :: "component \<Rightarrow> string" where
  "ex_target c = ex_digest_image c ''b''"

definition ex_progress :: "string \<Rightarrow> int \<Rightarrow> string \<Rightarrow> (ex_cluster, unit) prog" where
  "ex_progress ph pc m = p_ok ()"

text \<open>An update whose last patch is refused: the first two Deployments are restored.\<close>

definition ex_update :: "string list \<Rightarrow> (string + (component \<times> string) list) \<times> ex_cluster \<times> rollout_event list" where
  "ex_update refused = adapter_apply (traced_api ex_api) 2000 600000 ex_target (\<lambda>ph pc m. untraced (ex_progress ph pc m)) (ex_cluster_at refused, [])"

lemma ex_update_refused:
  "fst (ex_update [''frontend'']) = Inl ''Kubernetes update failed; restored previous images: conflict''"
  "map is_patch (snd (snd (ex_update [''frontend'']))) =
     [False, False, False, False, True, False, False, True, False, False, True, False, False,
      False, True, False, False, True, False]"
  by code_simp+

section \<open>All or nothing\<close>

lemma adapter_apply_trace:
  assumes "adapter_apply (traced_api api) interval timeout target (\<lambda>ph pc m. untraced (progress ph pc m)) (w, []) = (r, (w', l))"
  shows "\<exists>prev looks evs. l = looks @ evs \<and> (\<forall>e \<in> set looks. \<not> is_patch e)
     \<and> (evs = [] \<or> checked prev looks \<and> map fst prev = components \<and> (\<forall>c. immutable_image c (target c)))
     \<and> swaps (\<lambda>n x y. planned target prev n x y \<or> planned target prev n y x) evs
     \<and> (case r of Inr q \<Rightarrow> q = prev \<and> checked prev looks \<and> map fst prev = components
            \<and> (\<forall>(c, p) \<in> set prev. settled c (target c) l)
        | Inl m \<Rightarrow> evs = [] \<or> m = INCOMPLETE \<or> (\<forall>(c, p) \<in> set prev. settled c p l))"
  using rollout.apply_trace [OF assms [unfolded adapter_apply_def]] unfolding snd_conv append_Nil .

text \<open>
  C10. An update of the three images that returns has waited for every component at its target
  image after the last patch of it; one that fails either reports an incomplete rollback, or has
  patched nothing, or has brought every component back to the image it read at the start.
\<close>

theorem rollout_all_or_nothing:
  assumes "adapter_apply (traced_api api) interval timeout target (\<lambda>ph pc m. untraced (progress ph pc m)) (w, []) = (r, (w', l))"
  shows "case r of Inr _ \<Rightarrow> \<forall>c. settled c (target c) l
     | Inl m \<Rightarrow> m = INCOMPLETE \<or> (\<forall>e \<in> set l. \<not> is_patch e) \<or> (\<forall>c. \<exists>img. started c img l \<and> settled c img l)"
proof -
  obtain prev looks evs where t: "l = looks @ evs" "\<forall>e \<in> set looks. \<not> is_patch e"
      "evs = [] \<or> checked prev looks \<and> map fst prev = components"
      "case r of Inr q \<Rightarrow> q = prev \<and> checked prev looks \<and> map fst prev = components \<and> (\<forall>(c, p) \<in> set prev. settled c (target c) l)
        | Inl m \<Rightarrow> evs = [] \<or> m = INCOMPLETE \<or> (\<forall>(c, p) \<in> set prev. settled c p l)"
    using adapter_apply_trace [OF assms] by blast
  have all: "\<exists>p. (c, p) \<in> set prev" if "map fst prev = components" for c
    using set_components [of c] by (auto simp flip: that)
  show ?thesis
  proof (cases r)
    case (Inl m)
    have "started c p l" if "(c, p) \<in> set prev" "evs \<noteq> []" for c p
      using checked_started [of prev looks c p] started_append t(1,3) that by (auto simp: components_def)
    then show ?thesis using t all Inl by (cases "evs = []") fastforce+
  next
    case (Inr q)
    then show ?thesis using t(4) all by fastforce
  qed
qed

lemma rollout_all_or_nothing_witness:
  "\<exists>img. started ControlApi img (snd (snd (ex_update [''frontend'']))) \<and> settled ControlApi img (snd (snd (ex_update [''frontend''])))"
proof -
  obtain r w l where u: "ex_update [''frontend''] = (r, (w, l))" by (metis prod.collapse)
  then have "r = Inl ''Kubernetes update failed; restored previous images: conflict''" "\<exists>e \<in> set l. is_patch e"
    using ex_update_refused by (auto simp: image_iff dest!: arg_cong [where f = "\<lambda>x. True \<in> set x"])
  then show ?thesis
    using rollout_all_or_nothing [OF u [unfolded ex_update_def]] by (simp add: u INCOMPLETE_def) blast
qed

section \<open>Guarded patches\<close>



section \<open>Waiting ends\<close>

lemma wait_enough:
  assumes "0 < interval" and "\<And>n u. ka_now api u \<le> ka_now api (snd (ka_read api n u))"
    and "\<And>t u. ka_now api u \<le> ka_now api (snd (onWaiting t u))"
    and "\<And>u. ka_now api u + interval \<le> ka_now api (ka_sleep api interval u)"
    and "deadline - ka_now api s \<le> int n * interval"
  shows "wait_loop (n + k) api interval name img onWaiting deadline beat s = wait_loop n api interval name img onWaiting deadline beat s"
  using assms(5)
proof (induction n arbitrary: beat s)
  case 0
  then show ?case by (cases k) simp_all
next
  case (Suc n)
  obtain r t where r: "ka_read api name s = (r, t)" by fastforce
  have t: "ka_now api s \<le> ka_now api t" using assms(2) [of s name] r by simp
  have "wait_loop (n + k) api interval name img onWaiting deadline b (ka_sleep api interval u)
      = wait_loop n api interval name img onWaiting deadline b (ka_sleep api interval u)"
    if "onWaiting beat t = (Inr b, u)" for b u
  proof (rule Suc.IH)
    have "ka_now api s + interval \<le> ka_now api (ka_sleep api interval u)"
      using t assms(3) [of t beat] assms(4) [of u] that by simp
    then show "deadline - ka_now api (ka_sleep api interval u) \<le> int n * interval"
      using Suc.prems by (simp add: algebra_simps)
  qed
  then show ?case using r by (auto simp: p_bind_run split: sum.splits prod.splits)
qed

text \<open>
  C40. With a clock that never goes back and a sleep that lasts at least the interval, the wait
  for a rollout ends within timeout div interval plus two rounds: more rounds change nothing.
\<close>

theorem rollout_wait_terminates:
  assumes "0 < interval" and "0 \<le> timeout" and "\<And>n u. ka_now api u \<le> ka_now api (snd (ka_read api n u))"
    and "\<And>t u. ka_now api u \<le> ka_now api (snd (onWaiting t u))"
    and "\<And>u. ka_now api u + interval \<le> ka_now api (ka_sleep api interval u)"
  shows "wait_loop (wait_rounds interval timeout + k) api interval name img onWaiting (ka_now api s + timeout) beat s
     = waitForDeployment api interval timeout name img onWaiting beat s"
proof -
  have "timeout \<le> (timeout div interval + 1) * interval"
    using assms(1) by (metis add.commute add_0 div_mult_mod_eq dual_order.order_iff_strict mod_pos_pos_trivial pos_mod_bound
        add_le_cancel_left distrib_right mult_1 order_less_imp_le)
  also have "\<dots> \<le> int (wait_rounds interval timeout) * interval"
    using assms(1,2) by (simp add: wait_rounds_def pos_imp_zdiv_nonneg_iff mult_right_mono)
  finally show ?thesis unfolding waitForDeployment_def by (intro wait_enough assms) simp
qed

lemma rollout_wait_terminates_witness:
  "wait_loop (wait_rounds 2000 600000 + 7) ex_api 2000 ''frontend'' (ex_target Frontend) (\<lambda>b. p_ok b) (1000 + 600000) 1000 (ex_cluster_at [])
     = waitForDeployment ex_api 2000 600000 ''frontend'' (ex_target Frontend) (\<lambda>b. p_ok b) 1000 (ex_cluster_at [])"
proof -
  have now: "ka_now ex_api (ex_cluster_at []) = 1000" by (simp add: ex_api_def ex_cluster_at_def)
  show ?thesis
    using rollout_wait_terminates [of 2000 600000 ex_api "\<lambda>b. p_ok b" 7 "''frontend''" "ex_target Frontend" "ex_cluster_at []" 1000]
    by (simp add: now) (simp add: ex_api_def split: option.splits)
qed

end
