(* ===== verification/Kn_UpdateProps.thy ===== *)
theory Kn_UpdateProps
  imports Kn_UpdateTrace Kn_RolloutProps Kn_QueueProps
begin

text \<open>
  Properties of the update worker and of the migration rehearsal, with a small world in which a
  queued update is executed.
\<close>

section \<open>A small world\<close>



definition ex_target_dir :: backup_target where
  "ex_target_dir = \<lparr>bt_id = ''b1'', bt_name = ''disk'', bt_s3 = False, bt_location = ''/backups''\<rparr>"

definition ex_temp :: temp_db where
  "ex_temp = \<lparr>tb_name = ''t'', tb_connectionString = ''c''\<rparr>"

text \<open>Every service works; \<open>fingerprint\<close> is that of the settings.\<close>

definition ex_services :: "string option \<Rightarrow> 'w kube_api \<Rightarrow> 'w worker_ops" where
  "ex_services fingerprint api = \<lparr>wo_heartbeat = \<lambda>_ _ _. p_ok (), wo_recordBackup = \<lambda>_ _. p_ok (), wo_finish = \<lambda>_ _ _ _ _. p_ok (),
     wo_settings = p_ok \<lparr>es_backupTargets = [ex_target_dir], es_migrationTargets = [], es_fingerprint = fingerprint\<rparr>,
     wo_createBackup = \<lambda>_. p_ok (''/backups/d.dump'', 7), wo_openBackup = \<lambda>l _. p_ok l, wo_closeBackup = p_ok (),
     wo_createDb = \<lambda>_ w. (Inr (Some ex_temp), w), wo_restore = \<lambda>_ _. p_ok (), wo_migrate = \<lambda>_ _. p_ok (),
     wo_compatible = \<lambda>_. p_ok (), wo_drop = \<lambda>_. p_ok (), wo_kube = api, wo_turns = \<lambda>_. 1, wo_configured = True,
     wo_databaseUrl = ''postgres://db''\<rparr>"



text \<open>A cluster without Deployments, and a preflight whose migration target is not configured.\<close>

definition ex_empty :: "nat kube_api" where
  "ex_empty = \<lparr>ka_read = \<lambda>_. p_err ''not found'', ka_patch = \<lambda>_ _. p_ok (), ka_now = int, ka_sleep = \<lambda>_ w. w + 1\<rparr>"

definition ex_preflight :: json where
  "ex_preflight = JObj [(''action'', JStr ''preflight''), (''backupTargetId'', JStr ''b1'')]"

section \<open>The worker gives its task up\<close>




section \<open>Backups come first\<close>

text \<open>
  C24. Whatever the surroundings of the worker answer, no Deployment is patched before the backup
  of the task was recorded in the queue, and a preflight task patches none at all.
\<close>

theorem update_backs_up_first:
  fixes ops :: "'w worker_ops" and w :: 'w and payload :: json
  defines "l \<equiv> snd (rn_world (runTask (traced_worker ops) payload (w, [])))"
  shows "(action_of payload = ''preflight'' \<longrightarrow> \<not> list_ex is_api_patch l)
     \<and> \<not> list_ex is_api_patch (takeWhile (\<lambda>e. \<not> is_record e) l)"
proof -
  let ?st = "\<lparr>rn_world = (w, []), rn_phase = ''initializing'', rn_percent = 5, rn_message = running_message payload, rn_leaseError = None\<rparr>
    :: ('w, worker_event) traced_state run_state"
  have start: "on_trace no_patch ?st" by (simp add: on_trace_def no_patch_def)
  define fin where "fin = runTask (traced_worker ops) payload (w, [])"
  obtain r st where r: "run_body (traced_worker ops) payload ?st = (r, st)" by (metis prod.collapse)
  have keep: "on_trace P fin" if "on_trace P st" for P
    unfolding fin_def runTask_def
    using that r keeps_run [OF run_failure_on_trace] by (cases r) (auto simp: p_catch_def)
  have "on_trace backed_up_first fin" by (rule keep, rule run_body_trace [OF start r])
  moreover have "on_trace no_patch fin" if "action_of payload = ''preflight''"
    by (rule keep, rule keepsD [OF preflight_keeps [OF that] start r])
  moreover have "l = snd (rn_world fin)" by (simp only: l_def fin_def)
  ultimately show ?thesis unfolding on_trace_def backed_up_first_def no_patch_def by simp
qed

lemma update_backs_up_first_witness:
  "map is_record (snd (rn_world (runTask (traced_worker (ex_services None ex_empty)) ex_preflight (0, [])))) = [True]
   \<and> \<not> list_ex is_api_patch (snd (rn_world (runTask (traced_worker (ex_services None ex_empty)) ex_preflight (0, []))))"
proof -
  have "map is_record (snd (rn_world (runTask (traced_worker (ex_services None ex_empty)) ex_preflight (0, [])))) = [True]" by code_simp
  moreover have "action_of ex_preflight = ''preflight''" by code_simp
  ultimately show ?thesis using update_backs_up_first [of ex_preflight "ex_services None ex_empty" 0] by blast
qed

section \<open>Rehearsals\<close>

text \<open>
  A rehearsal has five checks and passes exactly when all are passed, which requires that the
  database was created, the backup restored, the target migrated, the previous version found
  compatible and the database dropped, in this order; and whenever a complete handle is known,
  also from a failed creation, the last call is the attempt to drop that database.
\<close>

theorem rehearsal_passes_only_clean:
  assumes "rehearsal_run (traced_rehearsal ops) i (w, []) = ((passed, checks), (w', l))"
  shows "length checks = 5 \<and> (passed \<longleftrightarrow> list_all (\<lambda>c. ck_status c = Passed) checks)
     \<and> (passed \<longrightarrow> (\<exists>d. complete_handle d \<and> l = [Created (Some d) True, Restored d True, Migrated d True, Compatible d True, Dropped d True]))
     \<and> (\<exists>h b. hd l = Created h b \<and> (\<forall>d. h = Some d \<and> complete_handle d \<longrightarrow> (\<exists>e. last l = Dropped d e)))"
  using assms by (rule rehearsal_shape)

definition ex_rehearsal :: "bool \<Rightarrow> nat rehearsal_ops" where
  "ex_rehearsal migrates = \<lparr>rh_create = \<lambda>w. (Inr (Some ex_temp), w), rh_restore = \<lambda>_ _. p_ok (),
     rh_migrate = \<lambda>_ _ _. (if migrates then p_ok () else p_err ''P3009''), rh_compatible = \<lambda>_ _. p_ok (), rh_drop = \<lambda>_. p_ok ()\<rparr>"

lemma rehearsal_passes_only_clean_witness:
  "\<exists>checks w l. rehearsal_run (traced_rehearsal (ex_rehearsal False)) \<lparr>ri_backupLocation = ''f'', ri_targetVersion = ''v1.2'',
      ri_targetImage = ''i'', ri_previousImage = ''i''\<rparr> (0, []) = ((False, checks), (w, l))
    \<and> length checks = 5 \<and> (\<exists>e. last l = Dropped ex_temp e)"
proof -
  let ?x = "rehearsal_run (traced_rehearsal (ex_rehearsal False)) \<lparr>ri_backupLocation = ''f'', ri_targetVersion = ''v1.2'',
      ri_targetImage = ''i'', ri_previousImage = ''i''\<rparr> (0, [])"
  have x: "fst (fst ?x) = False" "hd (snd (snd ?x)) = Created (Some ex_temp) True" and c: "complete_handle ex_temp" by code_simp+
  obtain p checks w l where p: "?x = ((p, checks), (w, l))" by (metis prod.collapse)
  then have "p = False" "hd l = Created (Some ex_temp) True" using x by simp_all
  then show ?thesis using rehearsal_passes_only_clean [OF p] p c by auto
qed

end
