(* ===== verification/Kn_Runtime.thy ===== *)
theory Kn_Runtime
  imports Kn_AuthDb Kn_Access Kn_Json "HOL-Library.AList"
begin

text \<open>
  Runtime sessions of the control API (terminals and log streams): runtime/runtime.repository.ts,
  runtime/runtime-session.service.ts and common/namespace-identity.service.ts.

  The world holds the user table of Kn_AuthDb, the access tables of Kn_Access, the table of runtime
  sessions and what the clusters answer. A method is one function of the world at one instant; the
  lease of Kn_RuntimeLease places other steps between two validations. HMAC-SHA256 with base64url,
  \<open>JSON.stringify\<close> with base64url and its inverse are fields of the environment.
\<close>

section \<open>State\<close>

record runtime_row =
  rs_id :: string
  rs_authzVersion :: "int option"
  rs_clusterId :: string
  rs_userId :: "string option"
  rs_type :: string
  rs_namespace :: string
  rs_pod :: string
  rs_container :: string
  rs_expiresAt :: time
  rs_closedAt :: "time option"

record pod_view =
  pv_containers :: "string option list"
  pv_phase :: "string option"

datatype pod_read = PodFound pod_view | PodMissing | PodError string

text \<open>
  \<open>kv_uid\<close>: the UID of a live namespace, \<open>None\<close> also when the cluster cannot be read.
\<close>

record kube_view =
  kv_kubeconfig :: "string \<Rightarrow> string option"
  kv_uid :: "string \<Rightarrow> string \<Rightarrow> string option"
  kv_pod :: "string \<Rightarrow> string \<Rightarrow> string \<Rightarrow> pod_read"

record runtime_world =
  rw_auth :: auth_db
  rw_access :: access_db
  rw_sessions :: "runtime_row list"
  rw_kube :: kube_view

record runtime_env =
  re_secret :: string
  re_hmac :: "string \<Rightarrow> string \<Rightarrow> string"
  re_encode :: "json \<Rightarrow> string"
  re_decode :: "string \<Rightarrow> json option"
  re_enforce :: bool

section \<open>Namespace identity\<close>

definition resolve_namespace :: "kube_view \<Rightarrow> string \<Rightarrow> string \<Rightarrow> string res" where
  "resolve_namespace k clusterId namespace =
     (if \<not> nonblank clusterId \<or> \<not> nonblank namespace then Inl (Forbidden ''NAMESPACE_SCOPE_REQUIRED'')
      else (case kv_uid k clusterId namespace of
          None \<Rightarrow> Inl (Forbidden ''NAMESPACE_IDENTITY_UNAVAILABLE'')
        | Some u \<Rightarrow> (if nonblank u then Inr u else Inl (Forbidden ''NAMESPACE_IDENTITY_UNAVAILABLE''))))"

section \<open>The repository\<close>

record runtime_input =
  ri_authzVersion :: "int option"
  ri_id :: string
  ri_clusterId :: string
  ri_userId :: "string option"
  ri_type :: string
  ri_namespace :: string
  ri_pod :: string
  ri_container :: string
  ri_expiresAt :: time

definition runtime_row_of :: "runtime_input \<Rightarrow> runtime_row" where
  "runtime_row_of i = \<lparr>rs_id = ri_id i, rs_authzVersion = ri_authzVersion i, rs_clusterId = ri_clusterId i, rs_userId = ri_userId i,
     rs_type = ri_type i, rs_namespace = ri_namespace i, rs_pod = ri_pod i, rs_container = ri_container i,
     rs_expiresAt = ri_expiresAt i, rs_closedAt = None\<rparr>"

text \<open>A second row with the same identifier violates the primary key.\<close>

definition runtime_createSession :: "runtime_input \<Rightarrow> runtime_world \<Rightarrow> unit res \<times> runtime_world" where
  "runtime_createSession i w =
     (case (ri_userId i, ri_authzVersion i) of
        (Some u, Some v) \<Rightarrow>
          (if u = [] \<or> \<not> safe_int v \<or> v < 1 then (Inl (Forbidden ''Runtime session authorization snapshot required''), w)
           else (case user_of (rw_auth w) u of
               None \<Rightarrow> (Inl (Forbidden ''Runtime session owner unavailable''), w)
             | Some owner \<Rightarrow>
                 (if \<not> us_isActive owner \<or> us_authzVersion owner \<noteq> v then (Inl (Forbidden ''Runtime session owner unavailable''), w)
                  else if list_ex (\<lambda>s. rs_id s = ri_id i) (rw_sessions w) then (Inl (Internal ''unique constraint''), w)
                  else (Inr (), w\<lparr>rw_sessions := rw_sessions w @ [runtime_row_of i]\<rparr>))))
      | _ \<Rightarrow> (Inl (Forbidden ''Runtime session authorization snapshot required''), w))"

text \<open>The row with its owner as the subject of the access checks.\<close>

definition session_owner :: "auth_db \<Rightarrow> runtime_row \<Rightarrow> user_row option" where
  "session_owner db s = Option.bind (rs_userId s) (user_of db)"

definition runtime_findSessionById :: "runtime_world \<Rightarrow> string \<Rightarrow> (runtime_row \<times> subject) option" where
  "runtime_findSessionById w i =
     (case find (\<lambda>s. rs_id s = i \<and> (case session_owner (rw_auth w) s of None \<Rightarrow> False | Some u \<Rightarrow> us_isActive u)) (rw_sessions w) of
        None \<Rightarrow> None
      | Some s \<Rightarrow> (case session_owner (rw_auth w) s of
            None \<Rightarrow> None
          | Some u \<Rightarrow> (if rs_authzVersion s = Some (us_authzVersion u)
              then Some (s, \<lparr>sj_id = Some (us_id u), sj_role = Some (us_role u)\<rparr>) else None)))"

definition runtime_closeSession :: "time \<Rightarrow> string \<Rightarrow> runtime_world \<Rightarrow> unit res \<times> runtime_world" where
  "runtime_closeSession now i w =
     (if list_ex (\<lambda>s. rs_id s = i) (rw_sessions w)
      then (Inr (), w\<lparr>rw_sessions := map (\<lambda>s. if rs_id s = i then s\<lparr>rs_closedAt := Some now\<rparr> else s) (rw_sessions w)\<rparr>)
      else (Inl (Internal ''record not found''), w))"

section \<open>Runtime tokens\<close>

datatype runtime_code =
    TokenFormatInvalid
  | TokenSignatureInvalid
  | TokenPayloadInvalid
  | TokenExpired
  | SessionMismatch
  | PathMismatch
  | SessionNotFound
  | SessionClosed
  | AccessRevoked
  | SessionExpired

definition token_header :: json where
  "token_header = JObj [(''alg'', JStr ''HS256''), (''typ'', JStr ''JWT'')]"

definition createRuntimeToken :: "runtime_env \<Rightarrow> json \<Rightarrow> string" where
  "createRuntimeToken env payload =
     (let signingInput = re_encode env token_header @ ''.'' @ re_encode env payload in
      signingInput @ ''.'' @ re_hmac env (re_secret env) signingInput)"

text \<open>Comparison with and minimum of an integer; \<open>Infinite True\<close> is positive.\<close>

definition js_le_int :: "jsnum \<Rightarrow> int \<Rightarrow> bool" where
  "js_le_int v n = (case v of NotANumber \<Rightarrow> False | Infinite positive \<Rightarrow> \<not> positive | Fin q \<Rightarrow> q \<le> of_int n)"

definition js_min_int :: "jsnum \<Rightarrow> int \<Rightarrow> jsnum" where
  "js_min_int v n = (if v = NotANumber then NotANumber else if js_le_int v n then v else num n)"

definition verifyRuntimeToken :: "runtime_env \<Rightarrow> time \<Rightarrow> string \<Rightarrow> runtime_code + json" where
  "verifyRuntimeToken env now token = (case js_split (CHR ''.'') token of
       [encodedHeader, encodedPayload, receivedSignature] \<Rightarrow>
         (if receivedSignature \<noteq> re_hmac env (re_secret env) (encodedHeader @ ''.'' @ encodedPayload) then Inl TokenSignatureInvalid
          else (case re_decode env encodedPayload of
              None \<Rightarrow> Inl TokenPayloadInvalid
            | Some v \<Rightarrow> (if \<not> is_object v then Inl TokenPayloadInvalid
                else (case jget v ''exp'' of
                    Some (JNum n) \<Rightarrow> (if js_le_int n (now div 1000) then Inl TokenExpired else Inr v)
                  | _ \<Rightarrow> Inl TokenPayloadInvalid))))
     | _ \<Rightarrow> Inl TokenFormatInvalid)"

section \<open>Validation\<close>

definition payload_text :: "json \<Rightarrow> string \<Rightarrow> string" where
  "payload_text v k = (case jstring (jget v k) of None \<Rightarrow> [] | Some s \<Rightarrow> s)"

definition row_matches :: "runtime_row \<Rightarrow> json \<Rightarrow> bool" where
  "row_matches s v \<longleftrightarrow> map_option JStr (rs_userId s) = jget v ''userId'' \<and> jget v ''type'' = Some (JStr (rs_type s))
     \<and> jget v ''clusterId'' = Some (JStr (rs_clusterId s)) \<and> jget v ''namespace'' = Some (JStr (rs_namespace s))
     \<and> jget v ''pod'' = Some (JStr (rs_pod s)) \<and> jget v ''container'' = Some (JStr (rs_container s))"

text \<open>\<open>error instanceof ForbiddenException || error instanceof NotFoundException\<close>.\<close>

fun access_error :: "http_error \<Rightarrow> bool" where
  "access_error (Forbidden m) \<longleftrightarrow> True"
| "access_error (NotFound m) \<longleftrightarrow> True"
| "access_error _ \<longleftrightarrow> False"

text \<open>Whether the access of the subject to the cluster still needs a grant for the namespace.\<close>

definition requires_grant :: "runtime_env \<Rightarrow> access_context res \<Rightarrow> bool res" where
  "requires_grant env access = (case access of
     Inr a \<Rightarrow> Inr (re_enforce env \<or> ax_source a = ''access-grant'')
   | Inl e \<Rightarrow> (if access_error e then Inr True else Inl e))"

definition cluster_access :: "access_db \<Rightarrow> time \<Rightarrow> subject option \<Rightarrow> bool \<Rightarrow> string option \<Rightarrow> access_context res" where
  "cluster_access db now s logs clusterId =
     (if logs then assertCanRead db now s clusterId else assertCanMutate db now s clusterId)"

definition runtime_request :: "string \<Rightarrow> string \<Rightarrow> string \<Rightarrow> bool \<Rightarrow> authz_request" where
  "runtime_request userId clusterId uid logs = \<lparr>rq_userId = userId, rq_clusterId = clusterId, rq_namespaceUid = Some uid,
     rq_capability = Some (if logs then ''logs'' else ''exec''), rq_mutation = False\<rparr>"

definition earlier :: "jsnum \<Rightarrow> time option \<Rightarrow> jsnum" where
  "earlier e t = (case t of None \<Rightarrow> e | Some x \<Rightarrow> js_min_int e (x div 1000))"

text \<open>\<open>{ ...payload, exp }\<close>.\<close>

definition set_exp :: "jsnum \<Rightarrow> json \<Rightarrow> json" where
  "set_exp e v = (case v of JObj kvs \<Rightarrow> JObj (AList.update ''exp'' (JNum e) kvs) | _ \<Rightarrow> v)"

definition payload_exp :: "json \<Rightarrow> jsnum" where
  "payload_exp v = (case jget v ''exp'' of Some (JNum n) \<Rightarrow> n | _ \<Rightarrow> NotANumber)"

text \<open>\<open>new Date(exp * 1000).getTime()\<close> of an expiry in seconds.\<close>

definition exp_time :: "jsnum \<Rightarrow> time option" where
  "exp_time e = (case e of Fin q \<Rightarrow> (if \<bar>q * 1000\<bar> \<le> 8640000000000000 then Some (if 0 \<le> q then \<lfloor>q * 1000\<rfloor> else \<lceil>q * 1000\<rceil>) else None)
     | _ \<Rightarrow> None)"

definition check_session :: "time \<Rightarrow> json \<Rightarrow> (runtime_row \<times> subject) option \<Rightarrow> runtime_code + (runtime_row \<times> subject)" where
  "check_session now v found = (case found of
     None \<Rightarrow> Inl SessionNotFound
   | Some (s, subject) \<Rightarrow>
      (if (case rs_userId s of None \<Rightarrow> True | Some u \<Rightarrow> u = []) \<or> \<not> row_matches s v then Inl SessionMismatch
       else if rs_closedAt s \<noteq> None then Inl SessionClosed
       else if rs_expiresAt s \<le> now then Inl SessionExpired
       else Inr (s, subject)))"

definition check_grant :: "runtime_world \<Rightarrow> time \<Rightarrow> json \<Rightarrow> authz_decision" where
  "check_grant w now v = (case resolve_namespace (rw_kube w) (payload_text v ''clusterId'') (payload_text v ''namespace'') of
     Inl e \<Rightarrow> deny ''NAMESPACE_UNAVAILABLE''
   | Inr uid \<Rightarrow> authorize (rw_access w) now (runtime_request (payload_text v ''userId'') (payload_text v ''clusterId'') uid (payload_text v ''type'' = ''logs'')))"

definition validateSessionTokenDetailed ::
  "runtime_env \<Rightarrow> time \<Rightarrow> runtime_world \<Rightarrow> string \<Rightarrow> string \<Rightarrow> string \<Rightarrow> (runtime_code + json) res" where
  "validateSessionTokenDetailed env now w sessionId runtimeToken expectedPath =
    (case verifyRuntimeToken env now runtimeToken of
       Inl c \<Rightarrow> Inr (Inl c)
     | Inr v \<Rightarrow>
        (if jget v ''sessionId'' \<noteq> Some (JStr sessionId) then Inr (Inl SessionMismatch)
         else if jget v ''path'' \<noteq> Some (JStr expectedPath) then Inr (Inl PathMismatch)
         else (case check_session now v (runtime_findSessionById w sessionId) of
            Inl c \<Rightarrow> Inr (Inl c)
          | Inr (s, subject) \<Rightarrow>
             (let expiry = js_min_int (payload_exp v) (rs_expiresAt s div 1000) in
              rbind (requires_grant env (cluster_access (rw_access w) now (Some subject) (payload_text v ''type'' = ''logs'') (Some (payload_text v ''clusterId''))))
               (\<lambda>needed. if \<not> needed then Inr (Inr (set_exp expiry v))
                 else (let d = check_grant w now v in
                   if dc_allowed d then Inr (Inr (set_exp (earlier expiry (dc_expiresAt d)) v)) else Inr (Inl AccessRevoked)))))))"

definition validateSessionToken :: "runtime_env \<Rightarrow> time \<Rightarrow> runtime_world \<Rightarrow> string \<Rightarrow> string \<Rightarrow> string \<Rightarrow> json option res" where
  "validateSessionToken env now w sessionId runtimeToken expectedPath =
     rbind (validateSessionTokenDetailed env now w sessionId runtimeToken expectedPath)
       (\<lambda>r. Inr (case r of Inl _ \<Rightarrow> None | Inr v \<Rightarrow> Some v))"

fun resolveValidationMessage :: "runtime_code \<Rightarrow> string" where
  "resolveValidationMessage TokenExpired = ''runtime session expired''"
| "resolveValidationMessage SessionExpired = ''runtime session expired''"
| "resolveValidationMessage SessionNotFound = ''runtime session does not exist or is closed''"
| "resolveValidationMessage SessionClosed = ''runtime session does not exist or is closed''"
| "resolveValidationMessage AccessRevoked = ''access grant no longer valid''"
| "resolveValidationMessage _ = ''runtimeToken invalid''"

end
