(* ===== verification/Kn_RuntimeService.thy ===== *)
theory Kn_RuntimeService
  imports Kn_Runtime
begin

text \<open>
  The creation of runtime sessions and the calls of the runtime gateway: runtime/runtime.service.ts
  and the handler of runtime/runtime.controller.ts.

  A request body is a JSON value; a string method called on a value that is no string is the
  internal error it raises. Standard functions on texts whose result the model does not need
  (\<open>Date.parse\<close>, \<open>URL\<close>, \<open>URLSearchParams.toString\<close>, \<open>String\<close> of a number) are fields of the
  environment.
\<close>

record service_env = runtime_env +
  se_date :: "string \<Rightarrow> time option"
  se_numText :: "jsnum \<Rightarrow> string"
  se_query :: "(string \<times> string) list \<Rightarrow> string"
  se_href :: "string \<Rightarrow> string option"
  se_host :: "string \<Rightarrow> string option"
  se_protocol :: "string \<Rightarrow> string option"
  se_internalSecret :: "string option"
  se_tokenSecret :: "string option"
  se_publicBase :: "string option"
  se_base :: "string option"
  se_wsBase :: "string option"
  se_iso :: "time \<Rightarrow> string"
  se_grants :: bool

text \<open>\<open>se_grants\<close>: the optional authorization and namespace services of the controller are present.\<close>

section \<open>Checks of a request\<close>

definition type_error :: "http_error" where
  "type_error = Internal ''TypeError''"

text \<open>\<open>value.trim()\<close> of a value that may be no string.\<close>

definition trim_of :: "json option \<Rightarrow> string res" where
  "trim_of v = (case v of Some (JStr s) \<Rightarrow> Inr (js_trim s) | _ \<Rightarrow> Inl type_error)"

definition assertRequiredString :: "json \<Rightarrow> string \<Rightarrow> unit res" where
  "assertRequiredString body field = (let v = jget body field in
     if \<not> truthy v then Inl (BadRequest (field @ '' is required''))
     else rbind (trim_of v) (\<lambda>t. guard (t \<noteq> []) (BadRequest (field @ '' is required''))))"

definition assertNotBlank :: "json \<Rightarrow> string \<Rightarrow> unit res" where
  "assertNotBlank body field = (case jget body field of None \<Rightarrow> Inr ()
     | v \<Rightarrow> rbind (trim_of v) (\<lambda>t. guard (t \<noteq> []) (BadRequest (field @ '' must not be empty''))))"

text \<open>\<open>Number.isInteger(value)\<close> and the integer.\<close>

definition json_integer :: "json option \<Rightarrow> int option" where
  "json_integer v = (case v of Some (JNum n) \<Rightarrow> (if js_is_integer n then Some (int_of_num n) else None) | _ \<Rightarrow> None)"

definition assertInteger :: "(int \<Rightarrow> bool) \<Rightarrow> string \<Rightarrow> json option \<Rightarrow> unit res" where
  "assertInteger ok message v = (case v of None \<Rightarrow> Inr ()
     | Some _ \<Rightarrow> guard (case json_integer v of None \<Rightarrow> False | Some n \<Rightarrow> ok n) (BadRequest message))"

definition assertPositiveInt :: "json \<Rightarrow> string \<Rightarrow> unit res" where
  "assertPositiveInt body field = assertInteger (\<lambda>n. 0 < n) (field @ '' must be a positive integer'') (jget body field)"

definition assertRefreshInterval :: "json \<Rightarrow> string \<Rightarrow> unit res" where
  "assertRefreshInterval body field = assertInteger (\<lambda>n. \<not> (n \<noteq> 0 \<and> n < 2)) (field @ '' must be 0 or an integer of at least 2'') (jget body field)"

definition assertTailLines :: "json \<Rightarrow> string \<Rightarrow> unit res" where
  "assertTailLines body field = assertInteger (\<lambda>n. \<not> (n \<le> 0 \<and> n \<noteq> -1)) (field @ '' must be a positive integer or -1'') (jget body field)"

definition assertBoolean :: "json \<Rightarrow> string \<Rightarrow> unit res" where
  "assertBoolean body field = (case jget body field of None \<Rightarrow> Inr () | Some (JBool _) \<Rightarrow> Inr ()
     | Some _ \<Rightarrow> Inl (BadRequest (field @ '' must be a boolean'')))"

text \<open>\<open>^\d{4}-\d{2}-\d{2}T\d{2}:\d{2}:\d{2}(?:\.\d+)?(?:Z|[+-]\d{2}:\d{2})$\<close>: a \<open>d\<close> of the shape is a digit.\<close>

fun shape :: "string \<Rightarrow> string \<Rightarrow> string option" where
  "shape [] s = Some s"
| "shape (p # ps) [] = None"
| "shape (p # ps) (c # s) = (if (if p = CHR ''d'' then is_digit c else c = p) then shape ps s else None)"

definition zone :: "string \<Rightarrow> bool" where
  "zone s \<longleftrightarrow> s = ''Z'' \<or> shape ''+dd:dd'' s = Some [] \<or> shape ''-dd:dd'' s = Some []"

definition is_rfc3339 :: "string \<Rightarrow> bool" where
  "is_rfc3339 s \<longleftrightarrow> (case shape ''dddd-dd-ddTdd:dd:dd'' s of None \<Rightarrow> False
     | Some r \<Rightarrow> zone r \<or> (case r of c # f \<Rightarrow> c = CHR ''.'' \<and> takeWhile is_digit f \<noteq> [] \<and> zone (dropWhile is_digit f) | [] \<Rightarrow> False))"

definition parseOptionalRfc3339 :: "service_env \<Rightarrow> time \<Rightarrow> json \<Rightarrow> string \<Rightarrow> time option res" where
  "parseOptionalRfc3339 env now body field = (case jget body field of None \<Rightarrow> Inr None
     | v \<Rightarrow> rbind (trim_of v) (\<lambda>t.
         if \<not> is_rfc3339 t then Inl (BadRequest (field @ '' must be an RFC3339 time''))
         else (case se_date env t of None \<Rightarrow> Inl (BadRequest (field @ '' must be a valid time''))
           | Some d \<Rightarrow> (if now < d then Inl (BadRequest (field @ '' must not be in the future'')) else Inr (Some d)))))"

definition assertTimeRange :: "time option \<Rightarrow> time option \<Rightarrow> unit res" where
  "assertTimeRange since until = guard (case (since, until) of (Some a, Some b) \<Rightarrow> a \<le> b | _ \<Rightarrow> True)
     (BadRequest ''sinceTime must not be later than untilTime'')"

definition member_text :: "string list \<Rightarrow> json option \<Rightarrow> bool" where
  "member_text xs v \<longleftrightarrow> (case v of Some (JStr s) \<Rightarrow> s \<in> set xs | _ \<Rightarrow> False)"

definition validateInput :: "service_env \<Rightarrow> time \<Rightarrow> json \<Rightarrow> unit res" where
  "validateInput env now body =
     rbind (assertRequiredString body ''clusterId'') (\<lambda>_. rbind (assertRequiredString body ''namespace'') (\<lambda>_.
     rbind (assertRequiredString body ''pod'') (\<lambda>_.
     rbind (guard (member_text [''terminal'', ''logs''] (jget body ''type'')) (BadRequest ''type must be terminal or logs'')) (\<lambda>_.
     rbind (assertNotBlank body ''command'') (\<lambda>_. rbind (assertNotBlank body ''keyword'') (\<lambda>_.
     rbind (guard (jget body ''level'' = None \<or> member_text [''INFO'', ''WARN'', ''ERROR''] (jget body ''level'')) (BadRequest ''level must be INFO, WARN or ERROR'')) (\<lambda>_.
     rbind (assertBoolean body ''previous'') (\<lambda>_.
     rbind (assertTailLines body ''tailLines'') (\<lambda>_. rbind (assertPositiveInt body ''sinceSeconds'') (\<lambda>_.
     rbind (parseOptionalRfc3339 env now body ''sinceTime'') (\<lambda>since. rbind (parseOptionalRfc3339 env now body ''untilTime'') (\<lambda>until.
     rbind (assertTimeRange since until) (\<lambda>_.
     rbind (assertRefreshInterval body ''refreshIntervalSeconds'') (\<lambda>_.
     rbind (assertBoolean body ''follow'') (\<lambda>_. rbind (assertBoolean body ''previous'') (\<lambda>_.
     assertBoolean body ''timestamps''))))))))))))))))"

section \<open>The target\<close>

record runtime_target =
  rt_clusterId :: string
  rt_namespace :: string
  rt_pod :: string
  rt_container :: string
  rt_availableContainers :: "string list"
  rt_podPhase :: "string option"

definition body_text :: "json \<Rightarrow> string \<Rightarrow> string" where
  "body_text body k = payload_text body k"

text \<open>\<open>value?.trim()\<close>, with the empty text for an absent one.\<close>

definition optional_text :: "json option \<Rightarrow> string res" where
  "optional_text v = (case v of None \<Rightarrow> Inr [] | Some JNull \<Rightarrow> Inr [] | Some (JStr s) \<Rightarrow> Inr s | Some _ \<Rightarrow> Inl type_error)"

definition requested_container :: "json \<Rightarrow> string res" where
  "requested_container body = rbind (optional_text (jget body ''container'')) (\<lambda>s. Inr (js_trim s))"

definition container_names :: "pod_view \<Rightarrow> string list" where
  "container_names p = filter (\<lambda>n. n \<noteq> []) (map (\<lambda>n. case n of None \<Rightarrow> [] | Some s \<Rightarrow> js_trim s) (pv_containers p))"

definition validateTarget :: "runtime_world \<Rightarrow> json \<Rightarrow> runtime_target res" where
  "validateTarget w body =
    (let c = body_text body ''clusterId''; ns = body_text body ''namespace''; p = body_text body ''pod'' in
     if (case kv_kubeconfig (rw_kube w) c of None \<Rightarrow> True | Some k \<Rightarrow> k = []) then Inl (BadRequest ''RUNTIME_CLUSTER_KUBECONFIG_MISSING'')
     else (case kv_pod (rw_kube w) c ns p of
         PodMissing \<Rightarrow> Inl (BadRequest ''RUNTIME_POD_NOT_FOUND'')
       | PodError m \<Rightarrow> Inl (BadRequest ''RUNTIME_TARGET_VALIDATE_FAILED'')
       | PodFound pod \<Rightarrow> (let available = container_names pod in
           if available = [] then Inl (BadRequest ''RUNTIME_POD_CONTAINERS_EMPTY'')
           else rbind (requested_container body) (\<lambda>requested.
             if requested \<noteq> [] \<and> requested \<notin> set available then Inl (BadRequest ''RUNTIME_CONTAINER_NOT_FOUND'')
             else (let phase = map_option js_trim (pv_phase pod) in
               if jget body ''type'' = Some (JStr ''terminal'') \<and> (case phase of None \<Rightarrow> False | Some f \<Rightarrow> f \<noteq> [] \<and> f \<noteq> ''Running'')
               then Inl (BadRequest ''RUNTIME_POD_NOT_RUNNING'')
               else Inr \<lparr>rt_clusterId = c, rt_namespace = ns, rt_pod = p,
                   rt_container = (if requested \<noteq> [] then requested else hd available),
                   rt_availableContainers = available, rt_podPhase = phase\<rparr>)))))"

section \<open>The address of the gateway\<close>

record gateway_access =
  ga_requestHost :: "string option"
  ga_requestProtocol :: "string option"
  ga_requestOrigin :: "string option"

text \<open>\<open>replace(/\/+$/, '')\<close>.\<close>

definition strip_slashes :: "string \<Rightarrow> string" where
  "strip_slashes s = rev (dropWhile (\<lambda>c. c = CHR ''/'') (rev s))"

definition normalizeGatewayBase :: "string \<Rightarrow> string" where
  "normalizeGatewayBase raw = (let t = strip_slashes (js_trim raw) in
     if t = [] then []
     else if starts_with ''ws://'' t \<or> starts_with ''wss://'' t then t
     else if starts_with ''http://'' t then ''ws://'' @ drop 7 t
     else if starts_with ''https://'' t then ''wss://'' @ drop 8 t
     else t)"

definition publicBase :: "service_env \<Rightarrow> string" where
  "publicBase env = normalizeGatewayBase (case se_publicBase env of None \<Rightarrow> [] | Some s \<Rightarrow> s)"

definition configuredBase :: "service_env \<Rightarrow> string" where
  "configuredBase env = normalizeGatewayBase (case se_base env of Some s \<Rightarrow> s
     | None \<Rightarrow> (case se_wsBase env of Some s \<Rightarrow> s | None \<Rightarrow> ''ws://localhost:4100''))"

definition nonempty_text :: "string option \<Rightarrow> string option" where
  "nonempty_text v = (case v of Some s \<Rightarrow> (if s = [] then None else Some s) | None \<Rightarrow> None)"

definition extractHostFromOrigin :: "service_env \<Rightarrow> string option \<Rightarrow> string option" where
  "extractHostFromOrigin env origin = nonempty_text (Option.bind (nonempty_text origin) (se_host env))"

text \<open>\<open>se_protocol\<close> is \<open>new URL(origin).protocol\<close> with its final colon.\<close>

definition extractProtocolFromOrigin :: "service_env \<Rightarrow> string option \<Rightarrow> string option" where
  "extractProtocolFromOrigin env origin = (case Option.bind (nonempty_text origin) (se_protocol env) of
     None \<Rightarrow> None
   | Some p \<Rightarrow> (if p = ''https:'' then Some ''https'' else if p = ''http:'' then Some ''http'' else None))"

definition or_else :: "'a option \<Rightarrow> 'a option \<Rightarrow> 'a option" where
  "or_else a b = (case a of None \<Rightarrow> b | Some x \<Rightarrow> Some x)"

definition resolveGatewayBaseForClient :: "service_env \<Rightarrow> gateway_access option \<Rightarrow> string" where
  "resolveGatewayBaseForClient env access =
    (let base = configuredBase env; origin = Option.bind access ga_requestOrigin in
     if publicBase env \<noteq> [] then publicBase env
     else if starts_with ''/'' base then
       (let host = or_else (nonempty_text (map_option js_trim (Option.bind access ga_requestHost))) (extractHostFromOrigin env origin);
            protocol = or_else (nonempty_text (Option.bind access ga_requestProtocol)) (extractProtocolFromOrigin env origin);
            ws = (if protocol = Some ''https'' then ''wss'' else ''ws'') in
        case host of Some h \<Rightarrow> strip_slashes (ws @ ''://'' @ h @ base) | None \<Rightarrow> base)
     else (case se_href env base of Some h \<Rightarrow> strip_slashes h | None \<Rightarrow> base))"

text \<open>\<open>URLSearchParams.set\<close> and \<open>delete\<close> on parameters with different names.\<close>

definition query_set :: "string \<Rightarrow> string \<Rightarrow> (string \<times> string) list \<Rightarrow> (string \<times> string) list" where
  "query_set k v q = AList.update k v q"

definition query_delete :: "string \<Rightarrow> (string \<times> string) list \<Rightarrow> (string \<times> string) list" where
  "query_delete k q = filter (\<lambda>e. fst e \<noteq> k) q"

text \<open>\<open>String(value)\<close> of a text, a number or a truth value.\<close>

definition string_of :: "service_env \<Rightarrow> json \<Rightarrow> string" where
  "string_of env v = (case v of JStr s \<Rightarrow> s | JNum n \<Rightarrow> se_numText env n | JBool b \<Rightarrow> (if b then ''true'' else ''false'') | _ \<Rightarrow> [])"

definition set_if :: "bool \<Rightarrow> service_env \<Rightarrow> json \<Rightarrow> string \<Rightarrow> (string \<times> string) list \<Rightarrow> (string \<times> string) list" where
  "set_if ok env body k q = (case jget body k of Some v \<Rightarrow> (if ok then query_set k (string_of env v) q else q) | None \<Rightarrow> q)"

definition is_bool :: "json option \<Rightarrow> bool" where
  "is_bool v \<longleftrightarrow> (case v of Some (JBool _) \<Rightarrow> True | _ \<Rightarrow> False)"

definition log_query :: "service_env \<Rightarrow> json \<Rightarrow> (string \<times> string) list \<Rightarrow> (string \<times> string) list" where
  "log_query env body q0 =
    (let q1 = set_if (truthy (jget body ''level'')) env body ''level'' q0;
         q2 = (if truthy (jget body ''keyword'') then query_set ''keyword'' (js_trim (body_text body ''keyword'')) q1 else q1);
         q3 = set_if True env body ''tailLines'' q2;
         q4 = set_if (truthy (jget body ''sinceSeconds'')) env body ''sinceSeconds'' q3;
         q5 = (if truthy (jget body ''sinceTime'') then query_set ''sinceTime'' (body_text body ''sinceTime'') (query_delete ''sinceSeconds'' q4) else q4);
         q6 = set_if (truthy (jget body ''untilTime'')) env body ''untilTime'' q5;
         q7 = set_if True env body ''refreshIntervalSeconds'' q6;
         q8 = (if truthy (jget body ''previous'') then query_set ''previous'' ''true'' q7 else q7);
         q9 = set_if (is_bool (jget body ''follow'')) env body ''follow'' q8;
         q10 = set_if (is_bool (jget body ''previous'')) env body ''previous'' q9 in
     set_if (is_bool (jget body ''timestamps'')) env body ''timestamps'' q10)"

definition is_logs :: "json \<Rightarrow> bool" where
  "is_logs body \<longleftrightarrow> jget body ''type'' = Some (JStr ''logs'')"

definition gateway_query :: "service_env \<Rightarrow> json \<Rightarrow> string \<Rightarrow> string \<Rightarrow> string \<Rightarrow> (string \<times> string) list" where
  "gateway_query env body container sessionId runtimeToken =
    (let q = [(''sessionId'', sessionId), (''runtimeToken'', runtimeToken), (''clusterId'', body_text body ''clusterId''),
       (''namespace'', body_text body ''namespace''), (''pod'', body_text body ''pod''), (''container'', container)] in
     if is_logs body then log_query env body q else q)"

definition buildGatewayUrl :: "service_env \<Rightarrow> json \<Rightarrow> string \<Rightarrow> string \<Rightarrow> string \<Rightarrow> string \<Rightarrow> gateway_access option \<Rightarrow> string" where
  "buildGatewayUrl env body container sessionId runtimeToken path access =
     resolveGatewayBaseForClient env access @ path @ ''?'' @ se_query env (gateway_query env body container sessionId runtimeToken)"

section \<open>Creating a session\<close>

definition sessionTtlSeconds :: int where "sessionTtlSeconds = 30 * 60"

definition resolveGatewayPath :: "json \<Rightarrow> string" where
  "resolveGatewayPath body = (if jget body ''type'' = Some (JStr ''terminal'') then ''/ws/terminal'' else ''/ws/logs'')"

text \<open>An absent field is not written by \<open>JSON.stringify\<close>.\<close>

definition opt_field :: "string \<Rightarrow> json option \<Rightarrow> (string \<times> json) list" where
  "opt_field k v = (case v of None \<Rightarrow> [] | Some j \<Rightarrow> [(k, j)])"

definition log_fields :: "json \<Rightarrow> (string \<times> json) list" where
  "log_fields body = (if \<not> is_logs body then [] else
     opt_field ''level'' (jget body ''level'')
     @ opt_field ''keyword'' (map_option (\<lambda>s. JStr (js_trim s)) (jstring (jget body ''keyword'')))
     @ opt_field ''tailLines'' (jget body ''tailLines'')
     @ opt_field ''sinceSeconds'' (if truthy (jget body ''sinceTime'') then None else jget body ''sinceSeconds'')
     @ concat (map (\<lambda>k. opt_field k (jget body k))
         [''sinceTime'', ''untilTime'', ''refreshIntervalSeconds'', ''follow'', ''previous'', ''timestamps'']))"

definition trimmed_user :: "string option \<Rightarrow> string" where
  "trimmed_user u = (let t = js_trim (case u of None \<Rightarrow> [] | Some s \<Rightarrow> s) in if t = [] then ''unknown-user'' else t)"

definition token_payload :: "json \<Rightarrow> runtime_target \<Rightarrow> string \<Rightarrow> string option \<Rightarrow> int \<Rightarrow> json" where
  "token_payload body target sessionId userId expirySeconds = JObj (
     [(''sessionId'', JStr sessionId), (''userId'', JStr (trimmed_user userId)), (''type'', JStr (body_text body ''type'')),
      (''clusterId'', JStr (body_text body ''clusterId'')), (''namespace'', JStr (body_text body ''namespace'')), (''pod'', JStr (body_text body ''pod'')),
      (''container'', JStr (rt_container target)), (''availableContainers'', JArr (map JStr (rt_availableContainers target)))]
     @ opt_field ''podPhase'' (map_option JStr (rt_podPhase target)) @ log_fields body
     @ [(''path'', JStr (resolveGatewayPath body)), (''exp'', JNum (num expirySeconds))])"

record session_bootstrap =
  sb_sessionId :: string
  sb_runtimeToken :: string
  sb_gatewayWsUrl :: string
  sb_expiresAt :: time
  sb_target :: runtime_target

definition persist_input :: "json \<Rightarrow> runtime_target \<Rightarrow> string \<Rightarrow> string option \<Rightarrow> int option \<Rightarrow> time \<Rightarrow> runtime_input" where
  "persist_input body target sessionId userId authzVersion expiresAt = \<lparr>ri_authzVersion = authzVersion, ri_id = sessionId,
     ri_clusterId = body_text body ''clusterId'', ri_userId = userId, ri_type = body_text body ''type'', ri_namespace = body_text body ''namespace'',
     ri_pod = body_text body ''pod'', ri_container = rt_container target, ri_expiresAt = expiresAt\<rparr>"

definition create_runtime_session ::
  "service_env \<Rightarrow> time \<Rightarrow> string \<Rightarrow> json \<Rightarrow> string option \<Rightarrow> int option \<Rightarrow> gateway_access option \<Rightarrow> runtime_world
     \<Rightarrow> session_bootstrap res \<times> runtime_world" where
  "create_runtime_session env now sessionId body userId authzVersion access w =
    (case rbind (validateInput env now body) (\<lambda>_. validateTarget w body) of
       Inl e \<Rightarrow> (Inl e, w)
     | Inr target \<Rightarrow>
        (let expirySeconds = now div 1000 + sessionTtlSeconds;
             runtimeToken = createRuntimeToken (runtime_env.truncate env) (token_payload body target sessionId userId expirySeconds) in
         case runtime_createSession (persist_input body target sessionId userId authzVersion (expirySeconds * 1000)) w of
           (Inl e, w') \<Rightarrow> (Inl e, w')
         | (Inr _, w') \<Rightarrow> (Inr \<lparr>sb_sessionId = sessionId, sb_runtimeToken = runtimeToken,
              sb_gatewayWsUrl = buildGatewayUrl env body (rt_container target) sessionId runtimeToken (resolveGatewayPath body) access,
              sb_expiresAt = expirySeconds * 1000, sb_target = target\<rparr>, w')))"

section \<open>The controller\<close>

datatype header_value = One string | Many "string list"

definition first_value :: "header_value option \<Rightarrow> string option" where
  "first_value h = (case h of None \<Rightarrow> None | Some (One s) \<Rightarrow> Some s | Some (Many xs) \<Rightarrow> (case xs of [] \<Rightarrow> None | x # _ \<Rightarrow> Some x))"

record runtime_headers =
  hd_forwardedHost :: "header_value option"
  hd_forwardedProto :: "header_value option"
  hd_origin :: "header_value option"
  hd_host :: "string option"

definition gateway_access_of :: "runtime_headers \<Rightarrow> gateway_access" where
  "gateway_access_of h =
    (let host = (case hd_forwardedHost h of Some (Many xs) \<Rightarrow> first_value (Some (Many xs))
           | Some (One s) \<Rightarrow> (if s = [] then hd_host h else Some s) | None \<Rightarrow> hd_host h);
         protocol = map_option (\<lambda>s. js_trim (hd (js_split (CHR '','') s))) (first_value (hd_forwardedProto h)) in
     \<lparr>ga_requestHost = map_option (\<lambda>s. js_trim (hd (js_split (CHR '','') s))) host,
      ga_requestProtocol = (if protocol \<in> {Some ''https'', Some ''http''} then protocol else None),
      ga_requestOrigin = first_value (hd_origin h)\<rparr>)"

record requester =
  rq_subject :: "subject option"
  rq_version :: "int option"

definition assertCapability :: "service_env \<Rightarrow> time \<Rightarrow> runtime_world \<Rightarrow> subject option \<Rightarrow> json \<Rightarrow> unit res" where
  "assertCapability env now w subject body =
     rbind (guard (se_grants env) (Forbidden ''AUTHZ_UNAVAILABLE'')) (\<lambda>_.
     rbind (optional_text (jget body ''clusterId'')) (\<lambda>c.
     rbind (if nonblank c then optional_text (jget body ''namespace'') else Inr []) (\<lambda>ns.
     rbind (resolve_namespace (rw_kube w) c ns) (\<lambda>uid.
     guard (dc_allowed (authorize (rw_access w) now (runtime_request (case Option.bind subject sj_id of None \<Rightarrow> [] | Some i \<Rightarrow> i) c uid (is_logs body))))
       (Forbidden ''AUTHZ_DENIED'')))))"

text \<open>The access decision of the handler, before anything is created.\<close>

definition admit :: "service_env \<Rightarrow> time \<Rightarrow> runtime_world \<Rightarrow> subject option \<Rightarrow> json \<Rightarrow> unit res" where
  "admit env now w subject body =
     rbind (rbind (optional_text (jget body ''clusterId'')) (\<lambda>c.
       requires_grant (runtime_env.truncate env) (cluster_access (rw_access w) now subject (is_logs body) (Some c))))
     (\<lambda>needed. if needed then assertCapability env now w subject body else Inr ())"

definition post_session ::
  "service_env \<Rightarrow> time \<Rightarrow> string \<Rightarrow> requester \<Rightarrow> runtime_headers \<Rightarrow> json \<Rightarrow> runtime_world \<Rightarrow> session_bootstrap res \<times> runtime_world" where
  "post_session env now sessionId who h body w =
     (case admit env now w (rq_subject who) body of
        Inl e \<Rightarrow> (Inl e, w)
      | Inr _ \<Rightarrow> create_runtime_session env now sessionId body (Option.bind (rq_subject who) sj_id) (rq_version who) (Some (gateway_access_of h)) w)"

section \<open>Calls of the gateway\<close>

definition internal_secret :: "service_env \<Rightarrow> string" where
  "internal_secret env = (case nonempty_text (map_option js_trim (se_internalSecret env)) of Some s \<Rightarrow> s
     | None \<Rightarrow> (case nonempty_text (map_option js_trim (se_tokenSecret env)) of Some s \<Rightarrow> s | None \<Rightarrow> ''dev-runtime-token-secret''))"

definition isValidInternalSecret :: "service_env \<Rightarrow> string option \<Rightarrow> bool" where
  "isValidInternalSecret env secret \<longleftrightarrow> (case secret of None \<Rightarrow> False | Some s \<Rightarrow> s \<noteq> [] \<and> s = internal_secret env)"

record gateway_call =
  gc_sessionId :: string
  gc_runtimeToken :: json
  gc_path :: "json option"
  gc_secret :: "string option"

definition getGatewaySessionStatus :: "service_env \<Rightarrow> time \<Rightarrow> runtime_world \<Rightarrow> gateway_call \<Rightarrow> bool res" where
  "getGatewaySessionStatus env now w q =
    (if \<not> isValidInternalSecret env (gc_secret q) then Inl (Forbidden ''runtime gateway internal secret is invalid'')
     else (case (gc_runtimeToken q, gc_path q) of
         (JStr token, Some (JStr path)) \<Rightarrow>
           (if length token > 16384 \<or> gc_sessionId q = [] \<or> path \<notin> {''/ws/logs'', ''/ws/terminal''}
            then Inl (BadRequest ''Invalid runtime status request'')
            else rbind (validateSessionTokenDetailed (runtime_env.truncate env) now w (gc_sessionId q) token path) (\<lambda>r. Inr (\<not> isl r)))
       | _ \<Rightarrow> Inl (BadRequest ''Invalid runtime status request'')))"

definition buildShellCommand :: "string list" where
  "buildShellCommand = [''/bin/sh'', ''-c'',
     ''if command -v bash >/dev/null 2>&1; then exec bash; elif command -v sh >/dev/null 2>&1; then exec sh; else exec /bin/sh; fi'']"

definition log_stream_options :: "json \<Rightarrow> json option" where
  "log_stream_options v = (if jget v ''type'' \<noteq> Some (JStr ''logs'') then None else Some (JObj (
     concat (map (\<lambda>k. opt_field k (jget v k)) [''level'', ''keyword'', ''tailLines''])
     @ opt_field ''sinceSeconds'' (if truthy (jget v ''sinceTime'') then None else jget v ''sinceSeconds'')
     @ concat (map (\<lambda>k. opt_field k (jget v k)) [''sinceTime'', ''untilTime'', ''refreshIntervalSeconds'', ''follow'', ''previous'', ''timestamps'']))))"

definition bootstrap_json :: "service_env \<Rightarrow> string \<Rightarrow> json \<Rightarrow> json" where
  "bootstrap_json env kubeconfig v = JObj (
     concat (map (\<lambda>k. opt_field k (jget v k)) [''sessionId'', ''clusterId'', ''namespace'', ''pod'', ''container'', ''type'', ''path''])
     @ [(''kubeconfig'', JStr kubeconfig), (''shellCommand'', JArr (map JStr buildShellCommand))]
     @ opt_field ''logStreamOptions'' (log_stream_options v)
     @ [(''expiresAt'', JStr (case exp_time (payload_exp v) of Some t \<Rightarrow> se_iso env t | None \<Rightarrow> [])), (''reconnectable'', JBool True), (''sessionState'', JStr ''active''),
        (''target'', JObj (concat (map (\<lambda>k. opt_field k (jget v k)) [''clusterId'', ''namespace'', ''pod'', ''container''])
           @ [(''availableContainers'', (case jget v ''availableContainers'' of Some j \<Rightarrow> (if j = JNull then JArr [case jget v ''container'' of Some c \<Rightarrow> c | None \<Rightarrow> JNull] else j)
                | None \<Rightarrow> JArr [case jget v ''container'' of Some c \<Rightarrow> c | None \<Rightarrow> JNull]))]
           @ opt_field ''podPhase'' (jget v ''podPhase'')))])"

definition code_text :: "runtime_code \<Rightarrow> string" where
  "code_text c = (case c of TokenFormatInvalid \<Rightarrow> ''RUNTIME_TOKEN_FORMAT_INVALID'' | TokenSignatureInvalid \<Rightarrow> ''RUNTIME_TOKEN_SIGNATURE_INVALID''
     | TokenPayloadInvalid \<Rightarrow> ''RUNTIME_TOKEN_PAYLOAD_INVALID'' | TokenExpired \<Rightarrow> ''RUNTIME_TOKEN_EXPIRED''
     | SessionMismatch \<Rightarrow> ''RUNTIME_TOKEN_SESSION_MISMATCH'' | PathMismatch \<Rightarrow> ''RUNTIME_TOKEN_PATH_MISMATCH''
     | SessionNotFound \<Rightarrow> ''RUNTIME_SESSION_NOT_FOUND'' | SessionClosed \<Rightarrow> ''RUNTIME_SESSION_CLOSED''
     | AccessRevoked \<Rightarrow> ''RUNTIME_SESSION_ACCESS_REVOKED'' | SessionExpired \<Rightarrow> ''RUNTIME_SESSION_EXPIRED'')"

definition getGatewaySessionBootstrap ::
  "service_env \<Rightarrow> time \<Rightarrow> runtime_world \<Rightarrow> string \<Rightarrow> string \<Rightarrow> string \<Rightarrow> string option \<Rightarrow> json res" where
  "getGatewaySessionBootstrap env now w sessionId runtimeToken path secret =
    (if \<not> isValidInternalSecret env secret then Inl (Forbidden ''runtime gateway internal secret is invalid'')
     else rbind (validateSessionTokenDetailed (runtime_env.truncate env) now w sessionId runtimeToken path) (\<lambda>r. case r of
        Inl c \<Rightarrow> Inl (BadRequest (code_text c))
      | Inr v \<Rightarrow> (case kv_kubeconfig (rw_kube w) (payload_text v ''clusterId'') of
            None \<Rightarrow> Inl (BadRequest ''kubeconfig is not configured'')
          | Some k \<Rightarrow> (if k = [] then Inl (BadRequest ''kubeconfig is not configured'') else Inr (bootstrap_json env k v)))))"

end
