(* ===== verification/Kn_RuntimeLease.thy ===== *)
theory Kn_RuntimeLease
  imports Kn_RuntimeService
begin

text \<open>
  Live leases of runtime sessions: common/authorization-invalidation.ts (one LISTEN connection and
  the streams registered on it), runtime/runtime-invalidation.service.ts,
  runtime/runtime-authorization-lease.ts and \<open>watchGatewaySession\<close> of runtime/runtime.service.ts.

  Opening a lease has four turns of the event loop: a validation, the registration, a second
  validation and the final check. What happens between them is an arbitrary list of events:
  notifications, the loss of the connection, the clock with the timers that are due, changes of the
  database and the clusters, other streams.
\<close>

section \<open>The notification channel\<close>

record stream =
  sm_id :: nat
  sm_user :: string
  sm_deadline :: time

record invalidation =
  iv_ready :: bool
  iv_schema :: string
  iv_streams :: "stream list"
  iv_next :: nat

text \<open>The payload after \<open>JSON.parse\<close>; \<open>None\<close> when it is absent or does not parse.\<close>

record notification =
  nt_channel :: string
  nt_payload :: "json option"

definition invalidateAll :: "invalidation \<Rightarrow> invalidation" where
  "invalidateAll v = v\<lparr>iv_ready := False, iv_streams := []\<rparr>"

text \<open>The schema and the user a notification names; no user means all of them.\<close>

definition parse_event :: "json option \<Rightarrow> (string \<times> string option) option" where
  "parse_event payload = (case payload of None \<Rightarrow> None
     | Some e \<Rightarrow> (if \<not> is_object e then None
         else (case (jget e ''schema'', jget e ''userId'') of
             (Some (JStr s), Some JNull) \<Rightarrow> Some (s, None)
           | (Some (JStr s), Some (JStr u)) \<Rightarrow> Some (s, Some u)
           | _ \<Rightarrow> None)))"

definition on_notification :: "notification \<Rightarrow> invalidation \<Rightarrow> invalidation" where
  "on_notification n v =
     (if nt_channel n \<noteq> ''kubenova_authorization'' then v
      else (case parse_event (nt_payload n) of
          None \<Rightarrow> invalidateAll v
        | Some (schema, user) \<Rightarrow> (if schema \<noteq> iv_schema v then v
            else v\<lparr>iv_streams := filter (\<lambda>s. \<not> (user = None \<or> user = Some (sm_user s))) (iv_streams v)\<rparr>)))"

text \<open>The new stream, or the error of a channel that is not available.\<close>

definition register :: "time \<Rightarrow> string \<Rightarrow> time option \<Rightarrow> invalidation \<Rightarrow> nat option \<times> invalidation" where
  "register now userId expiresAt v = (case expiresAt of None \<Rightarrow> (None, v)
     | Some e \<Rightarrow>
        (if \<not> iv_ready v \<or> userId = [] \<or> e - now \<le> 0 then (None, v)
         else (Some (iv_next v), v\<lparr>iv_next := Suc (iv_next v),
            iv_streams := iv_streams v @ [\<lparr>sm_id = iv_next v, sm_user = userId, sm_deadline = now + min (e - now) 2147483647\<rparr>]\<rparr>)))"

definition close_stream :: "nat \<Rightarrow> invalidation \<Rightarrow> invalidation" where
  "close_stream i v = v\<lparr>iv_streams := filter (\<lambda>s. sm_id s \<noteq> i) (iv_streams v)\<rparr>"

definition timers_due :: "time \<Rightarrow> invalidation \<Rightarrow> invalidation" where
  "timers_due now v = v\<lparr>iv_streams := filter (\<lambda>s. now < sm_deadline s) (iv_streams v)\<rparr>"

text \<open>\<open>!signal.aborted\<close>.\<close>

definition live_stream :: "nat \<Rightarrow> invalidation \<Rightarrow> bool" where
  "live_stream i v \<longleftrightarrow> i \<in> sm_id ` set (iv_streams v)"

section \<open>What happens meanwhile\<close>

record surroundings =
  su_now :: time
  su_world :: runtime_world
  su_channel :: invalidation

datatype lease_event =
    Changed runtime_world
  | Clock time
  | Notified notification
  | Lost
  | Opened string time
  | Dropped nat

fun occur :: "lease_event \<Rightarrow> surroundings \<Rightarrow> surroundings" where
  "occur (Changed w) g = g\<lparr>su_world := w\<rparr>"
| "occur (Clock t) g = (if t < su_now g then g else g\<lparr>su_now := t, su_channel := timers_due t (su_channel g)\<rparr>)"
| "occur (Notified n) g = g\<lparr>su_channel := on_notification n (su_channel g)\<rparr>"
| "occur Lost g = g\<lparr>su_channel := invalidateAll (su_channel g)\<rparr>"
| "occur (Opened u e) g = g\<lparr>su_channel := snd (register (su_now g) u (Some e) (su_channel g))\<rparr>"
| "occur (Dropped i) g = g\<lparr>su_channel := close_stream i (su_channel g)\<rparr>"

definition occurs :: "lease_event list \<Rightarrow> surroundings \<Rightarrow> surroundings" where
  "occurs es g = fold occur es g"

section \<open>Opening a lease\<close>

record lease_input =
  li_sessionId :: string
  li_runtimeToken :: string
  li_path :: string

definition validated_now :: "runtime_env \<Rightarrow> lease_input \<Rightarrow> surroundings \<Rightarrow> json option res" where
  "validated_now env i g = validateSessionToken env (su_now g) (su_world g) (li_sessionId i) (li_runtimeToken i) (li_path i)"

text \<open>\<open>final.payload.exp < initial.payload.exp\<close>.\<close>

definition js_less :: "jsnum \<Rightarrow> jsnum \<Rightarrow> bool" where
  "js_less a b = (case (a, b) of (Fin x, Fin y) \<Rightarrow> x < y | (Fin x, Infinite p) \<Rightarrow> p | (Infinite p, Fin y) \<Rightarrow> \<not> p
     | (Infinite p, Infinite r) \<Rightarrow> \<not> p \<and> r | _ \<Rightarrow> False)"

definition still_granted :: "json \<Rightarrow> json option \<Rightarrow> bool" where
  "still_granted initial final = (case final of None \<Rightarrow> False
     | Some f \<Rightarrow> jget f ''userId'' = jget initial ''userId'' \<and> \<not> js_less (payload_exp f) (payload_exp initial))"

text \<open>The turns after the registration; any error closes the stream.\<close>

definition finish_lease ::
  "runtime_env \<Rightarrow> lease_input \<Rightarrow> json \<Rightarrow> nat \<Rightarrow> lease_event list \<Rightarrow> lease_event list \<Rightarrow> surroundings \<Rightarrow> nat res \<times> surroundings" where
  "finish_lease env i initial k es3 es4 g1 =
    (let g2 = occurs es3 g1; final = validated_now env i g2; g3 = occurs es4 g2; g4 = g3\<lparr>su_channel := close_stream k (su_channel g3)\<rparr> in
     case final of
       Inl e \<Rightarrow> (Inl e, g4)
     | Inr f \<Rightarrow> (if \<not> live_stream k (su_channel g3) \<or> \<not> still_granted initial f then (Inl (Forbidden ''Runtime access revoked''), g4)
         else (Inr k, g3)))"

definition createRuntimeAuthorizationLease ::
  "runtime_env \<Rightarrow> lease_input \<Rightarrow> lease_event list \<Rightarrow> lease_event list \<Rightarrow> lease_event list \<Rightarrow> surroundings \<Rightarrow> nat res \<times> surroundings" where
  "createRuntimeAuthorizationLease env i es2 es3 es4 g =
    (case validated_now env i g of
       Inl e \<Rightarrow> (Inl e, occurs es2 g)
     | Inr None \<Rightarrow> (Inl (Forbidden ''Runtime access denied''), occurs es2 g)
     | Inr (Some initial) \<Rightarrow>
        (let g0 = occurs es2 g in
         case register (su_now g0) (payload_text initial ''userId'') (exp_time (payload_exp initial)) (su_channel g0) of
           (None, _) \<Rightarrow> (Inl (Internal ''Authorization stream unavailable''), g0)
         | (Some k, v) \<Rightarrow> finish_lease env i initial k es3 es4 (g0\<lparr>su_channel := v\<rparr>)))"

text \<open>
  \<open>RuntimeInvalidationService.get\<close>: the connection in use, or a new one when it is lost;
  \<open>connect\<close> is the outcome of opening one.
\<close>

definition get_channel :: "bool \<Rightarrow> invalidation res \<Rightarrow> invalidation option \<Rightarrow> invalidation res \<times> invalidation option" where
  "get_channel enabled connect current =
     (if \<not> enabled then (Inl (Unavailable ''Runtime push revocation disabled''), current)
      else (case current of
          Some v \<Rightarrow> (if iv_ready v then (Inr v, Some v)
             else (case connect of Inl e \<Rightarrow> (Inl e, None) | Inr n \<Rightarrow> (Inr n, Some n)))
        | None \<Rightarrow> (case connect of Inl e \<Rightarrow> (Inl e, None) | Inr n \<Rightarrow> (Inr n, Some n))))"

text \<open>\<open>connect\<close> of the service: both triggers of the notification migration must be there.\<close>

definition open_channel :: "nat \<Rightarrow> bool \<Rightarrow> string \<Rightarrow> bool \<Rightarrow> invalidation res" where
  "open_channel triggers databaseUrl schema listening =
     (if triggers \<noteq> 2 \<or> \<not> databaseUrl then Inl (Unavailable ''Authorization notification migration required'')
      else if \<not> listening then Inl (Internal ''Authorization notification channel unavailable'')
      else Inr \<lparr>iv_ready = True, iv_schema = schema, iv_streams = [], iv_next = 0\<rparr>)"

definition watchGatewaySession ::
  "service_env \<Rightarrow> gateway_call \<Rightarrow> bool \<Rightarrow> lease_event list \<Rightarrow> lease_event list \<Rightarrow> lease_event list \<Rightarrow> lease_event list \<Rightarrow> surroundings
     \<Rightarrow> nat res \<times> surroundings" where
  "watchGatewaySession env q available es1 es2 es3 es4 g =
    (case getGatewaySessionStatus env (su_now g) (su_world g) q of
       Inl e \<Rightarrow> (Inl e, g)
     | Inr active \<Rightarrow>
        (if \<not> active then (Inl (Forbidden ''Runtime access denied''), g)
         else if \<not> available then (Inl (Unavailable ''Runtime invalidation unavailable''), g)
         else createRuntimeAuthorizationLease (runtime_env.truncate env)
           \<lparr>li_sessionId = gc_sessionId q, li_runtimeToken = (case gc_runtimeToken q of JStr t \<Rightarrow> t | _ \<Rightarrow> []),
            li_path = (case gc_path q of Some (JStr p) \<Rightarrow> p | _ \<Rightarrow> [])\<rparr> es2 es3 es4 (occurs es1 g)))"

end
