(* ===== verification/Kn_RuntimeGateway.thy ===== *)
theory Kn_RuntimeGateway
  imports Kn_RuntimeService
begin

text \<open>
  The WebSocket gateway of runtime sessions: runtime/runtime.gateway.ts. A socket has its namespace,
  its handshake, the context a successful connection leaves, the rooms it joined, what was emitted
  to it and whether it is still connected.
\<close>

record socket_context =
  sc_sessionId :: string
  sc_path :: string
  sc_type :: string

record socket =
  sk_namespace :: string
  sk_auth :: json
  sk_query :: json
  sk_context :: "socket_context option"
  sk_rooms :: "string list"
  sk_out :: "(string \<times> json) list"
  sk_open :: bool

definition emit :: "string \<Rightarrow> json \<Rightarrow> socket \<Rightarrow> socket" where
  "emit event v sk = sk\<lparr>sk_out := sk_out sk @ [(event, v)]\<rparr>"

definition disconnect :: "socket \<Rightarrow> socket" where
  "disconnect sk = sk\<lparr>sk_open := False\<rparr>"

definition emitRuntimeError :: "string option \<Rightarrow> string \<Rightarrow> string \<Rightarrow> socket \<Rightarrow> socket" where
  "emitRuntimeError event code message sk = emit ''runtime.error'' (JObj (opt_field ''event'' (map_option JStr event)
     @ [(''code'', JStr code), (''message'', JStr message)])) sk"

section \<open>Connecting\<close>

definition resolvePathFromNamespace :: "string \<Rightarrow> string option" where
  "resolvePathFromNamespace ns = (if ns = ''/ws/terminal'' \<or> ns = ''/ws/logs'' then Some ns else None)"

definition given_text :: "json option \<Rightarrow> string option" where
  "given_text v = (case jstring v of None \<Rightarrow> None | Some s \<Rightarrow> (if nonblank s then Some s else None))"

definition readHandshakeString :: "socket \<Rightarrow> string \<Rightarrow> string option" where
  "readHandshakeString sk key = or_else (given_text (jget (sk_auth sk) key))
     (or_else (given_text (jget (sk_query sk) key))
       (case jget (sk_query sk) key of Some (JArr (x # _)) \<Rightarrow> given_text (Some x) | _ \<Rightarrow> None))"

definition handleConnection :: "runtime_env \<Rightarrow> time \<Rightarrow> runtime_world \<Rightarrow> socket \<Rightarrow> unit res \<times> socket" where
  "handleConnection env now w sk =
    (case resolvePathFromNamespace (sk_namespace sk) of
       None \<Rightarrow> (Inr (), disconnect sk)
     | Some path \<Rightarrow>
        (case (readHandshakeString sk ''sessionId'', readHandshakeString sk ''runtimeToken'') of
           (Some sessionId, Some runtimeToken) \<Rightarrow>
             (case validateSessionTokenDetailed env now w sessionId runtimeToken path of
                Inl e \<Rightarrow> (Inl e, sk)
              | Inr (Inl c) \<Rightarrow> (Inr (), disconnect (emitRuntimeError None (code_text c) (resolveValidationMessage c) sk))
              | Inr (Inr v) \<Rightarrow> (Inr (), emit ''runtime.ready'' (JObj ([(''sessionId'', JStr sessionId)] @ opt_field ''channel'' (jget v ''type'')
                    @ [(''mode'', JStr ''skeleton''), (''message'', JStr ''gateway connected; attach/stream not implemented'')]))
                  (sk\<lparr>sk_context := Some \<lparr>sc_sessionId = sessionId, sc_path = path, sc_type = payload_text v ''type''\<rparr>,
                      sk_rooms := sk_rooms sk @ [''runtime:'' @ sessionId]\<rparr>)))
         | _ \<Rightarrow> (Inr (), disconnect (emitRuntimeError None ''RUNTIME_SESSION_UNAUTHORIZED'' ''missing sessionId or runtimeToken'' sk))))"

section \<open>Messages\<close>

text \<open>The context of the socket, or the socket with the error emitted.\<close>

definition requireRuntimeContext :: "socket \<Rightarrow> string \<Rightarrow> string \<Rightarrow> socket + socket_context" where
  "requireRuntimeContext sk path event = (case sk_context sk of
     None \<Rightarrow> Inl (emitRuntimeError (Some event) ''RUNTIME_SESSION_UNAUTHORIZED'' ''runtime session not initialised'' sk)
   | Some c \<Rightarrow> (if sc_path c \<noteq> path \<or> sk_namespace sk \<noteq> path
       then Inl (emitRuntimeError (Some event) ''RUNTIME_CHANNEL_MISMATCH'' ''channel does not match the event'' sk) else Inr c))"

definition parseTerminalInput :: "json \<Rightarrow> json option" where
  "parseTerminalInput v = (if \<not> is_object v then None
     else (case jget v ''input'' of Some (JStr s) \<Rightarrow> (if s = [] then None else Some (JObj [(''input'', JStr s)])) | _ \<Rightarrow> None))"

definition onTerminalInput :: "json \<Rightarrow> socket \<Rightarrow> socket" where
  "onTerminalInput v sk = (case requireRuntimeContext sk ''/ws/terminal'' ''terminal.input'' of
     Inl sk' \<Rightarrow> sk'
   | Inr c \<Rightarrow> (case parseTerminalInput v of
        None \<Rightarrow> emitRuntimeError (Some ''terminal.input'') ''RUNTIME_BAD_REQUEST'' ''terminal.input is invalid'' sk
      | Some p \<Rightarrow> emit ''terminal.ack'' (JObj [(''accepted'', JBool True), (''mode'', JStr ''skeleton''), (''sessionId'', JStr (sc_sessionId c)),
          (''message'', JStr ''terminal attach not implemented yet''), (''received'', p)]) sk))"

text \<open>An absent field is skipped; \<open>None\<close> as the outcome is the \<open>return null\<close>.\<close>

definition positive_field :: "json \<Rightarrow> string \<Rightarrow> (string \<times> json) list option" where
  "positive_field v k = (case jget v k of None \<Rightarrow> Some []
     | x \<Rightarrow> (case json_integer x of Some n \<Rightarrow> (if n \<le> 0 then None else Some [(k, JNum (num n))]) | None \<Rightarrow> None))"

definition parseRfc3339 :: "service_env \<Rightarrow> string \<Rightarrow> time option" where
  "parseRfc3339 env raw = (let t = js_trim raw in if is_rfc3339 t then se_date env t else None)"

definition time_field :: "service_env \<Rightarrow> time \<Rightarrow> json \<Rightarrow> string \<Rightarrow> time option option" where
  "time_field env now v k = (case jget v k of None \<Rightarrow> Some None
     | Some (JStr s) \<Rightarrow> (case parseRfc3339 env s of None \<Rightarrow> None | Some t \<Rightarrow> (if now < t then None else Some (Some t)))
     | Some _ \<Rightarrow> None)"

definition refresh_field :: "json \<Rightarrow> (string \<times> json) list option" where
  "refresh_field v = (case jget v ''refreshIntervalSeconds'' of None \<Rightarrow> Some []
     | x \<Rightarrow> (case json_integer x of None \<Rightarrow> None
         | Some n \<Rightarrow> (if n \<noteq> 0 \<and> n < 2 then None else Some (if 0 < n then [(''refreshIntervalSeconds'', JNum (num n))] else []))))"

definition level_field :: "json \<Rightarrow> (string \<times> json) list option" where
  "level_field v = (case jget v ''level'' of None \<Rightarrow> Some []
     | Some x \<Rightarrow> (if member_text [''INFO'', ''WARN'', ''ERROR''] (Some x) then Some [(''level'', x)] else None))"

definition keyword_field :: "json \<Rightarrow> (string \<times> json) list option" where
  "keyword_field v = (case jget v ''keyword'' of None \<Rightarrow> Some []
     | Some (JStr s) \<Rightarrow> (if nonblank s then Some [(''keyword'', JStr s)] else None) | Some _ \<Rightarrow> None)"

definition iso_field :: "service_env \<Rightarrow> string \<Rightarrow> time option \<Rightarrow> (string \<times> json) list" where
  "iso_field env k t = opt_field k (map_option (\<lambda>d. JStr (se_iso env d)) t)"

definition parseLogsSubscribe :: "service_env \<Rightarrow> time \<Rightarrow> json \<Rightarrow> json option" where
  "parseLogsSubscribe env now v =
    (if \<not> is_object v then None
     else Option.bind (positive_field v ''tailLines'') (\<lambda>tail. Option.bind (positive_field v ''sinceSeconds'') (\<lambda>seconds.
       Option.bind (time_field env now v ''sinceTime'') (\<lambda>since. Option.bind (time_field env now v ''untilTime'') (\<lambda>until.
       if (case (since, until) of (Some a, Some b) \<Rightarrow> b < a | _ \<Rightarrow> False) then None
       else Option.bind (refresh_field v) (\<lambda>refresh. Option.bind (level_field v) (\<lambda>level. Option.bind (keyword_field v) (\<lambda>keyword.
         Some (JObj (tail @ (if since = None then seconds else []) @ iso_field env ''sinceTime'' since @ iso_field env ''untilTime'' until
           @ refresh @ level @ keyword))))))))))"

definition onLogsSubscribe :: "service_env \<Rightarrow> time \<Rightarrow> json \<Rightarrow> socket \<Rightarrow> socket" where
  "onLogsSubscribe env now v sk = (case requireRuntimeContext sk ''/ws/logs'' ''logs.subscribe'' of
     Inl sk' \<Rightarrow> sk'
   | Inr c \<Rightarrow> (case parseLogsSubscribe env now v of
        None \<Rightarrow> emitRuntimeError (Some ''logs.subscribe'') ''RUNTIME_BAD_REQUEST'' ''logs.subscribe is invalid'' sk
      | Some p \<Rightarrow> emit ''logs.ack'' (JObj [(''accepted'', JBool True), (''mode'', JStr ''skeleton''), (''sessionId'', JStr (sc_sessionId c)),
          (''message'', JStr ''logs stream not implemented yet''), (''received'', p)]) sk))"

section \<open>A socket over time\<close>

text \<open>A message may be handled at any time: also before the connection handler is done, and after the session ended.\<close>

datatype socket_event =
    Connect time runtime_world
  | TerminalInput json
  | LogsSubscribe time json

fun socket_do :: "service_env \<Rightarrow> socket_event \<Rightarrow> socket \<Rightarrow> socket" where
  "socket_do env (Connect now w) sk = snd (handleConnection (runtime_env.truncate env) now w sk)"
| "socket_do env (TerminalInput v) sk = onTerminalInput v sk"
| "socket_do env (LogsSubscribe now v) sk = onLogsSubscribe env now v sk"

definition fresh_socket :: "string \<Rightarrow> json \<Rightarrow> json \<Rightarrow> socket" where
  "fresh_socket ns auth query = \<lparr>sk_namespace = ns, sk_auth = auth, sk_query = query, sk_context = None, sk_rooms = [], sk_out = [], sk_open = True\<rparr>"

definition socket_run :: "service_env \<Rightarrow> socket_event list \<Rightarrow> socket \<Rightarrow> socket" where
  "socket_run env es sk = fold (socket_do env) es sk"

end
