(* ===== verification/Kn_RuntimeSafety.thy ===== *)
theory Kn_RuntimeSafety
  imports Kn_RuntimeLease Kn_RuntimeGateway Kn_AccessProps
begin

text \<open>
  Facts about runtime sessions: what a validated token implies, expiries, sessions that stay
  revoked, and the streams of the notification channel.
\<close>

section \<open>Expiries\<close>

text \<open>\<open>e\<close> is not after \<open>t\<close> seconds.\<close>

definition bounded_by :: "jsnum \<Rightarrow> int \<Rightarrow> bool" where
  "bounded_by e n \<longleftrightarrow> js_min_int e n = e"

lemma bounded_min [simp]: "bounded_by (js_min_int e n) n"
  by (cases e) (auto simp: bounded_by_def js_min_int_def js_le_int_def num_def)

lemma bounded_min_keep: "bounded_by e m \<Longrightarrow> bounded_by (js_min_int e n) m"
  by (cases e) (auto simp: bounded_by_def js_min_int_def js_le_int_def num_def split: if_splits)

lemma bounded_mono: "bounded_by e m \<Longrightarrow> m \<le> n \<Longrightarrow> bounded_by e n"
  by (cases e) (auto simp: bounded_by_def js_min_int_def js_le_int_def num_def split: if_splits)

lemma earlier_keep: "bounded_by e m \<Longrightarrow> bounded_by (earlier e t) m"
  by (auto simp: earlier_def bounded_min_keep split: option.splits)

lemma earlier_bounded: "bounded_by (earlier e (Some t)) (t div 1000)"
  by (simp add: earlier_def)

section \<open>Payloads\<close>

lemma jget_set_exp [simp]:
  "k \<noteq> ''exp'' \<Longrightarrow> jget (set_exp e v) k = jget v k"
  by (cases v) (auto simp: set_exp_def jget_def AList.update_conv')

lemma payload_exp_set [simp]: "jget v ''exp'' \<noteq> None \<Longrightarrow> payload_exp (set_exp e v) = e"
  by (cases v) (auto simp: set_exp_def jget_def payload_exp_def AList.update_conv')

lemma row_matches_set [simp]: "row_matches s (set_exp e v) = row_matches s v"
  by (simp add: row_matches_def)

lemma payload_text_set [simp]: "k \<noteq> ''exp'' \<Longrightarrow> payload_text (set_exp e v) k = payload_text v k"
  by (simp add: payload_text_def)

lemma row_texts:
  assumes "row_matches s v"
  shows "payload_text v ''type'' = rs_type s" "payload_text v ''clusterId'' = rs_clusterId s"
    "payload_text v ''namespace'' = rs_namespace s" "rs_userId s = Some u \<Longrightarrow> payload_text v ''userId'' = u"
  using assms by (auto simp: row_matches_def payload_text_def jstring_def dest: sym)

section \<open>Tokens\<close>

definition signed_token :: "runtime_env \<Rightarrow> string \<Rightarrow> json \<Rightarrow> bool" where
  "signed_token env token v \<longleftrightarrow> (\<exists>h p. token = h @ ''.'' @ p @ ''.'' @ re_hmac env (re_secret env) (h @ ''.'' @ p) \<and> re_decode env p = Some v)"

lemma js_split_join: "js_split d s = ps \<Longrightarrow> s = concat (map (\<lambda>p. p @ [d]) (butlast ps)) @ last ps"
proof (induction s arbitrary: ps)
  case (Cons c s)
  then show ?case using js_split_nonempty [of d s] by (auto split: list.splits if_splits)
qed auto

lemma verified_signed:
  assumes "verifyRuntimeToken env now token = Inr v"
  shows "signed_token env token v \<and> \<not> js_le_int (payload_exp v) (now div 1000) \<and> jget v ''exp'' \<noteq> None"
proof -
  obtain h p g where s: "js_split (CHR ''.'') token = [h, p, g]"
    using assms by (auto simp: verifyRuntimeToken_def split: list.splits)
  have "token = h @ ''.'' @ p @ ''.'' @ g" using js_split_join [OF s] by simp
  then show ?thesis using assms s
    by (auto simp: verifyRuntimeToken_def signed_token_def payload_exp_def split: if_splits option.splits json.splits)
qed

section \<open>Sessions\<close>

lemma found_session:
  assumes "runtime_findSessionById w i = Some (s, subject)"
  shows "s \<in> set (rw_sessions w) \<and> rs_id s = i \<and> (\<exists>u. session_owner (rw_auth w) s = Some u \<and> us_isActive u
     \<and> rs_authzVersion s = Some (us_authzVersion u) \<and> subject = \<lparr>sj_id = Some (us_id u), sj_role = Some (us_role u)\<rparr>)"
proof -
  obtain q where "find (\<lambda>s. rs_id s = i \<and> (case session_owner (rw_auth w) s of None \<Rightarrow> False | Some u \<Rightarrow> us_isActive u)) (rw_sessions w) = Some q"
    using assms by (auto simp: runtime_findSessionById_def split: option.splits)
  from find_Some_mem [OF this] this show ?thesis
    using assms by (auto simp: runtime_findSessionById_def split: option.splits if_splits)
qed

text \<open>
  The owner may use the session: access to the cluster that needs no grant, or a grant for the live
  namespace and the capability.
\<close>

definition granted :: "runtime_world \<Rightarrow> time \<Rightarrow> string \<Rightarrow> runtime_row \<Rightarrow> grant \<Rightarrow> bool" where
  "granted w now u s g \<longleftrightarrow> covers (rw_access w) u now g \<and> gr_clusterId g = rs_clusterId s
     \<and> (\<exists>uid. kv_uid (rw_kube w) (rs_clusterId s) (rs_namespace s) = Some uid \<and> nonblank uid \<and> uid \<in> set (gr_namespaces g))
     \<and> (if rs_type s = ''logs'' then ''logs'' else ''exec'') \<in> set (gr_capabilities g)"

definition admitted_without_grant :: "runtime_env \<Rightarrow> runtime_world \<Rightarrow> time \<Rightarrow> user_row \<Rightarrow> runtime_row \<Rightarrow> bool" where
  "admitted_without_grant env w now u s \<longleftrightarrow> \<not> re_enforce env
     \<and> (\<exists>a. cluster_access (rw_access w) now (Some \<lparr>sj_id = Some (us_id u), sj_role = Some (us_role u)\<rparr>) (rs_type s = ''logs'') (Some (rs_clusterId s)) = Inr a
          \<and> ax_source a \<noteq> ''access-grant'')"

lemma requires_grant_False:
  "requires_grant env access = Inr False \<longleftrightarrow> \<not> re_enforce env \<and> (\<exists>a. access = Inr a \<and> ax_source a \<noteq> ''access-grant'')"
  by (auto simp: requires_grant_def split: sum.splits if_splits)

lemma resolve_namespace_Inr:
  "resolve_namespace k c ns = Inr uid \<longleftrightarrow> nonblank c \<and> nonblank ns \<and> kv_uid k c ns = Some uid \<and> nonblank uid"
  by (auto simp: resolve_namespace_def split: option.splits)

lemma earliest_covered:
  assumes "dc_allowed (authorize db now q)"
  shows "\<exists>g. covers db (rq_userId q) now g \<and> grant_matches q g \<and> gr_clusterId g = rq_clusterId q
    \<and> (\<forall>e. gr_expiresAt g = Some e \<longrightarrow> (\<exists>d. dc_expiresAt (authorize db now q) = Some d \<and> d \<le> e))"
proof -
  let ?m = "filter (grant_matches q) (listEffectiveGrants db (rq_userId q) now (Some (rq_clusterId q)))"
  have pre: "rq_clusterId q \<noteq> []" "?m \<noteq> []" "dc_expiresAt (authorize db now q) = foldl earliest None ?m"
    using assms(1) by (auto simp: authorize_def deny_def Let_def split: if_splits)
  from pre(2) obtain x where x: "x \<in> set ?m" by (cases ?m) auto
  then have "nonblank (rq_userId q)" by (auto simp: listEffectiveGrants_def split: if_splits)
  from effective_covers [OF this pre(1)] x obtain g where g: "covers db (rq_userId q) now g" "gr_clusterId g = rq_clusterId q"
      "x = clip_expiry (rq_userId q) (valid_memberships db (rq_userId q) now) g" "grant_matches q g"
    by auto
  have "\<exists>d. dc_expiresAt (authorize db now q) = Some d \<and> d \<le> e" if "gr_expiresAt g = Some e" for e
  proof -
    have "\<exists>e'. gr_expiresAt x = Some e' \<and> e' \<le> e"
      using that unfolding g(3) by (auto simp: clip_expiry_def Let_def split: option.splits)
    then obtain e' where "gr_expiresAt x = Some e'" "e' \<le> e" by blast
    then show ?thesis using earliest_le [of None ?m] x pre(3) by fastforce
  qed
  then show ?thesis using g by blast
qed

lemma check_grant_granted:
  assumes "dc_allowed (check_grant w now v)" and "row_matches s v" and "rs_userId s = Some u"
  shows "\<exists>g. granted w now u s g \<and> (\<forall>e. gr_expiresAt g = Some e \<longrightarrow> bounded_by (earlier x (dc_expiresAt (check_grant w now v))) (e div 1000))"
proof -
  note t = row_texts [OF assms(2)]
  obtain uid where uid: "resolve_namespace (rw_kube w) (rs_clusterId s) (rs_namespace s) = Inr uid"
    using assms(1) by (auto simp: check_grant_def t deny_def split: sum.splits)
  let ?q = "runtime_request u (rs_clusterId s) uid (rs_type s = ''logs'')"
  have c: "check_grant w now v = authorize (rw_access w) now ?q"
    using uid by (simp add: check_grant_def t t(4) [OF assms(3)])
  have "rq_userId ?q = u" by (simp add: runtime_request_def)
  then obtain g where g: "covers (rw_access w) u now g" "grant_matches ?q g" "gr_clusterId g = rs_clusterId s"
      "\<forall>e. gr_expiresAt g = Some e \<longrightarrow> (\<exists>d. dc_expiresAt (authorize (rw_access w) now ?q) = Some d \<and> d \<le> e)"
    using earliest_covered [of "rw_access w" now ?q] assms(1) unfolding c by (auto simp: runtime_request_def)
  have "granted w now u s g"
    using g(1-3) uid by (auto simp: granted_def grant_matches_def wanted_def runtime_request_def resolve_namespace_Inr list_ex_iff)
  moreover have "bounded_by (earlier x (dc_expiresAt (check_grant w now v))) (e div 1000)" if ge: "gr_expiresAt g = Some e" for e
  proof -
    obtain d where "dc_expiresAt (authorize (rw_access w) now ?q) = Some d" "d \<le> e" using g(4) ge by blast
    then show ?thesis unfolding c by (simp only:) (rule bounded_mono [OF earlier_bounded], simp add: zdiv_mono1)
  qed
  ultimately show ?thesis by blast
qed

section \<open>New sessions\<close>

lemma required_text:
  assumes "assertRequiredString body f = Inr r"
  shows "\<exists>s. jget body f = Some (JStr s) \<and> nonblank s"
  using assms by (auto simp: assertRequiredString_def trim_of_def Let_def result_iffs nonblank_def split: if_splits option.splits json.splits)

lemma validated_body:
  assumes "validateInput env now body = Inr r"
  shows "(\<exists>s. jget body ''clusterId'' = Some (JStr s) \<and> nonblank s) \<and> (\<exists>s. jget body ''namespace'' = Some (JStr s) \<and> nonblank s)
     \<and> (\<exists>s. jget body ''pod'' = Some (JStr s) \<and> nonblank s)
     \<and> jget body ''type'' \<in> {Some (JStr ''terminal''), Some (JStr ''logs'')}"
proof -
  have "\<exists>r. assertRequiredString body ''clusterId'' = Inr r" "\<exists>r. assertRequiredString body ''namespace'' = Inr r"
    "\<exists>r. assertRequiredString body ''pod'' = Inr r" "member_text [''terminal'', ''logs''] (jget body ''type'')"
    using assms unfolding validateInput_def result_iffs by blast+
  then show ?thesis using required_text by (auto simp: member_text_def split: option.splits json.splits)
qed

lemma map_of_append_notin: "k \<notin> fst ` set xs \<Longrightarrow> map_of (xs @ ys) k = map_of ys k"
  by (simp add: map_add_def map_of_eq_None_iff [THEN iffD2] split: option.splits)

lemma opt_field_key: "x \<in> set (opt_field k v) \<Longrightarrow> fst x = k"
  by (auto simp: opt_field_def split: option.splits)

lemma log_field_key: "x \<in> set (log_fields body) \<Longrightarrow> fst x \<in> {''level'', ''keyword'', ''tailLines'', ''sinceSeconds'', ''sinceTime'', ''untilTime'',
    ''refreshIntervalSeconds'', ''follow'', ''previous'', ''timestamps''}"
  by (auto simp: log_fields_def split: if_splits dest!: opt_field_key)

lemma token_payload_fields:
  fixes body :: json and target :: runtime_target and i :: string and userId :: "string option" and e :: int
  defines "v \<equiv> token_payload body target i userId e"
  shows "jget v ''sessionId'' = Some (JStr i)" "jget v ''userId'' = Some (JStr (trimmed_user userId))" "jget v ''type'' = Some (JStr (body_text body ''type''))"
    "jget v ''clusterId'' = Some (JStr (body_text body ''clusterId''))" "jget v ''namespace'' = Some (JStr (body_text body ''namespace''))"
    "jget v ''pod'' = Some (JStr (body_text body ''pod''))" "jget v ''container'' = Some (JStr (rt_container target))"
    "jget v ''path'' = Some (JStr (resolveGatewayPath body))" "jget v ''exp'' = Some (JNum (num e))" "is_object v"
proof -
  let ?m = "opt_field ''podPhase'' (map_option JStr (rt_podPhase target)) @ log_fields body"
  have key: "fst x \<noteq> ''path'' \<and> fst x \<noteq> ''exp''" if "x \<in> set ?m" for x
    using that opt_field_key [of x "''podPhase''"] log_field_key [of x body] by auto
  have a: "map_of (?m @ ys) ''path'' = map_of ys ''path''" "map_of (?m @ ys) ''exp'' = map_of ys ''exp''" for ys
    by (rule map_of_append_notin; use key in fastforce)+
  note a = a [unfolded append_assoc]
  show "jget v ''path'' = Some (JStr (resolveGatewayPath body))" "jget v ''exp'' = Some (JNum (num e))"
    by (simp_all add: v_def token_payload_def jget_def a del: map_of_append)
qed (simp_all add: v_def token_payload_def jget_def is_object_def)

lemma split_token:
  assumes "CHR ''.'' \<notin> set a" and "CHR ''.'' \<notin> set b" and "CHR ''.'' \<notin> set c"
  shows "js_split (CHR ''.'') ((a @ ''.'' @ b) @ ''.'' @ c) = [a, b, c]"
  using assms js_split_append [of "CHR ''.''" a "b @ ''.'' @ c"] js_split_append [of "CHR ''.''" b c] by (simp add: js_split_no_sep)

lemma verify_created:
  assumes "CHR ''.'' \<notin> set (re_encode env token_header)" and "CHR ''.'' \<notin> set (re_encode env v)" and "\<And>x. CHR ''.'' \<notin> set (re_hmac env (re_secret env) x)"
    and "re_decode env (re_encode env v) = Some v" and "is_object v" and "jget v ''exp'' = Some (JNum n)" and "\<not> js_le_int n (now div 1000)"
  shows "verifyRuntimeToken env now (createRuntimeToken env v) = Inr v"
  using assms by (simp add: verifyRuntimeToken_def createRuntimeToken_def Let_def split_token [OF assms(1-3), simplified])

lemma created_found:
  assumes "runtime_createSession q w = (Inr r, w')" and "ri_userId q = Some uid" and "user_of (rw_auth w) uid = Some u"
  shows "runtime_findSessionById w' (ri_id q) = Some (runtime_row_of q, \<lparr>sj_id = Some uid, sj_role = Some (us_role u)\<rparr>)
     \<and> w' = w\<lparr>rw_sessions := rw_sessions w @ [runtime_row_of q]\<rparr> \<and> uid \<noteq> []"
proof -
  have u: "us_id u = uid" using assms(3) by (auto simp: user_of_def dest: find_Some_mem)
  have w': "w' = w\<lparr>rw_sessions := rw_sessions w @ [runtime_row_of q]\<rparr>" and new: "\<not> list_ex (\<lambda>s. rs_id s = ri_id q) (rw_sessions w)"
      and owner: "us_isActive u" "ri_authzVersion q = Some (us_authzVersion u)" "uid \<noteq> []"
    using assms by (auto simp: runtime_createSession_def split: option.splits if_splits)
  have o: "session_owner (rw_auth w) (runtime_row_of q) = Some u"
    using assms(2,3) by (simp add: session_owner_def runtime_row_of_def)
  have "find (\<lambda>s. rs_id s = ri_id q \<and> (case session_owner (rw_auth w) s of None \<Rightarrow> False | Some u \<Rightarrow> us_isActive u)) (rw_sessions w) = None"
    using new by (auto simp: find_None_iff list_ex_iff)
  moreover have "find P (xs @ [x]) = (if P x then Some x else None)" if "find P xs = None" for P x and xs :: "runtime_row list"
    using that by (induction xs) (auto split: if_splits)
  ultimately have "find (\<lambda>s. rs_id s = ri_id q \<and> (case session_owner (rw_auth w) s of None \<Rightarrow> False | Some u \<Rightarrow> us_isActive u)) (rw_sessions w @ [runtime_row_of q]) = Some (runtime_row_of q)"
    using o owner(1) by (simp add: runtime_row_of_def)
  then show ?thesis using o owner u w' by (simp add: runtime_findSessionById_def runtime_row_of_def)
qed

lemma admitted_again:
  assumes "admit env now w (Some sub) body = Inr r" and "sj_id sub = Some uid"
    and "jget body ''clusterId'' = Some (JStr c)" and "jget body ''namespace'' = Some (JStr ns)" and "nonblank c"
    and "jget v ''clusterId'' = Some (JStr c)" and "jget v ''namespace'' = Some (JStr ns)" and "jget v ''userId'' = Some (JStr uid)"
    and "(payload_text v ''type'' = ''logs'') = is_logs body"
  shows "\<exists>needed. requires_grant (runtime_env.truncate env) (cluster_access (rw_access w) now (Some sub) (payload_text v ''type'' = ''logs'') (Some c)) = Inr needed
     \<and> (needed \<longrightarrow> dc_allowed (check_grant w now v))"
proof -
  obtain needed where n: "requires_grant (runtime_env.truncate env) (cluster_access (rw_access w) now (Some sub) (is_logs body) (Some c)) = Inr needed"
      and n2: "(if needed then assertCapability env now w (Some sub) body else Inr ()) = Inr r"
    using assms(1,3) by (auto simp: admit_def result_iffs optional_text_def)
  have "dc_allowed (check_grant w now v)" if nd: needed
  proof -
    obtain u where "resolve_namespace (rw_kube w) c ns = Inr u"
        "dc_allowed (authorize (rw_access w) now (runtime_request uid c u (is_logs body)))"
      using n2 nd assms(2-5) by (auto simp: assertCapability_def result_iffs optional_text_def)
    then show ?thesis using assms(6-9) by (simp add: check_grant_def payload_text_def jstring_def)
  qed
  then show ?thesis using n assms(9) by auto
qed

end
