(* ===== verification/Kn_RuntimeRevoke.thy ===== *)
theory Kn_RuntimeRevoke
  imports Kn_RuntimeSafety
begin

text \<open>
  How runtime sessions end: the steps of their world, sessions that stay revoked whatever happens
  later, the streams of the notification channel, and the sockets of the gateway.
\<close>

section \<open>Revoked sessions\<close>

text \<open>
  What other services do to the users: versions grow, and a deleted user leaves no session behind
  (\<open>onDelete: SetNull\<close>).
\<close>

definition versions_grow :: "user_row list \<Rightarrow> user_row list \<Rightarrow> bool" where
  "versions_grow us us' \<longleftrightarrow> (\<forall>i. case find (\<lambda>u. us_id u = i) us of None \<Rightarrow> True
     | Some u \<Rightarrow> (case find (\<lambda>u. us_id u = i) us' of None \<Rightarrow> False | Some u' \<Rightarrow> us_authzVersion u \<le> us_authzVersion u'))"

definition delete_user :: "string \<Rightarrow> runtime_world \<Rightarrow> runtime_world" where
  "delete_user i w = w\<lparr>rw_auth := (rw_auth w)\<lparr>ad_users := filter (\<lambda>u. us_id u \<noteq> i) (ad_users (rw_auth w))\<rparr>,
     rw_sessions := map (\<lambda>s. if rs_userId s = Some i then s\<lparr>rs_userId := None\<rparr> else s) (rw_sessions w)\<rparr>"

text \<open>One step of the world of runtime sessions, from the call it makes.\<close>

datatype runtime_call =
    Post time string requester runtime_headers json
  | CloseSession time string
  | UsersChange auth_db
  | DeleteUser string
  | AccessChange access_db kube_view

inductive runtime_step :: "service_env \<Rightarrow> runtime_world \<Rightarrow> runtime_call \<Rightarrow> runtime_world \<Rightarrow> bool" for env where
  rt_post: "w' = snd (post_session env now i who h body w) \<Longrightarrow> runtime_step env w (Post now i who h body) w'"
| rt_close: "w' = snd (runtime_closeSession now i w) \<Longrightarrow> runtime_step env w (CloseSession now i) w'"
| rt_users: "versions_grow (ad_users (rw_auth w)) (ad_users db) \<Longrightarrow> runtime_step env w (UsersChange db) (w\<lparr>rw_auth := db\<rparr>)"
| rt_delete: "runtime_step env w (DeleteUser i) (delete_user i w)"
| rt_access: "runtime_step env w (AccessChange a k) (w\<lparr>rw_access := a, rw_kube := k\<rparr>)"

definition revoked_row :: "auth_db \<Rightarrow> runtime_row \<Rightarrow> bool" where
  "revoked_row db s \<longleftrightarrow> rs_closedAt s \<noteq> None \<or> (case (rs_userId s, rs_authzVersion s) of
     (Some i, Some v) \<Rightarrow> (case user_of db i of None \<Rightarrow> False | Some u \<Rightarrow> v < us_authzVersion u)
   | _ \<Rightarrow> True)"

definition revoked :: "string \<Rightarrow> runtime_world \<Rightarrow> bool" where
  "revoked i w \<longleftrightarrow> i \<in> rs_id ` set (rw_sessions w) \<and> (\<forall>s \<in> set (rw_sessions w). rs_id s = i \<longrightarrow> revoked_row (rw_auth w) s)"

lemma created_sessions:
  "rw_auth (snd (runtime_createSession q w)) = rw_auth w \<and>
   (rw_sessions (snd (runtime_createSession q w)) = rw_sessions w
    \<or> ri_id q \<notin> rs_id ` set (rw_sessions w) \<and> rw_sessions (snd (runtime_createSession q w)) = rw_sessions w @ [runtime_row_of q])"
  by (auto simp: runtime_createSession_def list_ex_iff split: option.splits)

lemma post_sessions:
  "rw_auth (snd (post_session env now i who h body w)) = rw_auth w \<and>
   (rw_sessions (snd (post_session env now i who h body w)) = rw_sessions w
    \<or> i \<notin> rs_id ` set (rw_sessions w) \<and> (\<exists>s. rs_id s = i \<and> rw_sessions (snd (post_session env now i who h body w)) = rw_sessions w @ [s]))"
proof -
  have new: "rw_auth (snd (create_runtime_session env now i body u v a w)) = rw_auth w \<and>
   (rw_sessions (snd (create_runtime_session env now i body u v a w)) = rw_sessions w
    \<or> i \<notin> rs_id ` set (rw_sessions w) \<and> (\<exists>s. rs_id s = i \<and> rw_sessions (snd (create_runtime_session env now i body u v a w)) = rw_sessions w @ [s]))" for u v a
  proof (cases "rbind (validateInput env now body) (\<lambda>_. validateTarget w body)")
    case (Inr target)
    let ?q = "persist_input body target i u v ((now div 1000 + sessionTtlSeconds) * 1000)"
    have "snd (create_runtime_session env now i body u v a w) = snd (runtime_createSession ?q w)"
      unfolding create_runtime_session_def Inr by (auto simp: Let_def split: prod.splits sum.splits)
    moreover have "ri_id ?q = i" "rs_id (runtime_row_of ?q) = i" by (simp_all add: persist_input_def runtime_row_of_def)
    ultimately show ?thesis using created_sessions [of ?q w] by metis
  qed (simp add: create_runtime_session_def)
  then show ?thesis by (auto simp: post_session_def split: sum.splits)
qed

lemma user_of_grow:
  "versions_grow (ad_users db) (ad_users db') \<Longrightarrow> user_of db i = Some u \<Longrightarrow> \<exists>u'. user_of db' i = Some u' \<and> us_authzVersion u \<le> us_authzVersion u'"
  by (auto simp: versions_grow_def user_of_def split: option.splits dest!: spec [of _ i])

lemma user_of_delete: "i \<noteq> j \<Longrightarrow> find (\<lambda>u. us_id u = i) (filter (\<lambda>u. us_id u \<noteq> j) us) = find (\<lambda>u. us_id u = i) us"
  by (induction us) auto

lemma revoked_map:
  assumes "revoked i w" and "rw_sessions w' = map f (rw_sessions w)" and "\<And>s. rs_id (f s) = rs_id s"
    and "\<And>s. revoked_row (rw_auth w) s \<Longrightarrow> revoked_row (rw_auth w') (f s)"
  shows "revoked i w'"
proof -
  have "rs_id ` set (rw_sessions w') = rs_id ` set (rw_sessions w)" by (simp add: assms(2,3) image_image)
  then show ?thesis using assms by (auto simp: revoked_def)
qed

lemma revoked_row_grow:
  "versions_grow (ad_users db) (ad_users db') \<Longrightarrow> revoked_row db s \<Longrightarrow> revoked_row db' s"
  by (fastforce simp: revoked_row_def split: option.splits dest: user_of_grow)

lemma revoked_row_delete:
  "revoked_row (rw_auth w) s \<Longrightarrow> revoked_row (rw_auth (delete_user j w)) (if rs_userId s = Some j then s\<lparr>rs_userId := None\<rparr> else s)"
  by (auto simp: revoked_row_def delete_user_def user_of_def user_of_delete split: option.splits)

lemma revoked_step:
  assumes "runtime_step env w c w'" and "revoked i w"
  shows "revoked i w'"
  using assms(1)
proof cases
  case (rt_post now j who h body)
  then show ?thesis using assms(2) post_sessions [of env now j who h body w] by (auto simp: revoked_def)
next
  case (rt_close now j)
  show ?thesis
  proof (cases "list_ex (\<lambda>s. rs_id s = j) (rw_sessions w)")
    case True
    show ?thesis
      by (rule revoked_map [OF assms(2), where f = "\<lambda>s. if rs_id s = j then s\<lparr>rs_closedAt := Some now\<rparr> else s"])
        (use True rt_close in \<open>auto simp: runtime_closeSession_def revoked_row_def\<close>)
  qed (use rt_close assms(2) in \<open>simp add: runtime_closeSession_def\<close>)
next
  case (rt_users db)
  then show ?thesis using revoked_map [OF assms(2), of w' id] revoked_row_grow by simp
next
  case (rt_delete j)
  show ?thesis
    by (rule revoked_map [OF assms(2), where f = "\<lambda>s. if rs_userId s = Some j then s\<lparr>rs_userId := None\<rparr> else s"])
      (use rt_delete revoked_row_delete [of w _ j] in \<open>auto simp: delete_user_def\<close>)
next
  case (rt_access a k)
  then show ?thesis using assms(2) by (simp add: revoked_def)
qed

lemma revoked_rejected:
  assumes "revoked i w"
  shows "validateSessionTokenDetailed env now w i token path \<noteq> Inr (Inr v)"
proof
  assume "validateSessionTokenDetailed env now w i token path = Inr (Inr v)"
  then obtain s subject v0 where chk: "check_session now v0 (runtime_findSessionById w i) = Inr (s, subject)"
    by (auto simp: validateSessionTokenDetailed_def split: sum.splits if_splits)
  then have f: "runtime_findSessionById w i = Some (s, subject)" "rs_closedAt s = None" "\<exists>u. rs_userId s = Some u"
    by (auto simp: check_session_def split: option.splits if_splits)
  then show False using found_session [OF f(1)] assms
    by (auto simp: revoked_def revoked_row_def session_owner_def split: option.splits)
qed

interpretation revoked_sessions: invariant_system "revoked i" "runtime_step env" "revoked i" for i env
  by unfold_locales (auto intro: revoked_step)

lemma reset_raises:
  assumes "mfa_reset menv t p db = (Some i, db')"
  shows "\<exists>u u'. user_of db i = Some u \<and> user_of db' i = Some u' \<and> us_authzVersion u' = us_authzVersion u + 1"
proof -
  obtain a u where p: "user_of db (rp_targetUserId p) = Some u" "i = us_id u" and db': "db' = reset_target t a u db"
    using assms by (auto simp: mfa_reset_def split: if_splits option.splits)
  have "us_id u = rp_targetUserId p" using p(1) by (auto simp: user_of_def dest: find_Some_mem)
  then have u: "user_of db i = Some u" "us_id u = i" using p by simp_all
  show ?thesis using set_mfa_user [of i "ad_users db" u False] u db' by (auto simp: user_of_def reset_target_tables)
qed

text \<open>Identifiers of sessions are unique, and the version in a session is one its owner had.\<close>

definition row_dated :: "auth_db \<Rightarrow> runtime_row \<Rightarrow> bool" where
  "row_dated db s \<longleftrightarrow> (case (rs_userId s, rs_authzVersion s) of
     (Some i, Some v) \<Rightarrow> (case user_of db i of None \<Rightarrow> False | Some u \<Rightarrow> v \<le> us_authzVersion u) | _ \<Rightarrow> True)"

definition sessions_dated :: "runtime_world \<Rightarrow> bool" where
  "sessions_dated w \<longleftrightarrow> distinct (map rs_id (rw_sessions w)) \<and> (\<forall>s \<in> set (rw_sessions w). row_dated (rw_auth w) s)"

lemma dated_map:
  assumes "sessions_dated w" and "rw_sessions w' = map f (rw_sessions w)" and "\<And>s. rs_id (f s) = rs_id s"
    and "\<And>s. row_dated (rw_auth w) s \<Longrightarrow> row_dated (rw_auth w') (f s)"
  shows "sessions_dated w'"
proof -
  have "map rs_id (rw_sessions w') = map rs_id (rw_sessions w)" by (simp add: assms(2,3))
  then have "distinct (map rs_id (rw_sessions w'))" using assms(1) by (simp only: sessions_dated_def)
  then show ?thesis using assms by (auto simp: sessions_dated_def simp del: map_map)
qed

lemma row_dated_close [simp]: "row_dated db (s\<lparr>rs_closedAt := t\<rparr>) = row_dated db s"
  by (simp add: row_dated_def split: option.split)

lemma created_dated:
  assumes "sessions_dated w"
  shows "sessions_dated (snd (runtime_createSession q w))"
proof (cases "rw_sessions (snd (runtime_createSession q w)) = rw_sessions w")
  case True
  then show ?thesis using assms created_sessions [of q w] by (simp add: sessions_dated_def)
next
  case False
  then have new: "rw_sessions (snd (runtime_createSession q w)) = rw_sessions w @ [runtime_row_of q]" "ri_id q \<notin> rs_id ` set (rw_sessions w)"
    using created_sessions [of q w] by auto
  have "row_dated (rw_auth w) (runtime_row_of q)"
    using False by (auto simp: runtime_createSession_def row_dated_def runtime_row_of_def split: option.splits if_splits)
  then show ?thesis using new assms created_sessions [of q w]
    by (auto simp: sessions_dated_def) (auto simp: runtime_row_of_def)
qed

lemma post_dated:
  assumes "sessions_dated w"
  shows "sessions_dated (snd (post_session env now i who h body w))"
proof -
  have "snd (post_session env now i who h body w) = w \<or> (\<exists>q. snd (post_session env now i who h body w) = snd (runtime_createSession q w))"
    by (auto simp: post_session_def create_runtime_session_def Let_def split: sum.splits prod.splits) (metis snd_conv)+
  then show ?thesis using assms created_dated by auto
qed

lemma row_dated_grow: "versions_grow (ad_users db) (ad_users db') \<Longrightarrow> row_dated db s \<Longrightarrow> row_dated db' s"
  by (fastforce simp: row_dated_def split: option.splits dest: user_of_grow)

lemma row_dated_delete:
  "row_dated (rw_auth w) s \<Longrightarrow> row_dated (rw_auth (delete_user j w)) (if rs_userId s = Some j then s\<lparr>rs_userId := None\<rparr> else s)"
  by (auto simp: row_dated_def delete_user_def user_of_def user_of_delete split: option.splits)

lemma dated_step:
  assumes "sessions_dated w" and "runtime_step env w c w'"
  shows "sessions_dated w'"
  using assms(2)
proof cases
  case (rt_post now j who h body)
  then show ?thesis using post_dated [OF assms(1)] by simp
next
  case (rt_close now j)
  show ?thesis
  proof (cases "list_ex (\<lambda>s. rs_id s = j) (rw_sessions w)")
    case True
    show ?thesis
      by (rule dated_map [OF assms(1), where f = "\<lambda>s. if rs_id s = j then s\<lparr>rs_closedAt := Some now\<rparr> else s"])
        (use True rt_close in \<open>auto simp: runtime_closeSession_def\<close>)
  qed (use rt_close assms(1) in \<open>simp add: runtime_closeSession_def\<close>)
next
  case (rt_users db)
  then show ?thesis using dated_map [OF assms(1), of w' id] row_dated_grow by simp
next
  case (rt_delete j)
  show ?thesis
    by (rule dated_map [OF assms(1), where f = "\<lambda>s. if rs_userId s = Some j then s\<lparr>rs_userId := None\<rparr> else s"])
      (use rt_delete row_dated_delete [of w _ j] in \<open>auto simp: delete_user_def\<close>)
next
  case (rt_access a k)
  then show ?thesis using assms(1) by (simp add: sessions_dated_def)
qed

interpretation dated_sessions: invariant_system "\<lambda>w. rw_sessions w = []" "runtime_step env" sessions_dated for env
proof unfold_locales
  show "rw_sessions w = [] \<Longrightarrow> sessions_dated w" for w by (simp add: sessions_dated_def)
  show "sessions_dated w \<Longrightarrow> runtime_step env w c w' \<Longrightarrow> sessions_dated w'" for w c w' by (rule dated_step)
qed


section \<open>Streams\<close>

text \<open>The events that end a stream of a user.\<close>

definition revokes :: "string \<Rightarrow> string \<Rightarrow> lease_event \<Rightarrow> bool" where
  "revokes schema u e \<longleftrightarrow> (case e of Lost \<Rightarrow> True
     | Notified n \<Rightarrow> nt_channel n = ''kubenova_authorization''
         \<and> (case parse_event (nt_payload n) of None \<Rightarrow> True | Some (s, v) \<Rightarrow> s = schema \<and> (v = None \<or> v = Some u))
     | _ \<Rightarrow> False)"

definition channel_ok :: "invalidation \<Rightarrow> bool" where
  "channel_ok v \<longleftrightarrow> (\<forall>s \<in> set (iv_streams v). sm_id s < iv_next v)"

text \<open>The stream, if it is still there, is the registered one and its timer is not due.\<close>

definition tracks :: "string \<Rightarrow> nat \<Rightarrow> string \<Rightarrow> time \<Rightarrow> surroundings \<Rightarrow> bool" where
  "tracks schema k u d g \<longleftrightarrow> iv_schema (su_channel g) = schema \<and> k < iv_next (su_channel g)
     \<and> (\<forall>s \<in> set (iv_streams (su_channel g)). sm_id s = k \<longrightarrow> sm_user s = u \<and> sm_deadline s = d \<and> su_now g < d)"

lemma register_fields:
  "iv_schema (snd (register t u e v)) = iv_schema v" "iv_next v \<le> iv_next (snd (register t u e v))"
  "s \<in> set (iv_streams (snd (register t u e v))) \<Longrightarrow> s \<in> set (iv_streams v) \<or> sm_id s = iv_next v \<and> sm_id s < iv_next (snd (register t u e v))"
  by (auto simp: register_def split: option.splits if_splits)

lemma occur_schema [simp]: "iv_schema (su_channel (occur e g)) = iv_schema (su_channel g)"
  by (cases e) (auto simp: timers_due_def on_notification_def invalidateAll_def close_stream_def register_fields split: option.splits)

lemma occur_next: "iv_next (su_channel g) \<le> iv_next (su_channel (occur e g))"
  by (cases e) (auto simp: timers_due_def on_notification_def invalidateAll_def close_stream_def register_fields split: option.splits)

lemma occur_streams:
  "s \<in> set (iv_streams (su_channel (occur e g))) \<Longrightarrow> s \<in> set (iv_streams (su_channel g))
     \<or> sm_id s = iv_next (su_channel g) \<and> sm_id s < iv_next (su_channel (occur e g))"
  by (cases e) (auto simp: timers_due_def on_notification_def invalidateAll_def close_stream_def split: option.splits if_splits dest: register_fields(3))

lemma occur_ok: "channel_ok (su_channel g) \<Longrightarrow> channel_ok (su_channel (occur e g))"
  using occur_streams [of _ e g] occur_next [of g e] by (fastforce simp: channel_ok_def)

lemma occur_now:
  "s \<in> set (iv_streams (su_channel (occur e g))) \<Longrightarrow> su_now (occur e g) = su_now g \<or> su_now (occur e g) < sm_deadline s"
  by (cases e) (auto simp: timers_due_def)

lemma occur_tracks:
  assumes "tracks schema k u d g"
  shows "tracks schema k u d (occur e g)"
proof -
  have "sm_user s = u \<and> sm_deadline s = d \<and> su_now (occur e g) < d"
    if "s \<in> set (iv_streams (su_channel (occur e g)))" "sm_id s = k" for s
    using occur_streams [OF that(1)] occur_now [OF that(1)] that(2) assms by (auto simp: tracks_def)
  then show ?thesis using assms occur_next [of g e] by (auto simp: tracks_def)
qed

lemma occur_live:
  assumes "tracks schema k u d g" and "live_stream k (su_channel (occur e g))"
  shows "live_stream k (su_channel g) \<and> \<not> revokes schema u e"
proof -
  obtain s where s: "s \<in> set (iv_streams (su_channel (occur e g)))" "sm_id s = k" using assms(2) by (auto simp: live_stream_def)
  then have old: "s \<in> set (iv_streams (su_channel g))" using occur_streams [OF s(1)] assms(1) by (auto simp: tracks_def)
  then have "sm_user s = u" using assms(1) s(2) by (auto simp: tracks_def)
  then have "\<not> revokes schema u e" using s(1) assms(1)
    by (cases e) (auto simp: revokes_def on_notification_def invalidateAll_def tracks_def split: option.splits if_splits)
  then show ?thesis using old s(2) by (auto simp: live_stream_def)
qed

lemma occurs_simps [simp]: "occurs [] g = g" "occurs (e # es) g = occurs es (occur e g)" "occurs (es @ es') g = occurs es' (occurs es g)"
  by (simp_all add: occurs_def)

lemma occurs_tracks: "tracks schema k u d g \<Longrightarrow> tracks schema k u d (occurs es g)"
  by (induction es arbitrary: g) (simp_all add: occur_tracks)

lemma occurs_ok: "channel_ok (su_channel g) \<Longrightarrow> channel_ok (su_channel (occurs es g))"
  by (induction es arbitrary: g) (simp_all add: occur_ok)

lemma occurs_schema [simp]: "iv_schema (su_channel (occurs es g)) = iv_schema (su_channel g)"
  by (induction es arbitrary: g) simp_all

lemma occurs_live:
  "tracks schema k u d g \<Longrightarrow> live_stream k (su_channel (occurs es g)) \<Longrightarrow> live_stream k (su_channel g) \<and> (\<forall>e \<in> set es. \<not> revokes schema u e)"
proof (induction es arbitrary: g)
  case (Cons e es)
  then show ?case using occur_tracks [OF Cons.prems(1), of e] occur_live [OF Cons.prems(1), of e] by auto
qed simp

text \<open>What the tables and the clock are does not depend on the channel.\<close>

lemma occur_world: "su_now g = su_now g' \<Longrightarrow> su_world g = su_world g' \<Longrightarrow> su_now (occur e g) = su_now (occur e g') \<and> su_world (occur e g) = su_world (occur e g')"
  by (cases e) auto

lemma occurs_world: "su_now g = su_now g' \<Longrightarrow> su_world g = su_world g' \<Longrightarrow> su_now (occurs es g) = su_now (occurs es g') \<and> su_world (occurs es g) = su_world (occurs es g')"
proof (induction es arbitrary: g g')
  case (Cons e es)
  note w = occur_world [OF Cons.prems, of e]
  show ?case unfolding occurs_simps by (rule Cons.IH [OF conjunct1 [OF w] conjunct2 [OF w]])
qed simp

lemma registered_tracks:
  assumes "register (su_now g) u t (su_channel g) = (Some k, v)" and "channel_ok (su_channel g)"
  shows "\<exists>e d. t = Some e \<and> d \<le> e \<and> tracks (iv_schema (su_channel g)) k u d (g\<lparr>su_channel := v\<rparr>) \<and> iv_ready (su_channel g)"
proof -
  obtain e where e: "t = Some e" "iv_ready (su_channel g)" "0 < e - su_now g"
    using assms(1) by (auto simp: register_def split: option.splits if_splits)
  then have "tracks (iv_schema (su_channel g)) k u (su_now g + min (e - su_now g) 2147483647) (g\<lparr>su_channel := v\<rparr>)"
    using assms by (fastforce simp: register_def tracks_def channel_ok_def split: if_splits)
  then show ?thesis using e by (intro exI [of _ e] exI [of _ "su_now g + min (e - su_now g) 2147483647"]) auto
qed


section \<open>The gateway\<close>

definition validated_by :: "service_env \<Rightarrow> socket_event list \<Rightarrow> string \<Rightarrow> string \<Rightarrow> bool" where
  "validated_by env es i ns \<longleftrightarrow> (\<exists>now w token v. Connect now w \<in> set es
     \<and> validateSessionTokenDetailed (runtime_env.truncate env) now w i token ns = Inr (Inr v))"

definition ack_channel :: "string \<Rightarrow> string option" where
  "ack_channel e = (if e = ''terminal.ack'' then Some ''/ws/terminal'' else if e = ''logs.ack'' then Some ''/ws/logs'' else None)"

definition socket_ok :: "service_env \<Rightarrow> socket_event list \<Rightarrow> string \<Rightarrow> socket \<Rightarrow> bool" where
  "socket_ok env es ns sk \<longleftrightarrow> sk_namespace sk = ns
     \<and> (\<forall>c. sk_context sk = Some c \<longrightarrow> validated_by env es (sc_sessionId c) ns)
     \<and> (\<forall>(e, r) \<in> set (sk_out sk). \<forall>p. ack_channel e = Some p \<longrightarrow> ns = p \<and> (\<exists>i. jget r ''sessionId'' = Some (JStr i) \<and> validated_by env es i ns))"

lemma validated_by_append: "validated_by env es i ns \<Longrightarrow> validated_by env (es @ [x]) i ns"
  by (auto simp: validated_by_def)

lemma ack_channel_simps [simp]:
  "ack_channel ''runtime.error'' = None" "ack_channel ''runtime.ready'' = None"
  "ack_channel ''terminal.ack'' = Some ''/ws/terminal''" "ack_channel ''logs.ack'' = Some ''/ws/logs''"
  by (simp_all add: ack_channel_def)

lemma socket_ok_append: "socket_ok env es ns sk \<Longrightarrow> socket_ok env (es @ [x]) ns sk"
  by (fastforce simp: socket_ok_def validated_by_append split: prod.splits)

lemma error_ok: "socket_ok env es ns sk \<Longrightarrow> socket_ok env es ns (emitRuntimeError ev c m sk)"
  by (auto simp: socket_ok_def emitRuntimeError_def emit_def)

lemma disconnect_ok: "socket_ok env es ns sk \<Longrightarrow> socket_ok env es ns (disconnect sk)"
  by (simp add: socket_ok_def disconnect_def)

lemma ack_ok:
  assumes "socket_ok env es ns sk" and "requireRuntimeContext sk p ev = Inr c" and "ack_channel a = Some p"
  shows "socket_ok env es ns (emit a (JObj ([(''accepted'', x), (''mode'', y), (''sessionId'', JStr (sc_sessionId c))] @ rest)) sk)"
proof -
  have "sk_context sk = Some c" "sk_namespace sk = p"
    using assms(2) by (auto simp: requireRuntimeContext_def split: option.splits if_splits)
  then show ?thesis using assms(1,3) by (auto simp: socket_ok_def emit_def jget_def)
qed

lemma context_error_ok: "socket_ok env es ns sk \<Longrightarrow> requireRuntimeContext sk p ev = Inl sk' \<Longrightarrow> socket_ok env es ns sk'"
  by (auto simp: requireRuntimeContext_def error_ok split: option.splits if_splits)

lemma input_ok: "socket_ok env es ns sk \<Longrightarrow> socket_ok env es ns (onTerminalInput v sk)"
  using ack_ok [of env es ns sk "''/ws/terminal''" "''terminal.input''" _ "''terminal.ack''"]
  by (auto simp: onTerminalInput_def error_ok context_error_ok split: sum.splits option.splits)

lemma subscribe_ok: "socket_ok env es ns sk \<Longrightarrow> socket_ok env es ns (onLogsSubscribe env now v sk)"
  using ack_ok [of env es ns sk "''/ws/logs''" "''logs.subscribe''" _ "''logs.ack''"]
  by (auto simp: onLogsSubscribe_def error_ok context_error_ok split: sum.splits option.splits)

lemma connect_ok:
  assumes "socket_ok env es ns sk" and "Connect now w \<in> set es"
  shows "socket_ok env es ns (snd (handleConnection (runtime_env.truncate env) now w sk))"
proof (cases "resolvePathFromNamespace (sk_namespace sk)")
  case (Some p)
  then have p: "p = ns" using assms(1) by (auto simp: resolvePathFromNamespace_def socket_ok_def split: if_splits)
  show ?thesis
  proof (cases "(readHandshakeString sk ''sessionId'', readHandshakeString sk ''runtimeToken'')")
    case (Pair a b)
    then show ?thesis
    proof (cases "\<exists>i t v. a = Some i \<and> b = Some t \<and> validateSessionTokenDetailed (runtime_env.truncate env) now w i t ns = Inr (Inr v)")
      case True
      then obtain i t v where v: "a = Some i" "b = Some t" "validateSessionTokenDetailed (runtime_env.truncate env) now w i t ns = Inr (Inr v)" by blast
      then have "validated_by env es i ns" using assms(2) by (auto simp: validated_by_def)
      then show ?thesis using v Pair Some p assms(1) by (auto simp: handleConnection_def socket_ok_def emit_def)
    next
      case False
      then show ?thesis using Pair Some p assms(1)
        by (auto simp: handleConnection_def error_ok disconnect_ok split: option.splits sum.splits)
    qed
  qed
qed (use assms(1) in \<open>simp add: handleConnection_def disconnect_ok\<close>)

lemma socket_run_ok: "socket_ok env es ns (socket_run env es (fresh_socket ns auth q))"
proof (induction es rule: rev_induct)
  case Nil
  then show ?case by (simp add: socket_ok_def socket_run_def fresh_socket_def)
next
  case (snoc e es)
  have r: "socket_run env (es @ [e]) sk = socket_do env e (socket_run env es sk)" for sk by (simp add: socket_run_def)
  note ok = socket_ok_append [OF snoc.IH, of e]
  show ?case unfolding r by (cases e) (use ok connect_ok input_ok subscribe_ok in auto)
qed

end
