(* ===== verification/Kn_RuntimeExamples.thy ===== *)
theory Kn_RuntimeExamples
  imports Kn_RuntimeRevoke
begin

text \<open>A small world for the witnesses: one administrator, one cluster, one pod and its log session.\<close>

definition ex_rt_body :: json where
  "ex_rt_body = JObj [(''type'', JStr ''logs''), (''clusterId'', JStr ''c1''), (''namespace'', JStr ''n1''), (''pod'', JStr ''p1''), (''tailLines'', JNum (num 100))]"

definition ex_rt_target :: runtime_target where
  "ex_rt_target = \<lparr>rt_clusterId = ''c1'', rt_namespace = ''n1'', rt_pod = ''p1'', rt_container = ''app'', rt_availableContainers = [''app''], rt_podPhase = Some ''Running''\<rparr>"

definition ex_rt_payload :: json where
  "ex_rt_payload = token_payload ex_rt_body ex_rt_target ''s1'' (Some ''u1'') (5000 div 1000 + sessionTtlSeconds)"

definition ex_rt_env :: service_env where
  "ex_rt_env = \<lparr>re_secret = ''k'', re_hmac = \<lambda>k x. k @ ''S'', re_encode = \<lambda>v. (if jget v ''alg'' = None then ''P'' else ''H''),
     re_decode = \<lambda>s. (if s = ''P'' then Some ex_rt_payload else None), re_enforce = False,
     se_date = \<lambda>_. None, se_numText = \<lambda>_. ''n'', se_query = \<lambda>q. concat (map fst q), se_href = \<lambda>_. None, se_host = \<lambda>_. None, se_protocol = \<lambda>_. None,
     se_internalSecret = None, se_tokenSecret = None, se_publicBase = None, se_base = None, se_wsBase = None, se_iso = \<lambda>_. ''t'', se_grants = True\<rparr>"

definition ex_rt_user :: user_row where
  "ex_rt_user = \<lparr>us_id = ''u1'', us_email = ''u1@x'', us_name = None, us_passwordHash = None, us_role = ''platform-admin'', us_isActive = True,
     us_mfaEnabled = True, us_authzVersion = 3\<rparr>"

definition ex_rt_world :: runtime_world where
  "ex_rt_world = \<lparr>rw_auth = \<lparr>ad_users = [ex_rt_user, ex_rt_user\<lparr>us_id := ''u0'', us_role := ''admin'', us_mfaEnabled := False\<rparr>],
       ad_creds = [\<lparr>mc_userId = ''u1'', mc_encryptedSecret = ''x'', mc_version = 1, mc_confirmedAt = 1, mc_lastTotpCounter = None, mc_recoveryCodeHashes = []\<rparr>],
       ad_sessions = [new_session ''s0'' ''u0'' 3 ''r'' 900000 9000000], ad_changes = []\<rparr>,
     rw_access = \<lparr>az_grants = [], az_memberships = [], az_clusters = [\<lparr>rc_id = ''c1'', rc_deletedAt = None, rc_status = ''connected''\<rparr>],
       az_bindings = [], az_bindingTable = True, az_authorization = True\<rparr>,
     rw_sessions = [], rw_kube = \<lparr>kv_kubeconfig = \<lambda>_. Some ''kc'', kv_uid = \<lambda>_ _. Some ''uid1'',
       kv_pod = \<lambda>_ _ _. PodFound \<lparr>pv_containers = [Some ''app''], pv_phase = Some ''Running''\<rparr>\<rparr>\<rparr>"

definition ex_rt_who :: requester where
  "ex_rt_who = \<lparr>rq_subject = Some \<lparr>sj_id = Some ''u1'', sj_role = Some ''platform-admin''\<rparr>, rq_version = Some 3\<rparr>"

definition ex_rt_headers :: runtime_headers where
  "ex_rt_headers = \<lparr>hd_forwardedHost = None, hd_forwardedProto = None, hd_origin = None, hd_host = Some ''h''\<rparr>"

definition ex_rt_created :: "session_bootstrap res \<times> runtime_world" where
  "ex_rt_created = post_session ex_rt_env 5000 ''s1'' ex_rt_who ex_rt_headers ex_rt_body ex_rt_world"

definition ex_rt_token :: string where "ex_rt_token = ''H.P.kS''"

lemma ex_rt_created_ok:
  "(case fst ex_rt_created of Inl _ \<Rightarrow> False | Inr b \<Rightarrow> sb_target b = ex_rt_target \<and> sb_runtimeToken b = ex_rt_token)"
  by code_simp

lemma ex_rt_valid:
  "validateSessionToken (runtime_env.truncate ex_rt_env) 6000 (snd ex_rt_created) ''s1'' ex_rt_token ''/ws/logs'' \<in> range (\<lambda>v. Inr (Some v))"
proof -
  have "(case validateSessionToken (runtime_env.truncate ex_rt_env) 6000 (snd ex_rt_created) ''s1'' ex_rt_token ''/ws/logs'' of Inr (Some v) \<Rightarrow> True | _ \<Rightarrow> False)"
    by code_simp
  then show ?thesis by (auto split: sum.splits option.splits)
qed

text \<open>The superadmin \<open>u0\<close> resets the second factor of \<open>u1\<close>.\<close>

definition ex_rt_mfa :: mfa_env where
  "ex_rt_mfa = \<lparr>me_superadmin = Some ''u0'', me_key = ''k'', me_encrypt = (\<lambda>k s. k @ s), me_decrypt = (\<lambda>k c. None), me_hash = (\<lambda>s. s), me_hmac = (\<lambda>k m. m)\<rparr>"

definition ex_rt_proof :: reset_proof where
  "ex_rt_proof = \<lparr>rp_actorUserId = ''u0'', rp_actorSessionId = ''s0'', rp_actorAuthzVersion = 3, rp_targetUserId = ''u1'',
     rp_targetAuthzVersion = 3, rp_targetMfaVersion = 1, rp_action = ''mfa-reset'', rp_expiresAt = 100000\<rparr>"

lemma ex_rt_reset: "fst (mfa_reset ex_rt_mfa 6000 ex_rt_proof (rw_auth (snd ex_rt_created))) = Some ''u1''"
  by code_simp

definition ex_rt_lease :: lease_input where
  "ex_rt_lease = \<lparr>li_sessionId = ''s1'', li_runtimeToken = ex_rt_token, li_path = ''/ws/logs''\<rparr>"

definition ex_rt_surroundings :: surroundings where
  "ex_rt_surroundings = \<lparr>su_now = 6000, su_world = snd ex_rt_created, su_channel = \<lparr>iv_ready = True, iv_schema = ''public'', iv_streams = [], iv_next = 0\<rparr>\<rparr>"

text \<open>A notification for another user arrives while the lease is opened.\<close>

definition ex_rt_note :: lease_event where
  "ex_rt_note = Notified \<lparr>nt_channel = ''kubenova_authorization'', nt_payload = Some (JObj [(''schema'', JStr ''public''), (''userId'', JStr ''u9'')])\<rparr>"

lemma ex_rt_leased:
  "fst (createRuntimeAuthorizationLease (runtime_env.truncate ex_rt_env) ex_rt_lease [] [ex_rt_note] [Clock 7000] ex_rt_surroundings) = Inr 0"
  "live_stream 0 (su_channel (occurs [Clock 8000] (snd (createRuntimeAuthorizationLease (runtime_env.truncate ex_rt_env) ex_rt_lease [] [ex_rt_note] [Clock 7000] ex_rt_surroundings))))"
  by code_simp+

definition ex_rt_handshake :: json where
  "ex_rt_handshake = JObj [(''sessionId'', JStr ''s1''), (''runtimeToken'', JStr ex_rt_token)]"

definition ex_rt_events :: "socket_event list" where
  "ex_rt_events = [Connect 6000 (snd ex_rt_created), LogsSubscribe 6001 (JObj [(''tailLines'', JNum (num 5))])]"

lemma ex_rt_acked: "map fst (sk_out (socket_run ex_rt_env ex_rt_events (fresh_socket ''/ws/logs'' ex_rt_handshake JNull))) = [''runtime.ready'', ''logs.ack'']"
  by code_simp

end
