(* ===== verification/Kn_RuntimeProps.thy ===== *)
theory Kn_RuntimeProps
  imports Kn_RuntimeExamples
begin

text \<open>The properties of runtime sessions, their leases and their gateway, with witnesses.\<close>

section \<open>What a valid token proves\<close>

text \<open>
  C7. A runtime token is accepted only if it is signed with the secret, carries this session and
  path, and the session of the same user and target exists, is open and unexpired, its owner is
  active and still at the version the session was created with, and the owner may use it now: by
  cluster access that needs no grant, or by a grant in force for the live namespace and the
  capability; the accepted expiry exceeds neither the session nor that grant.
\<close>

theorem runtime_validation_sound:
  assumes "validateSessionTokenDetailed env now w i token path = Inr (Inr v)"
  shows "\<exists>v0 s u. signed_token env token v0 \<and> v = set_exp (payload_exp v) v0 \<and> jget v ''sessionId'' = Some (JStr i) \<and> jget v ''path'' = Some (JStr path)
     \<and> s \<in> set (rw_sessions w) \<and> rs_id s = i \<and> row_matches s v \<and> rs_closedAt s = None \<and> now < rs_expiresAt s
     \<and> session_owner (rw_auth w) s = Some u \<and> us_isActive u \<and> rs_authzVersion s = Some (us_authzVersion u)
     \<and> bounded_by (payload_exp v) (rs_expiresAt s div 1000)
     \<and> (admitted_without_grant env w now u s
        \<or> (\<exists>g. granted w now (us_id u) s g \<and> (\<forall>e. gr_expiresAt g = Some e \<longrightarrow> bounded_by (payload_exp v) (e div 1000))))"
proof -
  obtain v0 where v0: "verifyRuntimeToken env now token = Inr v0"
    using assms by (auto simp: validateSessionTokenDetailed_def split: sum.splits)
  note sg = verified_signed [OF v0]
  obtain s subject where chk: "check_session now v0 (runtime_findSessionById w i) = Inr (s, subject)"
      and j: "jget v0 ''sessionId'' = Some (JStr i)" "jget v0 ''path'' = Some (JStr path)"
    using assms v0 by (auto simp: validateSessionTokenDetailed_def split: sum.splits if_splits)
  then have found: "runtime_findSessionById w i = Some (s, subject)" and m: "row_matches s v0"
      and open_now: "rs_closedAt s = None" "now < rs_expiresAt s" and uid: "\<exists>u. rs_userId s = Some u"
    by (auto simp: check_session_def split: option.splits if_splits)
  obtain u where u: "session_owner (rw_auth w) s = Some u" "us_isActive u" "rs_authzVersion s = Some (us_authzVersion u)"
      "subject = \<lparr>sj_id = Some (us_id u), sj_role = Some (us_role u)\<rparr>" and s: "s \<in> set (rw_sessions w)" "rs_id s = i"
    using found_session [OF found] by blast
  have user: "rs_userId s = Some (us_id u)"
    using u(1) uid by (auto simp: session_owner_def user_of_def dest: find_Some_mem)
  let ?x = "js_min_int (payload_exp v0) (rs_expiresAt s div 1000)"
  let ?need = "requires_grant env (cluster_access (rw_access w) now (Some subject) (payload_text v0 ''type'' = ''logs'') (Some (payload_text v0 ''clusterId'')))"
  obtain b where b: "?need = Inr b" and rest: "if \<not> b then v = set_exp ?x v0
      else dc_allowed (check_grant w now v0) \<and> v = set_exp (earlier ?x (dc_expiresAt (check_grant w now v0))) v0"
    using assms v0 j chk by (auto simp: validateSessionTokenDetailed_def Let_def result_iffs split: if_splits)
  have e: "\<exists>e. v = set_exp e v0 \<and> payload_exp v = e \<and> bounded_by e (rs_expiresAt s div 1000)"
    using rest sg by (auto split: if_splits simp: earlier_keep)
  then obtain e where ev: "v = set_exp e v0" "payload_exp v = e" by blast
  have v: "v = set_exp (payload_exp v) v0" using ev by simp
  have jv: "jget v ''sessionId'' = Some (JStr i)" "jget v ''path'' = Some (JStr path)" "row_matches s v"
    using j m by (simp_all add: ev(1))
  have "admitted_without_grant env w now u s
      \<or> (\<exists>g. granted w now (us_id u) s g \<and> (\<forall>e. gr_expiresAt g = Some e \<longrightarrow> bounded_by (payload_exp v) (e div 1000)))"
  proof (cases b)
    case True
    then show ?thesis using check_grant_granted [OF _ m user, of w now ?x] rest sg by auto
  next
    case False
    then show ?thesis using b by (auto simp: requires_grant_False row_texts [OF m] u(4) admitted_without_grant_def)
  qed
  then show ?thesis using sg e s open_now u(1-3) v jv
    by (intro exI [of _ v0] exI [of _ s] exI [of _ u] conjI) (auto simp: ev(2))
qed

lemma runtime_validation_sound_witness:
  "\<exists>v s. validateSessionToken (runtime_env.truncate ex_rt_env) 6000 (snd ex_rt_created) ''s1'' ex_rt_token ''/ws/logs'' = Inr (Some v)
     \<and> s \<in> set (rw_sessions (snd ex_rt_created)) \<and> row_matches s v \<and> bounded_by (payload_exp v) (rs_expiresAt s div 1000)"
proof -
  obtain v where v: "validateSessionToken (runtime_env.truncate ex_rt_env) 6000 (snd ex_rt_created) ''s1'' ex_rt_token ''/ws/logs'' = Inr (Some v)"
    using ex_rt_valid by blast
  then have "validateSessionTokenDetailed (runtime_env.truncate ex_rt_env) 6000 (snd ex_rt_created) ''s1'' ex_rt_token ''/ws/logs'' = Inr (Inr v)"
    by (cases "validateSessionTokenDetailed (runtime_env.truncate ex_rt_env) 6000 (snd ex_rt_created) ''s1'' ex_rt_token ''/ws/logs''")
      (auto simp: validateSessionToken_def split: sum.splits)
  from runtime_validation_sound [OF this] v show ?thesis by blast
qed

section \<open>A new session is usable\<close>

text \<open>
  A session that the controller has just created for an authenticated user can be used: the
  token it returned validates for the path of its type to exactly the payload that was signed,
  with an expiry of at most thirty minutes. The text coding of that payload is assumed to
  round-trip.
\<close>

theorem runtime_session_usable:
  fixes env :: service_env and b :: session_bootstrap and body :: json and uid i :: string and now :: time
  defines "E \<equiv> runtime_env.truncate env" and "p \<equiv> token_payload body (sb_target b) i (Some uid) (now div 1000 + sessionTtlSeconds)"
  assumes created: "post_session env now i who h body w = (Inr b, w')"
    and who: "rq_subject who = Some \<lparr>sj_id = Some uid, sj_role = Some (us_role u)\<rparr>" "user_of (rw_auth w) uid = Some u" "js_trim uid = uid"
    and codec: "re_decode E (re_encode E p) = Some p" "CHR ''.'' \<notin> set (re_encode E p)" "CHR ''.'' \<notin> set (re_encode E token_header)"
      "\<And>x. CHR ''.'' \<notin> set (re_hmac E (re_secret E) x)"
  shows "\<exists>e. validateSessionTokenDetailed E now w' i (sb_runtimeToken b) (resolveGatewayPath body) = Inr (Inr (set_exp e p))
     \<and> bounded_by e (now div 1000 + sessionTtlSeconds)"
proof -
  obtain r where adm: "admit env now w (Some \<lparr>sj_id = Some uid, sj_role = Some (us_role u)\<rparr>) body = Inr r"
      and new: "create_runtime_session env now i body (Some uid) (rq_version who) (Some (gateway_access_of h)) w = (Inr b, w')"
    using created who(1) by (auto simp: post_session_def split: sum.splits)
  obtain r1 where vi: "validateInput env now body = Inr r1" using new by (auto simp: create_runtime_session_def split: sum.splits elim: rbind.elims)
  let ?q = "persist_input body (sb_target b) i (Some uid) (rq_version who) ((now div 1000 + sessionTtlSeconds) * 1000)"
  obtain r2 where sess: "runtime_createSession ?q w = (Inr r2, w')" and tok: "sb_runtimeToken b = createRuntimeToken E p"
    using new by (auto simp: create_runtime_session_def E_def p_def Let_def split: sum.splits prod.splits)
  have q: "ri_id ?q = i" "ri_userId ?q = Some uid" by (simp_all add: persist_input_def)
  note found = created_found [OF sess q(2) who(2), unfolded q(1)]
  obtain c ns where b: "jget body ''clusterId'' = Some (JStr c)" "nonblank c" "jget body ''namespace'' = Some (JStr ns)"
      and ty: "jget body ''type'' \<in> {Some (JStr ''terminal''), Some (JStr ''logs'')}"
    using validated_body [OF vi] by blast
  note f = token_payload_fields [of body "sb_target b" i "Some uid" "now div 1000 + sessionTtlSeconds", folded p_def]
  have uid: "trimmed_user (Some uid) = uid" using who(3) found by (simp add: trimmed_user_def)
  have t: "(payload_text p ''type'' = ''logs'') = is_logs body" "body_text body ''clusterId'' = c" "body_text body ''namespace'' = ns"
    using ty f(3) b by (auto simp: payload_text_def body_text_def is_logs_def jstring_def)
  have m: "row_matches (runtime_row_of ?q) p" using f uid by (simp add: row_matches_def runtime_row_of_def persist_input_def)
  have ver: "verifyRuntimeToken E now (sb_runtimeToken b) = Inr p"
    unfolding tok using codec f(9,10) by (intro verify_created) (auto simp: js_le_int_def num_def sessionTtlSeconds_def)
  have "check_session now p (runtime_findSessionById w' i) = Inr (runtime_row_of ?q, \<lparr>sj_id = Some uid, sj_role = Some (us_role u)\<rparr>)"
    using found m by (auto simp: check_session_def runtime_row_of_def persist_input_def sessionTtlSeconds_def)
  moreover have "rs_expiresAt (runtime_row_of ?q) div 1000 = now div 1000 + sessionTtlSeconds"
    by (simp add: runtime_row_of_def persist_input_def)
  moreover have "check_grant w' now p = check_grant w now p" and acc: "rw_access w' = rw_access w"
    using found by (simp_all add: check_grant_def split: sum.split)
  moreover obtain needed where "requires_grant E (cluster_access (rw_access w') now (Some \<lparr>sj_id = Some uid, sj_role = Some (us_role u)\<rparr>) (payload_text p ''type'' = ''logs'') (Some c)) = Inr needed"
      "needed \<longrightarrow> dc_allowed (check_grant w now p)"
    unfolding acc E_def
    using admitted_again [OF adm _ b(1,3,2), of uid p] f(2,4,5) t(1) unfolding uid t(2,3) by auto
  moreover have "payload_text p ''clusterId'' = c" using f(4) t(2) by (simp add: payload_text_def jstring_def)
  ultimately show ?thesis using ver f(1,8)
    by (auto simp: validateSessionTokenDetailed_def Let_def earlier_keep)
qed

lemma runtime_session_usable_witness:
  "\<exists>e. validateSessionTokenDetailed (runtime_env.truncate ex_rt_env) 5000 (snd ex_rt_created) ''s1'' ex_rt_token ''/ws/logs'' = Inr (Inr (set_exp e ex_rt_payload))
     \<and> bounded_by e 1805"
proof -
  obtain b where f: "fst ex_rt_created = Inr b" and b2: "sb_target b = ex_rt_target" "sb_runtimeToken b = ex_rt_token"
    using ex_rt_created_ok by (cases "fst ex_rt_created") auto
  have b: "ex_rt_created = (Inr b, snd ex_rt_created)" using f by (simp add: prod_eq_iff)
  have c: "resolveGatewayPath ex_rt_body = ''/ws/logs''" "now div 1000 + sessionTtlSeconds = 1805" if "now = 5000" for now :: int
    using that by (simp_all add: resolveGatewayPath_def ex_rt_body_def jget_def sessionTtlSeconds_def)
  have p: "token_payload ex_rt_body ex_rt_target ''s1'' (Some ''u1'') (5000 div 1000 + sessionTtlSeconds) = ex_rt_payload"
    by (simp add: ex_rt_payload_def)
  have p5: "token_payload ex_rt_body ex_rt_target ''s1'' (Some ''u1'') (5 + sessionTtlSeconds) = ex_rt_payload"
    by (simp add: ex_rt_payload_def)
  have d: "jget ex_rt_payload ''alg'' = None" "jget token_header ''alg'' \<noteq> None" "js_trim ''u1'' = ''u1''" by code_simp+
  have env: "re_decode (runtime_env.truncate ex_rt_env) (re_encode (runtime_env.truncate ex_rt_env) ex_rt_payload) = Some ex_rt_payload"
      "CHR ''.'' \<notin> set (re_encode (runtime_env.truncate ex_rt_env) v)" "CHR ''.'' \<notin> set (re_hmac (runtime_env.truncate ex_rt_env) (re_secret (runtime_env.truncate ex_rt_env)) x)" for v x
    using d by (simp_all add: ex_rt_env_def runtime_env.truncate_def)
  have who: "rq_subject ex_rt_who = Some \<lparr>sj_id = Some ''u1'', sj_role = Some (us_role ex_rt_user)\<rparr>" "user_of (rw_auth ex_rt_world) ''u1'' = Some ex_rt_user"
    by (simp_all add: ex_rt_who_def ex_rt_user_def user_of_def ex_rt_world_def)
  have "\<exists>e. validateSessionTokenDetailed (runtime_env.truncate ex_rt_env) 5000 (snd ex_rt_created) ''s1'' (sb_runtimeToken b) (resolveGatewayPath ex_rt_body)
        = Inr (Inr (set_exp e (token_payload ex_rt_body (sb_target b) ''s1'' (Some ''u1'') (5000 div 1000 + sessionTtlSeconds))))
      \<and> bounded_by e (5000 div 1000 + sessionTtlSeconds)"
    using env by (intro runtime_session_usable [OF b [unfolded ex_rt_created_def] who d(3), folded ex_rt_created_def]) (simp_all add: b2 p5)
  then show ?thesis unfolding b2 p c(1) [OF refl] unfolding c(2) [OF refl] .
qed

section \<open>A reset of the second factor ends runtime sessions\<close>

text \<open>
  C21. When the second factor of a user is reset, every runtime session this user had is dead for
  good: whatever sessions are created, closed, users changed or deleted and access granted
  afterwards, its token is never accepted again.
\<close>

theorem runtime_reset_closes:
  assumes "reach (\<lambda>w. rw_sessions w = []) (runtime_step env) w" and "mfa_reset menv t p (rw_auth w) = (Some uid, db)"
    and "s \<in> set (rw_sessions w)" and "rs_userId s = Some uid"
    and "reach (\<lambda>w0. w0 = w\<lparr>rw_auth := db\<rparr>) (runtime_step env) w'"
  shows "validateSessionTokenDetailed (runtime_env.truncate env) now w' (rs_id s) token path \<noteq> Inr (Inr v)"
proof -
  have d: "sessions_dated w" by (rule dated_sessions.reach_inv [OF assms(1)])
  obtain u u' where u: "user_of (rw_auth w) uid = Some u" "user_of db uid = Some u'" "us_authzVersion u' = us_authzVersion u + 1"
    using reset_raises [OF assms(2)] by blast
  have "revoked_row db q" if "q \<in> set (rw_sessions w)" "rs_id q = rs_id s" for q
  proof -
    have "q = s" using d that assms(3) by (auto simp: sessions_dated_def distinct_map inj_on_def)
    moreover have "row_dated (rw_auth w) s" using d assms(3) by (simp add: sessions_dated_def)
    ultimately show ?thesis using u assms(4) by (auto simp: row_dated_def revoked_row_def split: option.splits)
  qed
  then have r: "revoked (rs_id s) (w\<lparr>rw_auth := db\<rparr>)" using assms(3) by (auto simp: revoked_def)
  have "reach (revoked (rs_id s)) (runtime_step env) w'"
    using assms(5) by (induction rule: reach.induct) (auto intro: reach_init reach_step r)
  then have "revoked (rs_id s) w'" by (rule revoked_sessions.reach_inv)
  then show ?thesis by (rule revoked_rejected)
qed

lemma runtime_reset_closes_witness:
  "let db = snd (mfa_reset ex_rt_mfa 6000 ex_rt_proof (rw_auth (snd ex_rt_created)));
       w' = snd ex_rt_created\<lparr>rw_auth := db\<rparr> in
   \<exists>s \<in> set (rw_sessions (snd ex_rt_created)). rs_userId s = Some ''u1''
     \<and> validateSessionTokenDetailed (runtime_env.truncate ex_rt_env) 7000 w' (rs_id s) ex_rt_token ''/ws/logs'' \<noteq> Inr (Inr ex_rt_payload)"
proof -
  have r: "reach (\<lambda>w. rw_sessions w = []) (runtime_step ex_rt_env) (snd ex_rt_created)"
  proof (rule reach_step)
    show "reach (\<lambda>w. rw_sessions w = []) (runtime_step ex_rt_env) ex_rt_world" by (rule reach_init) (simp add: ex_rt_world_def)
    show "runtime_step ex_rt_env ex_rt_world (Post 5000 ''s1'' ex_rt_who ex_rt_headers ex_rt_body) (snd ex_rt_created)"
      by (rule rt_post) (simp add: ex_rt_created_def)
  qed
  have "map rs_userId (rw_sessions (snd ex_rt_created)) = [Some ''u1'']" by code_simp
  then obtain s where s: "s \<in> set (rw_sessions (snd ex_rt_created))" "rs_userId s = Some ''u1''" by auto
  obtain db where db: "mfa_reset ex_rt_mfa 6000 ex_rt_proof (rw_auth (snd ex_rt_created)) = (Some ''u1'', db)"
    using ex_rt_reset by (metis prod.collapse)
  have "reach (\<lambda>w0. w0 = snd ex_rt_created\<lparr>rw_auth := db\<rparr>) (runtime_step ex_rt_env) (snd ex_rt_created\<lparr>rw_auth := db\<rparr>)"
    by (rule reach_init) (rule refl)
  from runtime_reset_closes [OF r db s this] s show ?thesis unfolding db by auto
qed

section \<open>Live leases\<close>

text \<open>
  C20. Whatever happens between the turns, a lease that was opened and is still live was validated
  again after its registration, for the same user; since the registration the connection was never
  lost and no notification named its user, all users, or was malformed; and it is not past the
  expiry of the token.
\<close>

theorem runtime_lease_sound:
  assumes "createRuntimeAuthorizationLease env i es2 es3 es4 g = (Inr k, g')" and "channel_ok (su_channel g)"
    and "live_stream k (su_channel (occurs es5 g'))"
  shows "\<exists>initial final t. validated_now env i g = Inr (Some initial) \<and> validated_now env i (occurs (es2 @ es3) g) = Inr (Some final)
     \<and> jget final ''userId'' = jget initial ''userId''
     \<and> (\<forall>e \<in> set (es3 @ es4 @ es5). \<not> revokes (iv_schema (su_channel g)) (payload_text initial ''userId'') e)
     \<and> exp_time (payload_exp initial) = Some t \<and> su_now (occurs es5 g') < t"
proof -
  let ?g0 = "occurs es2 g"
  obtain initial where ini: "validated_now env i g = Inr (Some initial)"
    using assms(1) by (auto simp: createRuntimeAuthorizationLease_def split: sum.splits option.splits)
  let ?u = "payload_text initial ''userId''"
  obtain k0 v where reg: "register (su_now ?g0) ?u (exp_time (payload_exp initial)) (su_channel ?g0) = (Some k0, v)"
      and fin: "finish_lease env i initial k0 es3 es4 (?g0\<lparr>su_channel := v\<rparr>) = (Inr k, g')"
    using assms(1) ini by (auto simp: createRuntimeAuthorizationLease_def Let_def split: prod.splits option.splits)
  let ?g1 = "?g0\<lparr>su_channel := v\<rparr>"
  have f: "k0 = k" "g' = occurs es4 (occurs es3 ?g1)" "\<exists>final. validated_now env i (occurs es3 ?g1) = Inr (Some final) \<and> jget final ''userId'' = jget initial ''userId''"
    using fin by (auto simp: finish_lease_def still_granted_def Let_def split: sum.splits if_splits option.splits)
  have same: "validated_now env i (occurs es3 ?g1) = validated_now env i (occurs (es2 @ es3) g)"
    using occurs_world [of ?g1 ?g0 es3] by (simp add: validated_now_def)
  obtain e d where e: "exp_time (payload_exp initial) = Some e" "d \<le> e" and tr: "tracks (iv_schema (su_channel g)) k ?u d ?g1"
    using registered_tracks [OF reg occurs_ok [OF assms(2)]] f(1) by auto
  have live: "live_stream k (su_channel (occurs (es3 @ es4 @ es5) ?g1))" using assms(3) f(2) by simp
  have "\<forall>e \<in> set (es3 @ es4 @ es5). \<not> revokes (iv_schema (su_channel g)) ?u e" using occurs_live [OF tr live] by blast
  moreover have "su_now (occurs es5 g') < d"
    using occurs_tracks [OF tr, of "es3 @ es4 @ es5"] live f(2) by (auto simp: tracks_def live_stream_def)
  ultimately show ?thesis using ini f(3) same e by auto
qed

lemma runtime_lease_sound_witness:
  "\<exists>final t. validated_now (runtime_env.truncate ex_rt_env) ex_rt_lease (occur ex_rt_note ex_rt_surroundings) = Inr (Some final)
     \<and> \<not> revokes ''public'' (payload_text final ''userId'') ex_rt_note \<and> 8000 < (t :: int)"
proof -
  obtain g' where l: "createRuntimeAuthorizationLease (runtime_env.truncate ex_rt_env) ex_rt_lease [] [ex_rt_note] [Clock 7000] ex_rt_surroundings = (Inr 0, g')"
    using ex_rt_leased(1) by (metis prod.collapse)
  then have "live_stream 0 (su_channel (occurs [Clock 8000] g'))" using ex_rt_leased(2) by simp
  moreover have "channel_ok (su_channel ex_rt_surroundings)" by (simp add: channel_ok_def ex_rt_surroundings_def)
  ultimately obtain final initial t where "validated_now (runtime_env.truncate ex_rt_env) ex_rt_lease (occurs ([] @ [ex_rt_note]) ex_rt_surroundings) = Inr (Some final)"
      "jget final ''userId'' = jget initial ''userId''" "\<not> revokes ''public'' (payload_text initial ''userId'') ex_rt_note"
    using runtime_lease_sound [OF l, of "[Clock 8000]"] by (auto simp: ex_rt_surroundings_def)
  then show ?thesis by (intro exI [of _ final] exI [of _ 9000]) (auto simp: payload_text_def)
qed

section \<open>The gateway acts on validated sockets only\<close>

text \<open>
  For any sequence of connections and messages, a socket is sent an acknowledgement of
  terminal input or of a log subscription only on the channel of that message, and for a session
  whose token was validated when the socket connected.
\<close>

theorem gateway_acks_validated:
  assumes "(e, r) \<in> set (sk_out (socket_run env es (fresh_socket ns auth q)))" and "ack_channel e = Some p"
  shows "ns = p \<and> (\<exists>now w i token v. Connect now w \<in> set es \<and> jget r ''sessionId'' = Some (JStr i)
     \<and> validateSessionTokenDetailed (runtime_env.truncate env) now w i token ns = Inr (Inr v))"
  using socket_run_ok [of env es ns auth q] assms unfolding socket_ok_def validated_by_def by fastforce

lemma gateway_acks_validated_witness:
  "\<exists>now w i token v. Connect now w \<in> set ex_rt_events
     \<and> validateSessionTokenDetailed (runtime_env.truncate ex_rt_env) now w i token ''/ws/logs'' = Inr (Inr v)"
proof -
  have "''logs.ack'' \<in> set (map fst (sk_out (socket_run ex_rt_env ex_rt_events (fresh_socket ''/ws/logs'' ex_rt_handshake JNull))))"
    unfolding ex_rt_acked by simp
  then obtain r where "(''logs.ack'', r) \<in> set (sk_out (socket_run ex_rt_env ex_rt_events (fresh_socket ''/ws/logs'' ex_rt_handshake JNull)))" by auto
  from gateway_acks_validated [OF this ack_channel_simps(4)] show ?thesis by blast
qed

end
