(* ===== verification/Kn_Api.thy ===== *)
theory Kn_Api
  imports Kn_Json Kn_Prog "HOL-Library.AList"
begin

text \<open>
  Errors of the platform API (common/errors/api-error.ts and error-codes.ts), and the coercion of
  JSON values to text (\<open>String(value)\<close>) that several handlers apply to untyped input.
\<close>

section \<open>Thrown errors\<close>

datatype error_code = VALIDATION_ERROR | FORBIDDEN | NOT_FOUND | PRECONDITION_FAILED | INTERNAL_ERROR

text \<open>What a handler may throw: an \<open>ApiError\<close>, a Nest exception, or the error of the runtime.\<close>

datatype thrown = ApiError error_code string | HttpError http_error | TypeError

fun http_message :: "http_error \<Rightarrow> string" where
  "http_message (BadRequest m) = m"
| "http_message (Unauthorized m) = m"
| "http_message (Forbidden m) = m"
| "http_message (NotFound m) = m"
| "http_message (Conflict m) = m"
| "http_message (TooMany n) = ''Too many requests''"
| "http_message (Unavailable m) = m"
| "http_message (Internal m) = m"

fun thrown_message :: "thrown \<Rightarrow> string" where
  "thrown_message (ApiError c m) = m"
| "thrown_message (HttpError h) = http_message h"
| "thrown_message TypeError = ''TypeError''"

definition lift_http :: "http_error + 'a \<Rightarrow> thrown + 'a" where
  "lift_http r = (case r of Inl e \<Rightarrow> Inl (HttpError e) | Inr a \<Rightarrow> Inr a)"

lemma lift_http_Inr [simp]: "lift_http r = Inr a \<longleftrightarrow> r = Inr a"
  by (cases r) (simp_all add: lift_http_def)

text \<open>A mapping whose function may throw: the first error is the result.\<close>

fun map_throw :: "('a \<Rightarrow> 'e + 'b) \<Rightarrow> 'a list \<Rightarrow> 'e + 'b list" where
  "map_throw f [] = Inr []"
| "map_throw f (x # xs) = rbind (f x) (\<lambda>y. rbind (map_throw f xs) (\<lambda>ys. Inr (y # ys)))"

lemma map_throw_Inr: "map_throw f xs = Inr ys \<longleftrightarrow> list_all2 (\<lambda>x y. f x = Inr y) xs ys"
proof (induction xs arbitrary: ys)
  case (Cons x xs)
  then show ?case by (cases ys) (auto simp: rbind_Inr_iff)
qed auto

lemma map_throw_Inl: "map_throw f xs = Inl e \<Longrightarrow> \<exists>x \<in> set xs. f x = Inl e"
  by (induction xs) (auto simp: rbind_Inl_iff)

text \<open>A loop whose body may throw.\<close>

definition each :: "('a \<Rightarrow> 'e + unit) \<Rightarrow> 'a list \<Rightarrow> 'e + unit" where
  "each f xs = rbind (map_throw f xs) (\<lambda>_. Inr ())"

lemma each_Inr: "each f xs = Inr u \<longleftrightarrow> (\<forall>x \<in> set xs. f x = Inr ())"
  by (induction xs) (auto simp: each_def rbind_Inr_iff)

section \<open>Text\<close>

text \<open>\<open>xs.join(sep)\<close>.\<close>

fun js_join :: "string \<Rightarrow> string list \<Rightarrow> string" where
  "js_join sep [] = []"
| "js_join sep [x] = x"
| "js_join sep (x # y # ys) = x @ sep @ js_join sep (y # ys)"

text \<open>\<open>String(value)\<close>; \<open>nt\<close> is the text of a number.\<close>

fun js_String :: "(jsnum \<Rightarrow> string) \<Rightarrow> json \<Rightarrow> string" where
  "js_String nt JNull = ''null''"
| "js_String nt (JBool b) = (if b then ''true'' else ''false'')"
| "js_String nt (JNum n) = nt n"
| "js_String nt (JStr s) = s"
| "js_String nt (JArr vs) = js_join '','' (map (\<lambda>v. if v = JNull then [] else js_String nt v) vs)"
| "js_String nt (JObj kvs) = ''[object Object]''"

text \<open>\<open>String(value ?? '')\<close>.\<close>

definition text_or_empty :: "(jsnum \<Rightarrow> string) \<Rightarrow> json option \<Rightarrow> string" where
  "text_or_empty nt v = (case v of None \<Rightarrow> [] | Some w \<Rightarrow> (if w = JNull then [] else js_String nt w))"

lemma text_or_empty_simps [simp]: "text_or_empty nt None = []" "text_or_empty nt (Some (JStr s)) = s"
  by (simp_all add: text_or_empty_def)

text \<open>\<open>value?.trim()\<close>: a value that is neither absent nor a string has no such method.\<close>

definition js_trim_opt :: "json option \<Rightarrow> thrown + string option" where
  "js_trim_opt v = (case v of None \<Rightarrow> Inr None | Some JNull \<Rightarrow> Inr None | Some (JStr s) \<Rightarrow> Inr (Some (js_trim s)) | _ \<Rightarrow> Inl TypeError)"

text \<open>\<open>{ ...value, [k]: w }\<close> on an object.\<close>

definition jset :: "json \<Rightarrow> string \<Rightarrow> json \<Rightarrow> json" where
  "jset v k w = (case v of JObj kvs \<Rightarrow> JObj (AList.update k w kvs) | _ \<Rightarrow> JObj [(k, w)])"

lemma jget_jset: "jget (jset v k w) l = (if l = k then Some w else (case v of JObj kvs \<Rightarrow> map_of kvs l | _ \<Rightarrow> None))"
  by (cases v) (auto simp: jset_def jget_def update_conv')

lemma jget_jset_same [simp]: "jget (jset v k w) k = Some w"
  by (simp add: jget_jset)

lemma jget_jset_other [simp]: "l \<noteq> k \<Longrightarrow> jget (jset v k w) l = jget v l"
  unfolding jget_jset by (cases v) (simp_all add: jget_def)

end
