(* ===== verification/Kn_AiAction.thy ===== *)
theory Kn_AiAction
  imports Kn_Api Kn_Access
begin

text \<open>
  Actions of the AI assistant: the registry (ai-assistant/ai-action-registry.ts) and the checks on an
  action (validateAction, normalizeExecuteInput and the require and optional helpers of
  ai-assistant/ai-action-executor.service.ts).

  An action is the JSON value of the request body. Its operation is read as a string: the
  controller, which calls \<open>startsWith\<close> on it first, refuses any other type (Kn_AiController).
\<close>

section \<open>The registry\<close>

datatype ai_scope = ScopePlatform | ScopeCluster | ScopeNamespace | ScopeResource
datatype ai_risk = RiskRead | RiskLow | RiskMedium | RiskHigh | RiskCritical

record ai_definition =
  ad_scope :: ai_scope
  ad_risk :: ai_risk
  ad_requiresApproval :: bool

definition ai_definition :: "ai_scope \<Rightarrow> ai_risk \<Rightarrow> bool \<Rightarrow> ai_definition" where
  "ai_definition s r a = \<lparr>ad_scope = s, ad_risk = r, ad_requiresApproval = a\<rparr>"

definition AI_ACTION_REGISTRY :: "(string \<times> ai_definition) list" where
  "AI_ACTION_REGISTRY =
    [(''enable'', ai_definition ScopeResource RiskMedium True),
     (''disable'', ai_definition ScopeResource RiskHigh True),
     (''batch-enable'', ai_definition ScopeResource RiskHigh True),
     (''batch-disable'', ai_definition ScopeResource RiskHigh True),
     (''query-pods-overview'', ai_definition ScopeNamespace RiskRead False),
     (''query-deployments-overview'', ai_definition ScopeNamespace RiskRead False),
     (''query-nodes-overview'', ai_definition ScopeCluster RiskRead False),
     (''query-pv-pvc-bindings'', ai_definition ScopeNamespace RiskRead False),
     (''query-pvcs'', ai_definition ScopeNamespace RiskRead False),
     (''query-storageclasses'', ai_definition ScopeCluster RiskRead False),
     (''query-configmaps'', ai_definition ScopeNamespace RiskRead False),
     (''query-helm-releases'', ai_definition ScopeNamespace RiskRead False),
     (''query-helm-repositories'', ai_definition ScopeCluster RiskRead False),
     (''import-helm-repository-presets'', ai_definition ScopeCluster RiskHigh True),
     (''restart-workload'', ai_definition ScopeResource RiskHigh True),
     (''vm-power-on'', ai_definition ScopeResource RiskHigh True),
     (''vm-power-off'', ai_definition ScopeResource RiskCritical True),
     (''vm-restart'', ai_definition ScopeResource RiskHigh True),
     (''apply-resource-manifest'', ai_definition ScopeNamespace RiskCritical True)]"

definition getAiActionDefinition :: "string option \<Rightarrow> ai_definition option" where
  "getAiActionDefinition operation = (case operation of None \<Rightarrow> None | Some op \<Rightarrow> map_of AI_ACTION_REGISTRY op)"

definition isReadOnlyAiAction :: "string option \<Rightarrow> bool" where
  "isReadOnlyAiAction operation = (case getAiActionDefinition operation of None \<Rightarrow> False | Some d \<Rightarrow> ad_risk d = RiskRead)"

lemma isReadOnlyAiAction_iff:
  "isReadOnlyAiAction (Some op) \<longleftrightarrow> op \<in> {''query-pods-overview'', ''query-deployments-overview'', ''query-nodes-overview'',
     ''query-pv-pvc-bindings'', ''query-pvcs'', ''query-storageclasses'', ''query-configmaps'', ''query-helm-releases'',
     ''query-helm-repositories''}"
  by (auto simp: isReadOnlyAiAction_def getAiActionDefinition_def AI_ACTION_REGISTRY_def ai_definition_def)

lemma isReadOnlyAiAction_None [simp]: "\<not> isReadOnlyAiAction None"
  by (simp add: isReadOnlyAiAction_def getAiActionDefinition_def)

section \<open>Normalisation and validation\<close>

record ai_actor =
  ar_userId :: "string option"
  ar_username :: "string option"
  ar_role :: "string option"

definition action_op :: "json \<Rightarrow> string option" where
  "action_op action = jstring (jget action ''operation'')"

definition action_target :: "json \<Rightarrow> string \<Rightarrow> json option" where
  "action_target action k = jget_opt (jget action ''target'') k"

definition action_option :: "json \<Rightarrow> string \<Rightarrow> json option" where
  "action_option action k = jget_opt (jget action ''options'') k"

definition normalizeActionOperationAlias :: "string option \<Rightarrow> string option" where
  "normalizeActionOperationAlias operation =
    (case operation of None \<Rightarrow> None
     | Some op \<Rightarrow>
        (if op = [] then None
         else if op = ''query-configmaps-overview'' then Some ''query-configmaps''
         else if op = ''query-pvc-overview'' then Some ''query-pvcs''
         else if op = ''query-storageclass-overview'' then Some ''query-storageclasses''
         else if op = ''vm-power-restart'' then Some ''vm-restart''
         else Some op))"

definition invalid :: "string \<Rightarrow> thrown" where
  "invalid m = ApiError VALIDATION_ERROR m"

definition normalizeExecuteInput :: "json \<Rightarrow> thrown + json" where
  "normalizeExecuteInput action =
    (case normalizeActionOperationAlias (action_op action) of
       None \<Rightarrow> Inl (invalid ''operation is invalid'')
     | Some op \<Rightarrow> Inr (if Some op = action_op action then action else jset action ''operation'' (JStr op)))"

definition requireSimpleField :: "json option \<Rightarrow> string \<Rightarrow> nat \<Rightarrow> nat \<Rightarrow> thrown + string" where
  "requireSimpleField v path lo hi = rbind (js_trim_opt v) (\<lambda>t.
     case t of None \<Rightarrow> Inl (invalid (path @ '' is required''))
     | Some s \<Rightarrow>
        (if s = [] then Inl (invalid (path @ '' is required''))
         else if length s < lo \<or> length s > hi then Inl (invalid (path @ '' length must be '' @ show_nat lo @ ''-'' @ show_nat hi))
         else Inr s))"

text \<open>\<open>/^[a-z0-9]([a-z0-9-]*[a-z0-9])?$/\<close>.\<close>

definition name_char :: "char \<Rightarrow> bool" where
  "name_char c \<longleftrightarrow> (let n = (of_char c :: nat) in (48 \<le> n \<and> n \<le> 57) \<or> (97 \<le> n \<and> n \<le> 122))"

definition k8s_name :: "string \<Rightarrow> bool" where
  "k8s_name s \<longleftrightarrow> s \<noteq> [] \<and> name_char (hd s) \<and> name_char (last s) \<and> list_all (\<lambda>c. name_char c \<or> c = CHR ''-'') s"

definition requireTarget :: "json \<Rightarrow> thrown + json" where
  "requireTarget action = (case jget action ''target'' of
     Some t \<Rightarrow> (if truthy (Some t) then Inr t else Inl (invalid ''target is required''))
   | None \<Rightarrow> Inl (invalid ''target is required''))"

definition requireClusterField :: "json \<Rightarrow> string \<Rightarrow> thrown + string" where
  "requireClusterField target path = requireSimpleField (jget target ''clusterId'') path 1 64"

definition requireName :: "json option \<Rightarrow> string \<Rightarrow> nat \<Rightarrow> thrown + string" where
  "requireName v path hi = rbind (requireSimpleField v path 1 hi) (\<lambda>s.
     if k8s_name s then Inr s else Inl (invalid (path @ '' is invalid'')))"

definition requireNamespace :: "json option \<Rightarrow> string \<Rightarrow> thrown + string" where
  "requireNamespace v path = requireName v path 63"

definition requireResourceName :: "json option \<Rightarrow> string \<Rightarrow> thrown + string" where
  "requireResourceName v path = requireName v path 253"

definition requireRestartKind :: "json option \<Rightarrow> string \<Rightarrow> thrown + string" where
  "requireRestartKind v path = rbind (requireSimpleField v path 1 32) (\<lambda>s.
     if s \<noteq> ''Deployment'' \<and> s \<noteq> ''StatefulSet'' then Inl (invalid (path @ '' must be Deployment or StatefulSet'')) else Inr s)"

definition requireManifest :: "json option \<Rightarrow> thrown + string" where
  "requireManifest v = rbind (js_trim_opt v) (\<lambda>t.
     case t of None \<Rightarrow> Inl (invalid ''target.manifest must be a non-empty YAML'')
     | Some s \<Rightarrow> (if s = [] \<or> length s > 2000000 then Inl (invalid ''target.manifest must be a non-empty YAML'') else Inr s))"

definition require_identity :: "json \<Rightarrow> string \<Rightarrow> string \<Rightarrow> thrown + unit" where
  "require_identity target path k = rbind (js_trim_opt (jget target k)) (\<lambda>t.
     if t = None \<or> t = Some [] then Inl (invalid (path @ ''.'' @ k @ '' is required'')) else Inr ())"

definition validateTarget :: "json \<Rightarrow> string \<Rightarrow> bool \<Rightarrow> thrown + unit" where
  "validateTarget target path identity =
    (if \<not> is_object target then Inl (invalid (path @ '' is required''))
     else if identity then rbind (require_identity target path ''resourceType'') (\<lambda>_. require_identity target path ''resourceId'')
     else Inr ())"

fun validate_targets :: "nat \<Rightarrow> json list \<Rightarrow> thrown + unit" where
  "validate_targets i [] = Inr ()"
| "validate_targets i (t # ts) = rbind (validateTarget t (''targets['' @ show_nat i @ '']'') True) (\<lambda>_. validate_targets (i + 1) ts)"

definition validateAction :: "json option \<Rightarrow> thrown + json" where
  "validateAction body =
    (case body of None \<Rightarrow> Inl (invalid ''action is required'')
     | Some action \<Rightarrow>
        (if \<not> truthy body then Inl (invalid ''action is required'')
         else (let operation = normalizeActionOperationAlias (action_op action) in
           if getAiActionDefinition operation = None then Inl (invalid ''operation is invalid'')
           else if operation = Some ''enable'' \<or> operation = Some ''disable'' then
             rbind (requireTarget action) (\<lambda>t. rbind (validateTarget t ''target'' True) (\<lambda>_. Inr action))
           else if operation = Some ''batch-enable'' \<or> operation = Some ''batch-disable'' then
             (case jget action ''targets'' of
                Some (JArr ts) \<Rightarrow> (if ts = [] then Inl (invalid ''targets is required for batch operation'')
                   else rbind (validate_targets 0 ts) (\<lambda>_. Inr action))
              | _ \<Rightarrow> Inl (invalid ''targets is required for batch operation''))
           else rbind (requireTarget action) (\<lambda>t. rbind (validateTarget t ''target'' False) (\<lambda>_.
             if operation = Some ''apply-resource-manifest''
             then rbind (requireClusterField t ''target.clusterId'') (\<lambda>_.
                  rbind (requireNamespace (jget t ''namespace'') ''target.namespace'') (\<lambda>_.
                  rbind (requireManifest (jget t ''manifest'')) (\<lambda>_. Inr action)))
             else Inr action)))))"

text \<open>The targets the response names; they are those of a validated action.\<close>

definition normalizeTargets :: "json \<Rightarrow> json list" where
  "normalizeTargets action =
    (if action_op action = Some ''batch-enable'' \<or> action_op action = Some ''batch-disable''
     then (case jget action ''targets'' of Some (JArr ts) \<Rightarrow> ts | _ \<Rightarrow> [])
     else (case jget action ''target'' of Some t \<Rightarrow> [t] | None \<Rightarrow> []))"

section \<open>Query options\<close>

definition optionalNamespace :: "json \<Rightarrow> json \<Rightarrow> thrown + string option" where
  "optionalNamespace action target = rbind (js_trim_opt (action_option action ''namespace'')) (\<lambda>o1.
     let check = (\<lambda>raw. if raw = None \<or> raw = Some [] then Inr None
          else if k8s_name (the raw) then Inr raw else Inl (invalid ''namespace is invalid'')) in
     if o1 = None \<or> o1 = Some [] then rbind (js_trim_opt (jget target ''namespace'')) check else check o1)"

definition optionalKeyword :: "json option \<Rightarrow> thrown + string option" where
  "optionalKeyword v = rbind (js_trim_opt v) (\<lambda>t. case t of None \<Rightarrow> Inr None
     | Some s \<Rightarrow> (if s = [] then Inr None
         else if length (js_lower s) > 80 then Inl (invalid ''options.keyword length must be <= 80'') else Inr (Some (js_lower s))))"

definition optionalPresetNames :: "json option \<Rightarrow> thrown + string list" where
  "optionalPresetNames v =
    (if \<not> truthy v then Inr []
     else (case v of Some (JArr items) \<Rightarrow>
         rbind (map_throw (\<lambda>i. js_trim_opt (Some i)) items) (\<lambda>trimmed.
           let names = filter (\<lambda>s. s \<noteq> []) (map the (filter (\<lambda>t. t \<noteq> None) trimmed)) in
           if length names > 20 then Inl (invalid ''options.presetNames length must be <= 20'')
           else if list_ex (\<lambda>s. length s > 64) names then Inl (invalid ''options.presetNames item length must be <= 64'')
           else Inr names)
       | _ \<Rightarrow> Inl (invalid ''options.presetNames must be an array of strings'')))"

definition resolveLimit :: "json option \<Rightarrow> thrown + int" where
  "resolveLimit v = (case v of None \<Rightarrow> Inr 20
     | Some (JNum n) \<Rightarrow> (if js_is_integer n \<and> 1 \<le> int_of_num n \<and> int_of_num n \<le> 200 then Inr (int_of_num n)
         else Inl (invalid ''options.limit must be an integer between 1 and 200''))
     | Some _ \<Rightarrow> Inl (invalid ''options.limit must be an integer between 1 and 200''))"

text \<open>What each query reads of its action before it queries anything.\<close>

record query_scope =
  qs_clusterId :: string
  qs_namespace :: "string option"
  qs_limit :: int
  qs_keyword :: "string option"

definition namespaced_queries :: "string list" where
  "namespaced_queries = [''query-pods-overview'', ''query-deployments-overview'', ''query-pvcs'', ''query-configmaps'',
     ''query-pv-pvc-bindings'', ''query-helm-releases'']"

definition query_scope :: "string \<Rightarrow> json \<Rightarrow> thrown + query_scope" where
  "query_scope op action = rbind (requireTarget action) (\<lambda>target.
     rbind (requireClusterField target ''target.clusterId'') (\<lambda>clusterId.
     rbind (if op \<in> set namespaced_queries then optionalNamespace action target else Inr None) (\<lambda>ns.
     rbind (if op = ''query-nodes-overview'' then Inr 20 else resolveLimit (action_option action ''limit'')) (\<lambda>limit.
     rbind (if op = ''query-helm-releases'' \<or> op = ''query-helm-repositories''
            then optionalKeyword (action_option action ''keyword'') else Inr None) (\<lambda>keyword.
       Inr \<lparr>qs_clusterId = clusterId, qs_namespace = ns, qs_limit = limit, qs_keyword = keyword\<rparr>)))))"

section \<open>Audit and rollback names\<close>

definition toGovernanceAction :: "string \<Rightarrow> string" where
  "toGovernanceAction op = (if op = ''enable'' \<or> op = ''batch-enable'' then ''enable'' else ''disable'')"

definition toItemAction :: "string \<Rightarrow> string" where
  "toItemAction op = (if op = ''enable'' \<or> op = ''batch-enable'' then ''enable'' else ''disable'')"

definition toVmOperation :: "string \<Rightarrow> string" where
  "toVmOperation op = (if op = ''vm-power-on'' then ''power-on'' else if op = ''vm-power-off'' then ''power-off'' else ''restart'')"

definition toVmAuditAction :: "string \<Rightarrow> string" where
  "toVmAuditAction vm = (if vm = ''power-on'' then ''enable'' else if vm = ''power-off'' then ''disable'' else ''restart'')"

definition rollback_texts :: "(string \<times> string) list" where
  "rollback_texts = [(''enable'', ''disable the same resource''), (''disable'', ''enable the same resource''),
     (''batch-enable'', ''batch-disable the same resources''), (''batch-disable'', ''batch-enable the same resources''),
     (''restart-workload'', ''roll back to the previous revision''), (''vm-power-on'', ''vm-power-off''),
     (''vm-power-off'', ''vm-power-on''), (''vm-restart'', ''vm-power-on or vm-power-off''),
     (''import-helm-repository-presets'', ''delete the imported repository records'')]"

definition buildRollbackSuggestion :: "json \<Rightarrow> string" where
  "buildRollbackSuggestion action =
    (case normalizeActionOperationAlias (action_op action) of
       Some op \<Rightarrow> (case map_of rollback_texts op of Some t \<Rightarrow> t | None \<Rightarrow> ''reverse the audited action'')
     | None \<Rightarrow> ''reverse the audited action'')"

definition deriveAuditAction :: "string option \<Rightarrow> string" where
  "deriveAuditAction operation =
    (case normalizeActionOperationAlias operation of None \<Rightarrow> ''query''
     | Some op \<Rightarrow>
        (if starts_with ''query-'' op then ''query''
         else if op = ''restart-workload'' \<or> op = ''vm-restart'' then ''restart''
         else if op = ''vm-power-on'' then ''enable''
         else if op = ''vm-power-off'' then ''disable''
         else if op \<in> {''enable'', ''disable'', ''batch-enable'', ''batch-disable''} then toGovernanceAction op
         else if op = ''import-helm-repository-presets'' then ''update''
         else ''query''))"

definition deriveResourceType :: "string option \<Rightarrow> string" where
  "deriveResourceType operation =
    (case normalizeActionOperationAlias operation of None \<Rightarrow> ''unknown''
     | Some op \<Rightarrow> (if starts_with ''query-'' op then ''ai-query'' else if starts_with ''vm-'' op then ''vm'' else ''unknown''))"

definition toExecutionError :: "thrown \<Rightarrow> error_code \<times> string" where
  "toExecutionError e =
    (case e of ApiError c m \<Rightarrow> (c, m)
     | _ \<Rightarrow> (let m = thrown_message e in
         if js_includes ''write permission required'' m then (FORBIDDEN, m)
         else if js_includes ''does not exist'' m then (NOT_FOUND, m)
         else (INTERNAL_ERROR, m)))"

end
