(* ===== verification/Kn_Yaml.thy ===== *)
theory Kn_Yaml
  imports Kn_Api
begin

text \<open>
  Applying YAML documents to a cluster: the kind registry, splitYamlDocuments, parseYamlManifests,
  prepareApplyManifest and applyYaml of resources/resources.service.ts.

  The YAML parser of the Kubernetes client is a function from text to a value (\<open>None\<close> when it
  throws), the client of a cluster and its server-side apply are programs over the outside world.
\<close>

section \<open>Resource kinds\<close>

record kind_meta =
  km_kind :: string
  km_apiVersion :: string
  km_namespaced :: bool
  km_scalable :: bool
  km_imageMutable :: bool
  km_detailSource :: "string option"
  km_storageKind :: "string option"

definition kind_meta :: "string \<Rightarrow> string \<Rightarrow> bool \<Rightarrow> bool \<Rightarrow> bool \<Rightarrow> string option \<Rightarrow> string option \<Rightarrow> kind_meta" where
  "kind_meta k a n s i d st = \<lparr>km_kind = k, km_apiVersion = a, km_namespaced = n, km_scalable = s, km_imageMutable = i,
     km_detailSource = d, km_storageKind = st\<rparr>"

definition kindMap :: "(string \<times> kind_meta) list" where
  "kindMap =
    [(''cluster'', kind_meta ''Cluster'' ''kubenova.io/v1'' False False False (Some ''cluster'') None),
     (''pod'', kind_meta ''Pod'' ''v1'' True False False (Some ''workload'') None),
     (''node'', kind_meta ''Node'' ''v1'' False False False (Some ''node'') None),
     (''deployment'', kind_meta ''Deployment'' ''apps/v1'' True True True (Some ''workload'') None),
     (''statefulset'', kind_meta ''StatefulSet'' ''apps/v1'' True True True (Some ''workload'') None),
     (''daemonset'', kind_meta ''DaemonSet'' ''apps/v1'' True False True (Some ''workload'') None),
     (''replicaset'', kind_meta ''ReplicaSet'' ''apps/v1'' True True True (Some ''workload'') None),
     (''job'', kind_meta ''Job'' ''batch/v1'' True False True (Some ''workload'') None),
     (''cronjob'', kind_meta ''CronJob'' ''batch/v1'' True False True (Some ''workload'') None),
     (''service'', kind_meta ''Service'' ''v1'' True False False (Some ''network'') None),
     (''ingress'', kind_meta ''Ingress'' ''networking.k8s.io/v1'' True False False (Some ''network'') None),
     (''ingressroute'', kind_meta ''IngressRoute'' ''traefik.io/v1alpha1'' True False False (Some ''network'') None),
     (''gatewayclass'', kind_meta ''GatewayClass'' ''gateway.networking.k8s.io/v1'' False False False (Some ''network'') None),
     (''gateway'', kind_meta ''Gateway'' ''gateway.networking.k8s.io/v1'' True False False (Some ''network'') None),
     (''httproute'', kind_meta ''HTTPRoute'' ''gateway.networking.k8s.io/v1'' True False False (Some ''network'') None),
     (''network-policy'', kind_meta ''NetworkPolicy'' ''networking.k8s.io/v1'' True False False (Some ''network'') None),
     (''middleware'', kind_meta ''Middleware'' ''traefik.io/v1alpha1'' True False False (Some ''network'') None),
     (''endpoints'', kind_meta ''Endpoints'' ''v1'' True False False (Some ''network'') None),
     (''endpointslice'', kind_meta ''EndpointSlice'' ''discovery.k8s.io/v1'' True False False (Some ''network'') None),
     (''configmap'', kind_meta ''ConfigMap'' ''v1'' True False False (Some ''config'') None),
     (''secret'', kind_meta ''Secret'' ''v1'' True False False (Some ''config'') None),
     (''serviceaccount'', kind_meta ''ServiceAccount'' ''v1'' True False False (Some ''config'') None),
     (''persistentvolumeclaim'', kind_meta ''PersistentVolumeClaim'' ''v1'' True False False (Some ''storage'') (Some ''PVC'')),
     (''pvc'', kind_meta ''PersistentVolumeClaim'' ''v1'' True False False (Some ''storage'') (Some ''PVC'')),
     (''persistentvolume'', kind_meta ''PersistentVolume'' ''v1'' False False False (Some ''storage'') (Some ''PV'')),
     (''pv'', kind_meta ''PersistentVolume'' ''v1'' False False False (Some ''storage'') (Some ''PV'')),
     (''storageclass'', kind_meta ''StorageClass'' ''storage.k8s.io/v1'' False False False (Some ''storage'') (Some ''SC'')),
     (''sc'', kind_meta ''StorageClass'' ''storage.k8s.io/v1'' False False False (Some ''storage'') (Some ''SC'')),
     (''namespace'', kind_meta ''Namespace'' ''v1'' False False False (Some ''namespace'') None),
     (''horizontalpodautoscaler'', kind_meta ''HorizontalPodAutoscaler'' ''autoscaling/v2'' True False False (Some ''autoscaling'') None),
     (''hpa'', kind_meta ''HorizontalPodAutoscaler'' ''autoscaling/v2'' True False False (Some ''autoscaling'') None),
     (''verticalpodautoscaler'', kind_meta ''VerticalPodAutoscaler'' ''autoscaling.k8s.io/v1'' True False False (Some ''autoscaling'') None),
     (''vpa'', kind_meta ''VerticalPodAutoscaler'' ''autoscaling.k8s.io/v1'' True False False (Some ''autoscaling'') None)]"

definition kind_aliases :: "(string \<times> string) list" where
  "kind_aliases =
    [(''clusters'', ''cluster''), (''pods'', ''pod''), (''deployments'', ''deployment''), (''statefulsets'', ''statefulset''),
     (''daemonsets'', ''daemonset''), (''replicasets'', ''replicaset''), (''jobs'', ''job''), (''cronjobs'', ''cronjob''),
     (''services'', ''service''), (''ingresses'', ''ingress''), (''ingressroutes'', ''ingressroute''), (''gatewayclass'', ''gatewayclass''),
     (''gatewayclasses'', ''gatewayclass''), (''gateway'', ''gateway''), (''gateways'', ''gateway''), (''httproute'', ''httproute''),
     (''httproutes'', ''httproute''), (''networkpolicy'', ''network-policy''), (''configmaps'', ''configmap''), (''secrets'', ''secret''),
     (''serviceaccounts'', ''serviceaccount''), (''middlewares'', ''middleware''), (''persistentvolumeclaims'', ''persistentvolumeclaim''), (''pvcs'', ''pvc''),
     (''persistentvolumes'', ''persistentvolume''), (''pvs'', ''pv''), (''storageclasses'', ''storageclass''), (''scs'', ''sc''),
     (''namespaces'', ''namespace''), (''helmapplications'', ''helmrelease''), (''helmreleases'', ''helmrelease''), (''helmrepositories'', ''helmrepository''),
     (''horizontalpodautoscaler'', ''horizontalpodautoscaler''), (''horizontalpodautoscalers'', ''horizontalpodautoscaler''), (''vpa'', ''verticalpodautoscaler''), (''vpas'', ''verticalpodautoscaler''),
     (''verticalpodautoscaler'', ''verticalpodautoscaler''), (''verticalpodautoscalers'', ''verticalpodautoscaler'')]"

definition normalizeKindKey :: "string \<Rightarrow> string" where
  "normalizeKindKey rawKind =
    (let key = filter (\<lambda>c. \<not> js_ws c \<and> c \<noteq> CHR ''_'' \<and> c \<noteq> CHR ''-'') (js_lower (js_trim rawKind)) in
     case map_of kind_aliases key of Some k \<Rightarrow> k | None \<Rightarrow> key)"

definition resolveKind :: "string \<Rightarrow> kind_meta option" where
  "resolveKind rawKind = map_of kindMap (normalizeKindKey rawKind)"

definition isNamespacedKind :: "string \<Rightarrow> bool res" where
  "isNamespacedKind k = (case resolveKind k of None \<Rightarrow> Inl (BadRequest ''unsupported kind'') | Some m \<Rightarrow> Inr (km_namespaced m))"

definition resolveNamespace :: "kind_meta \<Rightarrow> string option \<Rightarrow> string res" where
  "resolveNamespace m ns =
    (if \<not> km_namespaced m then Inr []
     else (case ns of None \<Rightarrow> Inl (BadRequest ''namespace required'')
       | Some n \<Rightarrow> (if js_trim n = [] then Inl (BadRequest ''namespace required'') else Inr (js_trim n))))"

section \<open>Documents\<close>

text \<open>\<open>yaml.split(/\r?\n/)\<close>.\<close>

definition strip_cr :: "string \<Rightarrow> string" where
  "strip_cr l = (if l \<noteq> [] \<and> last l = CHR 13 then butlast l else l)"

definition split_lines :: "string \<Rightarrow> string list" where
  "split_lines s = (let ps = js_split (CHR 10) s in map strip_cr (butlast ps) @ [last ps])"

text \<open>\<open>/^\s*mmm\s*(?:#.*)?$/\<close> for the three characters \<open>m\<close> of a document marker.\<close>

definition marker_line :: "string \<Rightarrow> string \<Rightarrow> bool" where
  "marker_line m line = (let t = dropWhile js_ws line; r = dropWhile js_ws (drop (length m) t) in
     starts_with m t \<and> (case r of [] \<Rightarrow> True | c # cs \<Rightarrow> c = CHR ''#'' \<and> CHR 13 \<notin> set cs))"

definition document_end :: "string \<Rightarrow> bool" where
  "document_end line \<longleftrightarrow> marker_line ''---'' line \<or> marker_line ''...'' line"

definition close_document :: "string list \<Rightarrow> string list \<Rightarrow> string list" where
  "close_document docs current = (let doc = js_trim (js_join [CHR 10] current) in if doc = [] then docs else docs @ [doc])"

fun yaml_lines :: "string list \<Rightarrow> string list \<Rightarrow> string list \<Rightarrow> string list" where
  "yaml_lines docs current [] = close_document docs current"
| "yaml_lines docs current (l # ls) =
     (if document_end l then yaml_lines (close_document docs current) [] ls else yaml_lines docs (current @ [l]) ls)"

definition splitYamlDocuments :: "string \<Rightarrow> string list" where
  "splitYamlDocuments yaml = yaml_lines [] [] (split_lines yaml)"

definition plain_object :: "json \<Rightarrow> bool" where
  "plain_object v = (case v of JObj kvs \<Rightarrow> True | _ \<Rightarrow> False)"

definition bad_yaml :: "string \<Rightarrow> thrown" where
  "bad_yaml m = HttpError (BadRequest m)"

definition parse_document :: "(string \<Rightarrow> json option) \<Rightarrow> string \<Rightarrow> thrown + json list" where
  "parse_document load doc =
    (case load doc of None \<Rightarrow> Inl (bad_yaml ''document does not parse'')
     | Some parsed \<Rightarrow>
       (if \<not> truthy (Some parsed) then Inr []
        else if \<not> plain_object parsed then Inl (bad_yaml ''document is no object'')
        else (case (jget parsed ''kind'', jget parsed ''items'') of
            (Some (JStr k), Some (JArr items)) \<Rightarrow>
              (if k = ''List'' then (if list_all plain_object items then Inr items else Inl (bad_yaml ''list item is no object''))
               else Inr [parsed])
          | _ \<Rightarrow> Inr [parsed])))"

definition parseYamlManifests :: "(string \<Rightarrow> json option) \<Rightarrow> string \<Rightarrow> thrown + json list" where
  "parseYamlManifests load yaml = rbind (map_throw (parse_document load) (splitYamlDocuments yaml)) (\<lambda>mss. Inr (concat mss))"

section \<open>Preparing a document\<close>

definition jdelete :: "string \<Rightarrow> (string \<times> json) list \<Rightarrow> (string \<times> json) list" where
  "jdelete k kvs = filter (\<lambda>(l, v). l \<noteq> k) kvs"

definition object_entries :: "json option \<Rightarrow> (string \<times> json) list" where
  "object_entries v = (case v of Some (JObj kvs) \<Rightarrow> kvs | _ \<Rightarrow> [])"

definition place_metadata :: "kind_meta option \<Rightarrow> string option \<Rightarrow> (string \<times> json) list \<Rightarrow> (string \<times> json) list" where
  "place_metadata meta defaultNamespace metadata =
    (case meta of None \<Rightarrow> metadata
     | Some m \<Rightarrow>
        (if km_namespaced m
         then (case defaultNamespace of
             Some ns \<Rightarrow> (if \<not> truthy (map_of metadata ''namespace'') \<and> ns \<noteq> [] then AList.update ''namespace'' (JStr ns) metadata else metadata)
           | None \<Rightarrow> metadata)
         else jdelete ''namespace'' metadata))"

definition prepareApplyManifest :: "(jsnum \<Rightarrow> string) \<Rightarrow> string option \<Rightarrow> json \<Rightarrow> thrown + json" where
  "prepareApplyManifest nt defaultNamespace manifest =
    (let entries = object_entries (Some manifest);
         apiVersion = js_trim (text_or_empty nt (map_of entries ''apiVersion''));
         kind = js_trim (text_or_empty nt (map_of entries ''kind''));
         metadata = object_entries (map_of entries ''metadata'');
         name = js_trim (text_or_empty nt (map_of metadata ''name'')) in
     if apiVersion = [] then Inl (bad_yaml ''apiVersion missing'')
     else if kind = [] then Inl (bad_yaml ''kind missing'')
     else if name = [] then Inl (bad_yaml ''metadata.name missing'')
     else Inr (JObj (jdelete ''status''
       (AList.update ''metadata'' (JObj (place_metadata (resolveKind kind) defaultNamespace metadata))
         (AList.update ''kind'' (JStr kind) (AList.update ''apiVersion'' (JStr apiVersion) entries))))))"

section \<open>Applying\<close>

record 'w yaml_api =
  ya_load :: "string \<Rightarrow> json option"
  ya_nt :: "jsnum \<Rightarrow> string"
  ya_client :: "string \<Rightarrow> (thrown, 'w, unit) eprog"
  ya_patch :: "string \<Rightarrow> bool \<Rightarrow> json \<Rightarrow> (thrown, 'w, json) eprog"

record yaml_input =
  yi_clusterId :: string
  yi_namespace :: "string option"
  yi_yaml :: string
  yi_dryRun :: bool

record yaml_item =
  ym_apiVersion :: string
  ym_kind :: string
  ym_namespace :: string
  ym_name :: string
  ym_dryRun :: bool
  ym_resourceVersion :: "string option"

record yaml_result =
  yr_clusterId :: string
  yr_items :: "yaml_item list"
  yr_total :: nat
  yr_dryRun :: bool

text \<open>\<open>a ?? b\<close>.\<close>

definition nullish :: "json option \<Rightarrow> json option \<Rightarrow> json option" where
  "nullish a b = (if a = None \<or> a = Some JNull then b else a)"

definition yaml_item_of :: "(jsnum \<Rightarrow> string) \<Rightarrow> bool \<Rightarrow> json \<Rightarrow> json \<Rightarrow> yaml_item" where
  "yaml_item_of nt dryRun prepared applied =
    (let meta = JObj (object_entries (jget applied ''metadata'')); pmeta = jget prepared ''metadata'' in
     \<lparr>ym_apiVersion = text_or_empty nt (nullish (jget applied ''apiVersion'') (jget prepared ''apiVersion'')),
      ym_kind = text_or_empty nt (nullish (jget applied ''kind'') (jget prepared ''kind'')),
      ym_namespace = text_or_empty nt (nullish (jget meta ''namespace'') (jget_opt pmeta ''namespace'')),
      ym_name = text_or_empty nt (nullish (jget meta ''name'') (jget_opt pmeta ''name'')),
      ym_dryRun = dryRun,
      ym_resourceVersion = jstring (jget_opt (jget applied ''metadata'') ''resourceVersion'')\<rparr>)"

definition apply_document :: "'w yaml_api \<Rightarrow> string \<Rightarrow> bool \<Rightarrow> json \<Rightarrow> (thrown, 'w, yaml_item) eprog" where
  "apply_document api clusterId dryRun prepared =
    p_bind (p_catch (ya_patch api clusterId dryRun prepared) (\<lambda>e. p_err (bad_yaml ''Kubernetes API call failed'')))
      (\<lambda>applied. p_ok (yaml_item_of (ya_nt api) dryRun prepared applied))"

definition applyYaml :: "'w yaml_api \<Rightarrow> yaml_input \<Rightarrow> (json \<Rightarrow> (thrown, 'w, unit) eprog) \<Rightarrow> (thrown, 'w, yaml_result) eprog" where
  "applyYaml api input authorize_doc =
    (let clusterId = js_trim (yi_clusterId input); yaml = js_trim (yi_yaml input) in
     if clusterId = [] then p_err (bad_yaml ''clusterId required'')
     else if yaml = [] then p_err (bad_yaml ''yaml required'')
     else p_bind (p_lift (parseYamlManifests (ya_load api) yaml)) (\<lambda>manifests.
       if manifests = [] then p_err (bad_yaml ''no resource'')
       else p_bind (p_lift (map_throw (prepareApplyManifest (ya_nt api) (map_option js_trim (yi_namespace input))) manifests)) (\<lambda>prepared.
         p_bind (p_each authorize_doc prepared) (\<lambda>_.
         p_bind (ya_client api clusterId) (\<lambda>_.
         p_bind (p_map (apply_document api clusterId (yi_dryRun input)) prepared) (\<lambda>items.
           p_ok \<lparr>yr_clusterId = clusterId, yr_items = items, yr_total = length items, yr_dryRun = yi_dryRun input\<rparr>))))))"

end
