(* ===== verification/Kn_AiExec.thy ===== *)
theory Kn_AiExec
  imports Kn_AiAction Kn_Yaml
begin

text \<open>
  Running and previewing an action of the AI assistant: ai-assistant/ai-action-executor.service.ts and
  ai-assistant/vm-unconfigured.provider.ts.

  The world holds the access tables, the cluster registry, the conversations, the audit log, the
  approvals of Kn_AiApproval and the list of what was sent to clusters. What an external call
  answers may depend on the whole world. The queries are read-only functions of the world that may
  append audit records; what each of them reads of its action is \<open>query_scope\<close>. A handler runs at
  one instant.
\<close>

section \<open>The world\<close>

datatype ai_effect =
    Patched string string string string
  | Imported string "string list" bool
  | Applied string bool json

text \<open>An effect that changes something: a server-side apply with dry-run does not.\<close>

fun mutating :: "ai_effect \<Rightarrow> bool" where
  "mutating (Patched c n k nm) = True"
| "mutating (Imported c ns s) = True"
| "mutating (Applied c dry doc) = (\<not> dry)"

record cluster_entry =
  ce_id :: string
  ce_status :: string
  ce_deletedAt :: "time option"
  ce_metadata :: json

record conversation =
  cv_id :: string
  cv_ownerUserId :: string
  cv_deletedAt :: "time option"
  cv_updatedAt :: time

record ai_message =
  am_id :: string
  am_sessionId :: string
  am_role :: string
  am_content :: string
  am_severity :: string
  am_impacted :: "string list"
  am_actions :: "string list"
  am_createdAt :: time

record ai_user =
  an_id :: string
  an_email :: string
  an_name :: "string option"

record approval_row =
  aa_id :: string
  aa_actorUserId :: "string option"
  aa_clusterId :: "json option"
  aa_action :: string
  aa_targetJson :: json
  aa_previewJson :: json
  aa_status :: string
  aa_createdAt :: time
  aa_approvedAt :: "time option"

record ai_world =
  ww_now :: time
  ww_access :: access_db
  ww_clusters :: "cluster_entry list"
  ww_users :: "ai_user list"
  ww_conversations :: "conversation list"
  ww_messages :: "ai_message list"
  ww_audits :: "audit_record list"
  ww_effects :: "ai_effect list"
  ww_approvals :: "approval_row list"

record ai_item =
  it_resourceType :: string
  it_resourceId :: string
  it_action :: string
  it_success :: bool
  it_details :: json

record writeback =
  wb_persisted :: bool
  wb_sessionId :: string
  wb_messageId :: "string option"
  wb_error :: "string option"

record ai_result =
  xr_success :: bool
  xr_requestId :: string
  xr_operation :: string
  xr_items :: "ai_item list"
  xr_rollback :: "string option"
  xr_error :: "(error_code \<times> string) option"
  xr_writeback :: "writeback option"

record ai_env =
  ee_load :: "string \<Rightarrow> json option"
  ee_nt :: "jsnum \<Rightarrow> string"
  ee_json :: "ai_item list \<Rightarrow> string"
  ee_iso :: "time \<Rightarrow> string"
  ee_requestId :: "ai_world \<Rightarrow> string"
  ee_newId :: "ai_world \<Rightarrow> string"
  ee_query :: "string \<Rightarrow> query_scope \<Rightarrow> ai_actor option \<Rightarrow> json \<Rightarrow> ai_world \<Rightarrow> (thrown + ai_item) \<times> audit_record list"
  ee_patch :: "ai_world \<Rightarrow> ai_effect \<Rightarrow> thrown + unit"
  ee_import :: "ai_world \<Rightarrow> ai_effect \<Rightarrow> thrown + json"
  ee_apply :: "ai_world \<Rightarrow> ai_effect \<Rightarrow> thrown + json"
  ee_client :: "ai_world \<Rightarrow> string \<Rightarrow> thrown + unit"
  ee_uid :: "ai_world \<Rightarrow> string \<Rightarrow> string \<Rightarrow> string res"
  ee_readback :: "json \<Rightarrow> json"
  ee_finishFails :: "ai_world \<Rightarrow> bool"
  ee_writeback :: "ai_world \<Rightarrow> nat \<Rightarrow> string option"

type_synonym 'a ai_prog = "(thrown, ai_world, 'a) eprog"

text \<open>A value read off the world; an effect is recorded and the answer read off the world before it.\<close>

definition p_read :: "(ai_world \<Rightarrow> thrown + 'a) \<Rightarrow> 'a ai_prog" where
  "p_read f w = (f w, w)"

definition p_send :: "(ai_world \<Rightarrow> ai_effect \<Rightarrow> thrown + 'a) \<Rightarrow> ai_effect \<Rightarrow> 'a ai_prog" where
  "p_send answer e w = (answer w e, w\<lparr>ww_effects := ww_effects w @ [e]\<rparr>)"

section \<open>Auditing\<close>

definition actor_text :: "(ai_actor \<Rightarrow> string option) \<Rightarrow> string \<Rightarrow> ai_actor option \<Rightarrow> string" where
  "actor_text f d actor = (case Option.bind actor f of None \<Rightarrow> d | Some s \<Rightarrow> s)"

definition audit_entry :: "ai_actor option \<Rightarrow> string \<Rightarrow> string \<Rightarrow> string \<Rightarrow> bool \<Rightarrow> string \<Rightarrow> string option \<Rightarrow> audit_record" where
  "audit_entry actor action rtype rid ok requestId reason =
    \<lparr>au_id = [], au_actor = actor_text ar_username ''unknown'' actor, au_role = actor_text ar_role ''read-only'' actor,
     au_action = action, au_resourceType = rtype, au_resourceId = rid, au_result = (if ok then ''success'' else ''failure''),
     au_reason = reason, au_requestId = Some requestId, au_timestamp = 0\<rparr>"

definition audit :: "ai_env \<Rightarrow> audit_record \<Rightarrow> unit ai_prog" where
  "audit env entry = p_do (\<lambda>w. w\<lparr>ww_audits := snd (appendAudit (ee_newId env w) (ww_now w) entry (ww_audits w))\<rparr>)"

definition action_reason :: "json \<Rightarrow> json option \<Rightarrow> string option" where
  "action_reason action other = jstring (nullish (jget action ''reason'') other)"

section \<open>Mutations\<close>

definition string_or :: "string \<Rightarrow> json option \<Rightarrow> string" where
  "string_or d v = (case jstring v of None \<Rightarrow> d | Some s \<Rightarrow> s)"

definition legacy_item :: "ai_env \<Rightarrow> ai_actor option \<Rightarrow> json \<Rightarrow> string \<Rightarrow> string \<Rightarrow> json \<Rightarrow> ai_item ai_prog" where
  "legacy_item env actor action op requestId target =
    (let rtype = string_or ''unknown'' (jget target ''resourceType''); rid = string_or ''unknown'' (jget target ''resourceId'') in
     p_bind (audit env (audit_entry actor (toGovernanceAction op) rtype rid True requestId
         (jstring (nullish (jget target ''reason'') (jget action ''reason'')))))
       (\<lambda>_. p_ok \<lparr>it_resourceType = rtype, it_resourceId = rid, it_action = toItemAction op, it_success = True, it_details = JNull\<rparr>))"

definition executeLegacyGovernanceAction :: "ai_env \<Rightarrow> ai_actor option \<Rightarrow> json \<Rightarrow> string \<Rightarrow> string \<Rightarrow> ai_item list ai_prog" where
  "executeLegacyGovernanceAction env actor action op requestId =
    p_map (legacy_item env actor action op requestId) (normalizeTargets action)"

definition importHelmRepositoryPresets :: "ai_env \<Rightarrow> ai_actor option \<Rightarrow> json \<Rightarrow> string \<Rightarrow> ai_item list ai_prog" where
  "importHelmRepositoryPresets env actor action requestId =
    p_bind (p_lift (requireTarget action)) (\<lambda>target.
    p_bind (p_lift (requireClusterField target ''target.clusterId'')) (\<lambda>clusterId.
    p_bind (p_lift (optionalPresetNames (action_option action ''presetNames''))) (\<lambda>names.
      let sync = action_option action ''sync'' \<noteq> Some (JBool False) in
    p_bind (p_send (ee_import env) (Imported clusterId names sync)) (\<lambda>payload.
      let imported = (case jget payload ''imported'' of Some (JArr xs) \<Rightarrow> map (\<lambda>x. JObj (object_entries (Some x))) xs | _ \<Rightarrow> []);
          failed = filter (\<lambda>x. jget x ''syncStatus'' = Some (JStr ''failed'')) imported in
    p_bind (audit env (audit_entry actor ''update'' ''helm-repository'' (''presets:'' @ clusterId) (failed = []) requestId
        (jstring (jget action ''reason'')))) (\<lambda>_.
      p_ok [\<lparr>it_resourceType = ''helm-repository-presets'', it_resourceId = clusterId, it_action = ''import-helm-repository-presets'',
        it_success = (failed = []), it_details = JObj [(''clusterId'', JStr clusterId), (''sync'', JBool sync),
          (''requestedPresetNames'', JArr (map JStr names)),
          (''created'', JNum (num (int (length (filter (\<lambda>x. jget x ''action'' = Some (JStr ''created'')) imported))))),
          (''existing'', JNum (num (int (length (filter (\<lambda>x. jget x ''action'' = Some (JStr ''existing'')) imported))))),
          (''failed'', JNum (num (int (length failed)))),
          (''imported'', JArr (map (\<lambda>x. JObj (map (\<lambda>k. (k, JStr (text_or_empty (ee_nt env) (jget x k))))
             [''name'', ''url'', ''action'', ''syncStatus'', ''message''])) imported))]\<rparr>])))))"

definition requireClusterContext :: "string \<Rightarrow> string ai_prog" where
  "requireClusterContext clusterId = p_read (\<lambda>w.
     case find (\<lambda>c. ce_id c = clusterId) (ww_clusters w) of
       None \<Rightarrow> Inl (ApiError NOT_FOUND ''cluster not found'')
     | Some c \<Rightarrow>
        (if ce_deletedAt c \<noteq> None \<or> ce_status c = ''deleted'' then Inl (ApiError NOT_FOUND ''cluster not found'')
         else (case jget (ce_metadata c) ''kubeconfig'' of
             Some (JStr k) \<Rightarrow> (if js_trim k = [] then Inl (ApiError PRECONDITION_FAILED ''kubeconfig is not configured'') else Inr k)
           | _ \<Rightarrow> Inl (ApiError PRECONDITION_FAILED ''kubeconfig is not configured''))))"

definition path3 :: "string \<Rightarrow> string \<Rightarrow> string \<Rightarrow> string" where
  "path3 a b c = a @ ''/'' @ b @ ''/'' @ c"

definition restartWorkload :: "ai_env \<Rightarrow> ai_actor option \<Rightarrow> json \<Rightarrow> string \<Rightarrow> ai_item list ai_prog" where
  "restartWorkload env actor action requestId =
    p_bind (p_lift (requireTarget action)) (\<lambda>target.
    p_bind (p_lift (requireClusterField target ''target.clusterId'')) (\<lambda>clusterId.
    p_bind (p_lift (requireNamespace (jget target ''namespace'') ''target.namespace'')) (\<lambda>ns.
    p_bind (p_lift (requireRestartKind (jget target ''kind'') ''target.kind'')) (\<lambda>kind.
    p_bind (p_lift (requireResourceName (jget target ''name'') ''target.name'')) (\<lambda>nm.
    p_bind (requireClusterContext clusterId) (\<lambda>kubeconfig.
    p_bind (p_read (\<lambda>w. Inr (ee_iso env (ww_now w)))) (\<lambda>restartedAt.
    p_bind (p_send (ee_patch env) (Patched clusterId ns kind nm)) (\<lambda>_.
    p_bind (audit env (audit_entry actor ''restart'' kind (path3 clusterId ns nm) True requestId
        (action_reason action (jget target ''reason'')))) (\<lambda>_.
      p_ok [\<lparr>it_resourceType = kind, it_resourceId = path3 clusterId ns nm, it_action = ''restart-workload'', it_success = True,
        it_details = JObj [(''clusterId'', JStr clusterId), (''namespace'', JStr ns), (''kind'', JStr kind), (''name'', JStr nm),
          (''restartedAt'', JStr restartedAt)]\<rparr>])))))))))"

section \<open>Manifests\<close>

definition actor_subject :: "ai_actor option \<Rightarrow> subject option" where
  "actor_subject actor = Some \<lparr>sj_id = Option.bind actor ar_userId, sj_role = Option.bind actor ar_role\<rparr>"

definition requireActorId :: "ai_actor option \<Rightarrow> thrown + string" where
  "requireActorId actor = (case map_option js_trim (Option.bind actor ar_userId) of
     None \<Rightarrow> Inl (ApiError FORBIDDEN ''a user identity is required'')
   | Some u \<Rightarrow> (if u = [] then Inl (ApiError FORBIDDEN ''a user identity is required'') else Inr u))"

definition require_decision :: "ai_actor option \<Rightarrow> string \<Rightarrow> string \<Rightarrow> string \<Rightarrow> string \<Rightarrow> unit ai_prog" where
  "require_decision actor clusterId uid capability m = p_bind (p_lift (requireActorId actor)) (\<lambda>u.
     p_read (\<lambda>w. if dc_allowed (authorize (ww_access w) (ww_now w)
           \<lparr>rq_userId = u, rq_clusterId = clusterId, rq_namespaceUid = Some uid, rq_capability = Some capability, rq_mutation = True\<rparr>)
       then Inr () else Inl (ApiError FORBIDDEN m)))"

definition authorizeAiMutation :: "ai_actor option \<Rightarrow> string \<Rightarrow> string \<Rightarrow> unit ai_prog" where
  "authorizeAiMutation actor clusterId uid =
    (if isPlatformAdmin (actor_subject actor) then p_ok ()
     else require_decision actor clusterId uid ''ai-assistant:use'' ''AI writes are not granted'')"

definition authorize_document :: "ai_env \<Rightarrow> ai_actor option \<Rightarrow> string \<Rightarrow> string \<Rightarrow> string \<Rightarrow> json \<Rightarrow> unit ai_prog" where
  "authorize_document env actor clusterId ns uid doc =
    (let nt = ee_nt env in
     if js_trim (text_or_empty nt (jget_opt (jget doc ''metadata'') ''namespace'')) \<noteq> ns
     then p_err (ApiError FORBIDDEN ''resource outside the namespace'')
     else if js_lower (text_or_empty nt (jget doc ''kind'')) = ''secret''
     then require_decision actor clusterId uid ''secrets'' ''secrets are not granted''
     else p_ok ())"

definition ai_yaml :: "ai_env \<Rightarrow> ai_world yaml_api" where
  "ai_yaml env = \<lparr>ya_load = ee_load env, ya_nt = ee_nt env, ya_client = \<lambda>c. p_read (\<lambda>w. ee_client env w c),
     ya_patch = \<lambda>c dry doc. p_send (ee_apply env) (Applied c dry doc)\<rparr>"

definition run_manifest :: "ai_env \<Rightarrow> ai_actor option \<Rightarrow> json \<Rightarrow> bool \<Rightarrow> (string \<times> string \<times> yaml_result) ai_prog" where
  "run_manifest env actor action dryRun =
    p_bind (p_lift (requireTarget action)) (\<lambda>target.
    p_bind (p_lift (requireClusterField target ''target.clusterId'')) (\<lambda>clusterId.
    p_bind (p_lift (requireNamespace (jget target ''namespace'') ''target.namespace'')) (\<lambda>ns.
    p_bind (p_lift (requireManifest (jget target ''manifest''))) (\<lambda>manifest.
    p_bind (p_read (\<lambda>w. lift_http (assertCanMutate (ww_access w) (ww_now w) (actor_subject actor) (Some clusterId)))) (\<lambda>_.
    p_bind (p_read (\<lambda>w. lift_http (ee_uid env w clusterId ns))) (\<lambda>uid.
    p_bind (authorizeAiMutation actor clusterId uid) (\<lambda>_.
    p_bind (applyYaml (ai_yaml env) \<lparr>yi_clusterId = clusterId, yi_namespace = Some ns, yi_yaml = manifest, yi_dryRun = dryRun\<rparr>
        (authorize_document env actor clusterId ns uid)) (\<lambda>result.
      p_ok (clusterId, ns, result)))))))))"

definition yaml_item_json :: "yaml_item \<Rightarrow> json" where
  "yaml_item_json i = JObj ([(''apiVersion'', JStr (ym_apiVersion i)), (''kind'', JStr (ym_kind i)), (''namespace'', JStr (ym_namespace i)),
     (''name'', JStr (ym_name i)), (''dryRun'', JBool (ym_dryRun i)),
     (''message'', JStr (if ym_dryRun i then ''valid (dry-run)'' else ''applied''))]
     @ (case ym_resourceVersion i of None \<Rightarrow> [] | Some v \<Rightarrow> [(''resourceVersion'', JStr v)]))"

definition manifest_item :: "bool \<Rightarrow> string \<Rightarrow> string \<Rightarrow> yaml_result \<Rightarrow> ai_item" where
  "manifest_item dryRun clusterId ns result =
    \<lparr>it_resourceType = ''k8s-manifest'', it_resourceId = clusterId @ ''/'' @ ns, it_action = ''apply-resource-manifest'', it_success = True,
     it_details = JObj ([(''clusterId'', JStr clusterId), (''namespace'', JStr ns)] @ (if dryRun then [(''dryRun'', JBool True)] else []) @
       [(''total'', JNum (num (int (yr_total result)))), (''items'', JArr (map yaml_item_json (yr_items result)))])\<rparr>"

definition applyResourceManifest :: "ai_env \<Rightarrow> ai_actor option \<Rightarrow> json \<Rightarrow> string \<Rightarrow> ai_item list ai_prog" where
  "applyResourceManifest env actor action requestId =
    p_bind (run_manifest env actor action False) (\<lambda>(clusterId, ns, result).
    p_bind (audit env (audit_entry actor ''update'' ''k8s-manifest'' (clusterId @ ''/'' @ ns) True requestId
        (action_reason action (action_target action ''reason'')))) (\<lambda>_.
      p_ok [manifest_item False clusterId ns result]))"

definition previewResourceManifest :: "ai_env \<Rightarrow> ai_actor option \<Rightarrow> json \<Rightarrow> ai_item list ai_prog" where
  "previewResourceManifest env actor action =
    p_bind (run_manifest env actor action True) (\<lambda>(clusterId, ns, result). p_ok [manifest_item True clusterId ns result])"

section \<open>Virtual machines\<close>

text \<open>The provider that is always installed refuses every request.\<close>

definition executePowerAction :: "string \<Rightarrow> string \<Rightarrow> string \<Rightarrow> bool \<times> string" where
  "executePowerAction provider vmId operation = (False, ''VM provider is not configured'')"

definition executeVmPowerAction :: "ai_env \<Rightarrow> ai_actor option \<Rightarrow> json \<Rightarrow> string \<Rightarrow> string \<Rightarrow> ai_item list ai_prog" where
  "executeVmPowerAction env actor action op requestId =
    p_bind (p_lift (requireTarget action)) (\<lambda>target.
    p_bind (p_lift (requireSimpleField (jget target ''provider'') ''target.provider'' 1 64)) (\<lambda>provider.
    p_bind (p_lift (requireSimpleField (jget target ''vmId'') ''target.vmId'' 1 128)) (\<lambda>vmId.
      let operation = toVmOperation op; (accepted, m) = executePowerAction provider vmId operation; rid = provider @ ''/'' @ vmId in
    p_bind (audit env (audit_entry actor (toVmAuditAction operation) ''vm'' rid accepted requestId
        (action_reason action (jget target ''reason'')))) (\<lambda>_.
      p_ok [\<lparr>it_resourceType = ''vm'', it_resourceId = rid, it_action = op, it_success = accepted,
        it_details = JObj [(''provider'', JStr provider), (''vmId'', JStr vmId), (''accepted'', JBool accepted), (''message'', JStr m)]\<rparr>]))))"

section \<open>Queries\<close>

definition run_query :: "ai_env \<Rightarrow> ai_actor option \<Rightarrow> json \<Rightarrow> string \<Rightarrow> ai_item list ai_prog" where
  "run_query env actor action op =
    p_bind (p_lift (query_scope op action)) (\<lambda>scope w.
      case ee_query env op scope actor action w of
        (Inl e, audits) \<Rightarrow> (Inl e, w\<lparr>ww_audits := audits @ ww_audits w\<rparr>)
      | (Inr item, audits) \<Rightarrow> (Inr [item], w\<lparr>ww_audits := audits @ ww_audits w\<rparr>))"

end
