(* ===== verification/Kn_AiRun.thy ===== *)
theory Kn_AiRun
  imports Kn_AiExec
begin

text \<open>
  The two entry points of ai-assistant/ai-action-executor.service.ts: execute with its dispatch, its
  error report and the write back into the conversation, and preview.
\<close>

section \<open>Write back\<close>

definition resolveActorUserId :: "ai_world \<Rightarrow> string option \<Rightarrow> string option" where
  "resolveActorUserId w username = (case map_option js_trim username of
     None \<Rightarrow> None
   | Some n \<Rightarrow> (if n = [] then None else map_option an_id (find (\<lambda>u. an_email u = n \<or> an_name u = Some n) (ww_users w))))"

definition line_if :: "(jsnum \<Rightarrow> string) \<Rightarrow> string \<Rightarrow> json option \<Rightarrow> string list" where
  "line_if nt label v = (if truthy v then [label @ text_or_empty nt v] else [])"

definition formatExecutionWritebackMessage :: "ai_env \<Rightarrow> json \<Rightarrow> ai_result \<Rightarrow> string" where
  "formatExecutionWritebackMessage env action r =
    (let nt = ee_nt env; t = action_target action in
     js_join [CHR 10] ([if xr_success r then ''action done'' else ''action failed'', ''operation: '' @ xr_operation r,
         ''request: '' @ xr_requestId r]
       @ line_if nt ''cluster: '' (t ''clusterId'') @ line_if nt ''namespace: '' (t ''namespace'')
       @ (if truthy (t ''kind'') \<and> truthy (t ''name'')
          then [''resource: '' @ text_or_empty nt (t ''kind'') @ ''/'' @ text_or_empty nt (t ''name'')] else [])
       @ line_if nt ''VM Provider: '' (t ''provider'') @ line_if nt ''VM ID: '' (t ''vmId'')
       @ (case xr_error r of None \<Rightarrow> [] | Some (c, m) \<Rightarrow> (if m = [] then [] else [''error: '' @ m]))
       @ (if xr_items r = [] then [] else [[], ''```json'', ee_json env (xr_items r), ''```''])
       @ (case xr_rollback r of None \<Rightarrow> [] | Some t \<Rightarrow> (if t = [] then [] else [''rollback: '' @ t]))))"

definition writeback_error :: "string \<Rightarrow> string \<Rightarrow> writeback option" where
  "writeback_error sid m = Some \<lparr>wb_persisted = False, wb_sessionId = sid, wb_messageId = None, wb_error = Some m\<rparr>"

definition store_message :: "ai_env \<Rightarrow> json \<Rightarrow> ai_result \<Rightarrow> string \<Rightarrow> ai_world \<Rightarrow> writeback option \<times> ai_world" where
  "store_message env action r sid w =
    (case ee_writeback env w 1 of Some m \<Rightarrow> (writeback_error sid m, w)
     | None \<Rightarrow>
        (let mid = ee_newId env w;
             w1 = w\<lparr>ww_messages := ww_messages w @ [\<lparr>am_id = mid, am_sessionId = sid, am_role = ''assistant'',
               am_content = formatExecutionWritebackMessage env action r, am_severity = (if xr_success r then ''info'' else ''high''),
               am_impacted = map (\<lambda>i. it_resourceType i @ ''/'' @ it_resourceId i) (xr_items r), am_actions = [xr_operation r],
               am_createdAt = ww_now w\<rparr>]\<rparr> in
         (case ee_writeback env w1 2 of Some m \<Rightarrow> (writeback_error sid m, w1)
          | None \<Rightarrow> (Some \<lparr>wb_persisted = True, wb_sessionId = sid, wb_messageId = Some mid, wb_error = None\<rparr>,
              w1\<lparr>ww_conversations := map (\<lambda>c. if cv_id c = sid then c\<lparr>cv_updatedAt := ww_now w\<rparr> else c) (ww_conversations w1)\<rparr>))))"

definition writeback_into :: "ai_env \<Rightarrow> ai_actor option \<Rightarrow> json \<Rightarrow> ai_result \<Rightarrow> string \<Rightarrow> ai_world \<Rightarrow> writeback option \<times> ai_world" where
  "writeback_into env actor action r sid w =
    (case ee_writeback env w 0 of Some m \<Rightarrow> (writeback_error sid m, w)
     | None \<Rightarrow>
        (case find (\<lambda>c. cv_id c = sid) (ww_conversations w) of
           None \<Rightarrow> (writeback_error sid ''session not found'', w)
         | Some c \<Rightarrow>
            (if cv_deletedAt c \<noteq> None then (writeback_error sid ''session not found'', w)
             else (let actorUserId = (case Option.bind actor ar_userId of Some u \<Rightarrow> Some u
                     | None \<Rightarrow> resolveActorUserId w (Option.bind actor ar_username)) in
               if actorUserId \<noteq> None \<and> actorUserId \<noteq> Some [] \<and> actorUserId \<noteq> Some (cv_ownerUserId c)
               then (writeback_error sid ''session ownership mismatch'', w)
               else store_message env action r sid w))))"

definition persistExecutionWriteback :: "ai_env \<Rightarrow> ai_actor option \<Rightarrow> json \<Rightarrow> ai_result \<Rightarrow> writeback option ai_prog" where
  "persistExecutionWriteback env actor action r =
    p_bind (p_lift (js_trim_opt (jget action ''sessionId''))) (\<lambda>sid.
      case sid of None \<Rightarrow> p_ok None
      | Some s \<Rightarrow> (if s = [] then p_ok None
          else (\<lambda>w. case writeback_into env actor action r s w of (wb, w') \<Rightarrow> (Inr wb, w'))))"

definition with_writeback :: "ai_env \<Rightarrow> ai_actor option \<Rightarrow> json \<Rightarrow> ai_result \<Rightarrow> ai_result ai_prog" where
  "with_writeback env actor action r =
    p_bind (persistExecutionWriteback env actor action r) (\<lambda>wb. p_ok (r\<lparr>xr_writeback := wb\<rparr>))"

section \<open>Dispatch\<close>

definition query_operations :: "string list" where
  "query_operations = [''query-pods-overview'', ''query-deployments-overview'', ''query-nodes-overview'', ''query-pv-pvc-bindings'',
     ''query-pvcs'', ''query-storageclasses'', ''query-configmaps'', ''query-helm-releases'', ''query-helm-repositories'']"

definition with_permission :: "ai_actor option \<Rightarrow> 'a ai_prog \<Rightarrow> 'a ai_prog" where
  "with_permission actor m = p_bind (p_lift (lift_http (assertWritePermission (Option.bind actor ar_role)))) (\<lambda>_. m)"

definition run_mutation :: "ai_env \<Rightarrow> ai_actor option \<Rightarrow> json \<Rightarrow> string \<Rightarrow> string \<Rightarrow> (ai_item list \<times> string) ai_prog" where
  "run_mutation env actor action op requestId =
    (if op = ''import-helm-repository-presets''
     then p_bind (importHelmRepositoryPresets env actor action requestId) (\<lambda>is. p_ok (is, ''delete the imported repository records''))
     else if op = ''restart-workload''
     then p_bind (restartWorkload env actor action requestId) (\<lambda>is. p_ok (is, ''roll out the previous image or revision''))
     else if op = ''vm-power-on'' \<or> op = ''vm-power-off'' \<or> op = ''vm-restart''
     then p_bind (executeVmPowerAction env actor action op requestId) (\<lambda>is. p_ok (is, ''reverse the power action''))
     else if op = ''apply-resource-manifest''
     then p_bind (applyResourceManifest env actor action requestId) (\<lambda>is. p_ok (is, ''restore the previous YAML version''))
     else p_bind (executeLegacyGovernanceAction env actor action op requestId) (\<lambda>is. p_ok (is, buildRollbackSuggestion action)))"

definition mutation_operations :: "string list" where
  "mutation_operations = [''import-helm-repository-presets'', ''restart-workload'', ''vm-power-on'', ''vm-power-off'', ''vm-restart'',
     ''apply-resource-manifest'', ''enable'', ''disable'', ''batch-enable'', ''batch-disable'']"

definition dispatch :: "ai_env \<Rightarrow> ai_actor option \<Rightarrow> json \<Rightarrow> string \<Rightarrow> string \<Rightarrow> (ai_item list \<times> string option) ai_prog" where
  "dispatch env actor action op requestId =
    (if op \<in> set query_operations then p_bind (run_query env actor action op) (\<lambda>is. p_ok (is, None))
     else if op \<in> set mutation_operations
     then with_permission actor (p_bind (run_mutation env actor action op requestId) (\<lambda>(is, rb). p_ok (is, Some rb)))
     else p_err (invalid ''operation is invalid''))"

definition normalized_op :: "json \<Rightarrow> string" where
  "normalized_op action = (case action_op action of None \<Rightarrow> [] | Some op \<Rightarrow> op)"

definition execute_action :: "ai_env \<Rightarrow> ai_actor option \<Rightarrow> string \<Rightarrow> json \<Rightarrow> ai_result ai_prog" where
  "execute_action env actor requestId action =
    p_bind (dispatch env actor action (normalized_op action) requestId) (\<lambda>(is, rb).
      with_writeback env actor action \<lparr>xr_success = True, xr_requestId = requestId, xr_operation = normalized_op action,
        xr_items = is, xr_rollback = rb, xr_error = None, xr_writeback = None\<rparr>)"

section \<open>Failures\<close>

definition or_text :: "(jsnum \<Rightarrow> string) \<Rightarrow> json option list \<Rightarrow> string \<Rightarrow> string" where
  "or_text nt vs d = (case filter truthy vs of [] \<Rightarrow> d | v # _ \<Rightarrow> text_or_empty nt v)"

definition auditFailure :: "ai_env \<Rightarrow> ai_actor option \<Rightarrow> json \<Rightarrow> string \<Rightarrow> string \<Rightarrow> unit ai_prog" where
  "auditFailure env actor action requestId m =
    (let nt = ee_nt env; t = action_target action; reason = jget action ''reason'' in
     audit env (audit_entry actor (deriveAuditAction (action_op action))
       (or_text nt [t ''kind'', t ''resourceType''] (deriveResourceType (action_op action)))
       (or_text nt [t ''resourceId'', t ''name'', t ''clusterId'', t ''vmId''] ''unknown'') False requestId
       (Some (text_or_empty nt reason @ (if truthy reason then '' | '' else []) @ m))))"

definition execute_failed :: "ai_env \<Rightarrow> ai_actor option \<Rightarrow> string \<Rightarrow> json option \<Rightarrow> string \<Rightarrow> thrown \<Rightarrow> ai_result ai_prog" where
  "execute_failed env actor requestId fallback op e =
    (let err = toExecutionError e;
         r = \<lparr>xr_success = False, xr_requestId = requestId, xr_operation = op, xr_items = [],
              xr_rollback = map_option buildRollbackSuggestion fallback, xr_error = Some err, xr_writeback = None\<rparr> in
     case fallback of None \<Rightarrow> p_ok r
     | Some action \<Rightarrow> p_bind (auditFailure env actor action requestId (snd err)) (\<lambda>_. with_writeback env actor action r))"

definition unnormalized_op :: "json option \<Rightarrow> string" where
  "unnormalized_op body = (case Option.bind body (\<lambda>a. normalizeActionOperationAlias (action_op a)) of
     None \<Rightarrow> ''query-pods-overview'' | Some op \<Rightarrow> op)"

definition unnormalized_action :: "json option \<Rightarrow> json option" where
  "unnormalized_action body = (case body of None \<Rightarrow> None
     | Some a \<Rightarrow> (if truthy body then Some (jset a ''operation'' (JStr (unnormalized_op body))) else None))"

definition execute :: "ai_env \<Rightarrow> ai_actor option \<Rightarrow> json option \<Rightarrow> ai_result ai_prog" where
  "execute env actor body w =
    (let requestId = ee_requestId env w in
     case rbind (validateAction body) normalizeExecuteInput of
       Inl e \<Rightarrow> execute_failed env actor requestId (unnormalized_action body) (unnormalized_op body) e w
     | Inr action \<Rightarrow> p_catch (execute_action env actor requestId action)
         (\<lambda>e. execute_failed env actor requestId (Some action) (normalized_op action) e) w)"

section \<open>Preview\<close>

record ai_preview =
  pw_operation :: "string option"
  pw_targets :: "json list"
  pw_items :: "ai_item list"
  pw_rollback :: "string option"
  pw_error :: "(error_code \<times> string) option"

text \<open>The status of a preview is ok exactly when it names an operation.\<close>

definition preview_try :: "ai_env \<Rightarrow> ai_actor option \<Rightarrow> json option \<Rightarrow> ai_preview ai_prog" where
  "preview_try env actor body =
    p_bind (p_lift (rbind (validateAction body) normalizeExecuteInput)) (\<lambda>action.
    p_bind (if action_op action = Some ''apply-resource-manifest'' then previewResourceManifest env actor action else p_ok []) (\<lambda>is.
      p_ok \<lparr>pw_operation = action_op action, pw_targets = normalizeTargets action, pw_items = is,
        pw_rollback = Some (buildRollbackSuggestion action), pw_error = None\<rparr>))"

definition preview :: "ai_env \<Rightarrow> ai_actor option \<Rightarrow> json option \<Rightarrow> ai_preview ai_prog" where
  "preview env actor body = p_catch (preview_try env actor body)
     (\<lambda>e. p_ok \<lparr>pw_operation = None, pw_targets = [], pw_items = [], pw_rollback = None, pw_error = Some (toExecutionError e)\<rparr>)"

end
