(* ===== verification/Kn_StableJson.thy ===== *)
theory Kn_StableJson
  imports Kn_Api
begin

text \<open>
  \<open>stableJson\<close> of ai-assistant/ai-action-approval.service.ts: a text of a JSON value that does not
  depend on the order of object keys. Two values have the same text exactly when their canonical
  forms are equal, so comparing texts compares values. \<open>nt\<close> is the text of a number.
\<close>

section \<open>JSON text\<close>

definition hex_digit :: "nat \<Rightarrow> char" where
  "hex_digit n = char_of (if n < 10 then 48 + n else 87 + n)"

text \<open>How \<open>JSON.stringify\<close> writes one character of a string.\<close>

definition json_char :: "char \<Rightarrow> string" where
  "json_char c = (let n = (of_char c :: nat) in
     if n = 34 then [CHR 92, CHR 34] else if n = 92 then [CHR 92, CHR 92]
     else if n = 8 then [CHR 92, CHR ''b''] else if n = 9 then [CHR 92, CHR ''t''] else if n = 10 then [CHR 92, CHR ''n'']
     else if n = 12 then [CHR 92, CHR ''f''] else if n = 13 then [CHR 92, CHR ''r'']
     else if n < 32 then [CHR 92, CHR ''u'', CHR ''0'', CHR ''0'', hex_digit (n div 16), hex_digit (n mod 16)]
     else [c])"

definition json_quote :: "string \<Rightarrow> string" where
  "json_quote s = CHR 34 # concat (map json_char s) @ [CHR 34]"

definition number_json :: "(jsnum \<Rightarrow> string) \<Rightarrow> jsnum \<Rightarrow> string" where
  "number_json nt n = (case n of Fin q \<Rightarrow> nt n | _ \<Rightarrow> ''null'')"

definition entry_text :: "string \<times> string \<Rightarrow> string" where
  "entry_text e = json_quote (fst e) @ '':'' @ snd e"

definition key_cmp :: "string \<times> 'a \<Rightarrow> string \<times> 'a \<Rightarrow> int" where
  "key_cmp a b = code_unit_cmp (fst a) (fst b)"

fun stableJson :: "(jsnum \<Rightarrow> string) \<Rightarrow> json \<Rightarrow> string" where
  "stableJson nt (JArr vs) = ''['' @ js_join '','' (map (stableJson nt) vs) @ '']''"
| "stableJson nt (JObj kvs) =
     ''{'' @ js_join '','' (map entry_text (js_sort key_cmp (map (\<lambda>(k, v). (k, stableJson nt v)) kvs))) @ ''}''"
| "stableJson nt JNull = ''null''"
| "stableJson nt (JBool b) = (if b then ''true'' else ''false'')"
| "stableJson nt (JNum n) = number_json nt n"
| "stableJson nt (JStr s) = json_quote s"

text \<open>The same text without sorting: the text of a canonical value.\<close>

fun plain_text :: "(jsnum \<Rightarrow> string) \<Rightarrow> json \<Rightarrow> string" where
  "plain_text nt (JArr vs) = ''['' @ js_join '','' (map (plain_text nt) vs) @ '']''"
| "plain_text nt (JObj kvs) = ''{'' @ js_join '','' (map entry_text (map (\<lambda>(k, v). (k, plain_text nt v)) kvs)) @ ''}''"
| "plain_text nt JNull = ''null''"
| "plain_text nt (JBool b) = (if b then ''true'' else ''false'')"
| "plain_text nt (JNum n) = number_json nt n"
| "plain_text nt (JStr s) = json_quote s"

lemma insert_cmp_map:
  "(\<And>a b. cmp (f a) (f b) = cmp' a b) \<Longrightarrow> insert_cmp cmp (f x) (map f ys) = map f (insert_cmp cmp' x ys)"
  by (induction ys) auto

lemma js_sort_map:
  "(\<And>a b. cmp (f a) (f b) = cmp' a b) \<Longrightarrow> js_sort cmp (map f xs) = map f (js_sort cmp' xs)"
  by (induction xs) (auto simp: js_sort_def insert_cmp_map)

lemma stableJson_canonical: "stableJson nt v = plain_text nt (canonicalValue code_unit_cmp v)"
proof (induction v)
  case (JObj kvs)
  let ?c = "canonicalValue code_unit_cmp" and ?p = "\<lambda>(k, v). (k, plain_text nt v)"
  have "map (\<lambda>(k, v). (k, stableJson nt v)) kvs = map ?p (map (\<lambda>(k, v). (k, ?c v)) kvs)"
    using JObj by (auto simp: snds.simps intro!: map_cong)
  moreover have "js_sort key_cmp (map ?p xs) = map ?p (js_sort (entry_cmp code_unit_cmp) xs)" for xs
    by (rule js_sort_map) (auto simp: key_cmp_def entry_cmp_def split: prod.splits)
  ultimately show ?case unfolding stableJson.simps canonicalValue.simps plain_text.simps by (simp only:)
next
  case (JArr vs)
  then show ?case by (simp cong: map_cong)
qed auto

section \<open>Reading a text back\<close>

text \<open>
  What is used of the text of a number: it is not empty, has only the characters below, and is
  different for different numbers.
\<close>

definition number_char :: "char \<Rightarrow> bool" where
  "number_char c \<longleftrightarrow> is_digit c \<or> c = CHR ''-'' \<or> c = CHR ''+'' \<or> c = CHR ''.'' \<or> c = CHR ''e''"

definition number_text :: "(jsnum \<Rightarrow> string) \<Rightarrow> bool" where
  "number_text nt \<longleftrightarrow> (\<forall>q. nt (Fin q) \<noteq> [] \<and> (\<forall>c \<in> set (nt (Fin q)). number_char c))
    \<and> inj (\<lambda>q. nt (Fin q))"

fun finite_json :: "json \<Rightarrow> bool" where
  "finite_json (JNum n) = (case n of Fin q \<Rightarrow> True | _ \<Rightarrow> False)"
| "finite_json (JArr vs) = list_all finite_json vs"
| "finite_json (JObj kvs) = list_all (\<lambda>(k, v). finite_json v) kvs"
| "finite_json v = True"

text \<open>What may follow a value inside a text.\<close>

definition ends :: "string \<Rightarrow> bool" where
  "ends r \<longleftrightarrow> r = [] \<or> hd r \<in> {CHR '','', CHR '']'', CHR ''}''}"

lemma ends_simps [simp]: "ends []" "ends (CHR '','' # r)" "ends (CHR '']'' # r)" "ends (CHR ''}'' # r)"
  by (simp_all add: ends_def)

definition hex_value :: "char \<Rightarrow> nat" where
  "hex_value c = (if is_digit c then of_char c - 48 else of_char c - 87)"

text \<open>One character of a quoted string can be read back.\<close>

definition read_char :: "string \<Rightarrow> (char \<times> string) option" where
  "read_char s = (case s of [] \<Rightarrow> None
     | c # r \<Rightarrow>
        (if c \<noteq> CHR 92 then (if c = CHR 34 then None else Some (c, r))
         else (case r of [] \<Rightarrow> None
           | d # r' \<Rightarrow>
              (if d = CHR ''b'' then Some (char_of (8 :: nat), r') else if d = CHR ''t'' then Some (char_of (9 :: nat), r')
               else if d = CHR ''n'' then Some (char_of (10 :: nat), r') else if d = CHR ''f'' then Some (char_of (12 :: nat), r')
               else if d = CHR ''r'' then Some (char_of (13 :: nat), r')
               else if d = CHR ''u'' then Some (char_of (hex_value (r' ! 2) * 16 + hex_value (r' ! 3)), drop 4 r')
               else Some (d, r')))))"


lemma hex_value_digit: "m < 16 \<Longrightarrow> hex_value (hex_digit m) = m"
  by (simp add: hex_value_def hex_digit_def is_digit_def)

lemma char_code_eq: "c = CHR 34 \<longleftrightarrow> (of_char c :: nat) = 34" "c = CHR 92 \<longleftrightarrow> (of_char c :: nat) = 92"
  by (simp_all flip: of_char_eq_iff [where ?'a = nat])

lemma read_json_char: "read_char (json_char c @ r) = Some (c, r)"
proof -
  have c: "c = char_of (of_char c :: nat)" by simp
  let ?n = "of_char c :: nat"
  consider "c = CHR 34 \<or> c = CHR 92" | "?n \<in> {8, 9, 10, 12, 13}" | "?n < 32" "?n \<notin> {8, 9, 10, 12, 13}" | "32 \<le> ?n" "?n \<notin> {34, 92}"
    unfolding char_code_eq by fastforce
  then show ?thesis
  proof cases
    case 1
    then show ?thesis by (auto simp: json_char_def read_char_def)
  next
    case 2
    then have "c \<in> char_of ` {8 :: nat, 9, 10, 12, 13}" using c by (metis imageI)
    then show ?thesis by (auto simp: json_char_def read_char_def)
  next
    case 3
    then have "json_char c = [CHR 92, CHR ''u'', CHR ''0'', CHR ''0'', hex_digit (?n div 16), hex_digit (?n mod 16)]"
      by (auto simp: json_char_def Let_def)
    moreover have "?n div 16 < 16" "?n mod 16 < 16" using 3 by auto
    ultimately show ?thesis by (simp add: read_char_def hex_value_digit eval_nat_numeral(3)[symmetric])
  next
    case 4
    then show ?thesis by (simp add: json_char_def read_char_def char_code_eq)
  qed
qed

lemma quote_body_read:
  "concat (map json_char s) @ CHR 34 # r = concat (map json_char t) @ CHR 34 # u \<Longrightarrow> s = t \<and> r = u"
proof (induction s arbitrary: t)
  case Nil
  show ?case
  proof (cases t)
    case (Cons d t')
    have "read_char (CHR 34 # r) = None" by (simp add: read_char_def)
    with Nil Cons show ?thesis by (simp add: read_json_char)
  qed (use Nil in simp)
next
  case (Cons c s)
  show ?case
  proof (cases t)
    case Nil
    have "read_char (CHR 34 # u) = None" by (simp add: read_char_def)
    moreover have "CHR 34 # u = json_char c @ concat (map json_char s) @ CHR 34 # r" using Cons.prems Nil by simp
    ultimately show ?thesis by (simp only: read_json_char) simp
  next
    case (Cons d t')
    then have "read_char (json_char c @ concat (map json_char s) @ CHR 34 # r) = read_char (json_char d @ concat (map json_char t') @ CHR 34 # u)"
      using Cons.prems by simp
    then show ?thesis using Cons.IH [of t'] Cons by (simp add: read_json_char)
  qed
qed

lemma quote_read: "json_quote s @ r = json_quote t @ u \<Longrightarrow> s = t \<and> r = u"
  using quote_body_read [of s r t u] by (simp add: json_quote_def)

text \<open>\<open>reads ok P x\<close>: in a text that starts with \<open>P x\<close>, what follows is known once \<open>x\<close> is read.\<close>

definition reads :: "('a \<Rightarrow> bool) \<Rightarrow> ('a \<Rightarrow> string) \<Rightarrow> 'a \<Rightarrow> bool" where
  "reads ok P x \<longleftrightarrow> (\<forall>y r s. ok y \<longrightarrow> ends r \<longrightarrow> ends s \<longrightarrow> P x @ r = P y @ s \<longrightarrow> x = y \<and> r = s)"

fun tails :: "string list \<Rightarrow> string" where
  "tails [] = []"
| "tails (x # xs) = CHR '','' # x @ tails xs"

lemma js_join_tails: "js_join '','' (x # xs) = x @ tails xs"
  by (induction xs arbitrary: x) auto

lemma ends_tails: "ends (tails xs @ CHR '']'' # r)" "ends (tails xs @ CHR ''}'' # r)"
  by (cases xs; simp)+

lemma tails_read:
  assumes z: "z = CHR '']'' \<or> z = CHR ''}''"
  shows "(\<And>x. x \<in> set xs \<Longrightarrow> reads ok P x) \<Longrightarrow> (\<And>y. y \<in> set ys \<Longrightarrow> ok y) \<Longrightarrow>
    tails (map P xs) @ z # r = tails (map P ys) @ z # s \<Longrightarrow> xs = ys \<and> r = s"
proof (induction xs arbitrary: ys)
  case Nil
  then show ?case using z by (cases ys) auto
next
  case (Cons x xs)
  from Cons.prems(3) z obtain y ys' where ys: "ys = y # ys'" by (cases ys) auto
  have "ends (tails (map P xs) @ z # r)" "ends (tails (map P ys') @ z # s)" using z ends_tails by auto
  moreover have "P x @ tails (map P xs) @ z # r = P y @ tails (map P ys') @ z # s" using Cons.prems(3) ys by simp
  moreover have "reads ok P x" "ok y" using Cons.prems(1,2) ys by auto
  ultimately have "x = y" and t: "tails (map P xs) @ z # r = tails (map P ys') @ z # s" unfolding reads_def by blast+
  moreover have "xs = ys' \<and> r = s"
    by (rule Cons.IH [OF _ _ t]) (use Cons.prems(1,2) ys in auto)
  ultimately show ?case using ys by simp
qed

lemma join_read:
  assumes z: "z = CHR '']'' \<or> z = CHR ''}''" and r: "\<And>x. x \<in> set xs \<Longrightarrow> reads ok P x" and o: "\<And>y. y \<in> set ys \<Longrightarrow> ok y"
    and opens: "\<And>x. x \<in> set xs \<union> set ys \<Longrightarrow> \<not> ends (P x)"
    and eq: "js_join '','' (map P xs) @ z # u = js_join '','' (map P ys) @ z # v"
  shows "xs = ys \<and> u = v"
proof -
  have no: "z # t \<noteq> P x @ t'" if "\<not> ends (P x)" for x t t'
    using that z by (cases "P x") (auto simp: ends_def)
  show ?thesis
  proof (cases xs)
    case Nil
    then show ?thesis using eq opens no by (cases ys) (auto simp: js_join_tails simp del: js_join.simps(2,3))
  next
    case (Cons x xs')
    show ?thesis
    proof (cases ys)
      case Nil
      then show ?thesis using eq opens no [of x] Cons by (auto simp: js_join_tails simp del: js_join.simps(2,3)) metis
    next
      case (Cons y ys')
      note xs = \<open>xs = x # xs'\<close>
      have "P x @ tails (map P xs') @ z # u = P y @ tails (map P ys') @ z # v"
        using eq xs Cons by (simp add: js_join_tails del: js_join.simps(2,3))
      moreover have "ends (tails (map P xs') @ z # u)" "ends (tails (map P ys') @ z # v)" using z ends_tails by auto
      moreover have "reads ok P x" "ok y" using r o xs Cons by auto
      ultimately have "x = y" and t: "tails (map P xs') @ z # u = tails (map P ys') @ z # v" unfolding reads_def by blast+
      moreover have "xs' = ys' \<and> u = v"
        by (rule tails_read [OF z _ _ t, where ok = ok]) (use r o xs Cons in auto)
      ultimately show ?thesis using xs Cons by simp
    qed
  qed
qed

section \<open>The text determines the value\<close>

lemma number_text_char: "number_text nt \<Longrightarrow> c \<in> set (nt (Fin q)) \<Longrightarrow> number_char c"
  by (auto simp: number_text_def)

lemma takeWhile_number:
  assumes "number_text nt" and "ends r"
  shows "takeWhile number_char (nt (Fin q) @ r) = nt (Fin q)" "dropWhile number_char (nt (Fin q) @ r) = r"
proof -
  have "r = [] \<or> \<not> number_char (hd r)" using assms(2) by (auto simp: ends_def number_char_def is_digit_def)
  then have "takeWhile number_char r = []" "dropWhile number_char r = r" by (cases r; auto)+
  then show "takeWhile number_char (nt (Fin q) @ r) = nt (Fin q)" "dropWhile number_char (nt (Fin q) @ r) = r"
    using number_text_char [OF assms(1)] by (auto simp: takeWhile_append2 dropWhile_append2)
qed

lemma number_read:
  assumes "number_text nt" and "ends r" and "ends s" and "nt (Fin p) @ r = nt (Fin q) @ s"
  shows "p = q \<and> r = s"
proof -
  have "nt (Fin p) = nt (Fin q)" "r = s"
    using takeWhile_number [OF assms(1,2), of p] takeWhile_number [OF assms(1,3), of q] assms(4) by simp_all
  then show ?thesis using assms(1) by (auto simp: number_text_def inj_def)
qed

text \<open>The first character of a text tells the kind of the value.\<close>

lemma number_hd:
  assumes "number_text nt"
  obtains c cs where "nt (Fin q) = c # cs" and "number_char c"
  using assms unfolding number_text_def by (metis list.exhaust list.set_intros(1))

lemma plain_not_ends: "number_text nt \<Longrightarrow> finite_json v \<Longrightarrow> \<not> ends (plain_text nt v)"
proof (cases v)
  case (JNum n)
  assume a: "number_text nt" "finite_json v"
  then obtain q where n: "n = Fin q" using JNum by (cases n) auto
  obtain c cs where "nt (Fin q) = c # cs" "number_char c" using number_hd [OF a(1)] .
  then show ?thesis using JNum n by (auto simp: number_json_def ends_def number_char_def is_digit_def)
qed (auto simp: ends_def json_quote_def)

definition json_kind :: "json \<Rightarrow> nat" where
  "json_kind v = (case v of JNull \<Rightarrow> 0 | JBool b \<Rightarrow> (if b then 1 else 2) | JNum n \<Rightarrow> 3 | JStr s \<Rightarrow> 4 | JArr vs \<Rightarrow> 5 | JObj kvs \<Rightarrow> 6)"

definition char_kind :: "char \<Rightarrow> nat" where
  "char_kind c = (if c = CHR ''n'' then 0 else if c = CHR ''t'' then 1 else if c = CHR ''f'' then 2
     else if c = CHR 34 then 4 else if c = CHR ''['' then 5 else if c = CHR ''{'' then 6 else 3)"

lemma plain_kind: "number_text nt \<Longrightarrow> finite_json v \<Longrightarrow> char_kind (hd (plain_text nt v @ r)) = json_kind v"
proof (cases v)
  case (JNum n)
  assume a: "number_text nt" "finite_json v"
  then obtain q where n: "n = Fin q" using JNum by (cases n) auto
  obtain c cs where "nt (Fin q) = c # cs" "number_char c" using number_hd [OF a(1)] .
  then show ?thesis using JNum n by (auto simp: number_json_def char_kind_def json_kind_def number_char_def is_digit_def)
qed (auto simp: char_kind_def json_kind_def json_quote_def)

lemma same_kind:
  "number_text nt \<Longrightarrow> finite_json v \<Longrightarrow> finite_json w \<Longrightarrow> plain_text nt v @ r = plain_text nt w @ s \<Longrightarrow> json_kind v = json_kind w"
  using plain_kind [of nt v r] plain_kind [of nt w s] by simp

lemma entry_read:
  assumes "reads finite_json (plain_text nt) v"
  shows "reads (\<lambda>e. finite_json (snd e)) (\<lambda>e. entry_text (fst e, plain_text nt (snd e))) (k, v)"
  unfolding reads_def
proof (intro allI impI)
  fix e r s
  assume e: "finite_json (snd (e :: string \<times> json))" "ends r" "ends s"
    and eq: "entry_text (fst (k, v), plain_text nt (snd (k, v))) @ r = entry_text (fst e, plain_text nt (snd e)) @ s"
  from eq have "json_quote k @ CHR '':'' # plain_text nt v @ r = json_quote (fst e) @ CHR '':'' # plain_text nt (snd e) @ s"
    by (simp add: entry_text_def)
  then have "k = fst e \<and> CHR '':'' # plain_text nt v @ r = CHR '':'' # plain_text nt (snd e) @ s" by (rule quote_read)
  then have "k = fst e" "plain_text nt v @ r = plain_text nt (snd e) @ s" by simp_all
  then show "(k, v) = e \<and> r = s" using assms e unfolding reads_def by (metis prod.collapse)
qed

lemma plain_text_reads: "number_text nt \<Longrightarrow> finite_json v \<Longrightarrow> reads finite_json (plain_text nt) v"
proof (induction v)
  case (JArr vs)
  show ?case unfolding reads_def
  proof (intro allI impI)
    fix w r s
    assume w: "finite_json w" and eq: "plain_text nt (JArr vs) @ r = plain_text nt w @ s"
    then obtain ws where ws: "w = JArr ws"
      using same_kind [OF JArr.prems w eq] by (cases w) (auto simp: json_kind_def split: if_splits)
    have "vs = ws \<and> r = s"
    proof (rule join_read [where z = "CHR '']''" and P = "plain_text nt" and ok = finite_json])
      show "js_join '','' (map (plain_text nt) vs) @ CHR '']'' # r = js_join '','' (map (plain_text nt) ws) @ CHR '']'' # s"
        using eq ws by simp
      show "reads finite_json (plain_text nt) x" if "x \<in> set vs" for x using JArr that by (simp add: list_all_iff)
      show "finite_json y" if "y \<in> set ws" for y using w ws that by (simp add: list_all_iff)
      show "\<not> ends (plain_text nt x)" if "x \<in> set vs \<union> set ws" for x
        using JArr.prems w ws that plain_not_ends [OF JArr.prems(1), of x] by (auto simp: list_all_iff)
    qed simp
    then show "JArr vs = w \<and> r = s" using ws by simp
  qed
next
  case (JObj kvs)
  let ?P = "\<lambda>e. entry_text (fst e, plain_text nt (snd e))"
  have m: "map entry_text (map (\<lambda>(k, v). (k, plain_text nt v)) xs) = map ?P xs" for xs by (induction xs) auto
  show ?case unfolding reads_def
  proof (intro allI impI)
    fix w r s
    assume w: "finite_json w" and eq: "plain_text nt (JObj kvs) @ r = plain_text nt w @ s"
    then obtain kws where ws: "w = JObj kws"
      using same_kind [OF JObj.prems w eq] by (cases w) (auto simp: json_kind_def split: if_splits)
    have "kvs = kws \<and> r = s"
    proof (rule join_read [where z = "CHR ''}''" and P = ?P and ok = "\<lambda>e. finite_json (snd e)"])
      show "js_join '','' (map ?P kvs) @ CHR ''}'' # r = js_join '','' (map ?P kws) @ CHR ''}'' # s"
        using eq ws m by (simp del: map_map)
      show "reads (\<lambda>e. finite_json (snd e)) ?P x" if "x \<in> set kvs" for x
        using JObj that by (cases x) (auto simp: list_all_iff snds.simps intro!: entry_read)
      show "finite_json (snd y)" if "y \<in> set kws" for y using w ws that by (auto simp: list_all_iff)
      show "\<not> ends (?P x)" if "x \<in> set kvs \<union> set kws" for x by (simp add: entry_text_def json_quote_def ends_def)
    qed simp
    then show "JObj kvs = w \<and> r = s" using ws by simp
  qed
next
  case (JNum n)
  then obtain p where p: "n = Fin p" by (cases n) auto
  show ?case unfolding reads_def
  proof (intro allI impI)
    fix w r s
    assume w: "finite_json w" and e: "ends r" "ends s" and eq: "plain_text nt (JNum n) @ r = plain_text nt w @ s"
    then obtain m where m: "w = JNum m"
      using same_kind [OF JNum.prems w eq] by (cases w) (auto simp: json_kind_def split: if_splits)
    then obtain q where "m = Fin q" using w by (cases m) auto
    then show "JNum n = w \<and> r = s" using number_read [OF JNum.prems(1) e, of p q] eq m p by (simp add: number_json_def)
  qed
next
  case (JStr t)
  show ?case unfolding reads_def
  proof (intro allI impI)
    fix w r s
    assume w: "finite_json w" and eq: "plain_text nt (JStr t) @ r = plain_text nt w @ s"
    then obtain u where "w = JStr u"
      using same_kind [OF JStr.prems w eq] by (cases w) (auto simp: json_kind_def split: if_splits)
    then show "JStr t = w \<and> r = s" using quote_read [of t r u s] eq by simp
  qed
next
  case (JBool b)
  show ?case unfolding reads_def
  proof (intro allI impI)
    fix w r s
    assume w: "finite_json w" and eq: "plain_text nt (JBool b) @ r = plain_text nt w @ s"
    then have "w = JBool b"
      using same_kind [OF JBool.prems w eq] by (cases w) (auto simp: json_kind_def split: if_splits)
    then show "JBool b = w \<and> r = s" using eq by simp
  qed
next
  case JNull
  show ?case unfolding reads_def
  proof (intro allI impI)
    fix w r s
    assume w: "finite_json w" and eq: "plain_text nt JNull @ r = plain_text nt w @ s"
    then have "w = JNull"
      using same_kind [OF JNull.prems w eq] by (cases w) (auto simp: json_kind_def split: if_splits)
    then show "JNull = w \<and> r = s" using eq by simp
  qed
qed

lemma finite_canonical: "finite_json (canonicalValue lc v) = finite_json v"
proof (induction v)
  case (JObj kvs)
  then show ?case by (fastforce simp: list_all_iff snds.simps split: prod.splits)
qed (auto simp: list_all_iff)

lemma stableJson_inject:
  assumes "number_text nt" and "finite_json v" and "finite_json w"
  shows "stableJson nt v = stableJson nt w \<longleftrightarrow> canonicalValue code_unit_cmp v = canonicalValue code_unit_cmp w"
proof
  assume "stableJson nt v = stableJson nt w"
  then have "plain_text nt (canonicalValue code_unit_cmp v) @ [] = plain_text nt (canonicalValue code_unit_cmp w) @ []"
    by (simp add: stableJson_canonical)
  then show "canonicalValue code_unit_cmp v = canonicalValue code_unit_cmp w"
    using plain_text_reads [OF assms(1), of "canonicalValue code_unit_cmp v"] assms unfolding reads_def finite_canonical
    by (metis ends_simps(1) finite_canonical)
qed (simp add: stableJson_canonical)

lemma stableJson_reordered: "reordered v w \<Longrightarrow> stableJson nt v = stableJson nt w"
  by (simp add: stableJson_canonical code_units.canonical_reordered)

end
