(* ===== verification/Kn_AiApproval.thy ===== *)
theory Kn_AiApproval
  imports Kn_AiRun Kn_StableJson
begin

text \<open>
  Approvals of AI actions: ai-assistant/ai-action-approval.service.ts, with the access check of
  ai-assistant/ai-assistant-access.service.ts and the two handlers of
  ai-assistant/ai-assistant.controller.ts that lead to it.

  Each database statement is a function of the table, so that the interleaving of calls can be
  described in Kn_AiSystem with the statements the handlers are made of. A JSON column may be read
  back with its keys in another order: that is the field \<open>ee_readback\<close> of the environment.
\<close>

section \<open>Statements on the table\<close>

definition APPROVAL_TTL_MS :: int where "APPROVAL_TTL_MS = 5 * 60000"

definition isReadOnly :: "json \<Rightarrow> bool" where
  "isReadOnly action = isReadOnlyAiAction (action_op action)"

definition canonicalAction :: "json \<Rightarrow> string \<Rightarrow> json" where
  "canonicalAction action operation = jset action ''operation'' (JStr operation)"

definition expire_pending :: "time \<Rightarrow> approval_row list \<Rightarrow> approval_row list" where
  "expire_pending now rows = snd (update_many (\<lambda>r. aa_status r = ''pending'' \<and> aa_createdAt r < now - APPROVAL_TTL_MS)
     (\<lambda>r. r\<lparr>aa_status := ''expired''\<rparr>) rows)"

definition first_target :: "json \<Rightarrow> json option" where
  "first_target action = nullish (jget action ''target'')
     (case jget action ''targets'' of Some (JArr (t # ts)) \<Rightarrow> Some t | _ \<Rightarrow> None)"

definition approval_of :: "string \<Rightarrow> time \<Rightarrow> string \<Rightarrow> json \<Rightarrow> ai_preview \<Rightarrow> string \<Rightarrow> approval_row" where
  "approval_of newId now userId action pv operation =
    (let confirmed = canonicalAction action operation in
     \<lparr>aa_id = newId, aa_actorUserId = Some userId, aa_clusterId = nullish (jget_opt (first_target confirmed) ''clusterId'') None,
      aa_action = operation, aa_targetJson = confirmed,
      aa_previewJson = JObj [(''targets'', JArr (pw_targets pv)),
        (''rollbackSuggestion'', case pw_rollback pv of None \<Rightarrow> JNull | Some t \<Rightarrow> JStr t)],
      aa_status = ''pending'', aa_createdAt = now, aa_approvedAt = None\<rparr>)"

definition find_approval :: "string \<Rightarrow> approval_row list \<Rightarrow> approval_row option" where
  "find_approval i rows = find (\<lambda>r. aa_id r = i) rows"

definition approval_matches :: "ai_env \<Rightarrow> time \<Rightarrow> string \<Rightarrow> json \<Rightarrow> approval_row \<Rightarrow> bool" where
  "approval_matches env now userId confirmed r \<longleftrightarrow> aa_actorUserId r = Some userId \<and> aa_status r = ''pending''
     \<and> \<not> now - aa_createdAt r > APPROVAL_TTL_MS \<and> \<not> aa_createdAt r > now
     \<and> stableJson (ee_nt env) (ee_readback env (aa_targetJson r)) = stableJson (ee_nt env) confirmed"

definition consume_approval :: "time \<Rightarrow> string \<Rightarrow> string \<Rightarrow> approval_row list \<Rightarrow> nat \<times> approval_row list" where
  "consume_approval now i userId rows = update_many
     (\<lambda>r. aa_id r = i \<and> aa_actorUserId r = Some userId \<and> aa_status r = ''pending'')
     (\<lambda>r. r\<lparr>aa_status := ''approved'', aa_approvedAt := Some now\<rparr>) rows"

definition finish_approval :: "string \<Rightarrow> approval_row list \<Rightarrow> approval_row list" where
  "finish_approval i rows = map (\<lambda>r. if aa_id r = i then r\<lparr>aa_status := ''executed''\<rparr> else r) rows"

section \<open>Preview\<close>

definition actor_id :: "ai_actor option \<Rightarrow> string option" where
  "actor_id actor = (case map_option js_trim (Option.bind actor ar_userId) of
     None \<Rightarrow> None | Some u \<Rightarrow> (if u = [] then None else Some u))"

record preview_response =
  pr_preview :: ai_preview
  pr_approvalId :: "string option"
  pr_expiresAt :: "time option"

definition forbidden :: "string \<Rightarrow> thrown" where
  "forbidden m = HttpError (Forbidden m)"

definition create_approval :: "ai_env \<Rightarrow> string \<Rightarrow> json \<Rightarrow> ai_preview \<Rightarrow> string \<Rightarrow> ai_world \<Rightarrow> approval_row \<times> ai_world" where
  "create_approval env userId action pv operation w =
    (let r = approval_of (ee_newId env w) (ww_now w) userId action pv operation in
     (r, w\<lparr>ww_approvals := ww_approvals w @ [r]\<rparr>))"

definition approval_preview :: "ai_env \<Rightarrow> ai_actor option \<Rightarrow> json option \<Rightarrow> preview_response ai_prog" where
  "approval_preview env actor body =
    p_bind (preview env actor body) (\<lambda>pv.
      case (pw_operation pv, body) of
        (Some operation, Some action) \<Rightarrow>
          (if isReadOnly action then p_ok \<lparr>pr_preview = pv, pr_approvalId = None, pr_expiresAt = None\<rparr>
           else (case actor_id actor of None \<Rightarrow> p_err (forbidden ''a user identity is required'')
             | Some userId \<Rightarrow>
                p_bind (p_do (\<lambda>w. w\<lparr>ww_approvals := expire_pending (ww_now w) (ww_approvals w)\<rparr>)) (\<lambda>_ w.
                  case create_approval env userId action pv operation w of
                    (r, w') \<Rightarrow> (Inr \<lparr>pr_preview = pv, pr_approvalId = Some (aa_id r), pr_expiresAt = Some (aa_createdAt r + APPROVAL_TTL_MS)\<rparr>, w'))))
      | _ \<Rightarrow> p_ok \<lparr>pr_preview = pv, pr_approvalId = None, pr_expiresAt = None\<rparr>)"

section \<open>Execution\<close>

definition finish_call :: "ai_env \<Rightarrow> string \<Rightarrow> ai_world \<Rightarrow> ai_world" where
  "finish_call env i w = (if ee_finishFails env w then w else w\<lparr>ww_approvals := finish_approval i (ww_approvals w)\<rparr>)"

text \<open>\<open>try { return await m } finally { ... }\<close> with a final block that never throws.\<close>

definition p_finally :: "('e, 's, 'a) eprog \<Rightarrow> ('s \<Rightarrow> 's) \<Rightarrow> ('e, 's, 'a) eprog" where
  "p_finally m f s = (case m s of (r, s') \<Rightarrow> (r, f s'))"

definition approved_execute :: "ai_env \<Rightarrow> ai_actor option \<Rightarrow> json \<Rightarrow> string \<Rightarrow> string \<Rightarrow> string \<Rightarrow> ai_result ai_prog" where
  "approved_execute env actor action userId approvalId operation =
    p_bind (p_read (\<lambda>w. case find_approval approvalId (ww_approvals w) of
         None \<Rightarrow> Inl (forbidden ''no usable approval'')
       | Some r \<Rightarrow> (if approval_matches env (ww_now w) userId (canonicalAction action operation) r then Inr (aa_id r)
           else Inl (forbidden ''no usable approval'')))) (\<lambda>i.
    p_bind (\<lambda>w. case consume_approval (ww_now w) i userId (ww_approvals w) of
         (n, rows) \<Rightarrow> ((if n \<noteq> 1 then Inl (forbidden ''approval already used'') else Inr ()), w\<lparr>ww_approvals := rows\<rparr>)) (\<lambda>_.
      p_finally (execute env actor (Some action)) (finish_call env i)))"

definition approval_execute :: "ai_env \<Rightarrow> ai_actor option \<Rightarrow> json option \<Rightarrow> string option \<Rightarrow> ai_result ai_prog" where
  "approval_execute env actor body approvalId =
    (case body of None \<Rightarrow> p_err TypeError
     | Some JNull \<Rightarrow> p_err TypeError
     | Some action \<Rightarrow>
        (if isReadOnly action then execute env actor body
         else (case (actor_id actor, approvalId) of
            (Some userId, Some i) \<Rightarrow>
              (if js_trim i = [] then p_err (forbidden ''preview and confirm first'')
               else p_bind (preview env actor body) (\<lambda>pv.
                 case pw_operation pv of None \<Rightarrow> p_err (forbidden ''the action cannot be verified'')
                 | Some operation \<Rightarrow> approved_execute env actor action userId i operation))
          | _ \<Rightarrow> p_err (forbidden ''preview and confirm first''))))"

section \<open>Access to the assistant\<close>

definition admin_role :: "string option \<Rightarrow> bool" where
  "admin_role r \<longleftrightarrow> (let role = js_lower (js_trim (case r of None \<Rightarrow> [] | Some s \<Rightarrow> s)) in role = ''admin'' \<or> role = ''platform-admin'')"

definition use_capability :: string where "use_capability = ''ai-assistant:use''"

definition authorize_scope :: "ai_env \<Rightarrow> ai_actor \<Rightarrow> string \<Rightarrow> string \<Rightarrow> string \<Rightarrow> bool \<Rightarrow> ai_actor ai_prog" where
  "authorize_scope env base userId cluster namespace mutation =
    p_bind (p_read (\<lambda>w. lift_http (ee_uid env w cluster namespace))) (\<lambda>uid.
      p_read (\<lambda>w. if dc_allowed (authorize (ww_access w) (ww_now w)
            \<lparr>rq_userId = userId, rq_clusterId = cluster, rq_namespaceUid = Some uid, rq_capability = Some use_capability, rq_mutation = mutation\<rparr>)
        then Inr (base\<lparr>ar_role := Some (if mutation then ''cluster-operator'' else ''read-only'')\<rparr>)
        else Inl (forbidden ''outside the granted scope'')))"

definition assistant_authorize :: "ai_env \<Rightarrow> ai_actor option \<Rightarrow> json option \<Rightarrow> json option \<Rightarrow> bool \<Rightarrow> bool \<Rightarrow> ai_actor ai_prog" where
  "assistant_authorize env actor clusterId ns mutation requireScope =
    (let base = (case actor of None \<Rightarrow> \<lparr>ar_userId = None, ar_username = None, ar_role = None\<rparr> | Some a \<Rightarrow> a) in
     if admin_role (ar_role base) then p_ok (base\<lparr>ar_role := Some ''platform-admin''\<rparr>)
     else (case actor_id actor of None \<Rightarrow> p_err (forbidden ''a user identity is required'')
       | Some userId \<Rightarrow>
          p_bind (p_lift (js_trim_opt clusterId)) (\<lambda>c. p_bind (p_lift (js_trim_opt ns)) (\<lambda>n.
            let cluster = (case c of None \<Rightarrow> [] | Some s \<Rightarrow> s); namespace = (case n of None \<Rightarrow> [] | Some s \<Rightarrow> s) in
            if cluster = [] \<and> namespace = [] \<and> \<not> mutation \<and> \<not> requireScope
            then p_read (\<lambda>w. if list_ex (\<lambda>g. use_capability \<in> set (gr_capabilities g)) (listEffectiveGrants (ww_access w) userId (ww_now w) None)
                   then Inr (base\<lparr>ar_role := Some ''read-only''\<rparr>) else Inl (forbidden ''the assistant is not granted''))
            else if cluster = [] \<or> namespace = [] then p_err (forbidden ''cluster and namespace are required'')
            else authorize_scope env base userId cluster namespace mutation))))"

section \<open>The handlers\<close>

definition normalizePlatformRole :: "string option \<Rightarrow> string" where
  "normalizePlatformRole r = (let n = js_lower (js_trim (case r of None \<Rightarrow> [] | Some s \<Rightarrow> s)) in
     if n = ''platform-admin'' \<or> n = ''admin'' then ''platform-admin''
     else if n = ''cluster-operator'' then ''cluster-operator'' else ''read-only'')"

definition platform_actor :: "ai_actor \<Rightarrow> ai_actor" where
  "platform_actor a = a\<lparr>ar_role := Some (normalizePlatformRole (ar_role a))\<rparr>"

text \<open>\<open>!action?.operation?.startsWith('query-')\<close>.\<close>

definition is_mutation :: "json option \<Rightarrow> thrown + bool" where
  "is_mutation body = (case jget_opt body ''operation'' of None \<Rightarrow> Inr True | Some JNull \<Rightarrow> Inr True
     | Some (JStr s) \<Rightarrow> Inr (\<not> starts_with ''query-'' s) | Some _ \<Rightarrow> Inl TypeError)"

definition action_targets :: "json option \<Rightarrow> thrown + json list" where
  "action_targets body =
    (let single = [case nullish (jget_opt body ''target'') None of None \<Rightarrow> JObj [] | Some t \<Rightarrow> t] in
     case jget_opt body ''targets'' of
       Some (JArr ts) \<Rightarrow> (if ts = [] then Inr single else if JNull \<in> set ts then Inl TypeError else Inr ts)
     | Some v \<Rightarrow> (if truthy (jget v ''length'') then Inl TypeError else Inr single)
     | None \<Rightarrow> Inr single)"

definition scope_cluster :: "json option \<Rightarrow> json \<Rightarrow> json option" where
  "scope_cluster body t = nullish (jget t ''clusterId'') (jget_opt (jget_opt body ''target'') ''clusterId'')"

definition scope_namespace :: "json option \<Rightarrow> json \<Rightarrow> json option" where
  "scope_namespace body t = nullish (jget t ''namespace'') (jget_opt (jget_opt body ''target'') ''namespace'')"

definition check_namespace :: "json option \<Rightarrow> string option \<Rightarrow> json \<Rightarrow> thrown + unit" where
  "check_namespace body optionNamespace t = rbind (js_trim_opt (scope_namespace body t)) (\<lambda>n.
     if optionNamespace \<noteq> None \<and> optionNamespace \<noteq> Some [] \<and> n \<noteq> None \<and> n \<noteq> Some [] \<and> optionNamespace \<noteq> n
     then Inl (HttpError (BadRequest ''namespace parameters differ'')) else Inr ())"

definition authorizeAction :: "ai_env \<Rightarrow> ai_actor \<Rightarrow> json option \<Rightarrow> ai_actor ai_prog" where
  "authorizeAction env reqActor body =
    p_bind (p_lift (is_mutation body)) (\<lambda>mutation.
    p_bind (p_lift (action_targets body)) (\<lambda>targets.
    p_bind (p_lift (js_trim_opt (jget_opt (jget_opt body ''options'') ''namespace''))) (\<lambda>optionNamespace.
    p_bind (p_lift (each (check_namespace body optionNamespace) targets)) (\<lambda>_.
    p_bind (p_map (\<lambda>t. assistant_authorize env (Some (platform_actor reqActor)) (scope_cluster body t)
        (nullish (scope_namespace body t) (jget_opt (jget_opt body ''options'') ''namespace'')) mutation True) targets) (\<lambda>authorized.
      p_ok (last authorized))))))"

definition executeAction :: "ai_env \<Rightarrow> ai_actor \<Rightarrow> json option \<Rightarrow> string option \<Rightarrow> ai_result ai_prog" where
  "executeAction env reqActor body approvalId =
    p_bind (authorizeAction env reqActor body) (\<lambda>actor. approval_execute env (Some (platform_actor actor)) body approvalId)"

definition previewAction :: "ai_env \<Rightarrow> ai_actor \<Rightarrow> json option \<Rightarrow> preview_response ai_prog" where
  "previewAction env reqActor body =
    p_bind (authorizeAction env reqActor body) (\<lambda>actor. approval_preview env (Some (platform_actor actor)) body)"

end
