(* ===== verification/Kn_AiSafety.thy ===== *)
theory Kn_AiSafety
  imports Kn_AiApproval
begin

text \<open>
  What running an action keeps: the approvals are never touched by the executor, a preview and a
  query send nothing that changes a cluster, and the effects of a run are appended to those before.
\<close>

section \<open>Frames of the executor\<close>

text \<open>A predicate on the approvals and the effects that survives the effects in \<open>E\<close>.\<close>

definition tolerates :: "ai_effect set \<Rightarrow> (approval_row list \<Rightarrow> ai_effect list \<Rightarrow> bool) \<Rightarrow> bool" where
  "tolerates E J \<longleftrightarrow> (\<forall>A es e. e \<in> E \<longrightarrow> J A es \<longrightarrow> J A (es @ [e]))"

abbreviation holds :: "(approval_row list \<Rightarrow> ai_effect list \<Rightarrow> bool) \<Rightarrow> ai_world \<Rightarrow> bool" where
  "holds J \<equiv> \<lambda>w. J (ww_approvals w) (ww_effects w)"

named_theorems ai_keeps \<open>what the steps of the executor keep\<close>

lemma keeps_read [ai_keeps]: "keeps (holds J) (p_read f)"
  by (simp add: keeps_def p_read_def)

lemma keeps_send: "tolerates E J \<Longrightarrow> e \<in> E \<Longrightarrow> keeps (holds J) (p_send f e)"
  by (simp add: keeps_def p_send_def tolerates_def)

lemma keeps_audit [ai_keeps]: "keeps (holds J) (audit env entry)"
  by (simp add: audit_def keeps_def)

lemma keeps_prod [ai_keeps]: "(\<And>a b. keeps I (f a b)) \<Longrightarrow> keeps I (case p of (a, b) \<Rightarrow> f a b)"
  by (cases p) simp

lemma keeps_option [ai_keeps]: "keeps I m \<Longrightarrow> (\<And>a. keeps I (f a)) \<Longrightarrow> keeps I (case x of None \<Rightarrow> m | Some a \<Rightarrow> f a)"
  by (cases x) simp_all

lemma keeps_legacy_item [ai_keeps]: "keeps (holds J) (legacy_item env actor action op rid target)"
  unfolding legacy_item_def Let_def by (intro keep_rules ai_keeps)

lemma keeps_legacy [ai_keeps]: "keeps (holds J) (executeLegacyGovernanceAction env actor action op rid)"
  unfolding executeLegacyGovernanceAction_def by (intro keep_rules ai_keeps)

lemma keeps_vm [ai_keeps]: "keeps (holds J) (executeVmPowerAction env actor action op rid)"
  unfolding executeVmPowerAction_def Let_def by (intro keep_rules ai_keeps)

lemma keeps_context [ai_keeps]: "keeps (holds J) (requireClusterContext c)"
  unfolding requireClusterContext_def by (rule keeps_read)

lemma keeps_send_any: "tolerates UNIV J \<Longrightarrow> keeps (holds J) (p_send f e)"
  by (rule keeps_send [where E = UNIV]) simp_all

lemma keeps_import: "tolerates UNIV J \<Longrightarrow> keeps (holds J) (importHelmRepositoryPresets env actor action rid)"
  unfolding importHelmRepositoryPresets_def Let_def by (intro keep_rules ai_keeps keeps_send_any)

lemma keeps_restart: "tolerates UNIV J \<Longrightarrow> keeps (holds J) (restartWorkload env actor action rid)"
  unfolding restartWorkload_def by (intro keep_rules ai_keeps keeps_send_any)

lemma keeps_decision [ai_keeps]: "keeps (holds J) (require_decision actor c u cap m)"
  unfolding require_decision_def by (intro keep_rules ai_keeps)

lemma keeps_ai_mutation [ai_keeps]: "keeps (holds J) (authorizeAiMutation actor c u)"
  unfolding authorizeAiMutation_def by (intro keep_rules ai_keeps)

lemma keeps_authorize_document [ai_keeps]: "keeps (holds J) (authorize_document env actor c ns u doc)"
  unfolding authorize_document_def Let_def by (intro keep_rules ai_keeps)

lemma keeps_apply:
  assumes "tolerates E J" and "\<And>doc. Applied (js_trim (yi_clusterId input)) (yi_dryRun input) doc \<in> E"
    and "\<And>doc. keeps (holds J) (auth doc)"
  shows "keeps (holds J) (applyYaml (ai_yaml env) input auth)"
  unfolding applyYaml_def Let_def apply_document_def
  by (intro keep_rules ai_keeps assms) (auto simp: ai_yaml_def intro: keeps_send [OF assms(1,2)] keeps_read)

lemma keeps_run_manifest:
  assumes "tolerates E J" and "\<And>c doc. Applied c dryRun doc \<in> E"
  shows "keeps (holds J) (run_manifest env actor action dryRun)"
  unfolding run_manifest_def
  by (intro keep_rules ai_keeps keeps_apply [OF assms(1)]) (simp_all add: assms(2))

lemma keeps_query [ai_keeps]: "keeps (holds J) (run_query env actor action op)"
  unfolding run_query_def by (intro keep_rules ai_keeps) (auto simp: keeps_def split: prod.splits sum.splits)

lemma keeps_writeback [ai_keeps]: "keeps (holds J) (with_writeback env actor action r)"
proof -
  have "keeps (holds J) (\<lambda>w. case writeback_into env actor action r s w of (wb, w') \<Rightarrow> (Inr wb, w'))" for s
    by (auto simp: keeps_def writeback_into_def store_message_def Let_def split: option.splits if_splits)
  then show ?thesis
    unfolding with_writeback_def persistExecutionWriteback_def by (intro keep_rules ai_keeps)
qed

lemma keeps_failed [ai_keeps]: "keeps (holds J) (execute_failed env actor rid fallback op e)"
  unfolding execute_failed_def auditFailure_def Let_def by (intro keep_rules ai_keeps)

lemma keeps_dispatch:
  assumes "op \<in> set query_operations \<or> tolerates UNIV J"
  shows "keeps (holds J) (dispatch env actor action op rid)"
proof (cases "op \<in> set query_operations")
  case True
  then show ?thesis unfolding dispatch_def by simp (intro keep_rules ai_keeps)
next
  case False
  with assms have t: "tolerates UNIV J" by simp
  show ?thesis
    unfolding dispatch_def with_permission_def run_mutation_def applyResourceManifest_def
    by (intro keep_rules ai_keeps keeps_import keeps_restart keeps_run_manifest [OF t] t) simp
qed

lemma keeps_execute:
  assumes "tolerates UNIV J \<or> (\<forall>a. rbind (validateAction body) normalizeExecuteInput = Inr a \<longrightarrow> normalized_op a \<in> set query_operations)"
  shows "keeps (holds J) (execute env actor body)"
proof (rule keepsI)
  fix w r w' assume J: "holds J w" and run: "execute env actor body w = (r, w')"
  show "holds J w'"
  proof (cases "rbind (validateAction body) normalizeExecuteInput")
    case (Inl e)
    then show ?thesis using run J keepsD [OF keeps_failed] by (simp add: execute_def Let_def)
  next
    case (Inr action)
    then have "normalized_op action \<in> set query_operations \<or> tolerates UNIV J" using assms by auto
    then have "keeps (holds J) (execute_action env actor rid action)" for rid
      unfolding execute_action_def by (intro keep_rules ai_keeps keeps_dispatch)
    then have k: "keeps (holds J) (p_catch (execute_action env actor (ee_requestId env w) action)
        (\<lambda>e. execute_failed env actor (ee_requestId env w) (Some action) (normalized_op action) e))"
      by (intro keep_rules ai_keeps)
    from run Inr have "p_catch (execute_action env actor (ee_requestId env w) action)
        (\<lambda>e. execute_failed env actor (ee_requestId env w) (Some action) (normalized_op action) e) w = (r, w')"
      by (simp add: execute_def Let_def)
    then show ?thesis by (rule keepsD [OF k J])
  qed
qed

lemma keeps_preview:
  assumes "tolerates {e. \<not> mutating e} J"
  shows "keeps (holds J) (preview env actor body)"
  unfolding preview_def preview_try_def previewResourceManifest_def
  by (intro keep_rules ai_keeps keeps_run_manifest [OF assms]) simp

text \<open>The operation of a validated action is one of the registry; a read-only one, or one whose name starts
  like a query, is one of the nine queries.\<close>

lemma validated_registered:
  assumes "rbind (validateAction body) normalizeExecuteInput = Inr a"
  obtains action d where "body = Some action" and "normalizeActionOperationAlias (action_op action) = Some (normalized_op a)"
    and "map_of AI_ACTION_REGISTRY (normalized_op a) = Some d"
    and "a = (if Some (normalized_op a) = action_op action then action else jset action ''operation'' (JStr (normalized_op a)))"
proof -
  from assms obtain action where v: "validateAction body = Inr action" and n: "normalizeExecuteInput action = Inr a"
    by (auto simp: rbind_Inr_iff)
  from v have b: "body = Some action" and reg: "getAiActionDefinition (normalizeActionOperationAlias (action_op action)) \<noteq> None"
    by (auto simp: validateAction_def Let_def rbind_Inr_iff split: option.splits if_splits json.splits)
  from n obtain op where op: "normalizeActionOperationAlias (action_op action) = Some op"
    and a: "a = (if Some op = action_op action then action else jset action ''operation'' (JStr op))"
    by (auto simp: normalizeExecuteInput_def split: option.splits)
  have "action_op a = Some op" using a by (auto simp: action_op_def jget_jset jstring_def split: if_splits)
  then have "normalized_op a = op" by (simp add: normalized_op_def)
  moreover obtain d where "map_of AI_ACTION_REGISTRY op = Some d" using reg op by (auto simp: getAiActionDefinition_def)
  ultimately show thesis
    by (intro that [OF b]) (simp_all only: op a [symmetric] \<open>normalized_op a = op\<close>)
qed

definition query_like :: "json option \<Rightarrow> bool" where
  "query_like body \<longleftrightarrow> (\<exists>op. Option.bind body action_op = Some op \<and> (isReadOnlyAiAction (Some op) \<or> starts_with ''query-'' op))"

lemma query_names [simp]:
  "starts_with ''query-'' ''query-configmaps''" "starts_with ''query-'' ''query-pvcs''" "starts_with ''query-'' ''query-storageclasses''"
  "\<not> starts_with ''query-'' []" "\<not> starts_with ''query-'' ''vm-power-restart''"
  by (simp_all add: starts_with_def)

lemma read_only_query: "isReadOnlyAiAction (Some op) \<Longrightarrow> starts_with ''query-'' op"
  unfolding isReadOnlyAiAction_iff by (elim insertE emptyE) (simp_all add: starts_with_def)

lemma query_alias:
  assumes "isReadOnlyAiAction (Some op) \<or> starts_with ''query-'' op"
  shows "starts_with ''query-'' (the (normalizeActionOperationAlias (Some op)))"
proof -
  have "starts_with ''query-'' op" using assms read_only_query by blast
  then show ?thesis
    by (cases "op = []"; cases "op = ''vm-power-restart''") (simp_all add: normalizeActionOperationAlias_def)
qed

lemma query_registered:
  "starts_with ''query-'' op \<Longrightarrow> map_of AI_ACTION_REGISTRY op = Some d \<Longrightarrow> op \<in> set query_operations"
  by (auto simp: AI_ACTION_REGISTRY_def query_operations_def starts_with_def split: if_splits)

lemma query_like_dispatch:
  assumes "query_like body" and "rbind (validateAction body) normalizeExecuteInput = Inr a"
  shows "normalized_op a \<in> set query_operations"
proof -
  obtain action d where "body = Some action" "normalizeActionOperationAlias (action_op action) = Some (normalized_op a)"
    and d: "map_of AI_ACTION_REGISTRY (normalized_op a) = Some d"
    using validated_registered [OF assms(2)] by blast
  moreover from this(1) assms(1) obtain op where "action_op action = Some op" "isReadOnlyAiAction (Some op) \<or> starts_with ''query-'' op"
    by (auto simp: query_like_def)
  ultimately have "starts_with ''query-'' (normalized_op a)" using query_alias [of op] by simp
  then show ?thesis using d by (rule query_registered)
qed

end
