(* ===== verification/Kn_AiSystem.thy ===== *)
theory Kn_AiSystem
  imports Kn_AiSafety
begin

text \<open>
  Approvals under interleaved calls: the statements of ai-assistant/ai-action-approval.service.ts as
  steps, and the invariant that an approval is used at most once, by the user and for the action it
  was given to.
\<close>

section \<open>Calls in flight\<close>

datatype call_phase = Checked | Consumed | Ran

record ai_call =
  cl_id :: string
  cl_user :: string
  cl_actor :: "ai_actor option"
  cl_action :: json
  cl_op :: string
  cl_checkedAt :: time
  cl_phase :: call_phase

record ai_dispatch =
  dp_id :: string
  dp_user :: string
  dp_action :: json
  dp_op :: string
  dp_checkedAt :: time
  dp_effects :: "ai_effect list"

record ai_system =
  sy_world :: ai_world
  sy_calls :: "ai_call list"
  sy_log :: "ai_dispatch list"

definition new_mutations :: "ai_world \<Rightarrow> ai_world \<Rightarrow> ai_effect list" where
  "new_mutations w w' = filter mutating (drop (length (ww_effects w)) (ww_effects w'))"

datatype ai_label =
    LOther | LExpire | LPreview | LCreate string | LQuery | LCheck string | LConsume string | LDispatch string | LFinish string | LDrop

text \<open>
  One step is one statement of the approval service or one call of the executor. Anything may happen
  to the other tables between two statements, the clock never runs backwards, the identifiers of
  new approvals are unused, and the process may lose a call at any point.
\<close>

inductive ai_step :: "ai_env \<Rightarrow> ai_system \<Rightarrow> ai_label \<Rightarrow> ai_system \<Rightarrow> bool" for env :: ai_env where
  st_other: "ww_now w' \<ge> ww_now (sy_world s) \<Longrightarrow> ww_approvals w' = ww_approvals (sy_world s) \<Longrightarrow>
    ww_effects w' = ww_effects (sy_world s) \<Longrightarrow> ai_step env s LOther (s\<lparr>sy_world := w'\<rparr>)"
| st_expire: "w = sy_world s \<Longrightarrow>
    ai_step env s LExpire (s\<lparr>sy_world := w\<lparr>ww_approvals := expire_pending (ww_now w) (ww_approvals w)\<rparr>\<rparr>)"
| st_preview: "preview env actor body (sy_world s) = (r, w') \<Longrightarrow> ai_step env s LPreview (s\<lparr>sy_world := w'\<rparr>)"
| st_create: "actor_id actor = Some userId \<Longrightarrow> \<not> isReadOnly action \<Longrightarrow>
    rbind (validateAction (Some action)) normalizeExecuteInput = Inr a \<Longrightarrow> pw_operation pv = Some (normalized_op a) \<Longrightarrow>
    ee_newId env (sy_world s) \<notin> aa_id ` set (ww_approvals (sy_world s)) \<Longrightarrow>
    create_approval env userId action pv (normalized_op a) (sy_world s) = (r, w') \<Longrightarrow>
    ai_step env s (LCreate (aa_id r)) (s\<lparr>sy_world := w'\<rparr>)"
| st_query: "query_like body \<Longrightarrow> execute env actor body (sy_world s) = (r, w') \<Longrightarrow>
    ai_step env s LQuery (s\<lparr>sy_world := w'\<rparr>)"
| st_check: "actor_id actor = Some userId \<Longrightarrow> \<not> isReadOnly action \<Longrightarrow>
    rbind (validateAction (Some action)) normalizeExecuteInput = Inr a \<Longrightarrow>
    find_approval i (ww_approvals (sy_world s)) = Some r \<Longrightarrow>
    approval_matches env (ww_now (sy_world s)) userId (canonicalAction action (normalized_op a)) r \<Longrightarrow>
    ai_step env s (LCheck i) (s\<lparr>sy_calls := sy_calls s @ [\<lparr>cl_id = i, cl_user = userId, cl_actor = actor, cl_action = action,
      cl_op = normalized_op a, cl_checkedAt = ww_now (sy_world s), cl_phase = Checked\<rparr>]\<rparr>)"
| st_consume: "sy_calls s = xs @ c # ys \<Longrightarrow> cl_phase c = Checked \<Longrightarrow> w = sy_world s \<Longrightarrow>
    consume_approval (ww_now w) (cl_id c) (cl_user c) (ww_approvals w) = (n, rows) \<Longrightarrow>
    ai_step env s (LConsume (cl_id c)) (s\<lparr>sy_world := w\<lparr>ww_approvals := rows\<rparr>,
      sy_calls := xs @ (if n = 1 then [c\<lparr>cl_phase := Consumed\<rparr>] else []) @ ys\<rparr>)"
| st_dispatch: "sy_calls s = xs @ c # ys \<Longrightarrow> cl_phase c = Consumed \<Longrightarrow> w = sy_world s \<Longrightarrow>
    execute env (cl_actor c) (Some (cl_action c)) w = (r, w') \<Longrightarrow>
    ai_step env s (LDispatch (cl_id c)) (s\<lparr>sy_world := w', sy_calls := xs @ c\<lparr>cl_phase := Ran\<rparr> # ys,
      sy_log := sy_log s @ [\<lparr>dp_id = cl_id c, dp_user = cl_user c, dp_action = cl_action c, dp_op = cl_op c,
        dp_checkedAt = cl_checkedAt c, dp_effects = new_mutations w w'\<rparr>]\<rparr>)"
| st_finish: "sy_calls s = xs @ c # ys \<Longrightarrow> cl_phase c = Ran \<Longrightarrow>
    ai_step env s (LFinish (cl_id c)) (s\<lparr>sy_world := finish_call env (cl_id c) (sy_world s), sy_calls := xs @ ys\<rparr>)"
| st_drop: "sy_calls s = xs @ c # ys \<Longrightarrow> ai_step env s LDrop (s\<lparr>sy_calls := xs @ ys\<rparr>)"

definition ai_init :: "ai_system \<Rightarrow> bool" where
  "ai_init s \<longleftrightarrow> ww_approvals (sy_world s) = [] \<and> ww_effects (sy_world s) = [] \<and> sy_calls s = [] \<and> sy_log s = []"

section \<open>The invariant\<close>

text \<open>The parts of an approval that never change, as a function of its identifier.\<close>

definition approval_key :: "approval_row \<Rightarrow> string \<times> string option \<times> json \<times> time" where
  "approval_key r = (aa_id r, aa_actorUserId r, aa_targetJson r, aa_createdAt r)"

definition granted_by :: "ai_env \<Rightarrow> ai_world \<Rightarrow> string \<Rightarrow> string \<Rightarrow> json \<Rightarrow> string \<Rightarrow> time \<Rightarrow> bool" where
  "granted_by env w i userId action op t \<longleftrightarrow> (\<exists>r \<in> set (ww_approvals w). aa_id r = i \<and> aa_actorUserId r = Some userId
     \<and> aa_createdAt r \<le> t \<and> t \<le> aa_createdAt r + APPROVAL_TTL_MS
     \<and> stableJson (ee_nt env) (ee_readback env (aa_targetJson r)) = stableJson (ee_nt env) (canonicalAction action op))"

definition uses :: "ai_system \<Rightarrow> string \<Rightarrow> nat" where
  "uses s i = length (filter (\<lambda>c. cl_id c = i \<and> cl_phase c = Consumed) (sy_calls s)) + length (filter (\<lambda>d. dp_id d = i) (sy_log s))"

definition ai_inv :: "ai_env \<Rightarrow> ai_system \<Rightarrow> bool" where
  "ai_inv env s \<longleftrightarrow> distinct (map aa_id (ww_approvals (sy_world s)))
     \<and> (\<forall>c \<in> set (sy_calls s). granted_by env (sy_world s) (cl_id c) (cl_user c) (cl_action c) (cl_op c) (cl_checkedAt c))
     \<and> (\<forall>d \<in> set (sy_log s). granted_by env (sy_world s) (dp_id d) (dp_user d) (dp_action d) (dp_op d) (dp_checkedAt d))
     \<and> (\<forall>i. uses s i \<le> 1)
     \<and> (\<forall>r \<in> set (ww_approvals (sy_world s)). aa_status r = ''pending'' \<longrightarrow> uses s (aa_id r) = 0)
     \<and> filter mutating (ww_effects (sy_world s)) = concat (map dp_effects (sy_log s))"

lemma granted_mono:
  assumes "granted_by env w i u a op t" and "approval_key ` set (ww_approvals w) \<subseteq> approval_key ` set (ww_approvals w')"
  shows "granted_by env w' i u a op t"
proof -
  from assms(1) obtain r where r: "r \<in> set (ww_approvals w)" and g: "aa_id r = i" "aa_actorUserId r = Some u" "aa_createdAt r \<le> t"
    "t \<le> aa_createdAt r + APPROVAL_TTL_MS"
    "stableJson (ee_nt env) (ee_readback env (aa_targetJson r)) = stableJson (ee_nt env) (canonicalAction a op)"
    by (auto simp: granted_by_def)
  from r assms(2) obtain r' where "r' \<in> set (ww_approvals w')" "approval_key r' = approval_key r" by (metis imageE image_eqI subsetD)
  with g show ?thesis by (auto simp: granted_by_def approval_key_def intro!: bexI [of _ r'])
qed

text \<open>Rows are only added or changed in their status.\<close>

lemma keys_expire: "map approval_key (expire_pending now rows) = map approval_key rows"
  by (simp add: expire_pending_def update_many_def approval_key_def)

lemma keys_consume: "map approval_key (snd (consume_approval now i u rows)) = map approval_key rows"
  by (simp add: consume_approval_def update_many_def approval_key_def)

lemma keys_finish: "map approval_key (finish_approval i rows) = map approval_key rows"
  by (simp add: finish_approval_def approval_key_def)

lemma pending_expire: "r \<in> set (expire_pending now rows) \<Longrightarrow> aa_status r = ''pending'' \<Longrightarrow> r \<in> set rows"
  by (auto simp: expire_pending_def update_many_def split: if_splits)

lemma pending_finish: "r \<in> set (finish_approval i rows) \<Longrightarrow> aa_status r = ''pending'' \<Longrightarrow> r \<in> set rows"
  by (auto simp: finish_approval_def split: if_splits)

lemma keys_ids: "map approval_key rows = map approval_key rows' \<Longrightarrow> map aa_id rows = map aa_id rows'"
proof -
  have "map aa_id rs = map fst (map approval_key rs)" for rs by (simp add: approval_key_def)
  then show "map approval_key rows = map approval_key rows' \<Longrightarrow> map aa_id rows = map aa_id rows'" by metis
qed

text \<open>The invariant is kept when rows keep their keys, no row becomes pending and no call is used.\<close>

lemma ai_inv_keys:
  assumes inv: "ai_inv env s"
    and k: "map approval_key (ww_approvals w') = map approval_key (ww_approvals (sy_world s))"
    and p: "\<And>r. r \<in> set (ww_approvals w') \<Longrightarrow> aa_status r = ''pending'' \<Longrightarrow>
        \<exists>q \<in> set (ww_approvals (sy_world s)). aa_id q = aa_id r \<and> aa_status q = ''pending''"
    and e: "filter mutating (ww_effects w') = filter mutating (ww_effects (sy_world s))"
  shows "ai_inv env (s\<lparr>sy_world := w'\<rparr>)"
proof -
  have sub: "approval_key ` set (ww_approvals (sy_world s)) \<subseteq> approval_key ` set (ww_approvals w')"
    using k by (metis list.set_map order_refl)
  have g: "granted_by env w' i u a op t" if "granted_by env (sy_world s) i u a op t" for i u a op t
    by (rule granted_mono [OF that sub])
  have "uses (s\<lparr>sy_world := w'\<rparr>) i = uses s i" for i by (simp add: uses_def)
  moreover have "uses s (aa_id r) = 0" if "r \<in> set (ww_approvals w')" "aa_status r = ''pending''" for r
    using p [OF that] inv by (auto simp: ai_inv_def)
  ultimately show ?thesis
    using inv g keys_ids [OF k] e by (auto simp: ai_inv_def)
qed

lemma ai_inv_drop:
  assumes "ai_inv env s" and "set cs \<subseteq> set (sy_calls s)" and "\<And>i. uses (s\<lparr>sy_calls := cs\<rparr>) i \<le> uses s i"
  shows "ai_inv env (s\<lparr>sy_calls := cs\<rparr>)"
proof -
  have "uses (s\<lparr>sy_calls := cs\<rparr>) i \<le> 1" for i using assms(1,3) by (meson ai_inv_def le_trans)
  moreover have "uses (s\<lparr>sy_calls := cs\<rparr>) (aa_id r) = 0" if "r \<in> set (ww_approvals (sy_world s))" "aa_status r = ''pending''" for r
    using assms(1,3) that by (metis ai_inv_def le_zero_eq)
  ultimately show ?thesis using assms(1,2) by (auto simp: ai_inv_def)
qed

section \<open>What a run of the executor does to the system\<close>

lemma execute_frame:
  assumes "execute env actor body w = (r, w')"
  shows "ww_approvals w' = ww_approvals w \<and> (\<exists>es. ww_effects w' = ww_effects w @ es)"
proof -
  let ?J = "\<lambda>A es. A = ww_approvals w \<and> (\<exists>ds. es = ww_effects w @ ds)"
  have "tolerates UNIV ?J" by (auto simp: tolerates_def)
  then have "keeps (holds ?J) (execute env actor body)" by (intro keeps_execute) simp
  from keepsD [OF this _ assms] show ?thesis by simp
qed

lemma execute_new_mutations:
  assumes "execute env actor body w = (r, w')"
  shows "filter mutating (ww_effects w') = filter mutating (ww_effects w) @ new_mutations w w'"
  using execute_frame [OF assms] by (auto simp: new_mutations_def)

lemma query_frame:
  assumes "query_like body" and "execute env actor body w = (r, w')"
  shows "ww_approvals w' = ww_approvals w \<and> ww_effects w' = ww_effects w"
proof -
  have "keeps (holds (\<lambda>A es. A = ww_approvals w \<and> es = ww_effects w)) (execute env actor body)"
    by (rule keeps_execute) (use query_like_dispatch [OF assms(1)] in blast)
  from keepsD [OF this _ assms(2)] show ?thesis by simp
qed

lemma preview_frame:
  assumes "preview env actor body w = (r, w')"
  shows "ww_approvals w' = ww_approvals w \<and> filter mutating (ww_effects w') = filter mutating (ww_effects w)"
proof -
  let ?J = "\<lambda>A es. A = ww_approvals w \<and> filter mutating es = filter mutating (ww_effects w)"
  have "tolerates {e. \<not> mutating e} ?J" by (auto simp: tolerates_def)
  from keepsD [OF keeps_preview [OF this] _ assms] show ?thesis by simp
qed

section \<open>Every step keeps the invariant\<close>

lemma consume_some:
  assumes "distinct (map aa_id rows)" and "consume_approval now i u rows = (n, rows')"
  shows "n = 1 \<and> (\<exists>r \<in> set rows. aa_id r = i \<and> aa_status r = ''pending'') \<and> (\<forall>r \<in> set rows'. aa_id r = i \<longrightarrow> aa_status r \<noteq> ''pending'')
    \<or> n = 0 \<and> rows' = rows"
proof -
  let ?p = "\<lambda>r. aa_id r = i \<and> aa_actorUserId r = Some u \<and> aa_status r = ''pending''"
  have n: "n = length (filter ?p rows)" and rows': "rows' = map (\<lambda>r. if ?p r then r\<lparr>aa_status := ''approved'', aa_approvedAt := Some now\<rparr> else r) rows"
    using assms(2) by (auto simp: consume_approval_def update_many_def)
  show ?thesis
  proof (cases "filter ?p rows = []")
    case True
    have "rows' = rows" unfolding rows' by (rule map_idI) (use True in \<open>auto simp: filter_empty_conv\<close>)
    then show ?thesis using n True by simp
  next
    case False
    then obtain r where r: "r \<in> set rows" "?p r" by (auto simp: filter_empty_conv)
    have "q = r" if "q \<in> set rows" "aa_id q = i" for q
      using distinct_key_unique [OF assms(1) that(1) r(1)] that r by simp
    then have sub: "set (filter ?p rows) \<subseteq> {r}" by (simp only: set_filter) blast
    have e: "?p q" if "q \<in> set rows" "aa_id q = i" for q
    proof -
      have "q = r" using distinct_key_unique [OF assms(1) that(1) r(1)] that r(2) by simp
      then show ?thesis using r(2) by simp
    qed
    have "length (filter ?p rows) = card (set (filter ?p rows))"
      by (rule distinct_card [symmetric]) (use assms(1) in \<open>simp add: distinct_map\<close>)
    also have "\<dots> \<le> card {r}" by (rule card_mono [OF _ sub]) simp
    finally have "length (filter ?p rows) \<le> 1" by simp
    moreover have "length (filter ?p rows) \<noteq> 0" using False by simp
    ultimately have "n = 1" using n by linarith
    moreover have "\<forall>q \<in> set rows'. aa_id q = i \<longrightarrow> aa_status q \<noteq> ''pending''"
    proof (intro ballI impI)
      fix q assume "q \<in> set rows'" and "aa_id q = i"
      from this(1) obtain q0 where "q0 \<in> set rows" "q = (if ?p q0 then q0\<lparr>aa_status := ''approved'', aa_approvedAt := Some now\<rparr> else q0)"
        unfolding rows' set_map by blast
      moreover from this \<open>aa_id q = i\<close> have "aa_id q0 = i" by (auto split: if_splits)
      ultimately show "aa_status q \<noteq> ''pending''" using e [of q0] by simp
    qed
    moreover have "\<exists>r \<in> set rows. aa_id r = i \<and> aa_status r = ''pending''" using r by blast
    ultimately show ?thesis by simp
  qed
qed

lemma step_consume:
  assumes inv: "ai_inv env s" and calls: "sy_calls s = xs @ c # ys" and ph: "cl_phase c = Checked"
    and run: "consume_approval (ww_now (sy_world s)) (cl_id c) (cl_user c) (ww_approvals (sy_world s)) = (n, rows)"
  shows "ai_inv env (s\<lparr>sy_world := (sy_world s)\<lparr>ww_approvals := rows\<rparr>, sy_calls := xs @ (if n = 1 then [c\<lparr>cl_phase := Consumed\<rparr>] else []) @ ys\<rparr>)"
    (is "ai_inv env ?s")
proof -
  have d: "distinct (map aa_id (ww_approvals (sy_world s)))" using inv by (simp add: ai_inv_def)
  have keys: "map approval_key rows = map approval_key (ww_approvals (sy_world s))" using keys_consume run by (metis snd_conv)
  have "approval_key ` set rows = approval_key ` set (ww_approvals (sy_world s))" using keys by (metis list.set_map)
  then have g: "granted_by env (sy_world ?s) i u a op t" if "granted_by env (sy_world s) i u a op t" for i u a op t
    using granted_mono [OF that] by simp
  have pend: "\<exists>q \<in> set (ww_approvals (sy_world s)). aa_id q = aa_id r \<and> aa_status q = ''pending''"
    if "r \<in> set rows" "aa_status r = ''pending''" for r
    using run that by (auto simp: consume_approval_def update_many_def split: if_splits)
  have u0: "uses s (aa_id r) = 0" if "r \<in> set rows" "aa_status r = ''pending''" for r
    using pend [OF that] inv by (auto simp: ai_inv_def)
  have u: "uses ?s i = uses s i + (if n = 1 \<and> i = cl_id c then 1 else 0)" for i
    using calls ph by (auto simp: uses_def)
  have G: "granted_by env (sy_world ?s) (cl_id x) (cl_user x) (cl_action x) (cl_op x) (cl_checkedAt x)" if "x \<in> set (sy_calls ?s)" for x
  proof (rule g)
    show "granted_by env (sy_world s) (cl_id x) (cl_user x) (cl_action x) (cl_op x) (cl_checkedAt x)"
      using that inv calls by (auto simp: ai_inv_def split: if_splits)
  qed
  have le: "uses ?s i \<le> 1" and z: "\<forall>r \<in> set rows. aa_status r = ''pending'' \<longrightarrow> uses ?s (aa_id r) = 0" for i
    using consume_some [OF d run] inv u u0 by (auto simp: ai_inv_def)
  show ?thesis
    using inv G g le z keys_ids [OF keys] by (auto simp: ai_inv_def)
qed

lemma step_dispatch:
  assumes inv: "ai_inv env s" and calls: "sy_calls s = xs @ c # ys" and ph: "cl_phase c = Consumed"
    and run: "execute env (cl_actor c) (Some (cl_action c)) (sy_world s) = (r, w')"
  shows "ai_inv env (s\<lparr>sy_world := w', sy_calls := xs @ c\<lparr>cl_phase := Ran\<rparr> # ys, sy_log := sy_log s @
      [\<lparr>dp_id = cl_id c, dp_user = cl_user c, dp_action = cl_action c, dp_op = cl_op c, dp_checkedAt = cl_checkedAt c,
        dp_effects = new_mutations (sy_world s) w'\<rparr>]\<rparr>)" (is "ai_inv env ?s")
proof -
  have A: "ww_approvals w' = ww_approvals (sy_world s)" using execute_frame [OF run] by simp
  then have g: "granted_by env w' i u a op t = granted_by env (sy_world s) i u a op t" for i u a op t by (simp add: granted_by_def)
  have "uses ?s i = uses s i" for i using calls ph by (auto simp: uses_def)
  then show ?thesis
    using inv calls A g execute_new_mutations [OF run] by (auto simp: ai_inv_def)
qed

lemma step_create:
  assumes inv: "ai_inv env s" and fresh: "ee_newId env (sy_world s) \<notin> aa_id ` set (ww_approvals (sy_world s))"
    and run: "create_approval env u action pv op (sy_world s) = (r, w')"
  shows "ai_inv env (s\<lparr>sy_world := w'\<rparr>)"
proof -
  have r: "aa_id r = ee_newId env (sy_world s)" and w': "w' = (sy_world s)\<lparr>ww_approvals := ww_approvals (sy_world s) @ [r]\<rparr>"
    using run by (auto simp: create_approval_def Let_def approval_of_def)
  have g: "granted_by env w' i u a op t" if "granted_by env (sy_world s) i u a op t" for i u a op t
    by (rule granted_mono [OF that]) (auto simp: w')
  have known: "i \<in> aa_id ` set (ww_approvals (sy_world s))" if "granted_by env (sy_world s) i u a op t" for i u a op t
    using that by (auto simp: granted_by_def)
  have "uses s (aa_id r) = 0"
    using inv fresh known r by (fastforce simp: uses_def ai_inv_def filter_empty_conv)
  moreover have "uses (s\<lparr>sy_world := w'\<rparr>) i = uses s i" for i by (simp add: uses_def)
  ultimately show ?thesis
    using inv g fresh r by (auto simp: ai_inv_def w')
qed

lemma uses_drop: "sy_calls s = xs @ c # ys \<Longrightarrow> uses (s\<lparr>sy_calls := xs @ ys\<rparr>) i \<le> uses s i"
  by (simp add: uses_def)

lemma ai_step_inv: "ai_step env s e t \<Longrightarrow> ai_inv env s \<Longrightarrow> ai_inv env t"
proof (induction rule: ai_step.induct)
  case (st_other w' s)
  then show ?case by (intro ai_inv_keys) auto
next
  case (st_expire w s)
  then show ?case by (intro ai_inv_keys) (auto simp: keys_expire dest: pending_expire)
next
  case (st_preview actor body s r w')
  then show ?case using preview_frame [OF st_preview(1)] by (intro ai_inv_keys) auto
next
  case (st_create actor userId action a pv s r w')
  then show ?case by (intro step_create)
next
  case (st_query body actor s r w')
  then show ?case using query_frame [OF st_query(1,2)] by (intro ai_inv_keys) auto
next
  case (st_check actor userId action a i s r)
  let ?c = "\<lparr>cl_id = i, cl_user = userId, cl_actor = actor, cl_action = action, cl_op = normalized_op a,
      cl_checkedAt = ww_now (sy_world s), cl_phase = Checked\<rparr>"
  have "r \<in> set (ww_approvals (sy_world s))" "aa_id r = i" using st_check(4) find_Some_mem by (fastforce simp: find_approval_def)+
  then have "granted_by env (sy_world s) i userId action (normalized_op a) (ww_now (sy_world s))"
    using st_check(5) by (auto simp: granted_by_def approval_matches_def intro!: bexI [of _ r])
  moreover have "uses (s\<lparr>sy_calls := sy_calls s @ [?c]\<rparr>) j = uses s j" for j by (simp add: uses_def)
  ultimately show ?case using st_check(6) by (auto simp: ai_inv_def)
next
  case (st_consume s xs c ys w n rows)
  then show ?case using step_consume [of env s xs c ys n rows] by simp
next
  case (st_dispatch s xs c ys w r w')
  then show ?case using step_dispatch [of env s xs c ys r w'] by simp
next
  case (st_finish s xs c ys)
  have "ai_inv env (s\<lparr>sy_world := finish_call env (cl_id c) (sy_world s)\<rparr>)"
    using st_finish(3) by (intro ai_inv_keys) (auto simp: finish_call_def keys_finish dest: pending_finish split: if_splits)
  then have "ai_inv env ((s\<lparr>sy_world := finish_call env (cl_id c) (sy_world s)\<rparr>)\<lparr>sy_calls := xs @ ys\<rparr>)"
    by (rule ai_inv_drop) (use st_finish(1) in \<open>auto simp: uses_def\<close>)
  then show ?case by simp
next
  case (st_drop s xs c ys)
  then show ?case by (intro ai_inv_drop) (auto simp: uses_def)
qed

lemma ai_init_inv: "ai_init s \<Longrightarrow> ai_inv env s"
  by (simp add: ai_init_def ai_inv_def uses_def)

interpretation approvals: invariant_system ai_init "ai_step env" "ai_inv env" for env
  by unfold_locales (auto intro: ai_init_inv ai_step_inv)

end
