(* ===== verification/Kn_AiScope.thy ===== *)
theory Kn_AiScope
  imports Kn_AiSystem
begin

text \<open>
  Where an action acts: every effect of an execution is on the cluster, and in the namespace, that
  the target of the action names; and what the check of the controller establishes about it.
\<close>

section \<open>Rules that keep what was computed\<close>

lemma keeps_lift_bind: "(\<And>a. r = Inr a \<Longrightarrow> keeps I (f a)) \<Longrightarrow> keeps I (p_bind (p_lift r) f)"
  by (cases r) (simp_all add: keeps_def p_bind_def)

lemma keeps_map_mem: "(\<And>x. x \<in> set xs \<Longrightarrow> keeps I (f x)) \<Longrightarrow> keeps I (p_map f xs)"
  by (induction xs) (auto intro!: keep_rules)

lemma p_map_Inr_mem: "p_map f xs s = (Inr ys, s') \<Longrightarrow> x \<in> set xs \<Longrightarrow> \<exists>y t t'. f x t = (Inr y, t')"
proof (induction xs arbitrary: s ys)
  case (Cons a xs)
  then show ?case by (auto simp: p_bind_Inr)
qed simp

lemma keeps_each_bind:
  assumes "keeps I (p_each f xs)" and "(\<And>x. x \<in> set xs \<Longrightarrow> \<exists>u t t'. f x t = (Inr u, t')) \<Longrightarrow> keeps I g"
  shows "keeps I (p_bind (p_each f xs) (\<lambda>_. g))"
proof (rule keepsI)
  fix s r s' assume I: "I s" and run: "p_bind (p_each f xs) (\<lambda>_. g) s = (r, s')"
  obtain q t where q: "p_each f xs s = (q, t)" by (metis prod.exhaust)
  then have It: "I t" using keepsD [OF assms(1) I] by blast
  show "I s'"
  proof (cases q)
    case (Inl e)
    then show ?thesis using run q It by (simp add: p_bind_def)
  next
    case (Inr u)
    then obtain ys where "p_map f xs s = (Inr ys, t)" using q by (auto simp: p_each_def p_bind_Inr)
    then have "keeps I g" using assms(2) p_map_Inr_mem by metis
    moreover have "g t = (r, s')" using run q Inr by (simp add: p_bind_def)
    ultimately show ?thesis using It keepsD by metis
  qed
qed

section \<open>Effects are on the target\<close>

definition doc_namespace :: "ai_env \<Rightarrow> json \<Rightarrow> string" where
  "doc_namespace env doc = js_trim (text_or_empty (ee_nt env) (jget_opt (jget doc ''metadata'') ''namespace''))"

definition target_cluster :: "json \<Rightarrow> string \<Rightarrow> bool" where
  "target_cluster action c \<longleftrightarrow> (\<exists>t. requireTarget action = Inr t \<and> requireClusterField t ''target.clusterId'' = Inr c)"

definition target_namespace :: "json \<Rightarrow> string \<Rightarrow> bool" where
  "target_namespace action n \<longleftrightarrow> (\<exists>t. requireTarget action = Inr t \<and> requireNamespace (jget t ''namespace'') ''target.namespace'' = Inr n)"

text \<open>The cluster an effect changes and, where it has one, the namespace.\<close>

fun effect_scope :: "ai_env \<Rightarrow> ai_effect \<Rightarrow> string \<times> string option" where
  "effect_scope env (Patched c n k nm) = (c, Some n)"
| "effect_scope env (Imported c names s) = (c, None)"
| "effect_scope env (Applied c dry doc) = (c, Some (doc_namespace env doc))"

definition on_target :: "ai_env \<Rightarrow> json \<Rightarrow> ai_effect \<Rightarrow> bool" where
  "on_target env action e \<longleftrightarrow> target_cluster action (fst (effect_scope env e))
     \<and> (case snd (effect_scope env e) of None \<Rightarrow> True | Some n \<Rightarrow> target_namespace action n)"

lemma dropWhile_idem: "dropWhile p (dropWhile p xs) = dropWhile p xs"
  by (induction xs) auto

lemma js_trim_idem [simp]: "js_trim (js_trim s) = js_trim s"
proof (cases "js_trim s = []")
  case False
  let ?d = "dropWhile js_ws s"
  have r: "js_trim s = rev (dropWhile js_ws (rev ?d))" by (simp add: js_trim_def)
  then obtain pre where pre: "?d = js_trim s @ pre"
    by (metis rev_append rev_rev_ident takeWhile_dropWhile_id)
  have "?d \<noteq> []"
  proof
    assume "?d = []"
    then have "js_trim s = []" by (simp only: r dropWhile.simps rev.simps)
    then show False using False by simp
  qed
  then have "\<not> js_ws (hd (js_trim s))" using pre False hd_dropWhile [of js_ws s] by (metis hd_append2)
  then have "dropWhile js_ws (js_trim s) = js_trim s" using False by (cases "js_trim s") auto
  moreover have "dropWhile js_ws (rev (js_trim s)) = rev (js_trim s)" using r by (simp add: dropWhile_idem)
  ultimately show ?thesis by (simp add: js_trim_def)
qed simp

lemma requireSimpleField_trim:
  assumes "requireSimpleField v path lo hi = Inr s"
  shows "js_trim_opt v = Inr (Some s) \<and> s \<noteq> [] \<and> js_trim s = s"
proof -
  from assms have t: "js_trim_opt v = Inr (Some s)" and ne: "s \<noteq> []"
    by (auto simp: requireSimpleField_def rbind_Inr_iff split: option.splits if_splits)
  from t have "js_trim s = s" by (auto simp: js_trim_opt_def split: option.splits json.splits)
  with t ne show ?thesis by simp
qed

lemma requireNamespace_trim: "requireNamespace v path = Inr n \<Longrightarrow> js_trim_opt v = Inr (Some n) \<and> n \<noteq> [] \<and> js_trim n = n"
  by (auto simp: requireNamespace_def requireName_def rbind_Inr_iff split: if_splits dest: requireSimpleField_trim)

lemma keeps_import_on:
  assumes "tolerates {e. on_target env action e} J"
  shows "keeps (holds J) (importHelmRepositoryPresets env actor action rid)"
  unfolding importHelmRepositoryPresets_def Let_def
  by (intro keeps_lift_bind keep_rules ai_keeps keeps_send [OF assms]) (auto simp: on_target_def target_cluster_def)

lemma keeps_restart_on:
  assumes "tolerates {e. on_target env action e} J"
  shows "keeps (holds J) (restartWorkload env actor action rid)"
  unfolding restartWorkload_def
  by (intro keeps_lift_bind keep_rules ai_keeps keeps_send [OF assms]) (auto simp: on_target_def target_cluster_def target_namespace_def)

lemma authorize_document_namespace:
  assumes "authorize_document env actor c ns u doc t = (Inr x, t')" shows "doc_namespace env doc = ns"
  using assms by (auto simp: authorize_document_def doc_namespace_def Let_def split: if_splits)

lemma keeps_applyYaml:
  assumes a: "\<And>d. keeps I (auth d)" and client: "\<And>c. keeps I (ya_client api c)"
    and docs: "\<And>d u t t'. auth d t = (Inr u, t') \<Longrightarrow> keeps I (apply_document api (js_trim (yi_clusterId input)) (yi_dryRun input) d)"
  shows "keeps I (applyYaml api input auth)"
proof -
  let ?c = "js_trim (yi_clusterId input)" and ?dry = "yi_dryRun input"
  have sends: "keeps I (p_bind (ya_client api ?c) (\<lambda>_. p_bind (p_map (apply_document api ?c ?dry) ds) (\<lambda>items. p_ok (f items))))"
    if "\<And>d. d \<in> set ds \<Longrightarrow> \<exists>u t t'. auth d t = (Inr u, t')" for ds and f :: "yaml_item list \<Rightarrow> yaml_result"
    using that docs by (intro keeps_bind client keeps_map_mem keep_rules) blast
  have "keeps I (p_bind (p_each auth ds) (\<lambda>_. p_bind (ya_client api ?c) (\<lambda>_. p_bind (p_map (apply_document api ?c ?dry) ds) (\<lambda>items. p_ok (f items)))))"
    for ds and f :: "yaml_item list \<Rightarrow> yaml_result"
    by (rule keeps_each_bind [OF keeps_each [OF a] sends])
  then show ?thesis unfolding applyYaml_def Let_def by (intro keeps_if keeps_simple keeps_lift_bind)
qed

lemma keeps_manifest_on:
  assumes "tolerates {e. on_target env action e} J"
  shows "keeps (holds J) (run_manifest env actor action dry)"
proof -
  have apply_on: "keeps (holds J) (applyYaml (ai_yaml env) \<lparr>yi_clusterId = c, yi_namespace = Some n, yi_yaml = m, yi_dryRun = dry\<rparr>
      (authorize_document env actor c n u))"
    if t: "requireTarget action = Inr t" and c: "requireClusterField t ''target.clusterId'' = Inr c"
      and n: "requireNamespace (jget t ''namespace'') ''target.namespace'' = Inr n" for t c n m u
  proof -
    have tr: "js_trim c = c" using c requireSimpleField_trim by (auto simp: requireClusterField_def)
    have doc: "keeps (holds J) (apply_document (ai_yaml env) c dry d)" if "doc_namespace env d = n" for d
      unfolding apply_document_def
      by (intro keep_rules) (use that t c n in \<open>auto simp: ai_yaml_def on_target_def target_cluster_def target_namespace_def
            intro!: keeps_send [OF assms]\<close>)
    show ?thesis
      by (rule keeps_applyYaml) (auto simp: ai_yaml_def [of env] tr intro: keeps_read ai_keeps doc [unfolded ai_yaml_def] dest: authorize_document_namespace)
  qed
  show ?thesis
    unfolding run_manifest_def
    by (intro keeps_lift_bind keep_rules ai_keeps apply_on)
qed

lemma keeps_dispatch_on:
  assumes "tolerates {e. on_target env action e} J"
  shows "keeps (holds J) (dispatch env actor action op rid)"
  unfolding dispatch_def with_permission_def run_mutation_def applyResourceManifest_def
  by (intro keep_rules ai_keeps keeps_import_on keeps_restart_on keeps_manifest_on assms)

text \<open>Normalising the operation does not change the target.\<close>

lemma on_target_normalized:
  assumes "a = (if b then action else jset action ''operation'' (JStr op))"
  shows "on_target env a e \<Longrightarrow> jget action ''target'' \<noteq> None \<Longrightarrow> on_target env action e"
proof -
  assume o: "on_target env a e" and t: "jget action ''target'' \<noteq> None"
  have "jget a ''target'' = jget action ''target''"
    using assms by simp
  then have "requireTarget a = requireTarget action" by (simp add: requireTarget_def)
  then show "on_target env action e" using o by (simp add: on_target_def target_cluster_def target_namespace_def split: option.splits)
qed

lemma on_target_target: "on_target env a e \<Longrightarrow> jget a ''target'' \<noteq> None"
  by (auto simp: on_target_def target_cluster_def requireTarget_def split: option.splits)

lemma execute_on_target:
  assumes run: "execute env actor (Some action) w = (r, w')" and e: "e \<in> set (drop (length (ww_effects w)) (ww_effects w'))"
  shows "on_target env action e"
proof (cases "rbind (validateAction (Some action)) normalizeExecuteInput")
  case (Inl x)
  then have "execute_failed env actor (ee_requestId env w) (unnormalized_action (Some action)) (unnormalized_op (Some action)) x w = (r, w')"
    using run by (simp add: execute_def Let_def)
  from keepsD [OF keeps_failed [where J = "\<lambda>A es. es = ww_effects w"] _ this] e show ?thesis by simp
next
  case (Inr a)
  from validated_registered [OF this] obtain b op where a: "a = (if b then action else jset action ''operation'' (JStr op))"
    by (metis option.inject)
  let ?J = "\<lambda>A es. \<exists>ds. es = ww_effects w @ ds \<and> (\<forall>d \<in> set ds. on_target env a d)"
  have "tolerates {e. on_target env a e} ?J" by (auto simp: tolerates_def)
  then have "keeps (holds ?J) (p_catch (execute_action env actor rid a) (\<lambda>e. execute_failed env actor rid (Some a) (normalized_op a) e))" for rid
    unfolding execute_action_def by (intro keep_rules ai_keeps keeps_dispatch_on)
  moreover have "p_catch (execute_action env actor (ee_requestId env w) a)
      (\<lambda>e. execute_failed env actor (ee_requestId env w) (Some a) (normalized_op a) e) w = (r, w')"
    using run Inr by (simp add: execute_def Let_def)
  ultimately have "?J (ww_approvals w') (ww_effects w')" using keepsD [where s = w] by fastforce
  then have on: "on_target env a e" using e by auto
  have "jget a ''target'' \<noteq> None" using on by (rule on_target_target)
  then have "jget action ''target'' \<noteq> None" using a by (simp split: if_splits)
  then show ?thesis using on_target_normalized [OF a on] by simp
qed

section \<open>What the check of the controller establishes\<close>

text \<open>The assistant may be used for a mutation in a namespace of a cluster.\<close>

definition may_mutate :: "ai_env \<Rightarrow> ai_world \<Rightarrow> string \<Rightarrow> string \<Rightarrow> string \<Rightarrow> bool" where
  "may_mutate env w userId c n \<longleftrightarrow> (\<exists>uid. ee_uid env w c n = Inr uid \<and> dc_allowed (authorize (ww_access w) (ww_now w)
     \<lparr>rq_userId = userId, rq_clusterId = c, rq_namespaceUid = Some uid, rq_capability = Some use_capability, rq_mutation = True\<rparr>))"

lemma assistant_authorize_mutation:
  assumes "assistant_authorize env (Some actor) c n True True w = (Inr a, w')" and "\<not> admin_role (ar_role actor)"
  shows "\<exists>u cs ns. actor_id (Some actor) = Some u \<and> js_trim_opt c = Inr (Some cs) \<and> js_trim_opt n = Inr (Some ns) \<and> cs \<noteq> [] \<and> ns \<noteq> []
    \<and> may_mutate env w u cs ns \<and> w' = w \<and> ar_role a = Some ''cluster-operator'' \<and> ar_userId a = ar_userId actor"
proof -
  from assms obtain u where u: "actor_id (Some actor) = Some u" by (auto simp: assistant_authorize_def Let_def split: option.splits)
  from assms u obtain x y where c: "js_trim_opt c = Inr x" and n: "js_trim_opt n = Inr y"
    by (auto simp: assistant_authorize_def Let_def split: sum.splits)
  let ?cs = "case x of None \<Rightarrow> [] | Some s \<Rightarrow> s" and ?ns = "case y of None \<Rightarrow> [] | Some s \<Rightarrow> s"
  from assms u c n have ne: "?cs \<noteq> []" "?ns \<noteq> []" by (auto simp: assistant_authorize_def Let_def split: if_splits)
  from assms u c n ne have "authorize_scope env actor u ?cs ?ns True w = (Inr a, w')"
    by (simp add: assistant_authorize_def Let_def)
  then have "may_mutate env w u ?cs ?ns" "w' = w" "a = actor\<lparr>ar_role := Some ''cluster-operator''\<rparr>"
    by (auto simp: authorize_scope_def p_bind_Inr p_read_def may_mutate_def split: if_splits)
  moreover have "x = Some ?cs" "y = Some ?ns" using ne by (auto split: option.splits)
  ultimately show ?thesis using u c n ne by auto
qed

lemma p_map_read:
  assumes "p_map f xs w = (Inr ys, w')" and "\<And>x y v v'. x \<in> set xs \<Longrightarrow> f x v = (Inr y, v') \<Longrightarrow> v' = v"
  shows "w' = w \<and> list_all2 (\<lambda>x y. f x w = (Inr y, w)) xs ys"
  using assms
proof (induction xs arbitrary: ys)
  case (Cons x xs)
  then obtain y w1 zs where x: "f x w = (Inr y, w1)" and z: "p_map f xs w1 = (Inr zs, w')" "ys = y # zs"
    by (auto simp: p_bind_Inr)
  have "w1 = w" using Cons.prems(2) [OF _ x] by simp
  then show ?case using Cons.IH [of zs] Cons.prems(2) x z by auto
qed simp

end
