(* ===== verification/Kn_AiExamples.thy ===== *)
theory Kn_AiExamples
  imports Kn_AiScope
begin

text \<open>
  A small world for the properties of AI actions: two clusters, and a user who may use the
  assistant in one namespace of the first.
\<close>

definition ex_ai_grant :: grant where
  "ex_ai_grant = \<lparr>gr_id = ''g1'', gr_userId = Some ''u1'', gr_groupId = None, gr_clusterId = ''c1'', gr_role = ''operator'',
     gr_state = ''active'', gr_validFrom = 0, gr_expiresAt = None, gr_revokedAt = None, gr_scopes = [(''team-uid'', ''team'')],
     gr_capabilities = [''ai-assistant:use'']\<rparr>"

definition ex_ai_cluster :: "string \<Rightarrow> cluster_entry" where
  "ex_ai_cluster c = \<lparr>ce_id = c, ce_status = ''ready'', ce_deletedAt = None, ce_metadata = JObj [(''kubeconfig'', JStr ''k'')]\<rparr>"

definition ex_ai_world :: ai_world where
  "ex_ai_world = \<lparr>ww_now = 1000, ww_access = \<lparr>az_grants = [ex_ai_grant], az_memberships = [],
       az_clusters = [\<lparr>rc_id = ''c1'', rc_deletedAt = None, rc_status = ''ready''\<rparr>, \<lparr>rc_id = ''c2'', rc_deletedAt = None, rc_status = ''ready''\<rparr>],
       az_bindings = [], az_bindingTable = False, az_authorization = True\<rparr>,
     ww_clusters = [ex_ai_cluster ''c1'', ex_ai_cluster ''c2''], ww_users = [], ww_conversations = [], ww_messages = [],
     ww_audits = [], ww_effects = [], ww_approvals = []\<rparr>"

definition ex_ai_env :: ai_env where
  "ex_ai_env = \<lparr>ee_load = \<lambda>s. None, ee_nt = \<lambda>n. ''0'', ee_json = \<lambda>is. [], ee_iso = \<lambda>t. ''t'', ee_requestId = \<lambda>w. ''r'',
     ee_newId = \<lambda>w. ''id'' @ replicate (length (ww_approvals w)) CHR ''x'',
     ee_query = \<lambda>op sc a j w. (Inl TypeError, []), ee_patch = \<lambda>w e. Inr (), ee_import = \<lambda>w e. Inr JNull, ee_apply = \<lambda>w e. Inr JNull,
     ee_client = \<lambda>w c. Inr (), ee_uid = \<lambda>w c n. Inr (n @ ''-uid''), ee_readback = canonicalValue code_unit_cmp,
     ee_finishFails = \<lambda>w. False, ee_writeback = \<lambda>w n. None\<rparr>"

definition ex_ai_actor :: ai_actor where
  "ex_ai_actor = \<lparr>ar_userId = Some ''u1'', ar_username = Some ''ann'', ar_role = Some ''cluster-operator''\<rparr>"

definition ex_ai_target :: "string \<Rightarrow> json" where
  "ex_ai_target c = JObj [(''namespace'', JStr ''team''), (''clusterId'', JStr c), (''kind'', JStr ''Deployment''), (''name'', JStr ''web'')]"

definition ex_ai_restart :: "string \<Rightarrow> json" where
  "ex_ai_restart c = JObj [(''operation'', JStr ''restart-workload''), (''target'', ex_ai_target c)]"

definition ex_ai_previewed :: "(thrown + preview_response) \<times> ai_world" where
  "ex_ai_previewed = previewAction ex_ai_env ex_ai_actor (Some (ex_ai_restart ''c1'')) ex_ai_world"

definition ex_ai_executed :: "(thrown + ai_result) \<times> ai_world" where
  "ex_ai_executed = executeAction ex_ai_env ex_ai_actor (Some (ex_ai_restart ''c1'')) (Some ''id'') (snd ex_ai_previewed)"

lemma ex_ai_effects: "ww_effects (snd ex_ai_executed) = [Patched ''c1'' ''team'' ''Deployment'' ''web'']"
  by code_simp

text \<open>The other cluster is refused to the same user.\<close>

lemma ex_ai_refused: "\<exists>e. fst (previewAction ex_ai_env ex_ai_actor (Some (ex_ai_restart ''c2'')) ex_ai_world) = Inl e"
proof -
  have "(case fst (previewAction ex_ai_env ex_ai_actor (Some (ex_ai_restart ''c2'')) ex_ai_world) of Inl e \<Rightarrow> True | Inr v \<Rightarrow> False)"
    by code_simp
  then show ?thesis by (auto split: sum.splits)
qed

section \<open>An action with both a target and targets\<close>

text \<open>
  The check of the controller looks at \<open>targets\<close> when it is not empty, the executor of a restart at
  \<open>target\<close>: with the first naming the granted namespace, the second may name any other.
\<close>

definition ex_ai_split :: json where
  "ex_ai_split = JObj [(''operation'', JStr ''restart-workload''), (''target'', ex_ai_target ''c2''), (''targets'', JArr [ex_ai_target ''c1''])]"

definition ex_ai_split_run :: "(thrown + ai_result) \<times> ai_world" where
  "ex_ai_split_run = executeAction ex_ai_env ex_ai_actor (Some ex_ai_split) (Some ''id'')
     (snd (previewAction ex_ai_env ex_ai_actor (Some ex_ai_split) ex_ai_world))"

lemma split_target_unauthorized:
  "ww_effects (snd ex_ai_split_run) = [Patched ''c2'' ''team'' ''Deployment'' ''web''] \<and> \<not> may_mutate ex_ai_env ex_ai_world ''u1'' ''c2'' ''team''"
proof
  show "ww_effects (snd ex_ai_split_run) = [Patched ''c2'' ''team'' ''Deployment'' ''web'']" by code_simp
  have "\<not> dc_allowed (authorize (ww_access ex_ai_world) (ww_now ex_ai_world)
     \<lparr>rq_userId = ''u1'', rq_clusterId = ''c2'', rq_namespaceUid = Some ''team-uid'', rq_capability = Some use_capability, rq_mutation = True\<rparr>)"
    by code_simp
  then show "\<not> may_mutate ex_ai_env ex_ai_world ''u1'' ''c2'' ''team''" by (simp add: may_mutate_def ex_ai_env_def)
qed

end
