(* ===== verification/Kn_AiProps.thy ===== *)
theory Kn_AiProps
  imports Kn_AiExamples
begin

text \<open>
  Properties of AI actions: approvals are used once, for the action they were given to; nothing is
  changed without one; and what is changed lies in the scope the caller was authorized for.
\<close>

section \<open>Approvals\<close>

text \<open>
  C3. However the calls of the approval service, the executor and the rest of the platform
  interleave, an approval is dispatched at most once; and a dispatch was checked, at an instant
  inside the five minutes after its creation, against an approval of the same user whose stored
  action has the same canonical text as the action that is run.
\<close>

theorem ai_approval_once:
  assumes "reach ai_init (ai_step env) s" and "d \<in> set (sy_log s)"
  shows "length (filter (\<lambda>e. dp_id e = dp_id d) (sy_log s)) = 1
    \<and> granted_by env (sy_world s) (dp_id d) (dp_user d) (dp_action d) (dp_op d) (dp_checkedAt d)"
proof -
  have inv: "ai_inv env s" using approvals.reach_inv [OF assms(1)] .
  have "length (filter (\<lambda>e. dp_id e = dp_id d) (sy_log s)) \<le> uses s (dp_id d)" by (simp add: uses_def)
  also have "\<dots> \<le> 1" using inv by (simp add: ai_inv_def)
  finally have "length (filter (\<lambda>e. dp_id e = dp_id d) (sy_log s)) \<le> 1" .
  moreover have "filter (\<lambda>e. dp_id e = dp_id d) (sy_log s) \<noteq> []" using assms(2) by (auto simp: filter_empty_conv)
  ultimately have "length (filter (\<lambda>e. dp_id e = dp_id d) (sy_log s)) = 1"
    by (cases "filter (\<lambda>e. dp_id e = dp_id d) (sy_log s)") auto
  then show ?thesis using inv assms(2) by (simp add: ai_inv_def)
qed

text \<open>
  C19. In every reachable state, each change that the assistant sent to a cluster or to the Helm
  repositories (dry runs are none) belongs to a dispatch of an approval that is no longer pending;
  previews, read-only actions and automatic queries changed nothing.
\<close>

theorem ai_writes_need_approval:
  assumes "reach ai_init (ai_step env) s" and "e \<in> set (ww_effects (sy_world s))" and "mutating e"
  shows "\<exists>d \<in> set (sy_log s). e \<in> set (dp_effects d) \<and> (\<exists>r \<in> set (ww_approvals (sy_world s)). aa_id r = dp_id d \<and> aa_status r \<noteq> ''pending'')"
proof -
  have inv: "ai_inv env s" using approvals.reach_inv [OF assms(1)] .
  then have "filter mutating (ww_effects (sy_world s)) = concat (map dp_effects (sy_log s))" by (simp add: ai_inv_def)
  moreover have "e \<in> set (filter mutating (ww_effects (sy_world s)))" using assms(2,3) by simp
  ultimately have "e \<in> set (concat (map dp_effects (sy_log s)))" by simp
  then obtain d where d: "d \<in> set (sy_log s)" "e \<in> set (dp_effects d)" by auto
  then obtain r where r: "r \<in> set (ww_approvals (sy_world s))" "aa_id r = dp_id d"
    using inv by (auto simp: ai_inv_def granted_by_def)
  have "uses s (aa_id r) \<noteq> 0" using d(1) r(2) by (auto simp: uses_def filter_empty_conv)
  then have "aa_status r \<noteq> ''pending''" using inv r(1) by (auto simp: ai_inv_def)
  then show ?thesis using d r by blast
qed

text \<open>A run with one preview, one execution and its effect.\<close>

definition ex_sys0 :: ai_system where
  "ex_sys0 = \<lparr>sy_world = ex_ai_world, sy_calls = [], sy_log = []\<rparr>"

definition ex_action :: json where "ex_action = ex_ai_restart ''c1''"

definition ex_pv :: ai_preview where
  "ex_pv = (case fst (preview ex_ai_env (Some ex_ai_actor) (Some ex_action) ex_ai_world) of Inr p \<Rightarrow> p)"

definition ex_created :: "approval_row \<times> ai_world" where
  "ex_created = create_approval ex_ai_env ''u1'' ex_action ex_pv ''restart-workload'' ex_ai_world"

definition ex_call :: ai_call where
  "ex_call = \<lparr>cl_id = ''id'', cl_user = ''u1'', cl_actor = Some ex_ai_actor, cl_action = ex_action, cl_op = ''restart-workload'',
     cl_checkedAt = 1000, cl_phase = Checked\<rparr>"

definition ex_consumed :: "nat \<times> approval_row list" where
  "ex_consumed = consume_approval 1000 ''id'' ''u1'' (ww_approvals (snd ex_created))"

definition ex_ran :: "(thrown + ai_result) \<times> ai_world" where
  "ex_ran = execute ex_ai_env (Some ex_ai_actor) (Some ex_action) ((snd ex_created)\<lparr>ww_approvals := snd ex_consumed\<rparr>)"

definition ex_dispatched :: ai_dispatch where
  "ex_dispatched = \<lparr>dp_id = ''id'', dp_user = ''u1'', dp_action = ex_action, dp_op = ''restart-workload'', dp_checkedAt = 1000,
     dp_effects = [Patched ''c1'' ''team'' ''Deployment'' ''web'']\<rparr>"

definition ex_final :: ai_system where
  "ex_final = \<lparr>sy_world = snd ex_ran, sy_calls = [ex_call\<lparr>cl_phase := Ran\<rparr>], sy_log = [ex_dispatched]\<rparr>"

lemma ex_ai_valid: "rbind (validateAction (Some ex_action)) normalizeExecuteInput = Inr ex_action"
  by code_simp

lemma ex_op: "normalized_op ex_action = ''restart-workload''"
  by code_simp

lemma ex_ai_reach: "reach ai_init (ai_step ex_ai_env) ex_final"
proof -
  have i: "reach ai_init (ai_step ex_ai_env) ex_sys0"
    by (rule reach_init) (simp add: ai_init_def ex_sys0_def ex_ai_world_def)
  let ?s1 = "ex_sys0\<lparr>sy_world := snd ex_created\<rparr>"
  have "actor_id (Some ex_ai_actor) = Some ''u1''" "\<not> isReadOnly ex_action" "pw_operation ex_pv = Some (normalized_op ex_action)"
    by code_simp+
  note who = this
  have "ai_step ex_ai_env ex_sys0 (LCreate (aa_id (fst ex_created))) ?s1"
    by (rule st_create [OF who(1,2) ex_ai_valid who(3)]) (simp_all add: ex_sys0_def ex_created_def ex_op, simp add: ex_ai_world_def)
  with i have r1: "reach ai_init (ai_step ex_ai_env) ?s1" by (rule reach_step)
  let ?s2 = "?s1\<lparr>sy_calls := [ex_call]\<rparr>"
  have c: "find_approval ''id'' (ww_approvals (snd ex_created)) = Some (fst ex_created)" by code_simp
  have m: "approval_matches ex_ai_env (ww_now (snd ex_created)) ''u1'' (canonicalAction ex_action (normalized_op ex_action)) (fst ex_created)" by code_simp
  have "ww_now (snd ex_created) = 1000" by code_simp
  then have "ai_step ex_ai_env ?s1 (LCheck ''id'') ?s2"
    using st_check [of "Some ex_ai_actor" "''u1''" ex_action ex_action "''id''" ?s1 "fst ex_created" ex_ai_env] who ex_ai_valid c m
    by (simp add: ex_sys0_def ex_call_def ex_op)
  with r1 have r2: "reach ai_init (ai_step ex_ai_env) ?s2" by (rule reach_step)
  let ?w2 = "(snd ex_created)\<lparr>ww_approvals := snd ex_consumed\<rparr>"
  let ?s3 = "?s2\<lparr>sy_world := ?w2, sy_calls := [ex_call\<lparr>cl_phase := Consumed\<rparr>]\<rparr>"
  have "fst ex_consumed = 1" by code_simp
  then have "consume_approval 1000 ''id'' ''u1'' (ww_approvals (snd ex_created)) = (1, snd ex_consumed)"
    by (metis ex_consumed_def prod.collapse)
  then have "ai_step ex_ai_env ?s2 (LConsume ''id'') ?s3"
    using st_consume [of ?s2 "[]" ex_call "[]" "snd ex_created" 1 "snd ex_consumed" ex_ai_env] \<open>ww_now (snd ex_created) = 1000\<close>
    by (simp add: ex_call_def ex_sys0_def)
  with r2 have r3: "reach ai_init (ai_step ex_ai_env) ?s3" by (rule reach_step)
  have nm: "new_mutations ?w2 (snd ex_ran) = [Patched ''c1'' ''team'' ''Deployment'' ''web'']" by code_simp
  have "ai_step ex_ai_env ?s3 (LDispatch ''id'') ex_final"
    using st_dispatch [of ?s3 "[]" "ex_call\<lparr>cl_phase := Consumed\<rparr>" "[]" ?w2 ex_ai_env "fst ex_ran" "snd ex_ran"] nm
    by (simp add: ex_call_def ex_final_def ex_dispatched_def ex_ran_def ex_sys0_def)
  with r3 show ?thesis by (rule reach_step)
qed

lemma ai_approval_once_witness:
  "length (filter (\<lambda>e. dp_id e = dp_id ex_dispatched) (sy_log ex_final)) = 1
    \<and> granted_by ex_ai_env (sy_world ex_final) ''id'' ''u1'' ex_action ''restart-workload'' 1000"
  using ai_approval_once [OF ex_ai_reach, of ex_dispatched] by (simp add: ex_final_def ex_dispatched_def)

lemma ai_writes_need_approval_witness:
  "\<exists>d \<in> set (sy_log ex_final). Patched ''c1'' ''team'' ''Deployment'' ''web'' \<in> set (dp_effects d)
     \<and> (\<exists>r \<in> set (ww_approvals (sy_world ex_final)). aa_id r = dp_id d \<and> aa_status r \<noteq> ''pending'')"
proof (rule ai_writes_need_approval [OF ex_ai_reach])
  have "ww_effects (snd ex_ran) = [Patched ''c1'' ''team'' ''Deployment'' ''web'']" by code_simp
  then show "Patched ''c1'' ''team'' ''Deployment'' ''web'' \<in> set (ww_effects (sy_world ex_final))" by (simp add: ex_final_def)
qed simp

section \<open>Equality of texts\<close>

text \<open>
  C38. stableJson decides equality of values: two JSON values with finite numbers have the same
  text exactly when they are equal up to the order of object keys, so no two different actions can
  share an approval.
\<close>

theorem stable_json_exact:
  assumes "number_text nt" and "finite_json v" and "finite_json w"
  shows "stableJson nt v = stableJson nt w \<longleftrightarrow> canonicalValue code_unit_cmp v = canonicalValue code_unit_cmp w"
  by (rule stableJson_inject [OF assms])

text \<open>A text of numbers with the properties asked for: numerator and denominator in decimal around a sign.\<close>

definition digits_value :: "string \<Rightarrow> nat" where
  "digits_value s = foldl (\<lambda>a c. 10 * a + (of_char c - 48)) 0 s"

definition ex_number :: "jsnum \<Rightarrow> string" where
  "ex_number v = (case v of Fin q \<Rightarrow> show_nat (nat \<bar>fst (quotient_of q)\<bar>) @ (if q < 0 then CHR ''-'' else CHR ''+'') # show_nat (nat (snd (quotient_of q)))
     | _ \<Rightarrow> [])"

lemma digits_value_show [simp]: "digits_value (show_nat n) = n"
proof (induction n rule: show_nat.induct)
  case (1 n)
  show ?case
  proof (cases "n < 10")
    case True
    then show ?thesis by (subst show_nat.simps) (simp add: digits_value_def)
  next
    case False
    then have "digits_value (show_nat n) = 10 * digits_value (show_nat (n div 10)) + n mod 10"
      by (subst show_nat.simps) (simp add: digits_value_def)
    then show ?thesis using 1 False by simp
  qed
qed

lemma show_nat_digits: "c \<in> set (show_nat n) \<Longrightarrow> is_digit c"
proof (induction n rule: show_nat.induct)
  case (1 n)
  then show ?case by (subst (asm) show_nat.simps) (auto simp: is_digit_def split: if_splits)
qed

lemma show_nat_ne: "show_nat n \<noteq> []"
  by (subst show_nat.simps) simp

lemma show_nat_split:
  assumes "\<not> is_digit c" and "\<not> is_digit d" and "show_nat m @ c # r = show_nat n @ d # s"
  shows "m = n \<and> c = d \<and> r = s"
proof -
  have t: "takeWhile is_digit (show_nat k @ x # y) = show_nat k" "dropWhile is_digit (show_nat k @ x # y) = x # y" if "\<not> is_digit x" for k x y
    using that show_nat_digits [of _ k] by (auto simp: takeWhile_append2 dropWhile_append2)
  have "show_nat m = show_nat n" using t(1) [OF assms(1)] t(1) [OF assms(2)] assms(3) by metis
  then have "m = n" by (metis digits_value_show)
  moreover have "c # r = d # s" using t(2) [OF assms(1)] t(2) [OF assms(2)] assms(3) by metis
  ultimately show ?thesis by simp
qed

lemma show_nat_inj: "show_nat m = show_nat n \<Longrightarrow> m = n"
  by (metis digits_value_show)

lemma quotient_sign: "fst (quotient_of r) < 0 \<longleftrightarrow> r < 0"
proof -
  obtain n d where q: "quotient_of r = (n, d)" by fastforce
  then have "r = of_int n / of_int d" "d > 0" using quotient_of_div quotient_of_denom_pos by blast+
  then show ?thesis using q by (simp add: divide_less_0_iff)
qed

lemma ex_number_inj: "ex_number (Fin p) = ex_number (Fin q) \<Longrightarrow> p = q"
proof -
  let ?n = "\<lambda>q. nat \<bar>fst (quotient_of q)\<bar>" and ?d = "\<lambda>q. nat (snd (quotient_of q))" and ?s = "\<lambda>q :: rat. if q < 0 then CHR ''-'' else CHR ''+''"
  assume "ex_number (Fin p) = ex_number (Fin q)"
  then have "show_nat (?n p) @ ?s p # show_nat (?d p) = show_nat (?n q) @ ?s q # show_nat (?d q)" by (simp add: ex_number_def)
  then have "?n p = ?n q \<and> ?s p = ?s q \<and> show_nat (?d p) = show_nat (?d q)"
    by (rule show_nat_split [rotated 2]) (simp_all add: is_digit_def)
  then have n: "?n p = ?n q" and s: "p < 0 \<longleftrightarrow> q < 0" and d: "?d p = ?d q"
    by (auto split: if_splits dest: show_nat_inj)
  have "snd (quotient_of p) = snd (quotient_of q)"
    using d quotient_of_denom_pos' [of p] quotient_of_denom_pos' [of q] by simp
  moreover have "fst (quotient_of p) = fst (quotient_of q)" using n s quotient_sign [of p] quotient_sign [of q] by linarith
  ultimately have "quotient_of p = quotient_of q" by (simp add: prod_eq_iff)
  then show "p = q" by (rule quotient_of_inject)
qed

lemma ex_number_char: "c \<in> set (ex_number (Fin q)) \<Longrightarrow> number_char c"
  by (auto simp: ex_number_def number_char_def dest: show_nat_digits split: if_splits)

lemma ex_number_text: "number_text ex_number"
  using ex_number_char ex_number_inj by (auto simp: number_text_def inj_def ex_number_def)

lemma stable_json_exact_witness:
  "stableJson ex_number (JObj [(''b'', JNum (num 1)), (''a'', JArr [])]) = stableJson ex_number (JObj [(''a'', JArr []), (''b'', JNum (num 1))])
   \<and> stableJson ex_number (JArr [JNum (num 1), JNum (num 2)]) \<noteq> stableJson ex_number (JArr [JNum (num 2), JNum (num 1)])"
proof
  show "stableJson ex_number (JObj [(''b'', JNum (num 1)), (''a'', JArr [])]) = stableJson ex_number (JObj [(''a'', JArr []), (''b'', JNum (num 1))])"
    by (rule stable_json_exact [OF ex_number_text, THEN iffD2]) code_simp+
  have f: "finite_json (JArr [JNum (num 1), JNum (num 2)])" "finite_json (JArr [JNum (num 2), JNum (num 1)])" by code_simp+
  have "canonicalValue code_unit_cmp (JArr [JNum (num 1), JNum (num 2)]) \<noteq> canonicalValue code_unit_cmp (JArr [JNum (num 2), JNum (num 1)])"
    by code_simp
  then show "stableJson ex_number (JArr [JNum (num 1), JNum (num 2)]) \<noteq> stableJson ex_number (JArr [JNum (num 2), JNum (num 1)])"
    using stable_json_exact [OF ex_number_text f] by blast
qed

section \<open>From preview to execution\<close>




lemma expire_ids: "aa_id ` set (expire_pending now rows) = aa_id ` set rows"
  using keys_ids [OF keys_expire [of now rows]] by (metis list.set_map)








section \<open>Scopes\<close>

lemma approval_execute_on_target:
  assumes "approval_execute env actor (Some action) aid w = (r, w')" and "e \<in> set (new_mutations w w')"
  shows "on_target env action e"
proof -
  let ?J = "\<lambda>A es. \<exists>ds. es = ww_effects w @ ds \<and> (\<forall>d \<in> set ds. mutating d \<longrightarrow> on_target env action d)"
  have ex: "keeps (holds ?J) (execute env actor (Some action))"
  proof (rule keepsI)
    fix s r s' assume J: "holds ?J s" and run: "execute env actor (Some action) s = (r, s')"
    obtain es where es: "ww_effects s' = ww_effects s @ es" using execute_frame [OF run] by blast
    then have "on_target env action d" if "d \<in> set es" for d using execute_on_target [OF run, of d] that by simp
    then show "holds ?J s'" using J es by auto
  qed
  have pre: "keeps (holds ?J) (preview env actor (Some action))"
    by (rule keeps_preview) (auto simp: tolerates_def)
  have fin: "keeps (holds ?J) (p_finally (execute env actor (Some action)) (finish_call env i))" for i
    using ex by (auto simp: keeps_def p_finally_def finish_call_def split: prod.splits)
  have con: "keeps (holds ?J) (\<lambda>w. case consume_approval (ww_now w) i u (ww_approvals w) of
      (n, rows) \<Rightarrow> ((if n \<noteq> 1 then Inl (forbidden ''approval already used'') else Inr ()), w\<lparr>ww_approvals := rows\<rparr>))" for i u
    by (auto simp: keeps_def split: prod.splits)
  have "keeps (holds ?J) (approved_execute env actor action u i op)" for u i op
    unfolding approved_execute_def by (intro keeps_bind keeps_read con fin)
  then have "keeps (holds ?J) (approval_execute env actor (Some action) aid)"
    unfolding approval_execute_def using pre ex
    by (auto intro!: keep_rules keeps_option split: json.splits option.splits)
  from keepsD [OF this _ assms(1)] assms(2) show ?thesis by (auto simp: new_mutations_def)
qed

text \<open>No second list of targets.\<close>

definition single_target :: "json \<Rightarrow> bool" where
  "single_target action \<longleftrightarrow> jget action ''targets'' \<in> {None, Some JNull, Some (JArr [])}"

lemma platform_role_admin: "admin_role (Some (normalizePlatformRole r)) \<longleftrightarrow> normalizePlatformRole r = ''platform-admin''"
  by (auto simp: normalizePlatformRole_def Let_def admin_role_def) (code_simp)+

lemma nullish_self [simp]: "nullish v v = v"
  by (simp add: nullish_def)

lemma authorizeAction_single:
  assumes "authorizeAction env req (Some action) w = (Inr actor, w')" and "single_target action"
    and "is_mutation (Some action) = Inr True" and "requireTarget action = Inr t"
  shows "\<exists>v. assistant_authorize env (Some (platform_actor req)) (jget t ''clusterId'')
      (nullish (jget t ''namespace'') (jget_opt (jget action ''options'') ''namespace'')) True True w = (Inr actor, v) \<and> w' = v"
proof -
  have t: "jget action ''target'' = Some t" "t \<noteq> JNull"
    using assms(4) by (auto simp: requireTarget_def truthy_def split: option.splits if_splits)
  have "action_targets (Some action) = Inr [t]"
    using assms(2) t by (auto simp: action_targets_def single_target_def jget_opt_def nullish_def jget_def [of JNull] truthy_def)
  moreover have "scope_cluster (Some action) t = jget t ''clusterId''" "scope_namespace (Some action) t = jget t ''namespace''"
    using t by (simp_all add: scope_cluster_def scope_namespace_def jget_opt_def)
  ultimately show ?thesis
    using assms(1,3)
    by (auto simp: authorizeAction_def p_bind_run jget_opt_def [of "Some action"] split: sum.splits prod.splits)
qed

text \<open>
  C6. When a caller who is no platform administrator has an assistant action with one target
  executed, every change sent to a namespaced resource of a cluster is in a cluster and namespace
  in which, at that instant, the grants of this caller allow the assistant to mutate.
\<close>

theorem ai_scope_authorized:
  assumes "executeAction env req (Some action) aid w = (r, w')"
    and "normalizePlatformRole (ar_role req) \<noteq> ''platform-admin''"
    and "is_mutation (Some action) = Inr True" and "single_target action"
    and "e \<in> set (new_mutations w w')" and "effect_scope env e = (c, Some n)"
  shows "\<exists>u. actor_id (Some req) = Some u \<and> may_mutate env w u c n"
proof -
  obtain q w1 where auth: "authorizeAction env req (Some action) w = (q, w1)" by fastforce
  have "keeps (holds (\<lambda>A es. es = ww_effects w)) (assistant_authorize env a x y m s)" for a x y m s
    unfolding assistant_authorize_def authorize_scope_def Let_def by (intro keep_rules ai_keeps)
  then have k: "keeps (holds (\<lambda>A es. es = ww_effects w)) (authorizeAction env req (Some action))"
    unfolding authorizeAction_def by (intro keep_rules)
  have same: "ww_effects w1 = ww_effects w" using keepsD [OF k _ auth] by simp
  obtain actor where actor: "q = Inr actor" and ex: "approval_execute env (Some (platform_actor actor)) (Some action) aid w1 = (r, w')"
    using assms(1,5) auth same by (cases q) (auto simp: executeAction_def p_bind_def new_mutations_def)
  have "e \<in> set (new_mutations w1 w')" using assms(5) same by (simp add: new_mutations_def)
  then have on: "on_target env action e" using approval_execute_on_target [OF ex] by blast
  then obtain t where t: "requireTarget action = Inr t" and c: "requireClusterField t ''target.clusterId'' = Inr c"
    and n: "requireNamespace (jget t ''namespace'') ''target.namespace'' = Inr n"
    using assms(6) by (auto simp: on_target_def target_cluster_def target_namespace_def)
  have cs: "js_trim_opt (jget t ''clusterId'') = Inr (Some c)" using c requireSimpleField_trim by (auto simp: requireClusterField_def)
  have ns: "js_trim_opt (jget t ''namespace'') = Inr (Some n)" using requireNamespace_trim [OF n] by simp
  then have nn: "nullish (jget t ''namespace'') z = jget t ''namespace''" for z by (auto simp: nullish_def js_trim_opt_def)
  from authorizeAction_single [OF auth [unfolded actor] assms(4,3) t]
  have "assistant_authorize env (Some (platform_actor req)) (jget t ''clusterId'') (jget t ''namespace'') True True w = (Inr actor, w1)"
    unfolding nn by auto
  from assistant_authorize_mutation [OF this] obtain u where "actor_id (Some (platform_actor req)) = Some u" "may_mutate env w u c n"
    using assms(2) cs ns by (auto simp: platform_actor_def platform_role_admin)
  moreover have "actor_id (Some (platform_actor req)) = actor_id (Some req)" by (simp add: actor_id_def platform_actor_def)
  ultimately show ?thesis by auto
qed

lemma ai_scope_authorized_witness: "\<exists>u. actor_id (Some ex_ai_actor) = Some u \<and> may_mutate ex_ai_env (snd ex_ai_previewed) u ''c1'' ''team''"
proof (rule ai_scope_authorized)
  show "executeAction ex_ai_env ex_ai_actor (Some (ex_ai_restart ''c1'')) (Some ''id'') (snd ex_ai_previewed) = (fst ex_ai_executed, snd ex_ai_executed)"
    unfolding ex_ai_executed_def by (simp only: prod.collapse)
  show "normalizePlatformRole (ar_role ex_ai_actor) \<noteq> ''platform-admin''" by code_simp
  show "is_mutation (Some (ex_ai_restart ''c1'')) = Inr True" by code_simp
  show "single_target (ex_ai_restart ''c1'')" by (simp add: single_target_def ex_ai_restart_def jget_def)
  show "Patched ''c1'' ''team'' ''Deployment'' ''web'' \<in> set (new_mutations (snd ex_ai_previewed) (snd ex_ai_executed))" by code_simp
  show "effect_scope ex_ai_env (Patched ''c1'' ''team'' ''Deployment'' ''web'') = (''c1'', Some ''team'')" by simp
qed

end
