(* ===== verification/Kn_YamlProps.thy ===== *)
theory Kn_YamlProps
  imports Kn_Yaml
begin

text \<open>
  What applying YAML does: documents joined by markers are found again, and no document is sent to
  the cluster before every document of the request was authorized.
\<close>

section \<open>Splitting\<close>

lemma js_split_append_gen: "js_split d (a @ d # b) = js_split d a @ js_split d b"
proof (induction a)
  case (Cons c a)
  obtain p ps where "js_split d a = p # ps" using js_split_nonempty [of d a] by (cases "js_split d a") auto
  then show ?case using Cons by simp
qed simp

lemma js_join_split: "js_join [d] (js_split d s) = s"
proof (induction s)
  case (Cons c s)
  obtain p ps where p: "js_split d s = p # ps" using js_split_nonempty [of d s] by (cases "js_split d s") auto
  then show ?case using Cons by (cases ps) auto
qed simp

lemma set_js_split: "p \<in> set (js_split d s) \<Longrightarrow> set p \<subseteq> set s"
proof (induction s arbitrary: p)
  case (Cons c s)
  obtain q qs where q: "js_split d s = q # qs" using js_split_nonempty [of d s] by (cases "js_split d s") auto
  then have "set q \<subseteq> set s" "\<And>x. x \<in> set qs \<Longrightarrow> set x \<subseteq> set s" using Cons.IH by auto
  then show ?case using Cons.prems q by (auto split: if_splits)
qed simp

lemma split_lines_no_cr: "CHR 13 \<notin> set s \<Longrightarrow> split_lines s = js_split (CHR 10) s"
proof -
  assume cr: "CHR 13 \<notin> set s"
  have ne: "js_split (CHR 10) s \<noteq> []" by (rule js_split_nonempty)
  have "strip_cr p = p" if "p \<in> set (js_split (CHR 10) s)" for p
    using set_js_split [OF that] cr by (cases p rule: rev_cases) (auto simp: strip_cr_def)
  then have "map strip_cr (butlast (js_split (CHR 10) s)) = butlast (js_split (CHR 10) s)"
    by (intro map_idI) (auto dest: in_set_butlastD)
  then show ?thesis using ne by (simp add: split_lines_def Let_def)
qed

text \<open>A document as an editor leaves it: trimmed, with line feeds only and no line that is a marker.\<close>

definition clean_document :: "string \<Rightarrow> bool" where
  "clean_document d \<longleftrightarrow> d \<noteq> [] \<and> js_trim d = d \<and> CHR 13 \<notin> set d \<and> list_all (\<lambda>l. \<not> document_end l) (js_split (CHR 10) d)"

definition marker :: string where "marker = [CHR 10] @ ''---'' @ [CHR 10]"

lemma yaml_lines_skip: "list_all (\<lambda>l. \<not> document_end l) ls \<Longrightarrow> yaml_lines docs cur (ls @ rest) = yaml_lines docs (cur @ ls) rest"
  by (induction ls arbitrary: cur) auto

lemma document_end_marker: "document_end ''---''"
  by (simp add: document_end_def marker_line_def starts_with_def js_ws_def)

lemma yaml_document:
  assumes "clean_document d"
  shows "yaml_lines docs [] (js_split (CHR 10) d) = docs @ [d]"
    "yaml_lines docs [] (js_split (CHR 10) d @ ''---'' # rest) = yaml_lines (docs @ [d]) [] rest"
proof -
  have l: "list_all (\<lambda>l. \<not> document_end l) (js_split (CHR 10) d)" and d: "js_trim d = d" "d \<noteq> []"
    using assms by (auto simp: clean_document_def)
  have c: "close_document docs (js_split (CHR 10) d) = docs @ [d]"
    using d by (simp add: close_document_def js_join_split)
  show "yaml_lines docs [] (js_split (CHR 10) d) = docs @ [d]"
    using yaml_lines_skip [OF l, of docs "[]" "[]"] c by simp
  show "yaml_lines docs [] (js_split (CHR 10) d @ ''---'' # rest) = yaml_lines (docs @ [d]) [] rest"
    using yaml_lines_skip [OF l, of docs "[]" "''---'' # rest"] c document_end_marker by simp
qed

lemma split_join_lines:
  assumes "list_all clean_document ds" and "ds \<noteq> []"
  shows "yaml_lines docs [] (js_split (CHR 10) (js_join marker ds)) = docs @ ds"
  using assms
proof (induction ds arbitrary: docs)
  case (Cons d ds)
  show ?case
  proof (cases ds)
    case Nil
    then show ?thesis using Cons.prems yaml_document(1) [of d docs] by simp
  next
    case (Cons e es)
    have m: "js_join marker (d # ds) = d @ CHR 10 # ''---'' @ CHR 10 # js_join marker ds"
      using Cons by (simp add: marker_def)
    have "js_split (CHR 10) (js_join marker (d # ds)) = js_split (CHR 10) d @ ''---'' # js_split (CHR 10) (js_join marker ds)"
      unfolding m js_split_append_gen [of "CHR 10" d] by simp
    then show ?thesis using Cons.prems Cons.IH [of "docs @ [d]"] Cons yaml_document(2) [of d docs] by simp
  qed
qed simp

lemma join_no_cr: "list_all clean_document ds \<Longrightarrow> CHR 13 \<notin> set (js_join marker ds)"
proof (induction ds)
  case (Cons d ds)
  then show ?case by (cases ds) (auto simp: clean_document_def marker_def)
qed simp

text \<open>
  C39. splitYamlDocuments inverts joining: documents that are trimmed, not empty, without carriage
  returns and without a line that looks like a document marker are found again, in order, from the
  text that joins them with marker lines.
\<close>

theorem yaml_split_roundtrip:
  assumes "list_all clean_document ds" and "ds \<noteq> []"
  shows "splitYamlDocuments (js_join marker ds) = ds"
  using split_join_lines [OF assms, of "[]"] split_lines_no_cr [OF join_no_cr [OF assms(1)]] by (simp add: splitYamlDocuments_def)

definition ex_documents :: "string list" where
  "ex_documents = [''kind: A'' @ [CHR 10] @ ''x: 1'', ''kind: B'']"

lemma yaml_split_roundtrip_witness: "splitYamlDocuments (js_join marker ex_documents) = ex_documents"
  by (rule yaml_split_roundtrip; code_simp)

text \<open>
  A marker is accepted at any indentation, so a line of a block scalar that looks like one splits
  the document around it.
\<close>

lemma yaml_split_indented:
  "splitYamlDocuments (''data: |'' @ [CHR 10] @ ''  a'' @ [CHR 10] @ ''  ---'' @ [CHR 10] @ ''  b'') = [''data: |'' @ [CHR 10] @ ''  a'', ''b'']"
  by code_simp

section \<open>Authorization before any write\<close>

datatype yaml_event = Asked json bool | Sent string bool json

definition traced_yaml :: "'w yaml_api \<Rightarrow> ('w, yaml_event) traced_state yaml_api" where
  "traced_yaml api = \<lparr>ya_load = ya_load api, ya_nt = ya_nt api, ya_client = \<lambda>c. untraced (ya_client api c),
     ya_patch = \<lambda>c dry doc. traced (\<lambda>r. [Sent c dry doc]) (ya_patch api c dry doc)\<rparr>"

definition asked :: "(json \<Rightarrow> (thrown, 'w, unit) eprog) \<Rightarrow> json \<Rightarrow> (thrown, ('w, yaml_event) traced_state, unit) eprog" where
  "asked auth doc = traced (\<lambda>r. [Asked doc (case r of Inl e \<Rightarrow> False | Inr u \<Rightarrow> True)]) (auth doc)"

text \<open>The documents of a request as they are sent.\<close>

definition prepared_documents :: "'w yaml_api \<Rightarrow> yaml_input \<Rightarrow> thrown + json list" where
  "prepared_documents api input = rbind (parseYamlManifests (ya_load api) (js_trim (yi_yaml input)))
     (\<lambda>ms. map_throw (prepareApplyManifest (ya_nt api) (map_option js_trim (yi_namespace input))) ms)"

lemma asked_each:
  "p_map (asked auth) xs (w, tr) = (r, (w', tr')) \<Longrightarrow>
    (case r of Inr us \<Rightarrow> tr' = tr @ map (\<lambda>d. Asked d True) xs
     | Inl e \<Rightarrow> \<exists>zs. tr' = tr @ zs \<and> (\<forall>z \<in> set zs. \<exists>d b. z = Asked d b))"
proof (induction xs arbitrary: w tr r)
  case (Cons x xs)
  obtain q w1 where q: "auth x w = (q, w1)" by (cases "auth x w")
  show ?case
  proof (cases q)
    case (Inl e)
    then have "r = Inl e" "tr' = tr @ [Asked x False]" using Cons.prems q by (auto simp: p_bind_def asked_def traced_def)
    then show ?thesis by auto
  next
    case (Inr u)
    obtain r1 s1 where m: "p_map (asked auth) xs (w1, tr @ [Asked x True]) = (r1, s1)"
      by (rule prod.exhaust)
    have a: "asked auth x (w, tr) = (Inr u, (w1, tr @ [Asked x True]))" using q Inr by (simp add: asked_def traced_def)
    have "s1 = (w', tr')" "r = (case r1 of Inl e \<Rightarrow> Inl e | Inr ys \<Rightarrow> Inr (u # ys))"
      using Cons.prems a m by (auto simp: p_bind_def split: sum.splits)
    note step = Cons.IH [OF m [unfolded \<open>s1 = (w', tr')\<close>]]
    show ?thesis
    proof (cases r1)
      case (Inl e)
      with step obtain zs where "tr' = (tr @ [Asked x True]) @ zs" "\<forall>z \<in> set zs. \<exists>d b. z = Asked d b" by auto
      then have "tr' = tr @ Asked x True # zs" "\<forall>z \<in> set (Asked x True # zs). \<exists>d b. z = Asked d b" by auto
      then show ?thesis using \<open>r = _\<close> Inl by auto
    next
      case (Inr us)
      then show ?thesis using step \<open>r = _\<close> by simp
    qed
  qed
qed simp

lemma sent_each:
  "p_map (apply_document (traced_yaml api) c dry) xs (w, tr) = (r, (w', tr')) \<Longrightarrow>
    \<exists>j. tr' = tr @ map (Sent c dry) (take j xs) \<and> (case r of Inr items \<Rightarrow> length items = length xs \<and> j = length xs | Inl e \<Rightarrow> True)"
proof (induction xs arbitrary: w tr r)
  case (Cons x xs)
  obtain q w1 where q: "ya_patch api c dry x w = (q, w1)" by (cases "ya_patch api c dry x w")
  show ?case
  proof (cases q)
    case (Inl e)
    then have "tr' = tr @ [Sent c dry x]" "\<exists>e. r = Inl e"
      using Cons.prems q by (auto simp: p_bind_def apply_document_def traced_yaml_def p_catch_def traced_def)
    then show ?thesis by (auto intro!: exI [of _ 1])
  next
    case (Inr v)
    obtain r1 s1 where m: "p_map (apply_document (traced_yaml api) c dry) xs (w1, tr @ [Sent c dry x]) = (r1, s1)"
      by (rule prod.exhaust)
    have a: "apply_document (traced_yaml api) c dry x (w, tr) = (Inr (yaml_item_of (ya_nt api) dry x v), (w1, tr @ [Sent c dry x]))"
      using q Inr by (simp add: p_bind_def apply_document_def traced_yaml_def p_catch_def traced_def)
    have s: "s1 = (w', tr')" and r: "case r1 of Inl e \<Rightarrow> r = Inl e | Inr ys \<Rightarrow> \<exists>y. r = Inr (y # ys)"
      using Cons.prems a m by (auto simp: p_bind_def split: sum.splits)
    from Cons.IH [of w1 "tr @ [Sent c dry x]" r1] m s obtain j where
      j: "tr' = (tr @ [Sent c dry x]) @ map (Sent c dry) (take j xs)" "case r1 of Inr items \<Rightarrow> length items = length xs \<and> j = length xs | Inl e \<Rightarrow> True"
      by blast
    then show ?thesis using r by (intro exI [of _ "Suc j"]) (cases r1; auto)
  qed
qed simp

text \<open>
  C15. If applyYaml sends any document to a cluster, then every document of the request had been
  authorized before the first was sent, all documents went to the requested cluster with the
  requested dry-run flag in their order, and a successful answer counts all of them.
\<close>

theorem yaml_apply_authorized:
  assumes "applyYaml (traced_yaml api) input (asked auth) (w, []) = (r, (w', tr))"
    and "Sent c dry doc \<in> set tr"
  shows "\<exists>docs j. prepared_documents api input = Inr docs \<and> dry = yi_dryRun input \<and> c = js_trim (yi_clusterId input)
    \<and> tr = map (\<lambda>d. Asked d True) docs @ map (Sent c dry) (take j docs)
    \<and> (case r of Inr res \<Rightarrow> j = length docs \<and> yr_total res = length docs | Inl e \<Rightarrow> True)"
proof -
  let ?c = "js_trim (yi_clusterId input)" and ?dry = "yi_dryRun input"
  have "\<exists>docs. prepared_documents api input = Inr docs"
    using assms by (auto simp: applyYaml_def Let_def prepared_documents_def traced_yaml_def rbind_Inr_iff split: if_splits sum.splits)
  then obtain docs where docs: "prepared_documents api input = Inr docs" by blast
  obtain q w1 tr1 where q: "p_map (asked auth) docs (w, []) = (q, (w1, tr1))" by (metis prod.exhaust)
  have run: "p_bind (p_each (asked auth) docs) (\<lambda>_. p_bind (untraced (ya_client api ?c)) (\<lambda>_.
      p_bind (p_map (apply_document (traced_yaml api) ?c ?dry) docs) (\<lambda>items.
        p_ok \<lparr>yr_clusterId = ?c, yr_items = items, yr_total = length items, yr_dryRun = ?dry\<rparr>))) (w, []) = (r, (w', tr))"
    using assms(1) docs assms(2)
    by (auto simp: applyYaml_def Let_def prepared_documents_def traced_yaml_def rbind_Inr_iff split: if_splits sum.splits)
  show ?thesis
  proof (cases q)
    case (Inl e)
    then have "tr1 = tr" using run q by (simp add: p_bind_def p_each_def)
    then show ?thesis using asked_each [OF q] Inl assms(2) by auto
  next
    case (Inr us)
    then have tr1: "tr1 = map (\<lambda>d. Asked d True) docs" using asked_each [OF q] by simp
    obtain k w2 where k: "ya_client api ?c w1 = (k, w2)" by (metis prod.exhaust)
    show ?thesis
    proof (cases k)
      case (Inl e)
      then have "tr = tr1" using run q Inr k by (simp add: p_bind_def p_each_def untraced_def)
      then show ?thesis using tr1 assms(2) by auto
    next
      case (Inr u)
      obtain m w3 tr3 where m: "p_map (apply_document (traced_yaml api) ?c ?dry) docs (w2, tr1) = (m, (w3, tr3))" by (metis prod.exhaust)
      from sent_each [OF m] obtain j where j: "tr3 = tr1 @ map (Sent ?c ?dry) (take j docs)"
        "case m of Inr items \<Rightarrow> length items = length docs \<and> j = length docs | Inl e \<Rightarrow> True" by blast
      have fin: "tr3 = tr" "case m of Inl e \<Rightarrow> r = Inl e
          | Inr items \<Rightarrow> r = Inr \<lparr>yr_clusterId = ?c, yr_items = items, yr_total = length items, yr_dryRun = ?dry\<rparr>"
        using run q \<open>q = Inr us\<close> k Inr m by (auto simp: p_bind_def p_each_def untraced_def split: sum.splits)
      have "dry = ?dry \<and> c = ?c" using assms(2) fin j tr1 by auto
      then show ?thesis using docs fin j tr1 by (intro exI [of _ docs] exI [of _ j]) (cases m; auto)
    qed
  qed
qed

definition ex_yaml_doc :: json where
  "ex_yaml_doc = JObj [(''apiVersion'', JStr ''v1''), (''kind'', JStr ''ConfigMap''), (''metadata'', JObj [(''name'', JStr ''a''), (''namespace'', JStr ''n'')])]"

definition ex_yaml_api :: "unit yaml_api" where
  "ex_yaml_api = \<lparr>ya_load = \<lambda>s. Some ex_yaml_doc, ya_nt = \<lambda>n. [], ya_client = \<lambda>c. p_ok (), ya_patch = \<lambda>c dry doc. p_ok doc\<rparr>"

definition ex_yaml_input :: yaml_input where
  "ex_yaml_input = \<lparr>yi_clusterId = ''c'', yi_namespace = Some ''n'', yi_yaml = ''kind: A'', yi_dryRun = False\<rparr>"

definition ex_yaml_run :: "(thrown + yaml_result) \<times> unit \<times> yaml_event list" where
  "ex_yaml_run = applyYaml (traced_yaml ex_yaml_api) ex_yaml_input (asked (\<lambda>d. p_ok ())) ((), [])"

lemma yaml_apply_authorized_witness:
  "\<exists>docs j. prepared_documents ex_yaml_api ex_yaml_input = Inr docs \<and> False = yi_dryRun ex_yaml_input \<and> ''c'' = js_trim (yi_clusterId ex_yaml_input)
    \<and> snd (snd ex_yaml_run) = map (\<lambda>d. Asked d True) docs @ map (Sent ''c'' False) (take j docs)
    \<and> (case fst ex_yaml_run of Inr res \<Rightarrow> j = length docs \<and> yr_total res = length docs | Inl e \<Rightarrow> True)"
proof (rule yaml_apply_authorized)
  show "applyYaml (traced_yaml ex_yaml_api) ex_yaml_input (asked (\<lambda>d. p_ok ())) ((), []) = (fst ex_yaml_run, (fst (snd ex_yaml_run), snd (snd ex_yaml_run)))"
    unfolding ex_yaml_run_def by (simp only: prod.collapse)
  show "Sent ''c'' False ex_yaml_doc \<in> set (snd (snd ex_yaml_run))" by code_simp
qed

end
