(* ===== verification/Kn_Calls.thy ===== *)
theory Kn_Calls
  imports Kn_Prelude
begin

text \<open>
  Handlers as sequences of statements. An asynchronous method that awaits several database
  statements is a \<open>call\<close>: either it has returned, or it has a next statement, which changes the state
  and decides, from the state it saw, how the call goes on. Running a call alone is \<open>c_run\<close>; any
  number of calls in flight is the step relation \<open>c_step\<close>, where each step is one statement of one
  of them. A property that every statement keeps holds however the calls interleave.
\<close>

section \<open>Calls\<close>

datatype (dead 's, 'a) call = Ret 'a | Stmt "'s \<Rightarrow> 's" "'s \<Rightarrow> ('s, 'a) call"

primrec c_bind :: "('s, 'a) call \<Rightarrow> ('a \<Rightarrow> ('s, 'b) call) \<Rightarrow> ('s, 'b) call" where
  "c_bind (Ret a) f = f a"
| "c_bind (Stmt u k) f = Stmt u (\<lambda>s. c_bind (k s) f)"

text \<open>\<open>c_then\<close> goes on with a value and stops at an error, as \<open>await\<close> does.\<close>

definition c_then :: "('s, 'e + 'a) call \<Rightarrow> ('a \<Rightarrow> ('s, 'e + 'b) call) \<Rightarrow> ('s, 'e + 'b) call" where
  "c_then m f = c_bind m (\<lambda>r. case r of Inl e \<Rightarrow> Ret (Inl e) | Inr a \<Rightarrow> f a)"

text \<open>A statement that only reads, one that may write, and a check without a statement.\<close>

definition c_read :: "('s \<Rightarrow> 'a) \<Rightarrow> ('s, 'e + 'a) call" where
  "c_read f = Stmt (\<lambda>s. s) (\<lambda>s. Ret (Inr (f s)))"

definition c_stmt :: "('s \<Rightarrow> ('e + 'a) \<times> 's) \<Rightarrow> ('s, 'e + 'a) call" where
  "c_stmt f = Stmt (\<lambda>s. snd (f s)) (\<lambda>s. Ret (fst (f s)))"

fun c_map :: "('x \<Rightarrow> ('s, 'e + 'a) call) \<Rightarrow> 'x list \<Rightarrow> ('s, 'e + 'a list) call" where
  "c_map f [] = Ret (Inr [])"
| "c_map f (x # xs) = c_then (f x) (\<lambda>y. c_then (c_map f xs) (\<lambda>ys. Ret (Inr (y # ys))))"

primrec c_run :: "('s, 'a) call \<Rightarrow> 's \<Rightarrow> 'a \<times> 's" where
  "c_run (Ret a) s = (a, s)"
| "c_run (Stmt u k) s = c_run (k s) (u s)"

lemma c_run_bind: "c_run (c_bind m f) s = (case c_run m s of (a, t) \<Rightarrow> c_run (f a) t)"
  by (induction m arbitrary: s) simp_all

lemma c_run_then [simp]: "c_run (c_then m f) s = (case c_run m s of (Inl e, t) \<Rightarrow> (Inl e, t) | (Inr a, t) \<Rightarrow> c_run (f a) t)"
  by (auto simp: c_then_def c_run_bind split: prod.splits sum.splits)

lemma c_run_simps [simp]: "c_run (c_read f) s = (Inr (f s), s)" "c_run (c_stmt g) s = g s"
  by (simp_all add: c_read_def c_stmt_def)

section \<open>What every statement keeps\<close>

text \<open>\<open>c_safe I R c\<close>: every statement of \<open>c\<close>, started in any state with \<open>I\<close>, ends with \<open>I\<close> and makes a change in \<open>R\<close>.\<close>

primrec c_safe :: "('s \<Rightarrow> bool) \<Rightarrow> ('s \<Rightarrow> 's \<Rightarrow> bool) \<Rightarrow> ('s, 'a) call \<Rightarrow> bool" where
  "c_safe I R (Ret a) \<longleftrightarrow> True"
| "c_safe I R (Stmt u k) \<longleftrightarrow> (\<forall>s. I s \<longrightarrow> I (u s) \<and> R s (u s) \<and> c_safe I R (k s))"

named_theorems call_rules \<open>rules for \<open>c_safe\<close>, one per construct\<close>

lemma c_safe_bind: "c_safe I R m \<Longrightarrow> (\<And>a. c_safe I R (f a)) \<Longrightarrow> c_safe I R (c_bind m f)"
  by (induction m) auto

lemma c_safe_ret [call_rules]: "c_safe I R (Ret a)"
  by simp

lemma c_safe_then [call_rules]: "c_safe I R m \<Longrightarrow> (\<And>a. c_safe I R (f a)) \<Longrightarrow> c_safe I R (c_then m f)"
  unfolding c_then_def by (rule c_safe_bind) (auto split: sum.splits)

lemma c_safe_read [call_rules]: "(\<And>s. R s s) \<Longrightarrow> c_safe I R (c_read f)"
  by (simp add: c_read_def)

lemma c_safe_stmt: "(\<And>s r t. I s \<Longrightarrow> f s = (r, t) \<Longrightarrow> I t \<and> R s t) \<Longrightarrow> c_safe I R (c_stmt f)"
  by (simp add: c_stmt_def) (metis surjective_pairing)

lemma c_safe_if [call_rules]: "(b \<Longrightarrow> c_safe I R m) \<Longrightarrow> (\<not> b \<Longrightarrow> c_safe I R n) \<Longrightarrow> c_safe I R (if b then m else n)"
  by simp

lemma c_safe_map [call_rules]: "(\<And>x. c_safe I R (f x)) \<Longrightarrow> c_safe I R (c_map f xs)"
  by (induction xs) (auto intro!: call_rules)

lemma c_safe_mono: "c_safe I R c \<Longrightarrow> (\<And>s. J s \<Longrightarrow> I s) \<Longrightarrow> (\<And>s t. J s \<Longrightarrow> R s t \<Longrightarrow> J t \<and> S s t) \<Longrightarrow> c_safe J S c"
  by (induction c) auto

text \<open>An error before anything was written: the check of a value computed without a statement.\<close>

lemma c_safe_option [call_rules]:
  "(x = None \<Longrightarrow> c_safe I R m) \<Longrightarrow> (\<And>y. x = Some y \<Longrightarrow> c_safe I R (f y)) \<Longrightarrow> c_safe I R (case x of None \<Rightarrow> m | Some y \<Rightarrow> f y)"
  by (cases x) auto

text \<open>\<open>c_post P c\<close>: whatever the statements of \<open>c\<close> see, a value it returns meets \<open>P\<close>.\<close>

primrec c_post :: "('a \<Rightarrow> bool) \<Rightarrow> ('s, 'e + 'a) call \<Rightarrow> bool" where
  "c_post P (Ret r) \<longleftrightarrow> (case r of Inl e \<Rightarrow> True | Inr a \<Rightarrow> P a)"
| "c_post P (Stmt u k) \<longleftrightarrow> (\<forall>s. c_post P (k s))"

lemma c_post_then: "(\<And>a. c_post P (f a)) \<Longrightarrow> c_post P (c_then m f)"
  by (induction m) (auto simp: c_then_def split: sum.splits)

lemma c_safe_then_post:
  "c_safe I R m \<Longrightarrow> c_post P m \<Longrightarrow> (\<And>a. P a \<Longrightarrow> c_safe I R (f a)) \<Longrightarrow> c_safe I R (c_then m f)"
  by (induction m) (auto simp: c_then_def split: sum.splits)

lemma c_safe_run: "c_safe I R c \<Longrightarrow> I s \<Longrightarrow> (\<And>x. R x x) \<Longrightarrow> (\<And>x y z. R x y \<Longrightarrow> R y z \<Longrightarrow> R x z) \<Longrightarrow> I (snd (c_run c s)) \<and> R s (snd (c_run c s))"
  by (induction c arbitrary: s) (simp, simp, blast)

section \<open>Interleaved calls\<close>

record ('s, 'a) flight =
  fl_state :: 's
  fl_calls :: "('s, 'a) call list"

text \<open>The label of a step is the index of the call that moves; a start has the index of the new one.\<close>

inductive c_step :: "(('s, 'a) call \<Rightarrow> bool) \<Rightarrow> ('s \<Rightarrow> 's \<Rightarrow> bool) \<Rightarrow> ('s, 'a) flight \<Rightarrow> nat \<Rightarrow> ('s, 'a) flight \<Rightarrow> bool"
  for offered :: "('s, 'a) call \<Rightarrow> bool" and outside :: "'s \<Rightarrow> 's \<Rightarrow> bool" where
  cs_start: "offered c \<Longrightarrow> c_step offered outside w (length (fl_calls w)) (w\<lparr>fl_calls := fl_calls w @ [c]\<rparr>)"
| cs_next: "i < length (fl_calls w) \<Longrightarrow> fl_calls w ! i = Stmt u k \<Longrightarrow>
    c_step offered outside w i \<lparr>fl_state = u (fl_state w), fl_calls = (fl_calls w)[i := k (fl_state w)]\<rparr>"
| cs_outside: "outside (fl_state w) t \<Longrightarrow> c_step offered outside w i (w\<lparr>fl_state := t\<rparr>)"

inductive_cases c_stepE: "c_step offered outside w i v"

text \<open>Letting one call run its next statement, for examples.\<close>

definition advance :: "nat \<Rightarrow> ('s, 'a) flight \<Rightarrow> ('s, 'a) flight" where
  "advance i w = (if i < length (fl_calls w) then (case fl_calls w ! i of Ret r \<Rightarrow> w
     | Stmt u k \<Rightarrow> \<lparr>fl_state = u (fl_state w), fl_calls = (fl_calls w)[i := k (fl_state w)]\<rparr>) else w)"

lemma reach_advance: "reach init (c_step offered outside) w \<Longrightarrow> reach init (c_step offered outside) (advance i w)"
  by (auto simp: advance_def split: call.splits intro: reach_step cs_next)

lemma reach_advances: "reach init (c_step offered outside) w \<Longrightarrow> reach init (c_step offered outside) (fold advance is w)"
  by (induction "is" arbitrary: w) (auto intro: reach_advance)

lemma reach_start: "reach init (c_step offered outside) w \<Longrightarrow> offered c \<Longrightarrow> reach init (c_step offered outside) (w\<lparr>fl_calls := fl_calls w @ [c]\<rparr>)"
  by (rule reach_step, assumption, rule cs_start)

text \<open>
  The interface of a service whose methods are calls: what each of its statements keeps. Other parts
  of the program may change the state in any way that keeps the invariant.
\<close>

locale service =
  fixes offered :: "('s, 'a) call \<Rightarrow> bool"
    and outside :: "'s \<Rightarrow> 's \<Rightarrow> bool"
    and I :: "'s \<Rightarrow> bool"
    and R :: "'s \<Rightarrow> 's \<Rightarrow> bool"
  assumes offered_safe: "offered c \<Longrightarrow> c_safe I R c"
    and outside_safe: "I s \<Longrightarrow> outside s t \<Longrightarrow> I t"
begin

definition all_safe :: "('s, 'a) flight \<Rightarrow> bool" where
  "all_safe w \<longleftrightarrow> I (fl_state w) \<and> (\<forall>c \<in> set (fl_calls w). c_safe I R c)"

lemma statement_safe:
  assumes "all_safe w" and "i < length (fl_calls w)" and "fl_calls w ! i = Stmt u k"
  shows "I (u (fl_state w))" and "R (fl_state w) (u (fl_state w))" and "c_safe I R (k (fl_state w))"
proof -
  have "c_safe I R (Stmt u k)" using assms nth_mem unfolding all_safe_def by metis
  then show "I (u (fl_state w))" and "R (fl_state w) (u (fl_state w))" and "c_safe I R (k (fl_state w))"
    using assms(1) by (simp_all add: all_safe_def)
qed

lemma step_safe:
  assumes "all_safe w" and "c_step offered outside w i v"
  shows "all_safe v"
  using assms(2)
proof (cases rule: c_step.cases)
  case (cs_next u k)
  then show ?thesis
    using assms(1) statement_safe [OF assms(1) cs_next(2,3)] set_update_subset_insert [of "fl_calls w" i]
    by (auto simp: all_safe_def)
qed (use assms(1) offered_safe outside_safe in \<open>auto simp: all_safe_def\<close>)

end

sublocale service \<subseteq> flights: invariant_system "\<lambda>w. I (fl_state w) \<and> fl_calls w = []" "c_step offered outside" all_safe
  by unfold_locales (simp add: all_safe_def, use step_safe in blast)

context service
begin

lemma reachable_statement:
  assumes "reach (\<lambda>w. I (fl_state w) \<and> fl_calls w = []) (c_step offered outside) w"
    and "i < length (fl_calls w)" and "fl_calls w ! i = Stmt u k"
  shows "I (fl_state w)" and "I (u (fl_state w))" and "R (fl_state w) (u (fl_state w))"
  using flights.reach_inv [OF assms(1)] statement_safe [OF flights.reach_inv [OF assms(1)] assms(2,3)]
  by (simp_all add: all_safe_def)

end

text \<open>Dropping the value of a result.\<close>

definition c_void :: "('s, 'e + 'a) call \<Rightarrow> ('s, 'e + unit) call" where
  "c_void m = c_then m (\<lambda>_. Ret (Inr ()))"

lemma c_safe_void [call_rules]: "c_safe I R m \<Longrightarrow> c_safe I R (c_void m)"
  by (simp add: c_void_def call_rules)

end
