(* ===== verification/Kn_Identity.thy ===== *)
theory Kn_Identity
  imports Kn_Calls Kn_AuthDb Kn_Access Kn_Api
begin

text \<open>
  Administration of identities: users/users.service.ts, the methods on grants, groups, external
  identities and accounts, with \<open>validatedEndpoint\<close> of auth/oidc-flow.service.ts.

  The state holds the tables of Kn_AuthDb, those behind the decisions of Kn_Access, and the clock. A
  method is a call of Kn_Calls: each awaited query is a statement, a transaction is one, and in
  between anything may happen. The tables keep their unique keys (an insertion that breaks one is
  refused) and remove dependent rows with a user, as prisma/schema.prisma declares. Bodies of requests
  are JSON values; a method called on a value without it is the internal error it raises.
\<close>

section \<open>State\<close>

record group_row =
  ig_id :: string
  ig_externalId :: "string option"
  ig_name :: string
  ig_active :: bool

record member_row =
  im_groupId :: string
  im_userId :: string
  im_state :: string
  im_validFrom :: time
  im_expiresAt :: "time option"

record grant_row =
  gx_grant :: grant
  gx_version :: int
  gx_createdBy :: string
  gx_updatedBy :: string

record external_row =
  ex_id :: string
  ex_userId :: string
  ex_issuer :: string
  ex_subject :: string

record authz_change =
  ac_actorUserId :: string
  ac_affectedUserId :: "string option"
  ac_grantId :: "string option"
  ac_version :: int
  ac_reason :: string

record identity_db =
  id_auth :: auth_db
  id_groups :: "group_row list"
  id_members :: "member_row list"
  id_grants :: "grant_row list"
  id_clusters :: "cluster_row list"
  id_bindings :: "binding_row list"
  id_external :: "external_row list"
  id_changes :: "authz_change list"
  id_audits :: "audit_record list"
  id_now :: time

text \<open>What a parsed URL shows of itself.\<close>

record url =
  ur_protocol :: string
  ur_hostname :: string
  ur_username :: string
  ur_password :: string
  ur_search :: string
  ur_hash :: string
  ur_origin :: string

text \<open>
  The designated superadministrator of the configuration, the generator of keys, the hash of a
  password with its salt, \<open>Date.parse\<close>, URL parsing, the text of a number, the resolver of namespace
  UIDs (a read of the cluster, absent when not injected), and whether the database refuses to delete
  a user because a row that stays refers to it.
\<close>

record identity_env =
  ie_superadmin :: "string option"
  ie_newId :: "identity_db \<Rightarrow> string"
  ie_hash :: "identity_db \<Rightarrow> string \<Rightarrow> string"
  ie_date :: "string \<Rightarrow> jsnum"
  ie_url :: "string \<Rightarrow> url option"
  ie_nt :: "jsnum \<Rightarrow> string"
  ie_resolve :: "(identity_db \<Rightarrow> string \<Rightarrow> string \<Rightarrow> string res) option"
  ie_referred :: "identity_db \<Rightarrow> string \<Rightarrow> bool"

record admin_actor =
  ad_id :: "string option"
  ad_username :: "string option"
  ad_role :: "string option"

type_synonym 'a icall = "(identity_db, 'a res) call"

definition users :: "identity_db \<Rightarrow> user_row list" where "users db = ad_users (id_auth db)"

definition find_user :: "identity_db \<Rightarrow> string \<Rightarrow> user_row option" where
  "find_user db i = find (\<lambda>u. us_id u = i) (users db)"

definition set_users :: "user_row list \<Rightarrow> identity_db \<Rightarrow> identity_db" where
  "set_users us db = db\<lparr>id_auth := (id_auth db)\<lparr>ad_users := us\<rparr>\<rparr>"

text \<open>What the authorization service reads: memberships joined with the state of their group.\<close>

definition member_view :: "group_row list \<Rightarrow> member_row \<Rightarrow> membership list" where
  "member_view gs m = (case find (\<lambda>g. ig_id g = im_groupId m) gs of None \<Rightarrow> []
     | Some g \<Rightarrow> [\<lparr>gm_groupId = im_groupId m, gm_userId = im_userId m, gm_state = im_state m, gm_groupActive = ig_active g,
         gm_validFrom = im_validFrom m, gm_expiresAt = im_expiresAt m\<rparr>])"

definition access_of :: "identity_db \<Rightarrow> access_db" where
  "access_of db = \<lparr>az_grants = map gx_grant (id_grants db), az_memberships = concat (map (member_view (id_groups db)) (id_members db)),
     az_clusters = id_clusters db, az_bindings = id_bindings db, az_bindingTable = True, az_authorization = True\<rparr>"

section \<open>Checks\<close>

definition c_check :: "bool \<Rightarrow> http_error \<Rightarrow> ('s, unit res) call" where
  "c_check ok e = Ret (guard ok e)"

definition require_admin :: "admin_actor option \<Rightarrow> unit icall" where
  "require_admin actor = Ret (assertAdministrationPermission (Option.bind actor ad_role))"

definition actor_key :: "admin_actor option \<Rightarrow> string" where
  "actor_key actor = (case Option.bind actor ad_id of None \<Rightarrow> [] | Some i \<Rightarrow> i)"

text \<open>\<open>protectedTargetId\<close> is \<open>None\<close> where the method requires the superadministrator outright.\<close>

definition assertSuperadministrator :: "identity_env \<Rightarrow> admin_actor option \<Rightarrow> string option \<Rightarrow> unit icall" where
  "assertSuperadministrator env actor protected =
     (if protected \<noteq> None \<and> protected \<noteq> ie_superadmin env then Ret (Inr ())
      else (case ie_superadmin env of
          None \<Rightarrow> Ret (Inl (Forbidden ''Explicit superadministrator identity required''))
        | Some designated \<Rightarrow>
          (if designated = [] \<or> Option.bind actor ad_id \<noteq> Some designated
           then Ret (Inl (Forbidden ''Explicit superadministrator identity required''))
           else c_then (c_read (\<lambda>db. find_user db designated)) (\<lambda>u.
             case u of None \<Rightarrow> Ret (Inl (Forbidden ''Active superadministrator required''))
             | Some row \<Rightarrow> (if us_isActive row then Ret (assertAdministrationPermission (Some (us_role row)))
                else Ret (Inl (Forbidden ''Active superadministrator required'')))))))"

definition validatedEndpoint :: "(string \<Rightarrow> url option) \<Rightarrow> string \<Rightarrow> url res" where
  "validatedEndpoint parse v = (case parse v of None \<Rightarrow> Inl (BadRequest ''Invalid OIDC URL'')
     | Some u \<Rightarrow> (let loopback = ur_hostname u \<in> {''localhost'', ''127.0.0.1'', ''[::1]''} in
         if (ur_protocol u \<noteq> ''https:'' \<and> \<not> (ur_protocol u = ''http:'' \<and> loopback)) \<or> ur_username u \<noteq> [] \<or> ur_password u \<noteq> [] \<or> ur_hash u \<noteq> []
         then Inl (BadRequest ''OIDC URL requires HTTPS without credentials or fragments'') else Inr u))"

definition bump :: "(string \<Rightarrow> bool) \<Rightarrow> identity_db \<Rightarrow> identity_db" where
  "bump p db = set_users (map (\<lambda>u. if p (us_id u) then u\<lparr>us_authzVersion := us_authzVersion u + 1\<rparr> else u) (users db)) db"

definition log_change :: "string \<Rightarrow> string option \<Rightarrow> string option \<Rightarrow> int \<Rightarrow> string \<Rightarrow> identity_db \<Rightarrow> identity_db" where
  "log_change actorId affected grant version reason db = db\<lparr>id_changes := id_changes db @
     [\<lparr>ac_actorUserId = actorId, ac_affectedUserId = affected, ac_grantId = grant, ac_version = version, ac_reason = reason\<rparr>]\<rparr>"

definition version_of :: "identity_db \<Rightarrow> string \<Rightarrow> int" where
  "version_of db i = (case find_user db i of None \<Rightarrow> 0 | Some u \<Rightarrow> us_authzVersion u)"

text \<open>A transaction that throws leaves nothing.\<close>

definition transaction :: "(identity_db \<Rightarrow> 'a res \<times> identity_db) \<Rightarrow> 'a icall" where
  "transaction f = c_stmt (\<lambda>db. case f db of (Inl e, _) \<Rightarrow> (Inl e, db) | (Inr a, db') \<Rightarrow> (Inr a, db'))"

section \<open>External identities\<close>

definition bind_tx :: "identity_env \<Rightarrow> string \<Rightarrow> string \<Rightarrow> string \<Rightarrow> string \<Rightarrow> identity_db \<Rightarrow> external_row res \<times> identity_db" where
  "bind_tx env actorId userId issuer subject db =
     (if \<not> list_ex (\<lambda>u. us_id u = userId \<and> us_isActive u) (users db) then (Inl (BadRequest ''User unavailable''), db)
      else if list_ex (\<lambda>x. ex_issuer x = issuer \<and> ex_subject x = subject) (id_external db)
        then (Inl (Conflict ''External identity already bound''), db)
      else (let db1 = bump (\<lambda>i. i = userId) db;
              row = \<lparr>ex_id = ie_newId env db, ex_userId = userId, ex_issuer = issuer, ex_subject = subject\<rparr>;
              db2 = db1\<lparr>id_external := id_external db1 @ [row]\<rparr> in
        (Inr row, log_change actorId (Some userId) None (version_of db2 userId) (''identity-bound:'' @ ex_id row) db2)))"

definition bindExternalIdentity :: "identity_env \<Rightarrow> admin_actor option \<Rightarrow> string \<Rightarrow> json option \<Rightarrow> external_row icall" where
  "bindExternalIdentity env actor userId body =
     c_then (require_admin actor) (\<lambda>_. c_then (assertSuperadministrator env actor (Some userId)) (\<lambda>_.
       case (jget_opt body ''issuer'', jget_opt body ''subject'') of
         (Some (JStr issuer), Some (JStr subject)) \<Rightarrow>
           (if actor_key actor = [] \<or> userId = [] \<or> js_trim subject = [] \<or> 255 < length subject \<or> 2048 < length issuer
               \<or> subject \<noteq> js_trim subject \<or> issuer \<noteq> js_trim issuer
            then Ret (Inl (BadRequest ''Valid issuer and subject required''))
            else c_then (Ret (validatedEndpoint (ie_url env) issuer)) (\<lambda>endpoint.
              if ur_search endpoint \<noteq> [] then Ret (Inl (BadRequest ''Issuer must not contain query parameters''))
              else transaction (bind_tx env (actor_key actor) userId issuer subject)))
       | _ \<Rightarrow> Ret (Inl (BadRequest ''Valid issuer and subject required''))))"

definition unbind_tx :: "string \<Rightarrow> string \<Rightarrow> string \<Rightarrow> identity_db \<Rightarrow> unit res \<times> identity_db" where
  "unbind_tx actorId userId identityId db =
     (if find_user db userId = None then (Inl (NotFound ''User not found''), db)
      else if \<not> list_ex (\<lambda>x. ex_id x = identityId \<and> ex_userId x = userId) (id_external db) then (Inl (NotFound ''Identity not found''), db)
      else (let db1 = bump (\<lambda>i. i = userId) db;
              db2 = db1\<lparr>id_external := filter (\<lambda>x. \<not> (ex_id x = identityId \<and> ex_userId x = userId)) (id_external db1)\<rparr> in
        (Inr (), log_change actorId (Some userId) None (version_of db2 userId) (''identity-unbound:'' @ identityId) db2)))"

definition unbindExternalIdentity :: "identity_env \<Rightarrow> admin_actor option \<Rightarrow> string \<Rightarrow> string \<Rightarrow> unit icall" where
  "unbindExternalIdentity env actor userId identityId =
     c_then (require_admin actor) (\<lambda>_. c_then (assertSuperadministrator env actor (Some userId)) (\<lambda>_.
       if actor_key actor = [] \<or> userId = [] \<or> identityId = [] then Ret (Inl (BadRequest ''Identity required''))
       else transaction (unbind_tx (actor_key actor) userId identityId)))"

section \<open>Groups\<close>

definition touch_member :: "string \<Rightarrow> string \<Rightarrow> time \<Rightarrow> member_row list \<Rightarrow> member_row list" where
  "touch_member groupId userId now ms =
     (if list_ex (\<lambda>m. im_groupId m = groupId \<and> im_userId m = userId) ms
      then map (\<lambda>m. if im_groupId m = groupId \<and> im_userId m = userId
          then m\<lparr>im_state := ''active'', im_validFrom := now, im_expiresAt := None\<rparr> else m) ms
      else ms @ [\<lparr>im_groupId = groupId, im_userId = userId, im_state = ''active'', im_validFrom = now, im_expiresAt = None\<rparr>])"

definition drop_member :: "string \<Rightarrow> string \<Rightarrow> member_row list \<Rightarrow> nat \<times> member_row list" where
  "drop_member groupId userId ms = update_many (\<lambda>m. im_groupId m = groupId \<and> im_userId m = userId \<and> im_state m = ''active'')
     (\<lambda>m. m\<lparr>im_state := ''disabled''\<rparr>) ms"

definition member_changed :: "string \<Rightarrow> string \<Rightarrow> string \<Rightarrow> bool \<Rightarrow> identity_db \<Rightarrow> identity_db" where
  "member_changed actorId groupId userId active db = log_change actorId (Some userId) None 1
     (''group-member-'' @ (if active then ''added'' else ''removed'') @ '':'' @ groupId) (bump (\<lambda>i. i = userId) db)"

definition membership_tx :: "string \<Rightarrow> string \<Rightarrow> string \<Rightarrow> bool \<Rightarrow> identity_db \<Rightarrow> unit res \<times> identity_db" where
  "membership_tx actorId groupId userId active db = (case find (\<lambda>g. ig_id g = groupId) (id_groups db) of
       None \<Rightarrow> (Inl (NotFound ''Group not found''), db)
     | Some g \<Rightarrow>
       (if (case ig_externalId g of None \<Rightarrow> False | Some e \<Rightarrow> e \<noteq> []) then (Inl (Forbidden ''Membership is managed by the identity provider''), db)
        else if active \<and> \<not> ig_active g then (Inl (BadRequest ''Group disabled''), db)
        else (case find_user db userId of None \<Rightarrow> (Inl (BadRequest ''User unavailable''), db)
          | Some u \<Rightarrow>
            (if active \<and> \<not> us_isActive u then (Inl (BadRequest ''User unavailable''), db)
             else if active then (Inr (), member_changed actorId groupId userId active
                 (db\<lparr>id_members := touch_member groupId userId (id_now db) (id_members db)\<rparr>))
             else (let (n, ms) = drop_member groupId userId (id_members db) in
               if n = 0 then (Inr (), db)
               else (Inr (), member_changed actorId groupId userId active (db\<lparr>id_members := ms\<rparr>)))))))"

definition setGroupMembership :: "admin_actor option \<Rightarrow> string \<Rightarrow> string \<Rightarrow> bool \<Rightarrow> unit icall" where
  "setGroupMembership actor groupId userId active = c_then (require_admin actor) (\<lambda>_.
     if actor_key actor = [] \<or> js_trim groupId = [] \<or> js_trim userId = [] then Ret (Inl (BadRequest ''Identity required''))
     else transaction (membership_tx (actor_key actor) groupId userId active))"

definition group_tx :: "identity_env \<Rightarrow> string \<Rightarrow> string \<Rightarrow> identity_db \<Rightarrow> group_row res \<times> identity_db" where
  "group_tx env actorId name db =
     (let g = \<lparr>ig_id = ie_newId env db, ig_externalId = None, ig_name = name, ig_active = True\<rparr> in
      if list_ex (\<lambda>h. ig_id h = ig_id g) (id_groups db) then (Inl (Internal ''P2002''), db)
      else (Inr g, log_change actorId None None 1 (''group-created:'' @ ig_id g) (db\<lparr>id_groups := id_groups db @ [g]\<rparr>)))"

definition createIdentityGroup :: "identity_env \<Rightarrow> admin_actor option \<Rightarrow> json option \<Rightarrow> group_row icall" where
  "createIdentityGroup env actor body = c_then (require_admin actor) (\<lambda>_.
     if actor_key actor = [] then Ret (Inl (BadRequest ''Actor identity required''))
     else (case jget_opt body ''name'' of
         Some (JStr name) \<Rightarrow>
           (if js_trim name = [] \<or> 128 < length (js_trim name) then Ret (Inl (BadRequest ''Group name must contain 1-128 characters''))
            else transaction (group_tx env (actor_key actor) (js_trim name)))
       | _ \<Rightarrow> Ret (Inl (BadRequest ''Group name must contain 1-128 characters''))))"

end
