(* ===== verification/Kn_Users.thy ===== *)
theory Kn_Users
  imports Kn_Identity
begin

text \<open>
  Access grants and accounts of users/users.service.ts: createAccessGrant, revokeAccessGrant, and the
  life of a user (createUser, updateUser, deleteUser, setState), with the lists an administrator reads.
\<close>

section \<open>Creating a grant\<close>

text \<open>\<open>typeof value === 'string' ? value.trim() : ''\<close>.\<close>

definition text_of :: "json option \<Rightarrow> string" where
  "text_of v = (case v of Some (JStr s) \<Rightarrow> js_trim s | _ \<Rightarrow> [])"

definition date_of :: "identity_env \<Rightarrow> json option \<Rightarrow> time option" where
  "date_of env v = (case ie_date env (text_of v) of Fin q \<Rightarrow> Some \<lfloor>q\<rfloor> | _ \<Rightarrow> None)"

record grant_input =
  gi_userId :: string
  gi_groupId :: string
  gi_clusterId :: string
  gi_role :: string
  gi_namespaces :: "string list"
  gi_capabilities :: "json list"
  gi_validFrom :: time
  gi_expiresAt :: "time option"

text \<open>The checks of the body, in their order; \<open>now\<close> is the clock when they run.\<close>

definition grant_principal :: "json \<Rightarrow> unit res" where
  "grant_principal input = guard (\<not> ((text_of (jget input ''userId'') \<noteq> []) = (text_of (jget input ''groupId'') \<noteq> [])
       \<or> text_of (jget input ''clusterId'') = [] \<or> text_of (jget input ''role'') \<notin> {''cluster-admin'', ''operator'', ''viewer''}))
     (BadRequest ''Invalid principal, cluster or role'')"

definition grant_namespaces :: "json \<Rightarrow> string list res" where
  "grant_namespaces input = (case jget input ''namespaces'' of
     Some (JArr vs) \<Rightarrow> (if vs = [] \<or> 100 < length vs \<or> list_ex (\<lambda>v. text_of (Some v) = []) vs
       then Inl (BadRequest ''Explicit namespace scope required'') else Inr (map (\<lambda>v. text_of (Some v)) vs))
   | _ \<Rightarrow> Inl (BadRequest ''Explicit namespace scope required''))"

definition grant_capabilities :: "identity_env \<Rightarrow> json \<Rightarrow> json list res" where
  "grant_capabilities env input = (case jget input ''capabilities'' of
     Some (JArr vs) \<Rightarrow> (if list_ex (\<lambda>v. js_String (ie_nt env) v \<notin> set capabilities) vs
       then Inl (BadRequest ''Invalid capabilities'') else Inr vs)
   | _ \<Rightarrow> Inl (BadRequest ''Invalid capabilities''))"

definition grant_interval :: "identity_env \<Rightarrow> time \<Rightarrow> json \<Rightarrow> (time \<times> time option) res" where
  "grant_interval env now input =
     (let bad = Inl (BadRequest ''Invalid validity interval'');
          validFrom = (case jget input ''validFrom'' of None \<Rightarrow> Some now | v \<Rightarrow> date_of env v) in
      case validFrom of None \<Rightarrow> bad
      | Some f \<Rightarrow> (case jget input ''expiresAt'' of
            None \<Rightarrow> Inr (f, None)
          | Some JNull \<Rightarrow> Inr (f, None)
          | v \<Rightarrow> (case date_of env v of None \<Rightarrow> bad
              | Some e \<Rightarrow> (if e \<le> f \<or> e \<le> now then bad else Inr (f, Some e)))))"

definition read_grant :: "identity_env \<Rightarrow> time \<Rightarrow> json option \<Rightarrow> grant_input res" where
  "read_grant env now body = (case body of
     Some (JObj kvs) \<Rightarrow> (let input = JObj kvs in
       rbind (grant_principal input) (\<lambda>_. rbind (grant_namespaces input) (\<lambda>ns. rbind (grant_capabilities env input) (\<lambda>cs.
         rbind (grant_interval env now input) (\<lambda>(f, e).
           Inr \<lparr>gi_userId = text_of (jget input ''userId''), gi_groupId = text_of (jget input ''groupId''),
             gi_clusterId = text_of (jget input ''clusterId''), gi_role = text_of (jget input ''role''),
             gi_namespaces = ns, gi_capabilities = cs, gi_validFrom = f, gi_expiresAt = e\<rparr>)))))
   | _ \<Rightarrow> Inl (BadRequest ''Invalid grant''))"

definition opt :: "string \<Rightarrow> string option" where
  "opt s = (if s = [] then None else Some s)"

text \<open>The column of a capability is a text: any other value is refused by the database client.\<close>

fun strings_of :: "json list \<Rightarrow> string list option" where
  "strings_of [] = Some []"
| "strings_of (JStr s # vs) = map_option ((#) s) (strings_of vs)"
| "strings_of (v # vs) = None"

definition user_exists :: "identity_db \<Rightarrow> string \<Rightarrow> bool" where
  "user_exists db i \<longleftrightarrow> find_user db i \<noteq> None"

definition members_of :: "identity_db \<Rightarrow> string \<Rightarrow> string list" where
  "members_of db groupId = map im_userId (filter (\<lambda>m. im_groupId m = groupId) (id_members db))"

definition principal_ready :: "grant_input \<Rightarrow> identity_db \<Rightarrow> unit res" where
  "principal_ready inp db = (if gi_userId inp \<noteq> []
     then guard (case find_user db (gi_userId inp) of None \<Rightarrow> False | Some u \<Rightarrow> us_isActive u) (BadRequest ''User unavailable'')
     else guard (case find (\<lambda>g. ig_id g = gi_groupId inp) (id_groups db) of None \<Rightarrow> False | Some g \<Rightarrow> ig_active g) (BadRequest ''Group unavailable''))"

definition grant_of :: "string \<Rightarrow> grant_input \<Rightarrow> (string \<times> string) list \<Rightarrow> string list \<Rightarrow> grant" where
  "grant_of newId inp scopes caps = \<lparr>gr_id = newId, gr_userId = opt (gi_userId inp), gr_groupId = opt (gi_groupId inp),
     gr_clusterId = gi_clusterId inp, gr_role = gi_role inp, gr_state = ''active'', gr_validFrom = gi_validFrom inp,
     gr_expiresAt = gi_expiresAt inp, gr_revokedAt = None, gr_scopes = scopes, gr_capabilities = caps\<rparr>"

text \<open>A grant names its author, who must still exist; its identifier and its namespace UIDs are unique.\<close>

definition grant_tx :: "identity_env \<Rightarrow> string \<Rightarrow> grant_input \<Rightarrow> (string \<times> string) list \<Rightarrow> identity_db \<Rightarrow> (string \<times> int) res \<times> identity_db" where
  "grant_tx env actorId inp scopes db =
     (if \<not> list_ex (\<lambda>c. rc_id c = gi_clusterId inp \<and> rc_deletedAt c = None) (id_clusters db) then (Inl (BadRequest ''Cluster unavailable''), db)
      else (case principal_ready inp db of Inl e \<Rightarrow> (Inl e, db)
        | Inr _ \<Rightarrow> (case strings_of (gi_capabilities inp) of None \<Rightarrow> (Inl (Internal ''PrismaClientValidationError''), db)
          | Some caps \<Rightarrow>
            (let newId = ie_newId env db in
             if \<not> user_exists db actorId then (Inl (Internal ''P2003''), db)
             else if list_ex (\<lambda>g. gr_id (gx_grant g) = newId) (id_grants db) \<or> \<not> distinct (map fst scopes) then (Inl (Internal ''P2002''), db)
             else (let row = \<lparr>gx_grant = grant_of newId inp scopes (js_unique caps), gx_version = 1, gx_createdBy = actorId, gx_updatedBy = actorId\<rparr>;
                     userIds = (if gi_userId inp \<noteq> [] then [gi_userId inp] else members_of db (gi_groupId inp));
                     db1 = bump (\<lambda>i. i \<in> set userIds) (db\<lparr>id_grants := id_grants db @ [row]\<rparr>) in
               (Inr (newId, 1), log_change actorId (opt (gi_userId inp)) (Some newId) 1 ''grant-created'' db1))))))"

definition resolve_scope :: "identity_env \<Rightarrow> string \<Rightarrow> string \<Rightarrow> (string \<times> string) icall" where
  "resolve_scope env clusterId name = (case ie_resolve env of
       None \<Rightarrow> Ret (Inl (BadRequest ''Namespace resolver unavailable''))
     | Some resolve \<Rightarrow> c_then (c_read (\<lambda>db. resolve db clusterId name)) (\<lambda>r. Ret (rbind r (\<lambda>uid. Inr (uid, name)))))"

definition createAccessGrant :: "identity_env \<Rightarrow> admin_actor option \<Rightarrow> json option \<Rightarrow> (string \<times> int) icall" where
  "createAccessGrant env actor body = c_then (require_admin actor) (\<lambda>_.
     if actor_key actor = [] then Ret (Inl (BadRequest ''Actor identity required''))
     else c_then (c_read id_now) (\<lambda>now. c_then (Ret (read_grant env now body)) (\<lambda>inp.
       if ie_resolve env = None then Ret (Inl (BadRequest ''Namespace resolver unavailable''))
       else c_then (c_map (resolve_scope env (gi_clusterId inp)) (js_unique (gi_namespaces inp))) (\<lambda>scopes.
         transaction (grant_tx env (actor_key actor) inp scopes)))))"

section \<open>Revoking a grant\<close>

text \<open>
  The transaction reads the grant, replaces it if its version is still the one read (which holds
  while a transaction is one statement) and raises the version of every user it was given to.
\<close>

definition revoke_row :: "string \<Rightarrow> time \<Rightarrow> grant_row \<Rightarrow> grant_row" where
  "revoke_row actorId now r = r\<lparr>gx_grant := (gx_grant r)\<lparr>gr_state := ''revoked'', gr_revokedAt := Some now\<rparr>,
     gx_version := gx_version r + 1, gx_updatedBy := actorId\<rparr>"

definition granted_users :: "identity_db \<Rightarrow> grant \<Rightarrow> string list" where
  "granted_users db g = (case gr_userId g of Some u \<Rightarrow> [u]
     | None \<Rightarrow> (case gr_groupId g of Some k \<Rightarrow> members_of db k | None \<Rightarrow> []))"

definition revoke_tx :: "string \<Rightarrow> string \<Rightarrow> identity_db \<Rightarrow> unit res \<times> identity_db" where
  "revoke_tx actorId i db = (case find (\<lambda>g. gr_id (gx_grant g) = i) (id_grants db) of
       None \<Rightarrow> (Inl (NotFound ''Access grant not found''), db)
     | Some g \<Rightarrow>
       (if gr_revokedAt (gx_grant g) \<noteq> None then (Inr (), db)
        else (let (n, grants) = update_many (\<lambda>r. gr_id (gx_grant r) = i \<and> gx_version r = gx_version g \<and> gr_revokedAt (gx_grant r) = None)
                (revoke_row actorId (id_now db)) (id_grants db) in
          if n \<noteq> 1 then (Inl (Conflict ''Access grant changed; reload and retry''), db)
          else if \<not> user_exists db actorId then (Inl (Internal ''P2003''), db)
          else (let db1 = bump (\<lambda>u. u \<in> set (granted_users db (gx_grant g))) (db\<lparr>id_grants := grants\<rparr>) in
            (Inr (), log_change actorId (gr_userId (gx_grant g)) (Some i) (gx_version g + 1) ''grant-revoked'' db1)))))"

definition revokeAccessGrant :: "admin_actor option \<Rightarrow> string \<Rightarrow> unit icall" where
  "revokeAccessGrant actor i = c_then (require_admin actor) (\<lambda>_.
     if actor_key actor = [] then Ret (Inl (BadRequest ''Actor identity required''))
     else transaction (revoke_tx (actor_key actor) i))"

section \<open>Accounts\<close>

record user_item =
  ui_id :: string
  ui_username :: string
  ui_name :: string
  ui_role :: string
  ui_isActive :: bool
  ui_mfaEnabled :: bool

definition toUserItem :: "user_row \<Rightarrow> user_item" where
  "toUserItem u = \<lparr>ui_id = us_id u, ui_username = us_email u, ui_name = (case us_name u of None \<Rightarrow> [] | Some n \<Rightarrow> n),
     ui_role = us_role u, ui_isActive = us_isActive u, ui_mfaEnabled = us_mfaEnabled u\<rparr>"

definition write_audit :: "identity_env \<Rightarrow> admin_actor option \<Rightarrow> string \<Rightarrow> string \<Rightarrow> string \<Rightarrow> unit icall" where
  "write_audit env actor action resourceType resourceId = c_stmt (\<lambda>db. (Inr (), db\<lparr>id_audits := snd (appendAudit (ie_newId env db) (id_now db)
     \<lparr>au_id = [], au_actor = (case Option.bind actor ad_username of None \<Rightarrow> ''unknown'' | Some n \<Rightarrow> n),
       au_role = (case Option.bind actor ad_role of None \<Rightarrow> ''read-only'' | Some r \<Rightarrow> r), au_action = action,
       au_resourceType = resourceType, au_resourceId = resourceId, au_result = ''success'', au_reason = None,
       au_requestId = None, au_timestamp = 0\<rparr> (id_audits db))\<rparr>))"

definition audited :: "identity_env \<Rightarrow> admin_actor option \<Rightarrow> string \<Rightarrow> user_row icall \<Rightarrow> user_item icall" where
  "audited env actor action m = c_then m (\<lambda>row. c_then (write_audit env actor action ''users'' (us_id row)) (\<lambda>_. Ret (Inr (toUserItem row))))"

text \<open>\<open>value?.trim()\<close> and the hash of a value that must be a text.\<close>

definition trimmed_field :: "json option \<Rightarrow> string option res" where
  "trimmed_field v = (case js_trim_opt v of Inl _ \<Rightarrow> Inl (Internal ''TypeError'') | Inr r \<Rightarrow> Inr r)"

definition hash_password :: "identity_env \<Rightarrow> json option \<Rightarrow> string icall" where
  "hash_password env v = (case v of Some (JStr p) \<Rightarrow> c_read (\<lambda>db. ie_hash env db p) | _ \<Rightarrow> Ret (Inl (Internal ''TypeError'')))"

definition insert_user :: "identity_env \<Rightarrow> string \<Rightarrow> string \<Rightarrow> identity_db \<Rightarrow> user_row res \<times> identity_db" where
  "insert_user env username hash db =
     (let row = \<lparr>us_id = ie_newId env db, us_email = username, us_name = Some username, us_passwordHash = Some hash,
          us_role = ''user'', us_isActive = True, us_mfaEnabled = False, us_authzVersion = 1\<rparr> in
      if list_ex (\<lambda>u. us_id u = us_id row \<or> us_email u = username) (users db) then (Inl (Internal ''P2002''), db)
      else (Inr row, set_users (users db @ [row]) db))"

definition createUser :: "identity_env \<Rightarrow> admin_actor option \<Rightarrow> json option \<Rightarrow> user_item icall" where
  "createUser env actor body = c_then (require_admin actor) (\<lambda>_.
     c_then (Ret (trimmed_field (jget_opt body ''username''))) (\<lambda>username.
       if jget_opt body ''role'' \<notin> {None, Some (JStr ''user'')} then Ret (Inl (BadRequest ''role cannot be assigned''))
       else (case username of None \<Rightarrow> Ret (Inl (BadRequest ''username required''))
         | Some name \<Rightarrow>
           (if name = [] then Ret (Inl (BadRequest ''username required''))
            else if \<not> truthy (jget_opt body ''password'') then Ret (Inl (BadRequest ''password required''))
            else c_then (c_read (\<lambda>db. list_ex (\<lambda>u. us_email u = name) (users db))) (\<lambda>existing.
              if existing then Ret (Inl (BadRequest ''username exists''))
              else c_then (hash_password env (jget_opt body ''password'')) (\<lambda>hash.
                audited env actor ''create'' (c_stmt (insert_user env name hash))))))))"


text \<open>The data of an update: what is \<open>None\<close> is not written.\<close>

record user_patch =
  up_email :: "string option"
  up_name :: "string option"
  up_passwordHash :: "string option"
  up_bump :: bool

definition apply_patch :: "user_patch \<Rightarrow> user_row \<Rightarrow> user_row" where
  "apply_patch p u = u\<lparr>us_email := (case up_email p of None \<Rightarrow> us_email u | Some e \<Rightarrow> e),
     us_name := (case up_name p of None \<Rightarrow> us_name u | Some n \<Rightarrow> Some n),
     us_passwordHash := (case up_passwordHash p of None \<Rightarrow> us_passwordHash u | Some h \<Rightarrow> Some h),
     us_authzVersion := (if up_bump p then us_authzVersion u + 1 else us_authzVersion u)\<rparr>"

definition write_user :: "string \<Rightarrow> (user_row \<Rightarrow> user_row) \<Rightarrow> identity_db \<Rightarrow> user_row res \<times> identity_db" where
  "write_user i f db = (case find_user db i of None \<Rightarrow> (Inl (Internal ''P2025''), db)
     | Some u \<Rightarrow>
       (if list_ex (\<lambda>v. us_id v \<noteq> i \<and> us_email v = us_email (f u)) (users db) then (Inl (Internal ''P2002''), db)
        else (Inr (f u), set_users (map (\<lambda>v. if us_id v = i then f v else v) (users db)) db)))"

definition requiredTrim :: "string \<Rightarrow> json \<Rightarrow> string res" where
  "requiredTrim field v = (case v of
     JStr s \<Rightarrow> (if js_trim s = [] then Inl (BadRequest (field @ '' required'')) else Inr (js_trim s))
   | _ \<Rightarrow> Inl (BadRequest (field @ '' must be a string'')))"

definition mustFindUser :: "string \<Rightarrow> unit icall" where
  "mustFindUser i = c_then (c_read (\<lambda>db. find_user db i)) (\<lambda>u. c_check (u \<noteq> None) (NotFound ''User not found''))"

definition patch_username :: "string \<Rightarrow> json option \<Rightarrow> string option icall" where
  "patch_username i v = (case v of None \<Rightarrow> Ret (Inr None)
     | Some w \<Rightarrow> c_then (Ret (requiredTrim ''username'' w)) (\<lambda>name.
         c_then (c_read (\<lambda>db. list_ex (\<lambda>u. us_email u = name \<and> us_id u \<noteq> i) (users db))) (\<lambda>existing.
           if existing then Ret (Inl (BadRequest ''username exists'')) else Ret (Inr (Some name)))))"

definition patch_name :: "json option \<Rightarrow> string option icall" where
  "patch_name v = (case v of None \<Rightarrow> Ret (Inr None)
     | Some w \<Rightarrow> c_then (Ret (requiredTrim ''name'' w)) (\<lambda>n. Ret (Inr (Some n))))"

definition patch_password :: "identity_env \<Rightarrow> json option \<Rightarrow> string option icall" where
  "patch_password env v = (case v of None \<Rightarrow> Ret (Inr None)
     | Some w \<Rightarrow> (if \<not> truthy (Some w) then Ret (Inl (BadRequest ''password required''))
         else c_then (hash_password env v) (\<lambda>h. Ret (Inr (Some h)))))"

text \<open>A property of \<open>null\<close> cannot be read.\<close>

definition updateUser :: "identity_env \<Rightarrow> admin_actor option \<Rightarrow> string \<Rightarrow> json \<Rightarrow> user_item icall" where
  "updateUser env actor i body = c_then (require_admin actor) (\<lambda>_. c_then (assertSuperadministrator env actor (Some i)) (\<lambda>_.
     if body = JNull then Ret (Inl (Internal ''TypeError''))
     else if jget body ''role'' \<noteq> None then Ret (Inl (BadRequest ''role cannot be changed''))
     else c_then (mustFindUser i) (\<lambda>_.
       c_then (patch_username i (jget body ''username'')) (\<lambda>username. c_then (patch_name (jget body ''name'')) (\<lambda>name.
       c_then (patch_password env (jget body ''password'')) (\<lambda>hash.
         if username = None \<and> name = None \<and> hash = None then Ret (Inl (BadRequest ''nothing to update''))
         else audited env actor ''update'' (c_stmt (write_user i (apply_patch
           \<lparr>up_email = username, up_name = (if name \<noteq> None then name else username), up_passwordHash = hash,
            up_bump = (jget body ''password'' \<noteq> None \<or> jget body ''username'' \<noteq> None)\<rparr>)))))))))"

definition is_admin_role :: "string \<Rightarrow> bool" where
  "is_admin_role r \<longleftrightarrow> r \<in> {''admin'', ''platform-admin''}"

definition active_admins :: "identity_db \<Rightarrow> user_row list" where
  "active_admins db = filter (\<lambda>u. us_isActive u \<and> is_admin_role (us_role u)) (users db)"

definition assertNotLastAdministrator :: "identity_env \<Rightarrow> string \<Rightarrow> string \<Rightarrow> unit icall" where
  "assertNotLastAdministrator env i nextRole =
     (if ie_superadmin env = Some i then Ret (Inl (BadRequest ''Cannot delete or disable the designated superadministrator''))
      else c_then (c_read (\<lambda>db. find_user db i)) (\<lambda>current.
        if (case current of None \<Rightarrow> True | Some u \<Rightarrow> \<not> us_isActive u \<or> \<not> is_admin_role (us_role u)) \<or> is_admin_role nextRole then Ret (Inr ())
        else c_then (c_read (\<lambda>db. length (active_admins db))) (\<lambda>count.
          c_check (1 < count) (BadRequest ''the last administrator stays''))))"

text \<open>A deleted user takes the dependent rows along; the log keeps its entries without the reference.\<close>

definition cascade :: "string \<Rightarrow> identity_db \<Rightarrow> identity_db" where
  "cascade i db =
     (let gone = map (\<lambda>g. gr_id (gx_grant g)) (filter (\<lambda>g. gr_userId (gx_grant g) = Some i) (id_grants db)) in
      db\<lparr>id_auth := (id_auth db)\<lparr>ad_users := filter (\<lambda>u. us_id u \<noteq> i) (users db),
              ad_sessions := filter (\<lambda>s. ss_userId s \<noteq> i) (ad_sessions (id_auth db)),
              ad_creds := filter (\<lambda>c. mc_userId c \<noteq> i) (ad_creds (id_auth db))\<rparr>,
         id_members := filter (\<lambda>m. im_userId m \<noteq> i) (id_members db),
         id_grants := filter (\<lambda>g. gr_userId (gx_grant g) \<noteq> Some i) (id_grants db),
         id_bindings := filter (\<lambda>b. rb_userId b \<noteq> i) (id_bindings db),
         id_external := filter (\<lambda>x. ex_userId x \<noteq> i) (id_external db),
         id_changes := map (\<lambda>c. c\<lparr>ac_affectedUserId := (if ac_affectedUserId c = Some i then None else ac_affectedUserId c),
           ac_grantId := (case ac_grantId c of None \<Rightarrow> None | Some g \<Rightarrow> if g \<in> set gone then None else Some g)\<rparr>) (id_changes db)\<rparr>)"

definition remove_user :: "identity_env \<Rightarrow> string \<Rightarrow> identity_db \<Rightarrow> unit res \<times> identity_db" where
  "remove_user env i db = (if \<not> user_exists db i then (Inl (Internal ''P2025''), db)
     else if ie_referred env db i then (Inl (Internal ''P2003''), db)
     else (Inr (), cascade i db))"

definition deleteUser :: "identity_env \<Rightarrow> admin_actor option \<Rightarrow> string \<Rightarrow> unit icall" where
  "deleteUser env actor i = c_then (require_admin actor) (\<lambda>_. c_then (assertSuperadministrator env actor (Some i)) (\<lambda>_.
     c_then (mustFindUser i) (\<lambda>_. c_then (assertNotLastAdministrator env i ''user'') (\<lambda>_.
       c_then (c_stmt (remove_user env i)) (\<lambda>_. write_audit env actor ''delete'' ''users'' i)))))"

definition set_active :: "bool \<Rightarrow> user_row \<Rightarrow> user_row" where
  "set_active b u = u\<lparr>us_isActive := b, us_authzVersion := us_authzVersion u + 1\<rparr>"

definition setState :: "identity_env \<Rightarrow> admin_actor option \<Rightarrow> string \<Rightarrow> bool \<Rightarrow> user_item icall" where
  "setState env actor i isActive = c_then (require_admin actor) (\<lambda>_. c_then (assertSuperadministrator env actor (Some i)) (\<lambda>_.
     c_then (mustFindUser i) (\<lambda>_.
       c_then (if isActive then Ret (Inr ()) else assertNotLastAdministrator env i ''disabled'') (\<lambda>_.
         audited env actor (if isActive then ''enable'' else ''disable'') (c_stmt (write_user i (set_active isActive)))))))"

definition setUserState :: "identity_env \<Rightarrow> admin_actor option \<Rightarrow> string \<Rightarrow> string \<Rightarrow> user_item icall" where
  "setUserState env actor i nextState = setState env actor i (nextState = ''active'')"

text \<open>Resetting the second factor is left to the flow of Kn_Auth: this method always refuses.\<close>

definition setMfaEnabled :: "identity_env \<Rightarrow> admin_actor option \<Rightarrow> string \<Rightarrow> json option \<Rightarrow> unit icall" where
  "setMfaEnabled env actor i enabled = c_then (require_admin actor) (\<lambda>_. c_then (assertSuperadministrator env actor None) (\<lambda>_.
     case enabled of Some (JBool b) \<Rightarrow> Ret (Inl (Unavailable ''MFA administration requires verified reauthentication and atomic reset support''))
     | _ \<Rightarrow> Ret (Inl (BadRequest ''enabled must be boolean''))))"

section \<open>Lists\<close>

text \<open>\<open>Number.parseInt(value, 10)\<close>, where it is positive.\<close>

definition parsePositiveInt :: "string option \<Rightarrow> nat \<Rightarrow> nat" where
  "parsePositiveInt v fallback = (case v of None \<Rightarrow> fallback | Some s \<Rightarrow>
     (let t = dropWhile js_ws s; u = (case t of c # r \<Rightarrow> (if c = CHR ''+'' then r else t) | [] \<Rightarrow> []);
          n = foldl (\<lambda>a c. a * 10 + (of_char c - 48)) 0 (takeWhile is_digit u) in
      if n = 0 then fallback else n))"

record users_query =
  uq_keyword :: "string option"
  uq_role :: "string option"
  uq_isActive :: "string option"
  uq_page :: "string option"
  uq_pageSize :: "string option"

definition user_matches :: "users_query \<Rightarrow> user_row \<Rightarrow> bool" where
  "user_matches q u \<longleftrightarrow> (case uq_role q of None \<Rightarrow> True | Some r \<Rightarrow> r = [] \<or> us_role u = js_trim r)
     \<and> (case uq_isActive q of None \<Rightarrow> True | Some a \<Rightarrow> us_isActive u = (a = ''true''))
     \<and> (case uq_keyword q of None \<Rightarrow> True | Some k \<Rightarrow> js_trim k = [] \<or> js_includes (js_trim k) (us_email u)
          \<or> (case us_name u of None \<Rightarrow> False | Some n \<Rightarrow> js_includes (js_trim k) n))"

record users_page =
  pg_items :: "user_item list"
  pg_total :: nat
  pg_page :: nat
  pg_pageSize :: nat

text \<open>The count and the page are two statements. Rows are kept in the order of their creation.\<close>

definition listUsers :: "users_query \<Rightarrow> admin_actor option \<Rightarrow> users_page icall" where
  "listUsers q actor = c_then (require_admin actor) (\<lambda>_.
     let page = parsePositiveInt (uq_page q) 1; pageSize = parsePositiveInt (uq_pageSize q) 10 in
     c_then (c_read (\<lambda>db. length (filter (user_matches q) (users db)))) (\<lambda>total.
       c_then (c_read (\<lambda>db. take pageSize (drop ((page - 1) * pageSize) (filter (user_matches q) (rev (users db)))))) (\<lambda>rows.
         Ret (Inr \<lparr>pg_items = map toUserItem rows, pg_total = total, pg_page = page, pg_pageSize = pageSize\<rparr>))))"

definition findById :: "string \<Rightarrow> admin_actor option \<Rightarrow> user_item option icall" where
  "findById i actor = c_then (require_admin actor) (\<lambda>_. c_read (\<lambda>db. map_option toUserItem (find_user db i)))"

definition listExternalIdentities :: "admin_actor option \<Rightarrow> string \<Rightarrow> external_row list icall" where
  "listExternalIdentities actor userId = c_then (require_admin actor) (\<lambda>_.
     c_read (\<lambda>db. take 100 (filter (\<lambda>x. ex_userId x = userId) (id_external db))))"

end
