(* ===== verification/Kn_IdentitySafety.thy ===== *)
theory Kn_IdentitySafety
  imports Kn_Users Kn_Auth
begin

text \<open>
  What every statement of the identity administration keeps, however the calls interleave: the keys
  of the tables, and that no statement changes the account, the external identities or any
  authorization decision of a user without raising the authorization version of that user.
\<close>

section \<open>Constraints and relation\<close>

text \<open>
  Keys are unique, a membership belongs to a group, a grant has one principal, and a session
  belongs to a user whose authorization version is at least its own.
\<close>

definition identity_ok :: "identity_db \<Rightarrow> bool" where
  "identity_ok db \<longleftrightarrow> distinct (map us_id (users db)) \<and> distinct (map ig_id (id_groups db))
     \<and> (\<forall>m \<in> set (id_members db). im_groupId m \<in> ig_id ` set (id_groups db))
     \<and> (\<forall>g \<in> set (id_grants db). gr_userId (gx_grant g) = None \<or> gr_groupId (gx_grant g) = None)
     \<and> (\<forall>s \<in> set (ad_sessions (id_auth db)). \<exists>u. find_user db (ss_userId s) = Some u \<and> ss_authzVersion s \<le> us_authzVersion u)"

text \<open>What a user can log in with and do.\<close>

definition externals :: "identity_db \<Rightarrow> string \<Rightarrow> external_row list" where
  "externals db i = filter (\<lambda>x. ex_userId x = i) (id_external db)"

definition same_account :: "user_row \<Rightarrow> user_row \<Rightarrow> bool" where
  "same_account u v \<longleftrightarrow> us_isActive v = us_isActive u \<and> us_email v = us_email u \<and> us_passwordHash v = us_passwordHash u
     \<and> us_role v = us_role u \<and> us_mfaEnabled v = us_mfaEnabled u"

definition same_access :: "string \<Rightarrow> identity_db \<Rightarrow> identity_db \<Rightarrow> bool" where
  "same_access i db db' \<longleftrightarrow> externals db' i = externals db i
     \<and> (\<forall>t q. rq_userId q = i \<longrightarrow> authorize (access_of db') t q = authorize (access_of db) t q)"

definition versioned :: "identity_db \<Rightarrow> identity_db \<Rightarrow> bool" where
  "versioned db db' \<longleftrightarrow> (\<forall>i u v. find_user db i = Some u \<longrightarrow> find_user db' i = Some v \<longrightarrow>
       us_authzVersion u \<le> us_authzVersion v
       \<and> (us_authzVersion v = us_authzVersion u \<longrightarrow> same_account u v \<and> same_access i db db'))
     \<and> set (ad_sessions (id_auth db')) \<subseteq> set (ad_sessions (id_auth db))"

lemma same_access_refl [simp]: "same_access i db db"
  by (simp add: same_access_def)

lemma same_account_refl [simp]: "same_account u u"
  by (simp add: same_account_def)

lemma versioned_refl [simp]: "versioned db db"
  by (auto simp: versioned_def)

section \<open>What a decision depends on\<close>

definition valid_rows :: "identity_db \<Rightarrow> string \<Rightarrow> membership list" where
  "valid_rows db i = filter (\<lambda>m. gm_userId m = i) (az_memberships (access_of db))"

definition grants_for :: "identity_db \<Rightarrow> string \<Rightarrow> grant list" where
  "grants_for db i = filter (\<lambda>g. gr_userId g = Some i \<or> (case gr_groupId g of None \<Rightarrow> False | Some k \<Rightarrow> k \<in> gm_groupId ` set (valid_rows db i)))
     (az_grants (access_of db))"

lemma valid_memberships_rows:
  "valid_memberships (access_of db) i t = filter (\<lambda>m. gm_state m = ''active'' \<and> gm_groupActive m
     \<and> gm_validFrom m \<le> t \<and> after t (gm_expiresAt m)) (valid_rows db i)"
  by (simp add: valid_memberships_def valid_rows_def conj_assoc)

lemma filter_stronger: "(\<And>x. P x \<Longrightarrow> Q x) \<Longrightarrow> filter P xs = filter P (filter Q xs)"
  by (induction xs) auto

lemma stored_grants_for:
  "stored_grants (access_of db) i (map gm_groupId (valid_memberships (access_of db) i t)) c =
   filter (\<lambda>g. (case c of None \<Rightarrow> True | Some k \<Rightarrow> gr_clusterId g = k) \<and> gr_state g = ''active'' \<and> gr_revokedAt g = None
     \<and> live_cluster (access_of db) (gr_clusterId g)
     \<and> (gr_userId g = Some i \<or> (case gr_groupId g of None \<Rightarrow> False | Some k \<Rightarrow> k \<in> set (map gm_groupId (valid_memberships (access_of db) i t)))))
     (grants_for db i)"
  unfolding stored_grants_def grants_for_def
  by (rule filter_stronger) (auto simp: valid_memberships_rows split: option.splits)

lemma live_cluster_tables: "id_clusters db' = id_clusters db \<Longrightarrow> live_cluster (access_of db') c = live_cluster (access_of db) c"
  by (simp add: live_cluster_def access_of_def)

lemma authorize_depends:
  assumes "valid_rows db' i = valid_rows db i" and "grants_for db' i = grants_for db i" and "id_clusters db' = id_clusters db"
    and "rq_userId q = i"
  shows "authorize (access_of db') t q = authorize (access_of db) t q"
proof -
  have m: "valid_memberships (access_of db') i t = valid_memberships (access_of db) i t"
    using assms(1) by (simp add: valid_memberships_rows)
  have "stored_grants (access_of db') i (map gm_groupId (valid_memberships (access_of db) i t)) c
      = stored_grants (access_of db) i (map gm_groupId (valid_memberships (access_of db) i t)) c" for c
    using stored_grants_for [of db' i t c] stored_grants_for [of db i t c]
    unfolding m assms(2) live_cluster_tables [OF assms(3)] by simp
  then have "listEffectiveGrants (access_of db') i t c = listEffectiveGrants (access_of db) i t c" for c
    unfolding listEffectiveGrants_def Let_def m by simp
  then show ?thesis using assms(4) by (simp add: authorize_def)
qed

lemma same_accessI:
  assumes "valid_rows db' i = valid_rows db i" and "grants_for db' i = grants_for db i" and "id_clusters db' = id_clusters db"
    and "externals db' i = externals db i"
  shows "same_access i db db'"
  unfolding same_access_def using assms(4) authorize_depends [OF assms(1,2,3)] by blast


section \<open>Frames\<close>

lemma users_simps [simp]:
  "users (set_users us db) = us" "users (db\<lparr>id_groups := gs\<rparr>) = users db" "users (db\<lparr>id_members := ms\<rparr>) = users db"
  "users (db\<lparr>id_grants := grs\<rparr>) = users db" "users (db\<lparr>id_external := xs\<rparr>) = users db" "users (db\<lparr>id_audits := aus\<rparr>) = users db"
  "users (log_change a f g v r db) = users db"
  by (simp_all add: users_def set_users_def log_change_def)

lemma set_users_fields [simp]:
  "id_groups (set_users us db) = id_groups db" "id_members (set_users us db) = id_members db" "id_grants (set_users us db) = id_grants db"
  "id_clusters (set_users us db) = id_clusters db" "id_external (set_users us db) = id_external db" "id_now (set_users us db) = id_now db"
  "ad_sessions (id_auth (set_users us db)) = ad_sessions (id_auth db)"
  by (simp_all add: set_users_def)

lemma log_fields [simp]:
  "id_groups (log_change a f g v r db) = id_groups db" "id_members (log_change a f g v r db) = id_members db"
  "id_grants (log_change a f g v r db) = id_grants db" "id_clusters (log_change a f g v r db) = id_clusters db"
  "id_external (log_change a f g v r db) = id_external db" "id_auth (log_change a f g v r db) = id_auth db"
  by (simp_all add: log_change_def)

lemma bump_fields [simp]:
  "id_groups (bump p db) = id_groups db" "id_members (bump p db) = id_members db" "id_grants (bump p db) = id_grants db"
  "id_clusters (bump p db) = id_clusters db" "id_external (bump p db) = id_external db" "id_now (bump p db) = id_now db"
  "ad_sessions (id_auth (bump p db)) = ad_sessions (id_auth db)"
  by (simp_all add: bump_def)

definition bumped :: "bool \<Rightarrow> user_row \<Rightarrow> user_row" where
  "bumped b u = (if b then u\<lparr>us_authzVersion := us_authzVersion u + 1\<rparr> else u)"

lemma bumped_id [simp]: "us_id (bumped b u) = us_id u"
  by (simp add: bumped_def)

lemma users_bump: "users (bump p db) = map (\<lambda>u. bumped (p (us_id u)) u) (users db)"
  by (simp add: bump_def bumped_def)

lemma find_map_key: "(\<And>x. k (f x) = k x) \<Longrightarrow> find (\<lambda>x. k x = i) (map f xs) = map_option f (find (\<lambda>x. k x = i) xs)"
  by (induction xs) auto

lemma find_user_map:
  assumes "users db' = map (\<lambda>u. bumped (p (us_id u)) u) (users db)"
  shows "find_user db' i = map_option (bumped (p i)) (find_user db i)"
proof -
  have "find (\<lambda>u. us_id u = i) (map (\<lambda>u. bumped (p (us_id u)) u) us) = map_option (bumped (p i)) (find (\<lambda>u. us_id u = i) us)" for us
    by (induction us) auto
  then show ?thesis by (simp add: find_user_def assms)
qed

lemma find_user_frames [simp]:
  "find_user (db\<lparr>id_groups := gs\<rparr>) i = find_user db i" "find_user (db\<lparr>id_members := ms\<rparr>) i = find_user db i"
  "find_user (db\<lparr>id_grants := grs\<rparr>) i = find_user db i" "find_user (db\<lparr>id_external := xs\<rparr>) i = find_user db i"
  "find_user (db\<lparr>id_audits := aus\<rparr>) i = find_user db i" "find_user (log_change a f g v r db) i = find_user db i"
  by (simp_all add: find_user_def)

lemma valid_rows_members:
  "valid_rows db i = concat (map (member_view (id_groups db)) (filter (\<lambda>m. im_userId m = i) (id_members db)))"
proof -
  have "filter (\<lambda>m. gm_userId m = i) (concat (map (member_view gs) ms)) = concat (map (member_view gs) (filter (\<lambda>m. im_userId m = i) ms))" for gs ms
    by (induction ms) (auto simp: member_view_def split: option.splits)
  then show ?thesis by (simp add: valid_rows_def access_of_def)
qed

lemma grants_for_rows:
  "grants_for db i = filter (\<lambda>g. gr_userId g = Some i \<or> (case gr_groupId g of None \<Rightarrow> False | Some k \<Rightarrow> k \<in> gm_groupId ` set (valid_rows db i)))
     (map gx_grant (id_grants db))"
  by (simp add: grants_for_def access_of_def)

lemma valid_rows_group: "m \<in> set (valid_rows db i) \<Longrightarrow> i \<in> set (members_of db (gm_groupId m))"
  by (auto simp: valid_rows_members member_view_def members_of_def split: option.splits)

lemma session_user:
  "identity_ok db \<Longrightarrow> s \<in> set (ad_sessions (id_auth db)) \<Longrightarrow> \<exists>u. find_user db (ss_userId s) = Some u \<and> ss_authzVersion s \<le> us_authzVersion u"
  by (simp add: identity_ok_def)

definition accountable :: "identity_db \<Rightarrow> identity_db \<Rightarrow> bool" where
  "accountable db db' \<longleftrightarrow> identity_ok db' \<and> versioned db db'"

lemma accountable_refl: "identity_ok db \<Longrightarrow> accountable db db"
  by (simp add: accountable_def)

text \<open>The shape of every change: versions rise where \<open>p\<close> holds, and elsewhere the access is the same.\<close>

lemma bump_change:
  assumes ok: "identity_ok db" and us: "users db' = map (\<lambda>u. bumped (p (us_id u)) u) (users db)"
    and "distinct (map ig_id (id_groups db'))" and "\<forall>m \<in> set (id_members db'). im_groupId m \<in> ig_id ` set (id_groups db')"
    and "\<forall>g \<in> set (id_grants db'). gr_userId (gx_grant g) = None \<or> gr_groupId (gx_grant g) = None"
    and ses: "ad_sessions (id_auth db') = ad_sessions (id_auth db)"
    and same: "\<And>i. \<not> p i \<Longrightarrow> same_access i db db'"
  shows "accountable db db'"
  unfolding accountable_def
proof
  have f: "find_user db' i = map_option (bumped (p i)) (find_user db i)" for i by (rule find_user_map [OF us])
  have "map us_id (users db') = map us_id (users db)" by (simp add: us comp_def)
  moreover have "\<exists>u. find_user db' (ss_userId s) = Some u \<and> ss_authzVersion s \<le> us_authzVersion u" if m: "s \<in> set (ad_sessions (id_auth db))" for s
  proof -
    obtain u where "find_user db (ss_userId s) = Some u" "ss_authzVersion s \<le> us_authzVersion u"
      using session_user [OF ok m] by blast
    then show ?thesis by (simp add: f bumped_def)
  qed
  ultimately show "identity_ok db'"
    unfolding identity_ok_def using assms(3-6) ok by (metis identity_ok_def)
  show "versioned db db'"
    unfolding versioned_def f ses
  proof (intro conjI allI impI subset_refl)
    fix i u v assume u: "find_user db i = Some u" and v: "map_option (bumped (p i)) (find_user db i) = Some v"
    then have v: "v = bumped (p i) u" by simp
    then show "us_authzVersion u \<le> us_authzVersion v" by (simp add: bumped_def)
    assume "us_authzVersion v = us_authzVersion u"
    then have "\<not> p i" using v by (auto simp: bumped_def)
    then show "same_account u v" "same_access i db db'" using v same by (simp_all add: bumped_def)
  qed
qed

lemma users_log_bump [simp]: "map (\<lambda>u. bumped False u) us = us" "users (bump p db) = map (\<lambda>u. bumped (p (us_id u)) u) (users db)"
  by (simp_all add: bumped_def users_bump)

lemma same_access_rows:
  assumes "filter (\<lambda>m. im_userId m = i) (id_members db') = filter (\<lambda>m. im_userId m = i) (id_members db)"
    and "id_groups db' = id_groups db" and "id_grants db' = id_grants db" and "id_clusters db' = id_clusters db"
    and "externals db' i = externals db i"
  shows "same_access i db db'"
proof (rule same_accessI)
  show v: "valid_rows db' i = valid_rows db i" using assms(1,2) by (simp add: valid_rows_members)
  show "grants_for db' i = grants_for db i" unfolding grants_for_rows v assms(3) ..
qed (use assms in simp_all)

section \<open>The transactions\<close>

lemma externals_change:
  assumes "identity_ok s" and "\<And>i. i \<noteq> u \<Longrightarrow> filter (\<lambda>x. ex_userId x = i) xs = externals s i"
  shows "accountable s (log_change a f g v r ((bump (\<lambda>i. i = u) s)\<lparr>id_external := xs\<rparr>))"
  by (rule bump_change [OF assms(1), where p = "\<lambda>i. i = u"])
    (use assms in \<open>auto simp: identity_ok_def externals_def intro!: same_access_rows\<close>)

lemma bind_change: "identity_ok s \<Longrightarrow> bind_tx env a u iss sub s = (r, t) \<Longrightarrow> accountable s t"
  by (auto simp: bind_tx_def Let_def externals_def accountable_refl intro!: externals_change split: if_splits)

lemma unbind_change: "identity_ok s \<Longrightarrow> unbind_tx a u x s = (r, t) \<Longrightarrow> accountable s t"
  by (auto simp: unbind_tx_def Let_def externals_def accountable_refl intro!: externals_change filter_cong split: if_splits)

lemma members_change:
  assumes "identity_ok s" and "\<And>i. i \<noteq> u \<Longrightarrow> filter (\<lambda>m. im_userId m = i) ms = filter (\<lambda>m. im_userId m = i) (id_members s)"
    and "\<And>m. m \<in> set ms \<Longrightarrow> im_groupId m \<in> ig_id ` set (id_groups s)"
  shows "accountable s (member_changed a k u active (s\<lparr>id_members := ms\<rparr>))"
  unfolding member_changed_def
  by (rule bump_change [OF assms(1), where p = "\<lambda>i. i = u"])
    (use assms in \<open>auto simp: identity_ok_def externals_def intro!: same_access_rows\<close>)

lemma filter_map_other: "(\<And>m. m \<in> set ms \<Longrightarrow> P (f m) = P m) \<Longrightarrow> (\<And>m. m \<in> set ms \<Longrightarrow> P m \<Longrightarrow> f m = m) \<Longrightarrow> filter P (map f ms) = filter P ms"
  by (induction ms) auto

lemma membership_change: "identity_ok s \<Longrightarrow> membership_tx a k u active s = (r, t) \<Longrightarrow> accountable s t"
proof -
  assume ok: "identity_ok s" and tx: "membership_tx a k u active s = (r, t)"
  have touch: "accountable s (member_changed a k u True (s\<lparr>id_members := touch_member k u n (id_members s)\<rparr>))" if "g \<in> set (id_groups s)" "ig_id g = k" for g n
    by (rule members_change [OF ok])
      (use ok that in \<open>auto simp: touch_member_def identity_ok_def intro!: filter_map_other split: if_splits\<close>)
  have drop: "accountable s (member_changed a k u False (s\<lparr>id_members := snd (drop_member k u (id_members s))\<rparr>))"
    by (rule members_change [OF ok])
      (use ok in \<open>auto simp: drop_member_def update_many_def identity_ok_def intro!: filter_map_other split: if_splits\<close>)
  show ?thesis
    using tx touch drop accountable_refl [OF ok]
    by (auto simp: membership_tx_def Let_def prod.case_eq_if dest!: find_Some_mem split: if_splits option.splits)
qed


lemma member_view_append:
  "im_groupId m \<in> ig_id ` set gs \<Longrightarrow> member_view (gs @ hs) m = member_view gs m"
proof -
  assume "im_groupId m \<in> ig_id ` set gs"
  then obtain g where "find (\<lambda>g. ig_id g = im_groupId m) gs = Some g"
    by (cases "find (\<lambda>g. ig_id g = im_groupId m) gs") (auto simp: find_None_iff)
  moreover have "find P (xs @ ys) = (case find P xs of None \<Rightarrow> find P ys | Some x \<Rightarrow> Some x)" for P :: "group_row \<Rightarrow> bool" and xs ys
    by (induction xs) auto
  ultimately show ?thesis by (simp add: member_view_def)
qed

lemma group_change: "identity_ok s \<Longrightarrow> group_tx env a n s = (r, t) \<Longrightarrow> accountable s t"
proof -
  assume ok: "identity_ok s" and tx: "group_tx env a n s = (r, t)"
  have step: "accountable s (log_change a None None v x (s\<lparr>id_groups := id_groups s @ [g]\<rparr>))" if new: "ig_id g \<notin> ig_id ` set (id_groups s)" for g v x
  proof (rule bump_change [OF ok, where p = "\<lambda>_. False"])
    show "same_access i s (log_change a None None v x (s\<lparr>id_groups := id_groups s @ [g]\<rparr>))" for i
    proof (rule same_accessI)
      let ?t = "log_change a None None v x (s\<lparr>id_groups := id_groups s @ [g]\<rparr>)"
      have "member_view (id_groups s @ [g]) m = member_view (id_groups s) m" if m: "m \<in> set (id_members s)" for m
        using ok m member_view_append by (simp add: identity_ok_def)
      then show v: "valid_rows ?t i = valid_rows s i"
        by (auto simp: valid_rows_members intro!: arg_cong [where f = concat] map_cong)
      show "grants_for ?t i = grants_for s i" unfolding grants_for_rows v by simp
    qed (simp_all add: externals_def)
  qed (use ok new in \<open>auto simp: identity_ok_def\<close>)
  show ?thesis using tx accountable_refl [OF ok]
    by (auto simp: group_tx_def Let_def list_ex_iff intro!: step split: if_splits)
qed

text \<open>A change of the grants touches only those a principal of a changed grant.\<close>

lemma grants_change:
  assumes "identity_ok s" and "\<And>i. i \<notin> us \<Longrightarrow> filter (\<lambda>g. gr_userId g = Some i \<or> (case gr_groupId g of None \<Rightarrow> False | Some k \<Rightarrow> k \<in> gm_groupId ` set (valid_rows s i))) (map gx_grant gs)
        = grants_for s i"
    and "\<forall>g \<in> set gs. gr_userId (gx_grant g) = None \<or> gr_groupId (gx_grant g) = None"
  shows "accountable s (log_change a f g v x (bump (\<lambda>i. i \<in> us) (s\<lparr>id_grants := gs\<rparr>)))"
proof (rule bump_change [OF assms(1), where p = "\<lambda>i. i \<in> us"])
  let ?t = "log_change a f g v x (bump (\<lambda>i. i \<in> us) (s\<lparr>id_grants := gs\<rparr>))"
  show "same_access i s ?t" if i: "i \<notin> us" for i
  proof (rule same_accessI)
    show v: "valid_rows ?t i = valid_rows s i" by (simp add: valid_rows_members)
    show "grants_for ?t i = grants_for s i" using assms(2) [OF i] unfolding grants_for_rows [of ?t] v by simp
  qed (simp_all add: externals_def)
qed (use assms(1,3) in \<open>auto simp: identity_ok_def\<close>)

lemma grant_change: "identity_ok s \<Longrightarrow> grant_tx env a inp scopes s = (r, t) \<Longrightarrow> gi_userId inp = [] \<or> gi_groupId inp = [] \<Longrightarrow> accountable s t"
proof -
  assume ok: "identity_ok s" and tx: "grant_tx env a inp scopes s = (r, t)" and one: "gi_userId inp = [] \<or> gi_groupId inp = []"
  let ?us = "set (if gi_userId inp \<noteq> [] then [gi_userId inp] else members_of s (gi_groupId inp))"
  have "accountable s (log_change a f g v x (bump (\<lambda>i. i \<in> ?us) (s\<lparr>id_grants := id_grants s @ [row]\<rparr>)))"
    if row: "gx_grant row = grant_of n inp scopes caps" for row n caps f g v x
  proof (rule grants_change [OF ok])
    fix i assume "i \<notin> ?us"
    then have "\<not> (gr_userId (gx_grant row) = Some i \<or> (case gr_groupId (gx_grant row) of None \<Rightarrow> False | Some k \<Rightarrow> k \<in> gm_groupId ` set (valid_rows s i)))"
      using one by (auto simp: row grant_of_def opt_def dest: valid_rows_group split: if_splits)
    then show "filter (\<lambda>g. gr_userId g = Some i \<or> (case gr_groupId g of None \<Rightarrow> False | Some k \<Rightarrow> k \<in> gm_groupId ` set (valid_rows s i)))
        (map gx_grant (id_grants s @ [row])) = grants_for s i"
      by (simp add: grants_for_rows)
  qed (use ok one in \<open>auto simp: identity_ok_def row grant_of_def opt_def\<close>)
  then show ?thesis using tx accountable_refl [OF ok]
    by (auto simp: grant_tx_def Let_def split: if_splits sum.splits option.splits)
qed


lemma revoked_others:
  "(\<And>r. r \<in> set gs \<Longrightarrow> P r \<Longrightarrow> \<not> Q (gx_grant r)) \<Longrightarrow> (\<And>r. Q (gx_grant (revoke_row a n r)) = Q (gx_grant r)) \<Longrightarrow>
   filter Q (map gx_grant (map (\<lambda>r. if P r then revoke_row a n r else r) gs)) = filter Q (map gx_grant gs)"
  by (induction gs) auto

lemma revoke_row_principal [simp]:
  "gr_userId (gx_grant (revoke_row a n r)) = gr_userId (gx_grant r)" "gr_groupId (gx_grant (revoke_row a n r)) = gr_groupId (gx_grant r)"
  by (simp_all add: revoke_row_def)

lemma single_filter: "length (filter P xs) = 1 \<Longrightarrow> x \<in> set xs \<Longrightarrow> P x \<Longrightarrow> y \<in> set xs \<Longrightarrow> P y \<Longrightarrow> y = x"
proof -
  assume one: "length (filter P xs) = 1" and m: "x \<in> set xs" "P x" "y \<in> set xs" "P y"
  obtain z where z: "filter P xs = [z]" using one by (cases "filter P xs") auto
  have "x \<in> set (filter P xs)" "y \<in> set (filter P xs)" using m by simp_all
  then show "y = x" unfolding z by simp
qed

lemma revoke_change: "identity_ok s \<Longrightarrow> revoke_tx a i s = (r, t) \<Longrightarrow> accountable s t"
proof -
  assume ok: "identity_ok s" and tx: "revoke_tx a i s = (r, t)"
  let ?P = "\<lambda>g r. gr_id (gx_grant r) = i \<and> gx_version r = gx_version g \<and> gr_revokedAt (gx_grant r) = None"
  have "accountable s (log_change a f h v x (bump (\<lambda>u. u \<in> set (granted_users s (gx_grant g)))
      (s\<lparr>id_grants := map (\<lambda>r. if ?P g r then revoke_row a (id_now s) r else r) (id_grants s)\<rparr>)))"
    if g: "g \<in> set (id_grants s)" "?P g g" and one: "length (filter (?P g) (id_grants s)) = 1" for g f h v x
  proof (rule grants_change [OF ok])
    fix j assume j: "j \<notin> set (granted_users s (gx_grant g))"
    let ?Q = "\<lambda>g. gr_userId g = Some j \<or> (case gr_groupId g of None \<Rightarrow> False | Some k \<Rightarrow> k \<in> gm_groupId ` set (valid_rows s j))"
    have "\<not> ?Q (gx_grant g)"
    proof
      assume q: "?Q (gx_grant g)"
      have "gr_userId (gx_grant g) = None \<or> gr_groupId (gx_grant g) = None" using ok g(1) by (simp add: identity_ok_def)
      then have "j \<in> set (granted_users s (gx_grant g))"
        using q by (auto simp: granted_users_def dest: valid_rows_group split: option.splits)
      then show False using j by blast
    qed
    then have "\<not> ?Q (gx_grant r)" if "r \<in> set (id_grants s)" "?P g r" for r
      using single_filter [OF one g that] by simp
    then show "filter ?Q (map gx_grant (map (\<lambda>r. if ?P g r then revoke_row a (id_now s) r else r) (id_grants s))) = grants_for s j"
      unfolding grants_for_rows by (intro revoked_others) simp_all
  qed (use ok in \<open>auto simp: identity_ok_def\<close>)
  then show ?thesis using tx accountable_refl [OF ok]
    by (auto simp: revoke_tx_def update_many_def Let_def dest!: find_Some_mem split: if_splits option.splits)
qed

section \<open>Accounts\<close>

lemma insert_change: "identity_ok s \<Longrightarrow> insert_user env n h s = (r, t) \<Longrightarrow> accountable s t"
proof -
  assume ok: "identity_ok s" and tx: "insert_user env n h s = (r, t)"
  have step: "accountable s (set_users (users s @ [u]) s)" if new: "us_id u \<notin> us_id ` set (users s)" for u
  proof -
    let ?t = "set_users (users s @ [u]) s"
    have old: "find_user ?t i = Some v" if "find_user s i = Some v" for i v
    proof -
      have "find P (xs @ ys) = (case find P xs of None \<Rightarrow> find P ys | Some x \<Rightarrow> Some x)" for P :: "user_row \<Rightarrow> bool" and xs ys
        by (induction xs) auto
      then show ?thesis using that by (simp add: find_user_def)
    qed
    have "\<exists>v. find_user ?t (ss_userId q) = Some v \<and> ss_authzVersion q \<le> us_authzVersion v" if m: "q \<in> set (ad_sessions (id_auth s))" for q
      using session_user [OF ok m] old by blast
    then have "identity_ok ?t" using ok new by (simp add: identity_ok_def)
    moreover have "same_access i s ?t" for i by (rule same_access_rows) (simp_all add: externals_def)
    then have "versioned s ?t" using old by (auto simp: versioned_def)
    ultimately show ?thesis by (simp add: accountable_def)
  qed
  show ?thesis using tx accountable_refl [OF ok]
    by (auto simp: insert_user_def Let_def list_ex_iff intro!: step split: if_splits)
qed

text \<open>An update of one row either raises its version or leaves the account as it was.\<close>

definition fair_patch :: "(user_row \<Rightarrow> user_row) \<Rightarrow> bool" where
  "fair_patch f \<longleftrightarrow> (\<forall>u. us_id (f u) = us_id u \<and> us_authzVersion u \<le> us_authzVersion (f u)
     \<and> (us_authzVersion (f u) = us_authzVersion u \<longrightarrow> same_account u (f u)))"

lemma write_change: "identity_ok s \<Longrightarrow> fair_patch f \<Longrightarrow> write_user i f s = (r, t) \<Longrightarrow> accountable s t"
proof -
  assume ok: "identity_ok s" and f: "fair_patch f" and tx: "write_user i f s = (r, t)"
  let ?h = "\<lambda>v. if us_id v = i then f v else v" and ?t = "set_users (map (\<lambda>v. if us_id v = i then f v else v) (users s)) s"
  have id: "us_id (?h v) = us_id v" for v using f by (simp add: fair_patch_def)
  have find: "find_user ?t j = map_option ?h (find_user s j)" for j
    unfolding find_user_def users_simps by (rule find_map_key) (rule id)
  have up: "us_authzVersion v \<le> us_authzVersion (?h v)" for v using f by (simp add: fair_patch_def)
  have ss: "\<exists>v. find_user ?t (ss_userId q) = Some v \<and> ss_authzVersion q \<le> us_authzVersion v" if m: "q \<in> set (ad_sessions (id_auth s))" for q
  proof -
    obtain u where "find_user s (ss_userId q) = Some u" "ss_authzVersion q \<le> us_authzVersion u" using session_user [OF ok m] by blast
    then show ?thesis using order_trans [OF _ up] by (auto simp: find)
  qed
  have ids: "map us_id (users ?t) = map us_id (users s)" using id by simp
  have "identity_ok ?t" unfolding identity_ok_def
  proof (intro conjI)
    show "distinct (map us_id (users ?t))" unfolding ids using ok by (simp only: identity_ok_def)
    show "\<forall>q \<in> set (ad_sessions (id_auth ?t)). \<exists>v. find_user ?t (ss_userId q) = Some v \<and> ss_authzVersion q \<le> us_authzVersion v"
      using ss unfolding set_users_fields by blast
  qed (use ok in \<open>simp_all add: identity_ok_def\<close>)
  moreover have "same_access j s ?t" for j by (rule same_access_rows) (simp_all add: externals_def)
  then have "versioned s ?t" using f up by (auto simp: versioned_def find fair_patch_def)
  ultimately show ?thesis using tx accountable_refl [OF ok] by (auto simp: write_user_def accountable_def split: option.splits if_splits)
qed

lemma remove_change: "identity_ok s \<Longrightarrow> remove_user env i s = (r, t) \<Longrightarrow> accountable s t"
proof -
  assume ok: "identity_ok s" and tx: "remove_user env i s = (r, t)"
  let ?t = "cascade i s"
  have us: "users ?t = filter (\<lambda>u. us_id u \<noteq> i) (users s)" by (simp add: users_def cascade_def Let_def)
  have ff: "find (\<lambda>u. us_id u = j) (filter (\<lambda>u. us_id u \<noteq> i) xs) = (if j = i then None else find (\<lambda>u. us_id u = j) xs)" for j xs
    by (induction xs) auto
  have find: "find_user ?t j = (if j = i then None else find_user s j)" for j unfolding find_user_def us ff ..
  have fields: "id_members ?t = filter (\<lambda>m. im_userId m \<noteq> i) (id_members s)" "id_groups ?t = id_groups s"
      "id_grants ?t = filter (\<lambda>g. gr_userId (gx_grant g) \<noteq> Some i) (id_grants s)" "id_clusters ?t = id_clusters s"
      "id_external ?t = filter (\<lambda>x. ex_userId x \<noteq> i) (id_external s)"
      "ad_sessions (id_auth ?t) = filter (\<lambda>q. ss_userId q \<noteq> i) (ad_sessions (id_auth s))"
    by (simp_all add: cascade_def Let_def)
  have "same_access j s ?t" if j: "j \<noteq> i" for j
  proof (rule same_accessI)
    show v: "valid_rows ?t j = valid_rows s j"
      unfolding valid_rows_members fields filter_filter using j by (metis (mono_tags, lifting) filter_cong)
    show "grants_for ?t j = grants_for s j"
    proof -
      have "filter Q (map gx_grant (filter (\<lambda>g. gr_userId (gx_grant g) \<noteq> Some i) gs)) = filter Q (map gx_grant gs)"
        if "\<And>g. g \<in> set gs \<Longrightarrow> gr_userId (gx_grant g) = Some i \<Longrightarrow> \<not> Q (gx_grant g)" for Q gs
        using that by (induction gs) auto
      note drop = this
      show ?thesis unfolding grants_for_rows v fields
        by (rule drop) (use ok j in \<open>auto simp: identity_ok_def\<close>)
    qed
    show "externals ?t j = externals s j" unfolding externals_def fields filter_filter using j by (metis (mono_tags, lifting) filter_cong)
  qed (simp add: fields)
  then have "versioned s ?t" by (auto simp: versioned_def find fields)
  moreover have "identity_ok ?t" unfolding identity_ok_def us fields find
    using ok session_user [OF ok] by (auto simp: identity_ok_def distinct_map_filter)
  ultimately show ?thesis using tx accountable_refl [OF ok] by (auto simp: remove_user_def accountable_def split: if_splits)
qed


section \<open>The methods\<close>

abbreviation safe :: "(identity_db, 'a) call \<Rightarrow> bool" where
  "safe c \<equiv> c_safe identity_ok versioned c"

lemma safe_stmt: "(\<And>s r t. identity_ok s \<Longrightarrow> f s = (r, t) \<Longrightarrow> accountable s t) \<Longrightarrow> safe (c_stmt f)"
  by (rule c_safe_stmt) (simp add: accountable_def)

lemma safe_transaction: "(\<And>s r t. identity_ok s \<Longrightarrow> f s = (r, t) \<Longrightarrow> accountable s t) \<Longrightarrow> safe (transaction f)"
  unfolding transaction_def
  by (rule safe_stmt) (auto simp: accountable_refl split: prod.splits sum.splits)

lemma safe_read [call_rules]: "safe (c_read f)"
  by (rule c_safe_read) simp

lemma safe_checks [call_rules]: "safe (c_check b e)" "safe (require_admin actor)" "safe (assertSuperadministrator env actor p)"
    "safe (mustFindUser i)" "safe (assertNotLastAdministrator env i r)" "safe (hash_password env v)"
    "safe (patch_username i v)" "safe (patch_name v)" "safe (patch_password env v)" "safe (resolve_scope env c n)"
  by (auto simp: c_check_def require_admin_def assertSuperadministrator_def mustFindUser_def assertNotLastAdministrator_def hash_password_def
      patch_username_def patch_name_def patch_password_def resolve_scope_def intro!: call_rules split: option.splits json.splits)

lemma safe_audit [call_rules]: "safe (write_audit env actor x y z)"
proof -
  have "accountable s (s\<lparr>id_audits := a\<rparr>)" if "identity_ok s" for s a
    using that by (auto simp: accountable_def identity_ok_def versioned_def externals_def intro!: same_access_rows)
  then show ?thesis unfolding write_audit_def by (intro safe_stmt) auto
qed

lemma safe_audited [call_rules]: "safe m \<Longrightarrow> safe (audited env actor x m)"
  by (auto simp: audited_def intro!: call_rules)

lemma safe_bind: "safe (bindExternalIdentity env actor u body)"
  unfolding bindExternalIdentity_def
  by (intro call_rules) (auto intro!: call_rules safe_transaction bind_change split: option.splits json.splits)

lemma safe_unbind: "safe (unbindExternalIdentity env actor u x)"
  unfolding unbindExternalIdentity_def by (intro call_rules safe_transaction unbind_change)

lemma safe_membership: "safe (setGroupMembership actor g u b)"
  unfolding setGroupMembership_def by (intro call_rules safe_transaction membership_change)

lemma safe_group: "safe (createIdentityGroup env actor body)"
  unfolding createIdentityGroup_def
  by (intro call_rules) (auto intro!: call_rules safe_transaction group_change split: option.splits json.splits)

lemma one_principal: "read_grant env now body = Inr inp \<Longrightarrow> gi_userId inp = [] \<or> gi_groupId inp = []"
  by (auto simp: read_grant_def grant_principal_def guard_Inr_iff rbind_Inr_iff Let_def split: option.splits json.splits)

lemma safe_grant: "safe (createAccessGrant env actor body)"
proof -
  have inner: "safe (c_then (Ret (read_grant env now body)) (\<lambda>inp.
       if ie_resolve env = None then Ret (Inl (BadRequest ''Namespace resolver unavailable''))
       else c_then (c_map (resolve_scope env (gi_clusterId inp)) (js_unique (gi_namespaces inp))) (\<lambda>scopes.
         transaction (grant_tx env (actor_key actor) inp scopes))))" for now
    by (rule c_safe_then_post [where P = "\<lambda>inp. gi_userId inp = [] \<or> gi_groupId inp = []"])
      (auto intro!: call_rules safe_transaction intro: grant_change dest: one_principal split: sum.splits)
  show ?thesis unfolding createAccessGrant_def
    by (rule c_safe_then [OF safe_checks(2)], rule c_safe_if, rule c_safe_ret, rule c_safe_then [OF safe_read], rule inner)
qed

lemma safe_revoke: "safe (revokeAccessGrant actor i)"
  unfolding revokeAccessGrant_def by (intro call_rules safe_transaction revoke_change)

lemma safe_create: "safe (createUser env actor body)"
  unfolding createUser_def
  by (intro call_rules safe_stmt insert_change)

lemma fair_active: "fair_patch (set_active b)"
  by (simp add: fair_patch_def set_active_def)

lemma fair_update: "(up_email p \<noteq> None \<or> up_passwordHash p \<noteq> None \<Longrightarrow> up_bump p) \<Longrightarrow> fair_patch (apply_patch p)"
  by (auto simp: fair_patch_def apply_patch_def same_account_def split: option.splits)

lemma patch_post:
  "c_post (\<lambda>x. x \<noteq> None \<longrightarrow> v \<noteq> None) (patch_username i v)" "c_post (\<lambda>x. x \<noteq> None \<longrightarrow> v \<noteq> None) (patch_password env v)"
  by (cases v; auto simp: patch_username_def patch_password_def intro!: c_post_then)+

lemma safe_update: "safe (updateUser env actor i body)"
  unfolding updateUser_def
  by (intro call_rules c_safe_then_post [OF _ patch_post(1)] c_safe_then_post [OF _ patch_post(2)] safe_stmt)
    (auto intro!: write_change fair_update)

lemma safe_delete: "safe (deleteUser env actor i)"
  unfolding deleteUser_def by (intro call_rules safe_stmt remove_change)

lemma safe_state: "safe (setState env actor i b)"
  unfolding setState_def by (intro call_rules safe_stmt write_change [OF _ fair_active])

text \<open>The calls an administrator can start, with any arguments.\<close>

inductive identity_call :: "identity_env \<Rightarrow> (identity_db, unit res) call \<Rightarrow> bool" for env :: identity_env where
  "identity_call env (c_void (bindExternalIdentity env actor u body))"
| "identity_call env (c_void (unbindExternalIdentity env actor u x))"
| "identity_call env (c_void (setGroupMembership actor g u b))"
| "identity_call env (c_void (createIdentityGroup env actor body))"
| "identity_call env (c_void (createAccessGrant env actor body))"
| "identity_call env (c_void (revokeAccessGrant actor i))"
| "identity_call env (c_void (createUser env actor body))"
| "identity_call env (c_void (updateUser env actor i v))"
| "identity_call env (c_void (deleteUser env actor i))"
| "identity_call env (c_void (setUserState env actor i st))"
| "identity_call env (c_void (setMfaEnabled env actor i e))"

lemma identity_call_safe: "identity_call env c \<Longrightarrow> safe c"
  by (induction rule: identity_call.induct)
    (auto simp: setUserState_def setMfaEnabled_def intro!: c_safe_void safe_bind safe_unbind safe_membership safe_group safe_grant safe_revoke
      safe_create safe_update safe_delete safe_state call_rules split: option.splits json.splits)

definition elsewhere :: "identity_db \<Rightarrow> identity_db \<Rightarrow> bool" where
  "elsewhere s t \<longleftrightarrow> identity_ok t"

interpretation identities: service "identity_call env" elsewhere identity_ok versioned for env
  by unfold_locales (auto simp: elsewhere_def intro: identity_call_safe)

end
