(* ===== verification/Kn_AdminSafety.thy ===== *)
theory Kn_AdminSafety
  imports Kn_IdentitySafety
begin

text \<open>
  What the identity administration leaves of the administrators: only deleting or disabling a user
  takes one away, and neither is ever done to the designated superadministrator.
\<close>

section \<open>Who loses the administration\<close>

definition active_admin :: "identity_db \<Rightarrow> string \<Rightarrow> bool" where
  "active_admin db i \<longleftrightarrow> (\<exists>u \<in> set (active_admins db). us_id u = i)"

definition spares :: "(string \<Rightarrow> bool) \<Rightarrow> identity_db \<Rightarrow> identity_db \<Rightarrow> bool" where
  "spares X db db' \<longleftrightarrow> (\<forall>i. active_admin db i \<longrightarrow> \<not> X i \<longrightarrow> active_admin db' i)"

lemma spares_refl [simp]: "spares X db db"
  by (simp add: spares_def)

lemma spares_trans: "spares X a b \<Longrightarrow> spares X b c \<Longrightarrow> spares X a c"
  by (simp add: spares_def)

definition roster :: "identity_db \<Rightarrow> (string \<times> bool \<times> string) list" where
  "roster db = map (\<lambda>u. (us_id u, us_isActive u, us_role u)) (users db)"

lemma active_admin_roster: "active_admin db i \<longleftrightarrow> (\<exists>r. (i, True, r) \<in> set (roster db) \<and> is_admin_role r)"
  by (auto simp: active_admin_def active_admins_def roster_def image_iff)

lemma spares_roster: "set (roster s) \<subseteq> set (roster t) \<Longrightarrow> spares X s t"
  by (auto simp: spares_def active_admin_roster)

lemma roster_simps [simp]:
  "roster (bump p db) = roster db" "roster (log_change a f g v r db) = roster db" "roster (db\<lparr>id_groups := gs\<rparr>) = roster db"
  "roster (db\<lparr>id_members := ms\<rparr>) = roster db" "roster (db\<lparr>id_grants := grs\<rparr>) = roster db"
  "roster (db\<lparr>id_external := xs\<rparr>) = roster db" "roster (db\<lparr>id_audits := aus\<rparr>) = roster db"
  by (simp_all add: roster_def users_bump bumped_def comp_def)

lemma roster_tx:
  "bind_tx env a u iss sub s = (r1, t) \<Longrightarrow> roster t = roster s" "unbind_tx a u x s = (r2, t) \<Longrightarrow> roster t = roster s"
  "membership_tx a k u b s = (r3, t) \<Longrightarrow> roster t = roster s" "group_tx env a n s = (r4, t) \<Longrightarrow> roster t = roster s"
  "grant_tx env a inp scopes s = (r5, t) \<Longrightarrow> roster t = roster s" "revoke_tx a i s = (r6, t) \<Longrightarrow> roster t = roster s"
  by (auto simp: bind_tx_def unbind_tx_def membership_tx_def member_changed_def group_tx_def grant_tx_def revoke_tx_def Let_def
      split: if_splits option.splits sum.splits prod.splits)

lemma roster_insert: "insert_user env n h s = (r, t) \<Longrightarrow> set (roster s) \<subseteq> set (roster t)"
  by (auto simp: insert_user_def roster_def Let_def split: if_splits)

lemma roster_write:
  assumes "write_user i f s = (r, t)" and "\<And>u. us_id (f u) = us_id u \<and> us_role (f u) = us_role u"
    and "\<And>u. us_isActive u \<Longrightarrow> us_isActive (f u) \<or> X i"
  shows "spares X s t"
  unfolding spares_def
proof (intro allI impI)
  fix j assume a: "active_admin s j" and x: "\<not> X j"
  from a obtain u where u: "u \<in> set (users s)" "us_isActive u" "is_admin_role (us_role u)" "us_id u = j"
    by (auto simp: active_admin_def active_admins_def)
  let ?h = "\<lambda>v. if us_id v = i then f v else v"
  have h: "us_isActive (?h u)" "us_role (?h u) = us_role u" "us_id (?h u) = j"
    using assms(2,3) [of u] u x by auto
  have "t = s \<or> users t = map ?h (users s)"
    using assms(1) by (auto simp: write_user_def split: option.splits if_splits)
  then show "active_admin t j"
  proof
    assume "users t = map ?h (users s)"
    then have "?h u \<in> set (users t)" using u(1) by simp
    moreover have "is_admin_role (us_role (?h u))" using h(2) u(3) by simp
    ultimately show ?thesis using h(1,3) unfolding active_admin_def active_admins_def by auto
  qed (use a in simp)
qed

lemma roster_remove: "remove_user env i s = (r, t) \<Longrightarrow> spares (\<lambda>j. j = i) s t"
  by (auto simp: remove_user_def cascade_def Let_def spares_def active_admin_def active_admins_def users_def split: if_splits)

section \<open>The methods\<close>

abbreviation sparing :: "(string \<Rightarrow> bool) \<Rightarrow> (identity_db, 'a) call \<Rightarrow> bool" where
  "sparing X c \<equiv> c_safe (\<lambda>_. True) (spares X) c"

lemma sparing_stmt: "(\<And>s r t. f s = (r, t) \<Longrightarrow> spares X s t) \<Longrightarrow> sparing X (c_stmt f)"
  by (rule c_safe_stmt) simp

lemma sparing_transaction: "(\<And>s r t. f s = (r, t) \<Longrightarrow> roster t = roster s) \<Longrightarrow> sparing X (transaction f)"
  unfolding transaction_def
  by (rule sparing_stmt) (auto simp: spares_roster split: prod.splits sum.splits)

lemma sparing_read [call_rules]: "sparing X (c_read f)"
  by (rule c_safe_read) simp

lemma sparing_checks [call_rules]: "sparing X (c_check b e)" "sparing X (require_admin actor)" "sparing X (assertSuperadministrator env actor p)"
    "sparing X (mustFindUser i)" "sparing X (assertNotLastAdministrator env i r)" "sparing X (hash_password env v)"
    "sparing X (patch_username i v)" "sparing X (patch_name v)" "sparing X (patch_password env v)" "sparing X (resolve_scope env c n)"
  by (auto simp: c_check_def require_admin_def assertSuperadministrator_def mustFindUser_def assertNotLastAdministrator_def hash_password_def
      patch_username_def patch_name_def patch_password_def resolve_scope_def intro!: call_rules split: option.splits json.splits)

lemma sparing_audit [call_rules]: "sparing X (write_audit env actor x y z)"
  unfolding write_audit_def by (rule sparing_stmt) (auto simp: spares_roster)

lemma sparing_audited [call_rules]: "sparing X m \<Longrightarrow> sparing X (audited env actor x m)"
  by (auto simp: audited_def intro!: call_rules)

lemma sparing_tables:
  "sparing X (bindExternalIdentity env actor u body)" "sparing X (unbindExternalIdentity env actor u x)"
  "sparing X (setGroupMembership actor g u b)" "sparing X (createIdentityGroup env actor body)" "sparing X (revokeAccessGrant actor i)"
  "sparing X (createAccessGrant env actor body)"
  by (auto simp: bindExternalIdentity_def unbindExternalIdentity_def setGroupMembership_def createIdentityGroup_def revokeAccessGrant_def
      createAccessGrant_def intro!: call_rules sparing_transaction intro: roster_tx split: option.splits json.splits)

lemma sparing_insert [call_rules]: "sparing X (c_stmt (insert_user env n h))"
  by (rule sparing_stmt) (simp add: spares_roster roster_insert)

lemma sparing_patch [call_rules]: "sparing X (c_stmt (write_user i (apply_patch p)))"
  by (rule sparing_stmt, erule roster_write) (simp_all add: apply_patch_def)

lemma sparing_create: "sparing X (createUser env actor body)"
  unfolding createUser_def by (auto intro!: call_rules)

lemma sparing_update: "sparing X (updateUser env actor i v)"
  unfolding updateUser_def by (intro call_rules)

lemma sparing_state: "sparing (\<lambda>j. j = i \<and> \<not> b) (c_stmt (write_user i (set_active b)))"
  by (rule sparing_stmt, erule roster_write) (simp_all add: set_active_def)

lemma sparing_enable: "sparing X (setState env actor i True)"
proof -
  have "sparing X (c_stmt (write_user i (set_active True)))"
    by (rule c_safe_mono [OF sparing_state]) (auto simp: spares_def)
  then show ?thesis unfolding setState_def by (simp add: call_rules)
qed

text \<open>Disabling and deleting stop at the designated superadministrator before they write anything.\<close>

lemma sparing_delete: "sparing (\<lambda>j. j = i \<and> ie_superadmin env \<noteq> Some i) (deleteUser env actor i)"
proof (cases "ie_superadmin env = Some i")
  case True
  then show ?thesis
    by (auto simp: deleteUser_def assertNotLastAdministrator_def [of env i] c_then_def [of "Ret (Inl e)" for e] intro!: call_rules)
next
  case False
  then show ?thesis unfolding deleteUser_def by (auto intro!: call_rules sparing_stmt dest: roster_remove)
qed

lemma sparing_disable: "sparing (\<lambda>j. j = i \<and> ie_superadmin env \<noteq> Some i) (setState env actor i False)"
proof (cases "ie_superadmin env = Some i")
  case True
  then show ?thesis
    by (auto simp: setState_def assertNotLastAdministrator_def [of env i] c_then_def [of "Ret (Inl e)" for e] intro!: call_rules)
next
  case False
  have "sparing (\<lambda>j. j = i \<and> ie_superadmin env \<noteq> Some i) (c_stmt (write_user i (set_active False)))"
    by (rule c_safe_mono [OF sparing_state]) (use False in \<open>auto simp: spares_def\<close>)
  then show ?thesis unfolding setState_def by (simp add: call_rules)
qed


lemma sparing_call: "identity_call env c \<Longrightarrow> sparing (\<lambda>j. ie_superadmin env \<noteq> Some j) c"
proof (induction rule: identity_call.induct)
  case (9 actor i)
  then show ?case by (intro c_safe_void) (rule c_safe_mono [OF sparing_delete], auto simp: spares_def)
next
  case (10 actor i st)
  show ?case
  proof (cases "st = ''active''")
    case False
    then show ?thesis unfolding setUserState_def
      by (intro c_safe_void) (simp, rule c_safe_mono [OF sparing_disable], auto simp: spares_def)
  qed (simp add: setUserState_def c_safe_void sparing_enable)
next
  case (11 actor i e)
  then show ?case by (auto simp: setMfaEnabled_def intro!: c_safe_void call_rules split: option.splits json.splits)
qed (intro c_safe_void sparing_tables sparing_create sparing_update)+

definition designated_active :: "identity_env \<Rightarrow> identity_db \<Rightarrow> bool" where
  "designated_active env db \<longleftrightarrow> (case ie_superadmin env of None \<Rightarrow> True | Some d \<Rightarrow> active_admin db d)"

interpretation designated: service "identity_call env" "\<lambda>s t. designated_active env t" "designated_active env" "\<lambda>s t. True" for env
proof unfold_locales
  show "c_safe (designated_active env) (\<lambda>s t. True) c" if "identity_call env c" for c
    by (rule c_safe_mono [OF sparing_call [OF that]]) (auto simp: spares_def designated_active_def split: option.splits)
qed simp_all

section \<open>Calls that run alone\<close>

lemma run_void [simp]: "snd (c_run (c_void m) s) = snd (c_run m s)"
  by (simp add: c_void_def split: prod.splits sum.splits)

lemma run_spares: "sparing X c \<Longrightarrow> spares X s (snd (c_run c s))"
  using c_safe_run [of "\<lambda>_. True" "spares X" c s] spares_trans by auto

lemma some_admin: "active_admins db \<noteq> [] \<longleftrightarrow> (\<exists>i. active_admin db i)"
  by (cases "active_admins db") (auto simp: active_admin_def)

lemma run_spares_all: "sparing (\<lambda>_. False) c \<Longrightarrow> active_admins s \<noteq> [] \<Longrightarrow> active_admins (snd (c_run c s)) \<noteq> []"
  using run_spares [of "\<lambda>_. False" c s] unfolding some_admin spares_def by blast

text \<open>When \<open>i\<close> is the only administrator, the count stops the call.\<close>

lemma last_refused:
  assumes "identity_ok db" and "active_admins db \<noteq> []" and "\<And>j. active_admin db j \<Longrightarrow> j = i" and "\<not> is_admin_role r"
  shows "\<exists>e. c_run (assertNotLastAdministrator env i r) db = (Inl e, db)"
proof -
  have d: "distinct (map us_id (users db))" using assms(1) by (simp add: identity_ok_def)
  obtain u where u: "u \<in> set (users db)" "us_isActive u" "is_admin_role (us_role u)"
    using assms(2) by (auto simp: active_admins_def filter_empty_conv)
  have all: "us_id v = i" if "v \<in> set (active_admins db)" for v using assms(3) that by (auto simp: active_admin_def)
  have "us_id u = i" using all u by (simp add: active_admins_def)
  then have found: "find_user db i = Some u" using find_key [OF d u(1)] by (simp add: find_user_def)
  have "distinct (map us_id (active_admins db))" using d by (simp add: active_admins_def distinct_map_filter)
  moreover have "set (map us_id (active_admins db)) \<subseteq> {i}" using all by auto
  ultimately have "length (active_admins db) \<le> 1"
    by (metis card_mono card_insert_disjoint distinct_card finite.emptyI finite.insertI insert_absorb insert_not_empty length_map card.empty empty_iff One_nat_def)
  then show ?thesis using u(2,3) assms(4)
    by (auto simp: assertNotLastAdministrator_def found c_check_def guard_def)
qed

lemma superadmin_run: "snd (c_run (assertSuperadministrator env actor p) db) = db"
  by (auto simp: assertSuperadministrator_def split: option.splits)

lemma delete_keeps_one:
  assumes "identity_ok db" and "active_admins db \<noteq> []"
  shows "active_admins (snd (c_run (deleteUser env actor i) db)) \<noteq> []"
proof (cases "\<exists>j. active_admin db j \<and> j \<noteq> i")
  case True
  then show ?thesis using run_spares [OF sparing_delete [of i env actor], of db] unfolding some_admin spares_def by blast
next
  case False
  then obtain e where e: "c_run (assertNotLastAdministrator env i ''user'') db = (Inl e, db)"
    using last_refused [OF assms, of i "''user''"] by (auto simp: is_admin_role_def)
  have "snd (c_run (deleteUser env actor i) db) = db"
    using superadmin_run [of env actor "Some i" db]
    by (auto simp: deleteUser_def require_admin_def mustFindUser_def c_check_def guard_def e split: sum.splits prod.splits)
  then show ?thesis using assms(2) by simp
qed

lemma disable_keeps_one:
  assumes "identity_ok db" and "active_admins db \<noteq> []"
  shows "active_admins (snd (c_run (setState env actor i False) db)) \<noteq> []"
proof (cases "\<exists>j. active_admin db j \<and> j \<noteq> i")
  case True
  then show ?thesis using run_spares [OF sparing_disable [of i env actor], of db] unfolding some_admin spares_def by blast
next
  case False
  then obtain e where e: "c_run (assertNotLastAdministrator env i ''disabled'') db = (Inl e, db)"
    using last_refused [OF assms, of i "''disabled''"] by (auto simp: is_admin_role_def)
  have "snd (c_run (setState env actor i False) db) = db"
    using superadmin_run [of env actor "Some i" db]
    by (auto simp: setState_def require_admin_def mustFindUser_def c_check_def guard_def e split: sum.splits prod.splits)
  then show ?thesis using assms(2) by simp
qed

lemma call_keeps_one:
  assumes "identity_call env c" and "identity_ok db" and "active_admins db \<noteq> []"
  shows "active_admins (snd (c_run c db)) \<noteq> []"
  using assms(1)
proof (induction rule: identity_call.induct)
  case (9 actor i)
  then show ?case using delete_keeps_one [OF assms(2,3)] by simp
next
  case (10 actor i st)
  show ?case using disable_keeps_one [OF assms(2,3)] run_spares_all [OF sparing_enable assms(3)] by (cases "st = ''active''") (simp_all add: setUserState_def)
next
  case (11 actor i e)
  have "sparing (\<lambda>_. False) (setMfaEnabled env actor i e)"
    by (auto simp: setMfaEnabled_def intro!: call_rules split: option.splits json.splits)
  then show ?case using run_spares_all assms(3) by simp
qed (simp only: run_void, rule run_spares_all [OF _ assms(3)], intro sparing_tables sparing_create sparing_update)+

end
