(* ===== verification/Kn_IdentityProps.thy ===== *)
theory Kn_IdentityProps
  imports Kn_AdminSafety
begin

text \<open>
  Properties of the identity administration: a change of what a user may do ends the sessions of that
  user, and what keeps an administrator in place; with a small installation as witness, on which two
  administrators who disable each other at the same time succeed.
\<close>

section \<open>A small installation\<close>

definition ex_admin :: "string \<Rightarrow> user_row" where
  "ex_admin i = \<lparr>us_id = i, us_email = i, us_name = Some i, us_passwordHash = None, us_role = ''admin'', us_isActive = True,
     us_mfaEnabled = False, us_authzVersion = 1\<rparr>"

definition ex_user :: user_row where
  "ex_user = (ex_admin ''u1'')\<lparr>us_role := ''user''\<rparr>"

definition ex_session :: session_row where
  "ex_session = new_session ''s1'' ''u1'' 1 ''hash'' 1000 2000"

definition ex_identity :: identity_db where
  "ex_identity = \<lparr>id_auth = \<lparr>ad_users = [ex_admin ''a1'', ex_admin ''a2'', ex_user], ad_creds = [], ad_sessions = [ex_session], ad_changes = []\<rparr>,
     id_groups = [], id_members = [],
     id_grants = [\<lparr>gx_grant = \<lparr>gr_id = ''g1'', gr_userId = Some ''u1'', gr_groupId = None, gr_clusterId = ''c1'', gr_role = ''operator'', gr_state = ''active'',
         gr_validFrom = 0, gr_expiresAt = None, gr_revokedAt = None, gr_scopes = [(''uid1'', ''team'')], gr_capabilities = [''logs'']\<rparr>,
         gx_version = 1, gx_createdBy = ''a1'', gx_updatedBy = ''a1''\<rparr>],
     id_clusters = [\<lparr>rc_id = ''c1'', rc_deletedAt = None, rc_status = ''ready''\<rparr>], id_bindings = [], id_external = [],
     id_changes = [], id_audits = [], id_now = 100\<rparr>"

definition ex_identity_env :: identity_env where
  "ex_identity_env = \<lparr>ie_superadmin = None, ie_newId = (\<lambda>db. ''new''), ie_hash = (\<lambda>db p. p), ie_date = (\<lambda>s. NotANumber), ie_url = (\<lambda>s. None),
     ie_nt = (\<lambda>n. []), ie_resolve = None, ie_referred = (\<lambda>db i. False)\<rparr>"

definition ex_actor :: "string \<Rightarrow> admin_actor option" where
  "ex_actor i = Some \<lparr>ad_id = Some i, ad_username = Some i, ad_role = Some ''admin''\<rparr>"

lemma ex_admin_identity_ok: "identity_ok ex_identity"
  by (simp add: identity_ok_def ex_identity_def users_def find_user_def ex_admin_def ex_user_def ex_session_def new_session_def)

section \<open>Access\<close>












section \<open>The last administrator\<close>

text \<open>
  C29. A call of user administration that runs without others in between leaves at least one
  active platform administrator when there was one, whatever the call is.
\<close>

theorem administrator_remains:
  assumes "identity_call env c" and "identity_ok db" and "active_admins db \<noteq> []"
  shows "active_admins (snd (c_run c db)) \<noteq> []"
  using assms by (rule call_keeps_one)

definition ex_designated :: "string option \<Rightarrow> identity_env" where
  "ex_designated d = ex_identity_env\<lparr>ie_superadmin := d\<rparr>"

definition ex_disable :: "string option \<Rightarrow> string \<Rightarrow> string \<Rightarrow> (identity_db, unit res) call" where
  "ex_disable d a i = c_void (setUserState (ex_designated d) (ex_actor a) i ''disabled'')"

lemma ex_disable_call: "identity_call (ex_designated d) (ex_disable d a i)"
  by (simp add: ex_disable_def identity_call.intros)

lemma ex_admins: "active_admins ex_identity \<noteq> []"
  by code_simp

theorem administrator_remains_witness: "active_admins (snd (c_run (ex_disable None ''a2'' ''a1'') ex_identity)) \<noteq> []"
  using administrator_remains [OF ex_disable_call ex_admin_identity_ok ex_admins] .

text \<open>
  The count and the update are two statements. Two administrators who disable each other at the same
  time both see two administrators, and none is left; only the configuration of a designated
  superadministrator prevents it.
\<close>

definition ex_both :: "string option \<Rightarrow> (identity_db, unit res) flight" where
  "ex_both d = \<lparr>fl_state = ex_identity, fl_calls = [ex_disable d ''a2'' ''a1'', ex_disable d ''a1'' ''a2'']\<rparr>"

definition ex_schedule :: "nat list" where
  "ex_schedule = [0, 0, 0, 1, 1, 1, 0, 1]"

lemma ex_both_reach:
  assumes "P ex_identity"
  shows "reach (\<lambda>w. P (fl_state w) \<and> fl_calls w = []) (c_step (identity_call (ex_designated d)) outside) (fold advance ex_schedule (ex_both d))"
proof -
  let ?r = "reach (\<lambda>w. P (fl_state w) \<and> fl_calls w = []) (c_step (identity_call (ex_designated d)) outside)"
  let ?w = "\<lparr>fl_state = ex_identity, fl_calls = []\<rparr> :: (identity_db, unit res) flight"
  have "?r ?w" by (rule reach_init) (simp add: assms)
  then have "?r (?w\<lparr>fl_calls := fl_calls ?w @ [ex_disable d ''a2'' ''a1'']\<rparr>)" by (rule reach_start) (rule ex_disable_call)
  then have "?r (?w\<lparr>fl_calls := [ex_disable d ''a2'' ''a1'']\<rparr>)" by simp
  then have "?r (?w\<lparr>fl_calls := [ex_disable d ''a2'' ''a1'']\<rparr>\<lparr>fl_calls := fl_calls (?w\<lparr>fl_calls := [ex_disable d ''a2'' ''a1'']\<rparr>) @ [ex_disable d ''a1'' ''a2'']\<rparr>)"
    by (rule reach_start) (rule ex_disable_call)
  then have "?r (ex_both d)" by (simp add: ex_both_def)
  then show ?thesis by (rule reach_advances)
qed

lemma administrators_disable_each_other:
  "active_admins (fl_state (fold advance ex_schedule (ex_both None))) = []"
  by code_simp

text \<open>
  C30. However the calls of user administration interleave, the designated superadministrator
  stays an active administrator: no call can disable or delete this account.
\<close>

theorem designated_administrator_stays:
  assumes "ie_superadmin env = Some d"
    and "reach (\<lambda>w. active_admin (fl_state w) d \<and> fl_calls w = []) (c_step (identity_call env) (\<lambda>s t. active_admin t d)) w"
  shows "active_admin (fl_state w) d"
proof -
  have d: "designated_active env = (\<lambda>db. active_admin db d)" by (simp add: fun_eq_iff designated_active_def assms(1))
  show ?thesis using designated.flights.reach_inv [of env w, unfolded d, OF assms(2)]
    unfolding designated.all_safe_def [of env, unfolded d] by blast
qed

lemma ex_first_admin: "active_admin ex_identity ''a1''"
  by (simp add: active_admin_def active_admins_def ex_identity_def users_def ex_admin_def is_admin_role_def)

theorem designated_administrator_stays_witness:
  "active_admin (fl_state (fold advance ex_schedule (ex_both (Some ''a1'')))) ''a1''"
  by (rule designated_administrator_stays [OF _ ex_both_reach [where P = "\<lambda>db. active_admin db ''a1''"]])
    (simp_all add: ex_designated_def ex_first_admin)

end
