(* ===== verification/Kn_Native.thy ===== *)
theory Kn_Native
  imports Kn_Identity Kn_Runtime
begin

text \<open>
  Native access to clusters with the tools of Kubernetes: the classification of a request
  (auth/native-request.ts), its authorization (auth/native-authorization.ts) and the roles a user is
  given in a cluster (auth/native-rbac.ts).

  The values of the query parameter \<open>watch\<close> come from the URL parser; the digest of a list of texts is
  the shortened SHA-256 of its JSON text. Both are fields of the environment.
\<close>

section \<open>Classifying a request\<close>

record native_env =
  ne_watch :: "string \<Rightarrow> string list"
  ne_digest :: "string list \<Rightarrow> string"

definition nativeReadResources :: "(string \<times> string list) list" where
  "nativeReadResources = [
    (''/api/v1'', [''pods'', ''services'', ''endpoints'', ''configmaps'', ''secrets'', ''persistentvolumeclaims'', ''events'', ''resourcequotas'', ''limitranges'']),
    (''/apis/apps/v1'', [''deployments'', ''replicasets'', ''statefulsets'', ''daemonsets'']),
    (''/apis/batch/v1'', [''jobs'', ''cronjobs'']),
    (''/apis/networking.k8s.io/v1'', [''ingresses'', ''networkpolicies'']),
    (''/apis/discovery.k8s.io/v1'', [''endpointslices'']),
    (''/apis/autoscaling/v2'', [''horizontalpodautoscalers'']),
    (''/apis/policy/v1'', [''poddisruptionbudgets''])]"

record native_request =
  nr_api :: string
  nr_namespace :: string
  nr_resource :: string
  nr_name :: "string option"
  nr_subresource :: "string option"
  nr_verb :: string
  nr_capability :: "string option"

definition is_lower :: "char \<Rightarrow> bool" where
  "is_lower c \<longleftrightarrow> (let n = (of_char c :: nat) in 97 \<le> n \<and> n \<le> 122)"

definition is_label_end :: "char \<Rightarrow> bool" where
  "is_label_end c \<longleftrightarrow> is_lower c \<or> is_digit c"

text \<open>\<open>[a-z0-9](?:[-a-z0-9]*[a-z0-9])?\<close>, with further inner characters for the name of an object.\<close>

definition label_text :: "char set \<Rightarrow> string \<Rightarrow> bool" where
  "label_text inner s \<longleftrightarrow> s \<noteq> [] \<and> is_label_end (hd s) \<and> is_label_end (last s) \<and> list_all (\<lambda>c. is_label_end c \<or> c \<in> inner) s"

text \<open>
  The path is read segment by segment. A group or version that does not fit its pattern is no key of
  the table either, and a resource is looked up in the table, so these patterns need no definition.
\<close>

definition split_api :: "string list \<Rightarrow> (string \<times> string list) option" where
  "split_api segments = (case segments of
     front # a # b # rest \<Rightarrow>
       (if front \<noteq> [] then None
        else if a = ''api'' \<and> b = ''v1'' then Some (''/api/v1'', rest)
        else (case rest of v # rest' \<Rightarrow> (if a = ''apis'' then Some (''/apis/'' @ b @ ''/'' @ v, rest') else None) | [] \<Rightarrow> None))
   | _ \<Rightarrow> None)"

definition path_match :: "string \<Rightarrow> (string \<times> string \<times> string \<times> string option \<times> string option) option" where
  "path_match pathname = (case split_api (js_split CHR ''/'' pathname) of
     Some (api, n # namespace # resource # rest) \<Rightarrow>
       (if n \<noteq> ''namespaces'' \<or> \<not> label_text {CHR ''-''} namespace then None
        else (case rest of
            [] \<Rightarrow> Some (api, namespace, resource, None, None)
          | [name] \<Rightarrow> (if label_text {CHR ''-'', CHR ''.''} name then Some (api, namespace, resource, Some name, None) else None)
          | [name, sub] \<Rightarrow> (if label_text {CHR ''-'', CHR ''.''} name \<and> sub \<noteq> [] \<and> list_all is_lower sub
              then Some (api, namespace, resource, Some name, Some sub) else None)
          | _ \<Rightarrow> None))
   | _ \<Rightarrow> None)"

definition readable :: "string \<Rightarrow> string \<Rightarrow> bool" where
  "readable api resource \<longleftrightarrow> (case map_of nativeReadResources api of None \<Rightarrow> False | Some rs \<Rightarrow> resource \<in> set rs)"

definition unsupported :: "'a res" where
  "unsupported = Inl (Forbidden ''Unsupported native request'')"

definition target_ok :: "string \<Rightarrow> bool" where
  "target_ok target \<longleftrightarrow> length target \<le> 16384 \<and> starts_with ''/'' target
     \<and> list_all (\<lambda>c. \<not> js_ws c \<and> c \<noteq> CHR ''#'' \<and> c \<noteq> CHR 0x5C) target"

definition path_of :: "string \<Rightarrow> string" where
  "path_of target = takeWhile (\<lambda>c. c \<noteq> CHR ''?'') target"

text \<open>The capability and verb of a subresource and of a resource.\<close>

definition subresource_access :: "string \<Rightarrow> string \<Rightarrow> (string \<times> string) option" where
  "subresource_access method sub =
     (if sub = ''log'' \<and> method = ''GET'' then Some (''logs'', ''get'')
      else if sub = ''exec'' \<and> method \<in> {''GET'', ''POST''} then Some (''exec'', if method = ''POST'' then ''create'' else ''get'')
      else None)"

definition resource_verb :: "string list \<Rightarrow> string option \<Rightarrow> string" where
  "resource_verb watch name = (if watch \<noteq> [] \<and> hd watch \<in> {''true'', ''1''} then ''watch'' else if name \<noteq> None then ''get'' else ''list'')"

definition classify_match :: "string \<Rightarrow> string list \<Rightarrow> string \<times> string \<times> string \<times> string option \<times> string option \<Rightarrow> native_request res" where
  "classify_match method watch = (\<lambda>(api, namespace, resource, name, sub). case sub of
     Some s \<Rightarrow>
       (if resource \<noteq> ''pods'' \<or> name = None \<or> watch \<noteq> [] then unsupported
        else (case subresource_access method s of None \<Rightarrow> unsupported
          | Some (cap, verb) \<Rightarrow> Inr \<lparr>nr_api = api, nr_namespace = namespace, nr_resource = resource, nr_name = name,
              nr_subresource = sub, nr_verb = verb, nr_capability = Some cap\<rparr>))
   | None \<Rightarrow>
       (if method \<noteq> ''GET'' then unsupported
        else Inr \<lparr>nr_api = api, nr_namespace = namespace, nr_resource = resource, nr_name = name, nr_subresource = None,
          nr_verb = resource_verb watch name, nr_capability = (if resource = ''secrets'' then Some ''secrets'' else None)\<rparr>))"

definition path_allowed :: "string \<times> string \<times> string \<times> string option \<times> string option \<Rightarrow> bool" where
  "path_allowed = (\<lambda>(api, namespace, resource, name, sub). length namespace \<le> 63
     \<and> (case name of None \<Rightarrow> True | Some n \<Rightarrow> length n \<le> 253) \<and> readable api resource)"

definition watch_ok :: "string list \<Rightarrow> bool" where
  "watch_ok watch \<longleftrightarrow> \<not> (1 < length watch \<or> (watch \<noteq> [] \<and> hd watch \<notin> {''true'', ''false'', ''1'', ''0''}))"

definition classifyNativeRequest :: "native_env \<Rightarrow> string \<Rightarrow> string \<Rightarrow> native_request res" where
  "classifyNativeRequest env method target =
     (if \<not> target_ok target then unsupported
      else if CHR ''%'' \<in> set (path_of target) \<or> js_includes ''//'' (path_of target) then unsupported
      else (case path_match (path_of target) of None \<Rightarrow> unsupported
        | Some x \<Rightarrow> (if \<not> path_allowed x then unsupported
            else if \<not> watch_ok (ne_watch env target) then unsupported
            else classify_match method (ne_watch env target) x)))"

section \<open>Authorizing a request\<close>

record native_actor =
  nv_userId :: string
  nv_authzVersion :: int
  nv_expiresAt :: time

record native_decision =
  nd_request :: native_request
  nd_clusterId :: string
  nd_namespaceUid :: string
  nd_userId :: string
  nd_authzVersion :: int
  nd_grantIds :: "string list"
  nd_expiresAt :: time

definition native_candidate :: "native_request \<Rightarrow> string \<Rightarrow> grant \<Rightarrow> bool" where
  "native_candidate r clusterId g \<longleftrightarrow> gr_clusterId g = clusterId \<and> ''kubeconfig'' \<in> set (gr_capabilities g)
     \<and> (case nr_capability r of None \<Rightarrow> True | Some c \<Rightarrow> c \<in> set (gr_capabilities g))"

definition earliest_expiry :: "time \<Rightarrow> grant list \<Rightarrow> time" where
  "earliest_expiry e gs = foldl min e (concat (map (\<lambda>g. case gr_expiresAt g of None \<Rightarrow> [] | Some t \<Rightarrow> [t]) gs))"

text \<open>
  The grants are read at \<open>now\<close>; the namespace is resolved on the live cluster, and \<open>later\<close> is the
  clock afterwards. The expiry of a session is always a valid date.
\<close>

definition authorizeNativeRequest ::
  "native_env \<Rightarrow> kube_view \<Rightarrow> access_db \<Rightarrow> time \<Rightarrow> time \<Rightarrow> native_actor \<Rightarrow> string \<Rightarrow> string \<Rightarrow> string \<Rightarrow> native_decision res" where
  "authorizeNativeRequest env kube db now later actor clusterId method target =
     rbind (classifyNativeRequest env method target) (\<lambda>request.
       if nv_userId actor = [] \<or> clusterId = [] \<or> nv_expiresAt actor \<le> now then Inl (Forbidden ''Native access denied'')
       else (let candidates = filter (native_candidate request clusterId) (listEffectiveGrants db (nv_userId actor) now (Some clusterId)) in
         if candidates = [] then Inl (Forbidden ''Native access denied'')
         else rbind (resolve_namespace kube clusterId (nr_namespace request)) (\<lambda>uid.
           let matching = filter (\<lambda>g. uid \<in> set (gr_namespaces g)) candidates in
           if uid = [] \<or> matching = [] then Inl (Forbidden ''Native access denied'')
           else (let expiresAt = earliest_expiry (nv_expiresAt actor) matching in
             if expiresAt \<le> later then Inl (Forbidden ''Native access expired'')
             else Inr \<lparr>nd_request = request, nd_clusterId = clusterId, nd_namespaceUid = uid, nd_userId = nv_userId actor,
               nd_authzVersion = nv_authzVersion actor, nd_grantIds = map gr_id matching, nd_expiresAt = expiresAt\<rparr>))))"

section \<open>The desired roles\<close>

record rbac_rule =
  ru_apiGroups :: "string list"
  ru_resources :: "string list"
  ru_verbs :: "string list"

record rbac_meta =
  rm_name :: string
  rm_namespace :: string
  rm_managedBy :: "string option"
  rm_namespaceUid :: "string option"
  rm_clusterId :: "string option"

record rbac_subject =
  rj_kind :: string
  rj_name :: string

record rbac_plan =
  rp_meta :: rbac_meta
  rp_rules :: "rbac_rule list"
  rp_roleRef :: string
  rp_subjects :: "rbac_subject list"

definition nativeRbacSubject :: "native_env \<Rightarrow> string \<Rightarrow> string \<Rightarrow> string res" where
  "nativeRbacSubject env userId clusterId = (if \<not> nonblank userId \<or> \<not> nonblank clusterId
     then Inl (BadRequest ''Native identity and cluster required'') else Inr (''kubenova:native:'' @ ne_digest env [clusterId, userId]))"

text \<open>The grants a plan is made of: those in force for the user, the namespace and native access.\<close>

definition plan_grant :: "string \<Rightarrow> string \<Rightarrow> time \<Rightarrow> string \<times> string \<Rightarrow> grant \<Rightarrow> bool" where
  "plan_grant userId clusterId now ns g \<longleftrightarrow> gr_clusterId g = clusterId
     \<and> (gr_userId g = Some userId \<or> (gr_userId g = None \<and> (case gr_groupId g of None \<Rightarrow> False | Some k \<Rightarrow> k \<noteq> [])))
     \<and> gr_state g = ''active'' \<and> gr_revokedAt g = None \<and> gr_validFrom g \<le> now \<and> after now (gr_expiresAt g)
     \<and> gr_role g \<in> {''viewer'', ''operator'', ''cluster-admin''}
     \<and> (snd ns, fst ns) \<in> set (gr_scopes g) \<and> ''kubeconfig'' \<in> set (gr_capabilities g)"

definition api_group :: "string \<Rightarrow> string" where
  "api_group api = (if api = ''/api/v1'' then [] else js_split CHR ''/'' api ! 2)"

definition plan_rules :: "string set \<Rightarrow> rbac_rule list" where
  "plan_rules caps =
     map (\<lambda>(api, resources). \<lparr>ru_apiGroups = [api_group api], ru_resources = filter (\<lambda>r. r \<noteq> ''secrets'' \<or> ''secrets'' \<in> caps) resources,
       ru_verbs = [''get'', ''list'', ''watch'']\<rparr>) nativeReadResources
     @ (if ''logs'' \<in> caps then [\<lparr>ru_apiGroups = [[]], ru_resources = [''pods/log''], ru_verbs = [''get'']\<rparr>] else [])
     @ (if ''exec'' \<in> caps then [\<lparr>ru_apiGroups = [[]], ru_resources = [''pods/exec''], ru_verbs = [''get'', ''create'']\<rparr>] else [])"

definition plan_caps :: "grant list \<Rightarrow> string set" where
  "plan_caps gs = (\<Union>g \<in> set gs. set (gr_capabilities g))"

definition dns_label :: "string \<Rightarrow> bool" where
  "dns_label s \<longleftrightarrow> label_text {CHR ''-''} s \<and> length s \<le> 63"

definition plan_one :: "native_env \<Rightarrow> string \<Rightarrow> string \<Rightarrow> string \<Rightarrow> grant list \<Rightarrow> string \<times> string \<Rightarrow> rbac_plan" where
  "plan_one env userId clusterId subject gs ns =
     (let name = ''kn-native-'' @ ne_digest env [clusterId, userId, snd ns] in
      \<lparr>rp_meta = \<lparr>rm_name = name, rm_namespace = fst ns, rm_managedBy = Some ''kubenova'', rm_namespaceUid = Some (snd ns), rm_clusterId = Some clusterId\<rparr>,
       rp_rules = plan_rules (plan_caps gs), rp_roleRef = name, rp_subjects = [\<lparr>rj_kind = ''User'', rj_name = subject\<rparr>]\<rparr>)"

fun plan_namespaces ::
  "native_env \<Rightarrow> string \<Rightarrow> string \<Rightarrow> string \<Rightarrow> time \<Rightarrow> grant list \<Rightarrow> string list \<Rightarrow> (string \<times> string) list \<Rightarrow> rbac_plan list res" where
  "plan_namespaces env userId clusterId subject now grants seen [] = Inr []"
| "plan_namespaces env userId clusterId subject now grants seen (ns # rest) =
     (if \<not> dns_label (fst ns) \<or> \<not> nonblank (snd ns) \<or> fst ns \<in> set seen then Inl (BadRequest ''Invalid or duplicate native namespace'')
      else (let gs = filter (plan_grant userId clusterId now ns) grants in
        rbind (plan_namespaces env userId clusterId subject now grants (fst ns # seen) rest) (\<lambda>plans.
          Inr (if gs = [] then plans else plan_one env userId clusterId subject gs ns # plans))))"

text \<open>A namespace is its name with its UID.\<close>

definition planNativeRbac :: "native_env \<Rightarrow> string \<Rightarrow> string \<Rightarrow> time \<Rightarrow> grant list \<Rightarrow> (string \<times> string) list \<Rightarrow> rbac_plan list res" where
  "planNativeRbac env userId clusterId now grants namespaces =
     rbind (nativeRbacSubject env userId clusterId) (\<lambda>subject. plan_namespaces env userId clusterId subject now grants [] namespaces)"

end
