(* ===== verification/Kn_NativeProps.thy ===== *)
theory Kn_NativeProps
  imports Kn_Native Kn_AccessProps
begin

text \<open>
  Properties of native access: the gateway and the roles in the cluster let the same requests
  through, and both rest on a grant for native access in the namespace of the request.
\<close>

section \<open>What a classified request is\<close>

definition resource_path :: "native_request \<Rightarrow> string" where
  "resource_path r = nr_resource r @ (case nr_subresource r of None \<Rightarrow> [] | Some s \<Rightarrow> ''/'' @ s)"

definition permits :: "rbac_rule list \<Rightarrow> native_request \<Rightarrow> bool" where
  "permits rules r \<longleftrightarrow> list_ex (\<lambda>rule. api_group (nr_api r) \<in> set (ru_apiGroups rule) \<and> resource_path r \<in> set (ru_resources rule)
     \<and> nr_verb r \<in> set (ru_verbs rule)) rules"

datatype native_kind = Plain | Log | Exec

definition has_kind :: "native_request \<Rightarrow> native_kind \<Rightarrow> bool" where
  "has_kind r k \<longleftrightarrow> (case k of
     Plain \<Rightarrow> nr_subresource r = None \<and> nr_verb r \<in> {''get'', ''list'', ''watch''}
       \<and> nr_capability r = (if nr_resource r = ''secrets'' then Some ''secrets'' else None)
   | Log \<Rightarrow> nr_subresource r = Some ''log'' \<and> nr_resource r = ''pods'' \<and> nr_verb r = ''get'' \<and> nr_capability r = Some ''logs''
   | Exec \<Rightarrow> nr_subresource r = Some ''exec'' \<and> nr_resource r = ''pods'' \<and> nr_verb r \<in> {''get'', ''create''} \<and> nr_capability r = Some ''exec'')"

lemma path_label: "path_match q = Some (api, namespace, rest) \<Longrightarrow> label_text {CHR ''-''} namespace"
  by (auto simp: path_match_def split: option.splits list.splits if_split_asm)

lemma classify_steps:
  assumes "classifyNativeRequest env m t = Inr r"
  obtains x where "path_match (path_of t) = Some x" and "path_allowed x" and "classify_match m (ne_watch env t) x = Inr r"
  using assms by (auto simp: classifyNativeRequest_def unsupported_def split: if_split_asm option.splits)

lemma match_kind:
  assumes "classify_match m w (api, namespace, resource, name, sub) = Inr r"
  shows "nr_api r = api \<and> nr_namespace r = namespace \<and> nr_resource r = resource \<and> (\<exists>k. has_kind r k)"
proof (cases sub)
  case None
  then have r: "r = \<lparr>nr_api = api, nr_namespace = namespace, nr_resource = resource, nr_name = name, nr_subresource = None,
      nr_verb = resource_verb w name, nr_capability = (if resource = ''secrets'' then Some ''secrets'' else None)\<rparr>"
    using assms by (simp add: classify_match_def unsupported_def split: if_split_asm)
  have "has_kind r Plain" by (simp add: r has_kind_def resource_verb_def)
  then show ?thesis using r by auto
next
  case (Some s)
  then obtain cap verb where a: "subresource_access m s = Some (cap, verb)" and p: "resource = ''pods''"
      and r: "r = \<lparr>nr_api = api, nr_namespace = namespace, nr_resource = resource, nr_name = name, nr_subresource = sub, nr_verb = verb, nr_capability = Some cap\<rparr>"
    using assms by (cases "subresource_access m s") (auto simp: classify_match_def unsupported_def split: if_split_asm)
  have "has_kind r Log \<or> has_kind r Exec" using a p Some r by (auto simp: has_kind_def subresource_access_def split: if_split_asm)
  then show ?thesis using r by auto
qed

lemma classify_kind:
  assumes "classifyNativeRequest env m t = Inr r"
  shows "dns_label (nr_namespace r) \<and> readable (nr_api r) (nr_resource r) \<and> (\<exists>k. has_kind r k)"
proof -
  obtain x where x: "path_match (path_of t) = Some x" "path_allowed x" "classify_match m (ne_watch env t) x = Inr r"
    using classify_steps [OF assms] by blast
  obtain api namespace resource name sub where c: "x = (api, namespace, resource, name, sub)" by (cases x)
  show ?thesis using match_kind [OF x(3) [unfolded c]] path_label [OF x(1) [unfolded c]] x(2)
    by (simp add: c path_allowed_def dns_label_def)
qed

section \<open>What the planned rules permit\<close>

lemma table_read:
  "readable api resource \<Longrightarrow> (api, the (map_of nativeReadResources api)) \<in> set nativeReadResources \<and> resource \<in> set (the (map_of nativeReadResources api))"
  by (auto simp: readable_def dest: map_of_SomeD split: option.splits)

lemma no_slash: "(api, rs) \<in> set nativeReadResources \<Longrightarrow> x \<in> set rs \<Longrightarrow> CHR ''/'' \<notin> set x"
  by (auto simp: nativeReadResources_def)

lemma pods_core: "readable api ''pods'' \<Longrightarrow> api = ''/api/v1''"
  by (auto simp: readable_def nativeReadResources_def split: if_splits)

lemma permits_rules:
  assumes "readable (nr_api r) (nr_resource r)" and "has_kind r k"
  shows "permits (plan_rules caps) r \<longleftrightarrow> (case nr_capability r of None \<Rightarrow> True | Some c \<Rightarrow> c \<in> caps)"
proof (cases k)
  case Plain
  have path: "resource_path r = nr_resource r" using assms(2) Plain by (simp add: has_kind_def resource_path_def)
  have ns: "CHR ''/'' \<notin> set (nr_resource r)" using table_read [OF assms(1)] no_slash by blast
  have "permits (plan_rules caps) r \<longleftrightarrow> nr_resource r \<noteq> ''secrets'' \<or> ''secrets'' \<in> caps"
  proof
    assume "permits (plan_rules caps) r"
    then show "nr_resource r \<noteq> ''secrets'' \<or> ''secrets'' \<in> caps"
      using ns by (auto simp: permits_def plan_rules_def path list_ex_iff split: if_splits)
  next
    assume a: "nr_resource r \<noteq> ''secrets'' \<or> ''secrets'' \<in> caps"
    let ?rs = "the (map_of nativeReadResources (nr_api r))"
    have "\<lparr>ru_apiGroups = [api_group (nr_api r)], ru_resources = filter (\<lambda>r. r \<noteq> ''secrets'' \<or> ''secrets'' \<in> caps) ?rs,
        ru_verbs = [''get'', ''list'', ''watch'']\<rparr> \<in> set (plan_rules caps)"
      using table_read [OF assms(1)] by (force simp: plan_rules_def)
    then show "permits (plan_rules caps) r"
      using a table_read [OF assms(1)] assms(2) Plain by (force simp: permits_def list_ex_iff path has_kind_def)
  qed
  then show ?thesis using assms(2) Plain by (auto simp: has_kind_def)
next
  case Log
  then have path: "resource_path r = ''pods/log''" and api: "nr_api r = ''/api/v1''" and v: "nr_verb r = ''get''" and c: "nr_capability r = Some ''logs''"
    using assms pods_core by (auto simp: has_kind_def resource_path_def)
  have "''pods/log'' \<notin> set rs" if "(a, rs) \<in> set nativeReadResources" for a rs
    using no_slash [OF that, of "''pods/log''"] by auto
  then show ?thesis by (auto simp: permits_def plan_rules_def list_ex_iff path api v c api_group_def)
next
  case Exec
  then have path: "resource_path r = ''pods/exec''" and api: "nr_api r = ''/api/v1''" and v: "nr_verb r \<in> {''get'', ''create''}" and c: "nr_capability r = Some ''exec''"
    using assms pods_core by (auto simp: has_kind_def resource_path_def)
  have "''pods/exec'' \<notin> set rs" if "(a, rs) \<in> set nativeReadResources" for a rs
    using no_slash [OF that, of "''pods/exec''"] by auto
  then show ?thesis using v by (auto simp: permits_def plan_rules_def list_ex_iff path api c api_group_def)
qed


section \<open>The gateway and the plan\<close>

text \<open>
  Grants as the administration writes them: one principal, and the name a grant keeps with the UID
  of a namespace is the name of that namespace.
\<close>

definition grants_named :: "access_db \<Rightarrow> string \<Rightarrow> string \<Rightarrow> bool" where
  "grants_named db namespace uid \<longleftrightarrow> list_all (\<lambda>g. (gr_userId g = None \<or> gr_groupId g = None) \<and> gr_groupId g \<noteq> Some []
     \<and> list_all (\<lambda>(u, n). u = uid \<longrightarrow> n = namespace) (gr_scopes g)) (az_grants db)"

lemma effective_facts:
  assumes "x \<in> set (listEffectiveGrants db u now (Some c))" and "nonblank u" and "c \<noteq> []"
  shows "gr_clusterId x = c \<and> gr_state x = ''active'' \<and> gr_revokedAt x = None \<and> gr_validFrom x \<le> now \<and> after now (gr_expiresAt x)
     \<and> gr_role x \<in> set roles \<and> (gr_userId x = Some u \<or> gr_groupId x \<noteq> None)
     \<and> (\<exists>g \<in> set (az_grants db). gr_userId x = gr_userId g \<and> gr_groupId x = gr_groupId g \<and> gr_scopes x = gr_scopes g)"
proof -
  obtain g where g: "covers db u now g" "gr_clusterId g = c" "x = clip_expiry u (valid_memberships db u now) g"
    using assms(1) unfolding effective_covers [OF assms(2,3)] by blast
  have "after now (gr_expiresAt x)" unfolding g(3) clip_valid using g(1) by (simp add: covers_def)
  moreover have "gr_userId g = Some u \<or> gr_groupId g \<noteq> None" using g(1) by (auto simp: covers_def)
  moreover have "\<exists>h \<in> set (az_grants db). gr_userId x = gr_userId h \<and> gr_groupId x = gr_groupId h \<and> gr_scopes x = gr_scopes h"
    by (rule bexI [of _ g]) (use g in \<open>simp_all add: covers_def\<close>)
  ultimately show ?thesis using g by (simp add: covers_def)
qed

lemma plan_grant_iff:
  assumes "grants_named db namespace uid" and "x \<in> set (listEffectiveGrants db u now (Some c))" and "nonblank u" and "c \<noteq> []"
  shows "plan_grant u c now (namespace, uid) x \<longleftrightarrow> uid \<in> set (gr_namespaces x) \<and> ''kubeconfig'' \<in> set (gr_capabilities x)"
proof -
  note f = effective_facts [OF assms(2,3,4)]
  then obtain g where g: "g \<in> set (az_grants db)" "gr_userId x = gr_userId g" "gr_groupId x = gr_groupId g" "gr_scopes x = gr_scopes g"
    by blast
  have h: "(gr_userId g = None \<or> gr_groupId g = None) \<and> gr_groupId g \<noteq> Some [] \<and> list_all (\<lambda>(u, n). u = uid \<longrightarrow> n = namespace) (gr_scopes g)"
    using assms(1) g(1) by (simp add: grants_named_def list_all_iff)
  have "(uid, namespace) \<in> set (gr_scopes x) \<longleftrightarrow> uid \<in> set (gr_namespaces x)"
  proof
    assume "uid \<in> set (gr_namespaces x)"
    then obtain sc where sc: "sc \<in> set (gr_scopes g)" "fst sc = uid" by (auto simp: g(4) gr_namespaces_def)
    then have "snd sc = namespace" using h by (auto simp: list_all_iff)
    then show "(uid, namespace) \<in> set (gr_scopes x)" using sc g(4) by (cases sc) simp
  next
    assume "(uid, namespace) \<in> set (gr_scopes x)"
    from image_eqI [OF refl this, of fst] show "uid \<in> set (gr_namespaces x)" by (simp add: gr_namespaces_def)
  qed
  moreover have "gr_userId x = Some u \<or> gr_userId x = None \<and> (case gr_groupId x of None \<Rightarrow> False | Some k \<Rightarrow> k \<noteq> [])"
    using f h unfolding g(2,3) by (cases "gr_groupId g") auto
  ultimately show ?thesis using f by (simp add: plan_grant_def roles_def insert_commute)
qed

lemma earliest_after:
  assumes "now < e" and "\<And>g. g \<in> set gs \<Longrightarrow> after now (gr_expiresAt g)"
  shows "now < earliest_expiry e gs"
proof -
  have f: "now < e' \<Longrightarrow> \<forall>x \<in> set xs. now < x \<Longrightarrow> now < foldl min e' xs" for e' xs by (induction xs arbitrary: e') simp_all
  have "\<forall>x \<in> set (concat (map (\<lambda>g. case gr_expiresAt g of None \<Rightarrow> [] | Some t \<Rightarrow> [t]) gs)). now < x"
  proof
    fix x assume "x \<in> set (concat (map (\<lambda>g. case gr_expiresAt g of None \<Rightarrow> [] | Some t \<Rightarrow> [t]) gs))"
    then obtain g where "g \<in> set gs" "gr_expiresAt g = Some x" by (auto split: option.splits)
    then show "now < x" using assms(2) [of g] by (simp add: after_def)
  qed
  then show ?thesis unfolding earliest_expiry_def by (rule f [OF assms(1)])
qed

lemma gateway_iff:
  assumes "classifyNativeRequest env m t = Inr r" and "nonblank (nv_userId actor)" and "c \<noteq> []" and "now < nv_expiresAt actor"
    and "resolve_namespace kube c (nr_namespace r) = Inr uid"
  shows "(\<exists>d. authorizeNativeRequest env kube db now now actor c m t = Inr d) \<longleftrightarrow>
    (\<exists>g \<in> set (listEffectiveGrants db (nv_userId actor) now (Some c)). native_candidate r c g \<and> uid \<in> set (gr_namespaces g))"
proof -
  let ?cs = "filter (native_candidate r c) (listEffectiveGrants db (nv_userId actor) now (Some c))"
  let ?ms = "filter (\<lambda>g. uid \<in> set (gr_namespaces g)) ?cs"
  have "uid \<noteq> []" using assms(5) by (auto simp: resolve_namespace_def nonblank_def split: if_splits option.splits)
  moreover have "now < earliest_expiry (nv_expiresAt actor) ?ms"
    by (rule earliest_after [OF assms(4)]) (use effective_facts [OF _ assms(2,3)] in auto)
  moreover have "nv_userId actor \<noteq> []" using assms(2) by (auto simp: nonblank_def)
  moreover have "?ms = []" if "?cs = []" using that by simp
  ultimately have "(\<exists>d. authorizeNativeRequest env kube db now now actor c m t = Inr d) \<longleftrightarrow> ?ms \<noteq> []"
    using assms(1,3,4,5) by (simp add: authorizeNativeRequest_def Let_def not_le del: filter_filter)
  then show ?thesis by (auto simp: filter_empty_conv)
qed

lemma plan_iff:
  assumes "dns_label namespace" and "nonblank uid" and "nonblank u" and "nonblank c"
  shows "\<exists>plans. planNativeRbac env u c now gs [(namespace, uid)] = Inr plans
     \<and> (\<forall>p. p \<in> set plans \<longleftrightarrow> filter (plan_grant u c now (namespace, uid)) gs \<noteq> []
         \<and> p = plan_one env u c (''kubenova:native:'' @ ne_digest env [c, u]) (filter (plan_grant u c now (namespace, uid)) gs) (namespace, uid))"
  using assms by (auto simp: planNativeRbac_def nativeRbacSubject_def Let_def)

text \<open>
  C25. The gateway and the roles agree: for a classified request of a user whose session lasts, in
  a namespace that resolves and is named consistently by the grants, the gateway lets the request
  through exactly when the roles planned for this user from the same grants permit it in
  Kubernetes.
\<close>

theorem native_plan_matches_gateway:
  assumes "classifyNativeRequest env m t = Inr r" and "nonblank (nv_userId actor)" and "nonblank c" and "now < nv_expiresAt actor"
    and "resolve_namespace kube c (nr_namespace r) = Inr uid" and "grants_named db (nr_namespace r) uid"
  shows "(\<exists>d. authorizeNativeRequest env kube db now now actor c m t = Inr d) \<longleftrightarrow>
    (\<exists>plans. planNativeRbac env (nv_userId actor) c now (listEffectiveGrants db (nv_userId actor) now (Some c)) [(nr_namespace r, uid)] = Inr plans
       \<and> (\<exists>p \<in> set plans. permits (rp_rules p) r))"
proof -
  let ?u = "nv_userId actor" and ?gs = "listEffectiveGrants db (nv_userId actor) now (Some c)"
  let ?pg = "filter (plan_grant ?u c now (nr_namespace r, uid)) ?gs"
  have ne: "?u \<noteq> []" "c \<noteq> []" using assms(2,3) by (auto simp: nonblank_def)
  obtain k where k: "dns_label (nr_namespace r)" "readable (nr_api r) (nr_resource r)" "has_kind r k" using classify_kind [OF assms(1)] by blast
  have uid: "nonblank uid" using assms(5) by (auto simp: resolve_namespace_def split: if_splits option.splits)
  have mem: "g \<in> set ?pg \<longleftrightarrow> g \<in> set ?gs \<and> uid \<in> set (gr_namespaces g) \<and> ''kubeconfig'' \<in> set (gr_capabilities g)" for g
    using plan_grant_iff [OF assms(6) _ assms(2) ne(2)] by auto
  have "(\<exists>g \<in> set ?gs. native_candidate r c g \<and> uid \<in> set (gr_namespaces g)) \<longleftrightarrow>
      (\<exists>g \<in> set ?pg. case nr_capability r of None \<Rightarrow> True | Some x \<Rightarrow> x \<in> set (gr_capabilities g))"
    unfolding Bex_def mem native_candidate_def using effective_facts [OF _ assms(2) ne(2)] by metis
  also have "\<dots> \<longleftrightarrow> ?pg \<noteq> [] \<and> (case nr_capability r of None \<Rightarrow> True | Some x \<Rightarrow> x \<in> plan_caps ?pg)"
    by (cases "nr_capability r") (auto simp: plan_caps_def filter_empty_conv)
  also have "\<dots> \<longleftrightarrow> ?pg \<noteq> [] \<and> permits (plan_rules (plan_caps ?pg)) r"
    using permits_rules [OF k(2,3)] by blast
  also have "\<dots> \<longleftrightarrow> (\<exists>plans. planNativeRbac env ?u c now ?gs [(nr_namespace r, uid)] = Inr plans \<and> (\<exists>p \<in> set plans. permits (rp_rules p) r))"
  proof -
    obtain plans where plans: "planNativeRbac env ?u c now ?gs [(nr_namespace r, uid)] = Inr plans"
      "\<And>p. p \<in> set plans \<longleftrightarrow> ?pg \<noteq> [] \<and> p = plan_one env ?u c (''kubenova:native:'' @ ne_digest env [c, ?u]) ?pg (nr_namespace r, uid)"
      using plan_iff [OF k(1) uid assms(2,3)] by blast
    then show ?thesis by (simp add: Bex_def plan_one_def Let_def)
  qed
  finally show ?thesis unfolding gateway_iff [OF assms(1,2) ne(2) assms(4,5)] .
qed


definition ex_native_env :: native_env where
  "ex_native_env = \<lparr>ne_watch = (\<lambda>t. []), ne_digest = concat\<rparr>"

definition ex_native_db :: access_db where
  "ex_native_db = \<lparr>az_grants = [\<lparr>gr_id = ''g1'', gr_userId = Some ''u1'', gr_groupId = None, gr_clusterId = ''c1'', gr_role = ''viewer'',
       gr_state = ''active'', gr_validFrom = 0, gr_expiresAt = None, gr_revokedAt = None, gr_scopes = [(''uid1'', ''team'')],
       gr_capabilities = [''kubeconfig'', ''logs'']\<rparr>],
     az_memberships = [], az_clusters = [\<lparr>rc_id = ''c1'', rc_deletedAt = None, rc_status = ''ready''\<rparr>], az_bindings = [],
     az_bindingTable = True, az_authorization = True\<rparr>"

definition ex_native_kube :: kube_view where
  "ex_native_kube = \<lparr>kv_kubeconfig = (\<lambda>c. None), kv_uid = (\<lambda>c n. Some ''uid1''), kv_pod = (\<lambda>c n p. PodMissing)\<rparr>"

definition ex_native_actor :: native_actor where
  "ex_native_actor = \<lparr>nv_userId = ''u1'', nv_authzVersion = 1, nv_expiresAt = 100\<rparr>"

definition ex_log_request :: native_request where
  "ex_log_request = \<lparr>nr_api = ''/api/v1'', nr_namespace = ''team'', nr_resource = ''pods'', nr_name = Some ''web-0'',
     nr_subresource = Some ''log'', nr_verb = ''get'', nr_capability = Some ''logs''\<rparr>"

lemma ex_native_checks:
  "classifyNativeRequest ex_native_env ''GET'' ''/api/v1/namespaces/team/pods/web-0/log'' = Inr ex_log_request"
  "nonblank (nv_userId ex_native_actor)" "nonblank ''c1''"
  "resolve_namespace ex_native_kube ''c1'' (nr_namespace ex_log_request) = Inr ''uid1''"
  "grants_named ex_native_db (nr_namespace ex_log_request) ''uid1''"
  by code_simp+

lemma ex_native_allowed:
  "(case authorizeNativeRequest ex_native_env ex_native_kube ex_native_db 50 50 ex_native_actor ''c1'' ''GET'' ''/api/v1/namespaces/team/pods/web-0/log''
    of Inr d \<Rightarrow> True | Inl e \<Rightarrow> False)"
  by code_simp

theorem native_plan_matches_gateway_witness:
  "\<exists>plans. planNativeRbac ex_native_env ''u1'' ''c1'' 50 (listEffectiveGrants ex_native_db ''u1'' 50 (Some ''c1'')) [(''team'', ''uid1'')] = Inr plans
     \<and> (\<exists>p \<in> set plans. permits (rp_rules p) ex_log_request)"
proof -
  have "\<exists>d. authorizeNativeRequest ex_native_env ex_native_kube ex_native_db 50 50 ex_native_actor ''c1'' ''GET'' ''/api/v1/namespaces/team/pods/web-0/log'' = Inr d"
    using ex_native_allowed by (auto split: sum.splits)
  then show ?thesis
    using native_plan_matches_gateway [OF ex_native_checks(1,2,3) _ ex_native_checks(4,5), of 50]
    by (simp add: ex_native_actor_def ex_log_request_def)
qed

end
