(* ===== verification/Kn_NativeSync.thy ===== *)
theory Kn_NativeSync
  imports Kn_Native Kn_Prog
begin

text \<open>
  Bringing the roles of a cluster in line with the grants: auth/native-rbac-sync.ts and
  auth/native-rbac-reconcile.service.ts, with the settings of native access
  (auth/native-settings.service.ts).

  The Kubernetes API is a record of programs over the tables and the cluster: between two calls both
  may have changed in any way. Every call that reads a role or binding or changes one is written to a
  log, which the model adds and no code reads. An object that is not found is \<open>None\<close>.
\<close>

section \<open>Objects, tables and the log\<close>

record rbac_object =
  kb_uid :: "string option"
  kb_resourceVersion :: "string option"
  kb_meta :: rbac_meta
  kb_rules :: "rbac_rule list"
  kb_roleRef :: string
  kb_subjects :: "rbac_subject list"

record native_config =
  nc_clusterId :: string
  nc_enabled :: bool
  nc_issuer :: string
  nc_audience :: string
  nc_jwksUri :: string
  nc_gatewayUrl :: string
  nc_revision :: int
  nc_syncState :: string
  nc_syncRevision :: "int option"
  nc_syncMessage :: "string option"
  nc_syncedAt :: "time option"
  nc_updatedBy :: string

record native_tables =
  nt_configs :: "native_config list"
  nt_identity :: identity_db

datatype rbac_kind = Role | Binding

datatype native_event =
    Saw rbac_kind string string "rbac_object option"
  | Deleted rbac_kind string string string string
  | Replaced string string "rbac_rule list" string
  | CreatedRole string rbac_plan
  | CreatedBinding string rbac_plan

record 'k native_world =
  nw_tables :: native_tables
  nw_kube :: 'k
  nw_log :: "native_event list"

type_synonym ('k, 'a) outside_call = "('k \<times> native_tables, 'a) prog"
type_synonym ('k, 'a) nprog = "('k native_world, 'a) prog"

record kube_cluster =
  kc_server :: string
  kc_skipTLSVerify :: bool

text \<open>Namespace and name come first; a deletion carries the UID and resource version it expects.\<close>

record 'k rbac_api =
  nb_cluster :: "string \<Rightarrow> ('k, kube_cluster option) outside_call"
  nb_namespaceUid :: "string \<Rightarrow> ('k, string option) outside_call"
  nb_resolve :: "string \<Rightarrow> string \<Rightarrow> ('k, string) outside_call"
  nb_read :: "rbac_kind \<Rightarrow> string \<Rightarrow> string \<Rightarrow> ('k, rbac_object option) outside_call"
  nb_delete :: "rbac_kind \<Rightarrow> string \<Rightarrow> string \<Rightarrow> string \<Rightarrow> string \<Rightarrow> ('k, unit) outside_call"
  nb_replaceRole :: "string \<Rightarrow> rbac_plan \<Rightarrow> string \<Rightarrow> ('k, unit) outside_call"
  nb_createRole :: "string \<Rightarrow> rbac_plan \<Rightarrow> ('k, unit) outside_call"
  nb_createBinding :: "string \<Rightarrow> rbac_plan \<Rightarrow> ('k, unit) outside_call"
  nb_namespaces :: "('k, string option list) outside_call"
  nb_bindings :: "string \<Rightarrow> ('k, (string option \<times> rbac_meta) list) outside_call"

definition out :: "('k, 'a) outside_call \<Rightarrow> ('k, 'a) nprog" where
  "out m w = (case m (nw_kube w, nw_tables w) of (r, (k, t)) \<Rightarrow> (r, w\<lparr>nw_kube := k, nw_tables := t\<rparr>))"

definition log_event :: "native_event \<Rightarrow> ('k, unit) nprog" where
  "log_event e w = (Inr (), w\<lparr>nw_log := nw_log w @ [e]\<rparr>)"

text \<open>A change is logged when it is sent, a read with its answer.\<close>

definition send :: "native_event \<Rightarrow> ('k, unit) outside_call \<Rightarrow> ('k, unit) nprog" where
  "send e m = p_bind (log_event e) (\<lambda>_. out m)"

definition see :: "'k rbac_api \<Rightarrow> rbac_kind \<Rightarrow> string \<Rightarrow> string \<Rightarrow> ('k, rbac_object option) nprog" where
  "see api kind ns name = p_bind (out (nb_read api kind ns name)) (\<lambda>x. p_bind (log_event (Saw kind ns name x)) (\<lambda>_. p_ok x))"

section \<open>One role with its binding\<close>

definition full :: "string option \<Rightarrow> bool" where
  "full s \<longleftrightarrow> (case s of None \<Rightarrow> False | Some t \<Rightarrow> t \<noteq> [])"

definition owned :: "rbac_meta \<Rightarrow> rbac_object \<Rightarrow> bool" where
  "owned m x \<longleftrightarrow> full (kb_uid x) \<and> full (kb_resourceVersion x) \<and> rm_name (kb_meta x) = rm_name m \<and> rm_namespace (kb_meta x) = rm_namespace m
     \<and> rm_managedBy (kb_meta x) = Some ''kubenova'' \<and> rm_namespaceUid (kb_meta x) = rm_namespaceUid m \<and> rm_clusterId (kb_meta x) = rm_clusterId m"

definition target_valid :: "rbac_meta \<Rightarrow> bool" where
  "target_valid m \<longleftrightarrow> starts_with ''kn-native-'' (rm_name m) \<and> rm_namespace m \<noteq> [] \<and> full (rm_namespaceUid m) \<and> full (rm_clusterId m)"

definition checkNamespace :: "'k rbac_api \<Rightarrow> rbac_meta \<Rightarrow> ('k, unit) nprog" where
  "checkNamespace api m = p_bind (out (nb_namespaceUid api (rm_namespace m))) (\<lambda>uid.
     if uid \<noteq> rm_namespaceUid m then p_err ''Native namespace identity changed'' else p_ok ())"

definition own_check :: "rbac_meta \<Rightarrow> rbac_object option \<Rightarrow> ('k, unit) nprog" where
  "own_check m x = (case x of None \<Rightarrow> p_ok () | Some y \<Rightarrow> (if owned m y then p_ok () else p_err ''Native RBAC ownership conflict''))"

definition role_matches :: "rbac_plan \<Rightarrow> rbac_object option \<Rightarrow> bool" where
  "role_matches plan x \<longleftrightarrow> (case x of None \<Rightarrow> False | Some y \<Rightarrow> kb_rules y = rp_rules plan)"

definition binding_matches :: "rbac_plan \<Rightarrow> rbac_object option \<Rightarrow> bool" where
  "binding_matches plan x \<longleftrightarrow> (case x of None \<Rightarrow> False | Some y \<Rightarrow> kb_subjects y = rp_subjects plan \<and> kb_roleRef y = rp_roleRef plan)"

definition inspectNativeRbac :: "'k rbac_api \<Rightarrow> rbac_plan \<Rightarrow> ('k, rbac_object option \<times> rbac_object option) nprog" where
  "inspectNativeRbac api plan = (let m = rp_meta plan in
     if \<not> target_valid m then p_err ''Invalid native RBAC target''
     else p_bind (checkNamespace api m) (\<lambda>_.
       p_bind (see api Role (rm_namespace m) (rm_name m)) (\<lambda>role.
       p_bind (see api Binding (rm_namespace m) (rm_name m)) (\<lambda>binding.
       p_bind (own_check m role) (\<lambda>_. p_bind (own_check m binding) (\<lambda>_. p_ok (role, binding)))))))"

definition assertNativeRbacReady :: "'k rbac_api \<Rightarrow> rbac_plan \<Rightarrow> ('k, unit) nprog" where
  "assertNativeRbacReady api plan = p_bind (inspectNativeRbac api plan) (\<lambda>(role, binding).
     if \<not> role_matches plan role \<or> \<not> binding_matches plan binding then p_err ''Native RBAC is not ready'' else p_ok ())"

definition text_or :: "string option \<Rightarrow> string" where
  "text_or s = (case s of None \<Rightarrow> [] | Some t \<Rightarrow> t)"

definition delete_object :: "'k rbac_api \<Rightarrow> rbac_kind \<Rightarrow> rbac_meta \<Rightarrow> rbac_object option \<Rightarrow> ('k, unit) nprog" where
  "delete_object api kind m x = (case x of None \<Rightarrow> p_ok ()
     | Some y \<Rightarrow> send (Deleted kind (rm_namespace m) (rm_name m) (text_or (kb_uid y)) (text_or (kb_resourceVersion y)))
         (nb_delete api kind (rm_namespace m) (rm_name m) (text_or (kb_uid y)) (text_or (kb_resourceVersion y))))"

definition put_role :: "'k rbac_api \<Rightarrow> rbac_plan \<Rightarrow> rbac_object option \<Rightarrow> ('k, unit) nprog" where
  "put_role api plan role = (let m = rp_meta plan in
     if role_matches plan role then p_ok ()
     else (case role of
         Some y \<Rightarrow> send (Replaced (rm_namespace m) (rm_name m) (rp_rules plan) (text_or (kb_resourceVersion y)))
           (nb_replaceRole api (rm_namespace m) plan (text_or (kb_resourceVersion y)))
       | None \<Rightarrow> send (CreatedRole (rm_namespace m) plan) (nb_createRole api (rm_namespace m) plan)))"

definition reconcileNativeRbacPair :: "'k rbac_api \<Rightarrow> rbac_plan \<Rightarrow> bool \<Rightarrow> ('k, unit) nprog \<Rightarrow> ('k, unit) nprog" where
  "reconcileNativeRbacPair api plan revoke assertCurrent = p_bind assertCurrent (\<lambda>_.
     p_bind (inspectNativeRbac api plan) (\<lambda>(role, binding).
       if \<not> revoke \<and> role_matches plan role \<and> binding_matches plan binding then p_ok ()
       else p_bind (delete_object api Binding (rp_meta plan) binding) (\<lambda>_.
         if revoke then delete_object api Role (rp_meta plan) role
         else p_bind (put_role api plan role) (\<lambda>_. p_bind assertCurrent (\<lambda>_. p_bind (checkNamespace api (rp_meta plan)) (\<lambda>_.
           send (CreatedBinding (rm_namespace (rp_meta plan)) plan) (nb_createBinding api (rm_namespace (rp_meta plan)) plan)))))))"

definition revokeOwnedNativeRbacPair :: "'k rbac_api \<Rightarrow> rbac_meta \<Rightarrow> ('k, unit) nprog \<Rightarrow> ('k, unit) nprog" where
  "revokeOwnedNativeRbacPair api m assertCurrent =
     (if \<not> target_valid m then p_err ''Invalid native RBAC target''
      else p_bind assertCurrent (\<lambda>_. p_bind (checkNamespace api m) (\<lambda>_.
        p_bind (see api Binding (rm_namespace m) (rm_name m)) (\<lambda>binding. p_bind (own_check m binding) (\<lambda>_.
        p_bind (delete_object api Binding m binding) (\<lambda>_.
        p_bind (see api Role (rm_namespace m) (rm_name m)) (\<lambda>role. p_bind (own_check m role) (\<lambda>_.
          delete_object api Role m role))))))))"


section \<open>Settings\<close>

definition p_res :: "'a res \<Rightarrow> ('k, 'a) nprog" where
  "p_res r = (case r of Inl e \<Rightarrow> p_err (http_message e) | Inr a \<Rightarrow> p_ok a)"

definition p_get :: "(native_tables \<Rightarrow> 'a) \<Rightarrow> ('k, 'a) nprog" where
  "p_get f w = (Inr (f (nw_tables w)), w)"

definition cluster_live :: "native_tables \<Rightarrow> string \<Rightarrow> bool" where
  "cluster_live t c \<longleftrightarrow> list_ex (\<lambda>k. rc_id k = c \<and> rc_deletedAt k = None \<and> rc_status k \<noteq> ''deleted'') (id_clusters (nt_identity t))"

definition live_config :: "string \<Rightarrow> native_tables \<Rightarrow> native_config option" where
  "live_config c t = (case find (\<lambda>x. nc_clusterId x = c) (nt_configs t) of None \<Rightarrow> None
     | Some x \<Rightarrow> (if nc_enabled x \<and> cluster_live t c then Some x else None))"

definition read_config :: "string \<Rightarrow> ('k, native_config) nprog" where
  "read_config c = p_bind (p_get (live_config c)) (\<lambda>x. case x of None \<Rightarrow> p_err ''Native access unavailable'' | Some y \<Rightarrow> p_ok y)"

text \<open>The strict schema of the settings; \<open>revision\<close> is the one the editor started from.\<close>

record native_settings =
  nx_enabled :: bool
  nx_issuer :: string
  nx_audience :: string
  nx_jwksUri :: string
  nx_gatewayUrl :: string
  nx_revision :: int

definition https_endpoint :: "(string \<Rightarrow> url option) \<Rightarrow> string \<Rightarrow> url option" where
  "https_endpoint parse s = (case validatedEndpoint parse s of Inl e \<Rightarrow> None | Inr u \<Rightarrow> (if ur_search u = [] then Some u else None))"

definition settings_valid :: "(string \<Rightarrow> url option) \<Rightarrow> native_settings \<Rightarrow> bool" where
  "settings_valid parse x \<longleftrightarrow> length (nx_issuer x) \<le> 2048 \<and> length (nx_jwksUri x) \<le> 2048 \<and> length (nx_gatewayUrl x) \<le> 2048
     \<and> nonblank (nx_audience x) \<and> length (js_trim (nx_audience x)) \<le> 200 \<and> 0 \<le> nx_revision x \<and> nx_revision x \<le> 2147483646
     \<and> (case (https_endpoint parse (nx_issuer x), https_endpoint parse (nx_jwksUri x), https_endpoint parse (nx_gatewayUrl x)) of
          (Some i, Some j, Some g) \<Rightarrow> ur_origin i = ur_origin j \<and> ur_protocol g = ''https:'' | _ \<Rightarrow> False)"

definition saved_config :: "string \<Rightarrow> string \<Rightarrow> native_settings \<Rightarrow> native_config" where
  "saved_config c actorId x = \<lparr>nc_clusterId = c, nc_enabled = nx_enabled x, nc_issuer = nx_issuer x, nc_audience = js_trim (nx_audience x),
     nc_jwksUri = nx_jwksUri x, nc_gatewayUrl = nx_gatewayUrl x, nc_revision = nx_revision x + 1, nc_syncState = ''pending'',
     nc_syncRevision = None, nc_syncMessage = None, nc_syncedAt = None, nc_updatedBy = actorId\<rparr>"

text \<open>The transaction of \<open>save\<close>: the stored revision must be the one the editor saw (0 for none).\<close>

definition stored_admin :: "native_tables \<Rightarrow> string \<Rightarrow> unit res" where
  "stored_admin t i = (case find_user (nt_identity t) i of None \<Rightarrow> Inl (Forbidden ''Actor unavailable'')
     | Some u \<Rightarrow> (if us_isActive u then assertAdministrationPermission (Some (us_role u)) else Inl (Forbidden ''Actor unavailable'')))"

definition save_settings ::
  "(string \<Rightarrow> url option) \<Rightarrow> admin_actor option \<Rightarrow> string \<Rightarrow> native_settings option \<Rightarrow> native_tables \<Rightarrow> native_config res \<times> native_tables" where
  "save_settings parse actor c body t =
     (case rbind (assertAdministrationPermission (Option.bind actor ad_role)) (\<lambda>_.
          rbind (guard (actor_key actor \<noteq> []) (Forbidden ''Actor identity required'')) (\<lambda>_.
          rbind (guard (nonblank c \<and> length c \<le> 256) (BadRequest ''Invalid cluster'')) (\<lambda>_.
          rbind (case body of None \<Rightarrow> Inl (BadRequest ''Invalid native access settings'')
              | Some x \<Rightarrow> if settings_valid parse x then Inr x else Inl (BadRequest ''Invalid native access settings'')) (\<lambda>x.
          rbind (stored_admin t (actor_key actor)) (\<lambda>_.
          rbind (guard (cluster_live t c) (NotFound ''Cluster unavailable'')) (\<lambda>_.
          rbind (guard ((case find (\<lambda>y. nc_clusterId y = c) (nt_configs t) of None \<Rightarrow> 0 | Some y \<Rightarrow> nc_revision y) = nx_revision x)
              (Conflict ''Native settings changed; reload before saving'')) (\<lambda>_. Inr x))))))) of
       Inl e \<Rightarrow> (Inl e, t)
     | Inr x \<Rightarrow> (let saved = saved_config c (actor_key actor) x;
           configs = (if list_ex (\<lambda>y. nc_clusterId y = c) (nt_configs t)
             then map (\<lambda>y. if nc_clusterId y = c \<and> nc_revision y = nx_revision x then saved else y) (nt_configs t)
             else nt_configs t @ [saved]) in
         (Inr saved, t\<lparr>nt_configs := configs, nt_identity := log_change (actor_key actor) None None (nx_revision x + 1)
            (''native-config-updated:'' @ c) (nt_identity t)\<rparr>)))"

section \<open>Reconciling a cluster\<close>

definition writeStatus :: "string \<Rightarrow> int \<Rightarrow> (native_config \<Rightarrow> native_config) \<Rightarrow> ('k, unit) nprog" where
  "writeStatus c revision f w = (let (n, cs) = update_many (\<lambda>x. nc_clusterId x = c \<and> nc_revision x = revision) f (nt_configs (nw_tables w)) in
     if n \<noteq> 1 then (Inl ''Native configuration changed'', w\<lparr>nw_tables := (nw_tables w)\<lparr>nt_configs := cs\<rparr>\<rparr>)
     else (Inr (), w\<lparr>nw_tables := (nw_tables w)\<lparr>nt_configs := cs\<rparr>\<rparr>))"

definition sync_status :: "string \<Rightarrow> int option \<Rightarrow> string option \<Rightarrow> time option \<Rightarrow> native_config \<Rightarrow> native_config" where
  "sync_status state revision message synced x = x\<lparr>nc_syncState := state, nc_syncRevision := revision, nc_syncMessage := message, nc_syncedAt := synced\<rparr>"

definition assertConfig :: "string \<Rightarrow> int \<Rightarrow> ('k, unit) nprog" where
  "assertConfig c revision = p_bind (read_config c) (\<lambda>x.
     if nc_revision x \<noteq> revision then p_err ''Native configuration changed'' else p_ok ())"

definition assertCurrent :: "string \<Rightarrow> int \<Rightarrow> string \<Rightarrow> int \<Rightarrow> ('k, unit) nprog" where
  "assertCurrent c revision userId authzVersion = p_bind (assertConfig c revision) (\<lambda>_.
     p_bind (p_get (\<lambda>t. find_user (nt_identity t) userId)) (\<lambda>u. case u of
         None \<Rightarrow> p_err ''Native authorization changed''
       | Some row \<Rightarrow> (if us_isActive row \<and> us_authzVersion row = authzVersion then p_ok () else p_err ''Native authorization changed'')))"

text \<open>Active users with a grant of the cluster, their own or of a group they are in.\<close>

definition candidate_user :: "string \<Rightarrow> identity_db \<Rightarrow> user_row \<Rightarrow> bool" where
  "candidate_user c db u \<longleftrightarrow> us_isActive u
     \<and> (list_ex (\<lambda>g. gr_userId (gx_grant g) = Some (us_id u) \<and> gr_clusterId (gx_grant g) = c) (id_grants db)
       \<or> list_ex (\<lambda>m. im_userId m = us_id u \<and> im_state m = ''active''
           \<and> list_ex (\<lambda>g. gr_groupId (gx_grant g) = Some (im_groupId m) \<and> gr_clusterId (gx_grant g) = c) (id_grants db)) (id_members db))"

definition native_users :: "string \<Rightarrow> native_tables \<Rightarrow> user_row list" where
  "native_users c t = take 5001 (js_sort (\<lambda>a b. code_unit_cmp (us_id a) (us_id b)) (filter (candidate_user c (nt_identity t)) (users (nt_identity t))))"

definition kubeconfig_grants :: "string \<Rightarrow> string \<Rightarrow> time \<Rightarrow> native_tables \<Rightarrow> grant list" where
  "kubeconfig_grants c userId now t = filter (\<lambda>g. ''kubeconfig'' \<in> set (gr_capabilities g))
     (listEffectiveGrants (access_of (nt_identity t)) userId now (Some c))"

text \<open>\<open>new Map(scopes by name).values()\<close>: the position of the first scope of a name, the UID of the last.\<close>

definition scope_list :: "grant list \<Rightarrow> (string \<times> string) list" where
  "scope_list gs = (let scopes = concat (map gr_scopes gs) in
     map (\<lambda>name. (name, fst (last (filter (\<lambda>sc. snd sc = name) scopes)))) (js_unique (map snd scopes)))"

definition resolve_scopes :: "'k rbac_api \<Rightarrow> string \<Rightarrow> (string \<times> string) list \<Rightarrow> ('k, (string \<times> string) list) nprog" where
  "resolve_scopes api c scopes = p_map (\<lambda>(name, expected). p_bind (out (nb_resolve api c name)) (\<lambda>uid.
     if uid \<noteq> expected then p_err ''Native namespace identity changed'' else p_ok (name, uid))) (filter (\<lambda>(name, _). name \<noteq> []) scopes)"

definition reconcile_user :: "native_env \<Rightarrow> 'k rbac_api \<Rightarrow> string \<Rightarrow> int \<Rightarrow> time \<Rightarrow> user_row \<Rightarrow> ('k, rbac_plan list) nprog" where
  "reconcile_user env api c revision now u = p_bind (p_get (kubeconfig_grants c (us_id u) now)) (\<lambda>grants.
     p_bind (resolve_scopes api c (scope_list grants)) (\<lambda>namespaces.
     p_bind (p_res (planNativeRbac env (us_id u) c now grants namespaces)) (\<lambda>plans.
     p_bind (p_each (\<lambda>plan. reconcileNativeRbacPair api plan False (assertCurrent c revision (us_id u) (us_authzVersion u))) plans) (\<lambda>_.
       p_ok plans))))"

definition revoke_stale :: "'k rbac_api \<Rightarrow> string \<Rightarrow> int \<Rightarrow> string list \<Rightarrow> string \<Rightarrow> string option \<times> rbac_meta \<Rightarrow> ('k, unit) nprog" where
  "revoke_stale api c revision desired namespace found = (case fst found of None \<Rightarrow> p_ok ()
     | Some name \<Rightarrow> (if name = [] \<or> rm_clusterId (snd found) \<noteq> Some c \<or> name \<in> set desired then p_ok ()
         else revokeOwnedNativeRbacPair api ((snd found)\<lparr>rm_name := name, rm_namespace := namespace\<rparr>) (assertConfig c revision)))"

definition revoke_namespace :: "'k rbac_api \<Rightarrow> string \<Rightarrow> int \<Rightarrow> string list \<Rightarrow> string option \<Rightarrow> ('k, unit) nprog" where
  "revoke_namespace api c revision desired namespace = (case namespace of None \<Rightarrow> p_ok ()
     | Some n \<Rightarrow> (if n = [] then p_ok ()
         else p_bind (out (nb_bindings api n)) (\<lambda>bindings. p_each (revoke_stale api c revision desired n) bindings)))"

definition require_tls :: "(string \<Rightarrow> url option) \<Rightarrow> kube_cluster option \<Rightarrow> ('k, unit) nprog" where
  "require_tls parse cluster = (case cluster of None \<Rightarrow> p_err ''Native access requires verified TLS''
     | Some k \<Rightarrow> (if kc_skipTLSVerify k then p_err ''Native access requires verified TLS''
         else p_bind (p_res (validatedEndpoint parse (kc_server k))) (\<lambda>u.
           if ur_protocol u \<noteq> ''https:'' then p_err ''Native access requires verified TLS'' else p_ok ())))"

definition reconcile_body :: "native_env \<Rightarrow> identity_env \<Rightarrow> 'k rbac_api \<Rightarrow> string \<Rightarrow> int \<Rightarrow> ('k, nat) nprog" where
  "reconcile_body env ienv api c revision = p_bind (out (nb_cluster api c)) (\<lambda>cluster. p_bind (require_tls (ie_url ienv) cluster) (\<lambda>_.
     p_bind (p_get (native_users c)) (\<lambda>us.
       if 5000 < length us then p_err ''Native reconciliation user limit exceeded''
       else p_bind (p_get (\<lambda>t. id_now (nt_identity t))) (\<lambda>now.
         p_bind (p_map (reconcile_user env api c revision now) us) (\<lambda>plans.
           let desired = map (\<lambda>p. rm_name (rp_meta p)) (concat plans) in
           p_bind (out (nb_namespaces api)) (\<lambda>namespaces. p_bind (p_each (revoke_namespace api c revision desired) namespaces) (\<lambda>_.
           p_bind (p_get (\<lambda>t. id_now (nt_identity t))) (\<lambda>finished.
           p_bind (writeStatus c revision (sync_status ''ready'' (Some revision) None (Some finished))) (\<lambda>_.
             p_ok (length (js_unique desired)))))))))))"

definition reconcile_admin :: "admin_actor option \<Rightarrow> string \<Rightarrow> ('k, unit) nprog" where
  "reconcile_admin actor c = p_bind (p_res (assertAdministrationPermission (Option.bind actor ad_role))) (\<lambda>_.
     if actor_key actor = [] \<or> \<not> nonblank c then p_err ''Administrator identity required''
     else p_bind (p_get (\<lambda>t. stored_admin t (actor_key actor))) (\<lambda>r. p_res r))"

definition reconcile :: "native_env \<Rightarrow> identity_env \<Rightarrow> 'k rbac_api \<Rightarrow> admin_actor option \<Rightarrow> string \<Rightarrow> ('k, nat) nprog" where
  "reconcile env ienv api actor c = p_bind (reconcile_admin actor c) (\<lambda>_. p_bind (read_config c) (\<lambda>config.
     let revision = nc_revision config in
     p_bind (writeStatus c revision (sync_status ''syncing'' None None None)) (\<lambda>_.
       p_catch (reconcile_body env ienv api c revision) (\<lambda>e.
         p_bind (p_get (\<lambda>t. id_now (nt_identity t))) (\<lambda>now.
         p_bind (writeStatus c revision (sync_status ''error'' None (Some ''Native RBAC reconciliation failed'') (Some now))) (\<lambda>_. p_err e))))))"

end
