(* ===== verification/Kn_NativeSyncProps.thy ===== *)
theory Kn_NativeSyncProps
  imports Kn_NativeSync
begin

text \<open>
  What a reconciliation does to a cluster, read off the log of its calls: it changes only objects that
  it has read and found to be its own, under the version it read, and it binds a user only to a role
  whose rules are in place.
\<close>

section \<open>Justified calls\<close>

definition ours :: "string \<Rightarrow> string \<Rightarrow> string \<Rightarrow> rbac_object \<Rightarrow> bool" where
  "ours c ns name x \<longleftrightarrow> rm_name (kb_meta x) = name \<and> rm_namespace (kb_meta x) = ns \<and> starts_with ''kn-native-'' name
     \<and> rm_managedBy (kb_meta x) = Some ''kubenova'' \<and> rm_clusterId (kb_meta x) = Some c"

definition plan_ours :: "string \<Rightarrow> string \<Rightarrow> rbac_plan \<Rightarrow> bool" where
  "plan_ours c ns plan \<longleftrightarrow> rm_namespace (rp_meta plan) = ns \<and> starts_with ''kn-native-'' (rm_name (rp_meta plan))
     \<and> rm_managedBy (rp_meta plan) = Some ''kubenova'' \<and> rm_clusterId (rp_meta plan) = Some c"

definition role_in_place :: "native_event set \<Rightarrow> string \<Rightarrow> rbac_plan \<Rightarrow> bool" where
  "role_in_place X ns plan \<longleftrightarrow> CreatedRole ns plan \<in> X \<or> (\<exists>v. Replaced ns (rm_name (rp_meta plan)) (rp_rules plan) v \<in> X)
     \<or> (\<exists>x. Saw Role ns (rm_name (rp_meta plan)) (Some x) \<in> X \<and> kb_rules x = rp_rules plan)"

fun justified :: "string \<Rightarrow> native_event set \<Rightarrow> native_event \<Rightarrow> bool" where
  "justified c X (Saw kind ns name x) \<longleftrightarrow> True"
| "justified c X (Deleted kind ns name uid v) \<longleftrightarrow> (\<exists>x. Saw kind ns name (Some x) \<in> X \<and> ours c ns name x
     \<and> kb_uid x = Some uid \<and> kb_resourceVersion x = Some v)"
| "justified c X (Replaced ns name rules v) \<longleftrightarrow> (\<exists>x. Saw Role ns name (Some x) \<in> X \<and> ours c ns name x \<and> kb_resourceVersion x = Some v)"
| "justified c X (CreatedRole ns plan) \<longleftrightarrow> plan_ours c ns plan \<and> Saw Role ns (rm_name (rp_meta plan)) None \<in> X"
| "justified c X (CreatedBinding ns plan) \<longleftrightarrow> plan_ours c ns plan \<and> role_in_place X ns plan"

definition log_ok :: "string \<Rightarrow> native_event list \<Rightarrow> bool" where
  "log_ok c l \<longleftrightarrow> (\<forall>k < length l. justified c (set (take k l)) (l ! k))"

lemma justified_mono: "justified c X e \<Longrightarrow> X \<subseteq> Y \<Longrightarrow> justified c Y e"
  by (induction c X e rule: justified.induct) (auto simp: role_in_place_def)

lemma log_ok_Nil [simp]: "log_ok c []"
  by (simp add: log_ok_def)

lemma log_ok_snoc: "log_ok c (l @ [e]) \<longleftrightarrow> log_ok c l \<and> justified c (set l) e"
  by (auto simp: log_ok_def nth_append less_Suc_eq)

text \<open>\<open>known c X\<close>: the log so far is justified and has the events \<open>X\<close>.\<close>

definition known :: "string \<Rightarrow> native_event set \<Rightarrow> 'k native_world \<Rightarrow> bool" where
  "known c X w \<longleftrightarrow> log_ok c (nw_log w) \<and> X \<subseteq> set (nw_log w)"

lemma known_mono: "known c Y w \<Longrightarrow> X \<subseteq> Y \<Longrightarrow> known c X w"
  by (auto simp: known_def)

section \<open>Rules\<close>

lemma bind_assoc: "p_bind (p_bind m f) g = p_bind m (\<lambda>x. p_bind (f x) g)"
  by (auto simp: fun_eq_iff p_bind_def split: prod.splits sum.splits)

lemma bind_values [simp]: "p_bind (p_ok a) f = f a" "p_bind (p_err e) f = p_err e"
  by (auto simp: fun_eq_iff p_bind_def p_ok_def p_err_def)

lemma known_out [keep_rules]: "keeps (known c X) (out m)"
  by (rule keepsI) (auto simp: out_def known_def split: prod.splits)

lemma known_small [keep_rules]: "keeps (known c X) (p_get f)" "keeps (known c X) (p_res r)" "keeps (known c X) (writeStatus k v g)"
  by (rule keepsI, auto simp: p_get_def p_res_def writeStatus_def known_def Let_def split: sum.splits prod.splits if_splits)+

lemma known_event: "known c X w \<Longrightarrow> justified c X e \<Longrightarrow> known c (insert e X) (w\<lparr>nw_log := nw_log w @ [e]\<rparr>)"
  by (auto simp: known_def log_ok_snoc intro: justified_mono)

lemma known_weaken: "keeps (known c Y) m \<Longrightarrow> known c Y w \<Longrightarrow> m w = (r, w') \<Longrightarrow> X \<subseteq> Y \<Longrightarrow> known c X w'"
  using keepsD known_mono by metis

lemma known_see:
  assumes "\<And>x. keeps (known c (insert (Saw kind ns name x) X)) (f x)"
  shows "keeps (known c X) (p_bind (see api kind ns name) f)"
proof (rule keepsI)
  fix w r w' assume i: "known c X w" and run: "p_bind (see api kind ns name) f w = (r, w')"
  obtain q v where o: "out (nb_read api kind ns name) w = (q, v)" by fastforce
  have v: "known c X v" using keepsD [OF known_out i o] .
  show "known c X w'"
  proof (cases q)
    case (Inl e)
    then show ?thesis using run v o by (simp add: see_def bind_assoc p_bind_run)
  next
    case (Inr x)
    let ?v = "v\<lparr>nw_log := nw_log v @ [Saw kind ns name x]\<rparr>"
    have "f x ?v = (r, w')" using run o Inr by (simp add: see_def bind_assoc p_bind_run log_event_def)
    moreover have "known c (insert (Saw kind ns name x) X) ?v" by (rule known_event [OF v]) simp
    ultimately show ?thesis using assms known_weaken by (metis subset_insertI)
  qed
qed

lemma known_send:
  assumes "justified c X e"
  shows "keeps (known c X) (send e m)"
proof (rule keepsI)
  fix w r w' assume i: "known c X w" and run: "send e m w = (r, w')"
  let ?v = "w\<lparr>nw_log := nw_log w @ [e]\<rparr>"
  have "out m ?v = (r, w')" using run by (simp add: send_def p_bind_run log_event_def)
  then show "known c X w'" using known_weaken [OF known_out known_event [OF i assms]] by blast
qed

lemma known_send_bind:
  assumes "justified c X e" and "\<And>a. keeps (known c (insert e X)) (f a)"
  shows "keeps (known c X) (p_bind (send e m) f)"
proof (rule keepsI)
  fix w r w' assume i: "known c X w" and run: "p_bind (send e m) f w = (r, w')"
  let ?v = "w\<lparr>nw_log := nw_log w @ [e]\<rparr>"
  have "keeps (known c (insert e X)) (p_bind (out m) f)" by (intro keep_rules assms(2))
  moreover have "p_bind (out m) f ?v = (r, w')" using run by (simp add: send_def bind_assoc p_bind_run log_event_def)
  ultimately show "known c X w'" using known_weaken known_event [OF i assms(1)] by (metis subset_insertI)
qed

lemma known_own: "(pred_option (owned m) x \<Longrightarrow> keeps (known c X) (f ())) \<Longrightarrow> keeps (known c X) (p_bind (own_check m x) f)"
  by (auto simp: own_check_def intro: keep_rules split: option.splits)

lemma owned_ours: "owned m x \<Longrightarrow> target_valid m \<Longrightarrow> rm_clusterId m = Some c \<Longrightarrow> ours c (rm_namespace m) (rm_name m) x"
  by (auto simp: owned_def target_valid_def ours_def)

lemma owned_text: "owned m x \<Longrightarrow> kb_uid x = Some (text_or (kb_uid x)) \<and> kb_resourceVersion x = Some (text_or (kb_resourceVersion x))"
  by (auto simp: owned_def full_def text_or_def split: option.splits)

lemma known_delete:
  assumes "Saw kind (rm_namespace m) (rm_name m) x \<in> X" and "pred_option (owned m) x" and "target_valid m" and "rm_clusterId m = Some c"
  shows "keeps (known c X) (delete_object api kind m x)"
proof (cases x)
  case (Some y)
  then have "owned m y" using assms(2) by simp
  then show ?thesis using assms(1,3,4) Some owned_ours owned_text
    by (fastforce simp: delete_object_def intro!: known_send)
qed (simp add: delete_object_def keep_rules)

section \<open>Pairs\<close>

lemma known_namespace [keep_rules]: "keeps (known c X) (checkNamespace api m)"
  unfolding checkNamespace_def by (intro keep_rules)

lemma known_revoke:
  assumes "\<And>X. keeps (known c X) current" and "rm_clusterId m = Some c"
  shows "keeps (known c X) (revokeOwnedNativeRbacPair api m current)"
  unfolding revokeOwnedNativeRbacPair_def
proof (rule keeps_if)
  assume "\<not> \<not> target_valid m"
  then have v: "target_valid m" by simp
  show "keeps (known c X) (p_bind current (\<lambda>_. p_bind (checkNamespace api m) (\<lambda>_.
        p_bind (see api Binding (rm_namespace m) (rm_name m)) (\<lambda>binding. p_bind (own_check m binding) (\<lambda>_.
        p_bind (delete_object api Binding m binding) (\<lambda>_.
        p_bind (see api Role (rm_namespace m) (rm_name m)) (\<lambda>role. p_bind (own_check m role) (\<lambda>_.
          delete_object api Role m role))))))))"
    by (intro keeps_bind [OF assms(1)] keeps_bind [OF known_namespace] known_see known_own keeps_bind [OF known_delete] known_delete v assms(2)) auto
qed (rule keep_rules)

lemma known_pair:
  assumes cur: "\<And>X. keeps (known c X) current" and c: "rm_clusterId (rp_meta plan) = Some c" and k: "rm_managedBy (rp_meta plan) = Some ''kubenova''"
  shows "keeps (known c X) (reconcileNativeRbacPair api plan revoke current)"
proof -
  let ?m = "rp_meta plan"
  have last: "keeps (known c Y) (p_bind current (\<lambda>_. p_bind (checkNamespace api ?m) (\<lambda>_.
      send (CreatedBinding (rm_namespace ?m) plan) (nb_createBinding api (rm_namespace ?m) plan))))"
    if "role_in_place Y (rm_namespace ?m) plan" "target_valid ?m" for Y
    by (intro keeps_bind [OF cur] keeps_bind [OF known_namespace] known_send) (use that c k in \<open>simp add: plan_ours_def target_valid_def\<close>)
  have put: "keeps (known c Y) (p_bind (put_role api plan role) (\<lambda>_. p_bind current (\<lambda>_. p_bind (checkNamespace api ?m) (\<lambda>_.
      send (CreatedBinding (rm_namespace ?m) plan) (nb_createBinding api (rm_namespace ?m) plan)))))"
    if y: "Saw Role (rm_namespace ?m) (rm_name ?m) role \<in> Y" "pred_option (owned ?m) role" and v: "target_valid ?m" for Y role
  proof (cases "role_matches plan role")
    case True
    then show ?thesis using y v by (auto simp: put_role_def role_matches_def role_in_place_def split: option.splits intro!: last)
  next
    case False
    show ?thesis
    proof (cases role)
      case None
      then show ?thesis using False y v c k
        by (auto simp: put_role_def Let_def plan_ours_def target_valid_def role_in_place_def intro!: known_send_bind last)
    next
      case (Some x)
      then have o: "owned ?m x" using y(2) by simp
      then show ?thesis using False y(1) v Some owned_ours [OF o v c] owned_text [OF o]
        by (auto simp: put_role_def Let_def role_in_place_def intro!: known_send_bind last)
    qed
  qed
  have finish: "keeps (known c Y) (if \<not> revoke \<and> role_matches plan role \<and> binding_matches plan binding then p_ok ()
      else p_bind (delete_object api Binding ?m binding) (\<lambda>_. if revoke then delete_object api Role ?m role
        else p_bind (put_role api plan role) (\<lambda>_. p_bind current (\<lambda>_. p_bind (checkNamespace api ?m) (\<lambda>_.
          send (CreatedBinding (rm_namespace ?m) plan) (nb_createBinding api (rm_namespace ?m) plan))))))"
    if "Saw Role (rm_namespace ?m) (rm_name ?m) role \<in> Y" "Saw Binding (rm_namespace ?m) (rm_name ?m) binding \<in> Y"
      "pred_option (owned ?m) role" "pred_option (owned ?m) binding" "target_valid ?m" for Y role binding
    by (intro keeps_if keeps_bind [OF known_delete [OF that(2,4,5) c]] known_delete [OF that(1,3,5) c] put that(1,3,5)) (rule keep_rules)
  show ?thesis
  proof (cases "target_valid ?m")
    case True
    then show ?thesis unfolding reconcileNativeRbacPair_def inspectNativeRbac_def Let_def
      by (simp add: bind_assoc del: if_not_P)
        (intro keeps_bind [OF cur] keeps_bind [OF known_namespace] known_see known_own finish, simp_all)
  next
    case False
    then show ?thesis unfolding reconcileNativeRbacPair_def inspectNativeRbac_def Let_def
      by (simp, intro keeps_bind [OF cur] keep_rules)
  qed
qed


section \<open>A whole reconciliation\<close>

lemma keeps_res: "(\<And>a. r = Inr a \<Longrightarrow> keeps I (f a)) \<Longrightarrow> keeps I (p_bind (p_res r) f)"
  by (cases r) (simp_all add: p_res_def keep_rules)

lemma native_keeps_map_mem: "(\<And>x. x \<in> set xs \<Longrightarrow> keeps I (f x)) \<Longrightarrow> keeps I (p_map f xs)"
  by (induction xs) (auto intro!: keep_rules)

lemma keeps_each_mem: "(\<And>x. x \<in> set xs \<Longrightarrow> keeps I (f x)) \<Longrightarrow> keeps I (p_each f xs)"
  by (auto simp: p_each_def intro!: keep_rules native_keeps_map_mem)

lemma plan_meta:
  "plan_namespaces env u c subj now gs seen ns = Inr plans \<Longrightarrow> p \<in> set plans \<Longrightarrow> rm_clusterId (rp_meta p) = Some c \<and> rm_managedBy (rp_meta p) = Some ''kubenova''"
  by (induction ns arbitrary: seen plans) (auto simp: rbind_Inr_iff plan_one_def Let_def split: if_splits)

lemma known_current [keep_rules]: "keeps (known c X) (assertConfig d v)" "keeps (known c X) (assertCurrent d v u a)"
  by (auto simp: assertCurrent_def assertConfig_def read_config_def intro!: keep_rules split: option.splits)

lemma known_user: "keeps (known c X) (reconcile_user env api c v now u)"
  unfolding reconcile_user_def resolve_scopes_def
  by (intro keeps_bind keeps_res keeps_each_mem keeps_map known_pair keep_rules)
    (auto simp: planNativeRbac_def nativeRbacSubject_def rbind_Inr_iff intro!: keep_rules split: prod.splits if_splits dest: plan_meta)

lemma known_stale: "keeps (known c X) (revoke_namespace api c v desired n)"
  unfolding revoke_namespace_def
  by (auto simp: revoke_stale_def intro!: keep_rules known_revoke split: option.splits)

lemma known_tls [keep_rules]: "keeps (known c X) (require_tls f k)"
  by (auto simp: require_tls_def intro!: keep_rules split: option.splits)

lemma known_reconcile: "keeps (known c X) (reconcile env ienv api actor c)"
proof -
  have body: "keeps (known c X) (reconcile_body env ienv api c v)" for v
    unfolding reconcile_body_def Let_def by (intro keep_rules known_user known_stale)
  show ?thesis unfolding reconcile_def reconcile_admin_def read_config_def Let_def
    by (auto intro!: keep_rules body split: option.splits)
qed

text \<open>
  C27. Whatever the Kubernetes API answers and however tables and cluster change in between, each
  change a reconciliation sends is justified: it deletes or replaces only an object it has read
  before, found under the expected name and namespace with the labels and annotations of this
  cluster, and with the UID and resource version it read; and it creates only objects labelled for
  this cluster.
\<close>

theorem native_reconcile_owned:
  assumes "nw_log w = []" and "reconcile env ienv api actor c w = (r, w')" and "k < length (nw_log w')"
  shows "justified c (set (take k (nw_log w'))) (nw_log w' ! k)"
proof -
  have "known c {} w" by (simp add: known_def assms(1))
  then have "known c {} w'" using keepsD [OF known_reconcile _ assms(2)] by blast
  then show ?thesis using assms(3) by (simp add: known_def log_ok_def)
qed

definition ex_native_identity :: identity_db where
  "ex_native_identity = \<lparr>id_auth = \<lparr>ad_users = [\<lparr>us_id = ''a1'', us_email = ''a1'', us_name = None, us_passwordHash = None, us_role = ''admin'',
         us_isActive = True, us_mfaEnabled = False, us_authzVersion = 1\<rparr>,
       \<lparr>us_id = ''u1'', us_email = ''u1'', us_name = None, us_passwordHash = None, us_role = ''user'',
         us_isActive = True, us_mfaEnabled = False, us_authzVersion = 1\<rparr>], ad_creds = [], ad_sessions = [], ad_changes = []\<rparr>,
     id_groups = [], id_members = [],
     id_grants = [\<lparr>gx_grant = \<lparr>gr_id = ''g1'', gr_userId = Some ''u1'', gr_groupId = None, gr_clusterId = ''c1'', gr_role = ''viewer'', gr_state = ''active'',
         gr_validFrom = 0, gr_expiresAt = None, gr_revokedAt = None, gr_scopes = [(''uid1'', ''team'')], gr_capabilities = [''kubeconfig'']\<rparr>,
         gx_version = 1, gx_createdBy = ''a1'', gx_updatedBy = ''a1''\<rparr>],
     id_clusters = [\<lparr>rc_id = ''c1'', rc_deletedAt = None, rc_status = ''ready''\<rparr>], id_bindings = [], id_external = [],
     id_changes = [], id_audits = [], id_now = 100\<rparr>"

definition ex_native_world :: "unit native_world" where
  "ex_native_world = \<lparr>nw_tables = \<lparr>nt_configs = [\<lparr>nc_clusterId = ''c1'', nc_enabled = True, nc_issuer = [], nc_audience = [], nc_jwksUri = [],
       nc_gatewayUrl = [], nc_revision = 1, nc_syncState = ''pending'', nc_syncRevision = None, nc_syncMessage = None, nc_syncedAt = None, nc_updatedBy = ''a1''\<rparr>],
       nt_identity = ex_native_identity\<rparr>, nw_kube = (), nw_log = []\<rparr>"

text \<open>A cluster with one namespace and no roles.\<close>

definition ex_rbac_api :: "unit rbac_api" where
  "ex_rbac_api = \<lparr>nb_cluster = (\<lambda>c. p_ok (Some \<lparr>kc_server = ''https'', kc_skipTLSVerify = False\<rparr>)), nb_namespaceUid = (\<lambda>n. p_ok (Some ''uid1'')),
     nb_resolve = (\<lambda>c n. p_ok ''uid1''), nb_read = (\<lambda>k n x. p_ok None), nb_delete = (\<lambda>k n x u v. p_ok ()), nb_replaceRole = (\<lambda>n p v. p_ok ()),
     nb_createRole = (\<lambda>n p. p_ok ()), nb_createBinding = (\<lambda>n p. p_ok ()), nb_namespaces = p_ok [Some ''team''], nb_bindings = (\<lambda>n. p_ok [])\<rparr>"

definition ex_native_urls :: identity_env where
  "ex_native_urls = \<lparr>ie_superadmin = None, ie_newId = (\<lambda>db. []), ie_hash = (\<lambda>db p. p), ie_date = (\<lambda>s. NotANumber),
     ie_url = (\<lambda>s. Some \<lparr>ur_protocol = ''https:'', ur_hostname = ''h'', ur_username = [], ur_password = [], ur_search = [], ur_hash = [], ur_origin = []\<rparr>),
     ie_nt = (\<lambda>n. []), ie_resolve = None, ie_referred = (\<lambda>db i. False)\<rparr>"

definition ex_reconciled :: "unit native_world" where
  "ex_reconciled = snd (reconcile \<lparr>ne_watch = (\<lambda>t. []), ne_digest = concat\<rparr> ex_native_urls ex_rbac_api
     (Some \<lparr>ad_id = Some ''a1'', ad_username = None, ad_role = Some ''admin''\<rparr>) ''c1'' ex_native_world)"

lemma ex_reconciled_length: "length (nw_log ex_reconciled) = 4"
  by code_simp

theorem native_reconcile_owned_witness:
  "justified ''c1'' (set (take 3 (nw_log ex_reconciled))) (nw_log ex_reconciled ! 3)"
proof (rule native_reconcile_owned)
  show "nw_log ex_native_world = []" by (simp add: ex_native_world_def)
  show "reconcile \<lparr>ne_watch = (\<lambda>t. []), ne_digest = concat\<rparr> ex_native_urls ex_rbac_api
      (Some \<lparr>ad_id = Some ''a1'', ad_username = None, ad_role = Some ''admin''\<rparr>) ''c1'' ex_native_world =
    (fst (reconcile \<lparr>ne_watch = (\<lambda>t. []), ne_digest = concat\<rparr> ex_native_urls ex_rbac_api
      (Some \<lparr>ad_id = Some ''a1'', ad_username = None, ad_role = Some ''admin''\<rparr>) ''c1'' ex_native_world), ex_reconciled)"
    by (simp add: ex_reconciled_def)
  show "3 < length (nw_log ex_reconciled)" by (simp add: ex_reconciled_length)
qed

end
