(* ===== verification/Spec2Isabelle.thy ===== *)
theory Spec2Isabelle
  imports Kn_QueueProps Kn_WatchProps Kn_Scale Kn_CapacityProps Kn_TokenProps Kn_AccessProps Kn_AuthProps Kn_TopoProps Kn_TopoSafety Kn_UpdateProps Kn_RuntimeProps Kn_AiProps Kn_YamlProps
    Kn_IdentityProps Kn_NativeProps Kn_NativeSyncProps
begin

text \<open>
  KubeNova is a console for Kubernetes clusters: a NestJS control API (src/backend/control-api), a
  WebSocket gateway for terminals and logs (src/backend/runtime-gateway) and a Next.js frontend
  (src/frontend). This development models the parts of the TypeScript code in which a mistake costs
  most: who may do what (authentication, grants, runtime sessions, native cluster access, AI
  actions), what is changed in a cluster and when (the update of the platform itself, YAML, watches),
  and the pure algorithms of the topology views.

  \<^bold>\<open>How the parts interact.\<close> A request is authenticated against the session tables (Kn_Auth over
  Kn_AuthDb and the Redis stores of Kn_Tokens). Its user then passes the grant decision (Kn_Access),
  which terminals and log streams (Kn_RuntimeService), the topology (Kn_TopoScope), native access
  (Kn_Native) and the AI assistant (Kn_AiApproval) all ask. An administrator changes users, groups
  and grants (Kn_Identity); every change of what a user may do raises the authorization version of
  that user, and open leases (Kn_RuntimeLease) and sessions (Kn_Auth) compare it. The update worker
  (Kn_UpdateWorker) takes a task from the queue (Kn_Queue), rehearses the migration (Kn_Rehearsal)
  and patches the Deployments (Kn_Rollout). An approved AI action (Kn_AiApproval) is executed
  (Kn_AiRun), and applies manifests through Kn_Yaml.

  \<^bold>\<open>Shared theories.\<close> Kn_Prelude: errors as values, the JavaScript string, number and array
  operations, tables and their conditional updates, the collections of rules, reachability, and the
  locales \<open>invariant_system\<close> (an inductive invariant of a step relation) and \<open>comparator\<close>. Kn_Json:
  JSON values and \<open>canonicalValue\<close>, with the locale \<open>key_order\<close>. Kn_Prog: programs that call
  services outside the model (a state, an error or a value), their loops, the rules \<open>keeps\<close> and
  \<open>hoare\<close>, and traces. Kn_Api: thrown API errors and the coercion of values to text.

  \<^bold>\<open>Theories and sources\<close> (paths below src/backend/control-api/src unless they say otherwise).

  \<^item> Update queue: Kn_Tasks (payloads, signatures) and Kn_Queue (every method) of
    system-update/kubernetes-update-tasks.service.ts; Kn_QueueSafety has the interleaved statements of
    any number of workers and \<open>queue\<close>, an interpretation of \<open>invariant_system\<close>; Kn_QueueExamples and
    Kn_QueueProps. Shown: one active task, one holder of a lease, only verified payloads are claimed,
    the life cycle of the status, submit and get.
  \<^item> Update: Kn_Rollout (kubernetes-update.adapter.ts), Kn_Rehearsal
    (kubernetes-migration-rehearsal.service.ts), Kn_UpdateWorker (kubernetes-update.worker.ts);
    Kn_RolloutSafety has the trace of an update and the locale \<open>rollout_service\<close>, interpreted on the
    adapter over any API; Kn_UpdateSafety, Kn_UpdateTrace, Kn_RolloutProps, Kn_UpdateProps. Shown: all
    or nothing with rollback, guarded patches, a wait that ends, a backup before the first patch, a
    lease that is given up.
  \<^item> Authentication: Kn_Redis (the commands used, locale \<open>one_time_store\<close>), Kn_Tokens (login limiter
    and the four token stores; all four interpret \<open>one_time_store\<close>), Kn_Totp (auth/mfa-totp.ts),
    Kn_AuthDb (auth/auth.repository.ts, auth/mfa-credential.repository.ts), Kn_Auth
    (auth/auth.service.ts, auth/token.service.ts), Kn_AuthSafety (requests as steps, locale
    \<open>table_relation\<close>), Kn_AuthExamples, Kn_TokenProps, Kn_AuthProps. Shown: refresh tokens and proofs
    are used once, logout and reset are final, the second factor is required, the limiter's window.
  \<^item> Authorization: Kn_Access (common/authorization.service.ts, common/cluster-access.service.ts,
    common/governance.ts) and Kn_AccessProps. Shown: a decision is exactly the existence of a covering
    grant, and can be relied on until the expiry it reports.
  \<^item> Identity administration: Kn_Calls (calls made of database statements that others interleave
    with, and the locale \<open>service\<close>: what every statement of every offered call guarantees holds however
    they interleave), Kn_Identity and Kn_Users (users/users.service.ts), Kn_IdentitySafety (\<open>identities\<close>
    interprets \<open>service\<close>), Kn_AdminSafety (\<open>designated\<close> does so for the designated administrator),
    Kn_IdentityProps. Shown: no change of access without a raised authorization version, and what
    protects the last administrator.
  \<^item> Native access: Kn_Native (auth/native-request.ts, auth/native-authorization.ts,
    auth/native-rbac.ts), Kn_NativeSync (auth/native-rbac-sync.ts,
    auth/native-rbac-reconcile.service.ts, auth/native-settings.service.ts), Kn_NativeProps,
    Kn_NativeSyncProps. Shown: the gateway and the planned roles let the same requests through, and a
    reconciliation changes only objects of its own under the version it read.
  \<^item> Runtime sessions: Kn_Runtime (runtime/runtime.repository.ts, runtime-session.service.ts,
    common/namespace-identity.service.ts), Kn_RuntimeService (runtime/runtime.service.ts,
    runtime.controller.ts), Kn_RuntimeLease (common/authorization-invalidation.ts,
    runtime-authorization-lease.ts, runtime-invalidation.service.ts), Kn_RuntimeGateway
    (runtime.gateway.ts), Kn_RuntimeSafety, Kn_RuntimeRevoke, Kn_RuntimeExamples, Kn_RuntimeProps.
    Shown: what a valid token and a live lease prove, and that resets close streams.
  \<^item> AI actions: Kn_AiAction, Kn_AiExec, Kn_AiRun (ai-assistant/ai-action-registry.ts,
    ai-action-executor.service.ts), Kn_AiApproval (ai-action-approval.service.ts,
    ai-assistant-access.service.ts, the handlers of ai-assistant.controller.ts), Kn_StableJson,
    Kn_AiSafety, Kn_AiSystem (interleaved calls; \<open>approvals\<close> interprets \<open>invariant_system\<close>), Kn_AiScope,
    Kn_AiExamples, Kn_AiProps. Shown: an approval is used once and for its action, nothing changes
    without one, and changes stay in the authorized scope.
  \<^item> YAML: Kn_Yaml (the parts of resources/resources.service.ts behind \<open>applyYaml\<close>) and Kn_YamlProps.
  \<^item> Watches: Kn_Watch (clusters/cluster-event-sync.service.ts), Kn_WatchSafety, Kn_WatchProps. Shown:
    no watch is leaked or outlives its generation.
  \<^item> Topology: Kn_Topo, Kn_TopoRelations, Kn_TopoGraph, Kn_TopoScope, Kn_TopoService (topology-graph),
    Kn_TopoSafety, Kn_TopoExamples, Kn_TopoProps. Shown: the resolved relations are those the rules
    ask for, and no answer, cached or not, leaves the scopes of its reader.
  \<^item> Frontend: Kn_Scale (src/frontend/src/lib/workloads/scale-convergence.ts) and Kn_Capacity
    (src/frontend/src/modules/topology-kubejojo/engine/capacity.ts) with Kn_CapacityProps.

  \<^bold>\<open>Modelling conventions.\<close> A row, message or object is a record, a table a list of rows in the
  order the database returns them, and untyped input a JSON value. A conditional update
  (\<open>updateMany\<close>) reports how many rows it changed. A transaction, and a stretch of code between two
  awaits, is one function of the state; where interleaving matters (queue, watches, leases, approvals,
  user administration) each database statement or resumption is a step of its own and the theorems
  hold for every order of steps. Elsewhere a handler is one step. Texts of errors are kept where code
  tests them and are short English ones where the source has Chinese. The clock is an argument.

  \<^bold>\<open>Bounds and fuel.\<close> \<open>claim_loop\<close> runs the ten attempts of the source. \<open>component_search\<close> has as
  fuel the number of identifiers, each of which it visits once; the neighbourhood search its depth.
  \<open>scale_loop\<close> recurses on the attempts left. The waits of the update recurse on \<open>wait_rounds\<close>, the
  timeout divided by the interval plus two, and \<open>rollout_wait_terminates\<close> shows that this is enough.

  \<^bold>\<open>Parameters.\<close> Code that is not in the repository is an argument of the definitions that use it:
  HMAC, SHA-256, scrypt, JWT signing and encryption; \<open>JSON.stringify\<close> of numbers, \<open>localeCompare\<close>,
  \<open>Date.parse\<close>, URL parsing and the YAML parser; the Kubernetes API, \<open>pg_dump\<close>, S3 and Redis'
  availability; random tokens and new identifiers. What a theorem needs of them (an injective text of
  numbers, an unused identifier) is a named hypothesis with a witness.

  \<^bold>\<open>Not modelled.\<close> The manifest lists every part left out with its reason. In short: the bulk of the
  control API maps Kubernetes objects and Prometheus answers to view models (resources, workloads,
  network, storage, configs, dashboard, monitoring, logs, helm) without state of its own; the frontend
  is React components and styles; the Go gateway is another language; modules, DTOs and controllers
  without a check of their own are wiring; tests and scripts are not part of the program.
\<close>

end
